(* ===== verification/Py_Base.thy ===== *)
theory Py_Base
  imports Complex_Main "HOL-Library.Sublist" "HOL-Library.AList"
begin

text \<open>
  The prelude: the values, strings, dictionaries and exceptions of the Python sources.

  \<^item> \<open>pyval\<close> is a value of the kind \<open>json.loads\<close> returns. A dictionary is an association
    list in insertion order, updated with \<open>AList.update\<close>: an existing key keeps its place, a new
    one goes to the end, as in Python. A float is an exact rational, an infinity or NaN; the
    rounding of IEEE arithmetic is not modelled.
  \<^item> \<open>exn + 'a\<close> is the outcome of code that may raise. The text of an exception the interpreter
    itself raises is abbreviated.
  \<^item> The \<open>str_*\<close> functions are the methods of \<open>str\<close> the sources call. Text is a list of 8-bit
    characters; case, digits and white space are those of ASCII.
\<close>

section \<open>Values and exceptions\<close>

datatype pyval =
    PNone
  | PBool bool
  | PInt int
  | PFloat rat
  | PInf bool
  | PNaN
  | PStr string
  | PList "pyval list"
  | PDict "(string \<times> pyval) list"

type_synonym pydict = "(string \<times> pyval) list"

datatype exn =
    ValueError string
  | TypeError string
  | KeyError string
  | IndexError string
  | AttributeError string
  | RuntimeError string
  | OSError string
  | UnboundLocalError string
  | HTTPException int string
  | OtherError string

definition bindE :: "exn + 'a \<Rightarrow> ('a \<Rightarrow> exn + 'b) \<Rightarrow> exn + 'b" where
  "bindE m f = (case m of Inl e \<Rightarrow> Inl e | Inr x \<Rightarrow> f x)"

lemma bindE_simps [simp]:
  "bindE (Inl e) f = Inl e"
  "bindE (Inr x) f = f x"
  by (simp_all add: bindE_def)

lemma bindE_eq_Inr_iff: "bindE m f = Inr y \<longleftrightarrow> (\<exists>x. m = Inr x \<and> f x = Inr y)"
  by (cases m) simp_all

lemma bindE_eq_Inl_iff: "bindE m f = Inl e \<longleftrightarrow> m = Inl e \<or> (\<exists>x. m = Inr x \<and> f x = Inl e)"
  by (cases m) simp_all

fun mapE :: "('a \<Rightarrow> exn + 'b) \<Rightarrow> 'a list \<Rightarrow> exn + 'b list" where
  "mapE f [] = Inr []"
| "mapE f (x # xs) = bindE (f x) (\<lambda>y. bindE (mapE f xs) (\<lambda>ys. Inr (y # ys)))"

lemma mapE_Inr_length: "mapE f xs = Inr ys \<Longrightarrow> length ys = length xs"
  by (induction xs arbitrary: ys) (auto simp: bindE_eq_Inr_iff)

text \<open>Truth testing: what \<open>if x\<close> and \<open>x or y\<close> decide on.\<close>

fun truthy :: "pyval \<Rightarrow> bool" where
  "truthy PNone = False"
| "truthy (PBool b) = b"
| "truthy (PInt i) = (i \<noteq> 0)"
| "truthy (PFloat r) = (r \<noteq> 0)"
| "truthy (PInf _) = True"
| "truthy PNaN = True"
| "truthy (PStr s) = (s \<noteq> [])"
| "truthy (PList xs) = (xs \<noteq> [])"
| "truthy (PDict d) = (d \<noteq> [])"

definition py_or :: "pyval \<Rightarrow> pyval \<Rightarrow> pyval" where
  "py_or a b = (if truthy a then a else b)"

lemma py_or_simps [simp]:
  "truthy a \<Longrightarrow> py_or a b = a"
  "\<not> truthy a \<Longrightarrow> py_or a b = b"
  by (simp_all add: py_or_def)

definition str_or :: "string \<Rightarrow> string \<Rightarrow> string" where
  "str_or a b = (if a \<noteq> [] then a else b)"

definition is_dict :: "pyval \<Rightarrow> bool" where
  "is_dict v = (case v of PDict _ \<Rightarrow> True | _ \<Rightarrow> False)"

lemma is_dict_simps [simp]:
  "is_dict (PDict d)" "\<not> is_dict PNone" "\<not> is_dict (PBool b)" "\<not> is_dict (PInt i)"
  "\<not> is_dict (PFloat r)" "\<not> is_dict (PInf b)" "\<not> is_dict PNaN" "\<not> is_dict (PStr s)"
  "\<not> is_dict (PList xs)"
  by (simp_all add: is_dict_def)

definition opt_val :: "string option \<Rightarrow> pyval" where
  "opt_val x = (case x of None \<Rightarrow> PNone | Some s \<Rightarrow> PStr s)"

section \<open>Dictionaries\<close>

text \<open>\<open>d.get(k)\<close>, \<open>d.get(k, default)\<close>, \<open>d[k]\<close>, \<open>d[k] = v\<close> and \<open>k in d\<close>.\<close>

definition dget :: "pydict \<Rightarrow> string \<Rightarrow> pyval" where
  "dget d k = (case map_of d k of None \<Rightarrow> PNone | Some v \<Rightarrow> v)"

definition dget_def_val :: "pydict \<Rightarrow> string \<Rightarrow> pyval \<Rightarrow> pyval" where
  "dget_def_val d k v0 = (case map_of d k of None \<Rightarrow> v0 | Some v \<Rightarrow> v)"

definition dindex :: "pydict \<Rightarrow> string \<Rightarrow> exn + pyval" where
  "dindex d k = (case map_of d k of None \<Rightarrow> Inl (KeyError k) | Some v \<Rightarrow> Inr v)"

abbreviation dset :: "string \<Rightarrow> 'v \<Rightarrow> (string \<times> 'v) list \<Rightarrow> (string \<times> 'v) list" where
  "dset \<equiv> AList.update"

definition dmem :: "(string \<times> 'v) list \<Rightarrow> string \<Rightarrow> bool" where
  "dmem d k = (map_of d k \<noteq> None)"

lemma dget_dset [simp]: "dget (dset k v d) k' = (if k' = k then v else dget d k')"
  by (simp add: dget_def update_conv)

lemma dindex_dset [simp]: "dindex (dset k v d) k' = (if k' = k then Inr v else dindex d k')"
  by (simp add: dindex_def update_conv)

lemma dmem_dset [simp]: "dmem (dset k v d) k' = (k' = k \<or> dmem d k')"
  by (simp add: dmem_def update_conv)

lemma dget_Nil [simp]: "dget [] k = PNone"
  by (simp add: dget_def)

lemma dget_Cons [simp]: "dget ((k, v) # d) k' = (if k' = k then v else dget d k')"
  by (simp add: dget_def)

lemma dset_not_Nil [simp]: "dset k v d \<noteq> []"
  by (cases d) auto

lemma dindex_Inr_iff: "dindex d k = Inr v \<longleftrightarrow> map_of d k = Some v"
  by (simp add: dindex_def split: option.split)

lemma truthy_dget_dmem: "truthy (dget d k) \<Longrightarrow> dmem d k"
  by (auto simp: dget_def dmem_def split: option.splits)

text \<open>\<open>v.get(k)\<close> on a value that may not be a dictionary.\<close>

definition py_get :: "pyval \<Rightarrow> string \<Rightarrow> exn + pyval" where
  "py_get v k = (case v of PDict d \<Rightarrow> Inr (dget d k) | _ \<Rightarrow> Inl (AttributeError ''get''))"

lemma py_get_PDict [simp]: "py_get (PDict d) k = Inr (dget d k)"
  by (simp add: py_get_def)

section \<open>Strings\<close>

definition is_space :: "char \<Rightarrow> bool" where
  "is_space c = (of_char c \<in> {9, 10, 11, 12, 13, 28, 29, 30, 31, 32 :: nat})"

definition is_digit :: "char \<Rightarrow> bool" where
  "is_digit c = (48 \<le> (of_char c :: nat) \<and> (of_char c :: nat) \<le> 57)"

definition is_upper :: "char \<Rightarrow> bool" where
  "is_upper c = (65 \<le> (of_char c :: nat) \<and> (of_char c :: nat) \<le> 90)"

definition is_lower :: "char \<Rightarrow> bool" where
  "is_lower c = (97 \<le> (of_char c :: nat) \<and> (of_char c :: nat) \<le> 122)"

definition char_lower :: "char \<Rightarrow> char" where
  "char_lower c = (if is_upper c then char_of ((of_char c :: nat) + 32) else c)"

definition char_upper :: "char \<Rightarrow> char" where
  "char_upper c = (if is_lower c then char_of ((of_char c :: nat) - 32) else c)"

definition str_lower :: "string \<Rightarrow> string" where
  "str_lower s = map char_lower s"

definition str_upper :: "string \<Rightarrow> string" where
  "str_upper s = map char_upper s"

definition lstrip_by :: "(char \<Rightarrow> bool) \<Rightarrow> string \<Rightarrow> string" where
  "lstrip_by p s = dropWhile p s"

definition rstrip_by :: "(char \<Rightarrow> bool) \<Rightarrow> string \<Rightarrow> string" where
  "rstrip_by p s = rev (dropWhile p (rev s))"

definition strip_by :: "(char \<Rightarrow> bool) \<Rightarrow> string \<Rightarrow> string" where
  "strip_by p s = rstrip_by p (lstrip_by p s)"

lemma dropWhile_none: "\<forall>c \<in> set s. \<not> p c \<Longrightarrow> dropWhile p s = s"
  by (cases s) auto

lemma strip_by_none: "\<forall>c \<in> set s. \<not> p c \<Longrightarrow> strip_by p s = s"
  by (simp add: strip_by_def lstrip_by_def rstrip_by_def dropWhile_none)

lemma dropWhile_hd: "\<not> p (hd s) \<Longrightarrow> dropWhile p s = s"
  by (cases s) simp_all

lemma strip_by_ends: "s \<noteq> [] \<Longrightarrow> \<not> p (hd s) \<Longrightarrow> \<not> p (last s) \<Longrightarrow> strip_by p s = s"
  by (simp add: strip_by_def lstrip_by_def rstrip_by_def dropWhile_hd hd_rev)

definition str_strip :: "string \<Rightarrow> string" where
  "str_strip s = strip_by is_space s"

definition startswith :: "string \<Rightarrow> string \<Rightarrow> bool" where
  "startswith s p = prefix p s"

definition endswith :: "string \<Rightarrow> string \<Rightarrow> bool" where
  "endswith s p = suffix p s"

text \<open>\<open>s.find(p)\<close>, \<open>p in s\<close>, \<open>s.split(p, 1)\<close>, \<open>s.split(p)\<close>, \<open>s.replace(p, q)\<close>.\<close>

fun find_sub :: "string \<Rightarrow> string \<Rightarrow> nat option" where
  "find_sub p [] = (if p = [] then Some 0 else None)"
| "find_sub p (c # s) = (if prefix p (c # s) then Some 0 else map_option Suc (find_sub p s))"

definition str_in :: "string \<Rightarrow> string \<Rightarrow> bool" where
  "str_in p s = (find_sub p s \<noteq> None)"

definition split1 :: "string \<Rightarrow> string \<Rightarrow> (string \<times> string) option" where
  "split1 p s = map_option (\<lambda>i. (take i s, drop (i + length p) s)) (find_sub p s)"

fun split_fuel :: "nat \<Rightarrow> string \<Rightarrow> string \<Rightarrow> string list" where
  "split_fuel 0 p s = [s]"
| "split_fuel (Suc n) p s =
     (case split1 p s of None \<Rightarrow> [s] | Some (a, b) \<Rightarrow> a # split_fuel n p b)"

definition str_split :: "string \<Rightarrow> string \<Rightarrow> string list" where
  "str_split p s = split_fuel (length s) p s"

fun str_join :: "string \<Rightarrow> string list \<Rightarrow> string" where
  "str_join sep [] = []"
| "str_join sep [x] = x"
| "str_join sep (x # y # ys) = x @ sep @ str_join sep (y # ys)"

definition str_replace :: "string \<Rightarrow> string \<Rightarrow> string \<Rightarrow> string" where
  "str_replace p q s = str_join q (str_split p s)"

lemma split1_char:
  assumes "c \<notin> set u"
  shows "split1 [c] (u @ c # v) = Some (u, v)"
proof -
  have "find_sub [c] (u @ c # v) = Some (length u)"
    using assms by (induction u) auto
  then show ?thesis by (simp add: split1_def)
qed

lemma find_sub_None: "c \<in> set p \<Longrightarrow> c \<notin> set s \<Longrightarrow> find_sub p s = None"
proof (induction s)
  case (Cons a s)
  then have "\<not> prefix p (a # s)" using set_mono_prefix [of p "a # s"] by auto
  with Cons show ?case by simp
qed auto

lemma split1_None: "c \<notin> set s \<Longrightarrow> split1 [c] s = None"
  by (simp add: split1_def find_sub_None [of c])

lemma find_sub_append: "find_sub p (a @ p @ b) \<noteq> None"
proof (induction a)
  case Nil
  have "prefix p (p @ b)" by simp
  then show ?case by (cases "p @ b") (auto simp del: prefix_append prefix_order.refl)
qed auto

lemma str_in_append: "str_in p (a @ p @ b)"
  unfolding str_in_def by (rule find_sub_append)

lemma split_fuel_None: "c \<notin> set s \<Longrightarrow> split_fuel n [c] s = [s]"
  by (cases n) (simp_all add: split1_None)

lemma split_fuel_lines:
  assumes "\<forall>l \<in> set ls. c \<notin> set l" and "c \<notin> set e" and "length ls \<le> n"
  shows "split_fuel n [c] (concat (map (\<lambda>l. l @ [c]) ls) @ e) = ls @ [e]"
  using assms
proof (induction ls arbitrary: n)
  case Nil
  then show ?case by (simp add: split_fuel_None)
next
  case (Cons l ls)
  then obtain m where n: "n = Suc m" by (cases n) auto
  from Cons.prems have "split1 [c] (l @ c # concat (map (\<lambda>l. l @ [c]) ls) @ e) = Some (l, concat (map (\<lambda>l. l @ [c]) ls) @ e)"
    by (intro split1_char) simp
  with Cons n show ?case by simp
qed

lemma length_lines: "length ls \<le> length (concat (map (\<lambda>l. l @ [c]) ls))"
  by (induction ls) auto

lemma str_split_lines:
  assumes "\<forall>l \<in> set ls. c \<notin> set l" and "c \<notin> set e"
  shows "str_split [c] (concat (map (\<lambda>l. l @ [c]) ls) @ e) = ls @ [e]"
  unfolding str_split_def using length_lines [of ls c] by (intro split_fuel_lines assms) simp

lemma str_replace_absent: "c \<in> set p \<Longrightarrow> c \<notin> set s \<Longrightarrow> str_replace p q s = s"
  by (cases "length s") (simp_all add: str_replace_def str_split_def split1_def find_sub_None [of c])

text \<open>\<open>s.split()\<close>: the words between runs of white space.\<close>

fun words_acc :: "string \<Rightarrow> string \<Rightarrow> string list" where
  "words_acc w [] = (if w = [] then [] else [rev w])"
| "words_acc w (c # s) =
     (if is_space c then (if w = [] then words_acc [] s else rev w # words_acc [] s)
      else words_acc (c # w) s)"

definition str_words :: "string \<Rightarrow> string list" where
  "str_words s = words_acc [] s"

text \<open>\<open>s.splitlines()\<close>, for the line ends of ASCII text (a carriage return and a line feed count once).\<close>

definition is_eol :: "char \<Rightarrow> bool" where
  "is_eol c = (of_char c \<in> {10, 11, 12, 13, 28, 29, 30 :: nat})"

fun lines_acc :: "string \<Rightarrow> string \<Rightarrow> string list" where
  "lines_acc w [] = (if w = [] then [] else [rev w])"
| "lines_acc w (c # s) =
     (if is_eol c
      then rev w # (if of_char c = (13 :: nat) then
                      (case s of d # s' \<Rightarrow> if of_char d = (10 :: nat) then lines_acc [] s' else lines_acc [] s
                       | [] \<Rightarrow> [])
                    else lines_acc [] s)
      else lines_acc (c # w) s)"

definition str_splitlines :: "string \<Rightarrow> string list" where
  "str_splitlines s = lines_acc [] s"

text \<open>\<open>needle in v\<close>.\<close>

definition py_in :: "string \<Rightarrow> pyval \<Rightarrow> exn + bool" where
  "py_in needle v =
     (case v of
        PStr t \<Rightarrow> Inr (str_in needle t)
      | PList xs \<Rightarrow> Inr (PStr needle \<in> set xs)
      | PDict d \<Rightarrow> Inr (dmem d needle)
      | _ \<Rightarrow> Inl (TypeError ''argument is not iterable''))"

text \<open>A text between single quotes, as the messages show a name.\<close>

definition quoted :: "string \<Rightarrow> string" where
  "quoted s = CHR 0x27 # s @ [CHR 0x27]"

subsection \<open>Numbers in text\<close>

definition digit_char :: "nat \<Rightarrow> char" where
  "digit_char d = char_of (48 + d)"

definition digit_val :: "char \<Rightarrow> nat" where
  "digit_val c = of_char c - 48"

fun nat_str :: "nat \<Rightarrow> string" where
  "nat_str n = (if n < 10 then [digit_char n] else nat_str (n div 10) @ [digit_char (n mod 10)])"

declare nat_str.simps [simp del]

definition int_str :: "int \<Rightarrow> string" where
  "int_str i = (if i < 0 then CHR ''-'' # nat_str (nat (- i)) else nat_str (nat i))"

definition digits_val :: "string \<Rightarrow> nat" where
  "digits_val s = foldl (\<lambda>a c. 10 * a + digit_val c) 0 s"

text \<open>\<open>f"{n:02d}"\<close> and the like, for a natural number.\<close>

definition pad_nat :: "nat \<Rightarrow> nat \<Rightarrow> string" where
  "pad_nat w n = (let s = nat_str n in replicate (w - length s) (CHR ''0'') @ s)"

text \<open>\<open>int(s)\<close>: surrounding white space, a sign, digits with single underscores between them.\<close>

fun strip_underscores :: "string \<Rightarrow> string option" where
  "strip_underscores [] = None"
| "strip_underscores [c] = (if is_digit c then Some [c] else None)"
| "strip_underscores (c # d # s) =
     (if is_digit c
      then map_option (\<lambda>t. c # t) (strip_underscores (if d = CHR ''_'' then s else d # s))
      else None)"

definition py_int_str :: "string \<Rightarrow> int option" where
  "py_int_str s =
     (case str_strip s of
        [] \<Rightarrow> None
      | c # t \<Rightarrow>
          if c = CHR ''-'' then map_option (\<lambda>d. - int (digits_val d)) (strip_underscores t)
          else if c = CHR ''+'' then map_option (\<lambda>d. int (digits_val d)) (strip_underscores t)
          else map_option (\<lambda>d. int (digits_val d)) (strip_underscores (c # t)))"

lemma digit_char_digit: "d < 10 \<Longrightarrow> is_digit (digit_char d)"
  by (simp add: digit_char_def is_digit_def)

lemma digit_val_digit_char: "d < 10 \<Longrightarrow> digit_val (digit_char d) = d"
  by (simp add: digit_char_def digit_val_def)

lemma nat_str_not_Nil [simp]: "nat_str n \<noteq> []"
  by (subst nat_str.simps) simp

lemma int_str_not_Nil [simp]: "int_str i \<noteq> []"
  by (simp add: int_str_def)

lemma nat_str_digits: "c \<in> set (nat_str n) \<Longrightarrow> is_digit c"
proof (induction n rule: nat_str.induct)
  case (1 n)
  then show ?case
    by (subst (asm) (2) nat_str.simps) (auto split: if_splits intro: digit_char_digit)
qed

lemma digits_val_append: "digits_val (s @ [c]) = 10 * digits_val s + digit_val c"
  by (simp add: digits_val_def)

lemma digits_val_nat_str [simp]: "digits_val (nat_str n) = n"
proof (induction n rule: nat_str.induct)
  case (1 n)
  show ?case
  proof (cases "n < 10")
    case True
    then show ?thesis
      by (subst nat_str.simps) (simp add: digits_val_def digit_val_digit_char)
  next
    case False
    with 1 show ?thesis
      by (subst nat_str.simps) (simp add: digits_val_append digit_val_digit_char)
  qed
qed

text \<open>The same on binary numbers, for evaluation.\<close>

function pos_str :: "int \<Rightarrow> string" where
  "pos_str i = (if i < 10 then [digit_char (nat i)] else pos_str (i div 10) @ [digit_char (nat (i mod 10))])"
  by pat_completeness auto
termination by (relation "measure nat") auto

declare pos_str.simps [simp del]

lemma pos_str_nat: "0 \<le> i \<Longrightarrow> pos_str i = nat_str (nat i)"
proof (induction i rule: pos_str.induct)
  case (1 i)
  then show ?case
    by (subst pos_str.simps, subst nat_str.simps) (auto simp: nat_div_distrib nat_mod_distrib)
qed

lemma int_str_code [code]: "int_str i = (if i < 0 then CHR ''-'' # pos_str (- i) else pos_str i)"
  by (simp add: int_str_def pos_str_nat)

definition digits_int :: "string \<Rightarrow> int" where
  "digits_int s = foldl (\<lambda>a c. 10 * a + int (digit_val c)) 0 s"

lemma digits_int_val: "int (digits_val s) = digits_int s"
proof -
  have "int (foldl (\<lambda>a c. 10 * a + digit_val c) n s) = foldl (\<lambda>a c. 10 * a + int (digit_val c)) (int n) s" for n
    by (induction s arbitrary: n) simp_all
  from this [of 0] show ?thesis by (simp add: digits_val_def digits_int_def)
qed

lemma py_int_str_code [code]:
  "py_int_str s =
     (case str_strip s of
        [] \<Rightarrow> None
      | c # t \<Rightarrow>
          if c = CHR ''-'' then map_option (\<lambda>d. - digits_int d) (strip_underscores t)
          else if c = CHR ''+'' then map_option digits_int (strip_underscores t)
          else map_option digits_int (strip_underscores (c # t)))"
  unfolding py_int_str_def digits_int_val ..

end
