(* ===== verification/Literals.thy ===== *)
theory Literals
  imports Py_Base
begin

text \<open>
  Values as text: what JSON and Python's own literals share. A dialect says how it writes and reads
  a quoted text, how it names the constants and what it puts after a comma or a colon; \<open>text_of\<close> writes a value and \<open>val_of\<close> reads one,
  with fuel, which the length of the text always covers. The locale \<open>literal_dialect\<close> states what a
  dialect promises and holds the round trip \<open>read_text_of\<close>; the two dialects are in the theory Json.
\<close>

definition is_quote :: "char \<Rightarrow> bool" where
  "is_quote c = (c = CHR 0x22 \<or> c = CHR 0x27)"

definition is_alpha :: "char \<Rightarrow> bool" where
  "is_alpha c = (is_upper c \<or> is_lower c)"

record dialect =
  dl_write :: "string \<Rightarrow> string"
  dl_read :: "string \<Rightarrow> (string \<times> string) option"
  dl_const :: "pyval \<Rightarrow> string"
  dl_consts :: "(string \<times> pyval) list"
  dl_gap :: string

section \<open>Writing\<close>

text \<open>The decimal digits of a fraction, and \<open>repr\<close> of a float between 1e-4 and 1e16.\<close>

fun frac_digits :: "nat \<Rightarrow> rat \<Rightarrow> string" where
  "frac_digits 0 x = []"
| "frac_digits (Suc n) x =
     (if x = 0 then []
      else digit_char (nat \<lfloor>10 * x\<rfloor>) # frac_digits n (10 * x - of_int \<lfloor>10 * x\<rfloor>))"

definition float_str :: "rat \<Rightarrow> string" where
  "float_str r =
     (let a = \<bar>r\<bar>; f = frac_digits 17 (a - of_int \<lfloor>a\<rfloor>)
      in (if r < 0 then ''-'' else '''') @ nat_str (nat \<lfloor>a\<rfloor>) @ ''.'' @ (if f = [] then ''0'' else f))"
fun text_of :: "dialect \<Rightarrow> pyval \<Rightarrow> string"
and elems_text :: "dialect \<Rightarrow> pyval list \<Rightarrow> string"
and members_text :: "dialect \<Rightarrow> (string \<times> pyval) list \<Rightarrow> string" where
  "text_of D PNone = dl_const D PNone"
| "text_of D (PBool b) = dl_const D (PBool b)"
| "text_of D (PInt i) = int_str i"
| "text_of D (PFloat r) = float_str r"
| "text_of D (PInf neg) = dl_const D (PInf neg)"
| "text_of D PNaN = dl_const D PNaN"
| "text_of D (PStr s) = dl_write D s"
| "text_of D (PList xs) = ''['' @ elems_text D xs @ '']''"
| "text_of D (PDict d) = ''{'' @ members_text D d @ ''}''"
| "elems_text D [] = []"
| "elems_text D [x] = text_of D x"
| "elems_text D (x # y # ys) = text_of D x @ CHR '','' # dl_gap D @ elems_text D (y # ys)"
| "members_text D [] = []"
| "members_text D [(k, v)] = dl_write D k @ CHR '':'' # dl_gap D @ text_of D v"
| "members_text D ((k, v) # p # ps) = dl_write D k @ CHR '':'' # dl_gap D @ text_of D v @ CHR '','' # dl_gap D @ members_text D (p # ps)"

section \<open>Reading\<close>

definition skip_ws :: "string \<Rightarrow> string" where
  "skip_ws s = dropWhile (\<lambda>c. of_char c \<in> {9, 10, 13, 32 :: nat}) s"

definition jint_part :: "string \<Rightarrow> string" where
  "jint_part t = (case t of c # _ \<Rightarrow> if c = CHR ''0'' then [c] else takeWhile is_digit t | [] \<Rightarrow> [])"

definition jfrac :: "string \<Rightarrow> (string \<times> string) option" where
  "jfrac r = (case r of
     c # u \<Rightarrow> if c = CHR ''.'' \<and> takeWhile is_digit u \<noteq> []
                then Some (takeWhile is_digit u, dropWhile is_digit u) else None
   | [] \<Rightarrow> None)"

definition jexp :: "string \<Rightarrow> (int \<times> string) option" where
  "jexp r = (case r of
     c # u \<Rightarrow>
       if c \<noteq> CHR ''e'' \<and> c \<noteq> CHR ''E'' then None
       else (let neg = (u \<noteq> [] \<and> hd u = CHR ''-'');
                 w = (if u \<noteq> [] \<and> (hd u = CHR ''-'' \<or> hd u = CHR ''+'') then tl u else u)
             in if takeWhile is_digit w = [] then None
                else Some ((if neg then -1 else 1) * int (digits_val (takeWhile is_digit w)), dropWhile is_digit w))
   | [] \<Rightarrow> None)"

definition pow10 :: "int \<Rightarrow> rat" where
  "pow10 e = (if e < 0 then 1 / 10 ^ nat (- e) else 10 ^ nat e)"

definition jnum :: "string \<Rightarrow> (pyval \<times> string) option" where
  "jnum s =
     (let neg = (s \<noteq> [] \<and> hd s = CHR ''-'');
          t = (if neg then tl s else s);
          ip = jint_part t;
          r = drop (length ip) t;
          sg = (if neg then -1 else 1 :: int)
      in if ip = [] \<or> \<not> is_digit (hd ip) then None
         else let (fd, r1) = (case jfrac r of Some x \<Rightarrow> x | None \<Rightarrow> ([], r));
                  ex = jexp r1
              in if fd = [] \<and> ex = None then Some (PInt (sg * int (digits_val ip)), r)
                 else let (e, r2) = (case ex of Some x \<Rightarrow> x | None \<Rightarrow> (0, r1))
                      in Some (PFloat (of_int sg * (of_nat (digits_val (ip @ fd)) / 10 ^ length fd) * pow10 e), r2))"
fun val_of :: "dialect \<Rightarrow> nat \<Rightarrow> string \<Rightarrow> (pyval \<times> string) option"
and elems_of :: "dialect \<Rightarrow> nat \<Rightarrow> string \<Rightarrow> (pyval list \<times> string) option"
and members_of :: "dialect \<Rightarrow> nat \<Rightarrow> string \<Rightarrow> ((string \<times> pyval) list \<times> string) option" where
  "val_of D 0 s = None"
| "val_of D (Suc n) s =
     (case s of
        [] \<Rightarrow> None
      | c # t \<Rightarrow>
          if is_quote c then map_option (\<lambda>(a, r). (PStr a, r)) (dl_read D s)
          else if c = CHR ''['' then
            (case skip_ws t of
               d # t' \<Rightarrow> if d = CHR '']'' then Some (PList [], t')
                          else map_option (\<lambda>(xs, r). (PList xs, r)) (elems_of D n (d # t'))
             | [] \<Rightarrow> None)
          else if c = CHR ''{'' then
            (case skip_ws t of
               d # t' \<Rightarrow> if d = CHR ''}'' then Some (PDict [], t')
                          else map_option (\<lambda>(ps, r). (PDict (foldl (\<lambda>d (k, v). dset k v d) [] ps), r))
                                 (members_of D n (d # t'))
             | [] \<Rightarrow> None)
          else (case find (\<lambda>p. prefix (fst p) s) (dl_consts D) of
                  Some (w, v) \<Rightarrow> Some (v, drop (length w) s)
                | None \<Rightarrow> jnum s))"
| "elems_of D 0 s = None"
| "elems_of D (Suc n) s =
     (case val_of D n s of
        None \<Rightarrow> None
      | Some (v, r) \<Rightarrow>
          (case skip_ws r of
             c # t \<Rightarrow> if c = CHR '']'' then Some ([v], t)
                       else if c = CHR '','' then map_option (\<lambda>(vs, r'). (v # vs, r')) (elems_of D n (skip_ws t))
                       else None
           | [] \<Rightarrow> None))"
| "members_of D 0 s = None"
| "members_of D (Suc n) s =
     (case s of
        [] \<Rightarrow> None
      | q # t \<Rightarrow>
          if \<not> is_quote q then None
          else (case dl_read D s of
                  None \<Rightarrow> None
                | Some (k, r) \<Rightarrow>
                    (case skip_ws r of
                       [] \<Rightarrow> None
                     | c # u \<Rightarrow>
                         if c \<noteq> CHR '':'' then None
                         else (case val_of D n (skip_ws u) of
                                 None \<Rightarrow> None
                               | Some (v, r2) \<Rightarrow>
                                   (case skip_ws r2 of
                                      d # w \<Rightarrow>
                                        if d = CHR ''}'' then Some ([(k, v)], w)
                                        else if d = CHR '','' then
                                          map_option (\<lambda>(ps, r'). ((k, v) # ps, r')) (members_of D n (skip_ws w))
                                        else None
                                    | [] \<Rightarrow> None)))))"

definition read_text :: "dialect \<Rightarrow> string \<Rightarrow> pyval option" where
  "read_text D s =
     (case val_of D (Suc (length s)) (skip_ws s) of
        Some (v, r) \<Rightarrow> if skip_ws r = [] then Some v else None
      | None \<Rightarrow> None)"

text \<open>Writing depends on three of a dialect's components, reading on the two others.\<close>

lemma text_of_cong:
  assumes "dl_write D = dl_write D'" and "dl_const D = dl_const D'" and "dl_gap D = dl_gap D'"
  shows "text_of D v = text_of D' v" and "elems_text D vs = elems_text D' vs"
    and "members_text D ps = members_text D' ps"
proof -
  have "dl_write D = dl_write D' \<Longrightarrow> dl_const D = dl_const D' \<Longrightarrow> dl_gap D = dl_gap D' \<Longrightarrow> text_of D v = text_of D' v"
    and "dl_write D = dl_write D' \<Longrightarrow> dl_const D = dl_const D' \<Longrightarrow> dl_gap D = dl_gap D' \<Longrightarrow> elems_text D vs = elems_text D' vs"
    and "dl_write D = dl_write D' \<Longrightarrow> dl_const D = dl_const D' \<Longrightarrow> dl_gap D = dl_gap D' \<Longrightarrow> members_text D ps = members_text D' ps"
    by (induction D v and D vs and D ps rule: text_of_elems_text_members_text.induct) simp_all
  with assms show "text_of D v = text_of D' v" "elems_text D vs = elems_text D' vs"
    "members_text D ps = members_text D' ps" by blast+
qed

lemma val_of_cong:
  assumes "dl_read D = dl_read D'" and "dl_consts D = dl_consts D'"
  shows "val_of D n = val_of D' n \<and> elems_of D n = elems_of D' n \<and> members_of D n = members_of D' n"
proof (induction n)
  case 0
  show ?case by (simp add: fun_eq_iff)
next
  case (Suc n)
  then have IH: "val_of D n = val_of D' n" "elems_of D n = elems_of D' n" "members_of D n = members_of D' n"
    by simp_all
  show ?case
    by (intro conjI ext; unfold val_of.simps(2) elems_of.simps(2) members_of.simps(2) IH assms; rule refl)
qed

section \<open>The round trip\<close>

text \<open>
  The values a text gives back unchanged: no key twice in an object, and floats of at most 17 decimals
  whose \<open>repr\<close> needs no exponent.
\<close>

definition short_float :: "rat \<Rightarrow> bool" where
  "short_float x = (of_int \<lfloor>10 ^ 17 * x\<rfloor> = 10 ^ 17 * x \<and> (x = 0 \<or> 1 / 10000 \<le> \<bar>x\<bar> \<and> \<bar>x\<bar> < 10 ^ 16))"

fun jsonable :: "pyval \<Rightarrow> bool" where
  "jsonable (PFloat r) = short_float r"
| "jsonable (PInf b) = False"
| "jsonable PNaN = False"
| "jsonable (PList xs) = (\<forall>x \<in> set xs. jsonable x)"
| "jsonable (PDict d) = (distinct (map fst d) \<and> (\<forall>p \<in> set d. jsonable (snd p)))"
| "jsonable _ = True"
lemma char_of_codes: "char_of (34 :: nat) = CHR 0x22" "char_of (92 :: nat) = CHR 0x5C" "char_of (48 :: nat) = CHR ''0''"
  by (simp_all add: char_of_def bit_simps)

text \<open>Numbers: an integer's text reads back, whatever follows it that does not continue a number.\<close>

definition num_ends :: "string \<Rightarrow> bool" where
  "num_ends r = (case r of [] \<Rightarrow> True
     | c # _ \<Rightarrow> \<not> is_digit c \<and> c \<noteq> CHR ''.'' \<and> c \<noteq> CHR ''e'' \<and> c \<noteq> CHR ''E'')"

lemma nat_str_hd_zero: "hd (nat_str n) = CHR ''0'' \<Longrightarrow> n = 0"
proof (induction n rule: nat_str.induct)
  case (1 n)
  show ?case
  proof (cases "n < 10")
    case True
    have "digit_val (hd (nat_str n)) = n"
      using True by (subst nat_str.simps) (simp add: digit_val_digit_char)
    with 1 show ?thesis by (simp add: digit_val_def)
  next
    case False
    with 1 show ?thesis
      by (subst (asm) (2) nat_str.simps) simp
  qed
qed

lemma takeWhile_digits_append:
  "(\<And>c. c \<in> set s \<Longrightarrow> is_digit c) \<Longrightarrow> num_ends r \<Longrightarrow> takeWhile is_digit (s @ r) = s"
  by (induction s) (auto simp: num_ends_def split: list.splits)

lemma jint_part_digits:
  assumes "r = [] \<or> \<not> is_digit (hd r)"
  shows "jint_part (nat_str n @ r) = nat_str n"
proof (cases "hd (nat_str n) = CHR ''0''")
  case True
  then have "n = 0" by (rule nat_str_hd_zero)
  then show ?thesis
    by (simp add: jint_part_def nat_str.simps [of 0] digit_char_def char_of_codes)
next
  case False
  have "takeWhile is_digit r = []" using assms by (cases r) simp_all
  then have "takeWhile is_digit (nat_str n @ r) = nat_str n"
    using nat_str_digits by (subst takeWhile_append2) simp_all
  with False show ?thesis
    by (cases "nat_str n") (simp_all add: jint_part_def)
qed

lemma jint_part_nat_str: "num_ends r \<Longrightarrow> jint_part (nat_str n @ r) = nat_str n"
  by (rule jint_part_digits) (cases r, simp_all add: num_ends_def)

lemma num_ends_no_frac: "num_ends r \<Longrightarrow> jfrac r = None"
  by (auto simp: jfrac_def num_ends_def split: list.splits)

lemma num_ends_no_exp: "num_ends r \<Longrightarrow> jexp r = None"
  by (auto simp: jexp_def num_ends_def split: list.splits)

lemma hd_nat_str_digit: "is_digit (hd (nat_str n))"
  using nat_str_digits [of "hd (nat_str n)" n] by simp

lemma hd_nat_str_not_minus: "hd (nat_str n) \<noteq> CHR ''-''"
  using hd_nat_str_digit [of n] by (auto simp: is_digit_def)

lemma jnum_int_str:
  assumes r: "num_ends r"
  shows "jnum (int_str i @ r) = Some (PInt i, r)"
proof (cases "i < 0")
  case True
  then show ?thesis
    by (simp add: jnum_def int_str_def Let_def jint_part_nat_str r num_ends_no_frac num_ends_no_exp
        hd_nat_str_digit)
next
  case False
  then show ?thesis
    by (simp add: jnum_def int_str_def Let_def jint_part_nat_str r num_ends_no_frac num_ends_no_exp
        hd_nat_str_digit hd_nat_str_not_minus)
qed

subsubsection \<open>Floats\<close>

lemma digits_val_fold: "foldl (\<lambda>a c. 10 * a + digit_val c) a s = a * 10 ^ length s + digits_val s"
proof (induction s arbitrary: a)
  case (Cons c s)
  from Cons [of "10 * a + digit_val c"] Cons [of "digit_val c"] show ?case by (simp add: digits_val_def algebra_simps)
qed (simp add: digits_val_def)

lemma digits_val_Cons: "digits_val (c # s) = digit_val c * 10 ^ length s + digits_val s"
  using digits_val_fold [of "digit_val c" s] by (simp add: digits_val_def)

lemma digits_val_append': "digits_val (u @ v) = digits_val u * 10 ^ length v + digits_val v"
  using digits_val_fold [of "digits_val u" v] by (simp add: digits_val_def)

lemma frac_digits_exact:
  assumes "0 \<le> x" "x < 1" "of_int k = 10 ^ n * x"
  shows "of_nat (digits_val (frac_digits n x)) = x * 10 ^ length (frac_digits n x)" and "\<forall>c \<in> set (frac_digits n x). is_digit c"
  using assms
proof (induction n x arbitrary: k rule: frac_digits.induct)
  case (1 x)
  {
    case 1
    then have x: "x = of_int k" by simp
    then have "k = 0" using 1(1,2) by simp
    with x show ?case by (simp add: digits_val_def)
  next
    case 2
    show ?case by simp
  }
next
  case (2 n x)
  let ?d = "\<lfloor>10 * x\<rfloor>"
  have d: "0 \<le> ?d" "?d < 10" if "0 \<le> x" "x < 1" using that by (simp_all add: floor_less_iff)
  have y: "0 \<le> 10 * x - of_int ?d" "10 * x - of_int ?d < 1" by linarith+
  have k: "of_int (k - 10 ^ n * ?d) = 10 ^ n * (10 * x - of_int ?d)" if "of_int k = 10 ^ Suc n * x" for k
    using that by (simp add: algebra_simps)
  {
    case 1
    show ?case
    proof (cases "x = 0")
      case False
      have "of_nat (nat ?d) = (of_int ?d :: rat)" using d(1) 1 by simp
      with False d [OF 1(1,2)] "2.IH"(1) [OF False y k [OF 1(3)]] show ?thesis
        by (simp add: digits_val_Cons digit_val_digit_char nat_less_iff algebra_simps)
    qed (simp add: digits_val_def)
  next
    case 2
    show ?case
    proof (cases "x = 0")
      case False
      with d [OF 2(1,2)] "2.IH"(2) [OF False y k [OF 2(3)]] show ?thesis by (simp add: digit_char_digit nat_less_iff)
    qed simp
  }
qed

text \<open>The parts of a float's text.\<close>

lemma float_str_parts:
  assumes "short_float x"
  shows "\<exists>n f. float_str x = (if x < 0 then ''-'' else []) @ nat_str n @ CHR ''.'' # f \<and> f \<noteq> [] \<and> (\<forall>c \<in> set f. is_digit c)
    \<and> \<bar>x\<bar> = of_nat (digits_val (nat_str n @ f)) / 10 ^ length f"
proof -
  let ?a = "\<bar>x\<bar>"
  let ?y = "?a - of_int \<lfloor>?a\<rfloor>" and ?n = "nat \<lfloor>?a\<rfloor>"
  define g where "g = frac_digits 17 ?y"
  define f where "f = (if g = [] then ''0'' else g)"
  have y: "0 \<le> ?y" "?y < 1" by linarith+
  have e: "of_int \<lfloor>10 ^ 17 * x\<rfloor> = 10 ^ 17 * x" using assms by (simp only: short_float_def)
  have "of_int \<bar>\<lfloor>10 ^ 17 * x\<rfloor>\<bar> = 10 ^ 17 * ?a" unfolding of_int_abs e abs_mult by simp
  then have "of_int (\<bar>\<lfloor>10 ^ 17 * x\<rfloor>\<bar> - 10 ^ 17 * \<lfloor>?a\<rfloor>) = 10 ^ 17 * ?y" by (simp add: algebra_simps)
  note g = frac_digits_exact [OF y this, folded g_def]
  have f: "f \<noteq> []" "\<forall>c \<in> set f. is_digit c" "of_nat (digits_val f) = ?y * 10 ^ length f"
    using g by (auto simp: f_def is_digit_def digits_val_def digit_val_def)
  have "of_nat (digits_val (nat_str ?n @ f)) = (of_nat ?n * 10 ^ length f + of_nat (digits_val f) :: rat)"
    by (simp add: digits_val_append')
  also have "\<dots> = ?a * 10 ^ length f" by (simp add: f(3) algebra_simps)
  finally have "?a = of_nat (digits_val (nat_str ?n @ f)) / 10 ^ length f" by simp
  moreover have "float_str x = (if x < 0 then ''-'' else []) @ nat_str ?n @ CHR ''.'' # f"
    by (simp add: float_str_def Let_def f_def g_def)
  ultimately show ?thesis using f by blast
qed

lemma jnum_float_str:
  assumes "short_float x" and r: "num_ends r"
  shows "jnum (float_str x @ r) = Some (PFloat x, r)"
proof -
  obtain n f where s: "float_str x = (if x < 0 then ''-'' else []) @ nat_str n @ CHR ''.'' # f"
    and f: "f \<noteq> []" "\<forall>c \<in> set f. is_digit c" and x: "\<bar>x\<bar> = of_nat (digits_val (nat_str n @ f)) / 10 ^ length f"
    using float_str_parts [OF assms(1)] by blast
  let ?t = "nat_str n @ CHR ''.'' # f @ r"
  have ip: "jint_part ?t = nat_str n" by (rule jint_part_digits) (simp add: is_digit_def)
  have tk: "takeWhile is_digit (f @ r) = f" "dropWhile is_digit (f @ r) = r"
    using takeWhile_digits_append [of f r] f(2) r by (auto simp: dropWhile_eq_drop)
  have frac: "jfrac (CHR ''.'' # f @ r) = Some (f, r)" using tk f(1) by (simp add: jfrac_def)
  show ?thesis
  proof (cases "x < 0")
    case True
    then have "of_nat (digits_val (nat_str n @ f)) / 10 ^ length f = - x" using x by simp
    with True show ?thesis
      by (simp add: jnum_def s Let_def ip hd_nat_str_digit frac num_ends_no_exp [OF r] f(1) pow10_def)
  next
    case False
    then have "of_nat (digits_val (nat_str n @ f)) / 10 ^ length f = x" using x by simp
    with False show ?thesis
      by (simp add: jnum_def s Let_def ip hd_nat_str_digit hd_nat_str_not_minus frac num_ends_no_exp [OF r] f(1) pow10_def)
  qed
qed

lemma update_absent: "k \<notin> fst ` set d \<Longrightarrow> AList.update k v d = d @ [(k, v)]"
  by (induction d) auto

lemma foldl_dset_distinct:
  "distinct (map fst (d @ ps)) \<Longrightarrow> foldl (\<lambda>d (k, v). dset k v d) d ps = d @ ps"
proof (induction ps arbitrary: d)
  case Nil
  then show ?case by simp
next
  case (Cons p ps)
  obtain k v where p: "p = (k, v)" by (cases p)
  with Cons.prems have "dset k v d = d @ [p]" by (auto simp: update_absent)
  with Cons.IH [of "d @ [p]"] Cons.prems p show ?case by simp
qed
lemma digit_not_alpha: "is_digit c \<Longrightarrow> \<not> is_alpha c"
  by (simp add: is_digit_def is_alpha_def is_upper_def is_lower_def)

lemma digit_plain: "is_digit c \<Longrightarrow> \<not> is_quote c \<and> c \<notin> set ''[]{},: '' \<and> of_char c \<notin> {9, 10, 13, 32 :: nat}"
  by (auto simp: is_digit_def is_quote_def)

lemma alpha_plain: "is_alpha c \<Longrightarrow> \<not> is_quote c \<and> c \<notin> set ''[]{},: '' \<and> of_char c \<notin> {9, 10, 13, 32 :: nat}"
  by (auto simp: is_alpha_def is_upper_def is_lower_def is_quote_def)

lemma int_str_shape: "\<exists>c t. int_str i = c # t \<and> (is_digit c \<or> c = CHR ''-'' \<and> (\<exists>d u. t = d # u \<and> is_digit d))"
proof (cases "i < 0")
  case True
  obtain d u where "nat_str (nat (- i)) = d # u" by (cases "nat_str (nat (- i))") simp_all
  with True hd_nat_str_digit [of "nat (- i)"] show ?thesis by (simp add: int_str_def)
next
  case False
  obtain d u where "nat_str (nat i) = d # u" by (cases "nat_str (nat i)") simp_all
  with False hd_nat_str_digit [of "nat i"] show ?thesis by (simp add: int_str_def)
qed

lemma float_str_shape:
  assumes "short_float x"
  shows "\<exists>c t. float_str x = c # t \<and> (is_digit c \<or> c = CHR ''-'' \<and> (\<exists>d u. t = d # u \<and> is_digit d))"
proof -
  obtain n f where s: "float_str x = (if x < 0 then ''-'' else []) @ nat_str n @ CHR ''.'' # f"
    using float_str_parts [OF assms] by blast
  obtain d u where "nat_str n = d # u" by (cases "nat_str n") simp_all
  with hd_nat_str_digit [of n] show ?thesis by (simp add: s)
qed

lemma skip_ws_simps [simp]:
  "of_char c \<notin> {9, 10, 13, 32 :: nat} \<Longrightarrow> skip_ws (c # s) = c # s"
  "skip_ws (CHR '' '' # s) = skip_ws s"
  "skip_ws [] = []"
  by (auto simp: skip_ws_def)

lemma num_ends_simps [simp]:
  "num_ends []" "num_ends (CHR '']'' # r)" "num_ends (CHR ''}'' # r)" "num_ends (CHR '','' # r)"
  by (simp_all add: num_ends_def is_digit_def)

locale literal_dialect =
  fixes D :: dialect
  assumes read_write: "dl_read D (dl_write D s @ r) = Some (s, r)"
    and write_quote: "\<exists>c t. dl_write D s = c # t \<and> is_quote c"
    and read_const: "v \<in> {PNone, PBool True, PBool False} \<Longrightarrow>
          find (\<lambda>p. prefix (fst p) (dl_const D v @ r)) (dl_consts D) = Some (dl_const D v, v)"
    and const_hd: "v \<in> {PNone, PBool True, PBool False} \<Longrightarrow> \<exists>c t. dl_const D v = c # t \<and> is_alpha c"
    and consts_alpha: "(w, v) \<in> set (dl_consts D) \<Longrightarrow>
          \<exists>c d t. w = c # d # t \<and> (is_alpha c \<or> c = CHR ''-'' \<and> is_alpha d)"
    and gap_blank: "list_all (\<lambda>c. of_char c \<in> {9, 10, 13, 32 :: nat}) (dl_gap D)"
begin

lemma skip_gap [simp]: "skip_ws (dl_gap D @ s) = skip_ws s"
  unfolding skip_ws_def using gap_blank by (intro dropWhile_append2) (simp add: list_all_iff)

text \<open>A text that starts as a number does is read as one.\<close>

lemma val_of_number:
  assumes ct: "s = c # t" and c: "is_digit c \<or> c = CHR ''-'' \<and> (\<exists>d u. t = d # u \<and> is_digit d)"
    and num: "jnum (s @ r) = Some (v, r)"
  shows "val_of D (Suc n) (s @ r) = Some (v, r)"
proof -
  have "\<not> prefix w (c # t @ r)" if "(w, v) \<in> set (dl_consts D)" for w v
    using consts_alpha [OF that] c by (auto simp: is_alpha_def is_upper_def is_lower_def is_digit_def)
  then have no_const: "find (\<lambda>p. prefix (fst p) (c # t @ r)) (dl_consts D) = None"
    by (auto simp: find_None_iff)
  have "\<not> is_quote c \<and> c \<noteq> CHR ''['' \<and> c \<noteq> CHR ''{''"
    using c digit_plain [of c] by (auto simp: is_quote_def)
  with no_const num ct show ?thesis by simp
qed

lemma val_of_int_str: "num_ends r \<Longrightarrow> val_of D (Suc n) (int_str i @ r) = Some (PInt i, r)"
  using int_str_shape [of i] val_of_number jnum_int_str by blast

lemma val_of_float_str: "num_ends r \<Longrightarrow> short_float x \<Longrightarrow> val_of D (Suc n) (float_str x @ r) = Some (PFloat x, r)"
  using float_str_shape [of x] val_of_number jnum_float_str by blast

lemma text_hd:
  assumes "jsonable v"
  shows "\<exists>c t. text_of D v = c # t \<and> c \<notin> set '']},:'' \<and> of_char c \<notin> {9, 10, 13, 32 :: nat}"
proof -
  have const: "\<exists>c t. dl_const D v = c # t \<and> c \<notin> set '']},:'' \<and> of_char c \<notin> {9, 10, 13, 32 :: nat}"
    if "v \<in> {PNone, PBool True, PBool False}"
    using const_hd [OF that] alpha_plain by auto
  show ?thesis
  proof (cases v)
    case (PInt i)
    then show ?thesis using int_str_shape [of i] digit_plain by auto
  next
    case (PFloat x)
    then show ?thesis using float_str_shape [of x] digit_plain assms by auto
  next
    case (PStr s)
    then show ?thesis using write_quote [of s] by (auto simp: is_quote_def)
  next
    case (PBool b)
    then show ?thesis using const by (cases b) auto
  qed (use assms const in auto)
qed

lemma skip_ws_text: "jsonable v \<Longrightarrow> skip_ws (text_of D v @ r) = text_of D v @ r"
  using text_hd [of v] by (auto simp: skip_ws_def)

lemma skip_ws_write: "skip_ws (dl_write D s @ r) = dl_write D s @ r"
  using write_quote [of s] by (auto simp: skip_ws_def is_quote_def)

lemma elems_text_Cons:
  "elems_text D (x # xs) = text_of D x @ (if xs = [] then [] else CHR '','' # dl_gap D @ elems_text D xs)"
  by (cases xs) simp_all

lemma members_text_Cons:
  "members_text D (p # ps) =
     dl_write D (fst p) @ CHR '':'' # dl_gap D @ text_of D (snd p) @ (if ps = [] then [] else CHR '','' # dl_gap D @ members_text D ps)"
  by (cases p; cases ps) simp_all

lemma elems_skip_ws:
  "xs \<noteq> [] \<Longrightarrow> \<forall>x \<in> set xs. jsonable x \<Longrightarrow> skip_ws (elems_text D xs @ r) = elems_text D xs @ r"
  by (cases xs) (auto simp: elems_text_Cons skip_ws_text)

lemma members_skip_ws: "ps \<noteq> [] \<Longrightarrow> skip_ws (members_text D ps @ r) = members_text D ps @ r"
  by (cases ps) (auto simp: members_text_Cons skip_ws_write)

lemma members_of_write:
  "members_of D (Suc n) (dl_write D k @ CHR '':'' # dl_gap D @ u) =
     (case val_of D n (skip_ws u) of
        None \<Rightarrow> None
      | Some (v, r2) \<Rightarrow>
          (case skip_ws r2 of
             d # w \<Rightarrow>
               if d = CHR ''}'' then Some ([(k, v)], w)
               else if d = CHR '','' then
                 map_option (\<lambda>(ps, r'). ((k, v) # ps, r')) (members_of D n (skip_ws w))
               else None
           | [] \<Rightarrow> None))"
proof -
  obtain c t where ct: "dl_write D k = c # t" "is_quote c" using write_quote by blast
  have "dl_read D (c # t @ CHR '':'' # dl_gap D @ u) = Some (k, CHR '':'' # dl_gap D @ u)"
    using read_write [of k "CHR '':'' # dl_gap D @ u"] ct by simp
  with ct show ?thesis by simp
qed

lemma elems_of_text:
  assumes "\<And>x n r. x \<in> set xs \<Longrightarrow> num_ends r \<Longrightarrow> length (text_of D x) \<le> n \<Longrightarrow>
      val_of D n (text_of D x @ r) = Some (x, r)"
    and "xs \<noteq> []" and "\<forall>x \<in> set xs. jsonable x" and "length (elems_text D xs) < n"
  shows "elems_of D n (elems_text D xs @ CHR '']'' # r) = Some (xs, r)"
  using assms
proof (induction xs arbitrary: n)
  case Nil
  then show ?case by simp
next
  case (Cons x xs)
  from Cons.prems(4) obtain m where n: "n = Suc m" by (cases n) auto
  have len: "length (text_of D x) \<le> m" and lens: "xs \<noteq> [] \<Longrightarrow> length (elems_text D xs) < m"
    using Cons.prems(4) by (auto simp: n elems_text_Cons)
  have tail: "xs \<noteq> [] \<Longrightarrow> elems_of D m (elems_text D xs @ CHR '']'' # r) = Some (xs, r)"
    using Cons.IH Cons.prems lens by simp
  show ?case
  proof (cases "xs = []")
    case True
    with Cons.prems(1) [of x "CHR '']'' # r" m] len show ?thesis
      by (simp add: n)
  next
    case False
    have "val_of D m (text_of D x @ CHR '','' # dl_gap D @ elems_text D xs @ CHR '']'' # r)
        = Some (x, CHR '','' # dl_gap D @ elems_text D xs @ CHR '']'' # r)"
      using Cons.prems(1) [of x "CHR '','' # dl_gap D @ elems_text D xs @ CHR '']'' # r" m] len by simp
    with False tail Cons.prems(3) show ?thesis
      by (simp add: n elems_text_Cons [of x xs] elems_skip_ws)
  qed
qed

lemma members_of_text:
  assumes "\<And>p n r. p \<in> set ps \<Longrightarrow> num_ends r \<Longrightarrow> length (text_of D (snd p)) \<le> n \<Longrightarrow>
      val_of D n (text_of D (snd p) @ r) = Some (snd p, r)"
    and "ps \<noteq> []" and "\<forall>p \<in> set ps. jsonable (snd p)" and "length (members_text D ps) < n"
  shows "members_of D n (members_text D ps @ CHR ''}'' # r) = Some (ps, r)"
  using assms
proof (induction ps arbitrary: n)
  case Nil
  then show ?case by simp
next
  case (Cons p ps)
  obtain k v where p: "p = (k, v)" by (cases p)
  from Cons.prems(4) obtain m where n: "n = Suc m" by (cases n) auto
  have len: "length (text_of D v) \<le> m" and lens: "ps \<noteq> [] \<Longrightarrow> length (members_text D ps) < m"
    using Cons.prems(4) by (auto simp: n p members_text_Cons)
  have tail: "ps \<noteq> [] \<Longrightarrow> members_of D m (members_text D ps @ CHR ''}'' # r) = Some (ps, r)"
    using Cons.IH Cons.prems lens by simp
  have v: "jsonable v" using Cons.prems(3) p by simp
  show ?case
  proof (cases "ps = []")
    case True
    with Cons.prems(1) [of p "CHR ''}'' # r" m] len v p
    show ?thesis
      using members_of_write [of m k "text_of D v @ CHR ''}'' # r"] by (simp add: n skip_ws_text)
  next
    case False
    have "val_of D m (text_of D v @ CHR '','' # dl_gap D @ members_text D ps @ CHR ''}'' # r)
        = Some (v, CHR '','' # dl_gap D @ members_text D ps @ CHR ''}'' # r)"
      using Cons.prems(1) [of p "CHR '','' # dl_gap D @ members_text D ps @ CHR ''}'' # r" m] len p by simp
    with False tail v show ?thesis
      using members_of_write [of m k "text_of D v @ CHR '','' # dl_gap D @ members_text D ps @ CHR ''}'' # r"]
      by (simp add: n p members_text_Cons [of _ ps] skip_ws_text members_skip_ws)
  qed
qed

lemma val_of_const:
  assumes "v \<in> {PNone, PBool True, PBool False}"
  shows "val_of D (Suc n) (dl_const D v @ r) = Some (v, r)"
proof -
  obtain c t where ct: "dl_const D v = c # t" "is_alpha c" using const_hd [OF assms] by blast
  with alpha_plain [of c] read_const [OF assms, of r] show ?thesis by simp
qed

lemma val_of_text:
  "jsonable v \<Longrightarrow> num_ends r \<Longrightarrow> length (text_of D v) \<le> n \<Longrightarrow> val_of D n (text_of D v @ r) = Some (v, r)"
proof (induction v arbitrary: n r)
  case (PInt i)
  then obtain m where "n = Suc m" by (cases n) auto
  with PInt val_of_int_str [of r m i] show ?case by (simp del: val_of.simps)
next
  case (PFloat x)
  then obtain m where "n = Suc m" using float_str_shape [of x] by (cases n) auto
  with PFloat val_of_float_str [of r x m] show ?case by (simp del: val_of.simps)
next
  case (PStr s)
  obtain c t where ct: "dl_write D s = c # t" "is_quote c" using write_quote by blast
  with PStr obtain m where "n = Suc m" by (cases n) auto
  with ct read_write [of s r] show ?case by simp
next
  case (PList xs)
  then obtain m where n: "n = Suc m" by (cases n) auto
  show ?case
  proof (cases "xs = []")
    case False
    with PList.prems(1) obtain c t where ct: "elems_text D xs @ CHR '']'' # r = c # t" "c \<noteq> CHR '']''"
      using text_hd [of "hd xs"] by (cases xs) (auto simp: elems_text_Cons)
    moreover have "elems_of D m (elems_text D xs @ CHR '']'' # r) = Some (xs, r)"
      using PList n False by (intro elems_of_text) auto
    moreover have "skip_ws (c # t) = c # t"
      using elems_skip_ws [of xs "CHR '']'' # r"] False PList.prems(1) ct by simp
    ultimately show ?thesis
      by (simp add: n is_quote_def)
  qed (simp add: n is_quote_def)
next
  case (PDict d)
  then obtain m where n: "n = Suc m" by (cases n) auto
  show ?case
  proof (cases "d = []")
    case False
    then obtain c t where ct: "members_text D d @ CHR ''}'' # r = c # t" "c \<noteq> CHR ''}''"
      using write_quote [of "fst (hd d)"] by (cases d) (auto simp: members_text_Cons is_quote_def)
    moreover have "members_of D m (members_text D d @ CHR ''}'' # r) = Some (d, r)"
      using PDict n False by (intro members_of_text) auto
    moreover have "foldl (\<lambda>d (k, v). dset k v d) [] d = d"
      using PDict.prems(1) foldl_dset_distinct [of "[]" d] by simp
    moreover have "skip_ws (c # t) = c # t"
      using members_skip_ws [of d "CHR ''}'' # r"] False ct by simp
    ultimately show ?thesis
      by (simp add: n is_quote_def)
  qed (simp add: n is_quote_def)
next
  case PNone
  then obtain m where "n = Suc m" using const_hd [of PNone] by (cases n) auto
  with val_of_const [of PNone] show ?case by (simp del: val_of.simps)
next
  case (PBool b)
  then obtain m where "n = Suc m" using const_hd [of "PBool b"] by (cases n; cases b) auto
  with val_of_const [of "PBool b"] show ?case by (cases b) (simp_all del: val_of.simps)
qed simp_all

lemma read_text_of: "jsonable v \<Longrightarrow> read_text D (text_of D v) = Some v"
  using val_of_text [of v "[]" "Suc (length (text_of D v))"] skip_ws_text [of v "[]"]
  by (simp add: read_text_def del: val_of.simps)

lemma text_of_not_Nil: "jsonable v \<Longrightarrow> text_of D v \<noteq> []"
  using text_hd [of v] by auto

end

declare val_of.simps(2) [simp del] elems_of.simps(2) [simp del] members_of.simps(2) [simp del]

end
