(* ===== verification/Json.thy ===== *)
theory Json
  imports Literals
begin

text \<open>
  The two dialects of Literals: JSON as Python's \<open>json\<close> module writes and reads it (with and without
  \<open>ensure_ascii\<close>, with its \<open>strict\<close> flag), and Python's own literals as \<open>repr\<close> writes and
  \<open>ast.literal_eval\<close> reads them. Every entry the proxy keeps in Redis, every history record, every
  request body and every printed event passes through these functions. Each dialect interprets
  \<open>literal_dialect\<close>; the locale \<open>codec\<close> is what the stores rely on.

  An escape beyond character 255 is outside the 8-bit text of the model and reads as an error.
\<close>

section \<open>JSON\<close>

definition hex_char :: "nat \<Rightarrow> char" where
  "hex_char d = (if d < 10 then char_of (48 + d) else char_of (87 + d))"

definition esc_char :: "bool \<Rightarrow> char \<Rightarrow> string" where
  "esc_char a c =
     (let n = of_char c :: nat in
      if n = 34 then [CHR 0x5C, CHR 0x22]
      else if n = 92 then [CHR 0x5C, CHR 0x5C]
      else if n = 10 then [CHR 0x5C, CHR ''n'']
      else if n = 13 then [CHR 0x5C, CHR ''r'']
      else if n = 9 then [CHR 0x5C, CHR ''t'']
      else if n = 8 then [CHR 0x5C, CHR ''b'']
      else if n = 12 then [CHR 0x5C, CHR ''f'']
      else if 32 \<le> n \<and> (n \<le> 126 \<or> \<not> a) then [c]
      else [CHR 0x5C, CHR ''u'', CHR ''0'', CHR ''0'', hex_char (n div 16), hex_char (n mod 16)])"

definition json_str :: "bool \<Rightarrow> string \<Rightarrow> string" where
  "json_str a s = CHR 0x22 # concat (map (esc_char a) s) @ [CHR 0x22]"

definition hex_val :: "char \<Rightarrow> nat option" where
  "hex_val c =
     (let n = of_char c :: nat in
      if 48 \<le> n \<and> n \<le> 57 then Some (n - 48)
      else if 97 \<le> n \<and> n \<le> 102 then Some (n - 87)
      else if 65 \<le> n \<and> n \<le> 70 then Some (n - 55)
      else None)"

fun hex4 :: "string \<Rightarrow> (nat \<times> string) option" where
  "hex4 (a # b # c # d # s) =
     (case (hex_val a, hex_val b, hex_val c, hex_val d) of
        (Some w, Some x, Some y, Some z) \<Rightarrow> Some (4096 * w + 256 * x + 16 * y + z, s)
      | _ \<Rightarrow> None)"
| "hex4 _ = None"

lemma hex4_shorter: "hex4 s = Some (n, t) \<Longrightarrow> length t < length s"
  by (induction s rule: hex4.induct) (auto split: option.splits)

definition unesc :: "char \<Rightarrow> char option" where
  "unesc e =
     (let n = of_char e :: nat in
      if n = 34 \<or> n = 92 \<or> n = 47 then Some e
      else if n = 98 then Some (char_of (8 :: nat))
      else if n = 102 then Some (char_of (12 :: nat))
      else if n = 110 then Some (char_of (10 :: nat))
      else if n = 114 then Some (char_of (13 :: nat))
      else if n = 116 then Some (char_of (9 :: nat))
      else None)"

text \<open>The inside of a string literal, up to its closing quote.\<close>

function jstr :: "bool \<Rightarrow> string \<Rightarrow> (string \<times> string) option" where
  "jstr strict [] = None"
| "jstr strict (c # s) =
     (if c = CHR 0x22 then Some ([], s)
      else if c = CHR 0x5C then
        (case s of
           [] \<Rightarrow> None
         | e # t \<Rightarrow>
             if e = CHR ''u'' then
               (case hex4 t of
                  Some (n, t') \<Rightarrow>
                    if n < 256 then map_option (\<lambda>(a, b). (char_of n # a, b)) (jstr strict t') else None
                | None \<Rightarrow> None)
             else (case unesc e of
                     Some d \<Rightarrow> map_option (\<lambda>(a, b). (d # a, b)) (jstr strict t)
                   | None \<Rightarrow> None))
      else if strict \<and> (of_char c :: nat) < 32 then None
      else map_option (\<lambda>(a, b). (c # a, b)) (jstr strict s))"
  by pat_completeness auto
termination
  by (relation "measure (\<lambda>(st, s). length s)") (auto dest: hex4_shorter)

declare jstr.simps(2) [simp del]
definition json_const :: "pyval \<Rightarrow> string" where
  "json_const v = (case v of PNone \<Rightarrow> ''null'' | PBool b \<Rightarrow> if b then ''true'' else ''false''
     | PInf neg \<Rightarrow> if neg then ''-Infinity'' else ''Infinity'' | _ \<Rightarrow> ''NaN'')"

definition json_read :: "bool \<Rightarrow> string \<Rightarrow> (string \<times> string) option" where
  "json_read strict s = (case s of c # t \<Rightarrow> if c = CHR 0x22 then jstr strict t else None | [] \<Rightarrow> None)"

definition json_dialect :: "bool \<Rightarrow> bool \<Rightarrow> dialect" where
  "json_dialect ascii strict = \<lparr>
     dl_write = json_str ascii,
     dl_read = json_read strict,
     dl_const = json_const,
     dl_consts = [(''null'', PNone), (''true'', PBool True), (''false'', PBool False), (''NaN'', PNaN),
       (''Infinity'', PInf False), (''-Infinity'', PInf True)],
     dl_gap = '' ''\<rparr>"

text \<open>\<open>json.dumps(v)\<close>, \<open>json.dumps(v, ensure_ascii=False)\<close>, \<open>json.loads(s, strict=...)\<close>, \<open>json.loads(s)\<close>.\<close>

definition json_dumps :: "pyval \<Rightarrow> string" where
  "json_dumps v = text_of (json_dialect True True) v"

definition json_dumps_raw :: "pyval \<Rightarrow> string" where
  "json_dumps_raw v = text_of (json_dialect False True) v"

text \<open>\<open>json.dumps(v, separators=(',', ':'))\<close>.\<close>

definition compact_json :: dialect where
  "compact_json = (json_dialect True True)\<lparr>dl_gap := []\<rparr>"

definition json_dumps_compact :: "pyval \<Rightarrow> string" where
  "json_dumps_compact v = text_of compact_json v"

definition json_loads_with :: "bool \<Rightarrow> string \<Rightarrow> pyval option" where
  "json_loads_with strict s = read_text (json_dialect True strict) s"

definition json_loads :: "string \<Rightarrow> pyval option" where
  "json_loads s = json_loads_with True s"

subsection \<open>The round trip\<close>

lemma hex_val_hex_char: "n < 16 \<Longrightarrow> hex_val (hex_char n) = Some n"
  by (simp add: hex_val_def hex_char_def Let_def)

lemma hex4_hex_char:
  assumes "n < 256"
  shows "hex4 (CHR ''0'' # CHR ''0'' # hex_char (n div 16) # hex_char (n mod 16) # t) = Some (n, t)"
proof -
  from assms have "n div 16 < 16" and "n mod 16 < 16" by auto
  then show ?thesis by (simp add: hex_val_hex_char) (simp add: hex_val_def)
qed

lemma of_char_char_quote: "(of_char (CHR 0x22) :: nat) = 34"
  by simp

lemma of_char_char_backslash: "(of_char (CHR 0x5C) :: nat) = 92"
  by simp

lemma jstr_esc_code:
  assumes n: "n < (256 :: nat)"
  shows "jstr st (esc_char a (char_of n) @ t) = map_option (\<lambda>(a, b). (char_of n # a, b)) (jstr st t)"
proof -
  have code: "(of_char (char_of n :: char) :: nat) = n" using n by simp
  consider "n = 34" | "n = 92" | "n = 10" | "n = 13" | "n = 9" | "n = 8" | "n = 12"
    | (plain) "n \<notin> {34, 92, 10, 13, 9, 8, 12}" "32 \<le> n \<and> (n \<le> 126 \<or> \<not> a)"
    | (hex) "n \<notin> {34, 92, 10, 13, 9, 8, 12}" "\<not> (32 \<le> n \<and> (n \<le> 126 \<or> \<not> a))"
    by blast
  then show ?thesis
  proof cases
    case plain
    then have "char_of n \<noteq> CHR 0x22" "char_of n \<noteq> CHR 0x5C"
      using code by (metis insert_iff of_char_char_quote of_char_char_backslash)+
    with plain code show ?thesis
      by (simp add: esc_char_def Let_def jstr.simps(2))
  next
    case hex
    then have "esc_char a (char_of n) =
        [CHR 0x5C, CHR ''u'', CHR ''0'', CHR ''0'', hex_char (n div 16), hex_char (n mod 16)]"
      using code by (simp add: esc_char_def Let_def)
    then show ?thesis
      by (simp add: jstr.simps(2) hex4_hex_char n del: hex4.simps)
  qed (simp_all add: esc_char_def Let_def jstr.simps(2) unesc_def char_of_codes)
qed

lemma jstr_esc_char: "jstr st (esc_char a c @ t) = map_option (\<lambda>(a, b). (c # a, b)) (jstr st t)"
  using jstr_esc_code [OF nat_of_char_less_256 [of c], where st = st and a = a and t = t] by simp

lemma jstr_json_str: "jstr st (concat (map (esc_char a) s) @ CHR 0x22 # r) = Some (s, r)"
  by (induction s) (simp_all add: jstr.simps(2) jstr_esc_char)
lemma json_read_str: "json_read st (json_str a s @ r) = Some (s, r)"
  by (simp add: json_read_def json_str_def jstr_json_str)

interpretation json_lang: literal_dialect "json_dialect ascii strict" for ascii strict
proof
  fix s r
  show "dl_read (json_dialect ascii strict) (dl_write (json_dialect ascii strict) s @ r) = Some (s, r)"
    by (simp add: json_dialect_def json_read_str)
next
  fix s
  show "\<exists>c t. dl_write (json_dialect ascii strict) s = c # t \<and> is_quote c"
    by (simp add: json_dialect_def json_str_def is_quote_def)
next
  fix v r
  assume "v \<in> {PNone, PBool True, PBool False}"
  then show "find (\<lambda>p. prefix (fst p) (dl_const (json_dialect ascii strict) v @ r)) (dl_consts (json_dialect ascii strict))
      = Some (dl_const (json_dialect ascii strict) v, v)"
    by (elim insertE emptyE) (simp_all add: json_dialect_def json_const_def)
next
  fix v
  assume "v \<in> {PNone, PBool True, PBool False}"
  then show "\<exists>c t. dl_const (json_dialect ascii strict) v = c # t \<and> is_alpha c"
    by (elim insertE emptyE) (simp_all add: json_dialect_def json_const_def is_alpha_def is_lower_def)
next
  fix w v
  assume "(w, v) \<in> set (dl_consts (json_dialect ascii strict))"
  then show "\<exists>c d t. w = c # d # t \<and> (is_alpha c \<or> c = CHR ''-'' \<and> is_alpha d)"
    unfolding json_dialect_def dialect.select_convs list.set
    by (elim insertE emptyE) (simp_all add: is_alpha_def is_lower_def is_upper_def)
next
  show "list_all (\<lambda>c. of_char c \<in> {9, 10, 13, 32 :: nat}) (dl_gap (json_dialect ascii strict))"
    by (simp add: json_dialect_def)
qed

lemma json_write_strict: "text_of (json_dialect a st) v = text_of (json_dialect a st') v"
  by (rule text_of_cong(1)) (simp_all add: json_dialect_def)

lemma json_read_ascii: "val_of (json_dialect a st) n s = val_of (json_dialect b st) n s"
  using val_of_cong [of "json_dialect a st" "json_dialect b st" n] by (simp add: json_dialect_def)

theorem json_loads_dumps:
  assumes "jsonable v"
  shows "json_loads_with strict (text_of (json_dialect a st) v) = Some v"
  using json_lang.read_text_of [OF assms, of a strict] json_write_strict [of a st v strict]
  by (simp add: json_loads_with_def read_text_def json_read_ascii [of True strict _ _ a])

interpretation compact_lang: literal_dialect compact_json
proof -
  have "literal_dialect (json_dialect True True)" by (rule json_lang.literal_dialect_axioms)
  then show "literal_dialect compact_json"
    by (simp add: literal_dialect_def compact_json_def)
qed

lemma json_loads_compact:
  assumes "jsonable v"
  shows "json_loads (json_dumps_compact v) = Some v"
proof -
  have "read_text compact_json = read_text (json_dialect True True)"
    using val_of_cong [of compact_json "json_dialect True True"] by (simp add: read_text_def compact_json_def fun_eq_iff)
  then show ?thesis using compact_lang.read_text_of [OF assms]
    by (simp add: json_loads_def json_loads_with_def json_dumps_compact_def)
qed

lemma jstr_not_Nil [simp]: "json_str a s \<noteq> []"
  by (simp add: json_str_def)

lemma float_str_not_Nil [simp]: "float_str r \<noteq> []"
  by (simp add: float_str_def Let_def)

lemma json_text_not_Nil [simp]: "text_of (json_dialect a st) v \<noteq> []"
  by (cases v) (simp_all add: json_dialect_def json_const_def)

lemma json_dumps_not_Nil [simp]: "json_dumps v \<noteq> []"
  by (simp add: json_dumps_def)

section \<open>The interface\<close>

text \<open>
  What the stores rely on: a text form, and a reading that gives a storable value back. The proxy,
  the media scaler and the call history are clients of this interface, not of the two functions.
\<close>

locale codec =
  fixes dump :: "pyval \<Rightarrow> string"
    and load :: "string \<Rightarrow> pyval option"
    and storable :: "pyval \<Rightarrow> bool"
  assumes load_dump: "storable v \<Longrightarrow> load (dump v) = Some v"
    and dump_nonempty: "dump v \<noteq> []"
begin

lemma dump_inj: "storable v \<Longrightarrow> storable w \<Longrightarrow> dump v = dump w \<Longrightarrow> v = w"
  by (metis load_dump option.inject)

end
interpretation json: codec json_dumps json_loads jsonable
  by unfold_locales (simp_all add: json_loads_def json_loads_dumps json_dumps_def)

interpretation json_raw: codec json_dumps_raw json_loads jsonable
  by unfold_locales (simp_all add: json_loads_def json_loads_dumps json_dumps_raw_def)

section \<open>Python literals\<close>

definition repr_char :: "char \<Rightarrow> char \<Rightarrow> string" where
  "repr_char q c =
     (let n = of_char c :: nat in
      if c = q \<or> n = 92 then [CHR 0x5C, c]
      else if n = 10 then [CHR 0x5C, CHR ''n'']
      else if n = 13 then [CHR 0x5C, CHR ''r'']
      else if n = 9 then [CHR 0x5C, CHR ''t'']
      else if n < 32 \<or> 127 \<le> n then [CHR 0x5C, CHR ''x'', hex_char (n div 16), hex_char (n mod 16)]
      else [c])"

definition repr_str :: "string \<Rightarrow> string" where
  "repr_str s =
     (let q = (if CHR 0x27 \<in> set s \<and> CHR 0x22 \<notin> set s then CHR 0x22 else CHR 0x27)
      in q # concat (map (repr_char q) s) @ [q])"

definition lit_escape :: "char \<Rightarrow> char option" where
  "lit_escape e =
     (if e = CHR 0x27 \<or> e = CHR 0x22 \<or> e = CHR 0x5C then Some e
      else if e = CHR ''n'' then Some (char_of (10 :: nat))
      else if e = CHR ''r'' then Some (char_of (13 :: nat))
      else if e = CHR ''t'' then Some (char_of (9 :: nat))
      else if e = CHR ''a'' then Some (char_of (7 :: nat))
      else if e = CHR ''b'' then Some (char_of (8 :: nat))
      else if e = CHR ''f'' then Some (char_of (12 :: nat))
      else if e = CHR ''v'' then Some (char_of (11 :: nat))
      else None)"

fun hex2 :: "string \<Rightarrow> (nat \<times> string) option" where
  "hex2 (a # b # s) =
     (case (hex_val a, hex_val b) of (Some x, Some y) \<Rightarrow> Some (16 * x + y, s) | _ \<Rightarrow> None)"
| "hex2 _ = None"

lemma hex2_shorter: "hex2 s = Some (n, t) \<Longrightarrow> length t < length s"
  by (induction s rule: hex2.induct) (auto split: option.splits)

text \<open>The inside of a text literal, up to the quote \<open>q\<close>.\<close>

function lit_str :: "char \<Rightarrow> string \<Rightarrow> (string \<times> string) option" where
  "lit_str q [] = None"
| "lit_str q (c # s) =
     (if c = q then Some ([], s)
      else if c = CHR 0x0A then None
      else if c = CHR 0x5C then
        (case s of
           [] \<Rightarrow> None
         | e # t \<Rightarrow>
             if e = CHR ''x'' then
               (case hex2 t of
                  Some (n, t') \<Rightarrow> map_option (\<lambda>(a, b). (char_of n # a, b)) (lit_str q t')
                | None \<Rightarrow> None)
             else (case lit_escape e of
                     Some d \<Rightarrow> map_option (\<lambda>(a, b). (d # a, b)) (lit_str q t)
                   | None \<Rightarrow> map_option (\<lambda>(a, b). (c # e # a, b)) (lit_str q t)))
      else map_option (\<lambda>(a, b). (c # a, b)) (lit_str q s))"
  by pat_completeness auto
termination
  by (relation "measure (\<lambda>(q, s). length s)") (auto dest: hex2_shorter)

declare lit_str.simps(2) [simp del]

definition py_const :: "pyval \<Rightarrow> string" where
  "py_const v = (case v of PNone \<Rightarrow> ''None'' | PBool b \<Rightarrow> if b then ''True'' else ''False''
     | PInf neg \<Rightarrow> if neg then ''-inf'' else ''inf'' | _ \<Rightarrow> ''nan'')"

definition lit_read :: "string \<Rightarrow> (string \<times> string) option" where
  "lit_read s = (case s of q # t \<Rightarrow> if is_quote q then lit_str q t else None | [] \<Rightarrow> None)"

definition py_dialect :: dialect where
  "py_dialect = \<lparr>
     dl_write = repr_str,
     dl_read = lit_read,
     dl_const = py_const,
     dl_consts = [(''None'', PNone), (''True'', PBool True), (''False'', PBool False)],
     dl_gap = '' ''\<rparr>"

text \<open>\<open>repr(v)\<close>, \<open>str(v)\<close>, and \<open>ast.literal_eval(s)\<close> on a text such as \<open>repr\<close> writes for a value of
  this kind.\<close>

definition py_repr :: "pyval \<Rightarrow> string" where
  "py_repr v = text_of py_dialect v"

definition py_str :: "pyval \<Rightarrow> string" where
  "py_str v = (case v of PStr s \<Rightarrow> s | _ \<Rightarrow> py_repr v)"

definition literal_eval :: "string \<Rightarrow> pyval option" where
  "literal_eval s = read_text py_dialect s"

lemma py_str_simps [simp]:
  "py_str (PStr s) = s" "py_str (PInt i) = int_str i" "py_str PNone = ''None''"
  by (simp_all add: py_str_def py_repr_def py_dialect_def py_const_def)

lemma hex2_hex_char: "n < 256 \<Longrightarrow> hex2 (hex_char (n div 16) # hex_char (n mod 16) # t) = Some (n, t)"
  by (simp add: hex_val_hex_char div_less_iff_less_mult)

lemma of_char_char_newline: "(of_char (CHR 0x0A) :: nat) = 10"
  by simp

lemma lit_str_repr_code:
  assumes n: "n < (256 :: nat)" and q: "is_quote q"
  shows "lit_str q (repr_char q (char_of n) @ t) = map_option (\<lambda>(a, b). (char_of n # a, b)) (lit_str q t)"
proof -
  have code: "(of_char (char_of n :: char) :: nat) = n" using n by simp
  have qc: "q \<noteq> CHR 0x0A" "q \<noteq> CHR 0x5C" using q by (auto simp: is_quote_def)
  show ?thesis
  proof (cases "char_of n = q \<or> n = 92")
    case True
    then have c: "char_of n = CHR 0x22 \<or> char_of n = CHR 0x27 \<or> char_of n = CHR 0x5C"
      using q by (auto simp: char_of_codes is_quote_def)
    have "repr_char q (char_of n) = [CHR 0x5C, char_of n]"
      using True code by (simp add: repr_char_def Let_def)
    moreover have "lit_escape (char_of n) = Some (char_of n)" and "char_of n \<noteq> CHR ''x''"
      using c by (auto simp: lit_escape_def)
    ultimately show ?thesis
      using qc by (simp add: lit_str.simps(2))
  next
    case False
    consider "n = 10" | "n = 13" | "n = 9" | (hex) "n \<notin> {10, 13, 9}" "n < 32 \<or> 127 \<le> n" | (plain) "32 \<le> n" "n < 127"
      by fastforce
    then show ?thesis
    proof cases
      case hex
      then have "repr_char q (char_of n) = [CHR 0x5C, CHR ''x'', hex_char (n div 16), hex_char (n mod 16)]"
        using False code by (simp add: repr_char_def Let_def)
      then show ?thesis
        using qc by (simp add: lit_str.simps(2) hex2_hex_char n del: hex2.simps)
    next
      case plain
      have "char_of n \<noteq> CHR 0x0A" using code plain(1) of_char_char_newline by force
      moreover have "char_of n \<noteq> CHR 0x5C" using code False of_char_char_backslash by force
      ultimately
      show ?thesis using plain False code
        by (simp add: repr_char_def Let_def lit_str.simps(2))
    qed (use False code qc in \<open>simp_all add: repr_char_def Let_def lit_str.simps(2) lit_escape_def\<close>)
  qed
qed

lemma lit_str_repr:
  assumes q: "is_quote q"
  shows "lit_str q (concat (map (repr_char q) s) @ q # r) = Some (s, r)"
proof (induction s)
  case Nil
  then show ?case by (simp add: lit_str.simps(2))
next
  case (Cons c s)
  then show ?case using lit_str_repr_code [OF nat_of_char_less_256 [of c] q] by simp
qed

interpretation py_lang: literal_dialect py_dialect
proof
  fix s r
  show "dl_read py_dialect (dl_write py_dialect s @ r) = Some (s, r)"
    by (simp add: py_dialect_def lit_read_def repr_str_def Let_def lit_str_repr is_quote_def)
next
  fix s
  show "\<exists>c t. dl_write py_dialect s = c # t \<and> is_quote c"
    by (simp add: py_dialect_def repr_str_def Let_def is_quote_def)
next
  fix v r
  assume "v \<in> {PNone, PBool True, PBool False}"
  then show "find (\<lambda>p. prefix (fst p) (dl_const py_dialect v @ r)) (dl_consts py_dialect) = Some (dl_const py_dialect v, v)"
    by (elim insertE emptyE) (simp_all add: py_dialect_def py_const_def)
next
  fix v
  assume "v \<in> {PNone, PBool True, PBool False}"
  then show "\<exists>c t. dl_const py_dialect v = c # t \<and> is_alpha c"
    by (elim insertE emptyE) (simp_all add: py_dialect_def py_const_def is_alpha_def is_upper_def)
next
  fix w v
  assume "(w, v) \<in> set (dl_consts py_dialect)"
  then show "\<exists>c d t. w = c # d # t \<and> (is_alpha c \<or> c = CHR ''-'' \<and> is_alpha d)"
    unfolding py_dialect_def dialect.select_convs list.set
    by (elim insertE emptyE) (simp_all add: is_alpha_def is_upper_def)
next
  show "list_all (\<lambda>c. of_char c \<in> {9, 10, 13, 32 :: nat}) (dl_gap py_dialect)"
    by (simp add: py_dialect_def)
qed

lemma literal_eval_repr: "jsonable v \<Longrightarrow> literal_eval (py_repr v) = Some v"
  using py_lang.read_text_of by (simp add: literal_eval_def py_repr_def)

section \<open>Exceptions as text\<close>

text \<open>\<open>str(exc)\<close>.\<close>

fun exn_str :: "exn \<Rightarrow> string" where
  "exn_str (ValueError m) = m"
| "exn_str (TypeError m) = m"
| "exn_str (KeyError m) = repr_str m"
| "exn_str (IndexError m) = m"
| "exn_str (AttributeError m) = m"
| "exn_str (RuntimeError m) = m"
| "exn_str (OSError m) = m"
| "exn_str (UnboundLocalError m) = m"
| "exn_str (HTTPException c m) = int_str c @ '': '' @ m"
| "exn_str (OtherError m) = m"

text \<open>A method of \<open>str\<close> called on a value that may not be one.\<close>

definition as_str :: "pyval \<Rightarrow> exn + string" where
  "as_str v = (case v of PStr s \<Rightarrow> Inr s | _ \<Rightarrow> Inl (AttributeError ''str method''))"

lemma as_str_PStr [simp]: "as_str (PStr s) = Inr s"
  by (simp add: as_str_def)

section \<open>JSON text is printable\<close>

lemma esc_char_printable: "c' \<in> set (esc_char a c) \<Longrightarrow> 32 \<le> (of_char c' :: nat)"
proof -
  assume c': "c' \<in> set (esc_char a c)"
  have hex: "32 \<le> (of_char (hex_char n) :: nat)" if "n < 16" for n
    using that by (simp add: hex_char_def)
  have "(of_char c :: nat) div 16 < 16" "(of_char c :: nat) mod 16 < 16"
    using nat_of_char_less_256 [of c] by (simp_all add: div_less_iff_less_mult)
  with c' hex show ?thesis
    by (auto simp: esc_char_def Let_def split: if_splits)
qed

lemma json_str_printable: "c \<in> set (json_str a s) \<Longrightarrow> 32 \<le> (of_char c :: nat)"
  using esc_char_printable by (auto simp: json_str_def)

lemma digit_printable: "is_digit c \<Longrightarrow> 32 \<le> (of_char c :: nat)"
  by (simp add: is_digit_def)

lemma int_str_printable: "c \<in> set (int_str i) \<Longrightarrow> 32 \<le> (of_char c :: nat)"
  using nat_str_digits digit_printable by (auto simp: int_str_def split: if_splits)

lemma float_str_printable: "short_float x \<Longrightarrow> c \<in> set (float_str x) \<Longrightarrow> 32 \<le> (of_char c :: nat)"
  using float_str_parts [of x] nat_str_digits digit_printable by (fastforce split: if_splits)

lemma elems_text_set:
  "c \<in> set (elems_text D xs) \<Longrightarrow> c \<in> set (CHR '','' # dl_gap D) \<or> (\<exists>x \<in> set xs. c \<in> set (text_of D x))"
  by (induction xs rule: induct_list012) auto

lemma members_text_set:
  "c \<in> set (members_text D ps) \<Longrightarrow> c \<in> set ('',:'' @ dl_gap D) \<or> (\<exists>p \<in> set ps. c \<in> set (dl_write D (fst p)) \<or> c \<in> set (text_of D (snd p)))"
  by (induction ps rule: induct_list012) (auto split: prod.splits)

lemma json_text_printable:
  "jsonable v \<Longrightarrow> c \<in> set (text_of (json_dialect a st) v) \<Longrightarrow> 32 \<le> (of_char c :: nat)"
proof (induction v)
  case (PList xs)
  then show ?case using elems_text_set [of c "json_dialect a st" xs] by (auto simp: json_dialect_def)
next
  case (PDict d)
  have w: "c \<in> set (dl_write (json_dialect a st) k) \<Longrightarrow> 32 \<le> (of_char c :: nat)" for k
    using json_str_printable by (simp add: json_dialect_def)
  have "c \<in> set ('',:'' @ dl_gap (json_dialect a st)) \<Longrightarrow> 32 \<le> (of_char c :: nat)" by (auto simp: json_dialect_def)
  with PDict show ?case using members_text_set [of c "json_dialect a st" d] w by (fastforce simp: snds.simps simp del: dialect.select_convs)
qed (use json_str_printable int_str_printable float_str_printable in \<open>auto simp: json_dialect_def json_const_def split: if_splits\<close>)

end
