(* ===== verification/Web.thy ===== *)
theory Web
  imports Json
begin

text \<open>
  Requests and answers as the FastAPI routes of the proxy and of the manager see them. An answer is
  a value or the exception that ends the route; what the route wrote before stays written.
\<close>

text \<open>Header names are in lower case. \<open>rq_body\<close> is what \<open>await request.json()\<close> gives.\<close>

record request =
  rq_method :: string
  rq_url :: string
  rq_headers :: "(string \<times> string) list"
  rq_query :: "(string \<times> string) list"
  rq_client :: "string option"
  rq_body :: "exn + pyval"

datatype response =
    JSON int pyval
  | Page int string
  | Redirect int string
  | File string string
  | Raw int string string

type_synonym 's outcome = "(exn + response) \<times> 's"

definition hdr :: "request \<Rightarrow> string \<Rightarrow> string option" where
  "hdr rq name = map_of (rq_headers rq) name"

definition q_param :: "request \<Rightarrow> string \<Rightarrow> string" where
  "q_param rq name = (case map_of (rq_query rq) name of None \<Rightarrow> [] | Some v \<Rightarrow> v)"

fun status_code :: "response \<Rightarrow> int" where
  "status_code (JSON c _) = c"
| "status_code (Page c _) = c"
| "status_code (Redirect c _) = c"
| "status_code (File _ _) = 200"
| "status_code (Raw c _ _) = c"

end
