(* ===== verification/Redis.thy ===== *)
theory Redis
  imports Json
begin

text \<open>
  The key-value store the proxy and the media scaler share. Redis is a service outside the
  repository: its commands are the fields of \<open>redis_ops\<close>, an argument of every definition that
  uses them, and the locale \<open>redis_laws\<close> states their documented behaviour. \<open>r_scan\<close> gives the keys
  of a \<open>scan_iter(match="prefix*")\<close> in an order Redis does not promise, possibly twice. The loss of a
  key at the end of its time to live is a step of the environment, not of the code.

  \<open>mem_redis\<close>, a list of entries, satisfies the laws; the witnesses run on it.
\<close>

record 's redis_ops =
  r_get :: "'s \<Rightarrow> string \<Rightarrow> string option"
  r_set :: "'s \<Rightarrow> string \<Rightarrow> string \<Rightarrow> 's"
  r_setex :: "'s \<Rightarrow> string \<Rightarrow> pyval \<Rightarrow> pyval \<Rightarrow> exn + 's"
  r_delete :: "'s \<Rightarrow> string \<Rightarrow> 's"
  r_exists :: "'s \<Rightarrow> string \<Rightarrow> bool"
  r_incr :: "'s \<Rightarrow> string \<Rightarrow> exn + (int \<times> 's)"
  r_expire :: "'s \<Rightarrow> string \<Rightarrow> int \<Rightarrow> 's"
  r_scan :: "'s \<Rightarrow> string \<Rightarrow> string list"

definition counter_value :: "string option \<Rightarrow> int option" where
  "counter_value v = (case v of None \<Rightarrow> Some 0 | Some t \<Rightarrow> if t = [] then Some 0 else py_int_str t)"

locale redis_laws =
  fixes R :: "'s redis_ops"
  assumes get_set: "r_get R (r_set R s k v) k' = (if k' = k then Some v else r_get R s k')"
    and get_delete: "r_get R (r_delete R s k) k' = (if k' = k then None else r_get R s k')"
    and exists_get: "r_exists R s k = (r_get R s k \<noteq> None)"
    and get_setex: "r_setex R s k t w = Inr s' \<Longrightarrow>
          r_get R s' k' = (if k' = k then Some (py_str w) else r_get R s k')"
    and get_expire: "r_get R (r_expire R s k n) k' = r_get R s k'"
    and get_incr: "counter_value (r_get R s k) = Some n \<Longrightarrow>
          \<exists>s'. r_incr R s k = Inr (n + 1, s') \<and>
               (\<forall>k'. r_get R s' k' = (if k' = k then Some (int_str (n + 1)) else r_get R s k'))"
    and scan_keys: "set (r_scan R s p) = {k. prefix p k \<and> r_get R s k \<noteq> None}"
begin

lemmas store_simps = get_set get_delete exists_get get_expire

lemma scan_prefix: "k \<in> set (r_scan R s p) \<Longrightarrow> prefix p k"
  by (simp add: scan_keys)

lemma scan_present: "k \<in> set (r_scan R s p) \<Longrightarrow> \<exists>v. r_get R s k = Some v"
  by (auto simp: scan_keys)

lemma set_set_get: "r_get R (r_set R (r_set R s k v) k w) k' = r_get R (r_set R s k w) k'"
  by (simp add: get_set)

end

section \<open>A store in memory\<close>

type_synonym mem = "(string \<times> string) list"

definition mem_setex :: "mem \<Rightarrow> string \<Rightarrow> pyval \<Rightarrow> pyval \<Rightarrow> exn + mem" where
  "mem_setex s k t v =
     (case t of
        PInt n \<Rightarrow> if n \<le> 0 then Inl (OtherError ''invalid expire time'')
                  else (case v of
                          PStr _ \<Rightarrow> Inr (dset k (py_str v) s)
                        | PInt _ \<Rightarrow> Inr (dset k (py_str v) s)
                        | PFloat _ \<Rightarrow> Inr (dset k (py_str v) s)
                        | _ \<Rightarrow> Inl (OtherError ''Invalid input''))
      | _ \<Rightarrow> Inl (OtherError ''Invalid input''))"

definition mem_incr :: "mem \<Rightarrow> string \<Rightarrow> exn + (int \<times> mem)" where
  "mem_incr s k =
     (case counter_value (map_of s k) of
        Some n \<Rightarrow> Inr (n + 1, dset k (int_str (n + 1)) s)
      | None \<Rightarrow> Inl (OtherError ''value is not an integer''))"

definition mem_redis :: "mem redis_ops" where
  "mem_redis = \<lparr>
     r_get = map_of,
     r_set = (\<lambda>s k v. dset k v s),
     r_setex = mem_setex,
     r_delete = (\<lambda>s k. AList.delete k s),
     r_exists = (\<lambda>s k. map_of s k \<noteq> None),
     r_incr = mem_incr,
     r_expire = (\<lambda>s k n. s),
     r_scan = (\<lambda>s p. filter (prefix p) (map fst s))\<rparr>"

lemma mem_redis_simps [simp]:
  "r_get mem_redis = map_of"
  "r_set mem_redis = (\<lambda>s k v. dset k v s)"
  "r_setex mem_redis = mem_setex"
  "r_delete mem_redis = (\<lambda>s k. AList.delete k s)"
  "r_exists mem_redis = (\<lambda>s k. map_of s k \<noteq> None)"
  "r_incr mem_redis = mem_incr"
  "r_expire mem_redis = (\<lambda>s k n. s)"
  "r_scan mem_redis = (\<lambda>s p. filter (prefix p) (map fst s))"
  by (simp_all add: mem_redis_def)

lemma mem_setex_Inr: "mem_setex s k t v = Inr s' \<Longrightarrow> s' = dset k (py_str v) s"
  by (auto simp: mem_setex_def split: pyval.splits if_splits)

lemma mem_scan: "set (filter (prefix p) (map fst s)) = {k. prefix p k \<and> map_of s k \<noteq> None}"
  for s :: mem
  using map_of_eq_None_iff [of s] by auto

interpretation mem: redis_laws mem_redis
proof
  fix s :: mem and k n
  assume "counter_value (r_get mem_redis s k) = Some n"
  then show "\<exists>s'. r_incr mem_redis s k = Inr (n + 1, s') \<and>
      (\<forall>k'. r_get mem_redis s' k' = (if k' = k then Some (int_str (n + 1)) else r_get mem_redis s k'))"
    by (simp add: mem_incr_def update_conv)
next
  fix s :: mem and p
  show "set (r_scan mem_redis s p) = {k. prefix p k \<and> r_get mem_redis s k \<noteq> None}"
    by (simp only: mem_redis_simps mem_scan)
qed (auto simp: update_conv delete_conv dest!: mem_setex_Inr)

end
