(* ===== verification/Codecs.thy ===== *)
theory Codecs
  imports Py_Base
begin

text \<open>
  Base64 and UTF-8, as the sources use them: \<open>base64.b64encode\<close> and the lenient
  \<open>base64.b64decode\<close> (characters outside the alphabet are skipped, a closing pad ends the input),
  and the check behind \<open>bytes.decode("utf-8")\<close>. Bytes are characters. The main result is that
  decoding undoes encoding.
\<close>

section \<open>Base64\<close>

definition b64_char :: "nat \<Rightarrow> char" where
  "b64_char n =
     (if n < 26 then char_of (65 + n)
      else if n < 52 then char_of (71 + n)
      else if n < 62 then char_of (n - 4)
      else if n = 62 then CHR ''+'' else CHR ''/'')"

definition b64_val :: "char \<Rightarrow> nat option" where
  "b64_val c =
     (let n = of_char c :: nat in
      if 65 \<le> n \<and> n \<le> 90 then Some (n - 65)
      else if 97 \<le> n \<and> n \<le> 122 then Some (n - 71)
      else if 48 \<le> n \<and> n \<le> 57 then Some (n + 4)
      else if n = 43 then Some 62
      else if n = 47 then Some 63
      else None)"

fun b64_encode :: "nat list \<Rightarrow> string" where
  "b64_encode [] = []"
| "b64_encode [a] = [b64_char (a div 4), b64_char (a mod 4 * 16), CHR ''='', CHR ''='']"
| "b64_encode [a, b] =
     [b64_char (a div 4), b64_char (a mod 4 * 16 + b div 16), b64_char (b mod 16 * 4), CHR ''='']"
| "b64_encode (a # b # c # s) =
     b64_char (a div 4) # b64_char (a mod 4 * 16 + b div 16) # b64_char (b mod 16 * 4 + c div 64)
       # b64_char (c mod 64) # b64_encode s"

text \<open>The decoder: position in the quad, the bits carried over, the pads seen.\<close>

fun b64_decode :: "nat \<Rightarrow> nat \<Rightarrow> nat \<Rightarrow> string \<Rightarrow> nat list option" where
  "b64_decode q l p [] = (if q = 0 then Some [] else None)"
| "b64_decode q l p (c # s) =
     (if c = CHR ''='' then
        (if 2 \<le> q \<and> 4 \<le> q + Suc p then Some []
         else b64_decode q l (if 2 \<le> q then Suc p else p) s)
      else (case b64_val c of
              None \<Rightarrow> b64_decode q l p s
            | Some v \<Rightarrow>
                if q = 0 then b64_decode 1 v 0 s
                else if q = 1 then map_option (\<lambda>t. (4 * l + v div 16) # t) (b64_decode 2 (v mod 16) 0 s)
                else if q = 2 then map_option (\<lambda>t. (16 * l + v div 4) # t) (b64_decode 3 (v mod 4) 0 s)
                else map_option (\<lambda>t. (64 * l + v) # t) (b64_decode 0 0 0 s)))"

definition b64encode :: "string \<Rightarrow> string" where
  "b64encode s = b64_encode (map of_char s)"

definition b64decode :: "string \<Rightarrow> string option" where
  "b64decode s =
     (if \<exists>c \<in> set s. 128 \<le> (of_char c :: nat) then None
      else map_option (map char_of) (b64_decode 0 0 0 s))"

lemma of_char_b64_char:
  "n < 64 \<Longrightarrow> (of_char (b64_char n) :: nat) =
     (if n < 26 then 65 + n else if n < 52 then 71 + n else if n < 62 then n - 4 else if n = 62 then 43 else 47)"
  by (simp add: b64_char_def)

lemma b64_val_b64_char [simp]: "n < 64 \<Longrightarrow> b64_val (b64_char n) = Some n"
  by (auto simp: b64_val_def Let_def of_char_b64_char)

lemma b64_char_not_pad [simp]: "n < 64 \<Longrightarrow> b64_char n \<noteq> CHR ''=''"
proof -
  assume n: "n < 64"
  have "(of_char (b64_char n) :: nat) \<noteq> 61"
    using n by (auto simp: of_char_b64_char)
  then show ?thesis by auto
qed

lemma b64_char_ascii: "n < 64 \<Longrightarrow> (of_char (b64_char n) :: nat) < 128"
  by (auto simp: of_char_b64_char)

lemma b64_decode_encode: "\<forall>a \<in> set s. a < 256 \<Longrightarrow> b64_decode 0 0 0 (b64_encode s) = Some s"
proof (induction s rule: b64_encode.induct)
  case (4 a b c s)
  have "a div 4 < 64" "a mod 4 * 16 + b div 16 < 64" "b mod 16 * 4 + c div 64 < 64" "c mod 64 < 64"
    using "4.prems" by auto
  moreover have "(a mod 4 * 16 + b div 16) div 16 = a mod 4" "(a mod 4 * 16 + b div 16) mod 16 = b div 16"
    "(b mod 16 * 4 + c div 64) div 4 = b mod 16" "(b mod 16 * 4 + c div 64) mod 4 = c div 64"
    using "4.prems" by auto
  ultimately show ?case
    using "4" by (simp add: mult.commute)
next
  case (3 a b)
  have "a div 4 < 64" "a mod 4 * 16 + b div 16 < 64" "b mod 16 * 4 < 64"
    using "3.prems" by auto
  moreover have "(a mod 4 * 16 + b div 16) div 16 = a mod 4" "(a mod 4 * 16 + b div 16) mod 16 = b div 16"
    using "3.prems" by auto
  ultimately show ?case by (simp add: mult.commute)
next
  case (2 a)
  have "a div 4 < 64" "a mod 4 * 16 < 64" using "2.prems" by auto
  then show ?case by (simp add: mult.commute)
qed simp

lemma b64_encode_ascii: "\<forall>a \<in> set s. a < 256 \<Longrightarrow> c \<in> set (b64_encode s) \<Longrightarrow> (of_char c :: nat) < 128"
proof (induction s rule: b64_encode.induct)
  case (4 a b d s)
  have "a div 4 < 64" "a mod 4 * 16 + b div 16 < 64" "b mod 16 * 4 + d div 64 < 64" "d mod 64 < 64"
    using "4.prems"(1) by auto
  with "4" show ?case by (auto simp del: One_nat_def intro: b64_char_ascii)
next
  case (3 a b)
  have "a div 4 < 64" "a mod 4 * 16 + b div 16 < 64" "b mod 16 * 4 < 64"
    using "3.prems"(1) by auto
  with "3" show ?case by (auto intro: b64_char_ascii)
next
  case (2 a)
  have "a div 4 < 64" "a mod 4 * 16 < 64" using "2.prems"(1) by auto
  with "2" show ?case by (auto intro: b64_char_ascii)
qed simp

theorem b64decode_b64encode: "b64decode (b64encode s) = Some s"
proof -
  let ?n = "map of_char s :: nat list"
  have small: "\<forall>a \<in> set ?n. a < 256" by auto
  have "\<not> (\<exists>c \<in> set (b64_encode ?n). 128 \<le> (of_char c :: nat))"
    using b64_encode_ascii [OF small] by (meson not_less)
  then show ?thesis
    using b64_decode_encode [OF small] by (simp add: b64decode_def b64encode_def comp_def)
qed

section \<open>UTF-8\<close>

text \<open>Well-formed UTF-8: no overlong form, no surrogate, nothing beyond U+10FFFF.\<close>

definition cont_byte :: "nat \<Rightarrow> bool" where
  "cont_byte b = (128 \<le> b \<and> b \<le> 191)"

fun utf8_ok :: "nat list \<Rightarrow> bool" where
  "utf8_ok [] = True"
| "utf8_ok (a # s) =
     (if a < 128 then utf8_ok s
      else if 194 \<le> a \<and> a \<le> 223 then
        (case s of b # t \<Rightarrow> cont_byte b \<and> utf8_ok t | _ \<Rightarrow> False)
      else if 224 \<le> a \<and> a \<le> 239 then
        (case s of
           b # c # t \<Rightarrow> cont_byte b \<and> (a = 224 \<longrightarrow> 160 \<le> b) \<and> (a = 237 \<longrightarrow> b \<le> 159) \<and> cont_byte c \<and> utf8_ok t
         | _ \<Rightarrow> False)
      else if 240 \<le> a \<and> a \<le> 244 then
        (case s of
           b # c # d # t \<Rightarrow>
             cont_byte b \<and> (a = 240 \<longrightarrow> 144 \<le> b) \<and> (a = 244 \<longrightarrow> b \<le> 143) \<and> cont_byte c \<and> cont_byte d \<and> utf8_ok t
         | _ \<Rightarrow> False)
      else False)"

definition valid_utf8 :: "string \<Rightarrow> bool" where
  "valid_utf8 s = utf8_ok (map of_char s)"

lemma utf8_ok_ascii: "\<forall>a \<in> set s. a < 128 \<Longrightarrow> utf8_ok s"
  by (induction s) auto

end
