(* ===== verification/Proxy.thy ===== *)
theory Proxy
  imports Web Redis Codecs "HOL-Library.List_Lexorder" "HOL-Library.Char_ord"
begin

text \<open>
  The proxyAPI (\<open>deploy/proxyAPI/proxy.py\<close>): the gateway entries it keeps in Redis, the checks on
  its tokens, and one definition per route. A route takes the store and gives back its answer, or
  the exception that ends it, together with the store it leaves: what was written before an
  exception stays written. The gateways' own HTTP answers, the clock and the random pairing code
  are arguments.

  \<open>startGateway\<close> is the composition of the part before the call to the gateway and the part after
  it: between the two, the event loop serves other requests.
\<close>

section \<open>Requests and answers\<close>

record proxy_cfg =
  allowedToken :: string
  adminToken :: string
  roomToken :: string
  codeTryLimit :: int
  codeTryWindow :: int
  trustForwarded :: bool
  asset_exists :: "string \<Rightarrow> bool"

text \<open>The exception handlers: what the client of a route reads when it raised.\<close>

definition error_block :: "int \<Rightarrow> string \<Rightarrow> pyval" where
  "error_block code detail = PDict [
     (''status'', PStr ''error''),
     (''error'', PDict [(''code'', PInt code), (''detail'', PStr detail)]),
     (''data'', PNone)]"

definition http_exception_handler :: "exn \<Rightarrow> response" where
  "http_exception_handler e =
     (case e of
        HTTPException code detail \<Rightarrow> JSON code (error_block code detail)
      | _ \<Rightarrow> Raw 500 ''Internal Server Error'' ''text/plain'')"

definition validation_exception_handler :: "pyval \<Rightarrow> response" where
  "validation_exception_handler errors =
     JSON 422 (PDict [(''status'', PStr ''error''), (''error'', PStr ''Invalid input''), (''message'', errors)])"

definition answered :: "exn + response \<Rightarrow> response" where
  "answered r = (case r of Inl e \<Rightarrow> http_exception_handler e | Inr x \<Rightarrow> x)"

section \<open>Entries\<close>

definition gwFields :: "string list" where
  "gwFields = [''gw_ip'', ''gw_state'', ''gw_type'', ''room'', ''physical_room'', ''start_time'',
     ''media_duration'', ''transcript_progress'', ''browsing'', ''peer_uri'', ''peer_name'', ''call_started'']"

definition gwLoad :: "string option \<Rightarrow> pydict" where
  "gwLoad raw =
     (case raw of
        None \<Rightarrow> []
      | Some t \<Rightarrow>
          if t = [] then []
          else (case json_loads t of
                  Some (PDict d) \<Rightarrow> d
                | _ \<Rightarrow> []))"

definition gwOrdered :: "pydict \<Rightarrow> pydict" where
  "gwOrdered gw =
     (let ordered = map (\<lambda>k. (k, dget gw k)) (filter (dmem gw) gwFields)
      in ordered @ filter (\<lambda>p. \<not> dmem ordered (fst p)) gw)"

definition gwDump :: "pydict \<Rightarrow> string" where
  "gwDump gw = json_dumps (PDict (gwOrdered gw))"

definition cleanPart :: "pyval \<Rightarrow> pyval" where
  "cleanPart v = (if truthy v \<and> v \<noteq> PStr [] \<and> v \<noteq> PStr ''None'' then v else PNone)"

definition gw_key :: "string \<Rightarrow> string" where
  "gw_key gw_id = ''gateway:'' @ gw_id"

text \<open>\<open>key.split(":")[-1]\<close>.\<close>

definition key_id :: "string \<Rightarrow> string" where
  "key_id key = last (str_split '':'' key)"

definition pairing_key :: "string \<Rightarrow> string" where
  "pairing_key code = ''pairing:'' @ code"

definition tries_key :: "string \<Rightarrow> string" where
  "tries_key addr = ''codetries:'' @ addr"

definition free_state :: "pyval \<Rightarrow> bool" where
  "free_state v = (v = PStr ''created'' \<or> v = PStr ''stopped'')"

definition deriveState :: "pydict \<Rightarrow> string" where
  "deriveState gw =
     (let state = cleanPart (dget gw ''gw_state'') in
      if free_state state then ''free''
      else if state = PStr ''deleted'' then ''gone''
      else if state \<noteq> PStr ''started'' then ''other''
      else if truthy (cleanPart (dget gw ''room'')) then ''call''
      else if truthy (cleanPart (dget gw ''call_started'')) \<or> truthy (cleanPart (dget gw ''peer_uri'')) then ''ivr''
      else ''idle'')"

definition normalizeSipUri :: "string \<Rightarrow> string" where
  "normalizeSipUri uri =
     (let cleanUri = str_strip uri in
      if cleanUri = [] then []
      else if startswith cleanUri ''sip:'' then cleanUri
      else if str_in ''@'' cleanUri then ''sip:'' @ cleanUri
      else cleanUri)"

section \<open>Tokens\<close>

definition after_space :: "string \<Rightarrow> string" where
  "after_space h = (case split1 '' '' h of Some (_, t) \<Rightarrow> t | None \<Rightarrow> [])"

definition bearer :: "request \<Rightarrow> string option" where
  "bearer rq = (case hdr rq ''authorization'' of
     None \<Rightarrow> None
   | Some h \<Rightarrow> if h = [] \<or> \<not> startswith h ''Bearer '' then None else Some (after_space h))"

definition authorize :: "proxy_cfg \<Rightarrow> request \<Rightarrow> bool" where
  "authorize cfg rq = (bearer rq = Some (allowedToken cfg))"

text \<open>The password of \<open>Basic\<close> credentials: what follows the first colon, when the bytes are UTF-8.\<close>

definition basic_password :: "string \<Rightarrow> string option" where
  "basic_password cred =
     (case b64decode cred of
        None \<Rightarrow> None
      | Some bytes \<Rightarrow>
          if valid_utf8 bytes then Some (case split1 '':'' bytes of Some (_, p) \<Rightarrow> p | None \<Rightarrow> []) else None)"

definition authorizeAdmin :: "proxy_cfg \<Rightarrow> request \<Rightarrow> bool" where
  "authorizeAdmin cfg rq =
     (if adminToken cfg = [] then False
      else (case hdr rq ''authorization'' of
              None \<Rightarrow> False
            | Some h \<Rightarrow>
                if h = [] then False
                else if startswith h ''Bearer '' then after_space h = adminToken cfg
                else if startswith h ''Basic '' then basic_password (after_space h) = Some (adminToken cfg)
                else False))"

definition authorizeRoom :: "proxy_cfg \<Rightarrow> request \<Rightarrow> bool" where
  "authorizeRoom cfg rq =
     (if roomToken cfg = [] then False
      else (case bearer rq of
              None \<Rightarrow> False
            | Some token \<Rightarrow> token = roomToken cfg \<or> token = allowedToken cfg))"

definition auth_error :: "string \<Rightarrow> response" where
  "auth_error msg = JSON 401 (PDict [(''error'', PStr msg)])"

section \<open>Static files\<close>

definition pairingStaticFiles :: "(string \<times> string) list" where
  "pairingStaticFiles = [(''brand.js'', ''application/javascript''), (''shared.css'', ''text/css''),
     (''pairing.css'', ''text/css''), (''pairing.js'', ''application/javascript'')]"

definition interactStaticFiles :: "(string \<times> string) list" where
  "interactStaticFiles = [(''brand.js'', ''application/javascript''), (''shared.css'', ''text/css''),
     (''interact-connexion.css'', ''text/css''), (''interact-controls.css'', ''text/css''),
     (''interact.js'', ''application/javascript'')]"

definition portalStaticFiles :: "(string \<times> string) list" where
  "portalStaticFiles = [(''portal.css'', ''text/css''), (''portal.js'', ''application/javascript''),
     (''icons.svg'', ''image/svg+xml''), (''renater.png'', ''image/png''),
     (''rendez-vous-renater.png'', ''image/png''), (''webinaire-etat-dinum.png'', ''image/png''),
     (''visio-dinum.png'', ''image/png''), (''classe-virtuelle-esr.png'', ''image/png'')]"

definition not_found :: "string \<Rightarrow> response" where
  "not_found what = JSON 404 (PDict [(''detail'', PStr what)])"

definition serveAsset :: "proxy_cfg \<Rightarrow> (string \<times> string) list \<Rightarrow> string \<Rightarrow> response" where
  "serveAsset cfg allowed file_name =
     (case map_of allowed file_name of
        None \<Rightarrow> not_found ''not found''
      | Some mediaType \<Rightarrow>
          if asset_exists cfg file_name then File file_name mediaType
          else not_found (file_name @ '' not found''))"

definition pairing_static :: "proxy_cfg \<Rightarrow> string \<Rightarrow> response" where
  "pairing_static cfg file_name = serveAsset cfg pairingStaticFiles file_name"

definition interact_static :: "proxy_cfg \<Rightarrow> string \<Rightarrow> response" where
  "interact_static cfg file_name = serveAsset cfg interactStaticFiles file_name"

definition portal_static :: "proxy_cfg \<Rightarrow> string \<Rightarrow> response" where
  "portal_static cfg file_name =
     (case map_of portalStaticFiles file_name of
        None \<Rightarrow> not_found ''not found''
      | Some mediaType \<Rightarrow>
          if asset_exists cfg file_name then File file_name mediaType
          else if asset_exists cfg (''assets/'' @ file_name) then File (''assets/'' @ file_name) mediaType
          else not_found (file_name @ '' not found''))"

definition get_asset :: "proxy_cfg \<Rightarrow> string \<Rightarrow> exn + response" where
  "get_asset cfg file_name =
     (if file_name \<noteq> ''assets.tar.xz'' then Inl (HTTPException 404 ''Fichier non trouve.'')
      else if \<not> asset_exists cfg ''./assets/assets.tar.xz'' then Inl (HTTPException 404 ''Fichier non trouve.'')
      else Inr (File ''./assets/assets.tar.xz'' ''application/x-xz''))"

definition pairing_page :: "proxy_cfg \<Rightarrow> response" where
  "pairing_page cfg = (if asset_exists cfg ''pairing.html'' then Page 200 ''pairing.html''
     else not_found ''pairing.html not found'')"

definition portal_page :: "proxy_cfg \<Rightarrow> response" where
  "portal_page cfg = (if asset_exists cfg ''portal.html'' then Page 200 ''portal.html''
     else not_found ''portal.html not found'')"

definition docs :: "string \<Rightarrow> response" where
  "docs lang = File (if lang = ''en'' then ''docs/docs.en.html'' else ''docs/docs.fr.html'') ''text/html''"

definition logo :: "proxy_cfg \<Rightarrow> string \<Rightarrow> exn + response" where
  "logo cfg file_name =
     (if asset_exists cfg (file_name @ ''.svg'') then Inr (File (file_name @ ''.svg'') ''image/svg+xml'')
      else Inl (HTTPException 404 ''Logo not found''))"

end
