(* ===== verification/Proxy_Routes.thy ===== *)
theory Proxy_Routes
  imports Proxy
begin

text \<open>
  The routes of \<open>deploy/proxyAPI/proxy.py\<close> that read or write Redis, in the order of the file.
\<close>

definition missing :: "string \<Rightarrow> exn" where
  "missing name = HTTPException 400 (''Missing '' @ quoted name @ '' parameter'')"

section \<open>Calls to a gateway\<close>

record http_call =
  hc_method :: string
  hc_url :: string
  hc_params :: "(string \<times> string) list"
  hc_body :: pyval
  hc_auth :: string

record http_reply =
  rp_status :: int
  rp_json :: "exn + pyval"
  rp_content :: string
  rp_ctype :: "string option"

type_synonym net = "http_call \<Rightarrow> exn + http_reply"

definition proxyToGateway :: "net \<Rightarrow> string \<Rightarrow> request \<Rightarrow> pyval \<Rightarrow> exn + http_reply" where
  "proxyToGateway net gwUrl rq body =
     (let call = \<lparr>hc_method = rq_method rq, hc_url = gwUrl, hc_params = rq_query rq,
                  hc_body = (if rq_method rq = ''GET'' then PNone else body),
                  hc_auth = (case hdr rq ''authorization'' of None \<Rightarrow> [] | Some h \<Rightarrow> h)\<rparr>
      in case net call of
           Inl e \<Rightarrow> if e = OtherError ''ReadTimeout'' then Inl (HTTPException 504 ''Gateway timeout'') else Inl e
         | Inr r \<Rightarrow> Inr r)"

section \<open>Finding and refreshing gateways\<close>

fun find_available :: "'s redis_ops \<Rightarrow> 's \<Rightarrow> string list \<Rightarrow> exn + (string \<times> pyval) option" where
  "find_available R s [] = Inr None"
| "find_available R s (key # keys) =
     (let gw = gwLoad (r_get R s key) in
      bindE (dindex gw ''gw_ip'') (\<lambda>gwIp.
        if free_state (dget gw ''gw_state'') then Inr (Some (key, gwIp)) else find_available R s keys))"

definition findAvailableGateway :: "'s redis_ops \<Rightarrow> 's \<Rightarrow> exn + (string \<times> pyval) option" where
  "findAvailableGateway R s = find_available R s (r_scan R s ''gateway:'')"

definition opt_text :: "pyval \<Rightarrow> pyval" where
  "opt_text v = (if truthy v then PStr (py_str v) else PNone)"

definition progress_entry :: "pydict \<Rightarrow> pydict \<Rightarrow> pydict" where
  "progress_entry gw data =
     (let recording = dget data ''recording_duration'';
          streaming = dget data ''streaming_duration'';
          transcript = dget data ''transcript_progress'';
          state = dget data ''gw_state'';
          gw1 = (if truthy recording then dset ''media_duration'' (PStr (py_str recording)) gw else gw);
          gw2 = (if truthy streaming then dset ''media_duration'' (PStr (py_str streaming)) gw1 else gw1);
          gw3 = (if truthy transcript then dset ''transcript_progress'' (PStr (py_str transcript)) gw2 else gw2);
          gw4 = (if state = PStr ''up'' then dset ''gw_state'' (PStr ''started'') gw3
                 else if state = PStr ''down'' then dset ''gw_state'' (PStr ''stopped'') gw3
                 else gw3);
          gw5 = dset ''room'' (opt_text (dget data ''room'')) gw4;
          gw6 = dset ''physical_room'' (opt_text (dget data ''physical_room'')) gw5;
          gw7 = dset ''browsing'' (opt_text (dget data ''browsing'')) gw6;
          gw8 = dset ''peer_uri'' (opt_text (dget data ''peer_uri'')) gw7;
          gw9 = dset ''peer_name'' (opt_text (dget data ''peer_name'')) gw8
      in dset ''call_started'' (opt_text (dget data ''call_started'')) gw9)"

definition updateProgressInfo :: "'s redis_ops \<Rightarrow> string \<Rightarrow> pydict \<Rightarrow> pyval \<Rightarrow> 's \<Rightarrow> exn + 's" where
  "updateProgressInfo R gw_id gw data s =
     (case data of
        PDict d \<Rightarrow> Inr (r_set R s (gw_key gw_id) (gwDump (progress_entry gw d)))
      | _ \<Rightarrow> Inl (AttributeError ''get''))"

definition getGatewayStatusFromRedis :: "'s redis_ops \<Rightarrow> string \<Rightarrow> 's \<Rightarrow> exn + pyval option" where
  "getGatewayStatusFromRedis R gw_id s =
     (case r_get R s (gw_key gw_id) of
        None \<Rightarrow> Inr None
      | Some raw \<Rightarrow>
          if raw = [] then Inr None
          else (let gw = gwLoad (Some raw) in
                bindE (dindex gw ''gw_ip'') (\<lambda>_.
                  Inr (Some (PDict [
                    (''status'', PStr ''success''),
                    (''data'', PDict [
                       (''gw_id'', PStr gw_id),
                       (''gw_type'', cleanPart (dget gw ''gw_type'')),
                       (''gw_state'', dget gw ''gw_state''),
                       (''room'', cleanPart (dget gw ''room'')),
                       (''physical_room'', cleanPart (dget gw ''physical_room'')),
                       (''browsing'', cleanPart (dget gw ''browsing'')),
                       (''peer_uri'', cleanPart (dget gw ''peer_uri'')),
                       (''peer_name'', cleanPart (dget gw ''peer_name'')),
                       (''call_started'', cleanPart (dget gw ''call_started'')),
                       (''media_duration'', dget gw ''media_duration''),
                       (''transcript_progress'', dget gw ''transcript_progress'')])])))))"

definition fetchAndStoreGatewayStatus ::
    "'s redis_ops \<Rightarrow> string \<Rightarrow> pydict \<Rightarrow> exn + pyval \<Rightarrow> 's \<Rightarrow> 's" where
  "fetchAndStoreGatewayStatus R gw_id gw reply s =
     (case bindE reply (\<lambda>data. bindE (py_get data ''status'') (\<lambda>status.
             if status = PStr ''success''
             then bindE (py_get data ''data'') (\<lambda>d. updateProgressInfo R gw_id gw d s)
             else Inr (r_delete R s (gw_key gw_id)))) of
        Inr s' \<Rightarrow> s'
      | Inl _ \<Rightarrow> r_delete R s (gw_key gw_id))"

definition monitorOneGateway :: "'s redis_ops \<Rightarrow> string \<Rightarrow> exn + pyval \<Rightarrow> 's \<Rightarrow> 's" where
  "monitorOneGateway R gw_id reply s =
     fetchAndStoreGatewayStatus R gw_id (gwLoad (r_get R s (gw_key gw_id))) reply s"

text \<open>One cycle of the monitor; \<open>poll\<close> is the answer of a gateway to \<open>/gateway/status\<close>.\<close>

definition monitor_key :: "'s redis_ops \<Rightarrow> (string \<Rightarrow> string \<Rightarrow> exn + pyval) \<Rightarrow> 's \<Rightarrow> string \<Rightarrow> 's" where
  "monitor_key R poll s key =
     (let gw_id = key_id key in
      case r_get R s key of
        None \<Rightarrow> s
      | Some value \<Rightarrow>
          if value = [] then s
          else (let gw = gwLoad (Some value); gw_ip = dget gw ''gw_ip'' in
                if \<not> truthy gw_ip then s
                else fetchAndStoreGatewayStatus R gw_id gw (poll gw_id (py_str gw_ip)) s))"

definition monitorGateways :: "'s redis_ops \<Rightarrow> (string \<Rightarrow> string \<Rightarrow> exn + pyval) \<Rightarrow> 's \<Rightarrow> 's" where
  "monitorGateways R poll s = foldl (monitor_key R poll) s (r_scan R s ''gateway:'')"

section \<open>Resolving a gateway by its caller\<close>

text \<open>\<open>a > b\<close> on values: only text compares with text.\<close>

definition py_gt :: "pyval \<Rightarrow> pyval \<Rightarrow> exn + bool" where
  "py_gt a b =
     (case (a, b) of
        (PStr x, PStr y) \<Rightarrow> Inr (y < x)
      | (PInt x, PInt y) \<Rightarrow> Inr (y < x)
      | _ \<Rightarrow> Inl (TypeError ''not supported between instances''))"

record serving =
  sv_id :: string
  sv_room :: pyval
  sv_browsing :: pyval
  sv_started :: pyval

fun best_serving :: "'s redis_ops \<Rightarrow> 's \<Rightarrow> string \<Rightarrow> serving option \<Rightarrow> string list \<Rightarrow> exn + serving option" where
  "best_serving R s wanted best [] = Inr best"
| "best_serving R s wanted best (key # keys) =
     (case r_get R s key of
        None \<Rightarrow> best_serving R s wanted best keys
      | Some raw \<Rightarrow>
          if raw = [] then best_serving R s wanted best keys
          else
            (let gw = gwLoad (Some raw); peerUri = cleanPart (dget gw ''peer_uri'') in
             if \<not> truthy peerUri then best_serving R s wanted best keys
             else bindE (as_str peerUri) (\<lambda>u.
               if str_lower (normalizeSipUri u) \<noteq> wanted then best_serving R s wanted best keys
               else
                 (let callStarted = py_or (cleanPart (dget gw ''call_started'')) (PStr []);
                      cand = \<lparr>sv_id = key_id key, sv_room = cleanPart (dget gw ''room''),
                              sv_browsing = cleanPart (dget gw ''browsing''), sv_started = callStarted\<rparr>
                  in case best of
                       None \<Rightarrow> best_serving R s wanted (Some cand) keys
                     | Some b \<Rightarrow> bindE (py_gt callStarted (sv_started b)) (\<lambda>later.
                         best_serving R s wanted (if later then Some cand else best) keys)))))"

definition gatewayIdFromPeerUri :: "'s redis_ops \<Rightarrow> proxy_cfg \<Rightarrow> request \<Rightarrow> string \<Rightarrow> 's \<Rightarrow> exn + response" where
  "gatewayIdFromPeerUri R cfg rq peer_uri s =
     (if \<not> authorizeRoom cfg rq then Inr (auth_error ''authorization error'')
      else if peer_uri = [] then Inl (missing ''peer_uri'')
      else bindE (best_serving R s (str_lower (normalizeSipUri peer_uri)) None (r_scan R s ''gateway:'')) (\<lambda>best.
        case best of
          None \<Rightarrow> Inl (HTTPException 404 (''No gateway currently serving '' @ quoted peer_uri))
        | Some b \<Rightarrow> Inr (JSON 200 (PDict [(''gw_id'', PStr (sv_id b)), (''room'', sv_room b),
                                           (''browsing'', sv_browsing b)]))))"

section \<open>The admin listing\<close>

definition pairing_by_gateway :: "'s redis_ops \<Rightarrow> 's \<Rightarrow> (string \<times> string) list" where
  "pairing_by_gateway R s = foldl
     (\<lambda>acc key. case r_get R s key of
        None \<Rightarrow> acc
      | Some g \<Rightarrow> if g = [] then acc
                   else dset g (case split1 '':'' key of Some (_, c) \<Rightarrow> c | None \<Rightarrow> []) acc)
     [] (r_scan R s ''pairing:'')"

definition status_row :: "(string \<times> string) list \<Rightarrow> string \<Rightarrow> pydict \<Rightarrow> pyval" where
  "status_row pairing gw_id gw = PDict [
     (''gateway'', dget gw ''gw_ip''),
     (''type'', cleanPart (dget gw ''gw_type'')),
     (''status'', dget gw ''gw_state''),
     (''state'', PStr (deriveState gw)),
     (''room'', cleanPart (dget gw ''room'')),
     (''media_duration'', dget gw ''media_duration''),
     (''transcript_progress'', dget gw ''transcript_progress''),
     (''browsing'', cleanPart (dget gw ''browsing'')),
     (''peer_uri'', cleanPart (dget gw ''peer_uri'')),
     (''peer_name'', cleanPart (dget gw ''peer_name'')),
     (''call_started'', cleanPart (dget gw ''call_started'')),
     (''pairing_code'', opt_val (map_of pairing gw_id))]"

definition status_rows :: "'s redis_ops \<Rightarrow> 's \<Rightarrow> pydict" where
  "status_rows R s = foldl
     (\<lambda>acc key. case r_get R s key of
        None \<Rightarrow> acc
      | Some raw \<Rightarrow> if raw = [] then acc
          else dset (key_id key) (status_row (pairing_by_gateway R s) (key_id key) (gwLoad (Some raw))) acc)
     [] (r_scan R s ''gateway:'')"

definition adminStatus :: "'s redis_ops \<Rightarrow> proxy_cfg \<Rightarrow> request \<Rightarrow> 's \<Rightarrow> response" where
  "adminStatus R cfg rq s =
     (if \<not> authorizeAdmin cfg rq then auth_error ''authorization error''
      else JSON 200 (PDict (status_rows R s)))"

section \<open>Pairing codes\<close>

definition callerAddress :: "proxy_cfg \<Rightarrow> request \<Rightarrow> string" where
  "callerAddress cfg rq =
     (let direct = (case rq_client rq of Some h \<Rightarrow> h | None \<Rightarrow> ''unknown'') in
      if trustForwarded cfg then
        (case hdr rq ''x-forwarded-for'' of
           Some f \<Rightarrow> if f \<noteq> [] then str_strip (hd (str_split '','' f)) else direct
         | None \<Rightarrow> direct)
      else direct)"

definition tooManyCodeTries :: "'s redis_ops \<Rightarrow> proxy_cfg \<Rightarrow> request \<Rightarrow> 's \<Rightarrow> exn + bool" where
  "tooManyCodeTries R cfg rq s =
     (if codeTryLimit cfg \<le> 0 then Inr False
      else (case counter_value (r_get R s (tries_key (callerAddress cfg rq))) of
              None \<Rightarrow> Inl (ValueError ''invalid literal for int()'')
            | Some n \<Rightarrow> Inr (codeTryLimit cfg \<le> n)))"

definition noteFailedCodeTry :: "'s redis_ops \<Rightarrow> proxy_cfg \<Rightarrow> request \<Rightarrow> 's \<Rightarrow> exn + 's" where
  "noteFailedCodeTry R cfg rq s =
     (if codeTryLimit cfg \<le> 0 then Inr s
      else (let key = tries_key (callerAddress cfg rq) in
            bindE (r_incr R s key) (\<lambda>(n, s').
              Inr (if n = 1 then r_expire R s' key (codeTryWindow cfg) else s'))))"

definition error_json :: "int \<Rightarrow> string \<Rightarrow> response" where
  "error_json code detail = JSON code (error_block code detail)"

definition after_note :: "exn + 's \<Rightarrow> 's \<Rightarrow> response \<Rightarrow> 's outcome" where
  "after_note noted s answer = (case noted of Inl e \<Rightarrow> (Inl e, s) | Inr s' \<Rightarrow> (Inr answer, s'))"

definition live_code :: "'s redis_ops \<Rightarrow> 's \<Rightarrow> string \<Rightarrow> string option" where
  "live_code R s code = (case r_get R s (pairing_key code) of
     Some g \<Rightarrow> if g = [] then None else Some g | None \<Rightarrow> None)"

definition pairingResolve :: "'s redis_ops \<Rightarrow> proxy_cfg \<Rightarrow> request \<Rightarrow> 's \<Rightarrow> 's outcome" where
  "pairingResolve R cfg rq s =
     (case tooManyCodeTries R cfg rq s of
        Inl e \<Rightarrow> (Inl e, s)
      | Inr True \<Rightarrow> (Inr (error_json 429 ''Too many attempts''), s)
      | Inr False \<Rightarrow>
          (case py_get (case rq_body rq of Inr b \<Rightarrow> b | Inl _ \<Rightarrow> PDict []) ''code'' of
             Inl e \<Rightarrow> (Inl e, s)
           | Inr c \<Rightarrow>
               (let code = str_upper (str_strip (py_str (py_or c (PStr []))));
                    gwId = (if code = [] then None else live_code R s code)
                in case gwId of
                     None \<Rightarrow> after_note (noteFailedCodeTry R cfg rq s) s (error_json 404 ''Unknown pairing code'')
                   | Some g \<Rightarrow>
                       (Inr (JSON 200 (PDict [(''status'', PStr ''success''), (''error'', PNone),
                                              (''data'', PDict [(''gw_id'', PStr g)])])), s))))"

definition page_path :: "proxy_cfg \<Rightarrow> string \<Rightarrow> exn + response" where
  "page_path cfg name = (if asset_exists cfg name then Inr (Page 200 name) else Inl (OSError name))"

definition interact :: "'s redis_ops \<Rightarrow> proxy_cfg \<Rightarrow> request \<Rightarrow> 's \<Rightarrow> 's outcome" where
  "interact R cfg rq s =
     (let gwId = str_or (q_param rq ''gwId'') (q_param rq ''gw_id'') in
      if gwId = [] then
        (let pairingCode = q_param rq ''pairingCode'' in
         if pairingCode = [] then (page_path cfg ''pairing.html'', s)
         else (case tooManyCodeTries R cfg rq s of
                 Inl e \<Rightarrow> (Inl e, s)
               | Inr True \<Rightarrow> (Inl (HTTPException 429 ''Too many attempts''), s)
               | Inr False \<Rightarrow>
                   (case live_code R s pairingCode of
                      Some g \<Rightarrow> (Inr (Redirect 302 (hd (str_split ''?'' (rq_url rq)) @ ''?gwId='' @ g)), s)
                    | None \<Rightarrow> after_note (noteFailedCodeTry R cfg rq s) s (Redirect 302 ''/pairing''))))
      else (case r_get R s (gw_key gwId) of
              None \<Rightarrow> (Inr (Redirect 302 ''/pairing''), s)
            | Some raw \<Rightarrow>
                if raw = [] then (Inr (Redirect 302 ''/pairing''), s)
                else if asset_exists cfg ''interact.html'' then (Inr (Page 200 ''interact.html''), s)
                else (Inl (HTTPException 500 ''interact.html not found on server''), s)))"

section \<open>Starting and stopping a gateway\<close>

definition json_body :: "request \<Rightarrow> string \<Rightarrow> exn + pyval" where
  "json_body rq name = bindE (rq_body rq) (\<lambda>b. py_get b name)"

definition required :: "request \<Rightarrow> string \<Rightarrow> exn + pyval" where
  "required rq name = bindE (json_body rq name) (\<lambda>v. if truthy v then Inr v else Inl (missing name))"

text \<open>What \<open>/start\<close> has decided when it calls the gateway.\<close>

record allocation =
  al_id :: string
  al_ip :: pyval
  al_room :: pyval
  al_browsing :: pyval

definition start_alloc :: "'s redis_ops \<Rightarrow> request \<Rightarrow> 's \<Rightarrow> exn + allocation" where
  "start_alloc R rq s =
     bindE (required rq ''browsing'') (\<lambda>browsing.
     bindE (required rq ''room'') (\<lambda>room.
     bindE (required rq ''main_app'') (\<lambda>main_app.
     bindE (findAvailableGateway R s) (\<lambda>gateway.
       case gateway of
         None \<Rightarrow> Inl (HTTPException 503 ''No available gateways'')
       | Some (key, gwIp) \<Rightarrow>
           Inr \<lparr>al_id = key_id key, al_ip = gwIp, al_room = room, al_browsing = browsing\<rparr>))))"

definition gw_url :: "pyval \<Rightarrow> string \<Rightarrow> string" where
  "gw_url gwIp endpoint = ''http://'' @ py_str gwIp @ ''/gateway/'' @ endpoint"

definition with_gw_id :: "string \<Rightarrow> pyval \<Rightarrow> pyval" where
  "with_gw_id gw_id body = (case body of PDict d \<Rightarrow> PDict (dset ''gw_id'' (PStr gw_id) d) | b \<Rightarrow> b)"

definition started_entry :: "allocation \<Rightarrow> pydict \<Rightarrow> pydict" where
  "started_entry al gw0 =
     (let gw = (if gw0 \<noteq> [] then gw0 else [(''gw_ip'', al_ip al)])
      in dset ''browsing'' (if truthy (al_browsing al) then al_browsing al else PNone)
           (dset ''room'' (if truthy (al_room al) then al_room al else PNone)
             (dset ''gw_state'' (PStr ''started'') gw)))"

definition start_finish :: "'s redis_ops \<Rightarrow> allocation \<Rightarrow> exn + http_reply \<Rightarrow> 's \<Rightarrow> 's outcome" where
  "start_finish R al reply s =
     (case bindE reply (\<lambda>r. bindE (rp_json r) (\<lambda>j. Inr (r, j))) of
        Inl e \<Rightarrow> (Inl e, s)
      | Inr (r, j) \<Rightarrow>
          (if py_get j ''status'' = Inr (PStr ''success'')
           then (Inr (JSON (rp_status r) j),
                 r_set R s (gw_key (al_id al)) (gwDump (started_entry al (gwLoad (r_get R s (gw_key (al_id al)))))))
           else (Inl (HTTPException 503 ''Faild to parse Gateway Json response''), s)))"

definition start_call :: "net \<Rightarrow> request \<Rightarrow> allocation \<Rightarrow> exn + http_reply" where
  "start_call net rq al =
     bindE (rq_body rq) (\<lambda>body.
       proxyToGateway net (gw_url (al_ip al) ''start'') rq (with_gw_id (al_id al) body))"

definition startGateway :: "'s redis_ops \<Rightarrow> proxy_cfg \<Rightarrow> net \<Rightarrow> request \<Rightarrow> 's \<Rightarrow> 's outcome" where
  "startGateway R cfg net rq s =
     (if \<not> authorize cfg rq then (Inr (auth_error ''authorization error invalid_token ''), s)
      else (case start_alloc R rq s of
              Inl e \<Rightarrow> (Inl e, s)
            | Inr al \<Rightarrow> start_finish R al (start_call net rq al) s))"

definition stopped_entry :: "pydict \<Rightarrow> pydict" where
  "stopped_entry gw =
     dset ''gw_state'' (PStr ''deleted'') (dset ''call_started'' (PStr []) (dset ''peer_name'' (PStr [])
       (dset ''peer_uri'' (PStr []) (dset ''browsing'' (PStr []) (dset ''room'' (PStr []) gw)))))"

text \<open>Whether the gateway said it is stopping, the \<open>try\<close> of \<open>/stop\<close>.\<close>

definition stop_accepted :: "pyval \<Rightarrow> exn + bool" where
  "stop_accepted j =
     (case j of
        PDict d \<Rightarrow>
          (case dget_def_val d ''data'' (PDict []) of
             PDict dd \<Rightarrow>
               (let details = dget_def_val dd ''processing_state'' (PStr []) in
                bindE (py_in ''stopping'' details) (\<lambda>a. if a then Inr True else py_in ''stopped'' details))
           | _ \<Rightarrow> Inl (AttributeError ''get''))
      | _ \<Rightarrow> Inl (AttributeError ''get''))"

definition set_status :: "string \<Rightarrow> pyval \<Rightarrow> pyval" where
  "set_status v j = (case j of PDict d \<Rightarrow> PDict (dset ''status'' (PStr v) d) | x \<Rightarrow> x)"

definition stop_finish :: "'s redis_ops \<Rightarrow> pyval \<Rightarrow> pydict \<Rightarrow> exn + http_reply \<Rightarrow> 's \<Rightarrow> 's outcome" where
  "stop_finish R gw_id gw reply s =
     (case bindE reply (\<lambda>r. bindE (rp_json r) (\<lambda>j. Inr (r, j))) of
        Inl e \<Rightarrow> (Inl e, s)
      | Inr (r, j) \<Rightarrow>
          (case stop_accepted j of
             Inr True \<Rightarrow> (Inr (JSON (rp_status r) (set_status ''success'' j)),
                           r_set R s (gw_key (py_str gw_id)) (gwDump (stopped_entry gw)))
           | Inr False \<Rightarrow> (Inr (JSON (rp_status r) (set_status ''error'' j)), s)
           | Inl _ \<Rightarrow> (Inr (JSON (rp_status r) (PDict [(''status'', PStr ''error''),
                          (''error'', PStr ''Failed to parse gateway response''),
                          (''data'', if rp_content r \<noteq> [] then j else PNone)])), s)))"

definition stopGateway :: "'s redis_ops \<Rightarrow> proxy_cfg \<Rightarrow> net \<Rightarrow> request \<Rightarrow> 's \<Rightarrow> 's outcome" where
  "stopGateway R cfg net rq s =
     (if \<not> authorize cfg rq then (Inr (auth_error ''authorization error''), s)
      else
        (case required rq ''gw_id'' of
           Inl e \<Rightarrow> (Inl e, s)
         | Inr gw_id \<Rightarrow>
             (case r_get R s (gw_key (py_str gw_id)) of
                None \<Rightarrow> (Inl (HTTPException 404 (''No mapping found for gateway '' @ quoted (py_str gw_id))), s)
              | Some raw \<Rightarrow>
                  if raw = [] then (Inl (HTTPException 404 (''No mapping found for gateway '' @ quoted (py_str gw_id))), s)
                  else (let gw = gwLoad (Some raw) in
                        case dindex gw ''gw_ip'' of
                          Inl e \<Rightarrow> (Inl e, s)
                        | Inr gwIp \<Rightarrow>
                            stop_finish R gw_id gw
                              (bindE (rq_body rq) (\<lambda>body. proxyToGateway net (gw_url gwIp ''stop'') rq body)) s))))"

section \<open>Status and commands\<close>

fun gateway_in_room :: "'s redis_ops \<Rightarrow> 's \<Rightarrow> string \<Rightarrow> string list \<Rightarrow> string option" where
  "gateway_in_room R s room [] = None"
| "gateway_in_room R s room (key # keys) =
     (case r_get R s key of
        None \<Rightarrow> gateway_in_room R s room keys
      | Some raw \<Rightarrow>
          if raw \<noteq> [] \<and> dget (gwLoad (Some raw)) ''room'' = PStr room then Some (key_id key)
          else gateway_in_room R s room keys)"

definition no_gateway :: "string \<Rightarrow> exn" where
  "no_gateway gw_id = HTTPException 404 (''Gateway '' @ quoted gw_id @ '' not found'')"

definition status_target :: "'s redis_ops \<Rightarrow> string \<Rightarrow> string \<Rightarrow> 's \<Rightarrow> exn + string" where
  "status_target R gw_id room s =
     (if gw_id = [] \<and> room = []
      then Inl (HTTPException 400 (''Missing '' @ quoted ''gw_id'' @ '' or '' @ quoted ''room'' @ '' parameter''))
      else if room = [] then Inr gw_id
      else (case gateway_in_room R s room (r_scan R s ''gateway:'') of
              Some g \<Rightarrow> if g \<noteq> [] then Inr g
                        else Inl (HTTPException 404 (''No gateway found for room '' @ quoted room))
            | None \<Rightarrow> Inl (HTTPException 404 (''No gateway found for room '' @ quoted room))))"

definition polled_kind :: "pyval \<Rightarrow> bool" where
  "polled_kind v = (v = PStr ''baresip'' \<or> v = PStr ''browser'')"

definition status_answer :: "'s redis_ops \<Rightarrow> string \<Rightarrow> 's \<Rightarrow> exn + response" where
  "status_answer R gw_id s =
     bindE (getGatewayStatusFromRedis R gw_id s) (\<lambda>r.
       case r of
         Some v \<Rightarrow> Inr (JSON 200 v)
       | None \<Rightarrow> Inr (JSON 404 (PDict [(''status'', PStr ''error''),
                        (''error'', PStr ''Failed to get gateway status''), (''data'', PNone)])))"

definition statusGateway ::
    "'s redis_ops \<Rightarrow> (string \<Rightarrow> string \<Rightarrow> exn + pyval) \<Rightarrow> string \<Rightarrow> string \<Rightarrow> 's \<Rightarrow> 's outcome" where
  "statusGateway R poll gw_id0 room s =
     (case status_target R gw_id0 room s of
        Inl e \<Rightarrow> (Inl e, s)
      | Inr gw_id \<Rightarrow>
          (case r_get R s (gw_key gw_id) of
             None \<Rightarrow> (Inl (no_gateway gw_id), s)
           | Some raw \<Rightarrow>
               if raw = [] then (Inl (no_gateway gw_id), s)
               else
                 (let gw = gwLoad (Some raw) in
                  case dindex gw ''gw_ip'' of
                    Inl e \<Rightarrow> (Inl e, s)
                  | Inr gwIp \<Rightarrow>
                      if polled_kind (dget gw ''gw_type'') then
                        (let s' = monitorOneGateway R gw_id (poll gw_id (py_str gwIp)) s in
                         case r_get R s' (gw_key gw_id) of
                           None \<Rightarrow> (Inl (HTTPException 404 (''Gateway '' @ quoted gw_id @ '' unreachable after on-the-fly check'')), s')
                         | Some raw' \<Rightarrow>
                             if raw' = []
                             then (Inl (HTTPException 404 (''Gateway '' @ quoted gw_id @ '' unreachable after on-the-fly check'')), s')
                             else (status_answer R gw_id s', s'))
                      else (status_answer R gw_id s, s))))"

definition generic_gw_id :: "request \<Rightarrow> pyval" where
  "generic_gw_id rq =
     (let q = PStr (q_param rq ''gw_id'') in
      if rq_method rq = ''GET'' then q
      else (case json_body rq ''gw_id'' of Inr v \<Rightarrow> py_or v q | Inl _ \<Rightarrow> q))"

definition relay :: "http_reply \<Rightarrow> response" where
  "relay r = (case rp_json r of
     Inr j \<Rightarrow> JSON (rp_status r) j
   | Inl _ \<Rightarrow> Raw (rp_status r) (rp_content r)
               (case rp_ctype r of Some t \<Rightarrow> t | None \<Rightarrow> ''application/octet-stream''))"

definition genericGatewayProxy :: "'s redis_ops \<Rightarrow> net \<Rightarrow> request \<Rightarrow> string \<Rightarrow> 's \<Rightarrow> exn + response" where
  "genericGatewayProxy R net rq endpoint s =
     (let gw_id = generic_gw_id rq in
      if \<not> truthy gw_id then Inl (missing ''gw_id'')
      else (case r_get R s (gw_key (py_str gw_id)) of
              None \<Rightarrow> Inl (no_gateway (py_str gw_id))
            | Some raw \<Rightarrow>
                if raw = [] then Inl (no_gateway (py_str gw_id))
                else (let gw = gwLoad (Some raw) in
                      bindE (dindex gw ''gw_ip'') (\<lambda>gw_ip.
                        if dget gw ''gw_state'' \<noteq> PStr ''started''
                        then Inl (HTTPException 403 (''Gateway '' @ quoted (py_str gw_id) @ '' is stopped, cannot send commands''))
                        else bindE (if rq_method rq = ''GET'' then Inr PNone else rq_body rq) (\<lambda>body.
                               bindE (proxyToGateway net (gw_url gw_ip endpoint) rq body) (\<lambda>r. Inr (relay r)))))))"

definition commandGateway :: "'s redis_ops \<Rightarrow> net \<Rightarrow> request \<Rightarrow> 's \<Rightarrow> exn + response" where
  "commandGateway R net rq s = genericGatewayProxy R net rq ''command'' s"

definition ivrConfigGateway :: "'s redis_ops \<Rightarrow> net \<Rightarrow> request \<Rightarrow> 's \<Rightarrow> exn + response" where
  "ivrConfigGateway R net rq s = genericGatewayProxy R net rq ''ivrConfig'' s"

definition browsingGateway :: "'s redis_ops \<Rightarrow> net \<Rightarrow> request \<Rightarrow> 's \<Rightarrow> exn + response" where
  "browsingGateway R net rq s = genericGatewayProxy R net rq ''browsing'' s"

definition iconGateway :: "'s redis_ops \<Rightarrow> net \<Rightarrow> request \<Rightarrow> string \<Rightarrow> 's \<Rightarrow> exn + response" where
  "iconGateway R net rq icon_name s = genericGatewayProxy R net rq (''icon/'' @ icon_name) s"

definition logoGateway :: "'s redis_ops \<Rightarrow> net \<Rightarrow> request \<Rightarrow> string \<Rightarrow> 's \<Rightarrow> exn + response" where
  "logoGateway R net rq logo_name s = genericGatewayProxy R net rq (''logo/'' @ logo_name) s"

section \<open>Registration\<close>

definition pairing_alphabet :: string where
  "pairing_alphabet = ''ABCDEFGHIJKLMNOPQRSTUVWXYZ0123456789''"

text \<open>\<open>rnd\<close> is the source of \<open>random.choices\<close>.\<close>

definition generatePairingCode :: "(nat \<Rightarrow> nat) \<Rightarrow> string" where
  "generatePairingCode rnd = map (\<lambda>i. pairing_alphabet ! (rnd i mod length pairing_alphabet)) [0..<5]"

definition new_pairing :: "'s redis_ops \<Rightarrow> string \<Rightarrow> pyval \<Rightarrow> pyval \<Rightarrow> 's \<Rightarrow> (exn + (pyval \<times> pyval)) \<times> 's" where
  "new_pairing R fresh timeout gwId s =
     (case r_setex R s (pairing_key fresh) timeout gwId of
        Inl e \<Rightarrow> (Inl e, s)
      | Inr s' \<Rightarrow> (Inr (PStr fresh, gwId), s'))"

definition register_pairing :: "'s redis_ops \<Rightarrow> string \<Rightarrow> pydict \<Rightarrow> 's \<Rightarrow> (exn + (pyval \<times> pyval)) \<times> 's" where
  "register_pairing R fresh body s =
     (let code = dget body ''pairing_code''; timeout = dget body ''pairing_timeout''; gwId = dget body ''gw_id'' in
      if truthy code then
        (if r_exists R s (pairing_key (py_str code))
         then (Inr (code, opt_val (r_get R s (pairing_key (py_str code)))), s)
         else new_pairing R fresh timeout gwId s)
      else new_pairing R fresh timeout gwId s)"

definition new_entry :: "string \<Rightarrow> pydict" where
  "new_entry now = [(''gw_state'', PStr ''created''), (''start_time'', PStr now), (''room'', PNone),
     (''media_duration'', PStr ''0''), (''transcript_progress'', PStr ''0''), (''browsing'', PNone),
     (''peer_uri'', PNone), (''peer_name'', PNone), (''call_started'', PNone)]"

definition registered_entry :: "string \<Rightarrow> pyval \<Rightarrow> pyval \<Rightarrow> pydict \<Rightarrow> pydict" where
  "registered_entry now gwIp gwType gw0 =
     (let gw = (if gw0 = [] then new_entry now else gw0)
      in dset ''gw_type'' gwType (dset ''gw_ip'' gwIp gw))"

definition register_body :: "'s redis_ops \<Rightarrow> string \<Rightarrow> string \<Rightarrow> exn + pyval \<Rightarrow> 's \<Rightarrow> 's outcome" where
  "register_body R fresh now body s =
     (case bindE body (\<lambda>b. case b of PDict d \<Rightarrow> Inr d | _ \<Rightarrow> Inl (AttributeError ''get'')) of
        Inl e \<Rightarrow> (Inl e, s)
      | Inr d \<Rightarrow>
          (let gwIp = dget d ''gw_ip''; gwType = dget_def_val d ''gw_type'' (PStr ''media'') in
           case register_pairing R fresh d s of
             (Inl e, s1) \<Rightarrow> (Inl e, s1)
           | (Inr (code, gwId), s1) \<Rightarrow>
               if \<not> truthy gwIp \<or> \<not> truthy gwId
               then (Inl (HTTPException 400 (''Missing '' @ quoted ''gwIp'' @ '' or '' @ quoted ''gw_id'')), s1)
               else (let key = gw_key (py_str gwId);
                         gw = registered_entry now gwIp gwType (gwLoad (r_get R s1 key))
                     in (Inr (JSON 200 (PDict [(''status'', PStr ''success''), (''gw_id'', gwId), (''gw_ip'', gwIp),
                                               (''pairing_code'', code)])),
                         r_set R s1 key (gwDump gw)))))"

definition registerGateway ::
    "'s redis_ops \<Rightarrow> proxy_cfg \<Rightarrow> (nat \<Rightarrow> nat) \<Rightarrow> string \<Rightarrow> request \<Rightarrow> 's \<Rightarrow> 's outcome" where
  "registerGateway R cfg rnd now rq s =
     (if \<not> authorize cfg rq then (Inr (auth_error ''authorization error''), s)
      else (case register_body R (generatePairingCode rnd) now (rq_body rq) s of
              (Inl e, s') \<Rightarrow> (Inl (HTTPException 400 (exn_str e)), s')
            | (Inr r, s') \<Rightarrow> (Inr r, s')))"

definition unregisterGateway :: "'s redis_ops \<Rightarrow> proxy_cfg \<Rightarrow> request \<Rightarrow> 's \<Rightarrow> 's outcome" where
  "unregisterGateway R cfg rq s =
     (if \<not> authorize cfg rq then (Inr (auth_error ''authorization error''), s)
      else (case json_body rq ''gw_id'' of
              Inl e \<Rightarrow> (Inl (case e of HTTPException _ _ \<Rightarrow> e | _ \<Rightarrow> HTTPException 400 (exn_str e)), s)
            | Inr gw_id \<Rightarrow>
                if \<not> truthy gw_id then (Inl (HTTPException 400 (''Missing '' @ quoted ''gw_id'')), s)
                else if \<not> r_exists R s (gw_key (py_str gw_id))
                then (Inl (no_gateway (py_str gw_id)), s)
                else (Inr (JSON 200 (PDict [(''status'', PStr ''success''), (''gw_id'', gw_id), (''removed'', PBool True)])),
                      r_delete R s (gw_key (py_str gw_id)))))"

section \<open>Documentation files\<close>

text \<open>\<open>(docs_root / file_name).resolve()\<close> on a tree without symbolic links, a path being the list
  of its names. \<open>path_suffix\<close> is \<open>Path.suffix\<close>.\<close>

fun resolve_parts :: "string list \<Rightarrow> string list \<Rightarrow> string list" where
  "resolve_parts base [] = base"
| "resolve_parts base (p # ps) =
     (if p = [] \<or> p = ''.'' then resolve_parts base ps
      else if p = ''..'' then resolve_parts (butlast base) ps
      else resolve_parts (base @ [p]) ps)"

definition resolve_under :: "string list \<Rightarrow> string \<Rightarrow> string list" where
  "resolve_under folder file_name =
     resolve_parts (if startswith file_name ''/'' then [] else folder) (str_split ''/'' file_name)"

definition path_suffix :: "string \<Rightarrow> string" where
  "path_suffix name =
     (let ext = takeWhile (\<lambda>c. c \<noteq> CHR ''.'') (rev name)
      in if ext = [] \<or> length name \<le> length ext + 1 then [] else CHR ''.'' # rev ext)"

definition serveDocsStatic :: "string list \<Rightarrow> (string list \<Rightarrow> bool) \<Rightarrow> string \<Rightarrow> exn + (string list \<times> string)" where
  "serveDocsStatic docs_root is_file file_name =
     (let requested = resolve_under docs_root file_name;
          suffix = str_lower (path_suffix (if requested = [] then [] else last requested))
      in if \<not> prefix docs_root requested then Inl (HTTPException 404 ''File not found'')
         else if is_file requested \<and> suffix = ''.png'' then Inr (requested, ''image/png'')
         else if is_file requested \<and> suffix = ''.css'' then Inr (requested, ''text/css'')
         else Inl (HTTPException 404 (''File '' @ quoted file_name @ '' not found'')))"

end
