(* ===== verification/Proxy_Registry.thy ===== *)
theory Proxy_Registry
  imports Proxy_Routes
begin

text \<open>
  What the routes of the proxy keep true of the entries in Redis. An entry is written by \<open>gwDump\<close>
  and read by \<open>gwLoad\<close>; the registry is sound when every entry reads as a dictionary with an
  address (\<open>registry_ok\<close>). The locale \<open>registry\<close> states the interface the routes use (load, save,
  remove) and is a sublocale of the Redis contract.
\<close>

section \<open>Entries\<close>

lemma gwLoad_None [simp]: "gwLoad None = []" and gwLoad_Nil [simp]: "gwLoad (Some []) = []"
  by (simp_all add: gwLoad_def)

lemma map_of_filter_fst: "map_of (filter (\<lambda>p. P (fst p)) xs) k = (if P k then map_of xs k else None)"
  by (induction xs) auto

lemma map_of_map_keys: "map_of (map (\<lambda>k. (k, f k)) ks) k = (if k \<in> set ks then Some (f k) else None)"
  by (induction ks) auto

lemma dmem_map_keys: "dmem (map (\<lambda>k. (k, f k)) ks) k = (k \<in> set ks)"
  by (simp add: dmem_def map_of_map_keys)

lemma dget_dmem: "dmem d k \<Longrightarrow> map_of d k = Some (dget d k)"
  by (auto simp: dmem_def dget_def)

lemma map_of_gwOrdered [simp]: "map_of (gwOrdered gw) = map_of gw"
proof (rule ext)
  fix k
  let ?ks = "filter (dmem gw) gwFields"
  let ?o = "map (\<lambda>k. (k, dget gw k)) ?ks"
  have rest: "map_of (filter (\<lambda>p. \<not> dmem ?o (fst p)) gw) k = (if k \<in> set ?ks then None else map_of gw k)"
    using map_of_filter_fst [of "\<lambda>k. \<not> dmem ?o k" gw k] by (simp only: dmem_map_keys split: if_splits) simp_all
  show "map_of (gwOrdered gw) k = map_of gw k"
  proof (cases "k \<in> set ?ks")
    case True
    then have "dmem gw k" by simp
    with True rest show ?thesis
      by (simp only: gwOrdered_def Let_def map_of_append map_add_def map_of_map_keys if_True
            option.case dget_dmem)
  next
    case False
    with rest show ?thesis
      by (simp only: gwOrdered_def Let_def map_of_append map_add_def map_of_map_keys if_False)
         (simp split: option.split)
  qed
qed

lemma dget_gwOrdered [simp]: "dget (gwOrdered gw) k = dget gw k"
  by (simp add: dget_def)

lemma gwOrdered_eq_Nil [simp]: "gwOrdered gw = [] \<longleftrightarrow> gw = []"
  by (metis map_of_eq_empty_iff map_of_gwOrdered)

lemma distinct_gwFields: "distinct gwFields"
  by (simp add: gwFields_def)

lemma gwOrdered_distinct:
  assumes "distinct (map fst gw)"
  shows "distinct (map fst (gwOrdered gw))"
proof -
  let ?o = "map (\<lambda>k. (k, dget gw k)) (filter (dmem gw) gwFields)"
  have "distinct (map fst ?o)" by (simp add: comp_def distinct_gwFields)
  moreover have "distinct (map fst (filter (\<lambda>p. \<not> dmem ?o (fst p)) gw))"
    using assms by (simp add: distinct_map inj_on_filter_key_eq) (auto intro: inj_on_subset)
  ultimately show ?thesis
    by (auto simp: gwOrdered_def Let_def dmem_map_keys)
qed

lemma gwOrdered_values: "p \<in> set (gwOrdered gw) \<Longrightarrow> snd p \<in> snd ` set gw"
  by (force simp: gwOrdered_def Let_def dmem_def dget_def dest: map_of_SomeD split: option.splits)

lemma jsonable_gwOrdered: "jsonable (PDict gw) \<Longrightarrow> jsonable (PDict (gwOrdered gw))"
  using gwOrdered_values [of _ gw] by (auto simp: gwOrdered_distinct) fastforce

lemma gwLoad_gwDump:
  assumes "jsonable (PDict gw)"
  shows "gwLoad (Some (gwDump gw)) = gwOrdered gw"
  using json.load_dump [OF jsonable_gwOrdered [OF assms]] json.dump_nonempty
  by (simp add: gwLoad_def gwDump_def)

lemma gwDump_not_Nil [simp]: "gwDump gw \<noteq> []"
  by (simp add: gwDump_def)

definition entry_ok :: "pydict \<Rightarrow> bool" where
  "entry_ok gw = (jsonable (PDict gw) \<and> truthy (dget gw ''gw_ip''))"

lemma update_in_set: "p \<in> set (AList.update k v d) \<Longrightarrow> p = (k, v) \<or> p \<in> set d"
  by (induction d) (auto split: if_splits)

lemma jsonable_dset: "jsonable (PDict d) \<Longrightarrow> jsonable v \<Longrightarrow> jsonable (PDict (dset k v d))"
  by (auto simp: distinct_update dest: update_in_set)

lemma jsonable_dget: "jsonable (PDict d) \<Longrightarrow> jsonable (dget d k)"
  by (force simp: dget_def dest: map_of_SomeD split: option.split)

lemma jsonable_dget_def: "jsonable (PDict d) \<Longrightarrow> jsonable v \<Longrightarrow> jsonable (dget_def_val d k v)"
  by (force simp: dget_def_val_def dest: map_of_SomeD split: option.split)

lemma entry_ok_dset: "entry_ok gw \<Longrightarrow> jsonable v \<Longrightarrow> k \<noteq> ''gw_ip'' \<Longrightarrow> entry_ok (dset k v gw)"
  unfolding entry_ok_def by (simp only: jsonable_dset dget_dset) simp

lemma entry_ok_gwOrdered: "entry_ok gw \<Longrightarrow> entry_ok (gwOrdered gw)"
  unfolding entry_ok_def by (simp only: jsonable_gwOrdered dget_gwOrdered)

lemma jsonable_opt_text [simp]: "jsonable (opt_text v)"
  by (simp add: opt_text_def)

lemma entry_ok_progress: "entry_ok gw \<Longrightarrow> entry_ok (progress_entry gw data)"
  by (auto simp: progress_entry_def Let_def intro!: entry_ok_dset)

lemma entry_ok_stopped: "entry_ok gw \<Longrightarrow> entry_ok (stopped_entry gw)"
  by (auto simp: stopped_entry_def intro!: entry_ok_dset)

definition allocation_ok :: "allocation \<Rightarrow> bool" where
  "allocation_ok al = (truthy (al_ip al) \<and> jsonable (al_ip al) \<and> jsonable (al_room al) \<and> jsonable (al_browsing al))"

lemma entry_ok_started:
  assumes "allocation_ok al" and "gw = [] \<or> entry_ok gw"
  shows "entry_ok (started_entry al gw)"
proof -
  have "entry_ok (if gw \<noteq> [] then gw else [(''gw_ip'', al_ip al)])"
    using assms by (auto simp: allocation_ok_def entry_ok_def)
  then show ?thesis
    using assms(1) unfolding started_entry_def Let_def allocation_ok_def
    by (intro entry_ok_dset) simp_all
qed

lemma jsonable_new_entry: "jsonable (PDict (new_entry now))"
  by (simp add: new_entry_def)

lemma entry_ok_registered:
  assumes "truthy ip" "jsonable ip" "jsonable ty" and "gw = [] \<or> entry_ok gw"
  shows "entry_ok (registered_entry now ip ty gw)"
proof -
  have "jsonable (PDict (if gw = [] then new_entry now else gw))"
    using assms(4) jsonable_new_entry by (auto simp: entry_ok_def)
  with assms show ?thesis
    unfolding entry_ok_def registered_entry_def Let_def
    by (simp only: jsonable_dset dget_dset) simp
qed

section \<open>The registry interface\<close>

definition sound_entries :: "('s \<Rightarrow> string \<Rightarrow> bool) \<Rightarrow> ('s \<Rightarrow> string \<Rightarrow> pydict) \<Rightarrow> 's \<Rightarrow> bool" where
  "sound_entries present entry s =
     (\<forall>k. prefix ''gateway:'' k \<longrightarrow> present s k \<longrightarrow> entry_ok (entry s k))"

locale registry =
  fixes present :: "'s \<Rightarrow> string \<Rightarrow> bool"
    and entry :: "'s \<Rightarrow> string \<Rightarrow> pydict"
    and save :: "'s \<Rightarrow> string \<Rightarrow> pydict \<Rightarrow> 's"
    and remove :: "'s \<Rightarrow> string \<Rightarrow> 's"
  assumes present_save: "present (save s k gw) k' = (k' = k \<or> present s k')"
    and entry_save: "jsonable (PDict gw) \<Longrightarrow> entry (save s k gw) k' = (if k' = k then gwOrdered gw else entry s k')"
    and present_remove: "present (remove s k) k' = (k' \<noteq> k \<and> present s k')"
    and entry_remove: "entry (remove s k) k' = (if k' = k then [] else entry s k')"
    and absent_entry: "\<not> present s k \<Longrightarrow> entry s k = []"
begin

lemma sound_save:
  assumes "sound_entries present entry s" and "entry_ok gw"
  shows "sound_entries present entry (save s k gw)"
  using assms entry_ok_gwOrdered [OF assms(2)] unfolding sound_entries_def
  by (auto simp: present_save entry_save entry_ok_def simp del: jsonable.simps)

lemma sound_remove:
  assumes "sound_entries present entry s"
  shows "sound_entries present entry (remove s k)"
  using assms unfolding sound_entries_def by (simp add: present_remove entry_remove)

lemma sound_entry:
  assumes "sound_entries present entry s" and "prefix ''gateway:'' k"
  shows "entry s k = [] \<or> entry_ok (entry s k)"
  using assms absent_entry unfolding sound_entries_def by blast


end

definition gw_present :: "'s redis_ops \<Rightarrow> 's \<Rightarrow> string \<Rightarrow> bool" where
  "gw_present R s k = (r_get R s k \<noteq> None)"

definition gw_entry :: "'s redis_ops \<Rightarrow> 's \<Rightarrow> string \<Rightarrow> pydict" where
  "gw_entry R s k = gwLoad (r_get R s k)"

definition gw_save :: "'s redis_ops \<Rightarrow> 's \<Rightarrow> string \<Rightarrow> pydict \<Rightarrow> 's" where
  "gw_save R s k gw = r_set R s k (gwDump gw)"

definition registry_ok :: "'s redis_ops \<Rightarrow> 's \<Rightarrow> bool" where
  "registry_ok R s = sound_entries (gw_present R) (gw_entry R) s"

sublocale redis_laws < reg: registry "gw_present R" "gw_entry R" "gw_save R" "r_delete R"
  by unfold_locales
     (auto simp: gw_present_def gw_entry_def gw_save_def store_simps gwLoad_gwDump simp del: jsonable.simps)

lemma gw_key_prefix [simp]: "prefix ''gateway:'' (gw_key i)"
  by (simp add: gw_key_def)

lemma gw_key_inject [simp]: "gw_key i = gw_key j \<longleftrightarrow> i = j"
  by (simp add: gw_key_def)

lemma other_keys [simp]:
  "\<not> prefix ''gateway:'' (pairing_key c)" "\<not> prefix ''gateway:'' (tries_key a)"
  "gw_key i \<noteq> pairing_key c" "gw_key i \<noteq> tries_key a" "pairing_key c \<noteq> tries_key a"
  "pairing_key c = pairing_key d \<longleftrightarrow> c = d" "tries_key a = tries_key b \<longleftrightarrow> a = b"
  by (simp_all add: gw_key_def pairing_key_def tries_key_def)

end
