(* ===== verification/Proxy_Steps.thy ===== *)
theory Proxy_Steps
  imports Proxy_Registry
begin

text \<open>
  The proxy as a transition system. The event loop runs one coroutine at a time and may serve
  another request wherever a coroutine awaits a gateway's answer, so the state is the store and
  the calls in flight: a start, a stop or a poll that has read Redis and not yet written its
  result. The time to live of a key ends in the step \<open>expire\<close>.
\<close>

datatype call_task =
    Starting allocation
  | Stopping pyval pydict
  | Polling string pydict

record 's proxy_state =
  px_store :: 's
  px_calls :: "call_task list"

text \<open>A body as the decoder gives it: nothing but JSON without floats, whose text is exact.\<close>

definition clean_body :: "request \<Rightarrow> bool" where
  "clean_body rq = (case rq_body rq of Inr b \<Rightarrow> jsonable b | Inl _ \<Rightarrow> True)"

definition stop_begin :: "'s redis_ops \<Rightarrow> request \<Rightarrow> 's \<Rightarrow> (pyval \<times> pydict) option" where
  "stop_begin R rq s =
     (case required rq ''gw_id'' of
        Inl _ \<Rightarrow> None
      | Inr gw_id \<Rightarrow>
          (case r_get R s (gw_key (py_str gw_id)) of
             None \<Rightarrow> None
           | Some raw \<Rightarrow> if raw = [] \<or> \<not> dmem (gwLoad (Some raw)) ''gw_ip'' then None
                          else Some (gw_id, gwLoad (Some raw))))"

definition poll_begin :: "'s redis_ops \<Rightarrow> string \<Rightarrow> 's \<Rightarrow> (string \<times> pydict) option" where
  "poll_begin R key s =
     (case r_get R s key of
        None \<Rightarrow> None
      | Some raw \<Rightarrow> if raw = [] \<or> \<not> truthy (dget (gwLoad (Some raw)) ''gw_ip'') then None
                     else Some (key_id key, gwLoad (Some raw)))"

definition call_end :: "'s redis_ops \<Rightarrow> call_task \<Rightarrow> exn + http_reply \<Rightarrow> 's \<Rightarrow> 's" where
  "call_end R t reply s =
     (case t of
        Starting al \<Rightarrow> snd (start_finish R al reply s)
      | Stopping gw_id gw \<Rightarrow> snd (stop_finish R gw_id gw reply s)
      | Polling gw_id gw \<Rightarrow> fetchAndStoreGatewayStatus R gw_id gw (bindE reply rp_json) s)"

inductive proxy_step :: "'s redis_ops \<Rightarrow> proxy_cfg \<Rightarrow> 's proxy_state \<Rightarrow> 's proxy_state \<Rightarrow> bool"
  for R :: "'s redis_ops" and cfg :: proxy_cfg where
  register: "clean_body rq \<Longrightarrow> registerGateway R cfg rnd now rq (px_store st) = (answer, s') \<Longrightarrow>
     proxy_step R cfg st (st\<lparr>px_store := s'\<rparr>)"
| unregister: "unregisterGateway R cfg rq (px_store st) = (answer, s') \<Longrightarrow>
     proxy_step R cfg st (st\<lparr>px_store := s'\<rparr>)"
| resolve: "pairingResolve R cfg rq (px_store st) = (answer, s') \<Longrightarrow>
     proxy_step R cfg st (st\<lparr>px_store := s'\<rparr>)"
| visit: "interact R cfg rq (px_store st) = (answer, s') \<Longrightarrow>
     proxy_step R cfg st (st\<lparr>px_store := s'\<rparr>)"
| start_called: "clean_body rq \<Longrightarrow> authorize cfg rq \<Longrightarrow> start_alloc R rq (px_store st) = Inr al \<Longrightarrow>
     proxy_step R cfg st (st\<lparr>px_calls := Starting al # px_calls st\<rparr>)"
| stop_called: "authorize cfg rq \<Longrightarrow> stop_begin R rq (px_store st) = Some (gw_id, gw) \<Longrightarrow>
     proxy_step R cfg st (st\<lparr>px_calls := Stopping gw_id gw # px_calls st\<rparr>)"
| poll_called: "prefix ''gateway:'' key \<Longrightarrow> poll_begin R key (px_store st) = Some (gw_id, gw) \<Longrightarrow>
     proxy_step R cfg st (st\<lparr>px_calls := Polling gw_id gw # px_calls st\<rparr>)"
| answered_call: "t \<in> set (px_calls st) \<Longrightarrow>
     proxy_step R cfg st (st\<lparr>px_store := call_end R t reply (px_store st), px_calls := remove1 t (px_calls st)\<rparr>)"
| expire: "\<not> prefix ''gateway:'' key \<Longrightarrow>
     proxy_step R cfg st (st\<lparr>px_store := r_delete R (px_store st) key\<rparr>)"

inductive_cases proxy_stepE: "proxy_step R cfg st st'"

inductive proxy_reachable :: "'s redis_ops \<Rightarrow> proxy_cfg \<Rightarrow> 's proxy_state \<Rightarrow> bool"
  for R :: "'s redis_ops" and cfg :: proxy_cfg where
  booted: "registry_ok R s \<Longrightarrow> proxy_reachable R cfg \<lparr>px_store = s, px_calls = []\<rparr>"
| stepped: "proxy_reachable R cfg st \<Longrightarrow> proxy_step R cfg st st' \<Longrightarrow> proxy_reachable R cfg st'"

text \<open>The requests of the routes are these steps when nothing happens during the call.\<close>

lemma startGateway_steps:
  assumes "authorize cfg rq" and "start_alloc R rq s = Inr al"
  shows "snd (startGateway R cfg net rq s) = call_end R (Starting al) (start_call net rq al) s"
  using assms by (simp add: startGateway_def call_end_def)

lemma stopGateway_steps:
  assumes "authorize cfg rq" and "stop_begin R rq s = Some (gw_id, gw)"
  shows "\<exists>reply. snd (stopGateway R cfg net rq s) = call_end R (Stopping gw_id gw) reply s"
  using assms
  by (auto simp: stopGateway_def stop_begin_def call_end_def Let_def dindex_def dmem_def
           split: sum.splits option.splits if_splits)

lemma monitor_key_steps:
  "monitor_key R poll s key =
     (case poll_begin R key s of
        None \<Rightarrow> s
      | Some (gw_id, gw) \<Rightarrow> fetchAndStoreGatewayStatus R gw_id gw (poll gw_id (py_str (dget gw ''gw_ip''))) s)"
  by (simp add: monitor_key_def poll_begin_def Let_def split: option.split)

section \<open>Every route keeps the registry sound\<close>

context redis_laws
begin

lemma scan_gateway_key: "k \<in> set (r_scan R s ''gateway:'') \<longleftrightarrow> prefix ''gateway:'' k \<and> gw_present R s k"
  by (simp add: scan_keys gw_present_def)

lemma registry_save: "registry_ok R s \<Longrightarrow> entry_ok gw \<Longrightarrow> registry_ok R (r_set R s k (gwDump gw))"
  using reg.sound_save by (simp add: registry_ok_def gw_save_def)

lemma registry_delete: "registry_ok R s \<Longrightarrow> registry_ok R (r_delete R s k)"
  using reg.sound_remove by (simp add: registry_ok_def)

lemma registry_entry:
  assumes "registry_ok R s" and "prefix ''gateway:'' k"
  shows "gwLoad (r_get R s k) = [] \<or> entry_ok (gwLoad (r_get R s k))"
  using reg.sound_entry [OF assms [unfolded registry_ok_def]] by (simp add: gw_entry_def)

lemma registry_entry_key:
  assumes "registry_ok R s"
  shows "gwLoad (r_get R s (gw_key i)) = [] \<or> entry_ok (gwLoad (r_get R s (gw_key i)))"
  using registry_entry [OF assms gw_key_prefix] .

lemma registry_present:
  "registry_ok R s \<Longrightarrow> prefix ''gateway:'' k \<Longrightarrow> r_get R s k = Some raw \<Longrightarrow> entry_ok (gwLoad (Some raw))"
  unfolding registry_ok_def sound_entries_def gw_present_def gw_entry_def by fastforce

lemma registry_same_gateways:
  assumes "registry_ok R s" and "\<And>k. prefix ''gateway:'' k \<Longrightarrow> r_get R s' k = r_get R s k"
  shows "registry_ok R s'"
  using assms unfolding registry_ok_def sound_entries_def gw_present_def gw_entry_def by simp

lemma entry_ok_dindex: "entry_ok gw \<Longrightarrow> dindex gw ''gw_ip'' = Inr (dget gw ''gw_ip'')"
  unfolding entry_ok_def by (cases "map_of gw ''gw_ip''") (simp_all add: dget_def dindex_def)

lemma ball_subset_Cons: "\<forall>x \<in> set (y # ys). P x \<Longrightarrow> \<forall>x \<in> set ys. P x"
  by simp

lemma find_available_ok:
  assumes "registry_ok R s" and "\<forall>k \<in> set ks. prefix ''gateway:'' k \<and> gw_present R s k"
  shows "find_available R s ks =
     Inr (map_option (\<lambda>k. (k, dget (gwLoad (r_get R s k)) ''gw_ip''))
            (find (\<lambda>k. free_state (dget (gwLoad (r_get R s k)) ''gw_state'')) ks))"
  using assms(2)
proof (induction ks)
  case (Cons k ks)
  from Cons.prems have k: "prefix ''gateway:'' k" "gw_present R s k" by simp_all
  from k(2) obtain raw where raw: "r_get R s k = Some raw" unfolding gw_present_def by blast
  from registry_present [OF assms(1) k(1) raw] have ip: "dindex (gwLoad (Some raw)) ''gw_ip'' = Inr (dget (gwLoad (Some raw)) ''gw_ip'')"
    by (rule entry_ok_dindex)
  note IH = Cons.IH [OF ball_subset_Cons [OF Cons.prems]]
  show ?case by (simp add: raw ip IH)
qed simp

lemma findAvailableGateway_ok:
  assumes "registry_ok R s"
  shows "findAvailableGateway R s =
     Inr (map_option (\<lambda>k. (k, dget (gwLoad (r_get R s k)) ''gw_ip''))
            (find (\<lambda>k. free_state (dget (gwLoad (r_get R s k)) ''gw_state'')) (r_scan R s ''gateway:'')))"
  unfolding findAvailableGateway_def
  by (rule find_available_ok [OF assms]) (simp add: scan_gateway_key)

lemma register_pairing_same:
  assumes "register_pairing R fresh d s = (r, s1)" and "prefix ''gateway:'' k"
  shows "r_get R s1 k = r_get R s k"
  using assms get_setex other_keys(1) [of fresh]
  by (auto simp: register_pairing_def new_pairing_def Let_def split: sum.splits if_splits)

lemma registerGateway_ok:
  assumes ok: "registry_ok R s" and body: "clean_body rq"
    and run: "registerGateway R cfg rnd now rq s = (answer, s')"
  shows "registry_ok R s'"
proof -
  have "registry_ok R s'" if reg: "register_body R fresh now (rq_body rq) s = (a, s')" for fresh a
  proof (cases "rq_body rq")
    case (Inr b)
    show ?thesis
    proof (cases b)
      case (PDict d)
      obtain r s1 where pair: "register_pairing R fresh d s = (r, s1)" by fastforce
      have ok1: "registry_ok R s1"
        using registry_same_gateways [OF ok] register_pairing_same [OF pair] by blast
      have js: "jsonable (PDict d)" using body Inr PDict by (simp add: clean_body_def)
      have "entry_ok (registered_entry now (dget d ''gw_ip'') (dget_def_val d ''gw_type'' (PStr ''media''))
              (gwLoad (r_get R s1 (gw_key i))))" if "truthy (dget d ''gw_ip'')" for i
        using that js registry_entry_key [OF ok1]
        by (intro entry_ok_registered jsonable_dget jsonable_dget_def) auto
      then have saved: "registry_ok R (r_set R s1 (gw_key i) (gwDump (registered_entry now (dget d ''gw_ip'')
              (dget_def_val d ''gw_type'' (PStr ''media'')) (gwLoad (r_get R s1 (gw_key i))))))"
        if "truthy (dget d ''gw_ip'')" for i
        using that by (intro registry_save [OF ok1]) simp
      have "s' = s1 \<or> (\<exists>i. truthy (dget d ''gw_ip'') \<and> s' = r_set R s1 (gw_key i) (gwDump (registered_entry now (dget d ''gw_ip'')
              (dget_def_val d ''gw_type'' (PStr ''media'')) (gwLoad (r_get R s1 (gw_key i))))))"
        using reg Inr PDict by (cases r) (auto simp: register_body_def Let_def pair split: prod.splits if_splits)
      with saved ok1 show ?thesis by blast
    qed (use reg Inr ok in \<open>auto simp: register_body_def\<close>)
  qed (use reg ok in \<open>auto simp: register_body_def\<close>)
  with run ok show ?thesis
    by (cases "register_body R (generatePairingCode rnd) now (rq_body rq) s")
       (auto simp: registerGateway_def split: if_splits sum.splits)
qed

lemma unregisterGateway_ok:
  "registry_ok R s \<Longrightarrow> unregisterGateway R cfg rq s = (answer, s') \<Longrightarrow> registry_ok R s'"
  using registry_delete by (auto simp: unregisterGateway_def split: if_splits sum.splits)

lemma noteFailedCodeTry_same:
  assumes "noteFailedCodeTry R cfg rq s = Inr s'" and "prefix ''gateway:'' k"
    and "tooManyCodeTries R cfg rq s = Inr b"
  shows "r_get R s' k = r_get R s k"
proof (cases "codeTryLimit cfg \<le> 0")
  case False
  then obtain n where n: "counter_value (r_get R s (tries_key (callerAddress cfg rq))) = Some n"
    using assms(3) by (auto simp: tooManyCodeTries_def split: option.splits)
  from get_incr [OF n] obtain s1 where incr: "r_incr R s (tries_key (callerAddress cfg rq)) = Inr (n + 1, s1)"
    and s1: "\<forall>k'. r_get R s1 k' = (if k' = tries_key (callerAddress cfg rq) then Some (int_str (n + 1)) else r_get R s k')"
    by blast
  have "s' = s1 \<or> s' = r_expire R s1 (tries_key (callerAddress cfg rq)) (codeTryWindow cfg)"
    using assms(1) incr False by (simp add: noteFailedCodeTry_def Let_def split: if_splits)
  then have "r_get R s' k = r_get R s1 k" using get_expire by blast
  moreover have "k \<noteq> tries_key (callerAddress cfg rq)" using assms(2) other_keys(2) by blast
  ultimately show ?thesis using s1 by simp
qed (use assms(1) in \<open>simp add: noteFailedCodeTry_def\<close>)

lemma after_note_ok:
  assumes "registry_ok R s" and "after_note (noteFailedCodeTry R cfg rq s) s a = (answer, s')"
    and "tooManyCodeTries R cfg rq s = Inr b"
  shows "registry_ok R s'"
  using assms(2) registry_same_gateways [OF assms(1) noteFailedCodeTry_same [OF _ _ assms(3)]] assms(1)
  by (auto simp: after_note_def split: sum.splits)

lemma pairingResolve_ok:
  "registry_ok R s \<Longrightarrow> pairingResolve R cfg rq s = (answer, s') \<Longrightarrow> registry_ok R s'"
  using after_note_ok
  by (auto simp: pairingResolve_def Let_def split: sum.splits bool.splits option.splits if_splits)

lemma interact_ok:
  "registry_ok R s \<Longrightarrow> interact R cfg rq s = (answer, s') \<Longrightarrow> registry_ok R s'"
  using after_note_ok
  by (auto simp: interact_def Let_def split: sum.splits bool.splits option.splits if_splits)

fun task_ok :: "call_task \<Rightarrow> bool" where
  "task_ok (Starting al) = allocation_ok al"
| "task_ok (Stopping gw_id gw) = entry_ok gw"
| "task_ok (Polling gw_id gw) = entry_ok gw"

lemma start_finish_ok:
  "registry_ok R s \<Longrightarrow> allocation_ok al \<Longrightarrow> registry_ok R (snd (start_finish R al reply s))"
  using registry_save entry_ok_started registry_entry_key
  by (auto simp: start_finish_def split: sum.splits prod.splits)

lemma stop_finish_ok:
  "registry_ok R s \<Longrightarrow> entry_ok gw \<Longrightarrow> registry_ok R (snd (stop_finish R gw_id gw reply s))"
  using registry_save entry_ok_stopped
  by (auto simp: stop_finish_def split: sum.splits prod.splits bool.splits)

lemma fetch_ok:
  "registry_ok R s \<Longrightarrow> entry_ok gw \<Longrightarrow> registry_ok R (fetchAndStoreGatewayStatus R gw_id gw reply s)"
proof -
  assume ok: "registry_ok R s" and gw: "entry_ok gw"
  have upd: "registry_ok R s'" if "updateProgressInfo R gw_id gw d s = Inr s'" for d s'
    using that registry_save [OF ok entry_ok_progress [OF gw]]
    by (cases d) (auto simp: updateProgressInfo_def)
  show ?thesis
    using upd registry_delete [OF ok]
    by (auto simp: fetchAndStoreGatewayStatus_def bindE_eq_Inr_iff split: sum.split if_splits)
qed

lemma call_end_ok:
  "registry_ok R s \<Longrightarrow> task_ok t \<Longrightarrow> registry_ok R (call_end R t reply s)"
  by (cases t) (simp_all add: call_end_def start_finish_ok stop_finish_ok fetch_ok)

lemma start_alloc_ok:
  assumes "registry_ok R s" and "clean_body rq" and "start_alloc R rq s = Inr al"
  shows "allocation_ok al"
proof -
  have req: "jsonable v" if "required rq name = Inr v" for name v
    using that assms(2)
    by (auto simp: required_def json_body_def clean_body_def bindE_eq_Inr_iff py_get_def
             intro: jsonable_dget simp del: jsonable.simps split: sum.splits pyval.splits if_splits)
  have found: "truthy (dget (gwLoad (r_get R s k)) ''gw_ip'') \<and> jsonable (dget (gwLoad (r_get R s k)) ''gw_ip'')"
    if "find P (r_scan R s ''gateway:'') = Some k" for k P
  proof -
    have "k \<in> set (r_scan R s ''gateway:'')" using that by (auto simp: find_Some_iff dest: nth_mem)
    then obtain raw where "prefix ''gateway:'' k" "r_get R s k = Some raw"
      by (auto simp: scan_gateway_key gw_present_def)
    with registry_present [OF assms(1) this] show ?thesis
      unfolding entry_ok_def using jsonable_dget by simp
  qed
  from assms(3) found req show ?thesis
    by (auto simp: start_alloc_def bindE_eq_Inr_iff findAvailableGateway_ok [OF assms(1)] allocation_ok_def
             simp del: jsonable.simps split: option.splits)
qed

lemma stop_begin_ok:
  assumes "registry_ok R s" and "stop_begin R rq s = Some (gw_id, gw)"
  shows "entry_ok gw"
  using assms(2) registry_present [OF assms(1) gw_key_prefix]
  by (auto simp: stop_begin_def split: sum.splits option.splits if_splits)

lemma poll_begin_ok:
  assumes "registry_ok R s" and "prefix ''gateway:'' key" and "poll_begin R key s = Some (gw_id, gw)"
  shows "entry_ok gw"
  using assms(3) registry_present [OF assms(1,2)]
  by (auto simp: poll_begin_def split: option.splits if_splits)

lemma proxy_step_ok:
  assumes "proxy_step R cfg st st'"
    and "registry_ok R (px_store st)" and "\<forall>t \<in> set (px_calls st). task_ok t"
  shows "registry_ok R (px_store st') \<and> (\<forall>t \<in> set (px_calls st'). task_ok t)"
  using assms
proof (cases rule: proxy_step.cases)
  case (register rq rnd now answer s')
  then show ?thesis using assms registerGateway_ok by auto
next
  case (unregister rq answer s')
  then show ?thesis using assms unregisterGateway_ok by auto
next
  case (resolve rq answer s')
  then show ?thesis using assms pairingResolve_ok by auto
next
  case (visit rq answer s')
  then show ?thesis using assms interact_ok by auto
next
  case (start_called rq al)
  then show ?thesis using assms start_alloc_ok by auto
next
  case (stop_called rq gw_id gw)
  then show ?thesis using assms stop_begin_ok by auto
next
  case (poll_called key gw_id gw)
  then show ?thesis using assms poll_begin_ok by auto
next
  case (answered_call t reply)
  then show ?thesis using assms call_end_ok set_remove1_subset [of t "px_calls st"] by auto
next
  case (expire key)
  then show ?thesis using assms registry_delete by simp
qed

lemma proxy_reachable_ok:
  "proxy_reachable R cfg st \<Longrightarrow> registry_ok R (px_store st) \<and> (\<forall>t \<in> set (px_calls st). task_ok t)"
  by (induction rule: proxy_reachable.induct) (simp, blast dest: proxy_step_ok)

end

end
