(* ===== verification/Proxy_Props.thy ===== *)
theory Proxy_Props
  imports Proxy_Steps
begin

text \<open>
  The properties of the proxy. The store is any \<open>R\<close> that keeps the documented behaviour of Redis
  (\<open>redis_laws R\<close>); the witnesses run on the store in memory. The lemmas before each property are
  those its proof composes.
\<close>

section \<open>The registry\<close>

text \<open>
  C1. In every state the proxy can reach, whatever the order in which the answers of the gateways
  come back, every \<open>gateway:*\<close> key holds a dictionary with an address.
\<close>
theorem registry_sound:
  assumes "redis_laws R" and "proxy_reachable R cfg st"
  shows "registry_ok R (px_store st)"
  using redis_laws.proxy_reachable_ok [OF assms] by blast

definition wit_cfg :: proxy_cfg where
  "wit_cfg = \<lparr>allowedToken = ''1234'', adminToken = ''adm'', roomToken = [], codeTryLimit = 2,
     codeTryWindow = 60, trustForwarded = False, asset_exists = (\<lambda>_. True)\<rparr>"

definition wit_rq :: "string \<Rightarrow> pydict \<Rightarrow> request" where
  "wit_rq m b = \<lparr>rq_method = m, rq_url = ''/'', rq_headers = [(''authorization'', ''Bearer 1234'')],
     rq_query = [], rq_client = Some ''10.0.0.1'', rq_body = Inr (PDict b)\<rparr>"

definition wit_register :: request where
  "wit_register = wit_rq ''POST'' [(''gw_id'', PStr ''g1''), (''gw_ip'', PStr ''10.0.0.9''), (''pairing_timeout'', PInt 60)]"

definition wit_store :: mem where
  "wit_store = snd (registerGateway mem_redis wit_cfg (\<lambda>_. 0) ''now'' wit_register [])"

lemma registry_ok_empty: "registry_ok mem_redis []"
  by (simp add: registry_ok_def sound_entries_def gw_present_def)

lemma wit_reachable: "proxy_reachable mem_redis wit_cfg \<lparr>px_store = wit_store, px_calls = []\<rparr>"
proof -
  have "clean_body wit_register" by (simp add: clean_body_def wit_register_def wit_rq_def)
  then have "proxy_step mem_redis wit_cfg \<lparr>px_store = [], px_calls = []\<rparr>
      (\<lparr>px_store = [], px_calls = []\<rparr>\<lparr>px_store := wit_store\<rparr>)"
    by (rule proxy_step.register [where rnd = "\<lambda>_. 0" and now = "''now''"]) (simp add: wit_store_def prod_eq_iff)
  with proxy_reachable.booted [OF registry_ok_empty] show ?thesis
    by (auto dest: proxy_reachable.stepped)
qed

lemma registry_sound_witness: "registry_ok mem_redis wit_store"
  using registry_sound [OF mem.redis_laws_axioms wit_reachable] by simp

section \<open>Allocation\<close>

lemma free_state_cleanPart: "free_state (cleanPart v) = free_state v"
  by (auto simp: free_state_def cleanPart_def)

lemma deriveState_free: "deriveState gw = ''free'' \<longleftrightarrow> free_state (dget gw ''gw_state'')"
  using free_state_cleanPart [of "dget gw ''gw_state''"] by (simp add: deriveState_def Let_def)

text \<open>
  In a sound registry the search behind \<open>/start\<close> never raises: it answers the first scanned key
  whose entry is created or stopped, with that entry's address, and nothing exactly when no
  gateway is free.
\<close>
theorem find_available_first_free:
  assumes "redis_laws R" and "registry_ok R s"
  shows "findAvailableGateway R s =
     Inr (map_option (\<lambda>k. (k, dget (gwLoad (r_get R s k)) ''gw_ip''))
            (find (\<lambda>k. deriveState (gwLoad (r_get R s k)) = ''free'') (r_scan R s ''gateway:'')))"
proof -
  show ?thesis
    using redis_laws.findAvailableGateway_ok [OF assms] by (simp add: deriveState_free)
qed

lemma wit_store_code: "wit_store =
   [(''pairing:AAAAA'', ''g1''), (''gateway:g1'', gwDump (registered_entry ''now'' (PStr ''10.0.0.9'') (PStr ''media'') []))]"
  by (simp add: wit_store_def registerGateway_def authorize_def bearer_def hdr_def wit_register_def wit_rq_def
      wit_cfg_def startswith_def after_space_def split1_def register_body_def Let_def register_pairing_def
      new_pairing_def mem_setex_def pairing_key_def gw_key_def generatePairingCode_def pairing_alphabet_def
      dget_def_val_def upt_rec)

lemma wit_entry_read: "gwLoad (map_of wit_store ''gateway:g1'') =
    gwOrdered (registered_entry ''now'' (PStr ''10.0.0.9'') (PStr ''media'') [])"
  by (simp add: wit_store_code gwLoad_gwDump registered_entry_def new_entry_def)

lemma find_available_first_free_witness:
  "findAvailableGateway mem_redis wit_store = Inr (Some (''gateway:g1'', PStr ''10.0.0.9''))"
  using find_available_first_free [OF mem.redis_laws_axioms registry_sound_witness]
  by (simp add: wit_store_code deriveState_free gwLoad_gwDump free_state_def registered_entry_def new_entry_def)

lemma find_SomeD: "find P xs = Some x \<Longrightarrow> x \<in> set xs \<and> P x"
  by (auto simp: find_Some_iff)

lemma started_not_free: "\<not> free_state (dget (started_entry al gw) ''gw_state'')"
  by (simp add: started_entry_def Let_def free_state_def)

context redis_laws
begin

lemma start_alloc_found:
  assumes "registry_ok R s" and "start_alloc R rq s = Inr al"
  shows "\<exists>k. prefix ''gateway:'' k \<and> gw_present R s k \<and> al_id al = key_id k
           \<and> free_state (dget (gwLoad (r_get R s k)) ''gw_state'')"
proof -
  obtain k where f: "find (\<lambda>k. free_state (dget (gwLoad (r_get R s k)) ''gw_state'')) (r_scan R s ''gateway:'') = Some k"
    and "al_id al = key_id k"
    using assms(2) by (auto simp: start_alloc_def bindE_eq_Inr_iff findAvailableGateway_ok [OF assms(1)] split: option.splits)
  with find_SomeD [OF f] scan_gateway_key show ?thesis by blast
qed

lemma start_finish_store:
  "start_finish R al reply s = (Inr r, s') \<Longrightarrow>
     s' = r_set R s (gw_key (al_id al)) (gwDump (started_entry al (gwLoad (r_get R s (gw_key (al_id al))))))"
  by (auto simp: start_finish_def split: sum.splits prod.splits if_splits)

lemma starts_differ:
  assumes ok: "registry_ok R s" and body: "clean_body rq"
    and ids: "\<forall>k \<in> set (r_scan R s ''gateway:''). gw_key (key_id k) = k"
    and alloc: "start_alloc R rq s = Inr al" and fin: "start_finish R al reply s = (Inr r, s')"
    and again: "start_alloc R rq' s' = Inr al'"
  shows "al_id al' \<noteq> al_id al"
proof
  assume same: "al_id al' = al_id al"
  note al = start_alloc_ok [OF ok body alloc]
  define gw where "gw = started_entry al (gwLoad (r_get R s (gw_key (al_id al))))"
  have s': "s' = r_set R s (gw_key (al_id al)) (gwDump gw)"
    unfolding gw_def by (rule start_finish_store [OF fin])
  have gw: "entry_ok gw"
    unfolding gw_def by (rule entry_ok_started [OF al registry_entry_key [OF ok]])
  obtain k where k: "prefix ''gateway:'' k" "gw_present R s' k" "al_id al' = key_id k"
    and free: "free_state (dget (gwLoad (r_get R s' k)) ''gw_state'')"
    using start_alloc_found [OF _ again] start_finish_ok [OF ok al, of reply] fin by fastforce
  have "k = gw_key (al_id al) \<or> k \<in> set (r_scan R s ''gateway:'')"
    using k by (auto simp: s' gw_present_def get_set scan_gateway_key split: if_splits)
  then have "k = gw_key (al_id al)" using k(3) same ids by auto
  with free gw show False
    using started_not_free by (simp add: s' get_set gwLoad_gwDump entry_ok_def gw_def del: jsonable.simps)
qed

end

text \<open>
  C27. Two starts served one after the other never get the same gateway: once \<open>/start\<close> has
  answered, the entry it wrote is not free. The identifiers hold no colon, as \<open>key.split(":")[-1]\<close>
  would cut them.
\<close>
theorem successive_starts_differ:
  assumes "redis_laws R" and "registry_ok R s" and "clean_body rq"
    and "\<forall>k \<in> set (r_scan R s ''gateway:''). gw_key (key_id k) = k"
    and "start_alloc R rq s = Inr al" and "start_finish R al reply s = (Inr r, s')"
    and "start_alloc R rq' s' = Inr al'"
  shows "al_id al' \<noteq> al_id al"
  by (rule redis_laws.starts_differ [OF assms])

definition wit_entry_of :: "string \<Rightarrow> pydict" where
  "wit_entry_of ip = registered_entry ''now'' (PStr ip) (PStr ''media'') []"

definition wit_pool :: mem where
  "wit_pool = [(''gateway:g1'', gwDump (wit_entry_of ''10.0.0.1'')), (''gateway:g2'', gwDump (wit_entry_of ''10.0.0.2''))]"

definition wit_start :: "string \<Rightarrow> request" where
  "wit_start room = wit_rq ''POST'' [(''browsing'', PStr ''visio''), (''room'', PStr room), (''main_app'', PStr ''baresip'')]"

definition wit_reply :: http_reply where
  "wit_reply = \<lparr>rp_status = 200, rp_json = Inr (PDict [(''status'', PStr ''success'')]), rp_content = ''x'', rp_ctype = None\<rparr>"

definition wit_alloc :: "string \<Rightarrow> string \<Rightarrow> string \<Rightarrow> allocation" where
  "wit_alloc i ip room = \<lparr>al_id = i, al_ip = PStr ip, al_room = PStr room, al_browsing = PStr ''visio''\<rparr>"

lemma wit_alloc_id [simp]: "al_id (wit_alloc i ip r) = i"
  by (simp add: wit_alloc_def)

lemma wit_entry_not_Nil [simp]: "wit_entry_of ip \<noteq> []"
  by (simp add: wit_entry_of_def registered_entry_def)

lemma jsonable_wit_entry: "jsonable (PDict (wit_entry_of ip))"
  by (simp add: wit_entry_of_def registered_entry_def new_entry_def)

lemma entry_ok_wit_entry: "ip \<noteq> [] \<Longrightarrow> entry_ok (wit_entry_of ip)"
  by (simp add: entry_ok_def wit_entry_of_def registered_entry_def new_entry_def)

lemma gwLoad_wit_entry [simp]: "gwLoad (Some (gwDump (wit_entry_of ip))) = gwOrdered (wit_entry_of ip)"
  by (rule gwLoad_gwDump [OF jsonable_wit_entry])

lemma wit_entry_fields [simp]:
  "dget (wit_entry_of ip) ''gw_ip'' = PStr ip" "dget (wit_entry_of ip) ''gw_state'' = PStr ''created''"
  "dindex (gwOrdered (wit_entry_of ip)) ''gw_ip'' = Inr (PStr ip)"
  by (simp_all add: wit_entry_of_def registered_entry_def new_entry_def dindex_def)

lemma key_id_wit [simp]: "key_id ''gateway:g1'' = ''g1''" "key_id ''gateway:g2'' = ''g2''"
  by code_simp+

lemma gw_key_wit [simp]: "gw_key ''g1'' = ''gateway:g1''" "gw_key ''g2'' = ''gateway:g2''"
  by (simp_all add: gw_key_def)

lemma registry_ok_wit_pool: "registry_ok mem_redis wit_pool"
proof -
  have "wit_pool = r_set mem_redis (r_set mem_redis [] ''gateway:g1'' (gwDump (wit_entry_of ''10.0.0.1'')))
          ''gateway:g2'' (gwDump (wit_entry_of ''10.0.0.2''))"
    by (simp add: wit_pool_def)
  then show ?thesis
    using mem.registry_save registry_ok_empty entry_ok_wit_entry by (metis list.distinct(1))
qed

lemma required_wit: "required (wit_start room) ''room'' = (if room = [] then Inl (missing ''room'') else Inr (PStr room))"
  "required (wit_start room) ''browsing'' = Inr (PStr ''visio'')"
  "required (wit_start room) ''main_app'' = Inr (PStr ''baresip'')"
  by (simp_all add: required_def json_body_def wit_start_def wit_rq_def)

lemma wit_first_alloc:
  "room \<noteq> [] \<Longrightarrow> start_alloc mem_redis (wit_start room) wit_pool = Inr (wit_alloc ''g1'' ''10.0.0.1'' room)"
  by (simp add: start_alloc_def required_wit findAvailableGateway_def wit_pool_def free_state_def wit_alloc_def)

lemma wit_first_finish:
  "start_finish mem_redis al (Inr wit_reply) s =
     (Inr (JSON 200 (PDict [(''status'', PStr ''success'')])),
      dset (gw_key (al_id al)) (gwDump (started_entry al (gwLoad (map_of s (gw_key (al_id al)))))) s)"
  by (simp add: start_finish_def wit_reply_def)

lemma wit_clean: "clean_body (wit_start room)"
  by (simp add: clean_body_def wit_start_def wit_rq_def)

definition wit_after :: mem where
  "wit_after = snd (start_finish mem_redis (wit_alloc ''g1'' ''10.0.0.1'' ''r1'') (Inr wit_reply) wit_pool)"

lemma gwLoad_started_wit: "gwLoad (Some (gwDump (started_entry (wit_alloc i ip r) (gwOrdered (wit_entry_of ip'))))) =
    gwOrdered (started_entry (wit_alloc i ip r) (gwOrdered (wit_entry_of ip')))"
  using jsonable_gwOrdered [OF jsonable_wit_entry, of ip']
  by (intro gwLoad_gwDump) (simp add: started_entry_def Let_def wit_alloc_def jsonable_dset del: jsonable.simps(5))

lemma wit_second_alloc:
  "start_alloc mem_redis (wit_start ''r2'') wit_after = Inr (wit_alloc ''g2'' ''10.0.0.2'' ''r2'')"
proof -
  have ip: "dindex (gwOrdered (started_entry (wit_alloc i ip r) (gwOrdered (wit_entry_of ip')))) ''gw_ip'' = Inr (PStr ip')"
    for i ip r ip'
    by (simp add: dindex_def started_entry_def Let_def update_conv) (simp add: wit_entry_of_def registered_entry_def new_entry_def)
  have "start_alloc mem_redis (wit_start ''r2'') wit_after = Inr \<lparr>al_id = ''g2'', al_ip = PStr ''10.0.0.2'',
      al_room = PStr ''r2'', al_browsing = PStr ''visio''\<rparr>"
    by (simp add: wit_after_def wit_first_finish start_alloc_def required_wit findAvailableGateway_def)
       (simp add: wit_pool_def gwLoad_started_wit ip started_not_free Let_def free_state_def [of "PStr ''created''"])
  then show ?thesis by (simp add: wit_alloc_def)
qed

lemma successive_starts_differ_witness:
  "al_id (wit_alloc ''g2'' ''10.0.0.2'' ''r2'') \<noteq> al_id (wit_alloc ''g1'' ''10.0.0.1'' ''r1'')"
proof -
  have "\<forall>k \<in> set (r_scan mem_redis wit_pool ''gateway:''). gw_key (key_id k) = k"
    by (simp add: wit_pool_def)
  from successive_starts_differ [OF mem.redis_laws_axioms registry_ok_wit_pool wit_clean this wit_first_alloc _ wit_second_alloc]
  show ?thesis by (simp add: wit_first_finish wit_after_def)
qed

text \<open>
  Two starts that overlap do get the same gateway: the allocation is read before the gateway is
  called and written after it, and the event loop serves the second request in between. Both
  conferences are then told they started, on one gateway.
\<close>
theorem concurrent_starts_collide:
  "\<exists>st al al' r r'. proxy_reachable mem_redis wit_cfg st
     \<and> px_calls st = [Starting al', Starting al]
     \<and> al_id al = al_id al' \<and> al_room al \<noteq> al_room al'
     \<and> fst (start_finish mem_redis al (Inr wit_reply) (px_store st)) = Inr r \<and> status_code r = 200
     \<and> fst (start_finish mem_redis al' (Inr wit_reply)
             (snd (start_finish mem_redis al (Inr wit_reply) (px_store st)))) = Inr r' \<and> status_code r' = 200"
proof -
  let ?al = "\<lambda>room. wit_alloc ''g1'' ''10.0.0.1'' room"
  let ?st = "\<lambda>calls. \<lparr>px_store = wit_pool, px_calls = calls\<rparr>"
  have auth: "authorize wit_cfg (wit_start room)" for room
    by (simp add: authorize_def bearer_def hdr_def wit_start_def wit_rq_def wit_cfg_def startswith_def
        after_space_def split1_def)
  have step: "proxy_step mem_redis wit_cfg (?st calls) (?st (Starting (?al room) # calls))" if "room \<noteq> []" for room calls
    using proxy_step.start_called [OF wit_clean auth, of mem_redis room "?st calls"] wit_first_alloc [OF that] by simp
  have "proxy_reachable mem_redis wit_cfg (?st [Starting (?al ''r1'')])"
    using proxy_reachable.stepped [OF proxy_reachable.booted [OF registry_ok_wit_pool] step [of "''r1''"]] by simp
  then have "proxy_reachable mem_redis wit_cfg (?st [Starting (?al ''r2''), Starting (?al ''r1'')])"
    using proxy_reachable.stepped [OF _ step [of "''r2''"]] by simp
  moreover have "al_room (?al ''r1'') \<noteq> al_room (?al ''r2'')" by (simp add: wit_alloc_def)
  ultimately show ?thesis
    by (intro exI [of _ "?st [Starting (?al ''r2''), Starting (?al ''r1'')]"] exI [of _ "?al ''r1''"]
          exI [of _ "?al ''r2''"]) (simp add: wit_first_finish)
qed

section \<open>Registration\<close>

context redis_laws
begin

lemma register_entry_kept:
  assumes ok: "registry_ok R s" and body: "clean_body rq"
    and run: "registerGateway R cfg rnd now rq s = (answer, s')"
    and known: "gwLoad (r_get R s (gw_key i)) \<noteq> []" and f: "f \<noteq> ''gw_ip''" "f \<noteq> ''gw_type''"
  shows "dget (gwLoad (r_get R s' (gw_key i))) f = dget (gwLoad (r_get R s (gw_key i))) f"
proof -
  have "dget (gwLoad (r_get R s' (gw_key i))) f = dget (gwLoad (r_get R s (gw_key i))) f"
    if reg: "register_body R fresh now (rq_body rq) s = (a, s')" for fresh a
  proof (cases "rq_body rq")
    case (Inr b)
    show ?thesis
    proof (cases b)
      case (PDict d)
      obtain r s1 where pair: "register_pairing R fresh d s = (r, s1)" by fastforce
      have same: "r_get R s1 (gw_key j) = r_get R s (gw_key j)" for j
        using register_pairing_same [OF pair gw_key_prefix] .
      have js: "jsonable (PDict d)" using body Inr PDict by (simp add: clean_body_def)
      let ?e = "\<lambda>j. registered_entry now (dget d ''gw_ip'') (dget_def_val d ''gw_type'' (PStr ''media''))
                  (gwLoad (r_get R s (gw_key j)))"
      have kept: "dget (gwLoad (Some (gwDump (?e i)))) f = dget (gwLoad (r_get R s (gw_key i))) f"
        if "truthy (dget d ''gw_ip'')"
      proof -
        have "entry_ok (?e i)"
          using that js registry_entry_key [OF ok]
          by (intro entry_ok_registered jsonable_dget jsonable_dget_def) auto
        then have "jsonable (PDict (?e i))" by (simp only: entry_ok_def)
        then show ?thesis using known f by (simp add: gwLoad_gwDump registered_entry_def Let_def del: jsonable.simps)
      qed
      have "s' = s1 \<or> (\<exists>j. truthy (dget d ''gw_ip'') \<and> s' = r_set R s1 (gw_key j) (gwDump (?e j)))"
        using reg Inr PDict same by (cases r) (auto simp: register_body_def Let_def pair split: prod.splits if_splits)
      then show ?thesis using kept same by (auto simp: get_set)
    qed (use reg Inr in \<open>auto simp: register_body_def\<close>)
  qed (use reg in \<open>auto simp: register_body_def\<close>)
  with run show ?thesis
    by (cases "register_body R (generatePairingCode rnd) now (rq_body rq) s")
       (auto simp: registerGateway_def split: if_splits sum.splits)
qed

end

text \<open>
  A registration changes only the address and the kind of a gateway already known: what the
  monitor and the calls wrote in its entry, and every other entry, reads as before.
\<close>
theorem reregistration_keeps_entry:
  assumes "redis_laws R" and "registry_ok R s" and "clean_body rq"
    and "registerGateway R cfg rnd now rq s = (answer, s')"
    and "gwLoad (r_get R s (gw_key i)) \<noteq> []" and "f \<noteq> ''gw_ip''" and "f \<noteq> ''gw_type''"
  shows "dget (gwLoad (r_get R s' (gw_key i))) f = dget (gwLoad (r_get R s (gw_key i))) f"
  by (rule redis_laws.register_entry_kept [OF assms])

lemma reregistration_keeps_entry_witness:
  "dget (gwLoad (map_of (snd (registerGateway mem_redis wit_cfg (\<lambda>_. 1) ''later'' wit_register wit_store)) ''gateway:g1''))
     ''start_time'' = PStr ''now''"
proof -
  have body: "clean_body wit_register" by (simp add: clean_body_def wit_register_def wit_rq_def)
  have known: "gwLoad (r_get mem_redis wit_store (gw_key ''g1'')) \<noteq> []"
    by (simp add: wit_entry_read) (simp add: registered_entry_def)
  from reregistration_keeps_entry [OF mem.redis_laws_axioms registry_sound_witness body _ known, of wit_cfg "\<lambda>_. 1" "''later''"
      _ _ "''start_time''", OF prod.collapse [symmetric]]
  show ?thesis by (simp add: wit_entry_read) (simp add: registered_entry_def new_entry_def)
qed

section \<open>Pairing codes\<close>

context redis_laws
begin

lemma register_pairing_codes:
  assumes "register_pairing R fresh d s = (r, s1)" and "c \<noteq> fresh"
  shows "r_get R s1 (pairing_key c) = r_get R s (pairing_key c)"
  using assms(1) get_setex assms(2)
  by (auto simp: register_pairing_def new_pairing_def Let_def split: sum.splits if_splits)

lemma register_body_codes:
  assumes "register_body R fresh now body s = (a, s')" and "c \<noteq> fresh"
  shows "r_get R s' (pairing_key c) = r_get R s (pairing_key c)"
proof -
  have "s' = s \<or> (\<exists>d r s1. register_pairing R fresh d s = (r, s1) \<and> (s' = s1 \<or> (\<exists>j e. s' = r_set R s1 (gw_key j) e)))"
    using assms(1) by (fastforce simp: register_body_def Let_def split: sum.splits prod.splits if_splits)
  then show ?thesis
    using register_pairing_codes [OF _ assms(2)] other_keys(3) by (metis get_set)
qed

lemma register_live_code:
  assumes run: "register_body R fresh now (Inr (PDict d)) s = (Inr r, s')"
    and code: "dget d ''pairing_code'' = PStr c" "c \<noteq> []" and live: "r_get R s (pairing_key c) = Some g"
  shows "(\<forall>c'. r_get R s' (pairing_key c') = r_get R s (pairing_key c'))
       \<and> r = JSON 200 (PDict [(''status'', PStr ''success''), (''gw_id'', PStr g), (''gw_ip'', dget d ''gw_ip''), (''pairing_code'', PStr c)])"
proof -
  have "register_pairing R fresh d s = (Inr (PStr c, PStr g), s)"
    using code live by (simp add: register_pairing_def exists_get opt_val_def)
  then show ?thesis
    using run other_keys(3) [symmetric]
    by (auto simp: register_body_def Let_def get_set split: if_splits)
qed

end

text \<open>
  A registration that presents a live pairing code keeps every code bound as it was and is
  answered with the code's owner: presenting someone else's code takes nothing over.
\<close>
theorem live_code_never_rebinds:
  assumes "redis_laws R" and "authorize cfg rq" and "rq_body rq = Inr (PDict d)"
    and "dget d ''pairing_code'' = PStr c" and "c \<noteq> []" and "r_get R s (pairing_key c) = Some g"
    and "registerGateway R cfg rnd now rq s = (Inr r, s')"
  shows "(\<forall>c'. r_get R s' (pairing_key c') = r_get R s (pairing_key c'))
       \<and> r = JSON 200 (PDict [(''status'', PStr ''success''), (''gw_id'', PStr g), (''gw_ip'', dget d ''gw_ip''), (''pairing_code'', PStr c)])"
  using assms(7) redis_laws.register_live_code [OF assms(1) _ assms(4-6)]
  by (auto simp: registerGateway_def assms(2,3) split: sum.splits prod.splits)

definition wit_steal :: request where
  "wit_steal = wit_rq ''POST'' [(''gw_id'', PStr ''g2''), (''gw_ip'', PStr ''10.0.0.8''), (''pairing_code'', PStr ''AAAAA'')]"

lemma live_code_never_rebinds_witness:
  "map_of (snd (registerGateway mem_redis wit_cfg (\<lambda>_. 1) ''later'' wit_steal wit_store)) ''pairing:AAAAA'' = Some ''g1''"
proof -
  have auth: "authorize wit_cfg wit_steal"
    by (simp add: authorize_def bearer_def hdr_def wit_steal_def wit_rq_def wit_cfg_def startswith_def
        after_space_def split1_def)
  let ?run = "registerGateway mem_redis wit_cfg (\<lambda>_. 1) ''later'' wit_steal wit_store"
  have "\<exists>r. fst ?run = Inr r"
    using auth by (simp add: registerGateway_def register_body_def wit_steal_def wit_rq_def Let_def register_pairing_def
        wit_store_code pairing_key_def opt_val_def)
  then obtain r where "?run = (Inr r, snd ?run)" by (metis prod.collapse)
  from live_code_never_rebinds [OF mem.redis_laws_axioms auth _ _ _ _ this, of _ "''AAAAA''" "''g1''"]
  show ?thesis by (simp add: wit_steal_def wit_rq_def) (simp add: wit_store_code pairing_key_def)
qed

text \<open>
  The code a registration draws is not checked against the live ones: when the draw repeats the
  code of another gateway, that code leads to the newcomer from then on.
\<close>
theorem drawn_code_takes_over:
  "\<exists>s rq answer s'. r_get mem_redis s (pairing_key ''AAAAA'') = Some ''g1''
     \<and> registerGateway mem_redis wit_cfg (\<lambda>_. 0) ''now'' rq s = (Inr answer, s')
     \<and> status_code answer = 200 \<and> r_get mem_redis s' (pairing_key ''AAAAA'') = Some ''g2''"
proof -
  let ?rq = "wit_rq ''POST'' [(''gw_id'', PStr ''g2''), (''gw_ip'', PStr ''10.0.0.8''), (''pairing_timeout'', PInt 60)]"
  have auth: "authorize wit_cfg ?rq"
    by (simp add: authorize_def bearer_def hdr_def wit_rq_def wit_cfg_def startswith_def after_space_def split1_def)
  show ?thesis
    using auth
    by (intro exI [of _ wit_store] exI [of _ ?rq])
       (simp add: registerGateway_def register_body_def wit_rq_def Let_def register_pairing_def new_pairing_def
          mem_setex_def wit_store_code pairing_key_def generatePairingCode_def pairing_alphabet_def gw_key_def upt_rec)
qed

section \<open>Tokens\<close>

text \<open>
  Where an admin token is set, Basic credentials open the admin listing exactly when their
  password is the token, whatever the user name: the header is decoded back to what the client
  encoded.
\<close>
theorem basic_credentials_decide:
  assumes "adminToken cfg \<noteq> []" and "CHR '':'' \<notin> set user" and "valid_utf8 (user @ CHR '':'' # pw)"
    and "hdr rq ''authorization'' = Some (''Basic '' @ b64encode (user @ CHR '':'' # pw))"
  shows "authorizeAdmin cfg rq \<longleftrightarrow> pw = adminToken cfg"
proof -
  let ?cred = "b64encode (user @ CHR '':'' # pw)"
  have "split1 '' '' (''Basic'' @ CHR '' '' # ?cred) = Some (''Basic'', ?cred)"
    by (rule split1_char) simp
  then have "after_space (''Basic '' @ ?cred) = ?cred" by (simp add: after_space_def)
  moreover have "basic_password ?cred = Some pw"
    using assms(2,3) by (simp add: basic_password_def b64decode_b64encode split1_char)
  ultimately show ?thesis
    using assms(1,4) by (simp add: authorizeAdmin_def startswith_def)
qed

lemma basic_credentials_decide_witness:
  "authorizeAdmin wit_cfg ((wit_rq ''GET'' [])\<lparr>rq_headers := [(''authorization'', ''Basic '' @ b64encode ''ops:adm'')]\<rparr>)"
proof -
  have "valid_utf8 (''ops'' @ CHR '':'' # ''adm'')" by code_simp
  from basic_credentials_decide [OF _ _ this, of wit_cfg "(wit_rq ''GET'' [])\<lparr>rq_headers := [(''authorization'', ''Basic '' @ b64encode ''ops:adm'')]\<rparr>"]
  show ?thesis by (simp add: wit_cfg_def hdr_def)
qed

section \<open>The limit on wrong codes\<close>

lemma strip_underscores_digits: "s \<noteq> [] \<Longrightarrow> \<forall>c \<in> set s. is_digit c \<Longrightarrow> strip_underscores s = Some s"
proof (induction s rule: strip_underscores.induct)
  case (3 c d s)
  then have "d \<noteq> CHR ''_''" by (auto simp: is_digit_def)
  with 3 show ?case by simp
qed simp_all

lemma digit_not_space: "is_digit c \<Longrightarrow> \<not> is_space c"
  by (auto simp: is_digit_def is_space_def)

lemma strip_digits: "\<forall>c \<in> set s. is_digit c \<Longrightarrow> str_strip s = s"
  unfolding str_strip_def by (rule strip_by_none) (blast dest: digit_not_space)

lemma py_int_str_nat_str: "py_int_str (nat_str n) = Some (int n)"
proof -
  have d: "\<forall>c \<in> set (nat_str n). is_digit c" using nat_str_digits by blast
  obtain c t where ct: "nat_str n = c # t" by (cases "nat_str n") simp_all
  then have "is_digit c" using d by simp
  then have "c \<noteq> CHR ''-''" "c \<noteq> CHR ''+''" by (auto simp: is_digit_def)
  then show ?thesis
    using strip_underscores_digits [OF _ d] strip_digits [OF d] digits_val_nat_str [of n] ct
    by (simp add: py_int_str_def)
qed

lemma counter_value_int_str: "0 \<le> i \<Longrightarrow> counter_value (Some (int_str i)) = Some i"
  using py_int_str_nat_str [of "nat i"] by (simp add: counter_value_def int_str_def)

definition typed_code :: "request \<Rightarrow> string" where
  "typed_code rq = (case py_get (case rq_body rq of Inr b \<Rightarrow> b | Inl _ \<Rightarrow> PDict []) ''code'' of
     Inr c \<Rightarrow> str_upper (str_strip (py_str (py_or c (PStr [])))) | Inl _ \<Rightarrow> [])"

text \<open>An attempt from \<open>addr\<close> whose body is readable and whose code is not live in \<open>s\<close>.\<close>

definition wrong_attempt :: "'s redis_ops \<Rightarrow> proxy_cfg \<Rightarrow> string \<Rightarrow> 's \<Rightarrow> request \<Rightarrow> bool" where
  "wrong_attempt R cfg addr s rq =
     (callerAddress cfg rq = addr \<and> (case rq_body rq of Inr b \<Rightarrow> is_dict b | Inl _ \<Rightarrow> True)
      \<and> (typed_code rq = [] \<or> live_code R s (typed_code rq) = None))"

fun resolve_all :: "'s redis_ops \<Rightarrow> proxy_cfg \<Rightarrow> request list \<Rightarrow> 's \<Rightarrow> int list \<times> 's" where
  "resolve_all R cfg [] s = ([], s)"
| "resolve_all R cfg (rq # rqs) s =
     (let (a, s1) = pairingResolve R cfg rq s; (codes, s2) = resolve_all R cfg rqs s1
      in (status_code (answered a) # codes, s2))"

context redis_laws
begin

lemma tries_below:
  assumes "0 < codeTryLimit cfg" and "counter_value (r_get R s (tries_key (callerAddress cfg rq))) = Some n"
  shows "tooManyCodeTries R cfg rq s = Inr (codeTryLimit cfg \<le> n)"
  using assms by (simp add: tooManyCodeTries_def)

lemma noted:
  assumes "0 < codeTryLimit cfg" and "0 \<le> n"
    and "counter_value (r_get R s (tries_key (callerAddress cfg rq))) = Some n"
  shows "\<exists>s'. noteFailedCodeTry R cfg rq s = Inr s' \<and> (\<forall>c. live_code R s' c = live_code R s c)
           \<and> counter_value (r_get R s' (tries_key (callerAddress cfg rq))) = Some (n + 1)"
proof -
  from get_incr [OF assms(3)] obtain s1 where incr: "r_incr R s (tries_key (callerAddress cfg rq)) = Inr (n + 1, s1)"
    and s1: "\<forall>k'. r_get R s1 k' = (if k' = tries_key (callerAddress cfg rq) then Some (int_str (n + 1)) else r_get R s k')"
    by blast
  show ?thesis
    using assms(1,2) s1
    by (auto simp: noteFailedCodeTry_def Let_def incr get_expire live_code_def counter_value_int_str)
qed

lemma wrong_attempt_answer:
  assumes lim: "0 < codeTryLimit cfg" and n: "0 \<le> n"
    and cnt: "counter_value (r_get R s (tries_key addr)) = Some n" and w: "wrong_attempt R cfg addr s rq"
  shows "\<exists>a s'. pairingResolve R cfg rq s = (a, s') \<and> (\<forall>c. live_code R s' c = live_code R s c)
     \<and> (if codeTryLimit cfg \<le> n then status_code (answered a) = 429 \<and> s' = s
        else status_code (answered a) = 404 \<and> counter_value (r_get R s' (tries_key addr)) = Some (n + 1))"
proof -
  have addr: "callerAddress cfg rq = addr" using w by (simp add: wrong_attempt_def)
  note many = tries_below [OF lim, of s rq n, unfolded addr, OF cnt]
  obtain s1 where s1: "noteFailedCodeTry R cfg rq s = Inr s1" "\<forall>c. live_code R s1 c = live_code R s c"
    "counter_value (r_get R s1 (tries_key addr)) = Some (n + 1)"
    using noted [OF lim n, of s rq, unfolded addr, OF cnt] by blast
  show ?thesis
  proof (cases "codeTryLimit cfg \<le> n")
    case True
    with many show ?thesis by (simp add: pairingResolve_def error_json_def answered_def)
  next
    case False
    obtain c where c: "py_get (case rq_body rq of Inr b \<Rightarrow> b | Inl _ \<Rightarrow> PDict []) ''code'' = Inr c"
      using w by (auto simp: wrong_attempt_def is_dict_def py_get_def split: sum.splits pyval.splits)
    with w have "typed_code rq = [] \<or> live_code R s (typed_code rq) = None" "typed_code rq = str_upper (str_strip (py_str (py_or c (PStr []))))"
      by (auto simp: wrong_attempt_def typed_code_def)
    then have "pairingResolve R cfg rq s = (Inr (error_json 404 ''Unknown pairing code''), s1)"
      using many False c s1(1) by (auto simp: pairingResolve_def Let_def after_note_def)
    with False s1 show ?thesis by (simp add: error_json_def answered_def)
  qed
qed

lemma wrong_attempts_limited:
  assumes lim: "0 < codeTryLimit cfg" and "0 \<le> n" and "n \<le> codeTryLimit cfg"
    and "counter_value (r_get R s (tries_key addr)) = Some n" and "\<forall>rq \<in> set rqs. wrong_attempt R cfg addr s rq"
  shows "fst (resolve_all R cfg rqs s) =
     replicate (min (length rqs) (nat (codeTryLimit cfg - n))) 404
       @ replicate (length rqs - nat (codeTryLimit cfg - n)) 429"
  using assms(2-)
proof (induction rqs arbitrary: s n)
  case (Cons rq rqs)
  from Cons.prems have w: "wrong_attempt R cfg addr s rq" by simp
  obtain a s1 where run: "pairingResolve R cfg rq s = (a, s1)" and live: "\<forall>c. live_code R s1 c = live_code R s c"
    and res: "if codeTryLimit cfg \<le> n then status_code (answered a) = 429 \<and> s1 = s
        else status_code (answered a) = 404 \<and> counter_value (r_get R s1 (tries_key addr)) = Some (n + 1)"
    using wrong_attempt_answer [OF lim Cons.prems(1,3) w] by blast
  have later: "\<forall>rq \<in> set rqs. wrong_attempt R cfg addr s1 rq"
    using Cons.prems(4) live by (simp add: wrong_attempt_def)
  show ?case
  proof (cases "codeTryLimit cfg \<le> n")
    case True
    then show ?thesis
      using Cons.IH [OF Cons.prems(1-3)] Cons.prems(2,4) res run by (simp add: case_prod_beta)
  next
    case False
    then have "nat (codeTryLimit cfg - n) = Suc (nat (codeTryLimit cfg - (n + 1)))" by simp
    then show ?thesis
      using Cons.IH [of "n + 1" s1] Cons.prems(1) False res run later by (simp add: case_prod_beta)
  qed
qed simp

end


definition wit_try :: request where
  "wit_try = wit_rq ''POST'' [(''code'', PStr ''zzzzz'')]"


section \<open>Resolving an endpoint\<close>

text \<open>The gateway of \<open>key\<close>, when it serves \<open>wanted\<close>.\<close>

definition serves :: "'s redis_ops \<Rightarrow> 's \<Rightarrow> string \<Rightarrow> string \<Rightarrow> serving option" where
  "serves R s wanted key =
     (let gw = gwLoad (r_get R s key) in
      case cleanPart (dget gw ''peer_uri'') of
        PStr u \<Rightarrow> if u \<noteq> [] \<and> str_lower (normalizeSipUri u) = wanted
                  then Some \<lparr>sv_id = key_id key, sv_room = cleanPart (dget gw ''room''),
                             sv_browsing = cleanPart (dget gw ''browsing''),
                             sv_started = py_or (cleanPart (dget gw ''call_started'')) (PStr [])\<rparr>
                  else None
      | _ \<Rightarrow> None)"

definition not_later :: "serving \<Rightarrow> serving \<Rightarrow> bool" where
  "not_later a b = (py_gt (sv_started a) (sv_started b) = Inr False)"

lemma not_later_trans: "not_later a b \<Longrightarrow> not_later b c \<Longrightarrow> not_later a c"
  by (cases "sv_started a"; cases "sv_started b"; cases "sv_started c")
     (auto simp: not_later_def py_gt_def)

lemma not_later_replaced:
  "py_gt (sv_started c) (sv_started b) = Inr True \<Longrightarrow> not_later b c"
  by (cases "sv_started b"; cases "sv_started c") (auto simp: not_later_def py_gt_def)

lemma serves_raw:
  "r_get R s key = None \<Longrightarrow> serves R s w key = None"
  "r_get R s key = Some [] \<Longrightarrow> serves R s w key = None"
  by (simp_all add: serves_def Let_def cleanPart_def)

lemma cleanPart_empty: "cleanPart v = PStr u \<Longrightarrow> u \<noteq> []"
  by (auto simp: cleanPart_def split: if_splits)

definition serving_of :: "string \<Rightarrow> pydict \<Rightarrow> serving" where
  "serving_of key gw = \<lparr>sv_id = key_id key, sv_room = cleanPart (dget gw ''room''),
     sv_browsing = cleanPart (dget gw ''browsing''),
     sv_started = py_or (cleanPart (dget gw ''call_started'')) (PStr [])\<rparr>"

lemma best_serving_step:
  assumes "best_serving R s w best (key # keys) = Inr r"
  shows "case serves R s w key of
           None \<Rightarrow> best_serving R s w best keys = Inr r
         | Some cand \<Rightarrow>
             (case best of
                None \<Rightarrow> best_serving R s w (Some cand) keys = Inr r
              | Some b \<Rightarrow>
                  (\<exists>later. py_gt (sv_started cand) (sv_started b) = Inr later
                     \<and> best_serving R s w (if later then Some cand else best) keys = Inr r))"
proof (cases "\<exists>raw. r_get R s key = Some raw \<and> raw \<noteq> []")
  case False
  then have "serves R s w key = None" using serves_raw by (cases "r_get R s key") auto
  with assms False show ?thesis by (cases "r_get R s key") simp_all
next
  case True
  then obtain raw where raw: "r_get R s key = Some raw" "raw \<noteq> []" by blast
  define gw where "gw = gwLoad (Some raw)"
  define v where "v = cleanPart (dget gw ''peer_uri'')"
  have run: "best_serving R s w best (key # keys) =
      (if \<not> truthy v then best_serving R s w best keys
       else bindE (as_str v) (\<lambda>u. if str_lower (normalizeSipUri u) \<noteq> w then best_serving R s w best keys
         else (case best of None \<Rightarrow> best_serving R s w (Some (serving_of key gw)) keys
               | Some b \<Rightarrow> bindE (py_gt (sv_started (serving_of key gw)) (sv_started b)) (\<lambda>later.
                   best_serving R s w (if later then Some (serving_of key gw) else best) keys))))"
    by (simp add: raw Let_def serving_of_def gw_def v_def cong: if_cong option.case_cong)
  note got = assms [unfolded run]
  have srv: "serves R s w key = (case v of
      PStr u \<Rightarrow> if u \<noteq> [] \<and> str_lower (normalizeSipUri u) = w then Some (serving_of key gw) else None | _ \<Rightarrow> None)"
    by (simp only: serves_def Let_def raw(1) gw_def v_def serving_of_def)
  show ?thesis
  proof (cases v)
    case (PStr u)
    show ?thesis
    proof (cases "u \<noteq> [] \<and> str_lower (normalizeSipUri u) = w")
      case True
      with got srv PStr show ?thesis by (cases best) (simp_all add: bindE_eq_Inr_iff)
    next
      case False
      with got srv PStr show ?thesis by (auto split: if_splits)
    qed
  qed (use got srv in \<open>simp_all add: as_str_def split: if_splits\<close>)
qed

definition latest :: "serving \<Rightarrow> serving set \<Rightarrow> bool" where
  "latest b C = (b \<in> C \<and> (\<forall>a \<in> C. a = b \<or> not_later a b))"

lemma latest_insert: "latest b C \<Longrightarrow> x \<in> C \<Longrightarrow> not_later y x \<Longrightarrow> latest b (insert y C)"
  unfolding latest_def by (metis insert_iff not_later_trans)

definition candidates :: "'s redis_ops \<Rightarrow> 's \<Rightarrow> string \<Rightarrow> string list \<Rightarrow> serving set" where
  "candidates R s w keys = {a. \<exists>k \<in> set keys. serves R s w k = Some a}"

lemma candidates_Cons:
  "candidates R s w (k # ks) = (case serves R s w k of None \<Rightarrow> candidates R s w ks | Some a \<Rightarrow> insert a (candidates R s w ks))"
  by (auto simp: candidates_def split: option.split)

lemma best_serving_latest:
  "best_serving R s w best keys = Inr r \<Longrightarrow>
     (case r of None \<Rightarrow> best = None \<and> candidates R s w keys = {}
      | Some b \<Rightarrow> latest b (set_option best \<union> candidates R s w keys))"
proof (induction keys arbitrary: best)
  case Nil
  then show ?case by (cases r) (simp_all add: candidates_def latest_def)
next
  case (Cons key keys)
  note step = best_serving_step [OF Cons.prems]
  show ?case
  proof (cases "serves R s w key")
    case None
    with step Cons.IH [of best] show ?thesis by (cases r) (simp_all add: candidates_Cons)
  next
    case (Some cand)
    show ?thesis
    proof (cases best)
      case None
      with Some step Cons.IH [of "Some cand"] show ?thesis by (cases r) (simp_all add: candidates_Cons)
    next
      case best: (Some b0)
      then obtain later where gt: "py_gt (sv_started cand) (sv_started b0) = Inr later"
        and rest: "best_serving R s w (if later then Some cand else best) keys = Inr r"
        using step Some by auto
      from Cons.IH [OF rest] best obtain b where r: "r = Some b"
        and b: "latest b (insert (if later then cand else b0) (candidates R s w keys))"
        by (cases r) (simp_all split: if_splits)
      have "not_later (if later then b0 else cand) (if later then cand else b0)"
        using gt not_later_replaced by (simp add: not_later_def)
      from latest_insert [OF b _ this] show ?thesis
        using best Some r by (cases later) (simp_all add: candidates_Cons insert_commute)
    qed
  qed
qed

lemma best_serving_no_http: "best_serving R s w best keys = Inl e \<Longrightarrow> e \<noteq> HTTPException c m"
proof (induction keys arbitrary: best)
  case (Cons key keys)
  have "as_str v \<noteq> Inl (HTTPException c m)" for v
    by (cases v) (auto simp: as_str_def)
  moreover have "py_gt v w \<noteq> Inl (HTTPException c m)" for v w
    by (cases v; cases w) (auto simp: py_gt_def)
  ultimately show ?case
    using Cons by (auto simp: Let_def bindE_eq_Inl_iff split: option.splits if_splits)
qed simp

text \<open>
  C29. \<open>/gateway_id\<close> answers a gateway that serves the endpoint and whose call is the latest of
  those that do, and 404 only when no gateway serves it; the address is compared in the form
  \<open>normalizeSipUri\<close> gives it, in lower case.
\<close>
theorem gateway_id_is_latest_call:
  assumes "authorizeRoom cfg rq" and "peer_uri \<noteq> []"
  shows "case gatewayIdFromPeerUri R cfg rq peer_uri s of
       Inr r \<Rightarrow> \<exists>b. latest b (candidates R s (str_lower (normalizeSipUri peer_uri)) (r_scan R s ''gateway:''))
                 \<and> r = JSON 200 (PDict [(''gw_id'', PStr (sv_id b)), (''room'', sv_room b), (''browsing'', sv_browsing b)])
     | Inl e \<Rightarrow> status_code (http_exception_handler e) = 404 \<longrightarrow>
                 candidates R s (str_lower (normalizeSipUri peer_uri)) (r_scan R s ''gateway:'') = {}"
proof (cases "best_serving R s (str_lower (normalizeSipUri peer_uri)) None (r_scan R s ''gateway:'')")
  case (Inr best)
  with best_serving_latest [OF Inr] assms show ?thesis
    by (cases best) (auto simp: gatewayIdFromPeerUri_def)
next
  case (Inl e)
  then have "\<And>c m. e \<noteq> HTTPException c m" by (rule best_serving_no_http)
  with Inl assms show ?thesis
    by (cases e) (auto simp: gatewayIdFromPeerUri_def http_exception_handler_def)
qed

definition wit_call :: "string \<Rightarrow> string \<Rightarrow> pydict" where
  "wit_call ip started = [(''gw_ip'', PStr ip), (''peer_uri'', PStr ''room@x''), (''call_started'', PStr started)]"

lemma gwLoad_wit_call [simp]: "gwLoad (Some (gwDump (wit_call ip t))) = wit_call ip t"
  by (subst gwLoad_gwDump) (simp_all add: wit_call_def gwOrdered_def gwFields_def dmem_def)

lemma wit_call_fields [simp]:
  "dget (wit_call ip t) ''peer_uri'' = PStr ''room@x''" "dget (wit_call ip t) ''call_started'' = PStr t"
  "dget (wit_call ip t) ''room'' = PNone" "dget (wit_call ip t) ''browsing'' = PNone"
  by (simp_all add: wit_call_def)

definition wit_calls :: mem where
  "wit_calls = [(''gateway:g1'', gwDump (wit_call ''10.0.0.1'' ''2024'')), (''gateway:g2'', gwDump (wit_call ''10.0.0.2'' ''2025''))]"

lemma gateway_id_is_latest_call_witness:
  "\<exists>b. latest b (candidates mem_redis wit_calls ''sip:room@x'' [''gateway:g1'', ''gateway:g2'']) \<and> sv_id b = ''g2''"
proof -
  let ?cfg = "wit_cfg\<lparr>roomToken := ''room''\<rparr>"
  have auth: "authorizeRoom ?cfg (wit_rq ''GET'' [])"
    by (simp add: authorizeRoom_def bearer_def hdr_def wit_rq_def wit_cfg_def startswith_def after_space_def split1_def)
  have norm: "normalizeSipUri ''room@x'' = ''sip:room@x''" "str_lower ''sip:room@x'' = ''sip:room@x''"
    by code_simp+
  have run: "gatewayIdFromPeerUri mem_redis ?cfg (wit_rq ''GET'' []) ''room@x'' wit_calls =
      Inr (JSON 200 (PDict [(''gw_id'', PStr ''g2''), (''room'', PNone), (''browsing'', PNone)]))"
    by (simp add: gatewayIdFromPeerUri_def auth norm wit_calls_def Let_def)
       (simp add: cleanPart_def norm py_gt_def Let_def)
  have scan: "r_scan mem_redis wit_calls ''gateway:'' = [''gateway:g1'', ''gateway:g2'']"
    by (simp add: wit_calls_def)
  from gateway_id_is_latest_call [OF auth, of "''room@x''" mem_redis wit_calls]
  show ?thesis by (auto simp add: run norm scan simp del: mem_redis_simps)
qed

section \<open>The monitor\<close>

text \<open>What the answer to a poll makes of an entry: nothing when the gateway is to be forgotten.\<close>

definition poll_outcome :: "pydict \<Rightarrow> exn + pyval \<Rightarrow> pydict option" where
  "poll_outcome gw reply =
     (case reply of
        Inr (PDict d) \<Rightarrow>
          (if dget d ''status'' = PStr ''success''
           then (case dget d ''data'' of PDict dd \<Rightarrow> Some (progress_entry gw dd) | _ \<Rightarrow> None)
           else None)
      | _ \<Rightarrow> None)"

lemma fetch_outcome:
  "fetchAndStoreGatewayStatus R i gw reply s =
     (case poll_outcome gw reply of
        Some e \<Rightarrow> r_set R s (gw_key i) (gwDump e)
      | None \<Rightarrow> r_delete R s (gw_key i))"
  by (auto simp: fetchAndStoreGatewayStatus_def poll_outcome_def updateProgressInfo_def py_get_def
           split: sum.splits pyval.splits)

definition polled_value :: "(string \<Rightarrow> string \<Rightarrow> exn + pyval) \<Rightarrow> string \<Rightarrow> string option \<Rightarrow> string option" where
  "polled_value poll key raw =
     (let gw = gwLoad raw in
      if truthy (dget gw ''gw_ip'')
      then map_option gwDump (poll_outcome gw (poll (key_id key) (py_str (dget gw ''gw_ip''))))
      else raw)"

context redis_laws
begin

lemma monitor_key_value:
  assumes "gw_key (key_id key) = key"
  shows "r_get R (monitor_key R poll s key) k = (if k = key then polled_value poll key (r_get R s key) else r_get R s k)"
proof (cases "r_get R s key")
  case None
  then show ?thesis by (simp add: monitor_key_def polled_value_def Let_def)
next
  case (Some raw)
  then show ?thesis
    using assms
    by (auto simp: monitor_key_def polled_value_def Let_def fetch_outcome get_set get_delete split: option.split)
qed

lemma monitor_keys_value:
  assumes "distinct keys" and "\<forall>key \<in> set keys. gw_key (key_id key) = key"
  shows "r_get R (foldl (monitor_key R poll) s keys) k =
     (if k \<in> set keys then polled_value poll k (r_get R s k) else r_get R s k)"
  using assms
proof (induction keys arbitrary: s)
  case (Cons key keys)
  then show ?case by (auto simp: monitor_key_value)
qed simp

end



text \<open>
  A poll in flight brings an unregistered gateway back: the monitor writes the entry it read
  before the call, and \<open>/unregister\<close>, served in between, has already answered that it is gone.
\<close>
theorem unregistered_gateway_returns:
  "\<exists>st st' answer s' reply. proxy_reachable mem_redis wit_cfg st
     \<and> px_calls st = [Polling ''g1'' (gwLoad (map_of (px_store st) ''gateway:g1''))]
     \<and> unregisterGateway mem_redis wit_cfg (wit_rq ''POST'' [(''gw_id'', PStr ''g1'')]) (px_store st) = (Inr answer, s')
     \<and> status_code answer = 200 \<and> map_of s' ''gateway:g1'' = None
     \<and> proxy_step mem_redis wit_cfg (st\<lparr>px_store := s'\<rparr>) st' \<and> map_of (px_store st') ''gateway:g1'' \<noteq> None"
proof -
  define gw where "gw = gwOrdered (wit_entry_of ''10.0.0.1'')"
  let ?rq = "wit_rq ''POST'' [(''gw_id'', PStr ''g1'')]"
  let ?st = "\<lparr>px_store = wit_pool, px_calls = [Polling ''g1'' gw]\<rparr>"
  let ?s = "AList.delete ''gateway:g1'' wit_pool"
  let ?r = "Inr (wit_reply\<lparr>rp_json := Inr (PDict [(''status'', PStr ''success''), (''data'', PDict [])])\<rparr>)"
  have raw: "map_of wit_pool ''gateway:g1'' = Some (gwDump (wit_entry_of ''10.0.0.1''))"
    by (simp add: wit_pool_def)
  have "proxy_step mem_redis wit_cfg \<lparr>px_store = wit_pool, px_calls = []\<rparr> ?st"
    using proxy_step.poll_called [of "''gateway:g1''" mem_redis "\<lparr>px_store = wit_pool, px_calls = []\<rparr>"]
    by (simp add: poll_begin_def raw gw_def)
  then have reach: "proxy_reachable mem_redis wit_cfg ?st"
    using proxy_reachable.stepped [OF proxy_reachable.booted [OF registry_ok_wit_pool]] by blast
  have "authorize wit_cfg ?rq"
    by (simp add: authorize_def bearer_def hdr_def wit_rq_def wit_cfg_def startswith_def after_space_def split1_def)
  then have gone: "unregisterGateway mem_redis wit_cfg ?rq wit_pool =
      (Inr (JSON 200 (PDict [(''status'', PStr ''success''), (''gw_id'', PStr ''g1''), (''removed'', PBool True)])), ?s)"
    by (simp add: unregisterGateway_def) (simp add: json_body_def wit_rq_def raw)
  have "proxy_step mem_redis wit_cfg (?st\<lparr>px_store := ?s\<rparr>)
      (?st\<lparr>px_store := call_end mem_redis (Polling ''g1'' gw) ?r ?s, px_calls := []\<rparr>)"
    using proxy_step.answered_call [of "Polling ''g1'' gw" "?st\<lparr>px_store := ?s\<rparr>" mem_redis wit_cfg ?r] by simp
  moreover have "map_of (call_end mem_redis (Polling ''g1'' gw) ?r ?s) ''gateway:g1'' \<noteq> None"
    by (simp add: call_end_def fetch_outcome poll_outcome_def update_conv)
  ultimately show ?thesis
    using reach gone raw
    by (intro exI [of _ ?st] exI [of _ "?st\<lparr>px_store := call_end mem_redis (Polling ''g1'' gw) ?r ?s, px_calls := []\<rparr>"])
       (simp add: delete_conv gw_def)
qed

section \<open>Documentation files\<close>

text \<open>
  Whatever the path asked for, dots and slashes included, \<open>/docs/...\<close> serves only existing
  png and css files below the documentation folder.
\<close>
theorem docs_stay_in_folder:
  "case serveDocsStatic folder is_file name of
     Inr (path, kind) \<Rightarrow> \<exists>below. path = folder @ below \<and> is_file path
        \<and> (kind = ''image/png'' \<and> str_lower (path_suffix (if path = [] then [] else last path)) = ''.png''
         \<or> kind = ''text/css'' \<and> str_lower (path_suffix (if path = [] then [] else last path)) = ''.css'')
   | Inl e \<Rightarrow> status_code (http_exception_handler e) = 404"
  by (auto simp: serveDocsStatic_def Let_def http_exception_handler_def prefix_def)

end
