(* ===== verification/Py_IO.thy ===== *)
theory Py_IO
  imports Json
begin

text \<open>
  Code that acts on the world around it: a computation takes the world, may raise, and gives back
  the world it leaves. The world is a type variable; a subprocess, a file or an HTTP peer is a
  function on it, an argument of the definitions that use it. What a computation did before an
  exception stays done.
\<close>

type_synonym ('w, 'a) io = "'w \<Rightarrow> (exn + 'a) \<times> 'w"

definition ret_io :: "'a \<Rightarrow> ('w, 'a) io" where
  "ret_io x w = (Inr x, w)"

definition raise_io :: "exn \<Rightarrow> ('w, 'a) io" where
  "raise_io e w = (Inl e, w)"

definition lift_io :: "exn + 'a \<Rightarrow> ('w, 'a) io" where
  "lift_io r w = (r, w)"

definition bind_io :: "('w, 'a) io \<Rightarrow> ('a \<Rightarrow> ('w, 'b) io) \<Rightarrow> ('w, 'b) io" where
  "bind_io m f w = (case m w of (Inl e, w') \<Rightarrow> (Inl e, w') | (Inr x, w') \<Rightarrow> f x w')"

text \<open>\<open>try: m except Exception as e: h(e)\<close>.\<close>

definition try_io :: "('w, 'a) io \<Rightarrow> (exn \<Rightarrow> ('w, 'a) io) \<Rightarrow> ('w, 'a) io" where
  "try_io m h w = (case m w of (Inl e, w') \<Rightarrow> h e w' | (Inr x, w') \<Rightarrow> (Inr x, w'))"

fun for_io :: "('a \<Rightarrow> ('w, unit) io) \<Rightarrow> 'a list \<Rightarrow> ('w, unit) io" where
  "for_io f [] = ret_io ()"
| "for_io f (x # xs) = bind_io (f x) (\<lambda>_. for_io f xs)"

lemma ret_io_app [simp]: "ret_io x w = (Inr x, w)"
  by (simp add: ret_io_def)

lemma raise_io_app [simp]: "raise_io e w = (Inl e, w)"
  by (simp add: raise_io_def)

lemma lift_io_simps [simp]: "lift_io (Inr x) = ret_io x" "lift_io (Inl e) = raise_io e"
  by (rule ext, simp add: lift_io_def)+

lemma bind_ret [simp]: "bind_io (ret_io x) f = f x" and bind_raise [simp]: "bind_io (raise_io e) f = raise_io e"
  by (rule ext, simp add: bind_io_def)+

lemma bind_io_Inr [simp]: "m w = (Inr x, w') \<Longrightarrow> bind_io m f w = f x w'"
  and bind_io_Inl [simp]: "m w = (Inl e, w') \<Longrightarrow> bind_io m f w = (Inl e, w')"
  by (simp_all add: bind_io_def)

lemma try_ret [simp]: "try_io (ret_io x) h = ret_io x" and try_raise [simp]: "try_io (raise_io e) h = h e"
  by (rule ext, simp add: try_io_def)+

lemma bind_assoc: "bind_io (bind_io m f) g = bind_io m (\<lambda>x. bind_io (f x) g)"
  by (rule ext) (simp add: bind_io_def split: prod.split sum.split)

lemma bind_io_eq_Inr_iff:
  "bind_io m f w = (Inr y, w2) \<longleftrightarrow> (\<exists>x w1. m w = (Inr x, w1) \<and> f x w1 = (Inr y, w2))"
  by (auto simp: bind_io_def split: prod.splits sum.splits)

section \<open>Subprocesses\<close>

record proc =
  pr_out :: string
  pr_err :: string
  pr_code :: int

type_synonym 'w shell = "string list \<Rightarrow> 'w \<Rightarrow> proc \<times> 'w"

definition run :: "'w shell \<Rightarrow> string list \<Rightarrow> ('w, proc) io" where
  "run sh args w = (let (p, w') = sh args w in (Inr p, w'))"

text \<open>A world that only remembers the commands, each answered by a function of the command.\<close>

definition log_shell :: "(string list \<Rightarrow> proc) \<Rightarrow> (string list list) shell" where
  "log_shell answer args w = (answer args, w @ [args])"

lemma run_log [simp]: "run (log_shell answer) args w = (Inr (answer args), w @ [args])"
  by (simp add: run_def log_shell_def)

lemma bind_run_log [simp]: "bind_io (run (log_shell answer) args) f w = f (answer args) (w @ [args])"
  by (simp add: bind_io_def)

section \<open>Lists and values\<close>

text \<open>\<open>xs[-1]\<close>.\<close>

definition py_last :: "'a list \<Rightarrow> exn + 'a" where
  "py_last xs = (if xs = [] then Inl (IndexError ''list index out of range'') else Inr (last xs))"

text \<open>\<open>v[k]\<close> with a text key.\<close>

definition py_index :: "pyval \<Rightarrow> string \<Rightarrow> exn + pyval" where
  "py_index v k = (case v of
     PDict d \<Rightarrow> dindex d k
   | PStr _ \<Rightarrow> Inl (TypeError ''string indices must be integers'')
   | PList _ \<Rightarrow> Inl (TypeError ''list indices must be integers'')
   | _ \<Rightarrow> Inl (TypeError ''not subscriptable''))"

text \<open>\<open>v.get(k, d)\<close> on a value that may not be a dictionary.\<close>

definition py_get_def_val :: "pyval \<Rightarrow> string \<Rightarrow> pyval \<Rightarrow> exn + pyval" where
  "py_get_def_val v k d = (case v of PDict m \<Rightarrow> Inr (dget_def_val m k d) | _ \<Rightarrow> Inl (AttributeError ''get''))"

text \<open>The lines of a text file, whatever their ends.\<close>

definition file_lines :: "string \<Rightarrow> string list" where
  "file_lines s =
     (let ls = str_split [CHR 0x0A] (str_replace [CHR 0x0D] [CHR 0x0A] (str_replace [CHR 0x0D, CHR 0x0A] [CHR 0x0A] s))
      in if last ls = [] then butlast ls else ls)"

lemma file_lines_written:
  assumes "\<forall>l \<in> set ls. CHR 0x0A \<notin> set l \<and> CHR 0x0D \<notin> set l"
  shows "file_lines (concat (map (\<lambda>l. l @ [CHR 0x0A]) ls)) = ls"
proof -
  have "CHR 0x0D \<notin> set (concat (map (\<lambda>l. l @ [CHR 0x0A]) ls))" using assms by auto
  then show ?thesis
    using assms str_split_lines [of ls "CHR 0x0A" "[]"]
    by (simp add: file_lines_def str_replace_absent [of "CHR 0x0D"])
qed

text \<open>\<open>s[n:]\<close> and \<open>s[:n]\<close>, for any integer.\<close>

definition slice_pos :: "int \<Rightarrow> 'a list \<Rightarrow> nat" where
  "slice_pos n s = (if n < 0 then nat (int (length s) + n) else nat n)"

definition slice_from :: "int \<Rightarrow> 'a list \<Rightarrow> 'a list" where
  "slice_from n s = drop (slice_pos n s) s"

definition slice_to :: "int \<Rightarrow> 'a list \<Rightarrow> 'a list" where
  "slice_to n s = take (slice_pos n s) s"

lemma slice_nat [simp]: "slice_from (int n) s = drop n s" "slice_to (int n) s = take n s"
  by (simp_all add: slice_from_def slice_to_def slice_pos_def)

end
