(* ===== verification/Py_Date.thy ===== *)
theory Py_Date
  imports Py_Base
begin

text \<open>
  Calendar dates and instants: the part of Python's \<open>datetime\<close> the sources use. A date is a record
  of year, month and day in the proleptic Gregorian calendar, ordered as a tuple; \<open>ymd2ord\<close> and
  \<open>ord2ymd\<close> are CPython's conversions to and from the ordinal (1 January of year 1 is day 1). An
  instant is a number of microseconds since the start of that day, naive or in UTC. Reading accepts
  the extended ISO 8601 form, the one every writer of the sources uses.
\<close>

section \<open>The calendar\<close>

definition is_leap :: "int \<Rightarrow> bool" where
  "is_leap y = (y mod 4 = 0 \<and> (y mod 100 \<noteq> 0 \<or> y mod 400 = 0))"

definition days_before_year :: "int \<Rightarrow> int" where
  "days_before_year y = (let p = y - 1 in p * 365 + p div 4 - p div 100 + p div 400)"

definition days_in_month :: "int \<Rightarrow> int \<Rightarrow> int" where
  "days_in_month y m =
     (if m = 2 then (if is_leap y then 29 else 28) else if m \<in> {4, 6, 9, 11} then 30 else 31)"

definition month_table :: "int list" where
  "month_table = [0, 0, 31, 59, 90, 120, 151, 181, 212, 243, 273, 304, 334]"

definition days_before_month :: "int \<Rightarrow> int \<Rightarrow> int" where
  "days_before_month y m = month_table ! nat m + (if 2 < m \<and> is_leap y then 1 else 0)"

definition valid_ymd :: "int \<Rightarrow> int \<Rightarrow> int \<Rightarrow> bool" where
  "valid_ymd y m d = (1 \<le> y \<and> y \<le> 9999 \<and> 1 \<le> m \<and> m \<le> 12 \<and> 1 \<le> d \<and> d \<le> days_in_month y m)"

definition ymd2ord :: "int \<Rightarrow> int \<Rightarrow> int \<Rightarrow> int" where
  "ymd2ord y m d = days_before_year y + days_before_month y m + d"

definition ord2ymd :: "int \<Rightarrow> int \<times> int \<times> int" where
  "ord2ymd n0 =
     (let n = n0 - 1;
          n400 = n div 146097; r400 = n mod 146097;
          n100 = r400 div 36524; r100 = r400 mod 36524;
          n4 = r100 div 1461; r4 = r100 mod 1461;
          n1 = r4 div 365; r1 = r4 mod 365;
          year = n400 * 400 + 1 + n100 * 100 + n4 * 4 + n1
      in if n1 = 4 \<or> n100 = 4 then (year - 1, 12, 31)
         else (let month = (r1 + 50) div 32;
                   preceding = days_before_month year month;
                   (m, p) = (if r1 < preceding then (month - 1, preceding - days_in_month year (month - 1))
                             else (month, preceding))
               in (year, m, r1 - p + 1)))"

record date =
  d_year :: int
  d_month :: int
  d_day :: int

definition date_ord :: "date \<Rightarrow> int" where
  "date_ord d = ymd2ord (d_year d) (d_month d) (d_day d)"

definition date_of_ord :: "int \<Rightarrow> date" where
  "date_of_ord n = (case ord2ymd n of (y, m, d) \<Rightarrow> \<lparr>d_year = y, d_month = m, d_day = d\<rparr>)"

definition add_days :: "int \<Rightarrow> date \<Rightarrow> date" where
  "add_days k d = date_of_ord (date_ord d + k)"

text \<open>\<open>date.weekday()\<close>: Monday is 0.\<close>

definition weekday :: "date \<Rightarrow> int" where
  "weekday d = (date_ord d + 6) mod 7"

definition valid_date :: "date \<Rightarrow> bool" where
  "valid_date d = valid_ymd (d_year d) (d_month d) (d_day d)"

section \<open>Text\<close>

definition date_iso :: "date \<Rightarrow> string" where
  "date_iso d = pad_nat 4 (nat (d_year d)) @ ''-'' @ pad_nat 2 (nat (d_month d)) @ ''-'' @ pad_nat 2 (nat (d_day d))"

definition num_field :: "nat \<Rightarrow> string \<Rightarrow> (int \<times> string) option" where
  "num_field k s =
     (if k \<le> length s \<and> (\<forall>c \<in> set (take k s). is_digit c)
      then Some (int (digits_val (take k s)), drop k s) else None)"

definition expect :: "char \<Rightarrow> string \<Rightarrow> string option" where
  "expect c s = (case s of d # t \<Rightarrow> if d = c then Some t else None | [] \<Rightarrow> None)"

definition read_date :: "string \<Rightarrow> (date \<times> string) option" where
  "read_date s =
     (case num_field 4 s of None \<Rightarrow> None | Some (y, s1) \<Rightarrow>
      case expect (CHR ''-'') s1 of None \<Rightarrow> None | Some s2 \<Rightarrow>
      case num_field 2 s2 of None \<Rightarrow> None | Some (m, s3) \<Rightarrow>
      case expect (CHR ''-'') s3 of None \<Rightarrow> None | Some s4 \<Rightarrow>
      case num_field 2 s4 of None \<Rightarrow> None | Some (d, s5) \<Rightarrow>
        if valid_ymd y m d then Some (\<lparr>d_year = y, d_month = m, d_day = d\<rparr>, s5) else None)"

text \<open>Microseconds of \<open>HH:MM[:SS[.f...]]\<close>, further digits of the fraction dropped.\<close>

definition read_fraction :: "string \<Rightarrow> (int \<times> string) option" where
  "read_fraction s =
     (case s of
        c # t \<Rightarrow>
          if c \<noteq> CHR ''.'' \<and> c \<noteq> CHR '','' then Some (0, s)
          else (let ds = takeWhile is_digit t; six = take 6 ds in
                if ds = [] then None
                else Some (int (digits_val six) * 10 ^ (6 - length six), dropWhile is_digit t))
      | [] \<Rightarrow> Some (0, []))"

definition second_us :: int where
  "second_us = 1000000"

definition day_us :: int where
  "day_us = 86400 * second_us"

definition read_seconds :: "string \<Rightarrow> (int \<times> string) option" where
  "read_seconds s =
     (case expect (CHR '':'') s of
        None \<Rightarrow> Some (0, s)
      | Some t \<Rightarrow>
          (case num_field 2 t of None \<Rightarrow> None | Some (sec, t1) \<Rightarrow>
             if 59 < sec then None
             else (case read_fraction t1 of None \<Rightarrow> None | Some (us, t2) \<Rightarrow> Some (sec * second_us + us, t2))))"

definition read_clock :: "string \<Rightarrow> (int \<times> string) option" where
  "read_clock s =
     (case num_field 2 s of None \<Rightarrow> None | Some (h, s1) \<Rightarrow>
      case expect (CHR '':'') s1 of None \<Rightarrow> None | Some s2 \<Rightarrow>
      case num_field 2 s2 of None \<Rightarrow> None | Some (mi, s3) \<Rightarrow>
        if 23 < h \<or> 59 < mi then None
        else (case read_seconds s3 of None \<Rightarrow> None
              | Some (us, s4) \<Rightarrow> Some ((h * 3600 + mi * 60) * second_us + us, s4)))"

text \<open>The offset from UTC: none, \<open>Z\<close>, or a signed clock.\<close>

definition read_offset :: "string \<Rightarrow> int option option" where
  "read_offset s =
     (case s of
        [] \<Rightarrow> Some None
      | c # t \<Rightarrow>
          if c = CHR ''Z'' then (if t = [] then Some (Some 0) else None)
          else if c = CHR ''+'' \<or> c = CHR ''-'' then
            (case read_clock t of
               Some (us, []) \<Rightarrow> Some (Some (if c = CHR ''-'' then - us else us))
             | _ \<Rightarrow> None)
          else None)"

text \<open>\<open>datetime.fromisoformat\<close>: the local microseconds and the offset, when there is one.\<close>

definition from_iso :: "string \<Rightarrow> (int \<times> int option) option" where
  "from_iso s =
     (case read_date s of
        None \<Rightarrow> None
      | Some (d, r) \<Rightarrow>
          (let midnight = (date_ord d - 1) * day_us in
           case r of
             [] \<Rightarrow> Some (midnight, None)
           | _ # t \<Rightarrow>
               (case read_clock t of
                  None \<Rightarrow> None
                | Some (us, t1) \<Rightarrow>
                    (case read_offset t1 of None \<Rightarrow> None | Some off \<Rightarrow> Some (midnight + us, off)))))"

definition to_utc :: "int \<times> int option \<Rightarrow> int" where
  "to_utc x = (case x of (us, None) \<Rightarrow> us | (us, Some off) \<Rightarrow> us - off)"

definition clock_iso :: "int \<Rightarrow> string" where
  "clock_iso sec = pad_nat 2 (nat (sec div 3600)) @ '':'' @ pad_nat 2 (nat (sec mod 3600 div 60)) @ '':''
     @ pad_nat 2 (nat (sec mod 60))"

text \<open>\<open>isoformat(timespec="seconds")\<close> and \<open>"milliseconds"\<close> of a UTC instant, without its offset.\<close>

definition iso_seconds :: "int \<Rightarrow> string" where
  "iso_seconds t = date_iso (date_of_ord (t div day_us + 1)) @ ''T'' @ clock_iso (t mod day_us div second_us)"

definition iso_millis :: "int \<Rightarrow> string" where
  "iso_millis t = iso_seconds t @ ''.'' @ pad_nat 3 (nat (t mod second_us div 1000))"

section \<open>Reading what was written\<close>

lemma pad_nat_digits: "c \<in> set (pad_nat w n) \<Longrightarrow> is_digit c"
  using nat_str_digits by (auto simp: pad_nat_def Let_def is_digit_def split: if_splits)

lemma digits_val_zeros: "digits_val (replicate k (CHR ''0'') @ s) = digits_val s"
  by (induction k) (simp_all add: digits_val_def digit_val_def)

lemma digits_val_pad_nat [simp]: "digits_val (pad_nat w n) = n"
  by (simp add: pad_nat_def Let_def digits_val_zeros)

lemma length_nat_str: "n < 10 ^ k \<Longrightarrow> 0 < k \<Longrightarrow> length (nat_str n) \<le> k"
proof (induction n arbitrary: k rule: nat_str.induct)
  case (1 n)
  show ?case
  proof (cases "n < 10")
    case True
    then show ?thesis using 1 by (subst nat_str.simps) simp
  next
    case False
    obtain j where k: "k = Suc j" using "1.prems" by (cases k) auto
    moreover have "0 < j" using "1.prems" False k by (cases j) auto
    ultimately have "length (nat_str (n div 10)) \<le> j"
      using 1 False by (intro "1.IH") auto
    with k False show ?thesis by (subst nat_str.simps) simp
  qed
qed

lemma length_pad_nat: "n < 10 ^ w \<Longrightarrow> 0 < w \<Longrightarrow> length (pad_nat w n) = w"
  using length_nat_str [of n w] by (simp add: pad_nat_def Let_def)

lemma num_field_pad_nat:
  assumes "n < 10 ^ w" and "0 < w"
  shows "num_field w (pad_nat w n @ t) = Some (int n, t)"
  using length_pad_nat [OF assms] pad_nat_digits [of _ w n] by (auto simp: num_field_def)

lemma expect_Cons [simp]: "expect c (c # t) = Some t"
  by (simp add: expect_def)

lemma read_date_iso:
  assumes "valid_date d"
  shows "read_date (date_iso d @ t) = Some (d, t)"
proof -
  have r: "0 \<le> d_year d" "d_year d < 10000" "0 \<le> d_month d" "d_month d < 100" "0 \<le> d_day d" "d_day d < 100"
    using assms by (auto simp: valid_date_def valid_ymd_def days_in_month_def split: if_splits)
  then have "nat (d_year d) < 10 ^ 4" "nat (d_month d) < 10 ^ 2" "nat (d_day d) < 10 ^ 2" by auto
  with r assms show ?thesis
    by (simp add: read_date_def date_iso_def num_field_pad_nat valid_date_def)
qed

lemma read_clock_parts:
  assumes h: "0 \<le> h" "h \<le> 23" and m: "0 \<le> m" "m \<le> 59" and sec: "0 \<le> sec" "sec \<le> 59"
  shows "read_clock (pad_nat 2 (nat h) @ '':'' @ pad_nat 2 (nat m) @ '':'' @ pad_nat 2 (nat sec) @ t) =
     (case read_fraction t of None \<Rightarrow> None
      | Some (us, t2) \<Rightarrow> Some ((h * 3600 + m * 60) * second_us + (sec * second_us + us), t2))"
proof -
  have "nat h < 10 ^ 2" "nat m < 10 ^ 2" "nat sec < 10 ^ 2" using assms by auto
  note nf = this [THEN num_field_pad_nat]
  show ?thesis
    using assms by (simp add: read_clock_def nf read_seconds_def split: option.split)
qed

lemma clock_parts:
  assumes "0 \<le> sec" and "sec < 86400"
  shows "0 \<le> sec div 3600" "sec div 3600 \<le> 23" "0 \<le> sec mod 3600 div 60" "sec mod 3600 div 60 \<le> 59"
    "0 \<le> sec mod 60" "sec mod 60 \<le> (59 :: int)"
  using assms zdiv_mono1 [of sec 86399 3600] zdiv_mono1 [of "sec mod 3600" 3599 60] pos_mod_bound [of 3600 sec]
    pos_mod_bound [of 60 sec]
  by (simp_all add: pos_imp_zdiv_nonneg_iff)

lemma clock_sum: "sec div 3600 * 3600 + sec mod 3600 div 60 * 60 + sec mod 60 = (sec :: int)"
proof -
  have "sec mod 3600 mod 60 = sec mod 60" by (rule mod_mod_cancel) simp
  then show ?thesis
    using div_mult_mod_eq [of sec 3600] div_mult_mod_eq [of "sec mod 3600" 60] by linarith
qed

lemma read_clock_iso:
  assumes "0 \<le> sec" and "sec < 86400"
  shows "read_clock (clock_iso sec @ t) =
     (case read_fraction t of None \<Rightarrow> None | Some (us, t2) \<Rightarrow> Some (sec * second_us + us, t2))"
proof -
  have "(sec div 3600 * 3600 + sec mod 3600 div 60 * 60) * second_us + (sec mod 60 * second_us + us) = sec * second_us + us" for us
    using clock_sum [of sec] by (metis add.assoc distrib_right)
  with read_clock_parts [OF clock_parts [OF assms], of t] show ?thesis
    by (simp only: clock_iso_def append_assoc)
qed

end
