(* ===== verification/Regex.thy ===== *)
theory Regex
  imports Py_Base
begin

text \<open>
  The part of Python's \<open>re\<close> the sources use: a backtracking matcher that lists its successes in
  the order the engine tries them. Repetition is over a class of characters only, which is all the
  patterns need, so the matcher is structurally recursive. \<open>Rep n p\<close> is \<open>p\<close> at least \<open>n\<close> times,
  greedy.
\<close>

datatype rx =
    Eps
  | Cls "char \<Rightarrow> bool"
  | Rep nat "char \<Rightarrow> bool"
  | Cat rx rx
  | Alt rx rx
  | Grp string rx
  | Eol

type_synonym caps = "(string \<times> string) list"

text \<open>What is left of the text after \<open>n\<close>, \<open>n - 1\<close>, ... characters.\<close>

fun rests :: "nat \<Rightarrow> nat \<Rightarrow> string \<Rightarrow> string list" where
  "rests lo 0 s = (if lo = 0 then [s] else [])"
| "rests lo (Suc n) s = (if lo \<le> Suc n then drop (Suc n) s # rests lo n s else [])"

fun rmatch :: "rx \<Rightarrow> caps \<Rightarrow> string \<Rightarrow> (caps \<times> string) list" where
  "rmatch Eps cs s = [(cs, s)]"
| "rmatch (Cls p) cs s = (case s of c # t \<Rightarrow> if p c then [(cs, t)] else [] | [] \<Rightarrow> [])"
| "rmatch (Rep lo p) cs s = map (\<lambda>t. (cs, t)) (rests lo (length (takeWhile p s)) s)"
| "rmatch (Cat a b) cs s = concat (map (\<lambda>(cs', t). rmatch b cs' t) (rmatch a cs s))"
| "rmatch (Alt a b) cs s = rmatch a cs s @ rmatch b cs s"
| "rmatch (Grp g a) cs s = map (\<lambda>(cs', t). (dset g (take (length s - length t) s) cs', t)) (rmatch a cs s)"
| "rmatch Eol cs s = (if s = [] \<or> s = [CHR 0x0A] then [(cs, s)] else [])"

text \<open>\<open>match\<close> at the start of the text, \<open>search\<close> anywhere, \<open>findall\<close> without groups, and \<open>sub\<close> by
  the empty text.\<close>

definition re_match :: "rx \<Rightarrow> string \<Rightarrow> (caps \<times> string) option" where
  "re_match r s = (case rmatch r [] s of [] \<Rightarrow> None | m # _ \<Rightarrow> Some m)"

fun re_search :: "rx \<Rightarrow> string \<Rightarrow> (caps \<times> string) option" where
  "re_search r [] = re_match r []"
| "re_search r (c # s) = (case re_match r (c # s) of Some m \<Rightarrow> Some m | None \<Rightarrow> re_search r s)"

definition group :: "caps \<Rightarrow> string \<Rightarrow> string option" where
  "group cs g = map_of cs g"

fun findall_fuel :: "nat \<Rightarrow> rx \<Rightarrow> string \<Rightarrow> string list" where
  "findall_fuel 0 r s = []"
| "findall_fuel (Suc n) r s =
     (case s of
        [] \<Rightarrow> []
      | c # t \<Rightarrow>
          (case re_match r s of
             None \<Rightarrow> findall_fuel n r t
           | Some (_, rest) \<Rightarrow>
               if length rest < length s then take (length s - length rest) s # findall_fuel n r rest
               else findall_fuel n r t))"

definition re_findall :: "rx \<Rightarrow> string \<Rightarrow> string list" where
  "re_findall r s = findall_fuel (length s) r s"

fun remove_fuel :: "nat \<Rightarrow> rx \<Rightarrow> string \<Rightarrow> string" where
  "remove_fuel 0 r s = s"
| "remove_fuel (Suc n) r s =
     (case s of
        [] \<Rightarrow> []
      | c # t \<Rightarrow>
          (case re_match r s of
             None \<Rightarrow> c # remove_fuel n r t
           | Some (_, rest) \<Rightarrow>
               if length rest < length s then remove_fuel n r rest else c # remove_fuel n r t))"

definition re_remove :: "rx \<Rightarrow> string \<Rightarrow> string" where
  "re_remove r s = remove_fuel (length s) r s"

section \<open>Building patterns\<close>

definition lit :: "string \<Rightarrow> rx" where
  "lit s = foldr (\<lambda>c r. Cat (Cls (\<lambda>d. d = c)) r) s Eps"

definition opt :: "rx \<Rightarrow> rx" where
  "opt r = Alt r Eps"

definition seq :: "rx list \<Rightarrow> rx" where
  "seq rs = foldr Cat rs Eps"

definition between :: "nat \<Rightarrow> nat \<Rightarrow> char \<Rightarrow> bool" where
  "between lo hi c = (lo \<le> (of_char c :: nat) \<and> of_char c \<le> hi)"

definition none_of :: "string \<Rightarrow> char \<Rightarrow> bool" where
  "none_of s c = (c \<notin> set s)"

definition one_of :: "string \<Rightarrow> char \<Rightarrow> bool" where
  "one_of s c = (c \<in> set s)"

definition not_space :: "char \<Rightarrow> bool" where
  "not_space c = (\<not> is_space c)"

text \<open>The dot.\<close>

definition any_char :: "char \<Rightarrow> bool" where
  "any_char c = (c \<noteq> CHR 0x0A)"

section \<open>Matches are prefixes\<close>

lemma rests_suffix: "t \<in> set (rests lo n s) \<Longrightarrow> suffix t s"
  by (induction n) (auto simp: suffix_drop split: if_splits)

lemma rmatch_suffix: "(cs', t) \<in> set (rmatch r cs s) \<Longrightarrow> suffix t s"
proof (induction r arbitrary: cs cs' s t)
  case (Cls p)
  then show ?case by (cases s) (auto simp: suffix_ConsI split: if_splits)
next
  case (Cat a b)
  then obtain cs1 t1 where "(cs1, t1) \<in> set (rmatch a cs s)" "(cs', t) \<in> set (rmatch b cs1 t1)" by auto
  with Cat.IH show ?case by (meson suffix_order.trans)
qed (auto dest: rests_suffix split: if_splits)

lemma rmatch_lit: "rmatch (lit s) cs (s @ t) = [(cs, t)]"
  by (induction s) (simp_all add: lit_def)

lemma rmatch_lit_mismatch: "\<not> prefix s t \<Longrightarrow> rmatch (lit s) cs t = []"
proof (induction s arbitrary: t)
  case (Cons c s)
  then show ?case by (cases t) (auto simp: lit_def)
qed (simp add: lit_def)

end
