(* ===== verification/Py_Num.thy ===== *)
theory Py_Num
  imports Json
begin

text \<open>
  Numbers as Python reads and rounds them: \<open>int(v)\<close> and \<open>float(v)\<close> on any value, \<open>round\<close>, and
  iteration over a value. A float is an exact rational; what is kept of IEEE arithmetic is where it
  overflows.
\<close>

section \<open>Reading\<close>

definition trunc :: "rat \<Rightarrow> int" where
  "trunc r = (if r < 0 then - \<lfloor>- r\<rfloor> else \<lfloor>r\<rfloor>)"

text \<open>\<open>int(v)\<close>, \<open>None\<close> when it raises (\<open>TypeError\<close>, \<open>ValueError\<close>, \<open>OverflowError\<close>).\<close>

definition py_int :: "pyval \<Rightarrow> int option" where
  "py_int v = (case v of
     PInt i \<Rightarrow> Some i
   | PBool b \<Rightarrow> Some (if b then 1 else 0)
   | PFloat r \<Rightarrow> Some (trunc r)
   | PStr s \<Rightarrow> py_int_str s
   | _ \<Rightarrow> None)"

text \<open>From this magnitude on, a number rounds to infinity.\<close>

definition float_limit :: rat where
  "float_limit = 2 ^ 1024 - 2 ^ 970"

definition float_of :: "rat \<Rightarrow> pyval" where
  "float_of r = (if float_limit \<le> r then PInf False else if r \<le> - float_limit then PInf True else PFloat r)"

definition split_at :: "(char \<Rightarrow> bool) \<Rightarrow> string \<Rightarrow> string \<times> string option" where
  "split_at p s = (let a = takeWhile (\<lambda>c. \<not> p c) s in
     (a, case drop (length a) s of [] \<Rightarrow> None | _ # b \<Rightarrow> Some b))"

definition sign_of :: "string \<Rightarrow> bool \<times> string" where
  "sign_of s = (case s of
     [] \<Rightarrow> (False, [])
   | c # t \<Rightarrow> if c = CHR ''-'' then (True, t) else if c = CHR ''+'' then (False, t) else (False, s))"

text \<open>Digits with single underscores between them, or nothing at all.\<close>

definition digits_opt :: "string \<Rightarrow> string option" where
  "digits_opt s = (if s = [] then Some [] else strip_underscores s)"

definition mantissa :: "string \<Rightarrow> rat option" where
  "mantissa s =
     (let (a, frac) = split_at (\<lambda>c. c = CHR ''.'') s; b = (case frac of None \<Rightarrow> [] | Some t \<Rightarrow> t) in
      if a = [] \<and> b = [] then None
      else (case (digits_opt a, digits_opt b) of
              (Some da, Some db) \<Rightarrow> Some (of_nat (digits_val (da @ db)) / 10 ^ length db)
            | _ \<Rightarrow> None))"

definition exponent :: "string option \<Rightarrow> int option" where
  "exponent e =
     (case e of
        None \<Rightarrow> Some 0
      | Some t \<Rightarrow>
          (let (neg, u) = sign_of t in
           map_option (\<lambda>d. (if neg then - int (digits_val d) else int (digits_val d))) (strip_underscores u)))"

definition scale10 :: "int \<Rightarrow> rat \<Rightarrow> rat" where
  "scale10 e x = (if 0 \<le> e then x * 10 ^ nat e else x / 10 ^ nat (- e))"

definition py_float_str :: "string \<Rightarrow> pyval option" where
  "py_float_str s =
     (let (neg, t) = sign_of (str_lower (str_strip s)) in
      if t = ''inf'' \<or> t = ''infinity'' then Some (PInf neg)
      else if t = ''nan'' then Some PNaN
      else (let (m, e) = split_at (\<lambda>c. c = CHR ''e'') t in
            case (mantissa m, exponent e) of
              (Some x, Some k) \<Rightarrow> Some (float_of (scale10 k (if neg then - x else x)))
            | _ \<Rightarrow> None))"

text \<open>\<open>float(v)\<close>, \<open>None\<close> when it raises.\<close>

definition py_float :: "pyval \<Rightarrow> pyval option" where
  "py_float v = (case v of
     PInt i \<Rightarrow> if float_limit \<le> \<bar>of_int i\<bar> then None else Some (PFloat (of_int i))
   | PBool b \<Rightarrow> Some (PFloat (if b then 1 else 0))
   | PFloat r \<Rightarrow> Some (PFloat r)
   | PInf b \<Rightarrow> Some (PInf b)
   | PNaN \<Rightarrow> Some PNaN
   | PStr s \<Rightarrow> py_float_str s
   | _ \<Rightarrow> None)"

section \<open>Rounding\<close>

text \<open>\<open>round(x)\<close> and \<open>f"{x:.0f}"\<close>: halves go to the even side; \<open>round(x, 1)\<close>.\<close>

definition round_even :: "rat \<Rightarrow> int" where
  "round_even x = (let n = \<lfloor>x\<rfloor>; r = x - of_int n in
     if r < 1 / 2 then n else if 1 / 2 < r then n + 1 else if even n then n else n + 1)"

definition round1 :: "rat \<Rightarrow> rat" where
  "round1 x = of_int (round_even (10 * x)) / 10"

lemma round_even_near: "\<bar>of_int (round_even x) - x\<bar> \<le> 1 / 2"
proof -
  have "of_int \<lfloor>x\<rfloor> \<le> x" "x < of_int \<lfloor>x\<rfloor> + 1" by linarith+
  then show ?thesis by (auto simp: round_even_def Let_def)
qed

lemma round_even_of_int [simp]: "round_even (of_int i) = i"
  by (simp add: round_even_def)

lemma round_even_mono: "x \<le> y \<Longrightarrow> round_even x \<le> round_even y"
proof -
  assume le: "x \<le> y"
  consider "\<lfloor>x\<rfloor> = \<lfloor>y\<rfloor>" | "\<lfloor>x\<rfloor> + 1 \<le> \<lfloor>y\<rfloor>" using floor_mono [OF le] by linarith
  then show ?thesis
  proof cases
    case 1
    with le show ?thesis by (auto simp: round_even_def Let_def)
  next
    case 2
    have "round_even x \<le> \<lfloor>x\<rfloor> + 1" "\<lfloor>y\<rfloor> \<le> round_even y" by (simp_all add: round_even_def Let_def)
    with 2 show ?thesis by linarith
  qed
qed

section \<open>Iteration\<close>

text \<open>\<open>for x in v\<close>.\<close>

definition py_iter :: "pyval \<Rightarrow> exn + pyval list" where
  "py_iter v = (case v of
     PStr s \<Rightarrow> Inr (map (\<lambda>c. PStr [c]) s)
   | PList xs \<Rightarrow> Inr xs
   | PDict d \<Rightarrow> Inr (map (PStr \<circ> fst) d)
   | _ \<Rightarrow> Inl (TypeError ''not iterable''))"

end
