(* ===== verification/LogParse.thy ===== *)
theory LogParse
  imports Py_IO Py_Date Regex Py_Num
begin

text \<open>
  The log parser (\<open>src/logParse.py\<close>). It reads the lines the gateway's processes print, appends
  records to a history file and, at the end of a call, posts what the file holds to the manager and
  empties the file. \<open>process_line\<close> is one turn of the loop of \<open>main\<close>: the records it appends and the
  parser's next state. \<open>read_record\<close> is one turn of the loop of \<open>buildPayloadFromLines\<close>. The clock,
  the environment and the receiver's answer are arguments.
\<close>

section \<open>Patterns\<close>

definition ansiEscapeRegex :: rx where
  "ansiEscapeRegex = Cat (Cls (\<lambda>c. c = CHR 0x1B))
     (Alt (Cls (\<lambda>c. between 0x40 0x5A c \<or> between 0x5C 0x5F c))
          (seq [lit ''['', Rep 0 (between 0x30 0x3F), Rep 0 (between 0x20 0x2F), Cls (between 0x40 0x7E)]))"

definition baresipRegex :: rx where
  "baresipRegex = seq [lit ''sip:'', Grp ''dest_user'' (Rep 1 (none_of ''@'')), lit ''@'',
     Grp ''dest_dom'' (Rep 1 (none_of '':'')), lit '':'', Rep 0 is_space, lit ''Call with'', Rep 0 is_space, lit ''sip:'',
     Grp ''src_user'' (Rep 1 (none_of ''@'')), lit ''@'', Grp ''src_dom'' (Rep 1 not_space)]"

definition dtmfRegex :: rx where
  "dtmfRegex = seq [opt (seq [lit ''Event:'', Rep 0 is_space]), lit ''Received DTMF:'', Grp ''input'' (Rep 1 any_char), Eol]"

definition statHeaderRegex :: rx where
  "statHeaderRegex = seq [Grp ''media'' (Alt (lit ''audio'') (lit ''video'')),
     opt (seq [Rep 1 is_space, Grp ''stream'' (Rep 1 is_digit)]), Rep 1 is_space, lit ''Transmit:'', Rep 0 is_space,
     lit ''Receive:'', Rep 0 is_space, Eol]"

definition statValueRegex :: rx where
  "statValueRegex = seq [Grp ''label'' (Rep 1 (none_of '':'')), lit '':'', Rep 0 is_space, Grp ''rest'' (Rep 1 any_char), Eol]"

definition numRegex :: rx where
  "numRegex = seq [opt (Cls (one_of ''-+'')), Rep 1 is_digit, opt (seq [lit ''.'', Rep 1 is_digit])]"

definition encoderRegex :: rx where
  "encoderRegex = seq [lit ''Set '', Grp ''media'' (Alt (lit ''audio'') (lit ''video'')), lit '' encoder:'', Rep 0 is_space,
     Grp ''rest'' (Rep 1 any_char), Eol]"

definition fieldMap :: "(string \<times> string) list" where
  "fieldMap = [(''packets'', ''packets''), (''errors'', ''errors''), (''pkt.report'', ''packetReports''),
     (''avg. bitrate'', ''avgBitrateKbps''), (''lost'', ''lostPackets''), (''jitter'', ''jitterMs'')]"

section \<open>Time and versions\<close>

definition isoZ :: "bool \<Rightarrow> int \<Rightarrow> string" where
  "isoZ ms t = (if ms then iso_millis t else iso_seconds t) @ ''Z''"

definition month_names :: "string list" where
  "month_names = [''Jan'', ''Feb'', ''Mar'', ''Apr'', ''May'', ''Jun'', ''Jul'', ''Aug'', ''Sep'', ''Oct'', ''Nov'', ''Dec'']"

definition rawTimestamp :: "int \<Rightarrow> string" where
  "rawTimestamp t =
     (let d = date_of_ord (t div day_us + 1)
      in month_names ! nat (d_month d - 1) @ '' '' @ pad_nat 2 (nat (d_day d)) @ '' '' @ clock_iso (t mod day_us div second_us))"

record lp_env =
  le_post_url :: string
  le_post_token :: string
  le_vars :: "(string \<times> string) list"
  le_chromium :: "string option"

definition env_get :: "lp_env \<Rightarrow> string \<Rightarrow> string" where
  "env_get env k = (case map_of (le_vars env) k of Some v \<Rightarrow> v | None \<Rightarrow> ''unknown'')"

definition gatewayVersions :: "lp_env \<Rightarrow> pydict" where
  "gatewayVersions env = [
     (''gwVersion'', PStr (env_get env ''GW_VERSION'')),
     (''baresipVersion'', PStr (env_get env ''BARESIP_VERSION'')),
     (''baresipPatch'', PStr (env_get env ''BARESIP_BRANCH'')),
     (''chromiumVersion'', PStr (case le_chromium env of None \<Rightarrow> ''unknown'' | Some t \<Rightarrow> str_or (str_strip t) ''unknown''))]"

text \<open>\<open>parseIso\<close>: an aware instant, in UTC.\<close>

definition parseIso :: "string \<Rightarrow> int option" where
  "parseIso timestamp =
     (if timestamp = [] then None
      else if endswith timestamp ''Z'' then map_option fst (from_iso (butlast timestamp))
      else map_option to_utc (from_iso timestamp))"

definition toNumber :: "string \<Rightarrow> pyval" where
  "toNumber s =
     (let neg = (s \<noteq> [] \<and> hd s = CHR ''-'');
          t = (if s \<noteq> [] \<and> (hd s = CHR ''-'' \<or> hd s = CHR ''+'') then tl s else s)
      in case split1 ''.'' t of
           None \<Rightarrow> PInt ((if neg then -1 else 1) * int (digits_val t))
         | Some (a, b) \<Rightarrow> PFloat ((if neg then -1 else 1) * (of_nat (digits_val (a @ b)) / 10 ^ length b)))"

section \<open>Addresses\<close>

definition lp_normalizeSipUri :: "string \<Rightarrow> string" where
  "lp_normalizeSipUri uri =
     (let cleanUri = str_strip uri in
      if cleanUri = [] then []
      else if startswith cleanUri ''sip:'' then cleanUri
      else if str_in ''@'' cleanUri then ''sip:'' @ cleanUri
      else cleanUri)"

definition stripSipPrefix :: "string \<Rightarrow> string" where
  "stripSipPrefix uri = (let cleanUri = str_strip uri in if startswith cleanUri ''sip:'' then drop 4 cleanUri else cleanUri)"

definition splitUri :: "string \<Rightarrow> string \<times> string" where
  "splitUri uri = (case split1 ''@'' (stripSipPrefix uri) of None \<Rightarrow> ([], []) | Some p \<Rightarrow> p)"

text \<open>\<open>urlsplit(url).query\<close>, \<open>unquote\<close> and \<open>parse_qs(query, keep_blank_values=True)\<close>, the first value
  of a name. A host with unbalanced brackets, which \<open>urlsplit\<close> refuses, is not modelled.\<close>

definition url_query :: "string \<Rightarrow> string" where
  "url_query url =
     (let clean = filter (\<lambda>c. c \<notin> {CHR 0x09, CHR 0x0A, CHR 0x0D}) (dropWhile (\<lambda>c. (of_char c :: nat) \<le> 32) url);
          front = takeWhile (\<lambda>c. c \<noteq> CHR ''#'') clean
      in drop 1 (dropWhile (\<lambda>c. c \<noteq> CHR ''?'') front))"

fun unquote :: "string \<Rightarrow> string" where
  "unquote (a # b # c # s) =
     (case (a = CHR ''%'', hex_val b, hex_val c) of
        (True, Some x, Some y) \<Rightarrow> char_of (16 * x + y) # unquote s
      | _ \<Rightarrow> a # unquote (b # c # s))"
| "unquote s = s"

definition qs_text :: "string \<Rightarrow> string" where
  "qs_text s = unquote (str_replace ''+'' '' '' s)"

definition parse_qs :: "string \<Rightarrow> (string \<times> string) list" where
  "parse_qs q = map (\<lambda>f. case split1 ''='' f of Some (k, v) \<Rightarrow> (qs_text k, qs_text v) | None \<Rightarrow> (qs_text f, []))
     (filter (\<lambda>f. f \<noteq> []) (str_split ''&'' q))"

definition first_param :: "(string \<times> string) list \<Rightarrow> string \<Rightarrow> string" where
  "first_param params k = str_strip (case map_of params k of Some v \<Rightarrow> v | None \<Rightarrow> [])"

definition parseCallUrlDetails :: "string \<Rightarrow> string \<times> string" where
  "parseCallUrlDetails url0 =
     (let url = str_strip url0; params = parse_qs (url_query url)
      in if url = [] then ([], []) else (first_param params ''displayName'', first_param params ''mixedId''))"

text \<open>The dictionary an event line prints, as JSON or as a Python literal.\<close>

definition parseEventDict :: "string \<Rightarrow> pydict option" where
  "parseEventDict line =
     (let t0 = str_strip line;
          text = (if startswith t0 ''Event:'' then str_strip (drop 6 t0) else t0)
      in if \<not> (startswith text ''{'' \<and> endswith text ''}'') then None
         else if \<not> str_in (quoted ''type'') text \<and> \<not> str_in (CHR 0x22 # ''type'' @ [CHR 0x22]) text then None
         else (case json_loads text of
                 Some (PDict d) \<Rightarrow> Some d
               | _ \<Rightarrow> (case literal_eval text of Some (PDict d) \<Rightarrow> Some d | _ \<Rightarrow> None)))"

section \<open>The history file\<close>

definition history_line_text :: "string \<Rightarrow> pydict \<Rightarrow> string" where
  "history_line_text recordType recordObj = recordType @ '':'' @ json_dumps_raw (PDict recordObj) @ [CHR 0x0A]"

definition appendHistory :: "string \<Rightarrow> string \<Rightarrow> pydict \<Rightarrow> string" where
  "appendHistory content recordType recordObj = content @ history_line_text recordType recordObj"

text \<open>\<open>readHistoryStable\<close>: \<open>readings\<close> are the lines found at each turn until the deadline; the file is
  stable when its length and last line were the same three times running.\<close>

definition history_sig :: "string list \<Rightarrow> nat \<times> string" where
  "history_sig lines = (length lines, if lines = [] then [] else last lines)"

fun read_stable :: "(nat \<times> string) option \<Rightarrow> nat \<Rightarrow> string list \<Rightarrow> string list list \<Rightarrow> string list" where
  "read_stable prev same final [] = final"
| "read_stable prev same final (lines # readings) =
     (let sg = history_sig lines; same' = (if Some sg = prev then same + 1 else 0)
      in if 2 \<le> same' then lines else read_stable (Some sg) same' lines readings)"

definition readHistoryStable :: "string list list \<Rightarrow> string list" where
  "readHistoryStable readings = read_stable None 0 [] readings"

section \<open>The payload\<close>

record stream =
  sm_index :: int
  sm_tx :: pydict
  sm_rx :: pydict

record payload =
  pl_mainApp :: string
  pl_startRaw :: pyval
  pl_startTime :: pyval
  pl_endRaw :: pyval
  pl_endTime :: pyval
  pl_url :: pyval
  pl_callId :: pyval
  pl_peerDisplay :: string
  pl_closeReason :: pyval
  pl_lastEvent :: string
  pl_userAgent :: pyval
  pl_mediaDir :: pyval
  pl_encAudio :: "string option"
  pl_encVideo :: "string list"
  pl_encOrder :: "string list"
  pl_source :: string
  pl_destination :: string
  pl_destDomain :: string
  pl_destRaw :: string
  pl_room :: string
  pl_browsing :: string
  pl_dtmf :: "pyval list"
  pl_audioTx :: pydict
  pl_audioRx :: pydict
  pl_streams :: "(int \<times> stream) list"
  pl_samples :: "pyval list"
  pl_final :: bool

definition no_payload :: payload where
  "no_payload = \<lparr>pl_mainApp = [], pl_startRaw = PStr [], pl_startTime = PStr [], pl_endRaw = PStr [], pl_endTime = PStr [],
     pl_url = PStr [], pl_callId = PStr [], pl_peerDisplay = [], pl_closeReason = PStr [], pl_lastEvent = [],
     pl_userAgent = PStr [], pl_mediaDir = PDict [], pl_encAudio = None, pl_encVideo = [], pl_encOrder = [],
     pl_source = [], pl_destination = [], pl_destDomain = [], pl_destRaw = [], pl_room = [], pl_browsing = [],
     pl_dtmf = [], pl_audioTx = [], pl_audioRx = [], pl_streams = [], pl_samples = [], pl_final = False\<rparr>"

text \<open>\<open>(d.get(k) or "").strip()\<close>.\<close>

definition stripped :: "pydict \<Rightarrow> string \<Rightarrow> exn + string" where
  "stripped d k = bindE (as_str (py_or (dget d k) (PStr []))) (\<lambda>s. Inr (str_strip s))"

definition sip_of :: "pyval \<Rightarrow> exn + string" where
  "sip_of v = bindE (as_str v) (\<lambda>s. Inr (lp_normalizeSipUri s))"

definition read_call_start :: "pydict \<Rightarrow> payload \<Rightarrow> payload" where
  "read_call_start d p = p\<lparr>
     pl_startRaw := py_or (pl_startRaw p) (py_or (dget d ''raw'') (PStr [])),
     pl_startTime := py_or (pl_startTime p) (py_or (dget d ''timestamp'') (PStr [])),
     pl_url := (if truthy (dget d ''url'') then dget d ''url'' else pl_url p),
     pl_userAgent := (if truthy (dget d ''peerUserAgent'') then dget d ''peerUserAgent'' else pl_userAgent p),
     pl_mediaDir := (if truthy (dget d ''mediaDir'') then dget d ''mediaDir'' else pl_mediaDir p)\<rparr>"

definition read_call_end :: "pydict \<Rightarrow> payload \<Rightarrow> payload" where
  "read_call_end d p = p\<lparr>
     pl_endRaw := (if truthy (dget d ''raw'') then dget d ''raw'' else pl_endRaw p),
     pl_endTime := (if truthy (dget d ''timestamp'') then dget d ''timestamp'' else pl_endTime p)\<rparr>"

definition add_once :: "string \<Rightarrow> string list \<Rightarrow> string list" where
  "add_once k ks = (if k \<in> set ks then ks else ks @ [k])"

definition read_encoder :: "pydict \<Rightarrow> payload \<Rightarrow> exn + payload" where
  "read_encoder d p =
     bindE (stripped d ''media'') (\<lambda>m. bindE (stripped d ''value'') (\<lambda>v.
       Inr (if m = ''audio'' then p\<lparr>pl_encAudio := Some v, pl_encOrder := add_once ''audio'' (pl_encOrder p)\<rparr>
            else if m = ''video'' then p\<lparr>pl_encVideo := pl_encVideo p @ [v], pl_encOrder := add_once ''video'' (pl_encOrder p)\<rparr>
            else p)))"

definition read_destination :: "pydict \<Rightarrow> payload \<Rightarrow> exn + payload" where
  "read_destination d p =
     bindE (if truthy (dget d ''destinationURI'') then stripped d ''destinationURI'' else Inr (pl_destination p)) (\<lambda>u.
     bindE (if truthy (dget d ''destinationDomain'') then stripped d ''destinationDomain'' else Inr (pl_destDomain p)) (\<lambda>dm.
       Inr (p\<lparr>pl_destination := u, pl_destDomain := dm\<rparr>)))"

definition read_call_closed :: "pydict \<Rightarrow> payload \<Rightarrow> exn + payload" where
  "read_call_closed d p =
     bindE (stripped d ''lastEventType'') (\<lambda>eventType.
       let isFinal = (eventType = ''CALL_CLOSED'') in
       if pl_final p \<and> \<not> isFinal then Inr p
       else
         (let p1 = (if isFinal then p\<lparr>pl_final := True, pl_streams := (if pl_samples p \<noteq> [] then [] else pl_streams p)\<rparr> else p) in
          bindE (as_str (py_or (dget d ''peerDisplayName'') (PStr (pl_peerDisplay p1)))) (\<lambda>peer.
          bindE (if truthy (dget d ''sourceURI'') then sip_of (dget d ''sourceURI'') else Inr (pl_source p1)) (\<lambda>src.
          bindE (if truthy (dget d ''destinationURI'') then sip_of (dget d ''destinationURI'') else Inr (pl_destRaw p1)) (\<lambda>dst.
            Inr (p1\<lparr>pl_callId := py_or (dget d ''callId'') (pl_callId p1), pl_peerDisplay := str_strip peer,
                    pl_closeReason := py_or (dget d ''closeReason'') (pl_closeReason p1),
                    pl_lastEvent := str_or eventType (pl_lastEvent p1), pl_source := src, pl_destRaw := dst\<rparr>))))))"

definition read_dtmf :: "pydict \<Rightarrow> payload \<Rightarrow> exn + payload" where
  "read_dtmf d p =
     bindE (stripped d ''input'') (\<lambda>inp.
       let ts = py_or (dget d ''timestamp'') (PStr []) in
       Inr (if truthy ts \<and> inp \<noteq> [] then p\<lparr>pl_dtmf := pl_dtmf p @ [PDict [(''timestamp'', ts), (''input'', PStr inp)]]\<rparr> else p))"

definition read_sample :: "pydict \<Rightarrow> payload \<Rightarrow> payload" where
  "read_sample d p = p\<lparr>pl_streams := [],
     pl_samples := pl_samples p @ [PDict [(''seconds'', dget d ''seconds''), (''video'', py_or (dget d ''video'') (PDict []))]]\<rparr>"

text \<open>\<open>int(v)\<close>, or zero when that raises.\<close>

definition int_or_zero :: "pyval \<Rightarrow> int" where
  "int_or_zero v = (case py_int v of Some i \<Rightarrow> i | None \<Rightarrow> 0)"

definition set_stat :: "string \<Rightarrow> pyval \<Rightarrow> pydict \<Rightarrow> pydict" where
  "set_stat field v d = (if v = PNone then d else dset field v d)"

definition read_stats :: "pydict \<Rightarrow> payload \<Rightarrow> exn + payload" where
  "read_stats d p =
     bindE (stripped d ''media'') (\<lambda>m. bindE (stripped d ''field'') (\<lambda>field.
       let media = str_lower m; tx = dget d ''tx''; rx = dget d ''rx'' in
       Inr (if media = [] \<or> field = [] then p
            else if media = ''audio''
            then p\<lparr>pl_audioTx := set_stat field tx (pl_audioTx p), pl_audioRx := set_stat field rx (pl_audioRx p)\<rparr>
            else if media = ''video''
            then (let i = int_or_zero (dget d ''streamIndex'');
                      st = (case map_of (pl_streams p) i of Some x \<Rightarrow> x | None \<Rightarrow> \<lparr>sm_index = i, sm_tx = [], sm_rx = []\<rparr>)
                  in p\<lparr>pl_streams := AList.update i (st\<lparr>sm_tx := set_stat field tx (sm_tx st),
                                                     sm_rx := set_stat field rx (sm_rx st)\<rparr>) (pl_streams p)\<rparr>)
            else p)))"

definition read_data :: "string \<Rightarrow> pyval \<Rightarrow> payload \<Rightarrow> exn + payload" where
  "read_data recordType data p =
     (if recordType \<notin> {''call_start'', ''call_end'', ''encoder'', ''room'', ''browsing'', ''destination'', ''call_closed'',
           ''dtmf'', ''media_sample'', ''stats_value''} then Inr p
      else (case data of
              PDict d \<Rightarrow>
                (if recordType = ''call_start'' then Inr (read_call_start d p)
                 else if recordType = ''call_end'' then Inr (read_call_end d p)
                 else if recordType = ''encoder'' then read_encoder d p
                 else if recordType = ''room'' then bindE (stripped d ''value'') (\<lambda>v. Inr (p\<lparr>pl_room := v\<rparr>))
                 else if recordType = ''browsing'' then bindE (stripped d ''value'') (\<lambda>v. Inr (p\<lparr>pl_browsing := v\<rparr>))
                 else if recordType = ''destination'' then read_destination d p
                 else if recordType = ''call_closed'' then read_call_closed d p
                 else if recordType = ''dtmf'' then read_dtmf d p
                 else if recordType = ''media_sample'' then Inr (read_sample d p)
                 else read_stats d p)
            | _ \<Rightarrow> Inl (AttributeError ''get'')))"

definition read_record :: "payload \<Rightarrow> string \<Rightarrow> exn + payload" where
  "read_record p raw =
     (case split1 '':'' (str_strip raw) of
        None \<Rightarrow> Inr p
      | Some (t, body) \<Rightarrow>
          (let recordType = str_strip t in
           if recordType = ''main_app'' then Inr (p\<lparr>pl_mainApp := str_strip body\<rparr>)
           else (case json_loads body of None \<Rightarrow> Inr p | Some data \<Rightarrow> read_data recordType data p)))"

fun read_records :: "payload \<Rightarrow> string list \<Rightarrow> exn + payload" where
  "read_records p [] = Inr p"
| "read_records p (l # ls) = bindE (read_record p l) (\<lambda>p'. read_records p' ls)"

definition insert_by_key :: "int \<times> stream \<Rightarrow> (int \<times> stream) list \<Rightarrow> (int \<times> stream) list" where
  "insert_by_key x xs = takeWhile (\<lambda>y. fst y < fst x) xs @ x # dropWhile (\<lambda>y. fst y < fst x) xs"

definition sorted_streams :: "(int \<times> stream) list \<Rightarrow> stream list" where
  "sorted_streams m = map snd (foldr insert_by_key m [])"

definition stream_value :: "stream \<Rightarrow> pyval" where
  "stream_value st = PDict [(''streamIndex'', PInt (sm_index st)), (''tx'', PDict (sm_tx st)), (''rx'', PDict (sm_rx st))]"

text \<open>With readings, the streams kept are renumbered from zero.\<close>

definition call_streams :: "payload \<Rightarrow> stream list" where
  "call_streams p =
     (let streams = sorted_streams (pl_streams p)
      in if pl_samples p = [] then streams
         else map (\<lambda>(i, st). st\<lparr>sm_index := int i\<rparr>) (enumerate 0 streams))"

definition call_seconds :: "payload \<Rightarrow> exn + int" where
  "call_seconds p =
     bindE (as_str (pl_startTime p)) (\<lambda>s. bindE (as_str (pl_endTime p)) (\<lambda>e.
       Inr (case (parseIso s, parseIso e) of
              (Some a, Some b) \<Rightarrow> if a \<le> b then (b - a) div second_us else 0
            | _ \<Rightarrow> 0)))"

definition duration_text :: "int \<Rightarrow> string" where
  "duration_text sec = pad_nat 2 (nat (sec div 3600)) @ '':'' @ pad_nat 2 (nat (sec mod 3600 div 60)) @ '':''
     @ pad_nat 2 (nat (sec mod 60))"

definition encoders_value :: "payload \<Rightarrow> pyval" where
  "encoders_value p = PDict (map (\<lambda>k. (k, if k = ''audio''
       then (case pl_encAudio p of Some v \<Rightarrow> PStr v | None \<Rightarrow> PNone)
       else PList (map PStr (pl_encVideo p)))) (pl_encOrder p))"

definition details_value :: "payload \<Rightarrow> string \<Rightarrow> string \<Rightarrow> pyval" where
  "details_value p sourceName destinationRoomName =
     (let sourceUri = lp_normalizeSipUri (pl_source p);
          (sourceNumber, sourceDomain) = splitUri sourceUri;
          (alias, aliasDomain) = splitUri (pl_destRaw p)
      in PDict [
        (''callId'', pl_callId p),
        (''source'', PDict [
           (''sourceURI'', PStr (stripSipPrefix sourceUri)),
           (''sourceName'', PStr sourceName),
           (''sourceNumber'', PStr sourceNumber),
           (''sourceDomain'', PStr sourceDomain)]),
        (''destination'', PDict [
           (''destinationURI'', PStr (stripSipPrefix (pl_destination p))),
           (''destinationRoomName'', PStr destinationRoomName),
           (''destinationDomain'', PStr (pl_destDomain p)),
           (''destinationDomainRaw'', PStr (stripSipPrefix (pl_destRaw p))),
           (''destinationGw'', PStr alias),
           (''destinationDomainIp'', PStr aliasDomain),
           (''peerDisplayName'', PStr (pl_peerDisplay p))]),
        (''closeReason'', pl_closeReason p),
        (''lastEventType'', PStr (pl_lastEvent p)),
        (''peerUserAgent'', pl_userAgent p),
        (''encoders'', encoders_value p),
        (''mediaDir'', pl_mediaDir p)])"

definition media_value :: "payload \<Rightarrow> pyval" where
  "media_value p = PDict [
     (''audio'', PDict [(''tx'', PDict (pl_audioTx p)), (''rx'', PDict (pl_audioRx p))]),
     (''video'', PList (map stream_value (call_streams p))),
     (''samples'', PList (pl_samples p))]"

definition call_body :: "lp_env \<Rightarrow> payload \<Rightarrow> exn + pyval" where
  "call_body env p =
     bindE (as_str (pl_url p)) (\<lambda>url.
     bindE (call_seconds p) (\<lambda>sec.
       let (sourceName, roomName) = parseCallUrlDetails url in
       Inr (PDict [(''call'', PDict [
         (''mainApp'', PStr (pl_mainApp p)),
         (''callUrl'', PStr url),
         (''browsing'', PStr (pl_browsing p)),
         (''room'', PStr (pl_room p)),
         (''roomType'', PStr ''IVR''),
         (''callSession'', PDict [
            (''callStart'', PDict [(''raw'', pl_startRaw p), (''timestamp'', pl_startTime p)]),
            (''callEnd'', PDict [(''raw'', pl_endRaw p), (''timestamp'', pl_endTime p)]),
            (''totalTime'', PDict [(''seconds'', PInt sec), (''milliseconds'', PInt (sec * 1000)),
                                   (''raw'', PStr (duration_text sec))])]),
         (''details'', details_value p sourceName roomName),
         (''dtmfEvents'', PList (pl_dtmf p)),
         (''mediaStats'', media_value p),
         (''gateway'', PDict (gatewayVersions env))])])))"

definition buildPayloadFromLines :: "lp_env \<Rightarrow> string list \<Rightarrow> exn + pyval" where
  "buildPayloadFromLines env lines = bindE (read_records no_payload lines) (call_body env)"

section \<open>Posting\<close>

text \<open>\<open>post\<close> is the status the receiver answers, or nothing when it cannot be reached. The result is
  whether the file is emptied.\<close>

definition pushHistory :: "lp_env \<Rightarrow> (pyval \<Rightarrow> int option) \<Rightarrow> string list \<Rightarrow> pyval option \<times> bool" where
  "pushHistory env post lines =
     (if le_post_url env = [] \<or> lines = [] then (None, False)
      else (case buildPayloadFromLines env lines of
              Inl _ \<Rightarrow> (None, False)
            | Inr body \<Rightarrow>
                (case post body of
                   None \<Rightarrow> (Some body, False)
                 | Some status \<Rightarrow> (Some body, 200 \<le> status \<and> status < 300))))"

text \<open>A push from a file: what is appended to the file while the post is under way is \<open>during\<close>; the
  file is emptied whole.\<close>

definition push_file :: "lp_env \<Rightarrow> (pyval \<Rightarrow> int option) \<Rightarrow> string \<Rightarrow> string \<Rightarrow> string" where
  "push_file env post during content =
     (case pushHistory env post (file_lines content) of
        (_, True) \<Rightarrow> []
      | _ \<Rightarrow> content @ during)"

section \<open>The loop over the log\<close>

datatype log_action = Append string pydict | Push

record parser =
  ps_media :: "string option"
  ps_stream :: "int option"
  ps_auto :: int
  ps_lastCall :: "string option"
  ps_started :: bool

definition start_parser :: parser where
  "start_parser = \<lparr>ps_media = None, ps_stream = None, ps_auto = -1, ps_lastCall = None, ps_started = False\<rparr>"

definition after_mark :: "string \<Rightarrow> string \<Rightarrow> string" where
  "after_mark mark line = (case split1 mark line of Some (_, r) \<Rightarrow> str_strip r | None \<Rightarrow> [])"

definition grp :: "caps \<Rightarrow> string \<Rightarrow> string" where
  "grp cs g = (case group cs g of Some s \<Rightarrow> s | None \<Rightarrow> [])"

text \<open>\<open>str(d.get(k) or "").strip()\<close>.\<close>

definition field_text :: "pydict \<Rightarrow> string \<Rightarrow> string" where
  "field_text d k = str_strip (py_str (py_or (dget d k) (PStr [])))"

definition call_end_record :: "int \<Rightarrow> pydict" where
  "call_end_record now = [(''raw'', PStr (rawTimestamp now)), (''timestamp'', PStr (isoZ False now))]"

definition established_record :: "int \<Rightarrow> pydict \<Rightarrow> pydict" where
  "established_record now e = [
     (''timestamp'', PStr (isoZ False now)),
     (''callId'', PStr (field_text e ''id'')),
     (''sourceURI'', PStr (lp_normalizeSipUri (field_text e ''peeruri''))),
     (''peerDisplayName'', PStr (field_text e ''peerdisplayname'')),
     (''peerUserAgent'', PStr (field_text e ''peeruseragent'')),
     (''mediaDir'', PDict [
        (''audio'', PStr (field_text e ''audiodir'')),
        (''video'', PStr (field_text e ''videodir'')),
        (''remoteAudio'', PStr (field_text e ''remoteaudiodir'')),
        (''remoteVideo'', PStr (field_text e ''remotevideodir'')),
        (''localAudio'', PStr (field_text e ''localaudiodir'')),
        (''localVideo'', PStr (field_text e ''localvideodir''))])]"

definition closed_record :: "pydict \<Rightarrow> pydict" where
  "closed_record e = [
     (''callId'', PStr (field_text e ''id'')),
     (''peerDisplayName'', PStr (field_text e ''peerdisplayname'')),
     (''closeReason'', PStr (field_text e ''param'')),
     (''lastEventType'', PStr (field_text e ''type'')),
     (''sourceURI'', PStr (lp_normalizeSipUri (field_text e ''peeruri''))),
     (''destinationURI'', PStr (lp_normalizeSipUri (field_text e ''accountaor'')))]"

definition event_line :: "int \<Rightarrow> string \<Rightarrow> parser \<Rightarrow> log_action list \<times> parser" where
  "event_line now line st =
     (case re_match dtmfRegex line of
        Some (cs, _) \<Rightarrow>
          ([Append ''dtmf'' [(''timestamp'', PStr (isoZ True now)), (''input'', PStr (str_strip (grp cs ''input'')))]], st)
      | None \<Rightarrow>
          (case parseEventDict line of
             None \<Rightarrow> ([], st)
           | Some e \<Rightarrow>
               if e \<noteq> [] \<and> dget e ''type'' = PStr ''MEDIA_STATS'' then ([Append ''media_sample'' e], st)
               else if e = [] \<or> dget e ''class'' \<noteq> PStr ''call'' then ([], st)
               else
                 (let lastType = field_text e ''type''; callId = field_text e ''id'' in
                  if lastType = ''CALL_ESTABLISHED'' then ([Append ''call_start'' (established_record now e)], st)
                  else if lastType \<noteq> ''CALL_CLOSED'' then ([], st)
                  else if callId \<noteq> [] \<and> ps_lastCall st = Some callId then ([], st)
                  else ([Append ''call_closed'' (closed_record e), Append ''call_end'' (call_end_record now), Push],
                        if callId \<noteq> [] then st\<lparr>ps_lastCall := Some callId\<rparr> else st))))"

definition header_state :: "caps \<Rightarrow> parser \<Rightarrow> parser" where
  "header_state cs st =
     (let media = str_lower (str_strip (grp cs ''media'')) in
      if media = ''video'' then
        (case group cs ''stream'' of
           Some n \<Rightarrow> (let i = int (digits_val n) in st\<lparr>ps_media := Some media, ps_stream := Some i, ps_auto := max (ps_auto st) i\<rparr>)
         | None \<Rightarrow> st\<lparr>ps_media := Some media, ps_auto := ps_auto st + 1, ps_stream := Some (ps_auto st + 1)\<rparr>)
      else st\<lparr>ps_media := Some media, ps_stream := None\<rparr>)"

definition nth_number :: "string list \<Rightarrow> nat \<Rightarrow> pyval" where
  "nth_number nums i = (if i < length nums then toNumber (nums ! i) else PNone)"

definition stats_record :: "parser \<Rightarrow> string \<Rightarrow> string \<Rightarrow> string \<Rightarrow> pydict" where
  "stats_record st media field rest =
     (let nums = re_findall numRegex rest in
      [(''media'', PStr media),
       (''streamIndex'', case ps_stream st of None \<Rightarrow> PNone | Some i \<Rightarrow> PInt i),
       (''field'', PStr field),
       (''tx'', nth_number nums 0),
       (''rx'', nth_number nums 1)])"

definition is_end_line :: "string \<Rightarrow> bool" where
  "is_end_line line = (str_in ''ua: stop all'' line \<or> str_in ''Files sent and removed'' line
     \<or> str_in ''Files moved in log directory'' line)"

definition baresip_line :: "int \<Rightarrow> string \<Rightarrow> parser \<Rightarrow> log_action list \<times> parser" where
  "baresip_line now line st =
     (case re_match baresipRegex line of
        Some (cs, _) \<Rightarrow>
          ([Append ''destination'' [(''destinationURI'', PStr (grp cs ''dest_user'' @ ''@'' @ grp cs ''dest_dom'')),
              (''destinationRoomName'', PStr (grp cs ''dest_user'')), (''destinationDomain'', PStr (grp cs ''dest_dom''))]], st)
      | None \<Rightarrow>
          (case re_match statHeaderRegex line of
             Some (cs, _) \<Rightarrow> ([], header_state cs st)
           | None \<Rightarrow>
               (case (re_match statValueRegex line, ps_media st) of
                  (Some (cs, _), Some media) \<Rightarrow>
                    (case map_of fieldMap (str_strip (grp cs ''label'')) of
                       Some field \<Rightarrow> ([Append ''stats_value'' (stats_record st media field (grp cs ''rest''))], st)
                     | None \<Rightarrow> ([], st))
                | _ \<Rightarrow> if is_end_line line then ([Append ''call_end'' (call_end_record now), Push], st) else ([], st))))"

definition process_line :: "string \<Rightarrow> int \<Rightarrow> string \<Rightarrow> parser \<Rightarrow> log_action list \<times> parser" where
  "process_line pref now line st =
     (if \<not> ps_started st \<and> str_in ''Web browsing URL:'' line then
        ([Append ''gw_start'' [(''raw'', PStr (rawTimestamp now)), (''timestamp'', PStr (isoZ False now)),
            (''url'', PStr (after_mark ''URL:'' line))]], st\<lparr>ps_started := True\<rparr>)
      else (case re_search encoderRegex line of
              Some (cs, _) \<Rightarrow>
                ([Append ''encoder'' [(''media'', PStr (str_lower (grp cs ''media''))),
                    (''value'', PStr (str_strip (grp cs ''rest'')))]], st)
            | None \<Rightarrow>
                if str_in ''room:'' line then ([Append ''room'' [(''value'', PStr (after_mark ''room:'' line))]], st)
                else if str_in ''browsing:'' line then ([Append ''browsing'' [(''value'', PStr (after_mark ''browsing:'' line))]], st)
                else if pref = ''Event'' then event_line now line st
                else if pref = ''Baresip'' then baresip_line now line st
                else ([], st)))"

text \<open>The lines of a chunk of the log, escape sequences removed.\<close>

definition clean_lines :: "string \<Rightarrow> string list" where
  "clean_lines raw = filter (\<lambda>l. l \<noteq> []) (map str_strip (str_splitlines
     (str_replace [CHR 0x0D] [CHR 0x0A] (str_replace [CHR 0x08] [] (re_remove ansiEscapeRegex raw)))))"

fun do_actions :: "lp_env \<Rightarrow> (pyval \<Rightarrow> int option) \<Rightarrow> log_action list \<Rightarrow> string \<Rightarrow> string" where
  "do_actions env post [] content = content"
| "do_actions env post (Append t d # as) content = do_actions env post as (appendHistory content t d)"
| "do_actions env post (Push # as) content = do_actions env post as (push_file env post [] content)"

fun log_loop :: "lp_env \<Rightarrow> (pyval \<Rightarrow> int option) \<Rightarrow> string \<Rightarrow> (int \<times> string) list \<Rightarrow> parser \<times> string \<Rightarrow> parser \<times> string" where
  "log_loop env post pref [] w = w"
| "log_loop env post pref ((now, line) # lines) (st, content) =
     (let (acts, st') = process_line pref now line st
      in log_loop env post pref lines (st', do_actions env post acts content))"

definition log_main :: "lp_env \<Rightarrow> (pyval \<Rightarrow> int option) \<Rightarrow> string \<Rightarrow> (int \<times> string) list \<Rightarrow> string \<Rightarrow> string" where
  "log_main env post pref chunks content =
     snd (log_loop env post pref
            (concat (map (\<lambda>(now, raw). map (\<lambda>l. (now, l)) (clean_lines raw)) chunks)) (start_parser, content))"

end
