(* ===== verification/Launcher.thy ===== *)
theory Launcher
  imports Py_IO Py_Num
begin

text \<open>
  The launcher (\<open>HTTPLauncher.py\<close>), one per virtual machine: it starts and stops the container of a
  gateway, reports its state and relays commands to it. Docker, the launch script and the browser
  driver are outside the repository's Python: \<open>sh\<close> answers a command line, \<open>read_file\<close> gives the
  text of a file and \<open>web\<close> the answer of the driver.
\<close>

section \<open>What docker answers\<close>

fun get_status_by_name :: "pyval list \<Rightarrow> string \<Rightarrow> exn + pyval" where
  "get_status_by_name [] wanted = Inr PNone"
| "get_status_by_name (e # es) wanted =
     bindE (py_get e ''Name'') (\<lambda>n.
       if n = PStr wanted then py_get e ''Status'' else get_status_by_name es wanted)"

definition json_decode_error :: exn where
  "json_decode_error = ValueError ''Expecting value''"

definition loads :: "string \<Rightarrow> exn + pyval" where
  "loads s = (case json_loads s of Some v \<Rightarrow> Inr v | None \<Rightarrow> Inl json_decode_error)"

definition compose_json :: "string \<Rightarrow> exn + pyval list" where
  "compose_json out =
     (let decoded = str_strip out in
      case json_loads decoded of
        Some (PDict d) \<Rightarrow> Inr [PDict d]
      | Some (PList xs) \<Rightarrow> Inr xs
      | Some _ \<Rightarrow> Inl (ValueError ''Unexpected format'')
      | None \<Rightarrow> mapE loads (filter (\<lambda>l. str_strip l \<noteq> []) (str_split [CHR 0x0A] decoded)))"

definition get_gateway_docker_status :: "'w shell \<Rightarrow> string \<Rightarrow> ('w, pyval) io" where
  "get_gateway_docker_status sh gw_id =
     bind_io (run sh [''docker'', ''compose'', ''ls'', ''-a'', ''--format'', ''json'']) (\<lambda>p.
       lift_io (bindE (compose_json (pr_out p)) (\<lambda>entries. get_status_by_name entries gw_id)))"

fun first_gw :: "pyval list \<Rightarrow> exn + pyval" where
  "first_gw [] = Inr PNone"
| "first_gw (c # cs) =
     bindE (py_get_def_val c ''Name'' (PStr [])) (\<lambda>n. bindE (as_str n) (\<lambda>name.
       if startswith name ''gw'' then Inr c else first_gw cs))"

definition get_gw_info :: "'w shell \<Rightarrow> string \<Rightarrow> ('w, pyval) io" where
  "get_gw_info sh gw_id =
     bind_io (run sh [''docker'', ''compose'', ''-p'', gw_id, ''ps'', ''--format'', ''json'']) (\<lambda>p.
       lift_io (bindE (compose_json (pr_out p)) first_gw))"

section \<open>The history file and the display name\<close>

type_synonym history = "(string \<times> pyval list) list"

definition hist_add :: "history \<Rightarrow> string \<Rightarrow> pyval \<Rightarrow> history" where
  "hist_add h k v = dset k ((case map_of h k of None \<Rightarrow> [] | Some vs \<Rightarrow> vs) @ [v]) h"

definition history_line :: "history \<Rightarrow> string \<Rightarrow> history" where
  "history_line h raw =
     (let line = str_strip raw in
      case split1 '':'' line of
        None \<Rightarrow> h
      | Some (k, v) \<Rightarrow>
          (let value = str_strip v
           in hist_add h (str_strip k) (case json_loads value of Some x \<Rightarrow> x | None \<Rightarrow> PStr value)))"

definition parseHistoryFile :: "string \<Rightarrow> history" where
  "parseHistoryFile content = foldl history_line [] (file_lines content)"

definition parseDisplayName :: "string \<Rightarrow> string" where
  "parseDisplayName raw =
     (let value = str_strip raw in
      if value = [] then []
      else (case split1 ''-'' value of
              None \<Rightarrow> value
            | Some (pre, remainder) \<Rightarrow>
                (case py_int_str pre of
                   None \<Rightarrow> value
                 | Some n \<Rightarrow> str_strip (slice_from n remainder))))"

section \<open>Start and stop\<close>

record start_request =
  sr_room :: string
  sr_gw_id :: string
  sr_main_app :: string
  sr_browsing_name :: "string option"
  sr_prefix :: "string option"
  sr_rtmp_dst :: "string option"
  sr_dial :: "string option"
  sr_loop :: "bool option"
  sr_transcript :: "string option"
  sr_audio_only :: "string option"
  sr_api_key :: "string option"
  sr_recipient_mail :: "string option"

definition opt_arg :: "string \<Rightarrow> string option \<Rightarrow> string list" where
  "opt_arg flag v = (case v of Some s \<Rightarrow> if s = [] then [] else [flag, s] | None \<Rightarrow> [])"

definition start_args :: "start_request \<Rightarrow> string list" where
  "start_args rq =
     [''./SIPMediaGW.sh'', ''-r'', sr_room rq]
     @ opt_arg ''-p'' (sr_prefix rq)
     @ opt_arg ''-b'' (sr_browsing_name rq)
     @ opt_arg ''-u'' (sr_rtmp_dst rq)
     @ opt_arg ''-d'' (sr_dial rq)
     @ (if sr_loop rq = Some True then [''-l''] else [])
     @ (if sr_transcript rq = Some ''true'' then [''-s''] else [])
     @ (if sr_audio_only rq = Some ''true'' then [''-o''] else [])
     @ opt_arg ''-k'' (sr_api_key rq)
     @ opt_arg ''-m'' (sr_recipient_mail rq)
     @ opt_arg ''-g'' (Some (sr_gw_id rq))
     @ opt_arg ''-a'' (Some (sr_main_app rq))"

definition start_gateway :: "'w shell \<Rightarrow> start_request \<Rightarrow> ('w, pydict) io" where
  "start_gateway sh rq =
     bind_io (run sh (start_args rq)) (\<lambda>p.
       lift_io (bindE (loads (str_replace [CHR 0x27] [CHR 0x22] (pr_out p))) (\<lambda>j.
         bindE (py_get j ''res'') (\<lambda>res.
           if res \<noteq> PStr ''ok'' then Inl (ValueError ''Failed to start gateway container'')
           else Inr [(''processing_state'', PStr ''working''), (''gw_id'', PStr (sr_gw_id rq))]))))"

text \<open>\<open>'force' in req\<close> on a pydantic model asks whether the text equals one of the model's
  (name, value) pairs, which it never does.\<close>

definition model_contains :: "(string \<times> pyval) list \<Rightarrow> pyval \<Rightarrow> bool" where
  "model_contains members v = (v \<in> set (map (\<lambda>(k, x). PList [PStr k, x]) members))"

record stop_request =
  st_gw_id :: string
  st_force :: "bool option"

definition stop_fields :: "stop_request \<Rightarrow> (string \<times> pyval) list" where
  "stop_fields rq = [(''gw_id'', PStr (st_gw_id rq)),
     (''force'', case st_force rq of None \<Rightarrow> PNone | Some b \<Rightarrow> PBool b)]"

definition stop_args :: "stop_request \<Rightarrow> string list" where
  "stop_args rq = [''docker'', ''compose'', ''-p'', st_gw_id rq]
     @ (if model_contains (stop_fields rq) (PStr ''force'') \<and> st_force rq = Some True then [''down''] else [''stop'', ''gw''])"

definition stop_gateway :: "'w shell \<Rightarrow> stop_request \<Rightarrow> ('w, pydict) io" where
  "stop_gateway sh rq =
     bind_io (run sh [''docker'', ''compose'', ''ls'', ''--format'', ''json'', ''-q'']) (\<lambda>p.
       if st_gw_id rq \<notin> set (str_splitlines (pr_out p))
       then raise_io (ValueError (''no running container for gw_id='' @ st_gw_id rq))
       else bind_io (run sh (stop_args rq)) (\<lambda>_. ret_io [(''processing_state'', PStr ''stopped'')]))"

section \<open>Status\<close>

definition transcript_percent :: "string list \<Rightarrow> string" where
  "transcript_percent mp4 =
     (if mp4 = [] then ''0%''
      else int_str (round_even (of_nat (length (filter (\<lambda>f. endswith f ''.processed.mp4'') mp4))
                       / of_nat (length mp4) * 100)) @ ''%'')"

definition record_script :: string where
  "record_script = ''[ '' @ [CHR 0x22] @ ''$MAIN_APP'' @ [CHR 0x22] @ '' = '' @ [CHR 0x22] @ ''recording'' @ [CHR 0x22]
     @ '' ] && pid=$(pgrep -o ffmpeg) && [ -n '' @ [CHR 0x22] @ ''$pid'' @ [CHR 0x22]
     @ '' ] && ps -p $pid -o etimes= | awk '' @ [CHR 0x27]
     @ ''{ sec=$1; h=int(sec/3600); m=int((sec%3600)/60); s=sec%60; printf ''
     @ [CHR 0x22] @ ''%02d:%02d:%02d'' @ [CHR 0x22] @ '', h, m, s }'' @ [CHR 0x27]"

definition in_container :: "string \<Rightarrow> string \<Rightarrow> string list" where
  "in_container name script = [''docker'', ''exec'', name, ''sh'', ''-c'', script]"

definition call_fields :: "history \<Rightarrow> exn + (pyval \<times> pyval \<times> pyval)" where
  "call_fields h =
     (case map_of h ''call_start'' of
        None \<Rightarrow> Inr (PStr [], PStr [], PStr [])
      | Some calls \<Rightarrow>
          bindE (py_last calls) (\<lambda>call.
            case call of
              PDict d \<Rightarrow>
                bindE (as_str (py_or (dget_def_val d ''peerDisplayName'' (PStr [])) (PStr []))) (\<lambda>name.
                  Inr (py_or (dget_def_val d ''sourceURI'' (PStr [])) (PStr []),
                       PStr (parseDisplayName name),
                       py_or (dget_def_val d ''timestamp'' (PStr [])) (PStr [])))
            | _ \<Rightarrow> Inr (PStr [], PStr [], PStr [])))"

definition history_value :: "history \<Rightarrow> string \<Rightarrow> exn + pyval" where
  "history_value h k =
     (if map_of h ''gw_start'' = None then Inr (PStr [])
      else (case map_of h k of
              None \<Rightarrow> Inr (PStr [])
            | Some vs \<Rightarrow> bindE (py_last vs) (\<lambda>v. py_index v ''value'')))"

definition history_status :: "history \<Rightarrow> pydict \<Rightarrow> exn + pydict" where
  "history_status h resp =
     bindE (call_fields h) (\<lambda>(uri, name, started).
     bindE (history_value h ''room'') (\<lambda>room.
     bindE (history_value h ''browsing'') (\<lambda>browsing.
       Inr (resp @ [(''browsing'', browsing), (''room'', room), (''peer_uri'', uri), (''peer_name'', name),
                    (''call_started'', started)]))))"

definition get_status :: "'w shell \<Rightarrow> (string \<Rightarrow> string option) \<Rightarrow> string \<Rightarrow> ('w, pydict) io" where
  "get_status sh read_file gw_id =
     bind_io (get_gateway_docker_status sh gw_id) (\<lambda>status.
       if status = PNone then raise_io (ValueError ''Gateway not found'')
       else bind_io (lift_io (py_in ''exited'' status)) (\<lambda>exited.
         if exited then ret_io [(''gw_state'', PStr ''down''), (''detail'', PStr ''exited'')]
         else bind_io (get_gw_info sh gw_id) (\<lambda>gwData.
           if \<not> truthy gwData then ret_io [(''gw_state'', PStr ''down'')]
           else bind_io (lift_io (py_index gwData ''Name'')) (\<lambda>nm.
             let gwName = py_str nm in
             bind_io (run sh (in_container gwName record_script)) (\<lambda>rec.
             bind_io (run sh (in_container gwName ''echo $WITH_TRANSCRIPT'')) (\<lambda>wt.
             bind_io (if str_strip (pr_out wt) = ''true''
                      then bind_io (run sh (in_container gwName ''ls /var/recording/*.mp4'')) (\<lambda>ls.
                             ret_io [(''transcript_progress'', PStr (transcript_percent (str_words (pr_out ls))))])
                      else ret_io []) (\<lambda>transcript.
             bind_io (run sh (in_container gwName ''echo $PHYSICAL_ROOM'')) (\<lambda>pr.
               let elapsed = str_strip (pr_out rec); physical = str_strip (pr_out pr);
                   resp = [(''gw_state'', PStr ''up''), (''gw_id'', PStr gw_id)]
                     @ (if elapsed = [] then [] else [(''recording_duration'', PStr elapsed)])
                     @ transcript
                     @ (if physical = [] then [] else [(''physical_room'', PStr physical)])
               in case read_file (''./logs/'' @ gwName @ ''_history'') of
                    None \<Rightarrow> raise_io (OSError ''No such file or directory'')
                  | Some content \<Rightarrow> lift_io (history_status (parseHistoryFile content) resp)))))))))"

definition getIvrConfig :: "'w shell \<Rightarrow> string \<Rightarrow> ('w, pydict) io" where
  "getIvrConfig sh gwId =
     bind_io (get_gw_info sh gwId) (\<lambda>gwData.
       if \<not> truthy gwData then raise_io (ValueError ''Gateway not found'')
       else bind_io (lift_io (py_index gwData ''Name'')) (\<lambda>nm.
         bind_io (run sh [''docker'', ''exec'', py_str nm, ''cat'', ''/var/browsing/assets/config.json'']) (\<lambda>p.
           if pr_code p \<noteq> 0 then raise_io (ValueError (''Failed to read config.json: '' @ pr_err p))
           else (case json_loads (pr_out p) of
                   None \<Rightarrow> raise_io (ValueError ''Invalid config.json: Expecting value'')
                 | Some cfg \<Rightarrow> lift_io (
                     bindE (py_get_def_val cfg ''menus'' (PDict [])) (\<lambda>menus.
                     bindE (py_get_def_val cfg ''webrtc_domains'' (PDict [])) (\<lambda>domains.
                     bindE (py_get_def_val cfg ''room_name_info'' (PDict [])) (\<lambda>info.
                       Inr [(''status'', PStr ''success''), (''menus'', menus), (''webrtc_domains'', domains),
                            (''room_name_info'', info)]))))))))"

section \<open>The browser of a gateway\<close>

text \<open>\<open>web_sessions\<close> is the answer of \<open>/sessions\<close>; \<open>web_execute\<close> that of one script request.\<close>

datatype script_reply =
    Scripted "exn + pyval"
  | ScriptHTTPError "exn + pyval" string
  | ScriptFailed exn

record 'w web =
  web_sessions :: "string \<Rightarrow> 'w \<Rightarrow> (exn + pyval) \<times> 'w"
  web_execute :: "string \<Rightarrow> string \<Rightarrow> string \<Rightarrow> pyval list \<Rightarrow> 'w \<Rightarrow> script_reply \<times> 'w"

definition first_session :: "pyval \<Rightarrow> exn + pyval" where
  "first_session data =
     (let sid = (case data of PDict d \<Rightarrow> py_or (dget_def_val d ''sessionId'' (PStr [])) (PStr []) | _ \<Rightarrow> PStr [])
      in if truthy sid then Inr sid
         else bindE (py_get data ''value'') (\<lambda>val.
           case val of
             PList (PDict e # _) \<Rightarrow> Inr (py_or (py_or (dget e ''id'') (dget e ''sessionId'')) (PStr []))
           | _ \<Rightarrow> Inr sid))"

definition session_text :: "pyval \<Rightarrow> exn + string" where
  "session_text data =
     bindE (first_session data) (\<lambda>sid. bindE (as_str (py_or sid (PStr []))) (\<lambda>t.
       Inr (str_replace [CHR 0x22] [] (str_strip t))))"

definition getSeleniumSessionId :: "'w web \<Rightarrow> string \<Rightarrow> 'w \<Rightarrow> string option \<times> 'w" where
  "getSeleniumSessionId web gwId w =
     (let (reply, w') = web_sessions web (''http://127.0.0.1:951'' @ gwId @ ''/sessions'') w
      in case bindE reply session_text of Inr s \<Rightarrow> (Some s, w') | Inl _ \<Rightarrow> (None, w'))"

definition script_error :: "exn + pyval \<Rightarrow> string \<Rightarrow> exn" where
  "script_error body exc =
     (let message = (case bindE body (\<lambda>b. bindE (py_get b ''value'') (\<lambda>v. bindE (py_get (py_or v (PDict [])) ''message'') (\<lambda>m.
            bindE (py_get (py_or v (PDict [])) ''error'') (\<lambda>er. Inr (py_or (py_or m er) (PStr exc)))))) of
          Inr m \<Rightarrow> m | Inl _ \<Rightarrow> PStr exc)
      in case message of
           PStr t \<Rightarrow> (case str_splitlines t of
              l # _ \<Rightarrow> RuntimeError (''browser script failed: '' @ l)
            | [] \<Rightarrow> IndexError ''list index out of range'')
         | _ \<Rightarrow> AttributeError ''splitlines'')"

definition executeInExistingChromeSession :: "'w web \<Rightarrow> string \<Rightarrow> string \<Rightarrow> pyval list \<Rightarrow> ('w, pyval) io" where
  "executeInExistingChromeSession web gwId script args w =
     (let (sid, w1) = getSeleniumSessionId web gwId w in
      case sid of
        None \<Rightarrow> (Inl (RuntimeError ''no browser session on this gateway''), w1)
      | Some sessionId \<Rightarrow>
          if sessionId = [] then (Inl (RuntimeError ''no browser session on this gateway''), w1)
          else (let (reply, w2) = web_execute web
                      (''http://127.0.0.1:951'' @ gwId @ ''/session/'' @ sessionId @ ''/execute/sync'')
                      sessionId script args w1
                in case reply of
                     Scripted j \<Rightarrow> (bindE j (\<lambda>v. py_get v ''value''), w2)
                   | ScriptHTTPError body exc \<Rightarrow> (Inl (script_error body exc), w2)
                   | ScriptFailed e \<Rightarrow> (Inl e, w2)))"

section \<open>Commands\<close>

definition key_name :: "pyval \<Rightarrow> pyval" where
  "key_name k =
     (if k = PStr ''#'' \<or> k = PStr ''Enter'' then PStr ''numbersign''
      else if k = PStr ''*'' \<or> k = PStr ''Backspace'' then PStr ''asterisk''
      else if k = PStr ''-'' then PStr ''minus''
      else k)"

definition char_key :: "pyval \<Rightarrow> pyval" where
  "char_key c =
     (if c = PStr ''#'' then PStr ''numbersign''
      else if c = PStr ''*'' then PStr ''asterisk''
      else if c = PStr ''-'' then PStr ''minus''
      else c)"

definition xdotool :: "string \<Rightarrow> string \<Rightarrow> pyval \<Rightarrow> string list" where
  "xdotool gwName display k = in_container gwName (''DISPLAY='' @ display @ '' xdotool key '' @ py_str k)"

definition meeting_call :: "string \<Rightarrow> string \<Rightarrow> string" where
  "meeting_call call otherwise =
     ''return (window.meeting && window.meeting.'' @ call @ '') ? window.meeting.'' @ call @ otherwise"

definition ack :: "string \<Rightarrow> pyval \<Rightarrow> pydict" where
  "ack name v = [(''ack'', PBool True), (name, v)]"

definition on_off :: "pyval \<Rightarrow> bool" where
  "on_off v = (v = PStr ''on'' \<or> v = PStr ''off'')"

definition display_name_script :: string where
  "display_name_script = ''const params = new URLSearchParams(window.location.search); params.set('' @ quoted ''displayName'' @ '', arguments[0]); history.replaceState({}, '' @ quoted [] @ '', `${location.pathname}?${params.toString()}`);''"

definition switch_command :: "'w web \<Rightarrow> string \<Rightarrow> string \<Rightarrow> pydict \<Rightarrow> ('w, pydict) io" where
  "switch_command web gwId name payload =
     (let state = dget payload ''param1'' in
      if \<not> on_off state then raise_io (ValueError (name @ '' param1 must be '' @ quoted ''on'' @ '' or '' @ quoted ''off''))
      else bind_io (executeInExistingChromeSession web gwId (''return window.meeting.'' @ name @ ''(arguments[0]);'') [state])
             (\<lambda>_. ret_io (ack name state)))"

definition read_command :: "'w web \<Rightarrow> string \<Rightarrow> string \<Rightarrow> ('w, pydict) io" where
  "read_command web gwId name =
     bind_io (executeInExistingChromeSession web gwId (meeting_call name ''() : null;'') []) (\<lambda>v. ret_io (ack name v))"

definition browser_command :: "'w web \<Rightarrow> string \<Rightarrow> string \<Rightarrow> pydict \<Rightarrow> ('w, pydict) io" where
  "browser_command web gwId cmd payload =
     (if cmd = ''sendChat'' then
        bind_io (lift_io (dindex payload ''param1'')) (\<lambda>msg.
        bind_io (executeInExistingChromeSession web gwId (meeting_call ''sendChat'' ''(arguments[0]) : false;'') [msg]) (\<lambda>ok.
          if truthy ok then ret_io (ack ''sendChat'' (PBool True))
          else raise_io (ValueError ''sendChat failed or not supported by this connector'')))
      else if cmd = ''slideShot'' then
        bind_io (executeInExistingChromeSession web gwId ''return window.meeting.slideShot();'' []) (\<lambda>v. ret_io (ack ''slideImg'' v))
      else if cmd = ''reaction'' then
        (let name = dget payload ''param1'' in
         if \<not> truthy name then raise_io (ValueError ''reaction requires param1'')
         else bind_io (executeInExistingChromeSession web gwId (meeting_call ''reaction'' ''(arguments[0]) : false;'') [name]) (\<lambda>ok.
           if truthy ok then ret_io (ack ''reaction'' name)
           else raise_io (ValueError (''reaction '' @ quoted (py_str name) @ '' not supported by this connector''))))
      else if cmd = ''mediaState'' \<or> cmd = ''uiState'' \<or> cmd = ''panelState'' then read_command web gwId cmd
      else if cmd = ''camera'' \<or> cmd = ''microphone'' then switch_command web gwId cmd payload
      else if cmd = ''displayName'' then
        (case dget payload ''param1'' of
           PStr (c # cs) \<Rightarrow> bind_io (executeInExistingChromeSession web gwId display_name_script [PStr (c # cs)])
                              (\<lambda>_. ret_io [(''ack'', PBool True)])
         | _ \<Rightarrow> bind_io (executeInExistingChromeSession web gwId
                  (''let name=new URLSearchParams(window.location.search).get('' @ quoted ''displayName'' @ ''); return name;'') [])
                  (\<lambda>name. ret_io (ack ''displayName'' name)))
      else
        bind_io (executeInExistingChromeSession web gwId
          (''window.inputRoomName = arguments[0]; document.dispatchEvent(new KeyboardEvent('' @ quoted ''keydown'' @ '', {'' @ quoted ''key'' @ '': '' @ quoted ''#'' @ ''}));;'')
          [dget payload ''param1'']) (\<lambda>_. ret_io [(''ack'', PBool True)]))"

definition press :: "'w shell \<Rightarrow> string \<Rightarrow> string \<Rightarrow> pyval \<Rightarrow> ('w, unit) io" where
  "press sh gwName display k = bind_io (run sh (xdotool gwName display k)) (\<lambda>_. ret_io ())"

definition received :: "pydict \<Rightarrow> pydict" where
  "received payload = [(''ack'', PBool True), (''received'', PDict payload)]"

definition browser_commands :: "string list" where
  "browser_commands = [''sendChat'', ''slideShot'', ''reaction'', ''mediaState'', ''uiState'', ''panelState'',
     ''camera'', ''microphone'', ''displayName'', ''roomName'']"

definition hangup_script :: string where
  "hangup_script = ''echo '' @ [CHR 0x22] @ ''/hangup'' @ [CHR 0x22] @ '' | netcat -q 1 127.0.0.1 5555''"

definition gateway_command ::
    "'w shell \<Rightarrow> 'w web \<Rightarrow> string \<Rightarrow> string \<Rightarrow> string \<Rightarrow> pyval \<Rightarrow> pydict \<Rightarrow> ('w, pydict) io" where
  "gateway_command sh web gwName display gwId cmd payload =
     (if cmd = PStr ''sendKey'' then
        bind_io (lift_io (dindex payload ''param1'')) (\<lambda>k.
        bind_io (press sh gwName display (key_name k)) (\<lambda>_. ret_io (received payload)))
      else if cmd = PStr ''sendString'' then
        bind_io (lift_io (dindex payload ''param1'')) (\<lambda>s.
        bind_io (lift_io (py_iter s)) (\<lambda>cs.
        bind_io (for_io (\<lambda>c. press sh gwName display (char_key c)) cs) (\<lambda>_. ret_io (received payload))))
      else if cmd = PStr ''endCall'' then
        bind_io (run sh (in_container gwName hangup_script)) (\<lambda>_. ret_io (received payload))
      else (case cmd of
              PStr name \<Rightarrow> if name \<in> set browser_commands then browser_command web gwId name payload
                           else ret_io (received payload)
            | _ \<Rightarrow> ret_io (received payload)))"

definition line_at :: "string list \<Rightarrow> nat \<Rightarrow> string" where
  "line_at lines i = (if i < length lines then str_strip (lines ! i) else [])"

definition sendCommand :: "'w shell \<Rightarrow> 'w web \<Rightarrow> string \<Rightarrow> pydict \<Rightarrow> ('w, pydict) io" where
  "sendCommand sh web gwUid payload =
     bind_io (get_gw_info sh gwUid) (\<lambda>gwData.
       if gwData = PNone then raise_io (ValueError ''Gateway not found'')
       else bind_io (lift_io (py_index gwData ''Name'')) (\<lambda>nm.
         let gwName = py_str nm in
         bind_io (run sh (in_container gwName (''printf '' @ [CHR 0x22] @ ''%s'' @ [CHR 0x5C] @ ''n%s'' @ [CHR 0x22]
             @ '' '' @ [CHR 0x22] @ ''$DISPLAY_WEB'' @ [CHR 0x22] @ '' '' @ [CHR 0x22] @ ''$GW_ID'' @ [CHR 0x22]))) (\<lambda>p.
           let lines = str_splitlines (pr_out p) in
           bind_io (lift_io (dindex payload ''command'')) (\<lambda>cmd.
             gateway_command sh web gwName (line_at lines 0) (line_at lines 1) cmd payload))))"

section \<open>Routes\<close>

datatype answer = Success pydict | Refused int string

text \<open>The \<open>try\<close> of the routes: a \<open>ValueError\<close> is a 404, anything else a 500.\<close>

definition route_answer :: "string \<Rightarrow> exn + pydict \<Rightarrow> answer" where
  "route_answer prefix500 r =
     (case r of
        Inr d \<Rightarrow> Success d
      | Inl (ValueError m) \<Rightarrow> Refused 404 m
      | Inl e \<Rightarrow> Refused 500 (prefix500 @ exn_str e))"

definition start_route :: "'w shell \<Rightarrow> start_request \<Rightarrow> 'w \<Rightarrow> answer \<times> 'w" where
  "start_route sh rq w = map_prod (route_answer ''Failed to start gateway: '') id (start_gateway sh rq w)"

definition stop_route :: "'w shell \<Rightarrow> stop_request \<Rightarrow> 'w \<Rightarrow> answer \<times> 'w" where
  "stop_route sh rq w = map_prod (route_answer ''Failed to stop gateway: '') id (stop_gateway sh rq w)"

definition status_route :: "'w shell \<Rightarrow> (string \<Rightarrow> string option) \<Rightarrow> string \<Rightarrow> 'w \<Rightarrow> answer \<times> 'w" where
  "status_route sh read_file gw_id w = map_prod (route_answer []) id (get_status sh read_file gw_id w)"

definition ivr_config_route :: "'w shell \<Rightarrow> string \<Rightarrow> 'w \<Rightarrow> answer \<times> 'w" where
  "ivr_config_route sh gw_id w = map_prod (route_answer []) id (getIvrConfig sh gw_id w)"

definition command_answer :: "exn + pydict \<Rightarrow> answer" where
  "command_answer r =
     (case r of
        Inl (ValueError m) \<Rightarrow> Refused (if str_in ''stopped'' (str_lower m) then 403 else 404) m
      | _ \<Rightarrow> route_answer [] r)"

definition command_route :: "'w shell \<Rightarrow> 'w web \<Rightarrow> string \<Rightarrow> pydict \<Rightarrow> 'w \<Rightarrow> answer \<times> 'w" where
  "command_route sh web gw_id payload w = map_prod command_answer id (sendCommand sh web gw_id payload w)"

fun image_of :: "'w shell \<Rightarrow> string \<Rightarrow> string \<Rightarrow> string list \<Rightarrow> ('w, string \<times> string) io" where
  "image_of sh gwName path [] = raise_io (HTTPException 404 ''Icon not found'')"
| "image_of sh gwName path (ext # exts) =
     bind_io (run sh [''docker'', ''exec'', gwName, ''cat'', path @ ''.'' @ ext]) (\<lambda>p.
       if pr_code p = 0
       then ret_io (pr_out p, if ext = ''svg'' then ''image/svg+xml'' else ''image/'' @ ext)
       else image_of sh gwName path exts)"

definition fetchGatewayImage :: "'w shell \<Rightarrow> string \<Rightarrow> string \<Rightarrow> string \<Rightarrow> ('w, string \<times> string) io" where
  "fetchGatewayImage sh gw_id subdir file_name =
     bind_io (get_gw_info sh gw_id) (\<lambda>gwData.
       if \<not> truthy gwData then raise_io (HTTPException 404 ''Gateway not found'')
       else bind_io (lift_io (py_index gwData ''Name'')) (\<lambda>nm.
         image_of sh (py_str nm) (''/var/browsing/assets/IVR/images/'' @ subdir @ ''/'' @ file_name) [''svg'', ''png'']))"

definition get_icon :: "'w shell \<Rightarrow> string \<Rightarrow> string \<Rightarrow> ('w, string \<times> string) io" where
  "get_icon sh icon_name gw_id = fetchGatewayImage sh gw_id ''menu-icons'' icon_name"

definition get_logo :: "'w shell \<Rightarrow> string \<Rightarrow> string \<Rightarrow> ('w, string \<times> string) io" where
  "get_logo sh logo_name gw_id = fetchGatewayImage sh gw_id ''domain-icons'' logo_name"

end
