(* ===== verification/History.thy ===== *)
theory History
  imports LogParse Launcher
begin

text \<open>
  The history file between its writer and its two readers: the log parser appends records
  (\<open>appendHistory\<close>), reads them back to build the payload of a call (\<open>read_records\<close>), and the
  launcher reads them to report the state of a gateway (\<open>parseHistoryFile\<close>). The locale
  \<open>history_file\<close> is the contract between them: a text per record that comes back as one line.
\<close>

section \<open>The contract\<close>

type_synonym hist_record = "string \<times> pydict"

definition record_ok :: "hist_record \<Rightarrow> bool" where
  "record_ok r = (fst r \<noteq> [] \<and> (\<forall>c \<in> set (fst r). \<not> is_space c \<and> c \<noteq> CHR '':'') \<and> jsonable (PDict (snd r)))"

definition record_line :: "hist_record \<Rightarrow> string" where
  "record_line r = fst r @ '':'' @ json_dumps_raw (PDict (snd r))"

definition written :: "hist_record list \<Rightarrow> string" where
  "written rs = foldl (\<lambda>content (t, d). appendHistory content t d) [] rs"

locale history_file =
  fixes store_records :: "hist_record list \<Rightarrow> string"
    and lines_of :: "string \<Rightarrow> string list"
    and line :: "hist_record \<Rightarrow> string"
    and good :: "hist_record \<Rightarrow> bool"
  assumes lines_written: "\<forall>r \<in> set rs. good r \<Longrightarrow> lines_of (store_records rs) = map line rs"
begin

text \<open>A reader that takes a file line by line takes it record by record.\<close>

lemma fold_records:
  assumes "\<And>s r. good r \<Longrightarrow> step s (line r) = on_record s r" and "\<forall>r \<in> set rs. good r"
  shows "foldl step s (lines_of (store_records rs)) = foldl on_record s rs"
  using assms(2)
proof (subst lines_written [OF assms(2)], induction rs arbitrary: s)
  case (Cons r rs)
  then show ?case using assms(1) by simp
qed simp

end

lemma json_raw_line: "jsonable v \<Longrightarrow> c \<in> set (json_dumps_raw v) \<Longrightarrow> c \<noteq> CHR 0x0A \<and> c \<noteq> CHR 0x0D"
proof -
  assume "jsonable v" and "c \<in> set (json_dumps_raw v)"
  then have "32 \<le> (of_char c :: nat)"
    unfolding json_dumps_raw_def by (rule json_text_printable)
  then have "c \<noteq> CHR 0x0A" "c \<noteq> CHR 0x0D" by force+
  then show "c \<noteq> CHR 0x0A \<and> c \<noteq> CHR 0x0D" ..
qed

lemma record_line_chars:
  assumes "record_ok r"
  shows "CHR 0x0A \<notin> set (record_line r) \<and> CHR 0x0D \<notin> set (record_line r)"
proof -
  have "\<forall>c \<in> set (fst r). \<not> is_space c" and js: "jsonable (PDict (snd r))"
    using assms by (simp_all only: record_ok_def) blast
  then have "CHR 0x0A \<notin> set (fst r)" "CHR 0x0D \<notin> set (fst r)" by (auto simp: is_space_def)
  moreover have "CHR 0x0A \<notin> set (json_dumps_raw (PDict (snd r)))" "CHR 0x0D \<notin> set (json_dumps_raw (PDict (snd r)))"
    using json_raw_line [OF js] by blast+
  ultimately show ?thesis by (simp add: record_line_def)
qed

lemma written_lines: "written rs = concat (map (\<lambda>l. l @ [CHR 0x0A]) (map record_line rs))"
proof -
  have "foldl (\<lambda>content (t, d). appendHistory content t d) c rs
      = c @ concat (map (\<lambda>l. l @ [CHR 0x0A]) (map record_line rs))" for c
    by (induction rs arbitrary: c)
       (auto simp: appendHistory_def history_line_text_def record_line_def split: prod.splits)
  then show ?thesis by (simp add: written_def)
qed

interpretation hist: history_file written file_lines record_line record_ok
proof
  fix rs :: "hist_record list"
  assume "\<forall>r \<in> set rs. record_ok r"
  then have "\<forall>l \<in> set (map record_line rs). CHR 0x0A \<notin> set l \<and> CHR 0x0D \<notin> set l"
    using record_line_chars by auto
  then show "file_lines (written rs) = map record_line rs"
    unfolding written_lines by (rule file_lines_written)
qed

section \<open>The readers\<close>

lemma json_dict_ends: "\<exists>b. json_dumps_raw (PDict d) = CHR ''{'' # b @ [CHR ''}'']"
  by (simp add: json_dumps_raw_def)

lemma record_line_strip:
  assumes "record_ok r"
  shows "str_strip (record_line r) = record_line r"
proof -
  obtain b where b: "json_dumps_raw (PDict (snd r)) = CHR ''{'' # b @ [CHR ''}'']" using json_dict_ends by blast
  obtain c t where ct: "fst r = c # t" using assms by (cases "fst r") (auto simp: record_ok_def)
  with assms have "\<not> is_space c" by (simp add: record_ok_def)
  with b ct show ?thesis
    unfolding str_strip_def by (intro strip_by_ends) (simp_all add: record_line_def is_space_def)
qed

lemma record_line_split:
  assumes "record_ok r"
  shows "split1 '':'' (record_line r) = Some (fst r, json_dumps_raw (PDict (snd r)))"
proof -
  have "CHR '':'' \<notin> set (fst r)" using assms by (auto simp: record_ok_def)
  then show ?thesis by (simp add: record_line_def split1_char)
qed

lemma strip_name: "record_ok r \<Longrightarrow> str_strip (fst r) = fst r"
  unfolding str_strip_def by (rule strip_by_none) (simp add: record_ok_def)

lemma strip_json: "str_strip (json_dumps_raw (PDict d)) = json_dumps_raw (PDict d)"
  using json_dict_ends [of d] unfolding str_strip_def by (auto intro!: strip_by_ends simp: is_space_def)

lemma loads_raw: "record_ok r \<Longrightarrow> json_loads (json_dumps_raw (PDict (snd r))) = Some (PDict (snd r))"
  by (rule json_raw.load_dump) (simp add: record_ok_def)

lemma read_record_line:
  assumes "record_ok r" and "fst r \<noteq> ''main_app''"
  shows "read_record p (record_line r) = read_data (fst r) (PDict (snd r)) p"
  using assms(2)
  by (simp add: read_record_def record_line_strip [OF assms(1)] record_line_split [OF assms(1)]
      strip_name [OF assms(1)] loads_raw [OF assms(1)] Let_def)

lemma history_line_record:
  assumes "record_ok r"
  shows "history_line h (record_line r) = hist_add h (fst r) (PDict (snd r))"
  by (simp add: history_line_def record_line_strip [OF assms] record_line_split [OF assms]
      strip_name [OF assms] strip_json loads_raw [OF assms] Let_def)

lemma parseHistoryFile_written:
  assumes "\<forall>r \<in> set rs. record_ok r"
  shows "parseHistoryFile (written rs) = foldl (\<lambda>h r. hist_add h (fst r) (PDict (snd r))) [] rs"
  unfolding parseHistoryFile_def
  by (rule hist.fold_records [where step = history_line, OF _ assms]) (rule history_line_record)

lemma map_of_hist_add: "map_of (hist_add h k v) k' =
    (if k' = k then Some ((case map_of h k of None \<Rightarrow> [] | Some vs \<Rightarrow> vs) @ [v]) else map_of h k')"
  by (simp add: hist_add_def update_conv)

lemma map_of_hist_fold:
  "map_of (foldl (\<lambda>h r. hist_add h (fst r) (PDict (snd r))) h rs) k =
     (let new = map (PDict \<circ> snd) (filter (\<lambda>r. fst r = k) rs)
      in case map_of h k of
           None \<Rightarrow> if new = [] then None else Some new
         | Some vs \<Rightarrow> Some (vs @ new))"
proof (induction rs arbitrary: h)
  case Nil
  then show ?case by (simp add: Let_def split: option.split)
next
  case (Cons r rs)
  then show ?case by (auto simp: Let_def map_of_hist_add split: option.splits)
qed

text \<open>
  C40. What the log parser appends, the launcher reads: under each name the records of that name, in
  the order they were appended.
\<close>
theorem launcher_reads_history:
  assumes "\<forall>r \<in> set rs. record_ok r"
  shows "map_of (parseHistoryFile (written rs)) k =
     (let vs = map (PDict \<circ> snd) (filter (\<lambda>r. fst r = k) rs) in if vs = [] then None else Some vs)"
  unfolding parseHistoryFile_written [OF assms] map_of_hist_fold by simp

definition wit_records :: "hist_record list" where
  "wit_records = [(''room'', [(''value'', PStr ''a'')]), (''browsing'', [(''value'', PStr ''jitsi'')]), (''room'', [(''value'', PStr ''b'')])]"

lemma wit_records_ok: "\<forall>r \<in> set wit_records. record_ok r"
  by (auto simp: wit_records_def record_ok_def is_space_def)

lemma launcher_reads_history_witness:
  "map_of (parseHistoryFile (written wit_records)) ''room'' = Some [PDict [(''value'', PStr ''a'')], PDict [(''value'', PStr ''b'')]]"
  using launcher_reads_history [OF wit_records_ok, of "''room''"] by (simp add: wit_records_def)

fun read_all :: "payload \<Rightarrow> hist_record list \<Rightarrow> exn + payload" where
  "read_all p [] = Inr p"
| "read_all p (r # rs) = bindE (read_data (fst r) (PDict (snd r)) p) (\<lambda>p'. read_all p' rs)"

lemma read_records_written:
  assumes "\<forall>r \<in> set rs. record_ok r \<and> fst r \<noteq> ''main_app''"
  shows "read_records p (file_lines (written rs)) = read_all p rs"
proof -
  have "file_lines (written rs) = map record_line rs" using assms hist.lines_written by blast
  moreover have "read_records p (map record_line rs) = read_all p rs"
    using assms
  proof (induction rs arbitrary: p)
    case (Cons r rs)
    then show ?case by (simp add: read_record_line)
  qed simp
  ultimately show ?thesis by simp
qed

text \<open>
  The payload is built from exactly the records that were appended, in their order.
\<close>
theorem payload_reads_history:
  assumes "\<forall>r \<in> set rs. record_ok r \<and> fst r \<noteq> ''main_app''"
  shows "read_records p (file_lines (written rs)) = read_all p rs"
  by (rule read_records_written [OF assms])

lemma payload_reads_history_witness:
  "map_sum id pl_room (read_records no_payload (file_lines (written wit_records))) = Inr ''b''"
proof -
  have "\<forall>r \<in> set wit_records. record_ok r \<and> fst r \<noteq> ''main_app''"
    using wit_records_ok by (simp add: wit_records_def)
  from payload_reads_history [OF this, of no_payload] show ?thesis
    by (simp add: wit_records_def read_data_def stripped_def str_strip_def strip_by_none is_space_def)
qed

end
