(* ===== verification/LogParse_Props.thy ===== *)
theory LogParse_Props
  imports History Proxy
begin

text \<open>
  The properties of the log parser: the events it recognises, what a repeated or a late closing
  event does, the numbering of the streams, and when a push empties the history file.
\<close>

section \<open>Printed events\<close>

lemma repr_ends: "\<exists>b. py_repr (PDict d) = CHR ''{'' # b @ [CHR ''}'']"
  by (simp add: py_repr_def)

lemma strip_braces: "t = CHR ''{'' # b @ [CHR ''}''] \<Longrightarrow> str_strip t = t"
  unfolding str_strip_def by (auto intro!: strip_by_ends simp: is_space_def)


text \<open>A printed dictionary is no JSON: its first key is between single quotes.\<close>

lemma repr_not_json:
  assumes "CHR 0x27 \<notin> set k"
  shows "json_loads (py_repr (PDict ((k, v) # e))) = None"
proof -
  obtain u where "repr_str k = CHR 0x27 # u" using assms by (simp add: repr_str_def Let_def)
  then obtain r where r: "py_repr (PDict ((k, v) # e)) = CHR ''{'' # CHR 0x27 # r"
    by (cases e) (auto simp: py_repr_def py_dialect_def)
  have "members_of (json_dialect True True) n (CHR 0x27 # r) = None" for n
    by (cases n) (simp_all add: members_of.simps(2) is_quote_def json_dialect_def json_read_def)
  then show ?thesis
    by (simp add: r json_loads_def json_loads_with_def read_text_def val_of.simps(2) is_quote_def)
qed

lemma member_shown: "(k, v) \<in> set d \<Longrightarrow> \<exists>a b. members_text D d = a @ dl_write D k @ b"
proof (induction d rule: induct_list012)
  case (2 p)
  then have "p = (k, v)" by simp
  then have "members_text D [p] = [] @ dl_write D k @ (CHR '':'' # dl_gap D) @ text_of D v" by simp
  then show ?case by blast
next
  case (3 p q d)
  show ?case
  proof (cases "(k, v) = p")
    case True
    then have "members_text D (p # q # d) = [] @ dl_write D k @ (CHR '':'' # dl_gap D) @ text_of D v @ (CHR '','' # dl_gap D) @ members_text D (q # d)"
      by auto
    then show ?thesis by blast
  next
    case False
    then obtain a b where "members_text D (q # d) = a @ dl_write D k @ b" using 3 by auto
    then show ?thesis
      by (intro exI [of _ "dl_write D (fst p) @ (CHR '':'' # dl_gap D) @ text_of D (snd p) @ (CHR '','' # dl_gap D) @ a"] exI [of _ b])
         (cases p, simp)
  qed
qed simp

lemma type_shown:
  assumes "dmem e ''type''"
  shows "str_in (quoted ''type'') (py_repr (PDict e))"
proof -
  from assms obtain v where "(''type'', v) \<in> set e" by (auto simp: dmem_def dest: map_of_SomeD)
  from member_shown [OF this, of py_dialect] obtain a b where "members_text py_dialect e = a @ dl_write py_dialect ''type'' @ b"
    by blast
  moreover have "dl_write py_dialect ''type'' = quoted ''type''"
    by (simp add: py_dialect_def repr_str_def quoted_def repr_char_def Let_def)
  ultimately have "py_repr (PDict e) = (CHR ''{'' # a) @ quoted ''type'' @ (b @ [CHR ''}''])"
    by (simp add: py_repr_def)
  then show ?thesis using str_in_append [of "quoted ''type''"] by metis
qed

lemma parse_printed_event:
  assumes "jsonable (PDict ((k, v) # e))" and "CHR 0x27 \<notin> set k" and "dmem ((k, v) # e) ''type''"
  shows "parseEventDict (py_repr (PDict ((k, v) # e))) = Some ((k, v) # e)"
proof -
  obtain b where b: "py_repr (PDict ((k, v) # e)) = CHR ''{'' # b @ [CHR ''}'']" using repr_ends by blast
  note [simp] = strip_braces [OF b]
  have "\<not> startswith (py_repr (PDict ((k, v) # e))) ''Event:''"
    and "startswith (py_repr (PDict ((k, v) # e))) ''{''" "endswith (py_repr (PDict ((k, v) # e))) ''}''"
    by (simp_all add: b startswith_def endswith_def suffix_def)
  with type_shown [OF assms(3)] repr_not_json [OF assms(2)] literal_eval_repr [OF assms(1)] show ?thesis
    by (simp add: parseEventDict_def del: jsonable.simps)
qed

text \<open>
  An event the gateway prints is read back as the same dictionary, provided its first key has
  no quote: what \<open>event_handler.py\<close> prints and \<open>logParse.py\<close> reads agree on every event.
\<close>
theorem printed_event_is_read:
  assumes "jsonable (PDict ((k, v) # e))" and "CHR 0x27 \<notin> set k" and "dmem ((k, v) # e) ''type''"
  shows "parseEventDict (py_repr (PDict ((k, v) # e))) = Some ((k, v) # e)"
  by (rule parse_printed_event [OF assms])

lemma printed_event_is_read_witness:
  "parseEventDict (py_repr (PDict [(''event'', PBool True), (''type'', PStr ''CALL_CLOSED''), (''id'', PStr ''a1'')]))
     = Some [(''event'', PBool True), (''type'', PStr ''CALL_CLOSED''), (''id'', PStr ''a1'')]"
  by (rule printed_event_is_read) (simp_all add: dmem_def)

section \<open>A call closes once\<close>

fun run_acts :: "string \<Rightarrow> (int \<times> string) list \<Rightarrow> parser \<Rightarrow> log_action list" where
  "run_acts pref [] st = []"
| "run_acts pref ((now, line) # lines) st =
     (let (acts, st') = process_line pref now line st in acts @ run_acts pref lines st')"

text \<open>The identifier of the call a line closes, when it is a closing event.\<close>

definition closes :: "string \<Rightarrow> string option" where
  "closes line =
     (case parseEventDict line of
        Some e \<Rightarrow> if dget e ''class'' = PStr ''call'' \<and> field_text e ''type'' = ''CALL_CLOSED''
                  then Some (field_text e ''id'') else None
      | None \<Rightarrow> None)"

definition closings :: "log_action list \<Rightarrow> nat" where
  "closings acts = length (filter (\<lambda>a. a = Push) acts)"

lemma closings_simps [simp]:
  "closings [] = 0" "closings (Push # as) = Suc (closings as)" "closings (Append t d # as) = closings as"
  "closings (as @ bs) = closings as + closings bs"
  by (simp_all add: closings_def)

lemma event_line_push:
  "event_line now line st = (acts, st') \<Longrightarrow>
     closings acts = 0 \<and> ps_lastCall st' = ps_lastCall st
   \<or> (\<exists>i. closes line = Some i \<and> closings acts = 1 \<and> (i \<noteq> [] \<longrightarrow> ps_lastCall st \<noteq> Some i \<and> ps_lastCall st' = Some i))"
  by (auto simp: event_line_def closes_def Let_def split: option.splits if_splits)

lemma process_event_push:
  assumes "process_line ''Event'' now line st = (acts, st')"
  shows "closings acts = 0 \<and> ps_lastCall st' = ps_lastCall st
   \<or> (\<exists>i. closes line = Some i \<and> closings acts = 1 \<and> (i \<noteq> [] \<longrightarrow> ps_lastCall st \<noteq> Some i \<and> ps_lastCall st' = Some i))"
  using assms event_line_push [of now line st acts st']
  by (auto simp: process_line_def split: option.splits if_splits)

lemma run_closings:
  assumes "\<forall>(now, line) \<in> set lines. closes line = None \<or> closes line = Some i" and "i \<noteq> []"
  shows "closings (run_acts ''Event'' lines st) \<le> (if ps_lastCall st = Some i then 0 else 1)"
  using assms(1)
proof (induction lines arbitrary: st)
  case (Cons l lines)
  obtain now line where l: "l = (now, line)" by (cases l)
  obtain acts st' where run: "process_line ''Event'' now line st = (acts, st')" by fastforce
  have "closings (run_acts ''Event'' lines st') \<le> (if ps_lastCall st' = Some i then 0 else 1)"
    using Cons by simp
  moreover have "closes line = None \<or> closes line = Some i" using Cons.prems by (simp add: l)
  moreover have "closings (run_acts ''Event'' (l # lines) st) = closings acts + closings (run_acts ''Event'' lines st')"
    by (simp add: l run)
  ultimately show ?case
    using process_event_push [OF run] assms(2) by (elim disjE exE conjE) simp_all
qed simp

text \<open>
  However often the closing event of a call is logged, the call is closed and pushed at most
  once, until another call closes.
\<close>
theorem closing_event_counts_once:
  assumes "\<forall>(now, line) \<in> set lines. closes line = None \<or> closes line = Some i" and "i \<noteq> []"
  shows "closings (run_acts ''Event'' lines start_parser) \<le> 1"
  using run_closings [OF assms, of start_parser] by (simp split: if_splits)

definition wit_closed :: string where
  "wit_closed = py_repr (PDict [(''event'', PBool True), (''class'', PStr ''call''), (''type'', PStr ''CALL_CLOSED''), (''id'', PStr ''a1'')])"

lemma wit_closed_event: "parseEventDict wit_closed =
    Some [(''event'', PBool True), (''class'', PStr ''call''), (''type'', PStr ''CALL_CLOSED''), (''id'', PStr ''a1'')]"
  unfolding wit_closed_def by (rule parse_printed_event) (simp_all add: dmem_def)

lemma closing_event_counts_once_witness:
  "closings (run_acts ''Event'' [(0, wit_closed), (1, wit_closed)] start_parser) \<le> 1"
proof -
  have "closes wit_closed = Some ''a1''"
    by (simp add: closes_def wit_closed_event field_text_def str_strip_def strip_by_none is_space_def)
  then show ?thesis by (intro closing_event_counts_once [of _ "''a1''"]) simp_all
qed

section \<open>Streams\<close>

definition streams_wf :: "(int \<times> stream) list \<Rightarrow> bool" where
  "streams_wf m = (distinct (map fst m) \<and> (\<forall>p \<in> set m. sm_index (snd p) = fst p))"

lemma update_in_set': "p \<in> set (AList.update k v d) \<Longrightarrow> p = (k, v) \<or> p \<in> set d"
  by (induction d) (auto split: if_splits)

lemma streams_wf_update:
  "streams_wf m \<Longrightarrow> sm_index st = i \<Longrightarrow> streams_wf (AList.update i st m)"
  by (auto simp: streams_wf_def distinct_update dest!: update_in_set')

lemma map_of_streams_wf: "streams_wf m \<Longrightarrow> map_of m i = Some st \<Longrightarrow> sm_index st = i"
  by (auto simp: streams_wf_def dest: map_of_SomeD)

lemma read_stats_streams:
  "read_stats d p = Inr p' \<Longrightarrow> streams_wf (pl_streams p) \<Longrightarrow> streams_wf (pl_streams p')"
  by (auto simp: read_stats_def bindE_eq_Inr_iff Let_def map_of_streams_wf intro!: streams_wf_update
           split: if_splits option.split)

lemma read_closed_streams:
  "read_call_closed d p = Inr p' \<Longrightarrow> pl_streams p' = pl_streams p \<or> pl_streams p' = []"
  by (auto simp: read_call_closed_def bindE_eq_Inr_iff Let_def split: if_splits)

lemma read_other_streams:
  "read_encoder d p = Inr p' \<Longrightarrow> pl_streams p' = pl_streams p"
  "read_destination d p = Inr p' \<Longrightarrow> pl_streams p' = pl_streams p"
  "read_dtmf d p = Inr p' \<Longrightarrow> pl_streams p' = pl_streams p"
  "pl_streams (read_call_start d p) = pl_streams p" "pl_streams (read_call_end d p) = pl_streams p"
  "pl_streams (read_sample d p) = []"
  by (auto simp: read_encoder_def read_destination_def read_dtmf_def read_call_start_def read_call_end_def
        read_sample_def bindE_eq_Inr_iff Let_def split: if_splits)

lemma streams_wf_Nil [simp]: "streams_wf []"
  by (simp add: streams_wf_def)

lemma read_data_streams:
  assumes "read_data t v p = Inr p'" and "streams_wf (pl_streams p)"
  shows "streams_wf (pl_streams p')"
proof (cases v)
  case (PDict d)
  with assms(1) have "pl_streams p' = pl_streams p \<or> pl_streams p' = [] \<or> read_stats d p = Inr p'"
    using read_closed_streams read_other_streams
    by (fastforce simp: read_data_def bindE_eq_Inr_iff split: if_splits)
  then show ?thesis using assms(2) read_stats_streams by auto
qed (use assms in \<open>auto simp: read_data_def split: if_splits\<close>)

lemma read_records_streams:
  "read_records p ls = Inr p' \<Longrightarrow> streams_wf (pl_streams p) \<Longrightarrow> streams_wf (pl_streams p')"
proof (induction ls arbitrary: p)
  case (Cons l ls)
  then obtain p1 where "read_record p l = Inr p1" "read_records p1 ls = Inr p'" by (auto simp: bindE_eq_Inr_iff)
  moreover have "streams_wf (pl_streams p1)"
    using calculation(1) Cons.prems(2) read_data_streams
    by (auto simp: read_record_def Let_def split: option.splits if_splits)
  ultimately show ?case using Cons.IH by blast
qed simp

lemma insert_by_key_simps [simp]:
  "insert_by_key x [] = [x]"
  "insert_by_key x (y # xs) = (if fst y < fst x then y # insert_by_key x xs else x # y # xs)"
  by (simp_all add: insert_by_key_def)

lemma set_insert_by_key [simp]: "set (insert_by_key x xs) = insert x (set xs)"
  by (induction xs) auto

lemma sorted_insert_by_key:
  "sorted_wrt (<) (map fst xs) \<Longrightarrow> fst x \<notin> fst ` set xs \<Longrightarrow> sorted_wrt (<) (map fst (insert_by_key x xs))"
proof (induction xs)
  case (Cons y xs)
  have "\<forall>z \<in> set (y # xs). fst z \<noteq> fst x" using Cons.prems(2) unfolding image_iff by metis
  with Cons show ?case by fastforce
qed simp

lemma sorted_fold_insert:
  "distinct (map fst m) \<Longrightarrow>
     set (foldr insert_by_key m []) = set m \<and> sorted_wrt (<) (map fst (foldr insert_by_key m []))"
  by (induction m) (auto intro!: sorted_insert_by_key)

lemma sorted_streams_strict:
  assumes "streams_wf m"
  shows "sorted_wrt (<) (map sm_index (sorted_streams m))"
proof -
  let ?f = "foldr insert_by_key m []"
  have s: "set ?f = set m" "sorted_wrt (<) (map fst ?f)" using sorted_fold_insert [of m] assms by (auto simp: streams_wf_def)
  have "map (\<lambda>p. sm_index (snd p)) ?f = map fst ?f" using assms s(1) by (simp add: streams_wf_def)
  then have "map sm_index (map snd ?f) = map fst ?f" by (simp add: comp_def)
  with s(2) show ?thesis unfolding sorted_streams_def by metis
qed

lemma renumbered: "map sm_index (map (\<lambda>(i, st). st\<lparr>sm_index := int i\<rparr>) (enumerate n ss)) = map int [n..<n + length ss]"
  by (rule nth_equalityI) (simp_all add: nth_enumerate_eq)

lemma upt_strict: "sorted_wrt (<) (map int [0..<n])"
  by (simp add: sorted_wrt_map)

text \<open>
  The streams of a payload come out in strictly increasing order of their index, whatever the
  order of the records; when the call has media readings they are numbered from zero with no gap.
\<close>
theorem streams_are_numbered:
  assumes "read_records no_payload ls = Inr p"
  shows "sorted_wrt (<) (map sm_index (call_streams p)) \<and>
         (pl_samples p = [] \<or> map sm_index (call_streams p) = map int [0..<length (call_streams p)])"
proof -
  have "streams_wf (pl_streams p)"
    by (rule read_records_streams [OF assms]) (simp add: no_payload_def)
  then have "sorted_wrt (<) (map sm_index (sorted_streams (pl_streams p)))" by (rule sorted_streams_strict)
  then show ?thesis
    by (simp add: call_streams_def Let_def renumbered upt_strict del: map_map)
qed

definition wit_stats :: "hist_record list" where
  "wit_stats =
     [(''stats_value'', [(''media'', PStr ''video''), (''field'', PStr ''fps''), (''streamIndex'', PInt 3), (''tx'', PInt 30)]),
      (''stats_value'', [(''media'', PStr ''video''), (''field'', PStr ''fps''), (''streamIndex'', PInt 1), (''rx'', PInt 25)]),
      (''stats_value'', [(''media'', PStr ''video''), (''field'', PStr ''loss''), (''streamIndex'', PInt 3), (''tx'', PInt 0)])]"

lemma wit_stats_ok: "\<forall>r \<in> set wit_stats. record_ok r \<and> fst r \<noteq> ''main_app''"
  by (auto simp: wit_stats_def record_ok_def is_space_def)

lemma lower_video: "str_lower ''video'' = ''video''"
  by code_simp

lemma strip_tokens: "str_strip ''video'' = ''video''" "str_strip ''fps'' = ''fps''" "str_strip ''loss'' = ''loss''"
  by (simp_all add: str_strip_def strip_by_none is_space_def)

lemma wit_stats_read: "map_sum id call_streams (read_records no_payload (file_lines (written wit_stats))) =
    Inr [\<lparr>sm_index = 1, sm_tx = [], sm_rx = [(''fps'', PInt 25)]\<rparr>,
         \<lparr>sm_index = 3, sm_tx = [(''fps'', PInt 30), (''loss'', PInt 0)], sm_rx = []\<rparr>]"
  unfolding read_records_written [OF wit_stats_ok]
  by (simp add: wit_stats_def read_data_def read_stats_def stripped_def strip_tokens lower_video dget_def
      set_stat_def int_or_zero_def py_int_def Let_def no_payload_def call_streams_def sorted_streams_def)

lemma streams_are_numbered_witness:
  "\<exists>p. read_records no_payload (file_lines (written wit_stats)) = Inr p \<and> length (call_streams p) = 2 \<and>
       sorted_wrt (<) (map sm_index (call_streams p)) \<and>
       (pl_samples p = [] \<or> map sm_index (call_streams p) = map int [0..<length (call_streams p)])"
proof -
  obtain p where p: "read_records no_payload (file_lines (written wit_stats)) = Inr p"
    using wit_stats_read by (cases "read_records no_payload (file_lines (written wit_stats))") auto
  with wit_stats_read have "length (call_streams p) = 2" by simp
  with p streams_are_numbered [OF p] show ?thesis by blast
qed

section \<open>The history file and the receiver\<close>

definition appended :: "log_action list \<Rightarrow> hist_record list" where
  "appended acts = concat (map (\<lambda>a. case a of Append t d \<Rightarrow> [(t, d)] | Push \<Rightarrow> []) acts)"

lemma appended_simps [simp]:
  "appended [] = []" "appended (Append t d # as) = (t, d) # appended as" "appended (Push # as) = appended as"
  "appended (as @ bs) = appended as @ appended bs"
  by (simp_all add: appended_def)

definition refused :: "(pyval \<Rightarrow> int option) \<Rightarrow> bool" where
  "refused post = (\<forall>body status. post body = Some status \<longrightarrow> status < 200 \<or> 300 \<le> status)"

lemma push_refused: "refused post \<Longrightarrow> push_file env post during content = content @ during"
  by (fastforce simp: push_file_def pushHistory_def refused_def split: sum.splits option.splits bool.split)

lemma written_Nil [simp]: "written [] = []"
  by (simp add: written_def)

lemma written_Cons: "written ((t, d) # rs) = history_line_text t d @ written rs"
  by (simp add: written_lines record_line_def history_line_text_def)

lemma written_app: "written (rs @ rs') = written rs @ written rs'"
  by (simp add: written_lines)

lemma do_actions_refused:
  "refused post \<Longrightarrow> do_actions env post acts content = content @ written (appended acts)"
  by (induction env post acts content rule: do_actions.induct)
     (simp_all add: push_refused appendHistory_def written_Cons)

lemma log_loop_refused:
  assumes "refused post"
  shows "snd (log_loop env post pref lines (st, content)) = content @ written (appended (run_acts pref lines st))"
proof (induction lines arbitrary: st content)
  case (Cons l lines)
  obtain now line where l: "l = (now, line)" by (cases l)
  obtain acts st' where r: "process_line pref now line st = (acts, st')" by fastforce
  show ?case using Cons by (simp add: l r do_actions_refused [OF assms] written_app)
qed simp

text \<open>
  C12. No record is lost while the receiver refuses or cannot be reached: after any log, with any
  number of closed calls, the history file is what it was followed by every record of the log in order.
\<close>
theorem refused_pushes_lose_nothing:
  assumes "\<And>body status. post body = Some status \<Longrightarrow> status < 200 \<or> 300 \<le> status"
  shows "log_main env post pref chunks content =
     content @ written (appended (run_acts pref
        (concat (map (\<lambda>(now, raw). map (\<lambda>l. (now, l)) (clean_lines raw)) chunks)) start_parser))"
  unfolding log_main_def by (rule log_loop_refused) (use assms in \<open>auto simp: refused_def\<close>)

definition wit_env :: lp_env where
  "wit_env = \<lparr>le_post_url = ''http://manager'', le_post_token = [], le_vars = [], le_chromium = None\<rparr>"

lemma wit_log: "appended (run_acts ''Event''
    (concat (map (\<lambda>(now, raw). map (\<lambda>l. (now, l)) (clean_lines raw)) [(0, '' room: c '')])) start_parser)
    = [(''room'', [(''value'', PStr ''c'')])]"
  by code_simp

lemma refused_pushes_lose_nothing_witness:
  "log_main wit_env (\<lambda>_. Some 503) ''Event'' [(0, '' room: c '')] (written [(''room'', [(''value'', PStr ''b'')])])
     = written [(''room'', [(''value'', PStr ''b'')]), (''room'', [(''value'', PStr ''c'')])]"
proof -
  have "log_main wit_env (\<lambda>_. Some 503) ''Event'' [(0, '' room: c '')] (written [(''room'', [(''value'', PStr ''b'')])]) =
      written [(''room'', [(''value'', PStr ''b'')])] @ written [(''room'', [(''value'', PStr ''c'')])]"
    unfolding wit_log [symmetric] by (rule refused_pushes_lose_nothing) simp
  then show ?thesis by (simp add: written_app [symmetric])
qed

lemma push_accepted:
  assumes "le_post_url env \<noteq> []" and "file_lines content \<noteq> []"
    and "buildPayloadFromLines env (file_lines content) = Inr body"
    and "post body = Some status" and "200 \<le> status" and "status < 300"
  shows "push_file env post during content = []"
  using assms by (simp add: push_file_def pushHistory_def)

text \<open>
  An accepted push empties the file whole: a record appended while the payload was being posted
  is in neither the payload nor the file.
\<close>
theorem record_during_push_is_lost:
  assumes "le_post_url env \<noteq> []" and "file_lines content \<noteq> []"
    and "buildPayloadFromLines env (file_lines content) = Inr body"
    and "post body = Some status" and "200 \<le> status" and "status < 300"
  shows "push_file env post (written [r]) content = [] \<and> fst (pushHistory env post (file_lines content)) = Some body"
  using push_accepted [where env = env and post = post, OF assms] assms by (simp add: pushHistory_def)

lemma record_during_push_is_lost_witness:
  "push_file wit_env (\<lambda>_. Some 200) (written [(''room'', [(''value'', PStr ''c'')])]) (written wit_records) = []"
proof -
  have ok: "\<forall>r \<in> set wit_records. record_ok r \<and> fst r \<noteq> ''main_app''"
    using wit_records_ok by (simp add: wit_records_def)
  have "\<exists>body. buildPayloadFromLines wit_env (file_lines (written wit_records)) = Inr body"
    unfolding buildPayloadFromLines_def read_records_written [OF ok]
    by (simp add: wit_records_def read_data_def stripped_def str_strip_def strip_by_none is_space_def call_body_def
        call_seconds_def no_payload_def parseIso_def split: prod.split option.split)
  then obtain body where "buildPayloadFromLines wit_env (file_lines (written wit_records)) = Inr body" ..
  moreover have "file_lines (written wit_records) \<noteq> []"
    using hist.lines_written [OF wit_records_ok] by (simp add: wit_records_def)
  ultimately show ?thesis
    using record_during_push_is_lost [of wit_env "written wit_records" body "\<lambda>_. Some 200" 200 "(''room'', [(''value'', PStr ''c'')])"]
    by (simp add: wit_env_def)
qed

section \<open>SIP addresses\<close>

lemma startswith_append [simp]: "startswith (p @ s) p"
  by (simp add: startswith_def)

lemma strip_tidy: "strip_by p s \<noteq> [] \<Longrightarrow> \<not> p (hd (strip_by p s)) \<and> \<not> p (last (strip_by p s))"
proof
  let ?l = "dropWhile p s"
  assume ne: "strip_by p s \<noteq> []"
  then have d: "dropWhile p (rev ?l) \<noteq> []" by (simp add: strip_by_def lstrip_by_def rstrip_by_def)
  show "\<not> p (last (strip_by p s))"
    using d hd_dropWhile [of p "rev ?l"] by (auto simp: strip_by_def lstrip_by_def rstrip_by_def last_rev)
  obtain u where "rev ?l = u @ dropWhile p (rev ?l)" by (metis takeWhile_dropWhile_id)
  then have "?l = rev (dropWhile p (rev ?l)) @ rev u" by (metis rev_append rev_rev_ident)
  with d have "hd ?l = hd (rev (dropWhile p (rev ?l)))" by (metis hd_append2 rev_is_Nil_conv)
  have "?l \<noteq> []" using d by force
  then have "\<not> p (hd ?l)" by (rule hd_dropWhile)
  then show "\<not> p (hd (strip_by p s))" using \<open>hd ?l = hd (rev (dropWhile p (rev ?l)))\<close> by (simp add: strip_by_def lstrip_by_def rstrip_by_def)
qed

lemma strip_again: "strip_by p (strip_by p s) = strip_by p s"
proof (cases "strip_by p s = []")
  case False
  then show ?thesis using strip_tidy [OF False] by (simp add: strip_by_ends)
qed (simp add: strip_by_none)

lemma sip_form_again: "lp_normalizeSipUri (lp_normalizeSipUri u) = lp_normalizeSipUri u"
proof (cases "str_strip u = []")
  case True
  then show ?thesis by (simp add: lp_normalizeSipUri_def str_strip_def strip_by_none)
next
  case False
  then have "\<not> is_space (last (str_strip u))" using strip_tidy unfolding str_strip_def by blast
  with False have "str_strip (''sip:'' @ str_strip u) = ''sip:'' @ str_strip u"
    unfolding str_strip_def [of "''sip:'' @ _"] by (intro strip_by_ends) (simp_all add: is_space_def)
  moreover have "str_strip (str_strip u) = str_strip u" unfolding str_strip_def by (rule strip_again)
  moreover have "startswith (''sip:'' @ str_strip u) ''sip:''" by (rule startswith_append)
  moreover have "lp_normalizeSipUri v =
      (if startswith (str_strip v) ''sip:'' then str_strip v
       else if str_in ''@'' (str_strip v) then ''sip:'' @ str_strip v else str_strip v)" if "str_strip v \<noteq> []" for v
    using that by (simp add: lp_normalizeSipUri_def Let_def)
  ultimately show ?thesis using False by (metis append_is_Nil_conv list.discI)
qed

text \<open>
  The launcher's log parser and the proxy give the same form to an address, and giving it twice
  changes nothing.
\<close>
theorem sip_form_is_shared:
  "lp_normalizeSipUri u = normalizeSipUri u \<and> lp_normalizeSipUri (lp_normalizeSipUri u) = lp_normalizeSipUri u"
  using sip_form_again by (simp add: lp_normalizeSipUri_def normalizeSipUri_def Let_def)

end
