(* ===== verification/Call_Mapping.thy ===== *)
theory Call_Mapping
  imports Py_Num Py_Date Regex
begin

text \<open>
  The mapping of a pushed call history to database rows (\<open>manager/ingest/mapping.py\<close>): the fields
  of a call, one row per stream and direction, and what the periodic samples say of the picture. A
  field that says nothing is \<open>None\<close>. Rates and durations are exact rationals.
\<close>

section \<open>Fields\<close>

definition text_opt :: "pyval \<Rightarrow> string option" where
  "text_opt v = (if v = PNone then None else (let s = str_strip (py_str v) in if s = [] then None else Some s))"

text \<open>An instant, in microseconds of UTC.\<close>

definition ts_opt :: "pyval \<Rightarrow> int option" where
  "ts_opt v =
     (case text_opt v of
        None \<Rightarrow> None
      | Some s \<Rightarrow> map_option to_utc (from_iso (str_replace ''Z'' ''+00:00'' s)))"

definition INT_LIMIT :: int where
  "INT_LIMIT = 2 ^ 31 - 1"

definition int_opt :: "pyval \<Rightarrow> int option" where
  "int_opt v =
     (case py_int v of
        None \<Rightarrow> None
      | Some n \<Rightarrow> if - INT_LIMIT \<le> n \<and> n \<le> INT_LIMIT then Some n else None)"

definition float_opt :: "pyval \<Rightarrow> rat option" where
  "float_opt v = (case py_float v of Some (PFloat r) \<Rightarrow> Some r | _ \<Rightarrow> None)"

text \<open>\<open>x or 0\<close>.\<close>

definition or0 :: "'a::zero option \<Rightarrow> 'a" where
  "or0 x = (case x of None \<Rightarrow> 0 | Some y \<Rightarrow> y)"

definition alnum :: "char \<Rightarrow> bool" where
  "alnum c = (between 65 90 c \<or> between 97 122 c \<or> between 48 57 c)"

text \<open>\<open>[A-Za-z0-9][A-Za-z0-9._-]{0,39}\<close>, the whole text.\<close>

definition platform_key :: "string \<Rightarrow> bool" where
  "platform_key s =
     (case s of [] \<Rightarrow> False
      | c # t \<Rightarrow> alnum c \<and> length t \<le> 39 \<and> (\<forall>d \<in> set t. alnum d \<or> one_of ''._-'' d))"

definition platform_opt :: "pyval \<Rightarrow> string option" where
  "platform_opt v = (case text_opt v of Some s \<Rightarrow> if platform_key s then Some s else None | None \<Rightarrow> None)"

definition obj_of :: "pyval \<Rightarrow> pydict" where
  "obj_of v = (case v of PDict d \<Rightarrow> d | _ \<Rightarrow> [])"

definition dicts_of :: "pyval list \<Rightarrow> pydict list" where
  "dicts_of vs = concat (map (\<lambda>v. case v of PDict d \<Rightarrow> [d] | _ \<Rightarrow> []) vs)"

section \<open>Media rows\<close>

record media_row =
  mr_media :: string
  mr_index :: int
  mr_direction :: string
  mr_packets :: "int option"
  mr_errors :: "int option"
  mr_reports :: "int option"
  mr_bitrate :: "rat option"
  mr_lost :: "int option"
  mr_jitter :: "rat option"

definition direction_row :: "string \<Rightarrow> int \<Rightarrow> string \<Rightarrow> pydict \<Rightarrow> media_row" where
  "direction_row media i dir stats =
     \<lparr>mr_media = media, mr_index = i, mr_direction = dir,
      mr_packets = int_opt (dget stats ''packets''), mr_errors = int_opt (dget stats ''errors''),
      mr_reports = int_opt (dget stats ''packetReports''), mr_bitrate = float_opt (dget stats ''avgBitrateKbps''),
      mr_lost = int_opt (dget stats ''lostPackets''), mr_jitter = float_opt (dget stats ''jitterMs'')\<rparr>"

definition streamRows :: "pyval \<Rightarrow> string \<Rightarrow> int \<Rightarrow> media_row list" where
  "streamRows block media i =
     concat (map (\<lambda>dir. case dget (obj_of block) dir of PDict stats \<Rightarrow> [direction_row media i dir stats] | _ \<Rightarrow> [])
       [''tx'', ''rx''])"

definition counters :: "pydict \<Rightarrow> int list" where
  "counters d = concat (map (\<lambda>dir. map (\<lambda>k. or0 (int_opt (dget (obj_of (dget d dir)) k))) [''packets'', ''packetReports''])
     [''rx'', ''tx''])"

text \<open>\<open>xs[0::2]\<close>, and \<open>zip(xs, xs[1:])\<close>.\<close>

fun every_other :: "'a list \<Rightarrow> 'a list" where
  "every_other [] = []"
| "every_other [x] = [x]"
| "every_other (x # y # zs) = x # every_other zs"

definition pairs :: "'a list \<Rightarrow> ('a \<times> 'a) list" where
  "pairs xs = zip xs (tl xs)"

definition never_down :: "int list list \<Rightarrow> bool" where
  "never_down ser = (\<forall>(before, after) \<in> set (pairs ser). \<forall>(a, b) \<in> set (zip before after). a \<le> b)"

definition looksCumulative :: "pydict list \<Rightarrow> bool" where
  "looksCumulative video =
     (4 \<le> length video \<and> even (length video)
      \<and> never_down (map counters (every_other video)) \<and> never_down (map counters (every_other (drop 1 video))))"

definition video_list :: "pydict \<Rightarrow> exn + pydict list" where
  "video_list ms = bindE (py_iter (py_or (dget ms ''video'') (PList []))) (\<lambda>vs. Inr (dicts_of vs))"

definition isRepeated :: "pydict \<Rightarrow> exn + bool" where
  "isRepeated ms =
     (if is_dict (dget ms ''video'') then Inr False
      else bindE (video_list ms) (\<lambda>video.
        Inr (case dget ms ''samples'' of
               PList samples \<Rightarrow>
                 4 \<le> length video
                 \<and> (samples \<noteq> [] \<and> 2 * length samples \<le> length video \<or> looksCumulative video)
             | _ \<Rightarrow> False)))"

definition last_two :: "'a list \<Rightarrow> 'a list" where
  "last_two xs = drop (length xs - 2) xs"

definition numbered :: "'a list \<Rightarrow> (int \<times> 'a) list" where
  "numbered xs = map (\<lambda>(i, x). (int i, x)) (enumerate 0 xs)"

definition own_index :: "int \<times> pydict \<Rightarrow> int \<times> pydict" where
  "own_index p = (case p of (i, d) \<Rightarrow> (case int_opt (dget d ''streamIndex'') of None \<Rightarrow> i | Some k \<Rightarrow> k, d))"

definition videoEntries :: "pydict \<Rightarrow> exn + (int \<times> pydict) list" where
  "videoEntries ms =
     bindE (case dget ms ''video'' of PDict d \<Rightarrow> Inr [d] | _ \<Rightarrow> video_list ms) (\<lambda>video.
     bindE (isRepeated ms) (\<lambda>rep.
       Inr (if rep then numbered (last_two video) else map own_index (numbered video))))"

definition mediaRows :: "pyval \<Rightarrow> exn + media_row list" where
  "mediaRows v =
     (let ms = obj_of v in
      bindE (videoEntries ms) (\<lambda>video.
        Inr (streamRows (dget ms ''audio'') ''audio'' 0
             @ concat (map (\<lambda>(i, d). streamRows (PDict d) ''video'' i) video))))"

section \<open>What the samples say\<close>

definition LOW_FPS :: rat where
  "LOW_FPS = 5"

definition PLACEHOLDER_SOURCE :: string where
  "PLACEHOLDER_SOURCE = ''fakevideo''"

definition codec_of :: "pyval \<Rightarrow> string option" where
  "codec_of v = (case text_opt v of None \<Rightarrow> None | Some s \<Rightarrow> Some (hd (str_words s)))"

definition media_dir :: "pyval \<Rightarrow> (string \<times> string) list option" where
  "media_dir v =
     (case v of
        PDict d \<Rightarrow>
          (let cleaned = concat (map (\<lambda>(k, x). case text_opt x of None \<Rightarrow> [] | Some s \<Rightarrow> [(k, s)]) d)
           in if cleaned = [] then None else Some cleaned)
      | _ \<Rightarrow> None)"

definition points :: "pyval \<Rightarrow> exn + pydict list" where
  "points samples =
     bindE (py_iter (py_or samples (PList []))) (\<lambda>vs. Inr (filter (\<lambda>d. is_dict (dget d ''video'')) (dicts_of vs)))"

definition part :: "pydict \<Rightarrow> string \<Rightarrow> pydict" where
  "part sample name = obj_of (dget (obj_of (dget sample ''video'')) name)"

record interval =
  iv_t :: "rat option"
  iv_seconds :: rat
  iv_rx :: "rat option"
  iv_tx :: "rat option"
  iv_presentation :: bool

definition frame_rate :: "pydict \<Rightarrow> pydict \<Rightarrow> rat \<Rightarrow> string \<Rightarrow> rat option" where
  "frame_rate a b seconds key =
     (case (int_opt (dget a key), int_opt (dget b key)) of
        (Some start, Some stop) \<Rightarrow> Some (round1 (of_int (stop - start) / seconds))
      | _ \<Rightarrow> None)"

definition sends_slides :: "pydict \<Rightarrow> bool" where
  "sends_slides slides = (case text_opt (dget slides ''source'') of None \<Rightarrow> False | Some s \<Rightarrow> s \<noteq> PLACEHOLDER_SOURCE)"

definition presenting :: "pydict \<Rightarrow> pydict \<Rightarrow> bool" where
  "presenting before after =
     (sends_slides (part after ''slides'')
      \<or> or0 (int_opt (dget (part before ''slides'') ''rxFrames'')) < or0 (int_opt (dget (part after ''slides'') ''rxFrames'')))"

definition elapsed :: "pydict \<Rightarrow> pydict \<Rightarrow> rat" where
  "elapsed before after = or0 (float_opt (dget after ''seconds'')) - or0 (float_opt (dget before ''seconds''))"

definition interval_of :: "pydict \<Rightarrow> pydict \<Rightarrow> interval list" where
  "interval_of before after =
     (let seconds = elapsed before after; a = part before ''main''; b = part after ''main'' in
      if seconds \<le> 0 then []
      else [\<lparr>iv_t = float_opt (dget after ''seconds''), iv_seconds = seconds,
             iv_rx = frame_rate a b seconds ''rxFrames'', iv_tx = frame_rate a b seconds ''txFrames'',
             iv_presentation = presenting before after\<rparr>])"

definition intervals :: "pydict list \<Rightarrow> interval list" where
  "intervals ps = concat (map (\<lambda>(before, after). interval_of before after) (pairs ps))"

definition frameRates :: "pyval \<Rightarrow> exn + interval list" where
  "frameRates samples = bindE (points samples) (\<lambda>ps. Inr (intervals ps))"

record summary =
  sm_min_fps :: "rat option"
  sm_low :: "int option"
  sm_keyframes :: "int option"
  sm_presentation :: "int option"
  sm_state :: "string option"

definition is_oneway :: "(string \<times> string) list option \<Rightarrow> bool" where
  "is_oneway dir = (case dir of None \<Rightarrow> False
     | Some d \<Rightarrow> map_of d ''video'' = Some ''sendonly'' \<or> map_of d ''video'' = Some ''recvonly'')"

definition rx_rates :: "interval list \<Rightarrow> rat list" where
  "rx_rates ivs = concat (map (\<lambda>e. case iv_rx e of None \<Rightarrow> [] | Some r \<Rightarrow> [r]) ivs)"

definition low_rates :: "rat list \<Rightarrow> nat" where
  "low_rates rates = length (filter (\<lambda>r. r < LOW_FPS) rates)"

definition picture_state :: "rat list \<Rightarrow> string" where
  "picture_state rates =
     (if low_rates rates = 0 then ''ok'' else if low_rates rates = length rates then ''no_picture'' else ''stalled'')"

definition presented :: "interval list \<Rightarrow> rat" where
  "presented ivs = sum_list (map iv_seconds (filter iv_presentation ivs))"

definition min_rate :: "rat list \<Rightarrow> rat" where
  "min_rate rates = foldr min (tl rates) (hd rates)"

text \<open>A sum of seconds that overflows to infinity makes \<open>int(round(...))\<close> raise \<open>OverflowError\<close>.\<close>

definition sampleSummary :: "pyval \<Rightarrow> (string \<times> string) list option \<Rightarrow> exn + summary" where
  "sampleSummary samples dir =
     (let state = (if is_oneway dir then Some ''oneway'' else None) in
      bindE (points samples) (\<lambda>ps.
        if ps = [] then
          Inr \<lparr>sm_min_fps = None, sm_low = None, sm_keyframes = None, sm_presentation = None, sm_state = state\<rparr>
        else
          (let ivs = intervals ps; rates = rx_rates ivs in
           if float_limit \<le> presented ivs then Inl (OtherError ''OverflowError'')
           else Inr \<lparr>sm_min_fps = (if rates = [] then None else Some (round1 (min_rate rates))),
                     sm_low = (if rates = [] then None else Some (int (low_rates rates))),
                     sm_keyframes = int_opt (dget (part (last ps) ''main'') ''rxPicup''),
                     sm_presentation = Some (round_even (presented ivs)),
                     sm_state = (if rates = [] \<or> state \<noteq> None then state else Some (picture_state rates))\<rparr>)))"

section \<open>The row of a call\<close>

record media_details =
  md_peer_user_agent :: "string option"
  md_audio_codec :: "string option"
  md_video_codec :: "string option"
  md_video_encoder :: "string option"
  md_direction :: "(string \<times> string) list option"
  md_gw_version :: "string option"
  md_baresip_version :: "string option"
  md_baresip_patch :: "string option"
  md_chromium_version :: "string option"
  md_summary :: summary

definition list_of :: "pyval \<Rightarrow> pyval list" where
  "list_of v = (case v of PList xs \<Rightarrow> xs | _ \<Rightarrow> [])"

definition mediaDetails :: "pydict \<Rightarrow> exn + media_details" where
  "mediaDetails payload =
     (let call = obj_of (dget payload ''call''); details = obj_of (dget call ''details'');
          gateway = obj_of (dget call ''gateway''); encoders = obj_of (dget details ''encoders'');
          videoLines = list_of (dget encoders ''video''); dir = media_dir (dget details ''mediaDir'');
          mediaStats = obj_of (dget call ''mediaStats'')
      in bindE (sampleSummary (dget mediaStats ''samples'') dir) (\<lambda>sum.
           Inr \<lparr>md_peer_user_agent = text_opt (dget details ''peerUserAgent''),
                md_audio_codec = codec_of (dget encoders ''audio''),
                md_video_codec = (if videoLines = [] then None else codec_of (hd videoLines)),
                md_video_encoder = (if videoLines = [] then None else text_opt (hd videoLines)),
                md_direction = dir,
                md_gw_version = text_opt (dget gateway ''gwVersion''),
                md_baresip_version = text_opt (dget gateway ''baresipVersion''),
                md_baresip_patch = text_opt (dget gateway ''baresipPatch''),
                md_chromium_version = text_opt (dget gateway ''chromiumVersion''),
                md_summary = sum\<rparr>))"

record call_row =
  cr_call_id :: "string option"
  cr_gw_alias :: "string option"
  cr_gw_id :: "string option"
  cr_gw_host :: "string option"
  cr_main_app :: "string option"
  cr_platform :: "string option"
  cr_room :: "string option"
  cr_call_url :: "string option"
  cr_source_uri :: "string option"
  cr_source_name :: "string option"
  cr_source_number :: "string option"
  cr_source_domain :: "string option"
  cr_destination_uri :: "string option"
  cr_destination_room :: "string option"
  cr_destination_domain :: "string option"
  cr_peer_display_name :: "string option"
  cr_call_start :: "int option"
  cr_call_end :: "int option"
  cr_duration_s :: "int option"
  cr_occupancy_s :: "int option"
  cr_close_reason :: "string option"
  cr_last_event_type :: "string option"
  cr_dtmf_events :: pyval
  cr_media :: media_details

definition total_seconds :: "pydict \<Rightarrow> int option" where
  "total_seconds tt =
     (case int_opt (dget tt ''seconds'') of
        Some s \<Rightarrow> Some s
      | None \<Rightarrow> map_option (\<lambda>ms. ms div 1000) (int_opt (dget tt ''milliseconds'')))"

definition callRow :: "pyval \<Rightarrow> exn + call_row" where
  "callRow v =
     (case v of
        PDict payload \<Rightarrow>
          (case dget payload ''call'' of
             PDict call \<Rightarrow>
               (let session = obj_of (dget call ''callSession''); details = obj_of (dget call ''details'');
                    source = obj_of (dget details ''source''); destination = obj_of (dget details ''destination'');
                    seconds = total_seconds (obj_of (dget session ''totalTime''))
                in bindE (mediaDetails payload) (\<lambda>media.
                     Inr \<lparr>cr_call_id = text_opt (dget details ''callId''),
                          cr_gw_alias = text_opt (dget destination ''destinationGw''),
                          cr_gw_id = text_opt (dget call ''gwId''),
                          cr_gw_host = text_opt (dget destination ''destinationDomainIp''),
                          cr_main_app = text_opt (dget call ''mainApp''),
                          cr_platform = platform_opt (dget call ''browsing''),
                          cr_room = text_opt (dget call ''room''),
                          cr_call_url = text_opt (dget call ''callUrl''),
                          cr_source_uri = text_opt (dget source ''sourceURI''),
                          cr_source_name = text_opt (dget source ''sourceName''),
                          cr_source_number = text_opt (dget source ''sourceNumber''),
                          cr_source_domain = text_opt (dget source ''sourceDomain''),
                          cr_destination_uri = text_opt (dget destination ''destinationURI''),
                          cr_destination_room = text_opt (dget destination ''destinationRoomName''),
                          cr_destination_domain = text_opt (dget destination ''destinationDomain''),
                          cr_peer_display_name = text_opt (dget destination ''peerDisplayName''),
                          cr_call_start = ts_opt (dget (obj_of (dget session ''callStart'')) ''timestamp''),
                          cr_call_end = ts_opt (dget (obj_of (dget session ''callEnd'')) ''timestamp''),
                          cr_duration_s = seconds,
                          cr_occupancy_s = seconds,
                          cr_close_reason = text_opt (dget details ''closeReason''),
                          cr_last_event_type = text_opt (dget details ''lastEventType''),
                          cr_dtmf_events = py_or (dget call ''dtmfEvents'') (PList []),
                          cr_media = media\<rparr>))
           | _ \<Rightarrow> Inl (ValueError (''missing '' @ quoted ''call'' @ '' object'')))
      | _ \<Rightarrow> Inl (ValueError ''payload is not an object''))"

end
