(* ===== verification/Call_Store.thy ===== *)
theory Call_Store
  imports Call_Mapping Web Codecs
begin

text \<open>
  The intake of call histories (\<open>manager/ingest/router.py\<close>) and the tables it writes, as
  \<open>manager/db/schema.sql\<close> declares them: the trigger that completes a call, the two replay guards and
  the key of the media rows. The organisational unit a trigger adds is left out.
\<close>

section \<open>The tables\<close>

record stored_call =
  sc_id :: int
  sc_call_id :: string
  sc_start :: int
  sc_established :: bool
  sc_outcome :: string
  sc_duration :: "int option"
  sc_occupancy :: int
  sc_row :: call_row

record call_db =
  db_next :: int
  db_calls :: "stored_call list"
  db_media :: "(int \<times> media_row) list"

definition is_technical_failure :: "string option \<Rightarrow> bool" where
  "is_technical_failure reason =
     (case reason of
        None \<Rightarrow> False
      | Some r \<Rightarrow> list_ex (startswith r)
          [''No common audio or video codecs'', ''Invalid argument'', ''Protocol error'',
           ''Connection timed out'', ''Local timeout'', ''rtp stream error''])"

definition outcome_of :: "call_row \<Rightarrow> string" where
  "outcome_of row =
     (if cr_call_start row = None then ''not_established''
      else if cr_room row \<noteq> None then ''completed''
      else if is_technical_failure (cr_close_reason row) then ''failed''
      else ''ivr_only'')"

definition calls_set_outcome :: "int \<Rightarrow> int \<Rightarrow> string \<Rightarrow> call_row \<Rightarrow> stored_call" where
  "calls_set_outcome i now cid row =
     \<lparr>sc_id = i, sc_call_id = cid,
      sc_start = (case cr_call_start row of None \<Rightarrow> now | Some t \<Rightarrow> t),
      sc_established = (cr_call_start row \<noteq> None),
      sc_outcome = outcome_of row,
      sc_duration = (if outcome_of row = ''completed'' then cr_duration_s row else Some 0),
      sc_occupancy = (case cr_occupancy_s row of Some s \<Rightarrow> s | None \<Rightarrow> or0 (cr_duration_s row)),
      sc_row = row\<rparr>"

text \<open>\<open>calls_replay_uidx\<close> and \<open>calls_replay_unestablished_uidx\<close>.\<close>

definition same_call :: "stored_call \<Rightarrow> stored_call \<Rightarrow> bool" where
  "same_call a b =
     (sc_call_id a = sc_call_id b
      \<and> (sc_start a = sc_start b \<or> \<not> sc_established a \<and> \<not> sc_established b))"

definition media_key :: "int \<times> media_row \<Rightarrow> int \<times> string \<times> int \<times> string" where
  "media_key p = (fst p, mr_media (snd p), mr_index (snd p), mr_direction (snd p))"

definition insert_media :: "int \<Rightarrow> (int \<times> media_row) list \<Rightarrow> media_row \<Rightarrow> (int \<times> media_row) list" where
  "insert_media pk rows r = (if media_key (pk, r) \<in> set (map media_key rows) then rows else rows @ [(pk, r)])"

text \<open>What PostgreSQL refuses in a row: \<open>NUMERIC(6,1)\<close> and \<open>INTEGER\<close> out of range.\<close>

definition row_fits :: "call_row \<Rightarrow> bool" where
  "row_fits row =
     (let s = md_summary (cr_media row) in
      (case sm_min_fps s of None \<Rightarrow> True | Some r \<Rightarrow> \<bar>r\<bar> < 100000)
      \<and> (case sm_presentation s of None \<Rightarrow> True | Some n \<Rightarrow> - (2 ^ 31) \<le> n \<and> n < 2 ^ 31))"

definition store :: "bool \<Rightarrow> int \<Rightarrow> string \<Rightarrow> call_row \<Rightarrow> media_row list \<Rightarrow> call_db \<Rightarrow> (exn + int option) \<times> call_db" where
  "store up now cid row media db =
     (if \<not> up \<or> \<not> row_fits row then (Inl (OtherError ''DatabaseUnavailable''), db)
      else (let c = calls_set_outcome (db_next db) now cid row in
            if list_ex (same_call c) (db_calls db) then (Inr None, db\<lparr>db_next := db_next db + 1\<rparr>)
            else (Inr (Some (sc_id c)),
                  db\<lparr>db_next := db_next db + 1, db_calls := db_calls db @ [c],
                     db_media := foldl (insert_media (sc_id c)) (db_media db) media\<rparr>)))"

section \<open>The route\<close>

record ingest_cfg =
  ingestToken :: string
  MAX_BODY_BYTES :: int

definition authorizeIngest :: "ingest_cfg \<Rightarrow> request \<Rightarrow> bool" where
  "authorizeIngest cfg rq =
     (ingestToken cfg \<noteq> []
      \<and> (case hdr rq ''authorization'' of
           None \<Rightarrow> False
         | Some h \<Rightarrow> startswith h ''Bearer '' \<and> drop 7 h = ingestToken cfg))"

definition declared_length :: "request \<Rightarrow> int option" where
  "declared_length rq =
     (case hdr rq ''content-length'' of
        Some h \<Rightarrow> if h \<noteq> [] \<and> (\<forall>c \<in> set h. is_digit c) then Some (int (digits_val h)) else None
      | None \<Rightarrow> None)"

text \<open>The body, read chunk by chunk: nothing as soon as it is over the limit.\<close>

fun read_body :: "int \<Rightarrow> string \<Rightarrow> string list \<Rightarrow> string option" where
  "read_body limit body [] = Some body"
| "read_body limit body (chunk # chunks) =
     (if limit < int (length (body @ chunk)) then None else read_body limit (body @ chunk) chunks)"

definition tooLarge :: exn where
  "tooLarge = HTTPException 413 ''Payload too large''"

definition refuse :: "string \<Rightarrow> exn" where
  "refuse detail = HTTPException 400 detail"

definition nul_escape :: string where
  "nul_escape = CHR 0x5C # ''u0000''"

definition body_json :: "string \<Rightarrow> pyval option" where
  "body_json body = (if valid_utf8 body then json_loads body else None)"

definition map_error :: "exn \<Rightarrow> exn" where
  "map_error e =
     (case e of
        ValueError m \<Rightarrow> refuse m
      | TypeError _ \<Rightarrow> refuse ''the payload does not have the expected shape''
      | AttributeError _ \<Rightarrow> refuse ''the payload does not have the expected shape''
      | _ \<Rightarrow> e)"

definition map_payload :: "pyval \<Rightarrow> exn + (call_row \<times> media_row list)" where
  "map_payload payload =
     bindE (callRow payload) (\<lambda>row.
     bindE (mediaRows (dget (obj_of (dget (obj_of payload) ''call'')) ''mediaStats'')) (\<lambda>media. Inr (row, media)))"

definition read_push :: "ingest_cfg \<Rightarrow> request \<Rightarrow> string list \<Rightarrow> exn + (string \<times> call_row \<times> media_row list)" where
  "read_push cfg rq chunks =
     (if \<not> authorizeIngest cfg rq then Inl (HTTPException 401 ''Invalid ingest token'')
      else if (case declared_length rq of Some n \<Rightarrow> MAX_BODY_BYTES cfg < n | None \<Rightarrow> False) then Inl tooLarge
      else (case read_body (MAX_BODY_BYTES cfg) [] chunks of
              None \<Rightarrow> Inl tooLarge
            | Some body \<Rightarrow>
                if str_in nul_escape body then Inl (refuse ''the body holds a NUL character'')
                else (case body_json body of
                        None \<Rightarrow> Inl (refuse ''Body is not valid JSON'')
                      | Some payload \<Rightarrow>
                          (case map_payload payload of
                             Inl e \<Rightarrow> Inl (map_error e)
                           | Inr (row, media) \<Rightarrow>
                               (case cr_call_id row of
                                  None \<Rightarrow> Inl (HTTPException 400 ''callId is missing'')
                                | Some cid \<Rightarrow> Inr (cid, row, media))))))"

definition ingestCall :: "ingest_cfg \<Rightarrow> bool \<Rightarrow> int \<Rightarrow> request \<Rightarrow> string list \<Rightarrow> call_db \<Rightarrow> (exn + pyval) \<times> call_db" where
  "ingestCall cfg up now rq chunks db =
     (case read_push cfg rq chunks of
        Inl e \<Rightarrow> (Inl e, db)
      | Inr (cid, row, media) \<Rightarrow>
          (case store up now cid row media db of
             (Inl e, db') \<Rightarrow> (Inl e, db')
           | (Inr None, db') \<Rightarrow> (Inr (PDict [(''status'', PStr ''duplicate''), (''stored'', PBool False)]), db')
           | (Inr (Some pk), db') \<Rightarrow>
               (Inr (PDict [(''status'', PStr ''success''), (''stored'', PBool True),
                            (''call_pk'', PInt pk), (''media_rows'', PInt (int (length media)))]), db')))"

text \<open>The status of an answer: the handler of \<open>DatabaseUnavailable\<close> is the one of \<open>app.py\<close>.\<close>

definition manager_status :: "exn + 'a \<Rightarrow> int" where
  "manager_status r =
     (case r of
        Inr _ \<Rightarrow> 200
      | Inl (HTTPException code _) \<Rightarrow> code
      | Inl (OtherError m) \<Rightarrow> if m = ''DatabaseUnavailable'' then 503 else 500
      | Inl _ \<Rightarrow> 500)"

end
