(* ===== verification/Ingest_Props.thy ===== *)
theory Ingest_Props
  imports Call_Store
begin

text \<open>
  The properties of the intake: what it may answer, that the tables stay consistent and a call is
  stored once, the bounds of what is stored, and the repeats of the samples' first version.
\<close>

section \<open>Which exceptions the mapping raises\<close>

definition shape_error :: "exn \<Rightarrow> bool" where
  "shape_error e = (case e of ValueError _ \<Rightarrow> True | TypeError _ \<Rightarrow> True | OtherError m \<Rightarrow> m = ''OverflowError'' | _ \<Rightarrow> False)"

lemma py_iter_error: "py_iter v = Inl e \<Longrightarrow> shape_error e"
  by (auto simp: py_iter_def shape_error_def split: pyval.splits)

lemma video_list_error: "video_list ms = Inl e \<Longrightarrow> shape_error e"
  by (auto simp: video_list_def bindE_eq_Inl_iff dest: py_iter_error)

lemma isRepeated_error: "isRepeated ms = Inl e \<Longrightarrow> shape_error e"
  by (auto simp: isRepeated_def bindE_eq_Inl_iff dest: video_list_error split: if_splits)

lemma videoEntries_error: "videoEntries ms = Inl e \<Longrightarrow> shape_error e"
  by (auto simp: videoEntries_def bindE_eq_Inl_iff dest: video_list_error isRepeated_error split: pyval.splits)

lemma points_error: "points v = Inl e \<Longrightarrow> shape_error e"
  by (auto simp: points_def bindE_eq_Inl_iff dest: py_iter_error)

lemma sampleSummary_error: "sampleSummary v dir = Inl e \<Longrightarrow> shape_error e"
  by (auto simp: sampleSummary_def bindE_eq_Inl_iff Let_def shape_error_def dest: points_error [unfolded shape_error_def]
      split: if_splits)

lemma callRow_error: "callRow v = Inl e \<Longrightarrow> shape_error e"
  by (auto simp: callRow_def mediaDetails_def bindE_eq_Inl_iff Let_def dest: sampleSummary_error split: pyval.splits)
     (simp_all add: shape_error_def)

lemma map_payload_error: "map_payload v = Inl e \<Longrightarrow> shape_error e"
  by (auto simp: map_payload_def mediaRows_def Let_def bindE_eq_Inl_iff dest: callRow_error videoEntries_error)

lemma map_error_cases: "shape_error e \<Longrightarrow> manager_status (Inl (map_error e)) = 400 \<or> map_error e = OtherError ''OverflowError''"
  by (cases e) (auto simp: shape_error_def map_error_def manager_status_def refuse_def)

lemma read_push_error:
  "read_push cfg rq chunks = Inl e \<Longrightarrow> manager_status (Inl e) \<in> {400, 401, 413} \<or> e = OtherError ''OverflowError''"
proof -
  assume "read_push cfg rq chunks = Inl e"
  then consider "manager_status (Inl e) \<in> {400, 401, 413}" | v e' where "map_payload v = Inl e'" "e = map_error e'"
    by (auto simp: read_push_def manager_status_def refuse_def tooLarge_def split: if_splits option.splits sum.splits prod.splits)
  then show ?thesis using map_error_cases [OF map_payload_error] by cases fastforce+
qed

lemma store_error: "store up now cid row media db = (Inl e, db') \<Longrightarrow> e = OtherError ''DatabaseUnavailable'' \<and> db' = db"
  by (auto simp: store_def Let_def split: if_splits)

text \<open>
  Whatever is pushed, the intake answers 200, 400, 401, 413 or 503, and never an internal error,
  save for readings whose durations add up past the largest float; a refused push changes nothing.
\<close>
theorem ingest_answers:
  "case ingestCall cfg up now rq chunks db of (r, db') \<Rightarrow>
     (manager_status r \<in> {200, 400, 401, 413, 503} \<or> r = Inl (OtherError ''OverflowError''))
     \<and> (case r of Inl _ \<Rightarrow> db' = db | Inr _ \<Rightarrow> True)"
proof (cases "read_push cfg rq chunks")
  case (Inl e)
  then show ?thesis using read_push_error [OF Inl] by (auto simp: ingestCall_def)
next
  case (Inr x)
  obtain cid row media where x: "x = (cid, row, media)" by (cases x) auto
  obtain r db' where st: "store up now cid row media db = (r, db')" by fastforce
  show ?thesis
  proof (cases r)
    case (Inl e)
    then show ?thesis using store_error [of up now cid row media db e db'] st Inr x
      by (simp add: ingestCall_def manager_status_def)
  next
    case (Inr pk)
    then show ?thesis using st \<open>read_push cfg rq chunks = Inr x\<close> x
      by (cases pk) (simp_all add: ingestCall_def manager_status_def)
  qed
qed

section \<open>The tables\<close>

definition no_repeat :: "stored_call list \<Rightarrow> bool" where
  "no_repeat cs = sorted_wrt (\<lambda>a b. \<not> same_call a b) cs"

definition db_sound :: "call_db \<Rightarrow> bool" where
  "db_sound db =
     (no_repeat (db_calls db) \<and> distinct (map sc_id (db_calls db))
      \<and> (\<forall>c \<in> set (db_calls db). sc_id c < db_next db)
      \<and> distinct (map media_key (db_media db))
      \<and> (\<forall>m \<in> set (db_media db). fst m \<in> sc_id ` set (db_calls db)))"

lemma insert_media_distinct: "distinct (map media_key rows) \<Longrightarrow> distinct (map media_key (insert_media pk rows r))"
  by (auto simp: insert_media_def)

lemma fold_media:
  "distinct (map media_key rows) \<Longrightarrow>
     distinct (map media_key (foldl (insert_media pk) rows rs))
     \<and> (\<forall>m \<in> set (foldl (insert_media pk) rows rs). m \<in> set rows \<or> fst m = pk)"
proof (induction rs arbitrary: rows)
  case (Cons r rs)
  have "\<forall>m \<in> set (insert_media pk rows r). m \<in> set rows \<or> fst m = pk" by (auto simp: insert_media_def)
  with Cons.IH [OF insert_media_distinct [OF Cons.prems]] show ?case by fastforce
qed simp

lemma db_sound_same:
  "db_sound db \<Longrightarrow> db_sound (db\<lparr>db_next := db_next db + 1\<rparr>)"
  by (force simp: db_sound_def)

lemma db_sound_add:
  assumes "db_sound db" and "sc_id c = db_next db" and "\<not> list_ex (same_call c) (db_calls db)"
  shows "db_sound (db\<lparr>db_next := db_next db + 1, db_calls := db_calls db @ [c],
                      db_media := foldl (insert_media (sc_id c)) (db_media db) media\<rparr>)"
proof -
  have "no_repeat (db_calls db @ [c])"
    using assms by (auto simp: no_repeat_def db_sound_def sorted_wrt_append list_ex_iff same_call_def)
  moreover have "distinct (map sc_id (db_calls db @ [c]))" "\<forall>d \<in> set (db_calls db @ [c]). sc_id d < db_next db + 1"
    using assms by (fastforce simp: db_sound_def)+
  moreover have "distinct (map media_key (foldl (insert_media (sc_id c)) (db_media db) media))"
      "\<forall>m \<in> set (foldl (insert_media (sc_id c)) (db_media db) media). fst m \<in> sc_id ` set (db_calls db @ [c])"
    using assms(1) fold_media [of "db_media db" "sc_id c" media] by (auto simp: db_sound_def)
  ultimately show ?thesis by (simp add: db_sound_def)
qed

lemma store_sound:
  assumes "db_sound db" and "store up now cid row media db = (r, db')"
  shows "db_sound db'"
proof -
  let ?c = "calls_set_outcome (db_next db) now cid row"
  have "sc_id ?c = db_next db" by (simp add: calls_set_outcome_def)
  note add = db_sound_add [OF assms(1) this, of media]
  show ?thesis
  proof (cases "\<not> up \<or> \<not> row_fits row")
    case True
    with assms show ?thesis by (simp add: store_def)
  next
    case False
    with assms(2) add db_sound_same [OF assms(1)] show ?thesis
      by (cases "list_ex (same_call ?c) (db_calls db)") (auto simp only: store_def Let_def if_False if_True prod.inject)
  qed
qed

lemma ingest_sound: "db_sound db \<Longrightarrow> db_sound (snd (ingestCall cfg up now rq chunks db))"
  by (auto simp: ingestCall_def split: sum.splits prod.splits option.splits dest: store_sound)

section \<open>Many pushes\<close>

record push =
  pu_up :: bool
  pu_now :: int
  pu_request :: request
  pu_chunks :: "string list"

definition take_push :: "ingest_cfg \<Rightarrow> call_db \<Rightarrow> push \<Rightarrow> call_db" where
  "take_push cfg db p = snd (ingestCall cfg (pu_up p) (pu_now p) (pu_request p) (pu_chunks p) db)"

definition empty_db :: call_db where
  "empty_db = \<lparr>db_next = 1, db_calls = [], db_media = []\<rparr>"

lemma pushes_sound: "db_sound db \<Longrightarrow> db_sound (foldl (take_push cfg) db ps)"
  by (induction ps arbitrary: db) (simp_all add: take_push_def ingest_sound)


lemma ingest_grows: "prefix (db_calls db) (db_calls (snd (ingestCall cfg up now rq chunks db)))"
  by (auto simp: ingestCall_def store_def Let_def split: sum.splits prod.splits option.splits if_splits)

lemma pushes_grow: "prefix (db_calls db) (db_calls (foldl (take_push cfg) db ps))"
proof (induction ps arbitrary: db)
  case (Cons p ps)
  have "prefix (db_calls db) (db_calls (take_push cfg db p))" unfolding take_push_def by (rule ingest_grows)
  with Cons [of "take_push cfg db p"] show ?case by (simp add: prefix_order.trans)
qed simp

lemma same_call_again:
  "same_call (calls_set_outcome i now cid row) (calls_set_outcome j now' cid row)"
  by (auto simp: same_call_def calls_set_outcome_def)

lemma stored_is_kept:
  assumes "ingestCall cfg up now rq chunks db = (Inr (PDict d), db')" and "dget d ''stored'' = PBool True"
  obtains cid row media c where "read_push cfg rq chunks = Inr (cid, row, media)"
    and "c \<in> set (db_calls db')" and "\<forall>j t. same_call (calls_set_outcome j t cid row) c" and "row_fits row"
proof -
  obtain cid row media where rp: "read_push cfg rq chunks = Inr (cid, row, media)"
    using assms(1) by (auto simp: ingestCall_def split: sum.splits)
  then obtain pk where "store up now cid row media db = (Inr (Some pk), db')"
    using assms by (auto simp: ingestCall_def split: sum.splits prod.splits option.splits)
  then have "calls_set_outcome (db_next db) now cid row \<in> set (db_calls db')" "row_fits row"
    by (auto simp: store_def Let_def split: if_splits)
  with rp that show thesis using same_call_again by blast
qed

text \<open>
  C13. A call that was stored is never stored again: after any further pushes, by whomever and
  whenever, the same push is answered as a duplicate and changes no table.
\<close>
theorem replayed_push_is_absorbed:
  assumes "ingestCall cfg up now rq chunks db = (Inr (PDict d), db')" and "dget d ''stored'' = PBool True"
  shows "\<exists>db3. ingestCall cfg True later rq chunks (foldl (take_push cfg) db' ps)
           = (Inr (PDict [(''status'', PStr ''duplicate''), (''stored'', PBool False)]), db3)
         \<and> db_calls db3 = db_calls (foldl (take_push cfg) db' ps) \<and> db_media db3 = db_media (foldl (take_push cfg) db' ps)"
proof -
  let ?db = "foldl (take_push cfg) db' ps"
  obtain cid row media c where *: "read_push cfg rq chunks = Inr (cid, row, media)" "c \<in> set (db_calls db')"
    "\<forall>j t. same_call (calls_set_outcome j t cid row) c" "row_fits row"
    using stored_is_kept [OF assms] .
  have "c \<in> set (db_calls ?db)" using *(2) pushes_grow [of db' cfg ps] set_mono_prefix by blast
  then have "list_ex (same_call (calls_set_outcome (db_next ?db) later cid row)) (db_calls ?db)"
    using *(3) by (auto simp: list_ex_iff)
  then show ?thesis using *(1,4) by (simp add: ingestCall_def store_def)
qed

lemmas mapping_defs = map_payload_def callRow_def mediaDetails_def sampleSummary_def points_def py_iter_def
  mediaRows_def videoEntries_def video_list_def isRepeated_def obj_of_def dicts_of_def list_of_def media_dir_def Let_def

lemma text_opt_simps [simp]: "text_opt PNone = None"
  by (simp add: text_opt_def)

lemma text_opt_word: "s \<noteq> [] \<Longrightarrow> \<forall>c \<in> set s. \<not> is_space c \<Longrightarrow> text_opt (PStr s) = Some s"
  by (simp add: text_opt_def str_strip_def strip_by_none)

definition wit_payload :: pyval where
  "wit_payload = PDict [(''call'', PDict [(''room'', PStr ''r1''), (''details'', PDict [(''callId'', PStr ''a1'')])])]"

definition wit_push :: request where
  "wit_push = \<lparr>rq_method = ''POST'', rq_url = ''/ingest/calls'', rq_headers = [(''authorization'', ''Bearer secret'')],
     rq_query = [], rq_client = None, rq_body = Inr PNone\<rparr>"

definition wit_ingest :: ingest_cfg where
  "wit_ingest = \<lparr>ingestToken = ''secret'', MAX_BODY_BYTES = 1000\<rparr>"

lemma wit_body: "\<not> str_in nul_escape (json_dumps_raw wit_payload)" "valid_utf8 (json_dumps_raw wit_payload)"
    "length (json_dumps_raw wit_payload) < 1000"
  by code_simp+

lemma wit_read: "\<exists>row media. read_push wit_ingest wit_push [json_dumps_raw wit_payload] = Inr (''a1'', row, media) \<and> row_fits row"
proof -
  have "json_loads (json_dumps_raw wit_payload) = Some wit_payload"
    by (rule json_raw.load_dump) (simp add: wit_payload_def)
  then have j: "body_json (json_dumps_raw wit_payload) = Some wit_payload" by (simp add: body_json_def wit_body)
  have "\<exists>row media. map_payload wit_payload = Inr (row, media) \<and> cr_call_id row = Some ''a1'' \<and> row_fits row"
    by (simp add: mapping_defs row_fits_def wit_payload_def text_opt_word is_space_def)
  then show ?thesis
    using wit_body j
    by (auto simp: read_push_def authorizeIngest_def declared_length_def hdr_def wit_ingest_def wit_push_def startswith_def)
qed

lemma replayed_push_is_absorbed_witness:
  "\<exists>db3. ingestCall wit_ingest True 9 wit_push [json_dumps_raw wit_payload]
       (snd (ingestCall wit_ingest True 5 wit_push [json_dumps_raw wit_payload] empty_db))
     = (Inr (PDict [(''status'', PStr ''duplicate''), (''stored'', PBool False)]), db3)"
proof -
  obtain row media where "read_push wit_ingest wit_push [json_dumps_raw wit_payload] = Inr (''a1'', row, media)" "row_fits row"
    using wit_read by blast
  then obtain d db' where "ingestCall wit_ingest True 5 wit_push [json_dumps_raw wit_payload] empty_db = (Inr (PDict d), db')"
      "dget d ''stored'' = PBool True"
    by (simp add: ingestCall_def store_def empty_db_def Let_def)
  from replayed_push_is_absorbed [OF this, of 9 "[]"] this show ?thesis by auto
qed

section \<open>Bounds\<close>

definition fits :: "int option \<Rightarrow> bool" where
  "fits x = (case x of None \<Rightarrow> True | Some n \<Rightarrow> \<bar>n\<bar> \<le> INT_LIMIT)"

lemma fits_int_opt [simp]: "fits (int_opt v)"
  by (auto simp: fits_def int_opt_def split: option.split)

definition row_checked :: "media_row \<Rightarrow> bool" where
  "row_checked r =
     (mr_media r \<in> {''audio'', ''video''} \<and> mr_direction r \<in> {''tx'', ''rx''}
      \<and> fits (mr_packets r) \<and> fits (mr_errors r) \<and> fits (mr_reports r) \<and> fits (mr_lost r))"

lemma streamRows_checked: "media \<in> {''audio'', ''video''} \<Longrightarrow> r \<in> set (streamRows block media i) \<Longrightarrow> row_checked r"
  by (auto simp: streamRows_def direction_row_def row_checked_def split: pyval.splits)

lemma mediaRows_checked: "mediaRows v = Inr rows \<Longrightarrow> r \<in> set rows \<Longrightarrow> row_checked r"
  by (auto simp: mediaRows_def Let_def bindE_eq_Inr_iff intro: streamRows_checked)

lemma fits_total_seconds: "fits (total_seconds d)"
proof (cases "int_opt (dget d ''seconds'')")
  case None
  show ?thesis
  proof (cases "int_opt (dget d ''milliseconds'')")
    case (Some ms)
    then have "\<bar>ms\<bar> \<le> INT_LIMIT" using fits_int_opt [of "dget d ''milliseconds''"] by (simp add: fits_def)
    then have "\<bar>ms div 1000\<bar> \<le> INT_LIMIT" by (auto simp: INT_LIMIT_def)
    with None Some show ?thesis by (simp add: total_seconds_def fits_def)
  qed (simp add: None total_seconds_def fits_def)
next
  case (Some n)
  then show ?thesis using fits_int_opt [of "dget d ''seconds''"] by (simp add: total_seconds_def)
qed

lemma summary_checked:
  "sampleSummary v dir = Inr sm \<Longrightarrow>
     fits (sm_keyframes sm) \<and> sm_state sm \<in> Some ` {''ok'', ''oneway'', ''stalled'', ''no_picture''} \<union> {None}"
  by (auto simp: sampleSummary_def bindE_eq_Inr_iff Let_def picture_state_def fits_def [of None] split: if_splits)



definition long_slides :: pyval where
  "long_slides =
     (let sample = (\<lambda>t. PDict [(''seconds'', PInt t), (''video'', PDict [(''slides'', PDict [(''source'', PStr ''x11'')])])])
      in PDict [(''call'', PDict [(''details'', PDict [(''callId'', PStr ''a1'')]),
           (''mediaStats'', PDict [(''samples'', PList [sample 0, sample 5000000000])])])])"

lemma slides_source: "text_opt (PStr ''x11'') = Some ''x11''"
  by (simp add: text_opt_word is_space_def)

lemma float_limit_big: "5000000000 < float_limit"
  by (simp add: float_limit_def)

text \<open>
  Two columns the samples fill are not bounded by \<open>INT_LIMIT\<close>: a push whose readings are far
  apart passes the mapping and is refused by the database, which answers 503 for a push that can
  never be stored.
\<close>
theorem presentation_is_not_bounded:
  "\<exists>row media. map_payload long_slides = Inr (row, media) \<and> cr_call_id row = Some ''a1''
     \<and> sm_presentation (md_summary (cr_media row)) = Some 5000000000 \<and> \<not> row_fits row
     \<and> (\<forall>now cid db. store True now cid row media db = (Inl (OtherError ''DatabaseUnavailable''), db))"
proof -
  have "\<exists>row media. map_payload long_slides = Inr (row, media) \<and> cr_call_id row = Some ''a1''
     \<and> sm_presentation (md_summary (cr_media row)) = Some 5000000000"
    using float_limit_big
    by (simp add: long_slides_def mapping_defs text_opt_word is_space_def presented_def intervals_def pairs_def interval_of_def
        elapsed_def float_opt_def py_float_def or0_def presenting_def sends_slides_def part_def slides_source
        PLACEHOLDER_SOURCE_def round_even_def float_limit_def)
  then show ?thesis by (auto simp: row_fits_def store_def)
qed

section \<open>Repeated readings\<close>

lemma dicts_of_PDict [simp]: "dicts_of (map PDict ds) = ds"
  by (induction ds) (simp_all add: dicts_of_def)

lemma video_list_PDict: "dget ms ''video'' = PList (map PDict ds) \<Longrightarrow> video_list ms = Inr ds"
  using dicts_of_PDict [of ds] by (cases ds) (simp_all add: video_list_def py_iter_def del: dicts_of_PDict)

lemma videoEntries_list:
  assumes "dget ms ''video'' = PList (map PDict ds)"
  shows "videoEntries ms = bindE (isRepeated ms) (\<lambda>rep. Inr (if rep then numbered (last_two ds) else map own_index (numbered ds)))"
  using video_list_PDict [OF assms] assms by (simp add: videoEntries_def)

lemma last_pair: "last_two (xs @ [a, b]) = [a, b]"
  by (simp add: last_two_def)

text \<open>
  The first version of the samples repeated the video block at every reading: of the \<open>2n + 2\<close>
  entries of a call with \<open>n\<close> readings only the last pair is stored, as streams 0 and 1. A payload of
  at most three streams is stored as it is, each under its own index.
\<close>
theorem repeats_keep_the_last_pair:
  assumes "dget ms ''video'' = PList (map PDict (ds @ [a, b]))" and "dget ms ''samples'' = PList ss"
    and "ss \<noteq> []"
  shows "(length ds = 2 * length ss \<longrightarrow>
           mediaRows (PDict ms) = Inr (streamRows (dget ms ''audio'') ''audio'' 0
             @ streamRows (PDict a) ''video'' 0 @ streamRows (PDict b) ''video'' 1))
       \<and> (length ds \<le> 1 \<longrightarrow>
           mediaRows (PDict ms) = Inr (streamRows (dget ms ''audio'') ''audio'' 0
             @ concat (map (\<lambda>(i, d). streamRows (PDict d) ''video'' i) (map own_index (numbered (ds @ [a, b]))))))"
proof -
  have v: "videoEntries ms = bindE (isRepeated ms) (\<lambda>rep.
      Inr (if rep then numbered [a, b] else map own_index (numbered (ds @ [a, b]))))"
    unfolding videoEntries_list [OF assms(1)] last_pair ..
  have r: "isRepeated ms = Inr (4 \<le> length (ds @ [a, b])
      \<and> (2 * length ss \<le> length (ds @ [a, b]) \<or> looksCumulative (ds @ [a, b])))"
    using assms(3) by (simp add: isRepeated_def video_list_PDict [OF assms(1)] assms(1,2))
  have "1 \<le> length ss" using assms(3) by (cases ss) auto
  with v r show ?thesis by (auto simp: mediaRows_def obj_of_def numbered_def)
qed

lemma repeats_keep_the_last_pair_witness:
  "mediaRows (PDict [(''samples'', PList [PNone]), (''video'', PList (map PDict
      [[], [], [(''rx'', PDict [(''packets'', PInt 5)])], [(''rx'', PDict [(''packets'', PInt 6)])]]))])
   = Inr [direction_row ''video'' 0 ''rx'' [(''packets'', PInt 5)], direction_row ''video'' 1 ''rx'' [(''packets'', PInt 6)]]"
  using repeats_keep_the_last_pair [of "[(''samples'', PList [PNone]), (''video'', PList (map PDict
      [[], [], [(''rx'', PDict [(''packets'', PInt 5)])], [(''rx'', PDict [(''packets'', PInt 6)])]]))]"
      "[[], []]" "[(''rx'', PDict [(''packets'', PInt 5)])]" "[(''rx'', PDict [(''packets'', PInt 6)])]" "[PNone]"]
  by (simp add: streamRows_def obj_of_def)

section \<open>The state of the picture\<close>

lemma round1_again: "round1 (round1 x) = round1 x"
  by (simp add: round1_def)

lemma round1_mono: "x \<le> y \<Longrightarrow> round1 x \<le> round1 y"
  using round_even_mono [of "10 * x" "10 * y"] by (simp add: round1_def divide_right_mono)

lemma round1_LOW [simp]: "round1 LOW_FPS = LOW_FPS"
  using round_even_of_int [of 50] by (simp add: round1_def LOW_FPS_def)

lemma min_rate_le: "rates \<noteq> [] \<Longrightarrow> min_rate rates \<in> set rates \<and> (\<forall>r \<in> set rates. min_rate rates \<le> r)"
proof -
  have "foldr min xs x \<in> set (x # xs) \<and> (\<forall>r \<in> set (x # xs). foldr min xs x \<le> (r :: rat))" for xs x
    by (induction xs) (auto simp: min_def)
  then show "rates \<noteq> [] \<Longrightarrow> ?thesis" by (cases rates) (simp_all add: min_rate_def)
qed

lemma frame_rate_rounded: "frame_rate a b t k = Some r \<Longrightarrow> round1 r = r"
  by (auto simp: frame_rate_def round1_again split: option.splits)

lemma interval_rounded: "e \<in> set (interval_of a b) \<Longrightarrow> iv_rx e = Some r \<Longrightarrow> round1 r = r"
  by (auto simp: interval_of_def Let_def dest: frame_rate_rounded split: if_splits)

lemma rates_rounded: "r \<in> set (rx_rates (intervals ps)) \<Longrightarrow> round1 r = r"
  by (auto simp: rx_rates_def intervals_def dest: interval_rounded [OF _ sym] split: option.splits)

lemma low_rates_zero: "low_rates rates = 0 \<longleftrightarrow> (\<forall>r \<in> set rates. LOW_FPS \<le> r)"
  by (auto simp: low_rates_def filter_empty_conv)

lemma low_rates_all: "low_rates rates = length rates \<longleftrightarrow> (\<forall>r \<in> set rates. r < LOW_FPS)"
  unfolding low_rates_def by (metis filter_id_conv length_filter_less nat_neq_iff filter_True)

text \<open>
  The state of the picture agrees with the minimum stored beside it: a picture is \<open>ok\<close> exactly
  when the lowest rate stored is 5 frames a second or more, and \<open>no_picture\<close> exactly when no
  interval reached 5; the lowest rate is one of the rates.
\<close>
theorem verdict_agrees_with_minimum:
  assumes "sampleSummary v dir = Inr sm" and "\<not> is_oneway dir" and "points v = Inr ps" and "sm_min_fps sm = Some m"
  shows "(sm_state sm = Some ''ok'' \<longleftrightarrow> LOW_FPS \<le> m)
       \<and> (sm_state sm = Some ''no_picture'' \<longleftrightarrow> (\<forall>r \<in> set (rx_rates (intervals ps)). r < LOW_FPS))
       \<and> m \<in> set (rx_rates (intervals ps))"
proof -
  let ?rates = "rx_rates (intervals ps)"
  from assms have ne: "?rates \<noteq> []" and m: "m = round1 (min_rate ?rates)" and st: "sm_state sm = Some (picture_state ?rates)"
    by (auto simp: sampleSummary_def Let_def split: if_splits)
  note mn = min_rate_le [OF ne]
  with m rates_rounded have mm: "m = min_rate ?rates" by auto
  have "low_rates ?rates = 0 \<longleftrightarrow> LOW_FPS \<le> m" unfolding mm low_rates_zero using mn order_trans by blast
  moreover have "\<not> (low_rates ?rates = 0 \<and> low_rates ?rates = length ?rates)" using ne by auto
  ultimately show ?thesis using st mm mn low_rates_all [of ?rates] by (auto simp: picture_state_def)
qed

definition wit_samples :: pyval where
  "wit_samples =
     (let sample = (\<lambda>t n. PDict [(''seconds'', PInt t), (''video'', PDict [(''main'', PDict [(''rxFrames'', PInt n)])])])
      in PList [sample 0 0, sample 10 300, sample 20 330])"

lemma verdict_agrees_with_minimum_witness:
  "\<exists>sm. sampleSummary wit_samples None = Inr sm \<and> sm_min_fps sm = Some 3 \<and> (sm_state sm = Some ''ok'' \<longleftrightarrow> LOW_FPS \<le> 3)"
proof -
  have "\<exists>sm ps. sampleSummary wit_samples None = Inr sm \<and> points wit_samples = Inr ps \<and> sm_min_fps sm = Some 3"
    using float_limit_big
    by (simp add: wit_samples_def sampleSummary_def points_def py_iter_def dicts_of_def Let_def intervals_def pairs_def
        interval_of_def elapsed_def float_opt_def py_float_def or0_def part_def obj_of_def rx_rates_def frame_rate_def
        int_opt_def py_int_def INT_LIMIT_def presented_def presenting_def sends_slides_def min_rate_def round1_def
        round_even_def float_limit_def)
  then obtain sm ps where "sampleSummary wit_samples None = Inr sm" "points wit_samples = Inr ps" "sm_min_fps sm = Some 3"
    by blast
  with verdict_agrees_with_minimum [OF this(1) _ this(2,3)] show ?thesis by (auto simp: is_oneway_def)
qed

end
