(* ===== verification/Push_Contract.thy ===== *)
theory Push_Contract
  imports LogParse_Props Ingest_Props
begin

text \<open>
  The push from one end to the other: the payload the log parser builds
  (\<open>src/logParse.py\<close>) is the document the manager's mapping reads (\<open>manager/ingest/mapping.py\<close>), field
  by field.
\<close>

definition stream_rows :: "stream \<Rightarrow> media_row list" where
  "stream_rows st = [direction_row ''video'' (sm_index st) ''tx'' (sm_tx st), direction_row ''video'' (sm_index st) ''rx'' (sm_rx st)]"

definition audio_rows :: "payload \<Rightarrow> media_row list" where
  "audio_rows p = [direction_row ''audio'' 0 ''tx'' (pl_audioTx p), direction_row ''audio'' 0 ''rx'' (pl_audioRx p)]"

definition stream_dict :: "stream \<Rightarrow> pydict" where
  "stream_dict st = [(''streamIndex'', PInt (sm_index st)), (''tx'', PDict (sm_tx st)), (''rx'', PDict (sm_rx st))]"

lemma stream_value_dict: "stream_value st = PDict (stream_dict st)"
  by (simp add: stream_value_def stream_dict_def)

lemma streamRows_dict [simp]: "streamRows (PDict (stream_dict st)) ''video'' (sm_index st) = stream_rows st"
  by (simp add: streamRows_def obj_of_def stream_dict_def stream_rows_def)

lemma own_index_dict: "fits (Some (sm_index st)) \<Longrightarrow> own_index (i, stream_dict st) = (sm_index st, stream_dict st)"
  by (simp add: own_index_def stream_dict_def fits_def int_opt_def py_int_def abs_le_iff)

lemma own_numbered:
  assumes "\<forall>st \<in> set sts. fits (Some (sm_index st))"
  shows "map own_index (numbered (map stream_dict sts)) = map (\<lambda>st. (sm_index st, stream_dict st)) sts"
proof (rule nth_equalityI)
  fix i assume "i < length (map own_index (numbered (map stream_dict sts)))"
  then have i: "i < length sts" by (simp add: numbered_def)
  with assms show "map own_index (numbered (map stream_dict sts)) ! i = map (\<lambda>st. (sm_index st, stream_dict st)) sts ! i"
    by (simp add: numbered_def nth_enumerate_eq own_index_dict)
qed (simp add: numbered_def)

lemma media_value_rows:
  assumes "length (call_streams p) < 4" and "\<forall>st \<in> set (call_streams p). fits (Some (sm_index st))"
  shows "mediaRows (media_value p) = Inr (audio_rows p @ concat (map stream_rows (call_streams p)))"
proof -
  let ?ds = "map stream_dict (call_streams p)"
  obtain ms where ms: "media_value p = PDict ms" "dget ms ''video'' = PList (map PDict ?ds)"
    "dget ms ''samples'' = PList (pl_samples p)"
    "dget ms ''audio'' = PDict [(''tx'', PDict (pl_audioTx p)), (''rx'', PDict (pl_audioRx p))]"
    by (simp add: media_value_def stream_value_dict comp_def)
  have "isRepeated ms = Inr False"
    using assms(1) ms by (simp add: isRepeated_def video_list_PDict [OF ms(2)])
  then have "videoEntries ms = Inr (map (\<lambda>st. (sm_index st, stream_dict st)) (call_streams p))"
    using videoEntries_list [OF ms(2)] own_numbered [OF assms(2)] by simp
  then show ?thesis
    by (simp add: mediaRows_def ms obj_of_def streamRows_def [of "PDict [_, _]"] audio_rows_def comp_def)
qed

text \<open>What a stored call says of the call the gateway logged.\<close>

definition row_of_payload :: "lp_env \<Rightarrow> payload \<Rightarrow> call_row \<Rightarrow> bool" where
  "row_of_payload env p row =
     (cr_call_id row = text_opt (pl_callId p)
      \<and> cr_room row = text_opt (PStr (pl_room p))
      \<and> cr_platform row = platform_opt (PStr (pl_browsing p))
      \<and> cr_main_app row = text_opt (PStr (pl_mainApp p))
      \<and> cr_gw_alias row = text_opt (PStr (fst (splitUri (pl_destRaw p))))
      \<and> cr_gw_host row = text_opt (PStr (snd (splitUri (pl_destRaw p))))
      \<and> cr_source_uri row = text_opt (PStr (stripSipPrefix (lp_normalizeSipUri (pl_source p))))
      \<and> cr_destination_uri row = text_opt (PStr (stripSipPrefix (pl_destination p)))
      \<and> cr_call_start row = ts_opt (pl_startTime p)
      \<and> cr_call_end row = ts_opt (pl_endTime p)
      \<and> cr_close_reason row = text_opt (pl_closeReason p)
      \<and> cr_last_event_type row = text_opt (PStr (pl_lastEvent p))
      \<and> md_direction (cr_media row) = media_dir (pl_mediaDir p)
      \<and> md_peer_user_agent (cr_media row) = text_opt (pl_userAgent p)
      \<and> md_baresip_version (cr_media row) = text_opt (dget (gatewayVersions env) ''baresipVersion''))"

lemma map_call_body:
  assumes "call_body env p = Inr body" and "sampleSummary (PList (pl_samples p)) (media_dir (pl_mediaDir p)) = Inr sm"
    and "length (call_streams p) < 4" and "\<forall>st \<in> set (call_streams p). fits (Some (sm_index st))"
  shows "\<exists>row. map_payload body = Inr (row, audio_rows p @ concat (map stream_rows (call_streams p)))
     \<and> row_of_payload env p row \<and> md_summary (cr_media row) = sm"
proof -
  obtain url sec where b: "as_str (pl_url p) = Inr url" "call_seconds p = Inr sec"
    using assms(1) by (auto simp: call_body_def bindE_eq_Inr_iff)
  obtain sn rn where pd: "parseCallUrlDetails url = (sn, rn)" by fastforce
  obtain a ad where su: "splitUri (pl_destRaw p) = (a, ad)" by fastforce
  obtain c cd where su2: "splitUri (lp_normalizeSipUri (pl_source p)) = (c, cd)" by fastforce
  have sm: "dget (obj_of (media_value p)) ''samples'' = PList (pl_samples p)" by (simp add: media_value_def obj_of_def)
  have "body = PDict [(''call'', dget (obj_of body) ''call'')]" and call: "\<exists>call. dget (obj_of body) ''call'' = PDict call"
    and "dget (obj_of (dget (obj_of body) ''call'')) ''mediaStats'' = media_value p"
    using assms(1) b pd by (auto simp: call_body_def obj_of_def)
  then have media: "mediaRows (dget (obj_of (dget (obj_of body) ''call'')) ''mediaStats'')
      = Inr (audio_rows p @ concat (map stream_rows (call_streams p)))"
    using media_value_rows [OF assms(3,4)] by simp
  have "\<exists>row. callRow body = Inr row \<and> row_of_payload env p row \<and> md_summary (cr_media row) = sm"
    using assms(1,2) b pd su su2 sm
    by (auto simp: call_body_def callRow_def mediaDetails_def details_value_def row_of_payload_def Let_def obj_of_def [of "PDict _"])
  with media show ?thesis by (auto simp: map_payload_def)
qed


lemma wit_stats_payload: "\<exists>p body. read_records no_payload (file_lines (written wit_stats)) = Inr p
    \<and> buildPayloadFromLines wit_env (file_lines (written wit_stats)) = Inr body \<and> pl_samples p = []
    \<and> call_streams p = [\<lparr>sm_index = 1, sm_tx = [], sm_rx = [(''fps'', PInt 25)]\<rparr>,
         \<lparr>sm_index = 3, sm_tx = [(''fps'', PInt 30), (''loss'', PInt 0)], sm_rx = []\<rparr>]"
  unfolding buildPayloadFromLines_def read_records_written [OF wit_stats_ok]
  by (simp add: wit_stats_def read_data_def read_stats_def stripped_def strip_tokens lower_video dget_def
      set_stat_def int_or_zero_def py_int_def Let_def no_payload_def call_streams_def sorted_streams_def
      call_body_def call_seconds_def parseIso_def split: prod.split option.split)


end
