(* ===== verification/Io_Logic.thy ===== *)
theory Io_Logic
  imports Py_IO
begin

text \<open>
  Computations that read, change and check a world, and how a relation on worlds is carried along
  one: a preorder on worlds (\<open>world_order\<close>) holds of a whole computation when it holds of its steps.
\<close>

definition read_io :: "('w \<Rightarrow> 'a) \<Rightarrow> ('w, 'a) io" where
  "read_io f w = (Inr (f w), w)"

definition modify_io :: "('w \<Rightarrow> 'w) \<Rightarrow> ('w, unit) io" where
  "modify_io f w = (Inr (), f w)"

definition demand :: "bool \<Rightarrow> exn \<Rightarrow> ('w, unit) io" where
  "demand b e = (if b then ret_io () else raise_io e)"

text \<open>A computation on one part of a world of two.\<close>

definition on_left :: "('a, 'x) io \<Rightarrow> ('a \<times> 'b, 'x) io" where
  "on_left m w = (case m (fst w) of (r, a) \<Rightarrow> (r, (a, snd w)))"

definition on_right :: "('b, 'x) io \<Rightarrow> ('a \<times> 'b, 'x) io" where
  "on_right m w = (case m (snd w) of (r, b) \<Rightarrow> (r, (fst w, b)))"

lemma read_io_app [simp]: "read_io f w = (Inr (f w), w)"
  by (simp add: read_io_def)

lemma modify_io_app [simp]: "modify_io f w = (Inr (), f w)"
  by (simp add: modify_io_def)

lemma demand_simps [simp]: "demand True e = ret_io ()" "demand False e = raise_io e"
  by (simp_all add: demand_def)

section \<open>Relations kept by every step\<close>

definition steps :: "('w \<Rightarrow> 'w \<Rightarrow> bool) \<Rightarrow> ('w, 'a) io \<Rightarrow> bool" where
  "steps R m = (\<forall>w. R w (snd (m w)))"

locale world_order =
  fixes R :: "'w \<Rightarrow> 'w \<Rightarrow> bool"
  assumes refl: "R w w"
    and trans: "R u v \<Longrightarrow> R v w \<Longrightarrow> R u w"
begin

lemma steps_ret: "steps R (ret_io x)"
  by (simp add: steps_def refl)

lemma steps_raise: "steps R (raise_io e)"
  by (simp add: steps_def refl)

lemma steps_lift: "steps R (lift_io r)"
  by (cases r) (simp_all add: steps_def refl)

lemma steps_read: "steps R (read_io f)"
  by (simp add: steps_def refl)

lemma steps_demand: "steps R (demand b e)"
  by (cases b) (simp_all add: steps_def refl)

lemma steps_bind:
  assumes "steps R m" and "\<And>x. steps R (f x)"
  shows "steps R (bind_io m f)"
  unfolding steps_def
proof
  fix w
  obtain r w' where m: "m w = (r, w')" by fastforce
  have "R w w'" using assms(1) m unfolding steps_def by (metis snd_conv)
  then show "R w (snd (bind_io m f w))"
    using m assms(2) trans by (cases r) (auto simp: steps_def)
qed

lemma steps_option: "steps R n \<Longrightarrow> (\<And>x. steps R (f x)) \<Longrightarrow> steps R (case z of None \<Rightarrow> n | Some x \<Rightarrow> f x)"
  by (cases z) simp_all

lemma steps_if: "steps R m \<Longrightarrow> steps R n \<Longrightarrow> steps R (if b then m else n)"
  by simp

lemma steps_prod: "(\<And>x y. steps R (f x y)) \<Longrightarrow> steps R (case p of (x, y) \<Rightarrow> f x y)"
  by (cases p) simp

lemma steps_modify: "(\<And>w. R w (f w)) \<Longrightarrow> steps R (modify_io f)"
  by (simp add: steps_def)

lemmas steps_rules = steps_ret steps_raise steps_lift steps_read steps_demand steps_bind steps_option steps_if steps_prod

end

end
