(* ===== verification/Accounts.thy ===== *)
theory Accounts
  imports Web Io_Logic Codecs "HOL-Library.List_Lexorder" "HOL-Library.Char_ord" "HOL-Library.Product_Lexorder"
begin

text \<open>
  The console's accounts: the user table (\<open>manager/users.py\<close>), passwords, the sign-in throttle and
  sessions (\<open>manager/auth.py\<close>), the account routes (\<open>manager/api/users.py\<close>) and the sign-in routes of
  \<open>manager/app.py\<close>. The state holds the tables, the throttle and the session of the browser that
  sends the request. The clocks, the salt, scrypt and the list of trusted proxies are arguments.
  A route that changes an account is its checks followed by one write, as in the code: between the
  two another request may be served.
\<close>

section \<open>Tables and state\<close>

record account =
  ac_id :: int
  ac_username :: string
  ac_first_name :: "string option"
  ac_last_name :: "string option"
  ac_role :: string
  ac_source :: string
  ac_external_id :: "string option"
  ac_password_hash :: "string option"
  ac_must_change :: bool
  ac_enabled :: bool
  ac_epoch :: int
  ac_created_at :: rat
  ac_created_by :: string
  ac_password_changed_at :: "rat option"
  ac_last_login_at :: "rat option"
  ac_updated_at :: rat

record audit_line =
  au_actor :: string
  au_action :: string
  au_target :: string
  au_detail :: pydict

record session =
  ss_user :: string
  ss_epoch :: int
  ss_at :: int

record console =
  mg_users :: "account list"
  mg_next :: int
  mg_audit :: "audit_line list"
  mg_failures :: "(string \<times> int \<times> rat) list"
  mg_session :: "session option"

record console_cfg =
  cc_scrypt :: "string \<Rightarrow> string \<Rightarrow> int \<Rightarrow> int \<Rightarrow> int \<Rightarrow> string option"
  cc_default_password :: string
  cc_min_length :: int
  cc_session_hours :: int
  cc_trust_proxy :: bool
  cc_trusted :: "string \<Rightarrow> bool"
  cc_dummy_hash :: string

record ctx =
  cx_request :: request
  cx_now :: rat
  cx_mono :: rat
  cx_salt :: string

type_synonym 'a act = "(console, 'a) io"

definition db_error :: exn where
  "db_error = OtherError ''DatabaseUnavailable''"

section \<open>The user table\<close>

definition ROLES :: "string list" where
  "ROLES = [''admin'', ''operator'']"

definition SOURCES :: "string list" where
  "SOURCES = [''local'', ''proconnect'']"

definition getUser :: "string \<Rightarrow> console \<Rightarrow> account option" where
  "getUser name w = find (\<lambda>a. ac_username a = str_lower name) (mg_users w)"

definition listUsers :: "console \<Rightarrow> account list" where
  "listUsers w = sort_key (\<lambda>a. (ac_role a, ac_username a)) (mg_users w)"

definition active_admin :: "account \<Rightarrow> bool" where
  "active_admin a = (ac_role a = ''admin'' \<and> ac_enabled a)"

definition countActiveAdmins :: "console \<Rightarrow> nat" where
  "countActiveAdmins w = length (filter active_admin (mg_users w))"

text \<open>The checks of \<open>manager_users\<close>: the form of a name, and a hash exactly for local accounts.\<close>

definition name_char :: "char \<Rightarrow> bool" where
  "name_char c = (is_lower c \<or> is_digit c \<or> c \<in> set ''._+@-'')"

definition db_username :: "string \<Rightarrow> bool" where
  "db_username s =
     (case s of [] \<Rightarrow> False
      | c # t \<Rightarrow> (is_lower c \<or> is_digit c) \<and> 1 \<le> length t \<and> length t \<le> 63 \<and> (\<forall>d \<in> set t. name_char d))"

definition account_fits :: "account \<Rightarrow> bool" where
  "account_fits a =
     (db_username (ac_username a) \<and> ac_role a \<in> set ROLES \<and> ac_source a \<in> set SOURCES
      \<and> (ac_source a = ''local'') = (ac_password_hash a \<noteq> None)
      \<and> (ac_source a = ''proconnect'') = (ac_external_id a \<noteq> None))"

text \<open>\<open>_write\<close> of an update: the rows of one name changed, the audit line when one was.\<close>

definition update_row :: "string \<Rightarrow> (account \<Rightarrow> account) \<Rightarrow> audit_line option \<Rightarrow> (console, account option) io" where
  "update_row name f audit w =
     (case getUser name w of
        None \<Rightarrow> (Inr None, w)
      | Some a \<Rightarrow>
          if \<not> account_fits (f a) then (Inl db_error, w)
          else (Inr (Some (f a)),
                w\<lparr>mg_users := map (\<lambda>b. if ac_username b = str_lower name then f b else b) (mg_users w),
                  mg_audit := mg_audit w @ (case audit of None \<Rightarrow> [] | Some l \<Rightarrow> [l])\<rparr>))"

definition createUser :: "string \<Rightarrow> string \<Rightarrow> string \<Rightarrow> string option \<Rightarrow> string \<Rightarrow> bool \<Rightarrow>
    string option \<Rightarrow> string option \<Rightarrow> string option \<Rightarrow> audit_line option \<Rightarrow> rat \<Rightarrow> (console, account) io" where
  "createUser name role source pwHash createdBy mustChange externalId firstName lastName audit now w =
     (let a = \<lparr>ac_id = mg_next w, ac_username = str_lower name, ac_first_name = firstName, ac_last_name = lastName,
               ac_role = role, ac_source = source, ac_external_id = externalId, ac_password_hash = pwHash,
               ac_must_change = mustChange, ac_enabled = True, ac_epoch = 0, ac_created_at = now,
               ac_created_by = createdBy, ac_password_changed_at = None, ac_last_login_at = None, ac_updated_at = now\<rparr>
      in if \<not> account_fits a \<or> getUser name w \<noteq> None
           \<or> externalId \<noteq> None \<and> externalId \<in> ac_external_id ` set (mg_users w)
         then (Inl db_error, w\<lparr>mg_next := mg_next w + 1\<rparr>)
         else (Inr a, w\<lparr>mg_users := mg_users w @ [a], mg_next := mg_next w + 1,
                        mg_audit := mg_audit w @ (case audit of None \<Rightarrow> [] | Some l \<Rightarrow> [l])\<rparr>))"

definition setPassword :: "string \<Rightarrow> string \<Rightarrow> bool \<Rightarrow> audit_line option \<Rightarrow> rat \<Rightarrow> (console, account option) io" where
  "setPassword name pwHash mustChange audit now =
     update_row name (\<lambda>a. a\<lparr>ac_password_hash := Some pwHash, ac_must_change := mustChange,
        ac_password_changed_at := Some now, ac_updated_at := now, ac_epoch := ac_epoch a + 1\<rparr>) audit"

record changes =
  ch_name :: "(string \<times> string) option"
  ch_role :: "string option"
  ch_enabled :: "bool option"

definition apply_changes :: "changes \<Rightarrow> rat \<Rightarrow> account \<Rightarrow> account" where
  "apply_changes ch now a =
     a\<lparr>ac_first_name := (case ch_name ch of None \<Rightarrow> ac_first_name a | Some (f, _) \<Rightarrow> Some f),
       ac_last_name := (case ch_name ch of None \<Rightarrow> ac_last_name a | Some (_, l) \<Rightarrow> Some l),
       ac_role := (case ch_role ch of None \<Rightarrow> ac_role a | Some r \<Rightarrow> r),
       ac_enabled := (case ch_enabled ch of None \<Rightarrow> ac_enabled a | Some e \<Rightarrow> e),
       ac_epoch := (if ch_role ch \<noteq> None \<or> ch_enabled ch \<noteq> None then ac_epoch a + 1 else ac_epoch a),
       ac_updated_at := now\<rparr>"

definition no_changes :: "changes \<Rightarrow> bool" where
  "no_changes ch = (ch_name ch = None \<and> ch_role ch = None \<and> ch_enabled ch = None)"

definition updateAccount :: "string \<Rightarrow> changes \<Rightarrow> audit_line option \<Rightarrow> rat \<Rightarrow> (console, account option) io" where
  "updateAccount name ch audit now =
     (if no_changes ch then read_io (getUser name) else update_row name (apply_changes ch now) audit)"

definition bumpEpoch :: "string \<Rightarrow> (console, unit) io" where
  "bumpEpoch name =
     modify_io (\<lambda>w. w\<lparr>mg_users := map (\<lambda>a. if ac_username a = str_lower name then a\<lparr>ac_epoch := ac_epoch a + 1\<rparr> else a)
       (mg_users w)\<rparr>)"

definition touchLogin :: "string \<Rightarrow> rat \<Rightarrow> (console, unit) io" where
  "touchLogin name now =
     modify_io (\<lambda>w. w\<lparr>mg_users := map (\<lambda>a. if ac_username a = str_lower name then a\<lparr>ac_last_login_at := Some now\<rparr> else a)
       (mg_users w)\<rparr>)"

definition deleteRow :: "string \<Rightarrow> audit_line option \<Rightarrow> (console, bool) io" where
  "deleteRow name audit w =
     (if getUser name w = None then (Inr False, w)
      else (Inr True, w\<lparr>mg_users := filter (\<lambda>a. ac_username a \<noteq> str_lower name) (mg_users w),
                        mg_audit := mg_audit w @ (case audit of None \<Rightarrow> [] | Some l \<Rightarrow> [l])\<rparr>))"

section \<open>Passwords\<close>

definition scrypt_n :: int where "scrypt_n = 16384"
definition scrypt_r :: int where "scrypt_r = 8"
definition scrypt_p :: int where "scrypt_p = 1"

definition hashPassword :: "console_cfg \<Rightarrow> string \<Rightarrow> string \<Rightarrow> exn + string" where
  "hashPassword cfg salt password =
     (case cc_scrypt cfg password salt scrypt_n scrypt_r scrypt_p of
        None \<Rightarrow> Inl (ValueError ''scrypt'')
      | Some digest \<Rightarrow> Inr (str_join ''$'' [''scrypt'', int_str scrypt_n, int_str scrypt_r, int_str scrypt_p,
                                       b64encode salt, b64encode digest]))"

definition checkPassword :: "console_cfg \<Rightarrow> string \<Rightarrow> string option \<Rightarrow> exn + bool" where
  "checkPassword cfg password stored =
     (case str_split ''$'' (case stored of None \<Rightarrow> [] | Some s \<Rightarrow> s) of
        [scheme, n, r, p, salt, digest] \<Rightarrow>
          if scheme \<noteq> ''scrypt'' then Inr False
          else (case (py_int_str n, py_int_str r, py_int_str p, b64decode salt) of
                  (Some n', Some r', Some p', Some salt') \<Rightarrow>
                    (case cc_scrypt cfg password salt' n' r' p' of
                       None \<Rightarrow> Inr False
                     | Some candidate \<Rightarrow>
                         (case b64decode digest of
                            None \<Rightarrow> Inl (ValueError ''Incorrect padding'')
                          | Some d \<Rightarrow> Inr (candidate = d)))
                | _ \<Rightarrow> Inr False)
      | _ \<Rightarrow> Inr False)"

definition passwordProblem :: "console_cfg \<Rightarrow> string \<Rightarrow> string \<Rightarrow> string option \<Rightarrow> string option" where
  "passwordProblem cfg password username current =
     (if int (length password) < cc_min_length cfg
      then Some (''password must be at least '' @ int_str (cc_min_length cfg) @ '' characters'')
      else if 256 < length password then Some ''password must be at most 256 characters''
      else if str_lower password = str_lower username then Some ''password must differ from the username''
      else if password = cc_default_password cfg then Some ''password must differ from the default password''
      else if current = Some password then Some ''new password must differ from the current one''
      else None)"

section \<open>The throttle\<close>

definition maxFailures :: int where "maxFailures = 5"
definition lockSeconds :: rat where "lockSeconds = 60"

definition clientIp :: "console_cfg \<Rightarrow> ctx \<Rightarrow> string" where
  "clientIp cfg cx =
     (let rq = cx_request cx; peer = (case rq_client rq of Some p \<Rightarrow> p | None \<Rightarrow> ''unknown'');
          forwarded = (case hdr rq ''x-forwarded-for'' of Some h \<Rightarrow> h | None \<Rightarrow> [])
      in if cc_trust_proxy cfg \<and> cc_trusted cfg peer \<and> forwarded \<noteq> []
         then str_or (str_strip (last (str_split '','' forwarded))) ''unknown''
         else peer)"

definition loginThrottled :: "console_cfg \<Rightarrow> ctx \<Rightarrow> (console, bool) io" where
  "loginThrottled cfg cx w =
     (case map_of (mg_failures w) (clientIp cfg cx) of
        None \<Rightarrow> (Inr False, w)
      | Some (count, unlockAt) \<Rightarrow>
          if count < maxFailures then (Inr False, w)
          else if unlockAt \<le> cx_mono cx
          then (Inr False, w\<lparr>mg_failures := AList.delete (clientIp cfg cx) (mg_failures w)\<rparr>)
          else (Inr True, w))"

definition recordLoginFailure :: "console_cfg \<Rightarrow> ctx \<Rightarrow> (console, unit) io" where
  "recordLoginFailure cfg cx =
     modify_io (\<lambda>w.
       let live = filter (\<lambda>(_, _, unlockAt). cx_mono cx < unlockAt) (mg_failures w);
           count = (case map_of live (clientIp cfg cx) of None \<Rightarrow> 0 | Some (n, _) \<Rightarrow> n)
       in w\<lparr>mg_failures := AList.update (clientIp cfg cx) (count + 1, cx_mono cx + lockSeconds) live\<rparr>)"

definition clearLoginFailures :: "console_cfg \<Rightarrow> ctx \<Rightarrow> (console, unit) io" where
  "clearLoginFailures cfg cx = modify_io (\<lambda>w. w\<lparr>mg_failures := AList.delete (clientIp cfg cx) (mg_failures w)\<rparr>)"

section \<open>Sessions\<close>

definition ensureBootstrap :: "console_cfg \<Rightarrow> ctx \<Rightarrow> (console, unit) io" where
  "ensureBootstrap cfg cx w =
     (if mg_users w \<noteq> [] then (Inr (), w)
      else bind_io (lift_io (hashPassword cfg (cx_salt cx) (cc_default_password cfg))) (\<lambda>h.
           bind_io (createUser ''admin'' ''admin'' ''local'' (Some h) ''bootstrap'' True None None None
             (Some \<lparr>au_actor = ''bootstrap'', au_action = ''create'', au_target = ''admin'',
                    au_detail = [(''role'', PStr ''admin''), (''source'', PStr ''local'')]\<rparr>) (cx_now cx))
             (\<lambda>_. ret_io ())) w)"

definition authenticate :: "console_cfg \<Rightarrow> ctx \<Rightarrow> string \<Rightarrow> string \<Rightarrow> (console, account option) io" where
  "authenticate cfg cx username password =
     bind_io (ensureBootstrap cfg cx) (\<lambda>_.
     bind_io (read_io (getUser username)) (\<lambda>acc.
       let usable = (case acc of None \<Rightarrow> False | Some a \<Rightarrow> ac_enabled a \<and> ac_source a = ''local'')
       in bind_io (lift_io (checkPassword cfg password
                    (if usable then ac_password_hash (the acc) else Some (cc_dummy_hash cfg)))) (\<lambda>ok.
            ret_io (if usable \<and> ok then acc else None))))"

definition openSession :: "ctx \<Rightarrow> account \<Rightarrow> (console, unit) io" where
  "openSession cx a =
     modify_io (\<lambda>w. w\<lparr>mg_session := Some \<lparr>ss_user = ac_username a, ss_epoch = ac_epoch a, ss_at = \<lfloor>cx_now cx\<rfloor>\<rparr>\<rparr>)"

definition closeSession :: "(console, unit) io" where
  "closeSession w =
     (case mg_session w of
        None \<Rightarrow> (Inr (), w)
      | Some s \<Rightarrow> if ss_user s = [] then (Inr (), w\<lparr>mg_session := None\<rparr>)
                  else bumpEpoch (ss_user s) (w\<lparr>mg_session := None\<rparr>))"

definition sessionAccount :: "console_cfg \<Rightarrow> ctx \<Rightarrow> (console, account option) io" where
  "sessionAccount cfg cx w =
     (case mg_session w of
        None \<Rightarrow> (Inr None, w)
      | Some s \<Rightarrow>
          if ss_user s = [] then (Inr None, w)
          else if of_int (cc_session_hours cfg * 3600) < cx_now cx - of_int (ss_at s) then (Inr None, w\<lparr>mg_session := None\<rparr>)
          else (case getUser (ss_user s) w of
                  Some a \<Rightarrow> if ac_enabled a \<and> ac_epoch a = ss_epoch s then (Inr (Some a), w)
                            else (Inr None, w\<lparr>mg_session := None\<rparr>)
                | None \<Rightarrow> (Inr None, w\<lparr>mg_session := None\<rparr>)))"

definition requireSession :: "console_cfg \<Rightarrow> ctx \<Rightarrow> (console, account) io" where
  "requireSession cfg cx =
     bind_io (sessionAccount cfg cx) (\<lambda>acc.
       case acc of None \<Rightarrow> raise_io (HTTPException 401 ''Authentication required'') | Some a \<Rightarrow> ret_io a)"

definition requireUser :: "console_cfg \<Rightarrow> ctx \<Rightarrow> (console, account) io" where
  "requireUser cfg cx =
     bind_io (requireSession cfg cx) (\<lambda>a.
       if ac_must_change a then raise_io (HTTPException 403 ''password change required'') else ret_io a)"

definition requireAdmin :: "console_cfg \<Rightarrow> ctx \<Rightarrow> (console, account) io" where
  "requireAdmin cfg cx =
     bind_io (requireUser cfg cx) (\<lambda>a.
       if ac_role a \<noteq> ''admin'' then raise_io (HTTPException 403 ''Administrator role required'') else ret_io a)"

end
