(* ===== verification/Account_Routes.thy ===== *)
theory Account_Routes
  imports Accounts
begin

text \<open>
  The routes on accounts (\<open>manager/api/users.py\<close>) and the sign-in routes (\<open>manager/app.py\<close>). Where a
  route checks before it writes, the two parts are definitions of their own (\<open>update_plan\<close>,
  \<open>update_write\<close>, \<open>delete_plan\<close>, \<open>delete_write\<close>) and the route is their sequence.
\<close>

section \<open>What the front sees\<close>

record public_account =
  pa_username :: string
  pa_first_name :: "string option"
  pa_last_name :: "string option"
  pa_role :: string
  pa_source :: string
  pa_enabled :: bool
  pa_must_change :: bool
  pa_created_at :: rat
  pa_password_changed_at :: "rat option"
  pa_last_login_at :: "rat option"

definition public_of :: "account \<Rightarrow> public_account" where
  "public_of a =
     \<lparr>pa_username = ac_username a, pa_first_name = ac_first_name a, pa_last_name = ac_last_name a,
      pa_role = ac_role a, pa_source = ac_source a, pa_enabled = ac_enabled a, pa_must_change = ac_must_change a,
      pa_created_at = ac_created_at a, pa_password_changed_at = ac_password_changed_at a,
      pa_last_login_at = ac_last_login_at a\<rparr>"

text \<open>\<open>^[a-z0-9][a-z0-9._+-]{0,62}@[a-z0-9-]+(\.[a-z0-9-]+)+$\<close>.\<close>

definition local_char :: "char \<Rightarrow> bool" where
  "local_char c = (is_lower c \<or> is_digit c \<or> c \<in> set ''._+-'')"

definition label_ok :: "string \<Rightarrow> bool" where
  "label_ok l = (l \<noteq> [] \<and> (\<forall>c \<in> set l. is_lower c \<or> is_digit c \<or> c = CHR ''-''))"

definition EMAIL :: "string \<Rightarrow> bool" where
  "EMAIL s =
     (case split1 ''@'' s of
        Some (c # t, domn) \<Rightarrow>
          (is_lower c \<or> is_digit c) \<and> length t \<le> 62 \<and> (\<forall>d \<in> set t. local_char d)
          \<and> 2 \<le> length (str_split ''.'' domn) \<and> (\<forall>l \<in> set (str_split ''.'' domn). label_ok l)
      | _ \<Rightarrow> False)"

definition cleanName :: "string option \<Rightarrow> string \<Rightarrow> exn + string" where
  "cleanName v what =
     (let t = str_strip (case v of None \<Rightarrow> [] | Some s \<Rightarrow> s) in
      if t = [] \<or> 80 < length t then Inl (HTTPException 400 (what @ '' is required (80 characters at most)''))
      else Inr t)"

definition no_problem :: "string option \<Rightarrow> ('w, unit) io" where
  "no_problem p = (case p of None \<Rightarrow> ret_io () | Some m \<Rightarrow> raise_io (HTTPException 400 m))"

section \<open>One's own password\<close>

record password_change =
  pc_current :: string
  pc_new :: string
  pc_confirm :: string

definition too_many :: exn where
  "too_many = HTTPException 429 ''Too many attempts, retry in a minute''"

definition changeOwnPassword :: "console_cfg \<Rightarrow> ctx \<Rightarrow> password_change \<Rightarrow> (console, unit) io" where
  "changeOwnPassword cfg cx body =
     bind_io (requireSession cfg cx) (\<lambda>a.
     bind_io (loginThrottled cfg cx) (\<lambda>thr.
     bind_io (demand (\<not> thr) too_many) (\<lambda>_.
     bind_io (demand (ac_source a = ''local'') (HTTPException 400 ''this account signs in through the identity provider'')) (\<lambda>_.
     bind_io (lift_io (checkPassword cfg (pc_current body) (ac_password_hash a))) (\<lambda>ok.
     if \<not> ok then bind_io (recordLoginFailure cfg cx) (\<lambda>_. raise_io (HTTPException 403 ''current password is wrong''))
     else
     bind_io (demand (pc_new body = pc_confirm body) (HTTPException 400 ''the two new passwords differ'')) (\<lambda>_.
     bind_io (no_problem (passwordProblem cfg (pc_new body) (ac_username a) (Some (pc_current body)))) (\<lambda>_.
     bind_io (lift_io (hashPassword cfg (cx_salt cx) (pc_new body))) (\<lambda>h.
     bind_io (setPassword (ac_username a) h False
       (Some \<lparr>au_actor = ac_username a, au_action = ''password.change'', au_target = ac_username a,
              au_detail = [(''ip'', PStr (clientIp cfg cx))]\<rparr>) (cx_now cx)) (\<lambda>updated.
     case updated of
       None \<Rightarrow> raise_io (TypeError ''NoneType'')
     | Some b \<Rightarrow> openSession cx b)))))))))"

section \<open>Administration\<close>

definition readUsers :: "console_cfg \<Rightarrow> ctx \<Rightarrow> (console, public_account list) io" where
  "readUsers cfg cx = bind_io (requireAdmin cfg cx) (\<lambda>_. bind_io (read_io listUsers) (\<lambda>us. ret_io (map public_of us)))"

record new_user =
  nu_username :: string
  nu_first_name :: string
  nu_last_name :: string
  nu_role :: string
  nu_source :: string
  nu_password :: "string option"

definition one_of_text :: "string \<Rightarrow> string list \<Rightarrow> string" where
  "one_of_text what xs = what @ '' must be one of '' @ str_join '', '' xs"

definition create_route :: "console_cfg \<Rightarrow> ctx \<Rightarrow> new_user \<Rightarrow> (console, public_account) io" where
  "create_route cfg cx body =
     bind_io (requireAdmin cfg cx) (\<lambda>user.
     let name = str_lower (str_strip (nu_username body)); pw = (case nu_password body of None \<Rightarrow> [] | Some p \<Rightarrow> p) in
     bind_io (demand (EMAIL name) (HTTPException 400 ''username must be an e-mail address'')) (\<lambda>_.
     bind_io (lift_io (cleanName (Some (nu_first_name body)) ''first name'')) (\<lambda>firstName.
     bind_io (lift_io (cleanName (Some (nu_last_name body)) ''last name'')) (\<lambda>lastName.
     bind_io (demand (nu_role body \<in> set ROLES) (HTTPException 400 (one_of_text ''role'' ROLES))) (\<lambda>_.
     bind_io (demand (nu_source body \<in> set SOURCES) (HTTPException 400 (one_of_text ''source'' SOURCES))) (\<lambda>_.
     bind_io (demand (nu_source body = ''local'') (HTTPException 400 ''ProConnect accounts arrive with the SSO integration'')) (\<lambda>_.
     bind_io (no_problem (passwordProblem cfg pw name None)) (\<lambda>_.
     bind_io (read_io (getUser name)) (\<lambda>existing.
     bind_io (demand (existing = None) (HTTPException 409 ''this username already exists'')) (\<lambda>_.
     bind_io (lift_io (hashPassword cfg (cx_salt cx) pw)) (\<lambda>h.
     bind_io (createUser name (nu_role body) (nu_source body) (Some h) (ac_username user) True None (Some firstName) (Some lastName)
       (Some \<lparr>au_actor = ac_username user, au_action = ''create'', au_target = name,
              au_detail = [(''role'', PStr (nu_role body)), (''source'', PStr (nu_source body)),
                           (''name'', PStr (firstName @ '' '' @ lastName))]\<rparr>) (cx_now cx)) (\<lambda>created.
     ret_io (public_of created)))))))))))))"

definition no_such_user :: exn where
  "no_such_user = HTTPException 404 ''no such user''"

definition target :: "string \<Rightarrow> (console, account) io" where
  "target name = bind_io (read_io (getUser name)) (\<lambda>acc. case acc of None \<Rightarrow> raise_io no_such_user | Some a \<Rightarrow> ret_io a)"

definition lastAdmin :: "account \<Rightarrow> (console, bool) io" where
  "lastAdmin a = read_io (\<lambda>w. active_admin a \<and> countActiveAdmins w \<le> 1)"

record user_patch =
  up_role :: "string option"
  up_enabled :: "bool option"
  up_first_name :: "string option"
  up_last_name :: "string option"

definition new_name :: "account \<Rightarrow> user_patch \<Rightarrow> exn + (string \<times> string) option" where
  "new_name a body =
     (if up_first_name body = None \<and> up_last_name body = None then Inr None
      else bindE (cleanName (case up_first_name body of None \<Rightarrow> ac_first_name a | f \<Rightarrow> f) ''first name'') (\<lambda>f.
           bindE (cleanName (case up_last_name body of None \<Rightarrow> ac_last_name a | l \<Rightarrow> l) ''last name'') (\<lambda>l.
             Inr (if (Some f, Some l) \<noteq> (ac_first_name a, ac_last_name a) then Some (f, l) else None))))"

definition new_role :: "string \<Rightarrow> account \<Rightarrow> user_patch \<Rightarrow> (console, string option) io" where
  "new_role user a body =
     (case up_role body of
        None \<Rightarrow> ret_io None
      | Some r \<Rightarrow>
          if r = ac_role a then ret_io None
          else bind_io (demand (r \<in> set ROLES) (HTTPException 400 (one_of_text ''role'' ROLES))) (\<lambda>_.
               bind_io (demand (ac_username a \<noteq> user) (HTTPException 409 ''an account cannot change its own role'')) (\<lambda>_.
               bind_io (lastAdmin a) (\<lambda>last.
               bind_io (demand (\<not> last) (HTTPException 409 ''the last administrator cannot be demoted'')) (\<lambda>_.
               ret_io (Some r))))))"

definition new_enabled :: "string \<Rightarrow> account \<Rightarrow> user_patch \<Rightarrow> (console, bool option) io" where
  "new_enabled user a body =
     (case up_enabled body of
        None \<Rightarrow> ret_io None
      | Some e \<Rightarrow>
          if e = ac_enabled a then ret_io None
          else if e then ret_io (Some True)
          else bind_io (demand (ac_username a \<noteq> user) (HTTPException 409 ''an account cannot disable itself'')) (\<lambda>_.
               bind_io (lastAdmin a) (\<lambda>last.
               bind_io (demand (\<not> last) (HTTPException 409 ''the last administrator cannot be disabled'')) (\<lambda>_.
               ret_io (Some False)))))"

definition update_plan :: "string \<Rightarrow> string \<Rightarrow> user_patch \<Rightarrow> (console, account \<times> changes) io" where
  "update_plan user name body =
     bind_io (target name) (\<lambda>a.
     bind_io (lift_io (new_name a body)) (\<lambda>n.
     bind_io (new_role user a body) (\<lambda>r.
     bind_io (new_enabled user a body) (\<lambda>e.
     ret_io (a, \<lparr>ch_name = n, ch_role = r, ch_enabled = e\<rparr>)))))"

definition changes_detail :: "changes \<Rightarrow> pydict" where
  "changes_detail ch =
     (case ch_name ch of None \<Rightarrow> [] | Some (f, l) \<Rightarrow> [(''name'', PStr (f @ '' '' @ l))])
     @ (case ch_role ch of None \<Rightarrow> [] | Some r \<Rightarrow> [(''role'', PStr r)])
     @ (case ch_enabled ch of None \<Rightarrow> [] | Some e \<Rightarrow> [(''enabled'', PBool e)])"

definition update_write :: "string \<Rightarrow> account \<times> changes \<Rightarrow> rat \<Rightarrow> (console, public_account) io" where
  "update_write user plan now =
     (case plan of (a, ch) \<Rightarrow>
        if no_changes ch then ret_io (public_of a)
        else bind_io (updateAccount (ac_username a) ch
               (Some \<lparr>au_actor = user, au_action = ''update'', au_target = ac_username a, au_detail = changes_detail ch\<rparr>) now)
               (\<lambda>updated. case updated of None \<Rightarrow> raise_io no_such_user | Some b \<Rightarrow> ret_io (public_of b)))"

definition updateUser :: "console_cfg \<Rightarrow> ctx \<Rightarrow> string \<Rightarrow> user_patch \<Rightarrow> (console, public_account) io" where
  "updateUser cfg cx name body =
     bind_io (requireAdmin cfg cx) (\<lambda>user.
     bind_io (update_plan (ac_username user) name body) (\<lambda>plan. update_write (ac_username user) plan (cx_now cx)))"

definition resetPassword :: "console_cfg \<Rightarrow> ctx \<Rightarrow> string \<Rightarrow> string \<Rightarrow> (console, public_account) io" where
  "resetPassword cfg cx name password =
     bind_io (requireAdmin cfg cx) (\<lambda>user.
     bind_io (target name) (\<lambda>a.
     bind_io (demand (ac_source a = ''local'') (HTTPException 400 ''this account has no local password'')) (\<lambda>_.
     bind_io (no_problem (passwordProblem cfg password (ac_username a) None)) (\<lambda>_.
     bind_io (lift_io (hashPassword cfg (cx_salt cx) password)) (\<lambda>h.
     bind_io (setPassword (ac_username a) h True
       (Some \<lparr>au_actor = ac_username user, au_action = ''password.reset'', au_target = ac_username a, au_detail = []\<rparr>)
       (cx_now cx)) (\<lambda>updated.
     case updated of
       None \<Rightarrow> raise_io (TypeError ''NoneType'')
     | Some b \<Rightarrow> bind_io (if ac_username a = ac_username user then openSession cx b else ret_io ())
                   (\<lambda>_. ret_io (public_of b))))))))"

definition delete_plan :: "string \<Rightarrow> string \<Rightarrow> (console, account) io" where
  "delete_plan user name =
     bind_io (target name) (\<lambda>a.
     bind_io (demand (ac_username a \<noteq> user) (HTTPException 409 ''an account cannot delete itself'')) (\<lambda>_.
     bind_io (lastAdmin a) (\<lambda>last.
     bind_io (demand (\<not> last) (HTTPException 409 ''the last administrator cannot be deleted'')) (\<lambda>_. ret_io a))))"

definition delete_write :: "string \<Rightarrow> account \<Rightarrow> (console, unit) io" where
  "delete_write user a =
     bind_io (deleteRow (ac_username a)
       (Some \<lparr>au_actor = user, au_action = ''delete'', au_target = ac_username a,
              au_detail = [(''role'', PStr (ac_role a)), (''source'', PStr (ac_source a))]\<rparr>)) (\<lambda>_. ret_io ())"

definition deleteUser :: "console_cfg \<Rightarrow> ctx \<Rightarrow> string \<Rightarrow> (console, unit) io" where
  "deleteUser cfg cx name =
     bind_io (requireAdmin cfg cx) (\<lambda>user.
     bind_io (delete_plan (ac_username user) name) (\<lambda>a. delete_write (ac_username user) a))"

section \<open>Signing in and out\<close>

definition is_json_type :: "request \<Rightarrow> bool" where
  "is_json_type rq =
     (str_lower (str_strip (hd (str_split '';'' (case hdr rq ''content-type'' of Some h \<Rightarrow> h | None \<Rightarrow> [])))) = ''application/json'')"

text \<open>What \<open>/auth/login\<close> reads of its body.\<close>

definition credentials :: "request \<Rightarrow> exn + (string \<times> string)" where
  "credentials rq =
     bindE (case rq_body rq of Inr v \<Rightarrow> Inr v | Inl (ValueError _) \<Rightarrow> Inr (PDict []) | Inl e \<Rightarrow> Inl e) (\<lambda>v.
       let body = (case v of PDict d \<Rightarrow> d | _ \<Rightarrow> []);
           user = py_or (dget_def_val body ''username'' (PStr [])) (PStr ''admin'');
           pw = dget_def_val body ''password'' (PStr [])
       in Inr (str_strip (py_str user), (case pw of PStr p \<Rightarrow> p | _ \<Rightarrow> [])))"

record signed_in =
  si_user :: string
  si_role :: string
  si_source :: string
  si_must_change :: bool
  si_min_length :: int

definition login :: "console_cfg \<Rightarrow> ctx \<Rightarrow> (console, signed_in) io" where
  "login cfg cx =
     bind_io (loginThrottled cfg cx) (\<lambda>thr.
     bind_io (demand (\<not> thr) too_many) (\<lambda>_.
     bind_io (demand (is_json_type (cx_request cx)) (HTTPException 415 ''Expected application/json'')) (\<lambda>_.
     bind_io (lift_io (credentials (cx_request cx))) (\<lambda>(username, password).
     bind_io (authenticate cfg cx username password) (\<lambda>acc.
     case acc of
       None \<Rightarrow> bind_io (recordLoginFailure cfg cx) (\<lambda>_. raise_io (HTTPException 401 ''Invalid username or password''))
     | Some a \<Rightarrow>
         bind_io (clearLoginFailures cfg cx) (\<lambda>_.
         bind_io (openSession cx a) (\<lambda>_.
         bind_io (touchLogin (ac_username a) (cx_now cx)) (\<lambda>_.
         ret_io \<lparr>si_user = ac_username a, si_role = ac_role a, si_source = ac_source a,
                 si_must_change = ac_must_change a, si_min_length = cc_min_length cfg\<rparr>))))))))"

definition logout :: "(console, unit) io" where
  "logout = closeSession"

definition me :: "console_cfg \<Rightarrow> ctx \<Rightarrow> (console, account option) io" where
  "me cfg cx = sessionAccount cfg cx"

end
