(* ===== verification/Account_Props.thy ===== *)
theory Account_Props
  imports Account_Routes
begin

text \<open>
  The properties of the console's accounts, over any sequence of requests (\<open>served\<close>): a way in
  remains, no change goes without its audit line, an ended session stays ended. Each rests on a
  preorder that every step of every route keeps.
\<close>

section \<open>Requests\<close>

datatype console_call =
    Login
  | Logout
  | Me
  | ChangeOwn password_change
  | ReadUsers
  | Create new_user
  | Update string user_patch
  | Reset string string
  | Delete string

definition done_io :: "('w, 'a) io \<Rightarrow> ('w, unit) io" where
  "done_io m = bind_io m (\<lambda>_. ret_io ())"

fun handle :: "console_cfg \<Rightarrow> ctx \<Rightarrow> console_call \<Rightarrow> (console, unit) io" where
  "handle cfg cx Login = done_io (login cfg cx)"
| "handle cfg cx Logout = logout"
| "handle cfg cx Me = done_io (me cfg cx)"
| "handle cfg cx (ChangeOwn body) = changeOwnPassword cfg cx body"
| "handle cfg cx ReadUsers = done_io (readUsers cfg cx)"
| "handle cfg cx (Create body) = done_io (create_route cfg cx body)"
| "handle cfg cx (Update name body) = done_io (updateUser cfg cx name body)"
| "handle cfg cx (Reset name pw) = done_io (resetPassword cfg cx name pw)"
| "handle cfg cx (Delete name) = deleteUser cfg cx name"

text \<open>A request comes with the session of its own browser.\<close>

inductive serves :: "console_cfg \<Rightarrow> console \<Rightarrow> console \<Rightarrow> bool" for cfg where
  serves: "serves cfg w (snd (handle cfg cx call (w\<lparr>mg_session := s\<rparr>)))"

inductive served :: "console_cfg \<Rightarrow> console \<Rightarrow> console \<Rightarrow> bool" for cfg where
  served_refl: "served cfg w w"
| served_step: "served cfg u v \<Longrightarrow> serves cfg v w \<Longrightarrow> served cfg u w"

inductive_cases servesE: "serves cfg v w"

section \<open>Steps\<close>

text \<open>A preorder on consoles that does not look at the throttle or at the browser's session is kept by
  every check; one that the writes of the user table keep is kept by every request.\<close>

locale console_order = world_order R for R :: "console \<Rightarrow> console \<Rightarrow> bool" +
  assumes volatile: "R w (w\<lparr>mg_failures := fs, mg_session := s\<rparr>)"
begin

lemma keep_session: "R w (w\<lparr>mg_session := s\<rparr>)"
  using volatile [where w = w and fs = "mg_failures w" and s = s] by simp

lemma keep_failures: "R w (w\<lparr>mg_failures := fs\<rparr>)"
  using volatile [where w = w and fs = fs and s = "mg_session w"] by simp

lemma steps_sessionAccount: "steps R (sessionAccount cfg cx)"
  by (auto simp: steps_def sessionAccount_def refl keep_session split: option.split)

lemma steps_throttle: "steps R (loginThrottled cfg cx)" "steps R (recordLoginFailure cfg cx)"
    "steps R (clearLoginFailures cfg cx)" "steps R (openSession cx a)"
  by (auto simp: steps_def loginThrottled_def recordLoginFailure_def clearLoginFailures_def openSession_def Let_def
      refl keep_session keep_failures split: option.split prod.split)

lemma steps_no_problem: "steps R (no_problem p)"
  by (cases p) (simp_all add: no_problem_def steps_ret steps_raise)

lemmas console_rules = steps_rules steps_sessionAccount steps_throttle steps_no_problem

lemma steps_requireAdmin: "steps R (requireSession cfg cx)" "steps R (requireUser cfg cx)" "steps R (requireAdmin cfg cx)"
  unfolding requireAdmin_def requireUser_def requireSession_def by (intro console_rules)+

lemma steps_plans: "steps R (update_plan user name body)" "steps R (delete_plan user name)" "steps R (target name)"
  unfolding update_plan_def delete_plan_def target_def new_role_def new_enabled_def lastAdmin_def
  by (intro console_rules)+

end

locale account_order = console_order R for R :: "console \<Rightarrow> console \<Rightarrow> bool" +
  assumes password: "steps R (setPassword name h must (Some l) now)"
    and update: "steps R (updateAccount name ch (Some l) now)"
    and create: "steps R (createUser name role source ho maker must ext n1 n2 (Some l) now)"
    and delete: "steps R (deleteRow name (Some l))"
    and bump: "steps R (bumpEpoch name)"
    and touch: "steps R (touchLogin name now)"
begin

lemma steps_closeSession: "steps R closeSession"
proof -
  have "R w (snd (bumpEpoch u (w\<lparr>mg_session := None\<rparr>)))" for w u
    using bump [of u] trans keep_session unfolding steps_def by blast
  then show ?thesis by (auto simp: steps_def closeSession_def refl keep_session split: option.split)
qed

lemma steps_bootstrap: "steps R (ensureBootstrap cfg cx)"
proof -
  have "steps R (bind_io (lift_io (hashPassword cfg (cx_salt cx) (cc_default_password cfg))) (\<lambda>h.
      bind_io (createUser ''admin'' ''admin'' ''local'' (Some h) ''bootstrap'' True None None None (Some l) (cx_now cx)) (\<lambda>_. ret_io ())))" for l
    by (intro steps_rules create)
  then show ?thesis by (simp add: steps_def ensureBootstrap_def refl)
qed

lemmas account_rules = console_rules steps_requireAdmin steps_plans steps_closeSession steps_bootstrap
  password update create delete bump touch

lemma steps_writes: "steps R (update_write user plan now)" "steps R (delete_write user a)"
  unfolding update_write_def delete_write_def by (intro account_rules)+

lemma steps_handle: "steps R (handle cfg cx call)"
  by (cases call)
     (simp_all add: done_io_def login_def logout_def me_def changeOwnPassword_def readUsers_def create_route_def
       updateUser_def resetPassword_def deleteUser_def authenticate_def Let_def,
      (intro account_rules steps_writes)+)

lemma serves_R: "serves cfg v w \<Longrightarrow> R v w"
  using steps_handle [unfolded steps_def] keep_session trans by (elim servesE) blast

lemma served_R: "served cfg u w \<Longrightarrow> R u w"
  by (induction rule: served.induct) (auto intro: refl trans serves_R)

end

subsection \<open>Rows keep their identifier and name, and their epoch never goes back\<close>

text \<open>What a session stands for: the role, the state and the password. They change with the epoch only.\<close>

definition rights :: "account \<Rightarrow> string \<times> bool \<times> string option" where
  "rights a = (ac_role a, ac_enabled a, ac_password_hash a)"

definition aged :: "account \<Rightarrow> account \<Rightarrow> bool" where
  "aged a b =
     (ac_id a = ac_id b \<and> ac_username a = ac_username b \<and> ac_epoch a \<le> ac_epoch b \<and> (rights a \<noteq> rights b \<longrightarrow> ac_epoch a < ac_epoch b))"

lemma aged_refl [simp]: "aged a a"
  by (simp add: aged_def)

lemma aged_trans: "aged a b \<Longrightarrow> aged b c \<Longrightarrow> aged a c"
  by (auto simp: aged_def)

lemma aged_id: "aged a b \<Longrightarrow> ac_id a = ac_id b"
  by (simp add: aged_def)

definition older :: "console \<Rightarrow> console \<Rightarrow> bool" where
  "older w w' =
     (mg_next w \<le> mg_next w' \<and>
      (\<forall>b \<in> set (mg_users w'). mg_next w \<le> ac_id b \<or> (\<exists>a \<in> set (mg_users w). aged a b)))"

lemma older_refl: "older w w"
  by (force simp: older_def)

lemma older_users:
  assumes "mg_next w' = mg_next w"
    and "\<And>b. b \<in> set (mg_users w') \<Longrightarrow> \<exists>a \<in> set (mg_users w). aged a b"
  shows "older w w'"
  using assms by (auto simp: older_def)

lemma older_map:
  assumes "\<And>a. aged a (f a)"
  shows "older w (w\<lparr>mg_users := map (\<lambda>b. if P b then f b else b) (mg_users w), mg_audit := l\<rparr>)"
  using assms by (intro older_users) force+

lemma older_update_row:
  assumes "\<And>a. aged a (f a)"
  shows "steps older (update_row name f (Some l))"
  unfolding steps_def update_row_def using older_map [of f, OF assms] by (auto simp: older_refl split: option.split)

interpretation older: account_order older
proof
  show "older w w" for w by (rule older_refl)
  show "older u w" if uv: "older u v" and vw: "older v w" for u v w
    unfolding older_def
  proof (intro conjI ballI)
    show "mg_next u \<le> mg_next w" using uv vw by (simp add: older_def)
    fix c assume "c \<in> set (mg_users w)"
    then consider "mg_next v \<le> ac_id c" | b where "b \<in> set (mg_users v)" "aged b c"
      using vw by (auto simp: older_def)
    then show "mg_next u \<le> ac_id c \<or> (\<exists>a \<in> set (mg_users u). aged a c)"
    proof cases
      case 1
      then show ?thesis using uv by (simp add: older_def)
    next
      case 2
      then have "mg_next u \<le> ac_id b \<or> (\<exists>a \<in> set (mg_users u). aged a b)" using uv by (simp add: older_def)
      then show ?thesis using aged_id [OF 2(2)] aged_trans [OF _ 2(2)] by auto
    qed
  qed
  show "steps older (setPassword name h must (Some l) now)" for name h must l now
    unfolding setPassword_def by (rule older_update_row) (simp add: aged_def)
  have "steps older (read_io (getUser name))" for name by (simp add: steps_def older_refl)
  then show "steps older (updateAccount name ch (Some l) now)" for name ch l now
    unfolding updateAccount_def by (auto intro!: older_update_row simp: apply_changes_def aged_def rights_def)
  show "steps older (createUser name role source ho maker must ext n1 n2 (Some l) now)" for name role source ho maker must ext n1 n2 l now
    by (auto simp: steps_def createUser_def Let_def older_def) (use aged_refl in blast)+
  show "steps older (deleteRow name (Some l))" for name l
    by (auto simp: steps_def deleteRow_def older_refl intro!: older_users) (use aged_refl in blast)
  show "steps older (bumpEpoch name)" for name
    by (force simp: steps_def bumpEpoch_def aged_def rights_def intro!: older_users)
  show "steps older (touchLogin name now)" for name now
    by (force simp: steps_def touchLogin_def aged_def rights_def intro!: older_users)
  show "older w (w\<lparr>mg_failures := fs, mg_session := s\<rparr>)" for w fs s
    by (force intro!: older_users)
qed

subsection \<open>The table stays well formed\<close>

definition users_wf :: "console \<Rightarrow> bool" where
  "users_wf w =
     (distinct (map ac_id (mg_users w)) \<and> distinct (map ac_username (mg_users w))
      \<and> (\<forall>a \<in> set (mg_users w). ac_id a < mg_next w \<and> str_lower (ac_username a) = ac_username a \<and> account_fits a))"

lemma char_lower_again [simp]: "char_lower (char_lower c) = char_lower c"
  by (auto simp: char_lower_def is_upper_def)

lemma str_lower_again [simp]: "str_lower (str_lower s) = str_lower s"
  by (simp add: str_lower_def)

lemma getUser_Some: "getUser name w = Some a \<Longrightarrow> a \<in> set (mg_users w) \<and> ac_username a = str_lower name"
  by (auto simp: getUser_def find_Some_iff)

lemma getUser_None: "getUser name w = None \<longleftrightarrow> (\<forall>a \<in> set (mg_users w). ac_username a \<noteq> str_lower name)"
  by (auto simp: getUser_def find_None_iff)

lemma same_name: "users_wf w \<Longrightarrow> a \<in> set (mg_users w) \<Longrightarrow> b \<in> set (mg_users w) \<Longrightarrow> ac_username a = ac_username b \<Longrightarrow> a = b"
  unfolding users_wf_def by (meson distinct_map inj_onD)

lemma users_wf_map:
  assumes "users_wf w" and "\<And>a. ac_id (f a) = ac_id a" "\<And>a. ac_username (f a) = ac_username a"
    and "\<And>a. a \<in> set (mg_users w) \<Longrightarrow> account_fits (f a)"
  shows "users_wf (w\<lparr>mg_users := map f (mg_users w), mg_audit := l\<rparr>)"
  using assms by (simp add: users_wf_def comp_def)

lemma users_wf_update_row:
  assumes "\<And>a. ac_id (f a) = ac_id a" "\<And>a. ac_username (f a) = ac_username a"
  shows "steps (\<lambda>w w'. users_wf w \<longrightarrow> users_wf w') (update_row name f (Some l))"
  unfolding steps_def
proof (intro allI impI)
  fix w assume wf: "users_wf w"
  show "users_wf (snd (update_row name f (Some l) w))"
  proof (cases "getUser name w")
    case (Some a)
    let ?g = "\<lambda>b. if ac_username b = str_lower name then f b else b"
    have "account_fits (?g b)" if "account_fits (f a)" "b \<in> set (mg_users w)" for b
      using that same_name [OF wf, of b a] getUser_Some [OF Some] wf unfolding users_wf_def by metis
    then show ?thesis using users_wf_map [OF wf, of ?g] assms wf by (simp add: update_row_def Some)
  qed (use wf in \<open>simp add: update_row_def\<close>)
qed

interpretation wf: account_order "\<lambda>w w'. users_wf w \<longrightarrow> users_wf w'"
proof
  show "users_wf w \<longrightarrow> users_wf w" for w by simp
  show "users_wf u \<longrightarrow> users_wf w" if "users_wf u \<longrightarrow> users_wf v" "users_wf v \<longrightarrow> users_wf w" for u v w
    using that by simp
  show "users_wf w \<longrightarrow> users_wf (w\<lparr>mg_failures := fs, mg_session := s\<rparr>)" for w fs s
    by (simp add: users_wf_def)
  show "steps (\<lambda>w w'. users_wf w \<longrightarrow> users_wf w') (setPassword name h must (Some l) now)" for name h must l now
    unfolding setPassword_def by (rule users_wf_update_row) simp_all
  have "steps (\<lambda>w w'. users_wf w \<longrightarrow> users_wf w') (read_io (getUser name))" for name by (simp add: steps_def)
  then show "steps (\<lambda>w w'. users_wf w \<longrightarrow> users_wf w') (updateAccount name ch (Some l) now)" for name ch l now
    unfolding updateAccount_def by (auto intro!: users_wf_update_row simp: apply_changes_def)
  show "steps (\<lambda>w w'. users_wf w \<longrightarrow> users_wf w') (createUser name role source ho maker must ext n1 n2 (Some l) now)"
    for name role source ho maker must ext n1 n2 l now
    by (fastforce simp: steps_def createUser_def Let_def users_wf_def getUser_None)
  show "steps (\<lambda>w w'. users_wf w \<longrightarrow> users_wf w') (deleteRow name (Some l))" for name l
    by (auto simp: steps_def deleteRow_def users_wf_def distinct_map_filter)
  show "steps (\<lambda>w w'. users_wf w \<longrightarrow> users_wf w') (bumpEpoch name)" for name
    by (auto simp: steps_def bumpEpoch_def users_wf_def comp_def if_distrib account_fits_def cong: if_cong)
  show "steps (\<lambda>w w'. users_wf w \<longrightarrow> users_wf w') (touchLogin name now)" for name now
    by (auto simp: steps_def touchLogin_def users_wf_def comp_def if_distrib account_fits_def cong: if_cong)
qed

subsection \<open>No change without its line\<close>

text \<open>What is administered of an account: everything but the epoch and the last sign-in.\<close>

definition core :: "account \<Rightarrow> account" where
  "core a = a\<lparr>ac_epoch := 0, ac_last_login_at := None\<rparr>"

definition accounted :: "console \<Rightarrow> console \<Rightarrow> bool" where
  "accounted w w' =
     (\<exists>ls. mg_audit w' = mg_audit w @ ls \<and> (ls = [] \<longrightarrow> map core (mg_users w') = map core (mg_users w)))"

lemma accounted_same: "mg_audit w' = mg_audit w \<Longrightarrow> map core (mg_users w') = map core (mg_users w) \<Longrightarrow> accounted w w'"
  by (auto simp: accounted_def)

lemma accounted_line: "mg_audit w' = mg_audit w @ [l] \<Longrightarrow> accounted w w'"
  by (auto simp: accounted_def)

lemma accounted_update_row: "steps accounted (update_row name f (Some l))"
  by (auto simp: steps_def update_row_def intro: accounted_same accounted_line split: option.split)

interpretation accounted: account_order accounted
proof
  show "accounted w w" for w by (simp add: accounted_same)
  show "accounted u w" if "accounted u v" "accounted v w" for u v w
    using that by (auto simp: accounted_def)
  show "steps accounted (setPassword name h must (Some l) now)" for name h must l now
    unfolding setPassword_def by (rule accounted_update_row)
  have "steps accounted (read_io (getUser name))" for name by (simp add: steps_def accounted_same)
  then show "steps accounted (updateAccount name ch (Some l) now)" for name ch l now
    unfolding updateAccount_def by (auto intro!: accounted_update_row)
qed (auto simp: steps_def createUser_def deleteRow_def bumpEpoch_def touchLogin_def Let_def core_def
       intro: accounted_same accounted_line)

text \<open>
  C17. Over any sequence of requests, the audit only grows, and as long as no line is added no
  account is created, deleted or changed in its name, role, state or password.
\<close>
theorem no_change_without_line:
  assumes "served cfg w w'"
  shows "\<exists>ls. mg_audit w' = mg_audit w @ ls \<and> (ls = [] \<longrightarrow> map core (mg_users w') = map core (mg_users w))"
  using accounted.served_R [OF assms] by (simp add: accounted_def)


section \<open>A way in remains\<close>

definition keeps_admin :: "string \<Rightarrow> console \<Rightarrow> bool" where
  "keeps_admin u w = (users_wf w \<and> (\<exists>a \<in> set (mg_users w). ac_username a = u \<and> active_admin a))"

definition way_in :: "console \<Rightarrow> bool" where
  "way_in w = (\<exists>u. keeps_admin u w)"

lemma console_order_of:
  assumes "\<And>w fs s. P w \<Longrightarrow> P (w\<lparr>mg_failures := fs, mg_session := s\<rparr>)"
  shows "console_order (\<lambda>w w'. P w \<longrightarrow> P w')"
  using assms by unfold_locales blast+

lemma volatile_parts [simp]:
  "users_wf (w\<lparr>mg_failures := fs, mg_session := s\<rparr>) = users_wf w"
  by (simp add: users_wf_def)

interpretation adm: console_order "\<lambda>w w'. keeps_admin u w \<longrightarrow> keeps_admin u w'" for u
  by (rule console_order_of) (simp add: keeps_admin_def)

interpretation way: console_order "\<lambda>w w'. way_in w \<longrightarrow> way_in w'"
  by (rule console_order_of) (auto simp: way_in_def keeps_admin_def)

lemma keeps_way_in: "keeps_admin u w \<Longrightarrow> way_in w"
  by (auto simp: way_in_def keeps_admin_def)

lemma adm_map:
  assumes "keeps_admin u w" and "users_wf (w\<lparr>mg_users := map f (mg_users w), mg_audit := l\<rparr>)"
    and "\<And>a. ac_username (f a) = ac_username a" and "\<And>a. ac_username a = u \<Longrightarrow> active_admin a \<Longrightarrow> active_admin (f a)"
  shows "keeps_admin u (w\<lparr>mg_users := map f (mg_users w), mg_audit := l\<rparr>)"
  using assms by (force simp: keeps_admin_def)

lemma adm_update_row:
  assumes "\<And>a. ac_id (f a) = ac_id a" "\<And>a. ac_username (f a) = ac_username a"
    and "str_lower name \<noteq> u \<or> (\<forall>a. active_admin a \<longrightarrow> active_admin (f a))"
  shows "steps (\<lambda>w w'. keeps_admin u w \<longrightarrow> keeps_admin u w') (update_row name f (Some l))"
  unfolding steps_def
proof (intro allI impI)
  fix w assume k: "keeps_admin u w"
  have "users_wf (snd (update_row name f (Some l) w))"
    using users_wf_update_row [of f name l] assms k by (simp add: steps_def keeps_admin_def)
  then show "keeps_admin u (snd (update_row name f (Some l) w))"
    using k assms(2,3)
    by (auto simp: update_row_def intro!: adm_map split: option.splits if_splits)
qed

lemma adm_password: "steps (\<lambda>w w'. keeps_admin u w \<longrightarrow> keeps_admin u w') (setPassword name h must (Some l) now)"
  unfolding setPassword_def by (rule adm_update_row) (simp_all add: active_admin_def)

lemma adm_create: "steps (\<lambda>w w'. keeps_admin u w \<longrightarrow> keeps_admin u w') (createUser name role source ho maker must ext n1 n2 (Some l) now)"
proof -
  have "users_wf (snd (createUser name role source ho maker must ext n1 n2 (Some l) now w))" if "keeps_admin u w" for w
    using wf.create that unfolding steps_def keeps_admin_def by blast
  then show ?thesis by (fastforce simp: steps_def createUser_def Let_def keeps_admin_def)
qed

lemma way_bootstrap: "steps (\<lambda>w w'. way_in w \<longrightarrow> way_in w') (ensureBootstrap cfg cx)"
  by (auto simp: steps_def ensureBootstrap_def way_in_def keeps_admin_def)

lemma way_map:
  assumes "way_in w" and "users_wf (w\<lparr>mg_users := map f (mg_users w), mg_audit := l\<rparr>)"
    and "\<And>a. active_admin a \<Longrightarrow> active_admin (f a)"
  shows "way_in (w\<lparr>mg_users := map f (mg_users w), mg_audit := l\<rparr>)"
  using assms by (fastforce simp: way_in_def keeps_admin_def)

lemma way_password: "steps (\<lambda>w w'. way_in w \<longrightarrow> way_in w') (setPassword name h must (Some l) now)"
  unfolding steps_def
proof (intro allI impI)
  fix w assume w: "way_in w"
  then have "users_wf (snd (setPassword name h must (Some l) now w))" using wf.password unfolding steps_def way_in_def keeps_admin_def by blast
  then show "way_in (snd (setPassword name h must (Some l) now w))"
    using w by (auto simp: setPassword_def update_row_def active_admin_def intro!: way_map split: option.splits if_splits)
qed

lemma way_marks: "steps (\<lambda>w w'. way_in w \<longrightarrow> way_in w') (bumpEpoch name)" "steps (\<lambda>w w'. way_in w \<longrightarrow> way_in w') (touchLogin name now)"
proof -
  have "way_in (snd (bumpEpoch name w))" "way_in (snd (touchLogin name now w))" if w: "way_in w" for w
  proof -
    have "users_wf (snd (bumpEpoch name w))" "users_wf (snd (touchLogin name now w))"
      using wf.bump wf.touch w unfolding steps_def way_in_def keeps_admin_def by blast+
    then show "way_in (snd (bumpEpoch name w))" "way_in (snd (touchLogin name now w))"
      using w way_map [where w = w and l = "mg_audit w"] by (auto simp: bumpEpoch_def touchLogin_def active_admin_def)
  qed
  then show "steps (\<lambda>w w'. way_in w \<longrightarrow> way_in w') (bumpEpoch name)" "steps (\<lambda>w w'. way_in w \<longrightarrow> way_in w') (touchLogin name now)"
    by (simp_all add: steps_def)
qed

text \<open>Past \<open>requireAdmin\<close>, the requester is an administrator who can sign in.\<close>

lemma requireAdmin_grants:
  assumes "users_wf w" and "requireAdmin cfg cx w = (Inr a, w')"
  shows "keeps_admin (ac_username a) w' \<and> ac_must_change a = False"
proof -
  have "sessionAccount cfg cx w = (Inr (Some a), w')" and "ac_role a = ''admin''" "\<not> ac_must_change a"
    using assms(2)
    by (auto simp: requireAdmin_def requireUser_def requireSession_def bind_io_eq_Inr_iff ret_io_def raise_io_def
        split: option.splits if_splits)
  then show ?thesis using assms(1) getUser_Some [of _ w a]
    by (auto simp: sessionAccount_def keeps_admin_def active_admin_def split: option.splits if_splits)
qed

lemma way_admin_route:
  assumes "\<And>a. ac_must_change a = False \<Longrightarrow> steps (\<lambda>w w'. keeps_admin (ac_username a) w \<longrightarrow> keeps_admin (ac_username a) w') (f a)"
  shows "steps (\<lambda>w w'. way_in w \<longrightarrow> way_in w') (bind_io (requireAdmin cfg cx) f)"
  unfolding steps_def
proof (intro allI impI)
  fix w assume w: "way_in w"
  obtain r w' where r: "requireAdmin cfg cx w = (r, w')" by fastforce
  have "way_in w'" using way.steps_requireAdmin(3) w r unfolding steps_def by (metis snd_conv)
  moreover have "keeps_admin (ac_username a) (snd (f a w'))" if "r = Inr a" for a
    using requireAdmin_grants [of w cfg cx a w'] assms [of a] w r that unfolding steps_def way_in_def keeps_admin_def by blast
  ultimately show "way_in (snd (bind_io (requireAdmin cfg cx) f w))"
    using r keeps_way_in by (cases r) simp_all
qed

text \<open>A plan made for a requester leaves the requester an administrator.\<close>

lemma new_role_self: "new_role u a body w = (Inr r, w') \<Longrightarrow> w' = w \<and> (r \<noteq> None \<longrightarrow> ac_username a \<noteq> u)"
  by (auto simp: new_role_def lastAdmin_def demand_def bind_io_eq_Inr_iff ret_io_def raise_io_def split: option.splits if_splits)

lemma new_enabled_self: "new_enabled u a body w = (Inr e, w') \<Longrightarrow> w' = w \<and> (e = Some False \<longrightarrow> ac_username a \<noteq> u)"
  by (auto simp: new_enabled_def lastAdmin_def demand_def bind_io_eq_Inr_iff ret_io_def raise_io_def split: option.splits if_splits)

lemma target_found: "target name w = (Inr a, w') \<Longrightarrow> w' = w \<and> a \<in> set (mg_users w) \<and> ac_username a = str_lower name"
  using getUser_Some [of name w a]
  by (auto simp: target_def bind_io_eq_Inr_iff ret_io_def raise_io_def split: option.splits)

lemma update_plan_self:
  assumes "update_plan u name body w = (Inr (a, ch), w')"
  shows "w' = w \<and> ac_username a = str_lower name \<and> (ac_username a = u \<longrightarrow> ch_role ch = None \<and> ch_enabled ch \<noteq> Some False)"
  using assms
  by (auto simp: update_plan_def bind_io_eq_Inr_iff ret_io_def lift_io_def dest!: target_found new_role_self new_enabled_self)

lemma update_write_admin:
  assumes "str_lower (ac_username a) = ac_username a" and "ac_username a = u \<longrightarrow> ch_role ch = None \<and> ch_enabled ch \<noteq> Some False"
  shows "steps (\<lambda>w w'. keeps_admin u w \<longrightarrow> keeps_admin u w') (update_write user (a, ch) now)"
proof -
  have "steps (\<lambda>w w'. keeps_admin u w \<longrightarrow> keeps_admin u w') (update_row (ac_username a) (apply_changes ch now) (Some l))" for l
    using assms by (intro adm_update_row) (auto simp: apply_changes_def active_admin_def split: option.splits)
  then show ?thesis
    unfolding update_write_def updateAccount_def by (auto intro!: adm.console_rules)
qed

lemma deleteRow_admin:
  assumes "str_lower name \<noteq> u"
  shows "steps (\<lambda>w w'. keeps_admin u w \<longrightarrow> keeps_admin u w') (deleteRow name (Some l))"
proof -
  have "users_wf (snd (deleteRow name (Some l) w))" if "keeps_admin u w" for w
    using wf.delete that unfolding steps_def keeps_admin_def by blast
  with assms show ?thesis by (fastforce simp: steps_def deleteRow_def keeps_admin_def)
qed

lemma update_route_admin:
  "steps (\<lambda>w w'. keeps_admin u w \<longrightarrow> keeps_admin u w') (bind_io (update_plan u name body) (\<lambda>plan. update_write u plan now))"
  unfolding steps_def
proof (intro allI impI)
  fix w assume k: "keeps_admin u w"
  obtain r w' where r: "update_plan u name body w = (r, w')" by fastforce
  have "keeps_admin u w'" using adm.steps_plans(1) k r unfolding steps_def by (metis snd_conv)
  then show "keeps_admin u (snd (bind_io (update_plan u name body) (\<lambda>plan. update_write u plan now) w))"
    using r update_plan_self [of u name body w _ _ w'] update_write_admin unfolding steps_def
    by (cases r) (fastforce simp: str_lower_again)+
qed

lemma delete_plan_self: "delete_plan u name w = (Inr a, w') \<Longrightarrow> ac_username a \<noteq> u \<and> ac_username a = str_lower name"
  by (auto simp: delete_plan_def lastAdmin_def demand_def bind_io_eq_Inr_iff ret_io_def raise_io_def split: if_splits dest!: target_found)

lemma delete_route_admin:
  "steps (\<lambda>w w'. keeps_admin u w \<longrightarrow> keeps_admin u w') (bind_io (delete_plan u name) (\<lambda>a. delete_write u a))"
  unfolding steps_def
proof (intro allI impI)
  fix w assume k: "keeps_admin u w"
  obtain r w' where r: "delete_plan u name w = (r, w')" by fastforce
  have k': "keeps_admin u w'" using adm.steps_plans(2) k r unfolding steps_def by (metis snd_conv)
  have "steps (\<lambda>w w'. keeps_admin u w \<longrightarrow> keeps_admin u w') (delete_write u a)" if "r = Inr a" for a
    using delete_plan_self [of u name w a w'] r that unfolding delete_write_def
    by (auto intro!: adm.console_rules deleteRow_admin simp: str_lower_again)
  with r k' show "keeps_admin u (snd (bind_io (delete_plan u name) (\<lambda>a. delete_write u a) w))"
    unfolding steps_def by (cases r) auto
qed

lemmas way_rules = way.console_rules way.steps_requireAdmin way.steps_plans way_password way_marks way_bootstrap

lemma way_close: "steps (\<lambda>w w'. way_in w \<longrightarrow> way_in w') closeSession"
proof -
  have "way_in (snd (bumpEpoch u (w\<lparr>mg_session := None\<rparr>)))" if "way_in w" for w u
    using way_marks(1) [of u] way.keep_session that unfolding steps_def by blast
  then show ?thesis by (auto simp: steps_def closeSession_def way.keep_session split: option.split)
qed

lemma way_handle: "steps (\<lambda>w w'. way_in w \<longrightarrow> way_in w') (handle cfg cx call)"
proof (cases call)
  case (Create body)
  show ?thesis
    unfolding Create handle.simps done_io_def create_route_def Let_def bind_assoc
    by (intro way_admin_route adm.console_rules adm_create)
next
  case (Update name body)
  then show ?thesis
    by (simp add: done_io_def updateUser_def bind_assoc)
       (intro way_admin_route adm.steps_bind [OF update_route_admin, unfolded bind_assoc] adm.console_rules)
next
  case (Reset name pw)
  then show ?thesis
    by (simp add: done_io_def resetPassword_def bind_assoc)
       (intro way_admin_route adm.console_rules adm.steps_plans adm_password)
next
  case (Delete name)
  then show ?thesis
    by (simp add: deleteUser_def) (intro way_admin_route delete_route_admin)
qed (simp_all add: done_io_def login_def logout_def me_def changeOwnPassword_def readUsers_def authenticate_def Let_def way_close,
     (intro way_rules)+)

lemma served_way_in: "served cfg u w \<Longrightarrow> way_in u \<Longrightarrow> way_in w"
proof (induction rule: served.induct)
  case (served_step u v w)
  then show ?case using way_handle way.keep_session unfolding steps_def by (elim servesE) blast
qed

text \<open>
  C6. Served one after the other, no sequence of requests takes the last administrator away: an
  enabled administrator remains in the table, unless it is still empty.
\<close>
theorem last_administrator_stays:
  assumes "served cfg w w'" and "users_wf w" and "\<exists>a \<in> set (mg_users w). active_admin a"
  shows "\<exists>a \<in> set (mg_users w'). active_admin a"
  using served_way_in [OF assms(1)] assms(2,3) by (auto simp: way_in_def keeps_admin_def)

definition wit_account :: "int \<Rightarrow> string \<Rightarrow> account" where
  "wit_account i name =
     \<lparr>ac_id = i, ac_username = name, ac_first_name = Some ''A'', ac_last_name = Some ''B'', ac_role = ''admin'',
      ac_source = ''local'', ac_external_id = None, ac_password_hash = Some ''h'', ac_must_change = False,
      ac_enabled = True, ac_epoch = 1, ac_created_at = 0, ac_created_by = ''bootstrap'', ac_password_changed_at = None,
      ac_last_login_at = None, ac_updated_at = 0\<rparr>"

definition wit_console :: console where
  "wit_console = \<lparr>mg_users = [wit_account 1 ''a@x.fr'', wit_account 2 ''b@x.fr''], mg_next = 3, mg_audit = [],
     mg_failures = [], mg_session = None\<rparr>"

definition wit_cfg :: console_cfg where
  "wit_cfg = \<lparr>cc_scrypt = (\<lambda>pw salt n r p. Some pw), cc_default_password = ''manager123$'', cc_min_length = 11,
     cc_session_hours = 10, cc_trust_proxy = False, cc_trusted = (\<lambda>_. False), cc_dummy_hash = []\<rparr>"

definition wit_ctx :: ctx where
  "wit_ctx = \<lparr>cx_request = \<lparr>rq_method = ''POST'', rq_url = [], rq_headers = [], rq_query = [], rq_client = Some ''10.0.0.9'', rq_body = Inr PNone\<rparr>,
     cx_now = 100, cx_mono = 100, cx_salt = ''salt''\<rparr>"

definition wit_session :: "string \<Rightarrow> int \<Rightarrow> session option" where
  "wit_session name e = Some \<lparr>ss_user = name, ss_epoch = e, ss_at = 90\<rparr>"

lemma wit_console_wf: "users_wf wit_console"
  by code_simp

lemma wit_console_admin: "\<exists>a \<in> set (mg_users wit_console). active_admin a"
  by code_simp

lemma serves_call: "served cfg w (snd (handle cfg cx call (w\<lparr>mg_session := s\<rparr>)))"
  by (rule served_step [OF served_refl serves])

lemma last_administrator_stays_witness:
  "\<exists>a \<in> set (mg_users (snd (handle wit_cfg wit_ctx (Delete ''b@x.fr'') (wit_console\<lparr>mg_session := wit_session ''a@x.fr'' 1\<rparr>)))).
     active_admin a"
  by (rule last_administrator_stays [OF serves_call wit_console_wf wit_console_admin])

lemma no_change_without_line_witness:
  "\<exists>ls. mg_audit (snd (handle wit_cfg wit_ctx (Delete ''b@x.fr'') (wit_console\<lparr>mg_session := wit_session ''a@x.fr'' 1\<rparr>)))
      = mg_audit wit_console @ ls \<and> ls \<noteq> []"
proof -
  let ?w = "snd (handle wit_cfg wit_ctx (Delete ''b@x.fr'') (wit_console\<lparr>mg_session := wit_session ''a@x.fr'' 1\<rparr>))"
  have "length (map core (mg_users ?w)) \<noteq> length (map core (mg_users wit_console))" by code_simp
  moreover have "served wit_cfg wit_console ?w" by (rule serves_call)
  ultimately show ?thesis using no_change_without_line by fastforce
qed


definition demote :: user_patch where
  "demote = \<lparr>up_role = Some ''operator'', up_enabled = None, up_first_name = None, up_last_name = None\<rparr>"

text \<open>
  Served at the same time, two administrators can take each other's role: each request checks
  that another administrator is left before either writes, and the console is left without one.
\<close>
theorem administrators_demote_each_other:
  "\<exists>p q w1 w2. update_plan ''a@x.fr'' ''b@x.fr'' demote wit_console = (Inr p, wit_console)
     \<and> update_plan ''b@x.fr'' ''a@x.fr'' demote wit_console = (Inr q, wit_console)
     \<and> update_write ''a@x.fr'' p 100 wit_console = (Inr w1, w2)
     \<and> isl (fst (update_write ''b@x.fr'' q 100 w2)) = False
     \<and> countActiveAdmins (snd (update_write ''b@x.fr'' q 100 w2)) = 0"
proof -
  let ?ch = "\<lparr>ch_name = None, ch_role = Some ''operator'', ch_enabled = None\<rparr>"
  have "update_plan ''a@x.fr'' ''b@x.fr'' demote wit_console = (Inr (wit_account 2 ''b@x.fr'', ?ch), wit_console)"
    and "update_plan ''b@x.fr'' ''a@x.fr'' demote wit_console = (Inr (wit_account 1 ''a@x.fr'', ?ch), wit_console)"
    by code_simp+
  moreover have "case update_write ''a@x.fr'' (wit_account 2 ''b@x.fr'', ?ch) 100 wit_console of (r, w2) \<Rightarrow>
      \<not> isl r \<and> isl (fst (update_write ''b@x.fr'' (wit_account 1 ''a@x.fr'', ?ch) 100 w2)) = False
      \<and> countActiveAdmins (snd (update_write ''b@x.fr'' (wit_account 1 ''a@x.fr'', ?ch) 100 w2)) = 0"
    by code_simp
  ultimately show ?thesis
    by (cases "fst (update_write ''a@x.fr'' (wit_account 2 ''b@x.fr'', ?ch) 100 wit_console)") (force split: prod.splits)+
qed

section \<open>Sessions\<close>

lemma same_row_aged:
  assumes "served cfg w w'" and "users_wf w" and "getUser u w = Some a" and "getUser u w' = Some b" and "ac_id b = ac_id a"
  shows "aged a b"
proof -
  have a: "a \<in> set (mg_users w)" "ac_id a < mg_next w" using getUser_Some [OF assms(3)] assms(2) by (auto simp: users_wf_def)
  have b: "b \<in> set (mg_users w')" using getUser_Some [OF assms(4)] by simp
  obtain c where c: "c \<in> set (mg_users w)" "aged c b"
    using older.served_R [OF assms(1)] a(2) b assms(5) unfolding older_def by fastforce
  then have "c = a" using aged_id [OF c(2)] a(1) assms(2,5) unfolding users_wf_def by (metis distinct_map inj_onD)
  then show ?thesis using c(2) by simp
qed

lemma past_session_refused:
  assumes "\<forall>b. getUser (ss_user s) w = Some b \<longrightarrow> ss_epoch s < ac_epoch b"
  shows "fst (sessionAccount cfg cx (w\<lparr>mg_session := Some s\<rparr>)) = Inr None"
  using assms by (force simp: sessionAccount_def getUser_def split: option.split)

lemma find_map_same: "(\<And>x. P (f x) = P x) \<Longrightarrow> find P (map f xs) = map_option f (find P xs)"
  by (induction xs) auto

lemma logout_moves_epoch:
  assumes "ss_user t \<noteq> []" and "getUser (ss_user t) w = Some a"
    and "getUser (ss_user t) (snd (handle cfg cx Logout (w\<lparr>mg_session := Some t\<rparr>))) = Some b"
  shows "ac_epoch a < ac_epoch b"
  using assms getUser_Some [OF assms(2)]
  by (auto simp: logout_def closeSession_def bumpEpoch_def getUser_def find_map_same)


text \<open>The account \<open>b@x.fr\<close> is disabled, enabled again, and its old session tried.\<close>

definition disabled_console :: console where
  "disabled_console = snd (handle wit_cfg wit_ctx (Update ''b@x.fr'' \<lparr>up_role = None, up_enabled = Some False, up_first_name = None, up_last_name = None\<rparr>)
     (wit_console\<lparr>mg_session := wit_session ''a@x.fr'' 1\<rparr>))"

definition enabled_again :: console where
  "enabled_again = snd (handle wit_cfg wit_ctx (Update ''b@x.fr'' \<lparr>up_role = None, up_enabled = Some True, up_first_name = None, up_last_name = None\<rparr>)
     (disabled_console\<lparr>mg_session := wit_session ''a@x.fr'' 1\<rparr>))"


text \<open>The account \<open>b@x.fr\<close> is deleted, created again, and its new holder changes the initial password.\<close>

definition renewed :: "(console, unit) io" where
  "renewed =
     bind_io (deleteUser wit_cfg wit_ctx ''b@x.fr'') (\<lambda>_.
     bind_io (create_route wit_cfg wit_ctx \<lparr>nu_username = ''b@x.fr'', nu_first_name = ''C'', nu_last_name = ''D'',
        nu_role = ''operator'', nu_source = ''local'', nu_password = Some ''first-secret''\<rparr>) (\<lambda>_.
     bind_io (modify_io (\<lambda>w. w\<lparr>mg_session := wit_session ''b@x.fr'' 0\<rparr>)) (\<lambda>_.
     changeOwnPassword wit_cfg wit_ctx \<lparr>pc_current = ''first-secret'', pc_new = ''other-secret'', pc_confirm = ''other-secret''\<rparr>)))"

text \<open>
  Deleting an account does not end its sessions for good: a new account of the same name starts
  its epochs again, and a session of the deleted account is taken for one of the new account.
\<close>
theorem recreated_account_revives_sessions:
  "\<exists>w a. renewed (wit_console\<lparr>mg_session := wit_session ''a@x.fr'' 1\<rparr>) = (Inr (), w)
     \<and> getUser ''b@x.fr'' w = Some a \<and> ac_id a = 3
     \<and> fst (sessionAccount wit_cfg wit_ctx (wit_console\<lparr>mg_session := wit_session ''b@x.fr'' 1\<rparr>)) = Inr (Some (wit_account 2 ''b@x.fr''))
     \<and> fst (sessionAccount wit_cfg wit_ctx (w\<lparr>mg_session := wit_session ''b@x.fr'' 1\<rparr>)) = Inr (Some a)"
proof -
  let ?r = "renewed (wit_console\<lparr>mg_session := wit_session ''a@x.fr'' 1\<rparr>)"
  have "case ?r of (res, w) \<Rightarrow> res = Inr () \<and> map_option ac_id (getUser ''b@x.fr'' w) = Some 3
      \<and> fst (sessionAccount wit_cfg wit_ctx (w\<lparr>mg_session := wit_session ''b@x.fr'' 1\<rparr>)) = Inr (getUser ''b@x.fr'' w)"
    by code_simp
  moreover have "fst (sessionAccount wit_cfg wit_ctx (wit_console\<lparr>mg_session := wit_session ''b@x.fr'' 1\<rparr>)) = Inr (Some (wit_account 2 ''b@x.fr''))"
    by code_simp
  ultimately show ?thesis by (cases ?r) auto
qed

section \<open>Passwords\<close>

lemma no_dollar_digit: "is_digit c \<Longrightarrow> c \<noteq> CHR ''$''"
  by (auto simp: is_digit_def)

lemma b64_char_no_dollar: "n < 64 \<Longrightarrow> b64_char n \<noteq> CHR ''$''"
proof
  assume "n < 64" "b64_char n = CHR ''$''"
  then have "b64_val (CHR ''$'') = Some n" using b64_val_b64_char by metis
  then show False by (simp add: b64_val_def)
qed

lemma b64_no_dollar: "\<forall>a \<in> set s. a < 256 \<Longrightarrow> CHR ''$'' \<notin> set (b64_encode s)"
proof (induction s rule: b64_encode.induct)
  case (4 a b c s)
  then have "a div 4 < 64" "a mod 4 * 16 + b div 16 < 64" "b mod 16 * 4 + c div 64 < 64" "c mod 64 < 64" by auto
  note n = this [THEN b64_char_no_dollar]
  from n n [symmetric] 4 show ?case by (auto simp del: One_nat_def)
next
  case (3 a b)
  then have "a div 4 < 64" "a mod 4 * 16 + b div 16 < 64" "b mod 16 * 4 < 64" by auto
  note n = this [THEN b64_char_no_dollar]
  from n n [symmetric] show ?case by auto
next
  case (2 a)
  then have "a div 4 < 64" "a mod 4 * 16 < 64" by auto
  note n = this [THEN b64_char_no_dollar]
  from n n [symmetric] show ?case by auto
qed simp

lemma b64encode_no_dollar: "CHR ''$'' \<notin> set (b64encode s)"
  unfolding b64encode_def by (rule b64_no_dollar) auto

lemma hash_parts:
  "str_split ''$'' (str_join ''$'' [''scrypt'', ''16384'', ''8'', ''1'', b64encode salt, b64encode d])
     = [''scrypt'', ''16384'', ''8'', ''1'', b64encode salt, b64encode d]"
proof -
  let ?ls = "[''scrypt'', ''16384'', ''8'', ''1'', b64encode salt]"
  have "str_join ''$'' (?ls @ [b64encode d]) = concat (map (\<lambda>l. l @ [CHR ''$'']) ?ls) @ b64encode d" by simp
  moreover have "str_split ''$'' (concat (map (\<lambda>l. l @ [CHR ''$'']) ?ls) @ b64encode d) = ?ls @ [b64encode d]"
    using b64encode_no_dollar by (intro str_split_lines) auto
  ultimately show ?thesis by simp
qed

lemma scrypt_numbers: "int_str scrypt_n = ''16384''" "int_str scrypt_r = ''8''" "int_str scrypt_p = ''1''"
    "py_int_str ''16384'' = Some scrypt_n" "py_int_str ''8'' = Some scrypt_r" "py_int_str ''1'' = Some scrypt_p"
  by code_simp+

text \<open>
  A stored hash checks its own password, and another one exactly when scrypt gives both the same
  digest under the stored salt: nothing is lost between writing the hash and reading it.
\<close>
theorem stored_hash_checks_password:
  assumes "hashPassword cfg salt pw = Inr h"
  shows "checkPassword cfg pw (Some h) = Inr True
       \<and> checkPassword cfg other (Some h)
           = Inr (cc_scrypt cfg other salt scrypt_n scrypt_r scrypt_p = cc_scrypt cfg pw salt scrypt_n scrypt_r scrypt_p)"
proof -
  obtain d where d: "cc_scrypt cfg pw salt scrypt_n scrypt_r scrypt_p = Some d"
    and h: "h = str_join ''$'' [''scrypt'', ''16384'', ''8'', ''1'', b64encode salt, b64encode d]"
    using assms by (auto simp: hashPassword_def scrypt_numbers split: option.splits)
  have "checkPassword cfg p (Some h) = Inr (cc_scrypt cfg p salt scrypt_n scrypt_r scrypt_p = Some d)" for p
    unfolding checkPassword_def h option.case hash_parts
    by (simp add: scrypt_numbers b64decode_b64encode split: option.split)
  with d show ?thesis by simp
qed

lemma stored_hash_checks_password_witness:
  "\<exists>h. hashPassword wit_cfg ''salt'' ''secret'' = Inr h \<and> checkPassword wit_cfg ''guess'' (Some h) = Inr False"
proof -
  obtain h where h: "hashPassword wit_cfg ''salt'' ''secret'' = Inr h" by (simp add: hashPassword_def wit_cfg_def)
  with stored_hash_checks_password [OF h, of "''guess''"] show ?thesis by (simp add: wit_cfg_def)
qed

section \<open>Refused requests\<close>

definition same_tables :: "console \<Rightarrow> console \<Rightarrow> bool" where
  "same_tables w w' = (mg_users w' = mg_users w \<and> mg_audit w' = mg_audit w)"

interpretation same: console_order same_tables
  by standard (auto simp: same_tables_def)

text \<open>A computation that writes last: when it raises, the tables are as they were.\<close>

definition clean :: "(console, 'a) io \<Rightarrow> bool" where
  "clean m = (\<forall>w e w'. m w = (Inl e, w') \<longrightarrow> same_tables w w')"

lemma clean_steps: "steps same_tables m \<Longrightarrow> clean m"
  unfolding clean_def steps_def by (metis snd_conv)

lemma clean_bind:
  assumes "steps same_tables m" and "\<And>x. clean (f x)"
  shows "clean (bind_io m f)"
  unfolding clean_def
proof (intro allI impI)
  fix w e w' assume run: "bind_io m f w = (Inl e, w')"
  obtain r w1 where m: "m w = (r, w1)" by fastforce
  have "same_tables w w1" using assms(1) m unfolding steps_def by (metis snd_conv)
  with run m assms(2) show "same_tables w w'" by (cases r) (auto simp: clean_def same_tables_def)
qed

lemma clean_if: "clean m \<Longrightarrow> clean n \<Longrightarrow> clean (if b then m else n)"
  by simp

lemma clean_prod: "(\<And>x y. clean (f x y)) \<Longrightarrow> clean (case p of (x, y) \<Rightarrow> f x y)"
  by (cases p) simp

lemma clean_option: "clean n \<Longrightarrow> (\<And>x. clean (f x)) \<Longrightarrow> clean (case z of None \<Rightarrow> n | Some x \<Rightarrow> f x)"
  by (cases z) simp_all

lemma clean_update:
  assumes "\<And>b w. \<not> isl (fst (g b w))"
  shows "clean (bind_io (update_row name f l) (\<lambda>u. case u of None \<Rightarrow> raise_io e | Some b \<Rightarrow> g b))"
proof -
  have "g b w \<noteq> (Inl e', w')" for b w e' w' using assms [of b w] by auto
  then show ?thesis
    by (auto simp: clean_def bind_io_def update_row_def same_tables_def split: option.splits if_splits)
qed

lemma clean_create: "clean (bind_io (createUser name role source h by must ext n1 n2 l now) (\<lambda>a. ret_io (g a)))"
  by (auto simp: clean_def bind_io_def createUser_def Let_def same_tables_def split: if_splits)

lemma clean_delete: "clean (bind_io (deleteRow name l) (\<lambda>_. ret_io x))"
  by (auto simp: clean_def bind_io_def deleteRow_def)

lemma clean_plan: "clean (update_write user plan now)"
proof -
  have "clean (bind_io (read_io (getUser name)) (\<lambda>u. case u of None \<Rightarrow> raise_io e | Some b \<Rightarrow> ret_io (public_of b)))" for name e
    by (auto simp: clean_def bind_io_def same_tables_def split: option.splits)
  then show ?thesis unfolding update_write_def updateAccount_def
    by (auto intro!: clean_prod clean_if clean_update clean_steps [OF same.steps_ret] split: if_split)
qed

lemmas clean_rules = clean_bind clean_if clean_prod clean_option clean_create clean_delete clean_plan
  same.console_rules same.steps_requireAdmin same.steps_plans

lemma open_session_total: "\<not> isl (fst (openSession cx b w))"
  by (simp add: openSession_def)

lemma clean_own: "clean (changeOwnPassword cfg cx body)"
proof -
  have "clean (bind_io (setPassword n h False l now) (\<lambda>u. case u of None \<Rightarrow> raise_io e | Some b \<Rightarrow> openSession cx b))" for n h l now e
    unfolding setPassword_def by (rule clean_update) (rule open_session_total)
  note last = this
  have "clean (bind_io (recordLoginFailure cfg cx) (\<lambda>_. raise_io e))" for e :: exn
    by (rule clean_steps) (intro same.console_rules)
  note failed = this
  show ?thesis unfolding changeOwnPassword_def by (rule last failed clean_rules)+
qed

lemma clean_done: "clean m \<Longrightarrow> clean (done_io m)"
  by (auto simp: done_io_def clean_def bind_io_def split: prod.splits sum.splits)

lemma clean_reset: "clean (resetPassword cfg cx name pw)"
proof -
  have "\<not> isl (fst (bind_io (if P then openSession cx b else ret_io ()) (\<lambda>_. ret_io x) w))" for P b x w
    by (cases P) (simp_all add: bind_io_def openSession_def)
  then have "clean (bind_io (setPassword n h True l now) (\<lambda>u. case u of None \<Rightarrow> raise_io e
      | Some b \<Rightarrow> bind_io (if P then openSession cx b else ret_io ()) (\<lambda>_. ret_io (public_of b))))" for n h l now e P
    unfolding setPassword_def by (rule clean_update)
  note last = this
  show ?thesis unfolding resetPassword_def by (rule last clean_rules)+
qed

lemma clean_handle: "call \<noteq> Login \<Longrightarrow> clean (handle cfg cx call)"
proof (cases call)
  case Logout
  then show ?thesis by (auto simp: logout_def closeSession_def clean_def bumpEpoch_def same_tables_def split: option.splits if_splits)
next
  case Me
  show ?thesis unfolding Me handle.simps me_def by (intro clean_done clean_steps same.console_rules)
next
  case ReadUsers
  show ?thesis unfolding ReadUsers handle.simps readUsers_def by (intro clean_done clean_steps clean_rules)
next
  case (Create body)
  show ?thesis unfolding Create handle.simps create_route_def Let_def by (intro clean_done clean_rules)
next
  case (Update name body)
  show ?thesis unfolding Update handle.simps updateUser_def by (intro clean_done clean_rules)
next
  case (Delete name)
  show ?thesis unfolding Delete handle.simps deleteUser_def delete_write_def by (intro clean_rules)
qed (simp_all add: clean_own clean_reset clean_done)

text \<open>
  C38. A request on accounts that is refused, at whatever point, leaves the user table and the audit
  as they were: everything is checked before anything is written.
\<close>
theorem refused_request_writes_nothing:
  assumes "call \<noteq> Login" and "handle cfg cx call w = (Inl e, w')"
  shows "mg_users w' = mg_users w \<and> mg_audit w' = mg_audit w"
  using clean_handle [OF assms(1)] assms(2) by (auto simp: clean_def same_tables_def)

lemma refused_request_writes_nothing_witness:
  "\<exists>e w'. handle wit_cfg wit_ctx (Delete ''a@x.fr'') (wit_console\<lparr>mg_session := wit_session ''a@x.fr'' 1\<rparr>) = (Inl e, w')
     \<and> mg_users w' = mg_users wit_console"
proof -
  let ?r = "handle wit_cfg wit_ctx (Delete ''a@x.fr'') (wit_console\<lparr>mg_session := wit_session ''a@x.fr'' 1\<rparr>)"
  have "isl (fst ?r)" by code_simp
  then obtain e w' where r: "?r = (Inl e, w')" by (cases ?r) (auto simp: isl_def)
  from refused_request_writes_nothing [OF _ r] r show ?thesis by simp
qed

section \<open>Long addresses\<close>

definition long_user :: new_user where
  "long_user = \<lparr>nu_username = replicate 60 (CHR ''a'') @ ''@x.fr'', nu_first_name = ''C'', nu_last_name = ''D'',
     nu_role = ''operator'', nu_source = ''local'', nu_password = Some ''first-secret''\<rparr>"

text \<open>
  An address the console accepts can be longer than the table's: creating such an account is
  answered as an outage of the database (503), not as a bad request.
\<close>
theorem long_address_reads_as_outage:
  "EMAIL (nu_username long_user)
   \<and> fst (create_route wit_cfg wit_ctx long_user (wit_console\<lparr>mg_session := wit_session ''a@x.fr'' 1\<rparr>)) = Inl db_error"
  by code_simp

end
