(* ===== verification/Calendar.thy ===== *)
theory Calendar
  imports Py_Date
begin

text \<open>
  The calendar of Py_Date is sound: the two conversions between dates and ordinals undo each other,
  every ordinal is a date, and the order of the ordinals is the order of the calendar. What the
  reports need of it follows: first days of months, a month later and a month earlier.
\<close>

section \<open>Years\<close>

lemma div_parts:
  fixes a :: int
  assumes "0 \<le> r" "r < k"
  shows "(k * a + r) div k = a" "(k * a + r) mod k = r"
  using assms by simp_all

lemma year_parts:
  fixes p :: int
  obtains q b c e where "p = 400 * q + 100 * b + 4 * c + e" "0 \<le> b" "b < 4" "0 \<le> c" "c < 25" "0 \<le> e" "e < 4"
proof -
  define r where "r = p mod 400"
  define s where "s = r mod 100"
  have "p = 400 * (p div 400) + r" "r = 100 * (r div 100) + s" "s = 4 * (s div 4) + s mod 4"
    by (simp_all add: r_def s_def)
  moreover have "0 \<le> r" "r < 400" "0 \<le> s" "s < 100" by (simp_all add: r_def s_def)
  moreover from this have "0 \<le> r div 100" "r div 100 < 4" "0 \<le> s div 4" "s div 4 < 25" by simp_all
  moreover have "0 \<le> s mod 4" "s mod 4 < 4" by simp_all
  ultimately show thesis using that [of "p div 400" "r div 100" "s div 4" "s mod 4"] by linarith
qed

lemma parts_div:
  fixes q :: int
  assumes "0 \<le> b" "b < 4" "0 \<le> c" "c < 25" "0 \<le> e" "e < 4"
  shows "(400 * q + 100 * b + 4 * c + e) div 4 = 100 * q + 25 * b + c"
    and "(400 * q + 100 * b + 4 * c + e) div 100 = 4 * q + b"
    and "(400 * q + 100 * b + 4 * c + e) div 400 = q"
  using assms div_parts(1) [of e 4 "100 * q + 25 * b + c"] div_parts(1) [of "4 * c + e" 100 "4 * q + b"]
    div_parts(1) [of "100 * b + 4 * c + e" 400 q]
  by (simp_all add: algebra_simps)

lemma days_before_year_parts:
  assumes "0 \<le> b" "b < 4" "0 \<le> c" "c < 25" "0 \<le> e" "e < 4"
  shows "days_before_year (400 * q + 100 * b + 4 * c + e + 1) = 146097 * q + 36524 * b + 1461 * c + 365 * e"
  using parts_div [OF assms] by (simp add: days_before_year_def Let_def)

lemma mod_top:
  fixes x :: int
  assumes "0 < x" "x \<le> k"
  shows "x mod k = 0 \<longleftrightarrow> x = k"
  using assms by (cases "x = k") auto

lemma is_leap_parts:
  assumes "0 \<le> b" "b < 4" "0 \<le> c" "c < 25" "0 \<le> e" "e < 4"
  shows "is_leap (400 * q + 100 * b + 4 * c + e + 1) \<longleftrightarrow> e = 3 \<and> (c \<noteq> 24 \<or> b = 3)"
proof -
  have "(400 * q + 100 * b + 4 * c + e + 1) mod 4 = (e + 1) mod 4"
    using mod_mult_self3 [of "100 * q + 25 * b + c" 4 "e + 1"] by (simp add: algebra_simps)
  moreover have "(e + 1) mod 4 = 0 \<longleftrightarrow> e = 3" using assms by presburger
  moreover have "(400 * q + 100 * b + 4 * c + e + 1) mod 100 = (4 * c + e + 1) mod 100"
    using mod_mult_self3 [of "4 * q + b" 100 "4 * c + e + 1"] by (simp add: algebra_simps)
  moreover have "(4 * c + e + 1) mod 100 = 0 \<longleftrightarrow> e = 3 \<and> c = 24"
  proof -
    have "4 * c + e + 1 = 100 \<longleftrightarrow> e = 3 \<and> c = 24" using assms by presburger
    then show ?thesis using assms mod_top [of "4 * c + e + 1" 100] by simp
  qed
  moreover have "(400 * q + 100 * b + 4 * c + e + 1) mod 400 = (100 * b + 4 * c + e + 1) mod 400"
    using mod_mult_self3 [of q 400 "100 * b + 4 * c + e + 1"] by (simp add: algebra_simps)
  moreover have "(100 * b + 4 * c + e + 1) mod 400 = 0 \<longleftrightarrow> e = 3 \<and> c = 24 \<and> b = 3"
  proof -
    have "100 * b + 4 * c + e + 1 = 400 \<longleftrightarrow> e = 3 \<and> c = 24 \<and> b = 3" using assms by presburger
    then show ?thesis using assms mod_top [of "100 * b + 4 * c + e + 1" 400] by simp
  qed
  ultimately show ?thesis unfolding is_leap_def by auto
qed

section \<open>Days of a year\<close>

lemma month_cases:
  fixes m :: int
  assumes "1 \<le> m" "m \<le> 12"
  shows "m = 1 \<or> m = 2 \<or> m = 3 \<or> m = 4 \<or> m = 5 \<or> m = 6 \<or> m = 7 \<or> m = 8 \<or> m = 9 \<or> m = 10 \<or> m = 11 \<or> m = 12"
  using assms by arith

lemmas month_tables = days_before_month_def days_in_month_def month_table_def

lemma day_of_year:
  assumes "1 \<le> m" "m \<le> 12" "1 \<le> d" "d \<le> days_in_month y m"
  shows "0 \<le> days_before_month y m + d - 1" "days_before_month y m + d - 1 \<le> (if is_leap y then 365 else 364)"
    and "days_before_month y m + d - 1 = 365 \<Longrightarrow> m = 12 \<and> d = 31"
  using month_cases [OF assms(1,2)] assms(3,4)
  by (elim disjE; force simp: month_tables split: if_splits)+

lemma next_month_before:
  "1 \<le> m \<Longrightarrow> m < 12 \<Longrightarrow> days_before_month y (m + 1) = days_before_month y m + days_in_month y m"
  using month_cases [of m] by (auto simp: month_tables)

lemma month_guess:
  assumes "1 \<le> m" "m \<le> 12" "1 \<le> d" "d \<le> days_in_month y m"
  shows "(days_before_month y m + d - 1 + 50) div 32 = m \<or> m < 12 \<and> (days_before_month y m + d - 1 + 50) div 32 = m + 1"
proof -
  have *: "(x div 32 = k) = (32 * k \<le> x \<and> x < 32 * k + 32)" for x k :: int by presburger
  show ?thesis using month_cases [OF assms(1,2)] assms(3,4)
    by (elim disjE) (auto simp: month_tables * split: if_splits)
qed

section \<open>The conversions\<close>

lemma ord2ymd_ymd2ord:
  assumes "1 \<le> m" "m \<le> 12" "1 \<le> d" "d \<le> days_in_month y m"
  shows "ord2ymd (ymd2ord y m d) = (y, m, d)"
proof -
  obtain q b c e where p: "y - 1 = 400 * q + 100 * b + 4 * c + e"
    and r: "0 \<le> b" "b < 4" "0 \<le> c" "c < 25" "0 \<le> e" "e < 4" by (rule year_parts)
  from p have y: "y = 400 * q + 100 * b + 4 * c + e + 1" by simp
  define D where "D = days_before_month y m + d - 1"
  note doy = day_of_year [OF assms, folded D_def]
  have n: "ymd2ord y m d - 1 = 146097 * q + (36524 * b + (1461 * c + (365 * e + D)))"
    using days_before_year_parts [OF r, of q] by (simp add: ymd2ord_def D_def y)
  show ?thesis
  proof (cases "D = 365")
    case True
    then have leap: "e = 3" "c \<noteq> 24 \<or> b = 3"
      using doy(2) is_leap_parts [OF r, of q] by (auto simp: y split: if_splits)
    have md: "m = 12" "d = 31" using doy(3) True by auto
    show ?thesis
    proof (cases "c = 24")
      case c: True
      have "(146097 * q + 146096) div 146097 = q" "(146097 * q + 146096) mod 146097 = 146096" by simp_all
      moreover have "ymd2ord y m d - 1 = 146097 * q + 146096" using n leap True c by simp
      ultimately show ?thesis using md leap c unfolding ord2ymd_def by (simp add: Let_def y)
    next
      case False
      then have c: "c < 24" using r by simp
      have n': "ymd2ord y m d - 1 = 146097 * q + (36524 * b + (1461 * c + 1460))" using n leap True by simp
      have "(146097 * q + (36524 * b + (1461 * c + 1460))) div 146097 = q"
        "(146097 * q + (36524 * b + (1461 * c + 1460))) mod 146097 = 36524 * b + (1461 * c + 1460)"
        "(36524 * b + (1461 * c + 1460)) div 36524 = b" "(36524 * b + (1461 * c + 1460)) mod 36524 = 1461 * c + 1460"
        "(1461 * c + 1460) div 1461 = c" "(1461 * c + 1460) mod 1461 = 1460"
        using c r by auto
      note parts = this
      have "(1460 :: int) div 365 = 4" "q * 400 + 1 + b * 100 + c * 4 + 4 - 1 = y" using leap by (simp_all add: y)
      then show ?thesis using md unfolding ord2ymd_def n' Let_def parts by simp
    qed
  next
    case False
    then have D: "0 \<le> D" "D < 365" using doy(1,2) by (auto split: if_splits)
    have "(146097 * q + (36524 * b + (1461 * c + (365 * e + D)))) div 146097 = q"
      "(146097 * q + (36524 * b + (1461 * c + (365 * e + D)))) mod 146097 = 36524 * b + (1461 * c + (365 * e + D))"
      "(36524 * b + (1461 * c + (365 * e + D))) div 36524 = b"
      "(36524 * b + (1461 * c + (365 * e + D))) mod 36524 = 1461 * c + (365 * e + D)"
      "(1461 * c + (365 * e + D)) div 1461 = c" "(1461 * c + (365 * e + D)) mod 1461 = 365 * e + D"
      "(365 * e + D) div 365 = e" "(365 * e + D) mod 365 = D"
      using D r by auto
    note parts = this
    have year: "q * 400 + 1 + b * 100 + c * 4 + e = y" by (simp add: y)
    have "e \<noteq> 4" "b \<noteq> 4" using r by auto
    then have "ord2ymd (ymd2ord y m d) = (let month = (D + 50) div 32; preceding = days_before_month y month;
        (m, p) = (if D < preceding then (month - 1, preceding - days_in_month y (month - 1)) else (month, preceding))
      in (y, m, D - p + 1))"
      unfolding ord2ymd_def n Let_def parts year by simp
    note guess = this
    have *: "days_before_month y m \<le> D" "D - days_before_month y m + 1 = d"
      "m < 12 \<Longrightarrow> D < days_before_month y (m + 1)"
      using assms next_month_before [of m y] by (simp_all add: D_def)
    consider "(D + 50) div 32 = m" | "m < 12" "(D + 50) div 32 = m + 1"
      using month_guess [OF assms] unfolding D_def by blast
    then show ?thesis
      using next_month_before [OF assms(1), of y] * by cases (simp_all add: guess Let_def)
  qed
qed

section \<open>Every ordinal is a date\<close>

definition date_ok :: "date \<Rightarrow> bool" where
  "date_ok d = (1 \<le> d_month d \<and> d_month d \<le> 12 \<and> 1 \<le> d_day d \<and> d_day d \<le> days_in_month (d_year d) (d_month d))"

lemma valid_date_iff: "valid_date d \<longleftrightarrow> date_ok d \<and> 1 \<le> d_year d \<and> d_year d \<le> 9999"
  by (auto simp: valid_date_def valid_ymd_def date_ok_def)

lemma date_of_ord_ord: "date_ok d \<Longrightarrow> date_of_ord (date_ord d) = d"
  by (simp add: date_of_ord_def date_ord_def date_ok_def ord2ymd_ymd2ord)

lemma date_ord_inject: "date_ok d \<Longrightarrow> date_ok e \<Longrightarrow> date_ord d = date_ord e \<longleftrightarrow> d = e"
  by (metis date_of_ord_ord)

lemma days_in_month_pos: "28 \<le> days_in_month y m" "days_in_month y m \<le> 31"
  by (simp_all add: days_in_month_def)

lemma div_step:
  fixes y :: int
  assumes k: "0 < k"
  shows "y div k = (y - 1) div k + (if y mod k = 0 then 1 else 0)"
proof -
  define a where "a = y div k"
  define r where "r = y mod k"
  have y: "y = k * a + r" "0 \<le> r" "r < k" using k by (simp_all add: a_def r_def)
  have "(y - 1) div k = (if r = 0 then a - 1 else a)"
  proof (cases "r = 0")
    case True
    with y have "y - 1 = k * (a - 1) + (k - 1)" by (simp add: algebra_simps)
    moreover have "(k * (a - 1) + (k - 1)) div k = a - 1" using k by (intro div_parts) simp_all
    ultimately show ?thesis using True by metis
  next
    case False
    with y have "y - 1 = k * a + (r - 1)" by simp
    moreover have "(k * a + (r - 1)) div k = a" using y False by (intro div_parts) simp_all
    ultimately show ?thesis using False by metis
  qed
  then show ?thesis by (simp add: a_def r_def)
qed

lemma mod_factor: "(y :: int) mod (k * n) = 0 \<Longrightarrow> y mod k = 0"
  by (metis dvd_mult_left mod_0_imp_dvd dvd_imp_mod_0)

lemma next_year: "days_before_year (y + 1) = days_before_year y + 365 + (if is_leap y then 1 else 0)"
proof -
  have "y mod 100 = 0 \<Longrightarrow> y mod 4 = 0" "y mod 400 = 0 \<Longrightarrow> y mod 100 = 0"
    using mod_factor [of y 4 25] mod_factor [of y 100 4] by simp_all
  then have leap: "(if is_leap y then 1 else 0) = (if y mod 4 = 0 then 1 else 0) - (if y mod 100 = 0 then 1 else 0)
      + (if y mod 400 = 0 then 1 else (0 :: int))"
    unfolding is_leap_def by (cases "y mod 4 = 0"; cases "y mod 100 = 0"; cases "y mod 400 = 0") simp_all
  have sum: "y * 365 + a - b + c = (y - 1) * 365 + a' - b' + c' + 365 + l"
    if "a = a' + i" "b = b' + j" "c = c' + k" "l = i - j + k" for a b c a' b' c' i j k l :: int
    using that by simp
  have "y + 1 - 1 = y" by simp
  then show ?thesis
    unfolding days_before_year_def Let_def
    using sum [OF div_step [of 4 y] div_step [of 100 y] div_step [of 400 y] leap] by simp
qed

lemma december: "days_before_month y 12 + 31 = 365 + (if is_leap y then 1 else 0)"
  by (simp add: month_tables)

lemma january [simp]: "days_before_month y 1 = 0"
  by (simp add: month_tables)

lemma next_day:
  assumes "date_ok d"
  obtains e where "date_ok e" "date_ord e = date_ord d + 1"
proof (cases "d_day d < days_in_month (d_year d) (d_month d)")
  case True
  with assms that [of "d\<lparr>d_day := d_day d + 1\<rparr>"] show thesis by (simp add: date_ok_def date_ord_def ymd2ord_def)
next
  case False
  with assms have last: "d_day d = days_in_month (d_year d) (d_month d)" by (simp add: date_ok_def)
  show thesis
  proof (cases "d_month d < 12")
    case True
    with assms last next_month_before [of "d_month d" "d_year d"] days_in_month_pos
      that [of "d\<lparr>d_month := d_month d + 1, d_day := 1\<rparr>"]
    show thesis by (simp add: date_ok_def date_ord_def ymd2ord_def order_trans [of 1 28])
  next
    case dec: False
    with assms have "d_month d = 12" by (simp add: date_ok_def)
    with last december [of "d_year d"] next_year [of "d_year d"] days_in_month_pos
      that [of "\<lparr>d_year = d_year d + 1, d_month = 1, d_day = 1\<rparr>"]
    show thesis by (simp add: date_ok_def date_ord_def ymd2ord_def order_trans [of 1 28] days_in_month_def)
  qed
qed

lemma day_before:
  assumes "date_ok d"
  obtains e where "date_ok e" "date_ord e + 1 = date_ord d"
proof (cases "d_day d = 1")
  case False
  with assms that [of "d\<lparr>d_day := d_day d - 1\<rparr>"] show thesis by (simp add: date_ok_def date_ord_def ymd2ord_def)
next
  case first: True
  show thesis
  proof (cases "d_month d = 1")
    case False
    with assms first next_month_before [of "d_month d - 1" "d_year d"] days_in_month_pos
      that [of "d\<lparr>d_month := d_month d - 1, d_day := days_in_month (d_year d) (d_month d - 1)\<rparr>"]
    show thesis by (simp add: date_ok_def date_ord_def ymd2ord_def order_trans [of 1 28])
  next
    case True
    with first december [of "d_year d - 1"] next_year [of "d_year d - 1"]
      that [of "\<lparr>d_year = d_year d - 1, d_month = 12, d_day = 31\<rparr>"]
    show thesis by (simp add: date_ok_def date_ord_def ymd2ord_def days_in_month_def)
  qed
qed

lemma ordinal_is_date: "\<exists>d. date_ok d \<and> date_ord d = n"
proof (induction n rule: int_induct [where k = 1])
  case base
  have "date_ok \<lparr>d_year = 1, d_month = 1, d_day = 1\<rparr> \<and> date_ord \<lparr>d_year = 1, d_month = 1, d_day = 1\<rparr> = 1"
    by (simp add: date_ok_def days_in_month_def date_ord_def ymd2ord_def days_before_year_def)
  then show ?case by blast
next
  case (step1 i)
  then show ?case by (metis next_day)
next
  case (step2 i)
  then obtain d where "date_ok d" "date_ord d = i" by blast
  then show ?case using day_before [of d] by (metis add_diff_cancel_right')
qed

lemma date_of_ord_ok [simp]: "date_ok (date_of_ord n)" and date_ord_of_ord [simp]: "date_ord (date_of_ord n) = n"
  using ordinal_is_date [of n] date_of_ord_ord by auto

lemma date_of_ord_iff: "date_ok d \<Longrightarrow> date_of_ord n = d \<longleftrightarrow> n = date_ord d"
  using date_of_ord_ord by fastforce

section \<open>The order of dates\<close>

lemma years_mono: "x \<le> y \<Longrightarrow> days_before_year x \<le> days_before_year y"
proof (induction y rule: int_ge_induct)
  case (step i)
  then show ?case using next_year [of i] by (simp split: if_splits)
qed simp

lemma within_year:
  assumes "date_ok d"
  shows "days_before_year (d_year d) < date_ord d" "date_ord d \<le> days_before_year (d_year d + 1)"
  using assms day_of_year [of "d_month d" "d_day d" "d_year d"] next_year [of "d_year d"]
  by (auto simp: date_ok_def date_ord_def ymd2ord_def split: if_splits)

lemma earlier_year:
  assumes "date_ok d" "date_ok e" "d_year d < d_year e"
  shows "date_ord d < date_ord e"
  using within_year(2) [OF assms(1)] within_year(1) [OF assms(2)] years_mono [of "d_year d + 1" "d_year e"] assms(3)
  by simp

lemma year_bounds:
  assumes "date_ok d" "days_before_year y < date_ord d" "date_ord d \<le> days_before_year (y + 1)"
  shows "d_year d = y"
proof (rule ccontr)
  assume "d_year d \<noteq> y"
  then consider "d_year d + 1 \<le> y" | "y + 1 \<le> d_year d" by linarith
  then show False
    using within_year [OF assms(1)] assms(2,3) years_mono by cases fastforce+
qed

section \<open>Months\<close>

definition first_of :: "date \<Rightarrow> date" where
  "first_of d = d\<lparr>d_day := 1\<rparr>"

definition month_index :: "date \<Rightarrow> int" where
  "month_index d = 12 * d_year d + d_month d - 1"

definition month_start :: "int \<Rightarrow> date" where
  "month_start i = \<lparr>d_year = i div 12, d_month = i mod 12 + 1, d_day = 1\<rparr>"

lemma first_of_ok [simp]: "date_ok d \<Longrightarrow> date_ok (first_of d)"
  using days_in_month_pos [of "d_year d" "d_month d"] by (simp add: date_ok_def first_of_def)

lemma month_start_ok [simp]: "date_ok (month_start i)"
  using days_in_month_pos [of "i div 12" "i mod 12 + 1"] pos_mod_bound [of 12 i] by (auto simp: date_ok_def month_start_def)

lemma first_of_month: "date_ok d \<Longrightarrow> first_of d = month_start (month_index d)"
proof -
  assume "date_ok d"
  then have "0 \<le> d_month d - 1" "d_month d - 1 < 12" by (simp_all add: date_ok_def)
  from div_parts [OF this, of "d_year d"] show ?thesis
    by (simp add: first_of_def month_start_def month_index_def add_diff_eq)
qed

lemma month_index_start [simp]: "month_index (month_start i) = i"
  by (simp add: month_index_def month_start_def)

definition month_length :: "int \<Rightarrow> int" where
  "month_length i = days_in_month (i div 12) (i mod 12 + 1)"

lemma month_length_pos: "28 \<le> month_length i" "month_length i \<le> 31"
  by (simp_all add: month_length_def days_in_month_pos)

lemma month_start_parts:
  assumes "0 \<le> r" "r < 12"
  shows "month_start (12 * a + r) = \<lparr>d_year = a, d_month = r + 1, d_day = 1\<rparr>"
    and "month_length (12 * a + r) = days_in_month a (r + 1)"
  unfolding month_start_def month_length_def div_parts [OF assms] by simp_all

lemma next_month_start: "date_ord (month_start (i + 1)) = date_ord (month_start i) + month_length i"
proof -
  define a where "a = i div 12"
  define r where "r = i mod 12"
  have i: "i = 12 * a + r" "0 \<le> r" "r < 12" by (simp_all add: a_def r_def)
  note this_month = month_start_parts [OF i(2,3), of a, folded i(1)]
  show ?thesis
  proof (cases "r = 11")
    case True
    then have "month_start (i + 1) = month_start (12 * (a + 1) + 0)" by (simp add: i(1) algebra_simps)
    also have "... = \<lparr>d_year = a + 1, d_month = 1, d_day = 1\<rparr>" by (subst month_start_parts) simp_all
    finally show ?thesis using True this_month december [of a] next_year [of a]
      by (simp add: date_ord_def ymd2ord_def days_in_month_def)
  next
    case False
    with i have r: "0 \<le> r + 1" "r + 1 < 12" by simp_all
    have "month_start (i + 1) = month_start (12 * a + (r + 1))" by (simp add: i(1) add.assoc)
    with month_start_parts(1) [OF r, of a] show ?thesis using this_month next_month_before [of "r + 1" a] r i(2)
      by (simp add: date_ord_def ymd2ord_def)
  qed
qed

lemma in_month:
  assumes "date_ord (month_start i) \<le> date_ord d" "date_ord d < date_ord (month_start (i + 1))" "date_ok d"
  shows "first_of d = month_start i"
proof -
  define k where "k = date_ord d - date_ord (month_start i) + 1"
  have k: "1 \<le> k" "k \<le> month_length i" using assms(1,2) next_month_start [of i] by (simp_all add: k_def)
  let ?e = "(month_start i)\<lparr>d_day := k\<rparr>"
  have "date_ok ?e" using k month_start_ok [of i] by (simp add: date_ok_def month_start_def month_length_def)
  moreover have "date_ord ?e = date_ord d" by (simp add: k_def month_start_def date_ord_def ymd2ord_def)
  ultimately have "d = ?e" using assms(3) date_ord_inject by blast
  then show ?thesis by (simp add: first_of_def month_start_def)
qed

lemma date_in_its_month:
  assumes "date_ok d"
  shows "date_ord (month_start (month_index d)) \<le> date_ord d" "date_ord d < date_ord (month_start (month_index d + 1))"
proof -
  have "date_ord d = date_ord (first_of d) + d_day d - 1" by (simp add: date_ord_def ymd2ord_def first_of_def)
  moreover have "d_day d \<le> month_length (month_index d)"
    using assms div_parts [of "d_month d - 1" 12 "d_year d"]
    by (simp add: date_ok_def month_length_def month_index_def add_diff_eq)
  ultimately show "date_ord (month_start (month_index d)) \<le> date_ord d"
    "date_ord d < date_ord (month_start (month_index d + 1))"
    using assms first_of_month [OF assms] next_month_start [of "month_index d"] by (simp_all add: date_ok_def)
qed

end
