(* ===== verification/Periods.thy ===== *)
theory Periods
  imports Calendar Web
begin

text \<open>
  Reporting periods and the filter on units (\<open>manager/api/periods.py\<close>): what every report of the
  manager reads its interval and its scope from. A period is answered as its first day, the day
  after its last, and a label. Today's date is an argument; days before year 1 or after year 9999
  raise, as in Python. \<open>aware\<close> and \<open>parseInstant\<close>, which read the local time zone, are in Call_Search.
\<close>

section \<open>Dates\<close>

definition overflow :: exn where
  "overflow = OtherError ''OverflowError''"

text \<open>\<open>d + timedelta(days=k)\<close>, \<open>date(y, m, d)\<close> and \<open>d.replace(day=k)\<close>.\<close>

definition plus_days :: "int \<Rightarrow> date \<Rightarrow> exn + date" where
  "plus_days k d = (let n = date_ord d + k in if 1 \<le> n \<and> n \<le> 3652059 then Inr (date_of_ord n) else Inl overflow)"

definition make_date :: "int \<Rightarrow> int \<Rightarrow> int \<Rightarrow> exn + date" where
  "make_date y m d =
     (if valid_ymd y m d then Inr \<lparr>d_year = y, d_month = m, d_day = d\<rparr> else Inl (ValueError ''date''))"

definition replace_day :: "int \<Rightarrow> date \<Rightarrow> exn + date" where
  "replace_day k d = make_date (d_year d) (d_month d) k"

section \<open>Periods\<close>

text \<open>The loop of \<open>window\<close> runs a given number of times.\<close>

fun months_back :: "nat \<Rightarrow> date \<Rightarrow> exn + date" where
  "months_back 0 first = Inr first"
| "months_back (Suc n) first = bindE (plus_days (- 1) first) (\<lambda>d. bindE (replace_day 1 d) (months_back n))"

definition window :: "int \<Rightarrow> date \<Rightarrow> exn + date" where
  "window months today = bindE (replace_day 1 today) (months_back (nat (months - 1)))"

definition previousMonth :: "date \<Rightarrow> exn + date" where
  "previousMonth today =
     bindE (replace_day 1 today) (\<lambda>f. bindE (plus_days (- 1) f) (replace_day 1))"

definition nextMonth :: "date \<Rightarrow> exn + date" where
  "nextMonth first = bindE (replace_day 28 first) (\<lambda>d. bindE (plus_days 7 d) (replace_day 1))"

definition checkedYear :: "int \<Rightarrow> exn + int" where
  "checkedYear year =
     (if 1970 \<le> year \<and> year \<le> 2100 then Inr year else Inl (HTTPException 400 ''year out of range (1970-2100)''))"

definition PERIODS :: "string list" where
  "PERIODS = [''today'', ''week'', ''last_week'', ''month'', ''last_month'', ''year'', ''last_year'']"

type_synonym day_span = "date \<times> date \<times> string"

definition month_from :: "date \<Rightarrow> exn + day_span" where
  "month_from first = bindE (nextMonth first) (\<lambda>u. Inr (first, u, take 7 (date_iso first)))"

definition week_from :: "date \<Rightarrow> exn + day_span" where
  "week_from first = bindE (plus_days 7 first) (\<lambda>u. Inr (first, u, ''week of '' @ date_iso first))"

definition year_from :: "int \<Rightarrow> string \<Rightarrow> exn + day_span" where
  "year_from y label = bindE (make_date y 1 1) (\<lambda>s. bindE (make_date (y + 1) 1 1) (\<lambda>u. Inr (s, u, label)))"

text \<open>\<open>re.fullmatch\<close> of a year and of a month.\<close>

definition year_text :: "string \<Rightarrow> bool" where
  "year_text p = (length p = 4 \<and> (\<forall>c \<in> set p. is_digit c))"

definition month_text :: "string \<Rightarrow> bool" where
  "month_text p = (length p = 7 \<and> p ! 4 = CHR ''-'' \<and> (\<forall>c \<in> set (take 4 p @ drop 5 p). is_digit c))"

definition resolvePeriod :: "string option \<Rightarrow> date \<Rightarrow> exn + day_span" where
  "resolvePeriod period today =
     (let p = (case period of None \<Rightarrow> [] | Some s \<Rightarrow> s) in
      if p = [] \<or> p = ''last_month'' then bindE (previousMonth today) month_from
      else if p = ''today'' then bindE (plus_days 1 today) (\<lambda>u. Inr (today, u, date_iso today))
      else if p = ''week'' then bindE (plus_days (- weekday today) today) week_from
      else if p = ''last_week'' then bindE (plus_days (- (weekday today + 7)) today) week_from
      else if p = ''month'' then bindE (replace_day 1 today) month_from
      else if p = ''year'' then year_from (d_year today) (int_str (d_year today))
      else if p = ''last_year'' then year_from (d_year today - 1) (int_str (d_year today - 1))
      else if year_text p then bindE (checkedYear (int (digits_val p))) (\<lambda>y. year_from y p)
      else if month_text p then
        (let year = int (digits_val (take 4 p)); month = int (digits_val (drop 5 p)) in
         if \<not> (1 \<le> month \<and> month \<le> 12) then Inl (HTTPException 400 ''month out of range'')
         else bindE (checkedYear year) (\<lambda>y. bindE (make_date y month 1) (\<lambda>first.
              bindE (nextMonth first) (\<lambda>u. Inr (first, u, p)))))
      else Inl (HTTPException 400 (''period must be YYYY-MM, YYYY or one of '' @ str_join '', '' PERIODS)))"

section \<open>The scope of a report\<close>

text \<open>The fragment of SQL a filter is, with its parameters, and the units it keeps.\<close>

datatype unit_clause = Named "string list" | Unassigned

definition clause_sql :: "unit_clause \<Rightarrow> string" where
  "clause_sql c = (case c of Named _ \<Rightarrow> ''org_unit = ANY(%s)'' | Unassigned \<Rightarrow> ''org_unit IS NULL'')"

definition clause_params :: "unit_clause \<Rightarrow> string list list" where
  "clause_params c = (case c of Named us \<Rightarrow> [us] | Unassigned \<Rightarrow> [])"

definition clause_keeps :: "string option \<Rightarrow> unit_clause \<Rightarrow> bool" where
  "clause_keeps u c = (case c of Named us \<Rightarrow> u \<in> Some ` set us | Unassigned \<Rightarrow> u = None)"

definition wanted_units :: "string \<Rightarrow> string list" where
  "wanted_units units = filter (\<lambda>u. u \<noteq> []) (map str_strip (str_split '','' units))"

definition unit_clauses :: "string option \<Rightarrow> unit_clause list" where
  "unit_clauses units =
     (let wanted = (case units of None \<Rightarrow> [] | Some s \<Rightarrow> if s = [] then [] else wanted_units s);
          named = filter (\<lambda>u. u \<noteq> ''(unassigned)'') wanted
      in (if named = [] then [] else [Named named]) @ (if length named \<noteq> length wanted then [Unassigned] else []))"

definition unitFilter :: "string option \<Rightarrow> string \<times> string list list" where
  "unitFilter units =
     (case unit_clauses units of
        [] \<Rightarrow> ([], [])
      | cs \<Rightarrow> ('' AND ('' @ str_join '' OR '' (map clause_sql cs) @ '')'', concat (map clause_params cs)))"

definition keeps :: "string option \<Rightarrow> string option \<Rightarrow> bool" where
  "keeps units u = (unit_clauses units = [] \<or> (\<exists>c \<in> set (unit_clauses units). clause_keeps u c))"

definition USER_CALLS :: string where
  "USER_CALLS = '' AND is_user_call(main_app)''"

definition callScope :: "string option \<Rightarrow> string \<times> string list list" where
  "callScope units = (case unitFilter units of (w, ps) \<Rightarrow> (USER_CALLS @ w, ps))"

end
