(* ===== verification/Periods_Props.thy ===== *)
theory Periods_Props
  imports Periods
begin

text \<open>
  The reporting periods: every period is a span of whole days in the calendar, the current week,
  month and year hold today and begin where the previous ones end, and months tile years.
\<close>

section \<open>Steps of the calendar\<close>

lemma first_ord: "days_before_year 1 = 0" "days_before_year 10000 = 3652059"
  by (simp_all add: days_before_year_def)

lemma ord_range:
  assumes "date_ok d"
  shows "1 \<le> date_ord d \<and> date_ord d \<le> 3652059 \<longleftrightarrow> 1 \<le> d_year d \<and> d_year d \<le> 9999"
proof -
  have "1 \<le> d_year d \<longleftrightarrow> 1 \<le> date_ord d"
    using within_year [OF assms] years_mono [of 1 "d_year d"] years_mono [of "d_year d + 1" 1] first_ord
    by (cases "1 \<le> d_year d") auto
  moreover have "d_year d \<le> 9999 \<longleftrightarrow> date_ord d \<le> 3652059"
    using within_year [OF assms] years_mono [of 10000 "d_year d"] years_mono [of "d_year d + 1" 10000] first_ord
    by (cases "d_year d \<le> 9999") auto
  ultimately show ?thesis by blast
qed

lemma plus_days_date:
  assumes "date_ok e" "date_ord e = date_ord d + k" "1 \<le> d_year e" "d_year e \<le> 9999"
  shows "plus_days k d = Inr e"
  using ord_range [OF assms(1)] assms by (simp add: plus_days_def Let_def date_of_ord_iff)

lemma replace_first:
  "date_ok d \<Longrightarrow> 1 \<le> d_year d \<Longrightarrow> d_year d \<le> 9999 \<Longrightarrow> replace_day 1 d = Inr (first_of d)"
  using first_of_ok [of d] by (simp add: replace_day_def make_date_def valid_ymd_def date_ok_def first_of_def)

lemma month_start_year [simp]: "d_year (month_start i) = i div 12"
  by (simp add: month_start_def)

lemma first_year: "d_year (first_of d) = d_year d"
  by (simp add: first_of_def)

lemma nextMonth_start:
  assumes "12 \<le> i" "i < 12 * 9999 + 11"
  shows "nextMonth (month_start i) = Inr (month_start (i + 1))"
proof -
  let ?d = "(month_start i)\<lparr>d_day := 28\<rparr>"
  have y: "1 \<le> i div 12" "i div 12 \<le> 9999" using assms by simp_all
  have d: "date_ok ?d" using month_start_ok [of i] month_length_pos [of i]
    by (simp add: date_ok_def month_start_def month_length_def)
  have r28: "replace_day 28 (month_start i) = Inr ?d"
    using d y by (simp add: replace_day_def make_date_def valid_ymd_def date_ok_def month_start_def)
  define e where "e = date_of_ord (date_ord ?d + 7)"
  have "date_ord ?d = date_ord (month_start i) + 27" by (simp add: date_ord_def ymd2ord_def month_start_def)
  then have "date_ord e = date_ord (month_start i) + 34" by (simp add: e_def)
  then have "first_of e = month_start (i + 1)"
    using next_month_start [of i] next_month_start [of "i + 1"] month_length_pos [of i] month_length_pos [of "i + 1"]
    by (intro in_month) (simp_all add: e_def)
  moreover from this have ey: "d_year e = (i + 1) div 12" by (metis first_year month_start_year)
  moreover have "1 \<le> (i + 1) div 12" "(i + 1) div 12 \<le> 9999" using assms by simp_all
  moreover from this ey have "plus_days 7 ?d = Inr e" by (intro plus_days_date) (simp_all add: e_def)
  ultimately show ?thesis by (simp add: nextMonth_def r28 replace_first e_def)
qed

lemma month_before:
  assumes "13 \<le> i" "i \<le> 12 * 9999 + 12"
  obtains e where "plus_days (- 1) (month_start i) = Inr e" "replace_day 1 e = Inr (month_start (i - 1))"
proof -
  define e where "e = date_of_ord (date_ord (month_start i) - 1)"
  have first: "first_of e = month_start (i - 1)"
    using next_month_start [of "i - 1"] month_length_pos [of "i - 1"] by (intro in_month) (simp_all add: e_def)
  then have "d_year e = (i - 1) div 12" by (metis first_year month_start_year)
  moreover have "1 \<le> (i - 1) div 12" "(i - 1) div 12 \<le> 9999" using assms by simp_all
  ultimately have y: "1 \<le> d_year e" "d_year e \<le> 9999" by simp_all
  then have "plus_days (- 1) (month_start i) = Inr e" by (intro plus_days_date) (simp_all add: e_def)
  moreover have "replace_day 1 e = Inr (month_start (i - 1))" using replace_first [OF _ y] first by (simp add: e_def)
  ultimately show thesis by (rule that)
qed

lemma previousMonth_start:
  assumes "valid_date d" "2 \<le> d_year d"
  shows "previousMonth d = Inr (month_start (month_index d - 1))"
proof -
  have "13 \<le> month_index d \<and> month_index d \<le> 12 * 9999 + 12"
    using assms by (simp add: valid_date_iff date_ok_def month_index_def)
  then obtain e where "plus_days (- 1) (month_start (month_index d)) = Inr e" "replace_day 1 e = Inr (month_start (month_index d - 1))"
    using month_before by blast
  then show ?thesis
    using assms by (simp add: previousMonth_def replace_first valid_date_iff first_of_month)
qed

lemma months_back_start:
  assumes "12 + int n \<le> i" "i \<le> 12 * 9999 + 12"
  shows "months_back n (month_start i) = Inr (month_start (i - int n))"
  using assms
proof (induction n arbitrary: i)
  case (Suc n)
  have "13 \<le> i" using Suc.prems by simp
  then obtain e where "plus_days (- 1) (month_start i) = Inr e" "replace_day 1 e = Inr (month_start (i - 1))"
    using month_before Suc.prems(2) by blast
  with Suc.IH [of "i - 1"] Suc.prems show ?case by (simp add: algebra_simps)
qed simp

text \<open>
  The window of the reports starts at the first day of the month that many months back, the
  current one included: the loop of days agrees with counting months.
\<close>
theorem window_counts_months:
  assumes "valid_date today" "1 \<le> months" "months \<le> 12 * (d_year today - 1)"
  shows "window months today = Inr (month_start (month_index today - (months - 1)))"
proof -
  have "12 + (months - 1) \<le> month_index today" "month_index today \<le> 12 * 9999 + 12"
    using assms by (simp_all add: valid_date_iff date_ok_def month_index_def)
  with assms(1,2) months_back_start [of "nat (months - 1)" "month_index today"] show ?thesis
    by (simp add: window_def replace_first valid_date_iff first_of_month)
qed

lemma window_counts_months_witness:
  "window 3 \<lparr>d_year = 2026, d_month = 1, d_day = 31\<rparr> = Inr \<lparr>d_year = 2025, d_month = 11, d_day = 1\<rparr>"
  using window_counts_months [of "\<lparr>d_year = 2026, d_month = 1, d_day = 31\<rparr>" 3]
  by (simp add: valid_date_def valid_ymd_def days_in_month_def month_index_def month_start_def)

section \<open>Periods\<close>

lemma edge_years: "days_before_year 2 = 365" "days_before_year 9999 = 3651694"
  by (simp_all add: days_before_year_def)

lemma plus_days_near:
  assumes "valid_date d" "1 < d_year d" "d_year d < 9999" "\<bar>k\<bar> \<le> 365"
  shows "plus_days k d = Inr (date_of_ord (date_ord d + k))" "valid_date (date_of_ord (date_ord d + k))"
proof -
  have "365 < date_ord d" "date_ord d \<le> 3651694"
    using assms(1-3) within_year [of d] years_mono [of 2 "d_year d"] years_mono [of "d_year d + 1" 9999] edge_years
    by (auto simp: valid_date_iff)
  with assms(4) have r: "1 \<le> date_ord d + k" "date_ord d + k \<le> 3652059" by linarith+
  then show "plus_days k d = Inr (date_of_ord (date_ord d + k))" by (simp add: plus_days_def Let_def)
  show "valid_date (date_of_ord (date_ord d + k))"
    using ord_range [OF date_of_ord_ok, of "date_ord d + k"] r by (simp add: valid_date_iff)
qed

lemma valid_month_start: "12 \<le> i \<Longrightarrow> i < 12 * 10000 \<Longrightarrow> valid_date (month_start i)"
proof -
  assume "12 \<le> i" "i < 12 * 10000"
  then have "1 \<le> i div 12" "i div 12 \<le> 9999" by simp_all
  then show ?thesis by (simp add: valid_date_iff)
qed

lemma month_index_range:
  "valid_date d \<Longrightarrow> 1 < d_year d \<Longrightarrow> d_year d < 9999 \<Longrightarrow> 24 \<le> month_index d \<and> month_index d < 12 * 9999"
  by (simp add: valid_date_iff date_ok_def month_index_def)

lemma month_from_start:
  "12 \<le> i \<Longrightarrow> i < 12 * 9999 + 11 \<Longrightarrow>
     month_from (month_start i) = Inr (month_start i, month_start (i + 1), take 7 (date_iso (month_start i)))"
  by (simp add: month_from_def nextMonth_start)

lemma week_of:
  assumes "valid_date d" "1 < d_year d" "d_year d < 9999" "0 \<le> j" "j \<le> 14"
  shows "bindE (plus_days (- j) d) week_from =
    (let s = date_of_ord (date_ord d - j) in Inr (s, date_of_ord (date_ord d - j + 7), ''week of '' @ date_iso s))"
proof -
  have "plus_days (- j) d = Inr (date_of_ord (date_ord d - j))" using plus_days_near(1) [OF assms(1-3), of "- j"] assms(4,5) by simp
  moreover have "plus_days 7 (date_of_ord (date_ord d - j)) = Inr (date_of_ord (date_ord d - j + 7))"
  proof (intro plus_days_date)
    have "valid_date (date_of_ord (date_ord d + (7 - j)))" using plus_days_near(2) [OF assms(1-3)] assms(4,5) by simp
    then show "1 \<le> d_year (date_of_ord (date_ord d - j + 7))" "d_year (date_of_ord (date_ord d - j + 7)) \<le> 9999"
      by (simp_all add: valid_date_iff algebra_simps)
  qed simp_all
  ultimately show ?thesis by (simp add: week_from_def Let_def)
qed

lemma year_span:
  "1 \<le> y \<Longrightarrow> y < 9999 \<Longrightarrow> year_from y l = Inr (month_start (12 * y), month_start (12 * (y + 1)), l)"
  by (simp add: year_from_def make_date_def valid_ymd_def days_in_month_def month_start_def)

lemma named_periods:
  assumes "valid_date today" "1 < d_year today" "d_year today < 9999"
  defines "n \<equiv> date_ord today - weekday today" and "i \<equiv> month_index today" and "y \<equiv> d_year today"
  shows "resolvePeriod (Some ''week'') today = Inr (date_of_ord n, date_of_ord (n + 7), ''week of '' @ date_iso (date_of_ord n))"
    and "resolvePeriod (Some ''last_week'') today = Inr (date_of_ord (n - 7), date_of_ord n, ''week of '' @ date_iso (date_of_ord (n - 7)))"
    and "resolvePeriod (Some ''month'') today = Inr (month_start i, month_start (i + 1), take 7 (date_iso (month_start i)))"
    and "resolvePeriod (Some ''last_month'') today = Inr (month_start (i - 1), month_start i, take 7 (date_iso (month_start (i - 1))))"
    and "resolvePeriod (Some ''year'') today = Inr (month_start (12 * y), month_start (12 * (y + 1)), int_str y)"
    and "resolvePeriod (Some ''last_year'') today = Inr (month_start (12 * (y - 1)), month_start (12 * y), int_str (y - 1))"
proof -
  have w: "0 \<le> weekday today" "weekday today < 7" by (simp_all add: weekday_def)
  have i: "24 \<le> i" "i < 12 * 9999" using month_index_range [OF assms(1-3)] by (simp_all add: i_def)
  show "resolvePeriod (Some ''week'') today = Inr (date_of_ord n, date_of_ord (n + 7), ''week of '' @ date_iso (date_of_ord n))"
    using week_of [OF assms(1-3) w(1)] w(2) by (simp add: resolvePeriod_def n_def Let_def)
  show "resolvePeriod (Some ''last_week'') today = Inr (date_of_ord (n - 7), date_of_ord n, ''week of '' @ date_iso (date_of_ord (n - 7)))"
    using week_of [OF assms(1-3), of "weekday today + 7"] w by (simp add: resolvePeriod_def n_def Let_def algebra_simps)
  show "resolvePeriod (Some ''month'') today = Inr (month_start i, month_start (i + 1), take 7 (date_iso (month_start i)))"
    using assms(1-3) month_from_start [of i] i
    by (simp add: resolvePeriod_def Let_def replace_first valid_date_iff first_of_month i_def)
  show "resolvePeriod (Some ''last_month'') today = Inr (month_start (i - 1), month_start i, take 7 (date_iso (month_start (i - 1))))"
    using assms(1-3) month_from_start [of "i - 1"] i
    by (simp add: resolvePeriod_def Let_def previousMonth_start i_def)
  show "resolvePeriod (Some ''year'') today = Inr (month_start (12 * y), month_start (12 * (y + 1)), int_str y)"
    using assms(2,3) by (simp add: resolvePeriod_def Let_def year_span y_def)
  show "resolvePeriod (Some ''last_year'') today = Inr (month_start (12 * (y - 1)), month_start (12 * y), int_str (y - 1))"
    using assms(2,3) year_span [of "y - 1"] by (simp add: resolvePeriod_def Let_def y_def)
qed

lemma month_start_less: "i < j \<Longrightarrow> date_ord (month_start i) < date_ord (month_start j)"
proof (induction j rule: int_gr_induct)
  case base
  then show ?case using next_month_start [of i] month_length_pos [of i] by simp
next
  case (step j)
  then show ?case using next_month_start [of j] month_length_pos [of j] by simp
qed

text \<open>
  The current week, month and year hold today and begin on the day after the previous one's
  last: the two reports share no day and leave none out.
\<close>
theorem current_follows_last:
  assumes "valid_date today" "1 < d_year today" "d_year today < 9999" "p \<in> {''week'', ''month'', ''year''}"
  shows "\<exists>s m u l l'. resolvePeriod (Some (''last_'' @ p)) today = Inr (s, m, l) \<and> resolvePeriod (Some p) today = Inr (m, u, l')
    \<and> date_ord s < date_ord m \<and> date_ord m \<le> date_ord today \<and> date_ord today < date_ord u"
proof -
  note named = named_periods [OF assms(1-3)]
  let ?i = "month_index today"
  have d: "date_ok today" using assms(1) by (simp add: valid_date_iff)
  have m: "0 \<le> d_month today - 1" "d_month today - 1 < 12" using d by (simp_all add: date_ok_def)
  have y: "12 * d_year today \<le> ?i" "?i + 1 \<le> 12 * (d_year today + 1)" using m by (simp_all add: month_index_def)
  consider "p = ''week''" | "p = ''month''" | "p = ''year''" using assms(4) by blast
  then show ?thesis
  proof cases
    case 1
    then show ?thesis using named(1,2) by (simp add: weekday_def)
  next
    case 2
    then show ?thesis using named(3,4) date_in_its_month [OF d] month_start_less [of "?i - 1" ?i] by simp
  next
    case 3
    have "date_ord (month_start (12 * d_year today)) \<le> date_ord (month_start ?i)"
      "date_ord (month_start (?i + 1)) \<le> date_ord (month_start (12 * (d_year today + 1)))"
      using y month_start_less by (metis order.order_iff_strict)+
    then show ?thesis
      using 3 named(5,6) date_in_its_month [OF d] month_start_less [of "12 * (d_year today - 1)" "12 * d_year today"] by simp
  qed
qed

lemma current_follows_last_witness:
  "\<exists>s m u l l'. resolvePeriod (Some ''last_month'') \<lparr>d_year = 2026, d_month = 1, d_day = 31\<rparr> = Inr (s, m, l)
     \<and> resolvePeriod (Some ''month'') \<lparr>d_year = 2026, d_month = 1, d_day = 31\<rparr> = Inr (m, u, l') \<and> date_ord s < date_ord m"
  using current_follows_last [of "\<lparr>d_year = 2026, d_month = 1, d_day = 31\<rparr>" "''month''"]
  by (auto simp: valid_date_def valid_ymd_def days_in_month_def)

section \<open>Months and years by name\<close>

definition month_label :: "int \<Rightarrow> int \<Rightarrow> string" where
  "month_label y m = pad_nat 4 (nat y) @ ''-'' @ pad_nat 2 (nat m)"

lemma year_text_pad: "y < 10000 \<Longrightarrow> year_text (pad_nat 4 y)"
  using pad_nat_digits length_pad_nat [of y 4] by (auto simp: year_text_def)

lemma named_not_digit: "p \<noteq> [] \<Longrightarrow> is_digit (hd p) \<Longrightarrow>
  p \<noteq> ''last_month'' \<and> p \<noteq> ''today'' \<and> p \<noteq> ''week'' \<and> p \<noteq> ''last_week'' \<and> p \<noteq> ''month'' \<and> p \<noteq> ''year'' \<and> p \<noteq> ''last_year''"
  by (auto simp: is_digit_def)

lemma pad_hd: "n < 10 ^ w \<Longrightarrow> 0 < w \<Longrightarrow> pad_nat w n \<noteq> [] \<and> is_digit (hd (pad_nat w n))"
  using length_pad_nat [of n w] pad_nat_digits [of "hd (pad_nat w n)" w n] by (cases "pad_nat w n") auto

lemma resolve_year:
  assumes "1970 \<le> y" "y \<le> 2100"
  shows "resolvePeriod (Some (pad_nat 4 (nat y))) today = Inr (month_start (12 * y), month_start (12 * (y + 1)), pad_nat 4 (nat y))"
proof -
  have "nat y < 10 ^ 4" using assms by simp
  then have p: "pad_nat 4 (nat y) \<noteq> []" "is_digit (hd (pad_nat 4 (nat y)))" "year_text (pad_nat 4 (nat y))"
    using pad_hd [of "nat y" 4] year_text_pad [of "nat y"] by simp_all
  show ?thesis using named_not_digit [OF p(1,2)] p assms by (simp add: resolvePeriod_def Let_def checkedYear_def year_span)
qed

lemma month_text_label:
  assumes "1970 \<le> y" "y \<le> 2100" "1 \<le> m" "m \<le> 12"
  shows "month_text (month_label y m)" "\<not> year_text (month_label y m)" "digits_val (take 4 (month_label y m)) = nat y"
    "digits_val (drop 5 (month_label y m)) = nat m" "month_label y m \<noteq> []" "is_digit (hd (month_label y m))"
proof -
  have y: "length (pad_nat 4 (nat y)) = 4" using assms length_pad_nat [of "nat y" 4] by simp
  have m: "length (pad_nat 2 (nat m)) = 2" using assms length_pad_nat [of "nat m" 2] by simp
  have "drop 5 (pad_nat 4 (nat y)) = []" using y by simp
  then show "month_text (month_label y m)" "digits_val (take 4 (month_label y m)) = nat y"
    "digits_val (drop 5 (month_label y m)) = nat m"
    using y m pad_nat_digits by (auto simp: month_text_def month_label_def nth_append)
  show "\<not> year_text (month_label y m)" using y m by (simp add: year_text_def month_label_def)
  show "month_label y m \<noteq> []" "is_digit (hd (month_label y m))"
    using pad_hd [of "nat y" 4] assms by (simp_all add: month_label_def)
qed

lemma first_of_named_month:
  assumes "1970 \<le> y" "y \<le> 2100" "1 \<le> m" "m \<le> 12"
  shows "make_date y m 1 = Inr (month_start (12 * y + m - 1))" "nextMonth (month_start (12 * y + m - 1)) = Inr (month_start (12 * y + m))"
proof -
  show "make_date y m 1 = Inr (month_start (12 * y + m - 1))"
    using assms div_parts [of "m - 1" 12 y] days_in_month_pos [of y m]
    by (simp add: make_date_def valid_ymd_def month_start_def add_diff_eq)
  show "nextMonth (month_start (12 * y + m - 1)) = Inr (month_start (12 * y + m))"
    using assms nextMonth_start [of "12 * y + m - 1"] by simp
qed

lemma resolve_month:
  assumes "1970 \<le> y" "y \<le> 2100" "1 \<le> m" "m \<le> 12"
  shows "resolvePeriod (Some (month_label y m)) today =
    Inr (month_start (12 * y + m - 1), month_start (12 * y + m), month_label y m)"
proof -
  note p = month_text_label [OF assms]
  show ?thesis
    using named_not_digit [OF p(5,6)] p first_of_named_month [OF assms] assms by (simp add: resolvePeriod_def Let_def checkedYear_def)
qed

text \<open>
  The twelve months of a year, asked by name, tile the year asked by name: the first begins with
  it, the last ends with it, and each ends where the next begins.
\<close>
theorem months_tile_the_year:
  assumes "1970 \<le> y" "y \<le> 2100"
  shows "\<exists>ends. resolvePeriod (Some (pad_nat 4 (nat y))) today = Inr (ends 0, ends 12, pad_nat 4 (nat y))
    \<and> (\<forall>m \<in> {1..12}. resolvePeriod (Some (month_label y m)) today = Inr (ends (m - 1), ends m, month_label y m)
         \<and> date_ord (ends (m - 1)) < date_ord (ends m))"
  using assms resolve_year resolve_month month_start_less
  by (intro exI [of _ "\<lambda>m. month_start (12 * y + m)"]) (auto simp: algebra_simps)

lemma months_tile_the_year_witness:
  "\<exists>ends. resolvePeriod (Some ''2024'') \<lparr>d_year = 2026, d_month = 1, d_day = 31\<rparr> = Inr (ends 0, ends (12 :: int), ''2024'')
    \<and> resolvePeriod (Some ''2024-02'') \<lparr>d_year = 2026, d_month = 1, d_day = 31\<rparr> = Inr (ends 1, ends 2, ''2024-02'')"
proof -
  let ?d = "\<lparr>d_year = 2026, d_month = 1, d_day = 31\<rparr>"
  have labels: "pad_nat 4 (nat 2024) = ''2024''" "month_label 2024 2 = ''2024-02''" by code_simp+
  obtain ends where year: "resolvePeriod (Some (pad_nat 4 (nat 2024))) ?d = Inr (ends 0, ends 12, pad_nat 4 (nat 2024))"
    and months: "\<forall>m \<in> {1..12}. resolvePeriod (Some (month_label 2024 m)) ?d = Inr (ends (m - 1), ends m, month_label 2024 m)
       \<and> date_ord (ends (m - 1)) < date_ord (ends m)"
    using months_tile_the_year [of 2024 ?d] by auto
  from bspec [OF months, of 2] year show ?thesis by (intro exI [of _ ends]) (simp add: labels labels(1) [simplified])
qed

section \<open>What is answered\<close>

lemma other_periods:
  assumes "q \<notin> {[], ''last_month'', ''today'', ''week'', ''last_week'', ''month'', ''year'', ''last_year''}"
  shows "resolvePeriod (Some q) today =
      (if year_text q then bindE (checkedYear (int (digits_val q))) (\<lambda>y. year_from y q)
       else if month_text q then
        (let year = int (digits_val (take 4 q)); month = int (digits_val (drop 5 q)) in
         if \<not> (1 \<le> month \<and> month \<le> 12) then Inl (HTTPException 400 ''month out of range'')
         else bindE (checkedYear year) (\<lambda>y. bindE (make_date y month 1) (\<lambda>first.
              bindE (nextMonth first) (\<lambda>u. Inr (first, u, q)))))
       else Inl (HTTPException 400 (''period must be YYYY-MM, YYYY or one of '' @ str_join '', '' PERIODS)))"
  using assms by (simp add: resolvePeriod_def)

lemma today_period: "resolvePeriod (Some ''today'') today = bindE (plus_days 1 today) (\<lambda>u. Inr (today, u, date_iso today))"
  by (simp add: resolvePeriod_def)

lemma default_period: "resolvePeriod (Some []) today = resolvePeriod (Some ''last_month'') today"
  by (simp add: resolvePeriod_def)

text \<open>
  Whatever text is asked, the answer is a span of at least one day between two dates of the
  calendar, or a 400: no other exception leaves \<open>resolvePeriod\<close>.
\<close>
theorem period_or_bad_request:
  assumes "valid_date today" "1 < d_year today" "d_year today < 9999"
  shows "case resolvePeriod p today of
      Inr (s, u, l) \<Rightarrow> valid_date s \<and> valid_date u \<and> date_ord s < date_ord u
    | Inl e \<Rightarrow> \<exists>m. e = HTTPException 400 m"
proof -
  note named = named_periods [OF assms]
  note range = month_index_range [OF assms]
  have w: "0 \<le> weekday today" "weekday today < 7" by (simp_all add: weekday_def)
  define q where "q = (case p of None \<Rightarrow> [] | Some s \<Rightarrow> s)"
  have q: "resolvePeriod p today = resolvePeriod (Some q) today" by (cases p) (simp_all add: resolvePeriod_def q_def)
  consider "q = [] \<or> q = ''last_month''" | "q = ''today''" | "q = ''week''" | "q = ''last_week''" | "q = ''month''"
    | "q = ''year''" | "q = ''last_year''" | "q \<notin> {[], ''last_month'', ''today'', ''week'', ''last_week'', ''month'', ''year'', ''last_year''}"
    unfolding insert_iff empty_iff by satx
  then show ?thesis
  proof cases
    case 1
    then have "resolvePeriod (Some q) today = resolvePeriod (Some ''last_month'') today" using default_period by blast
    then show ?thesis using range month_start_less [of "month_index today - 1" "month_index today"]
      by (simp add: q named(4) valid_month_start)
  next
    case 2
    then show ?thesis using plus_days_near [OF assms, of 1] assms(1) by (simp add: q today_period)
  next
    case 3
    then show ?thesis using plus_days_near(2) [OF assms, of "- weekday today"] plus_days_near(2) [OF assms, of "7 - weekday today"] w
      by (simp add: q named(1) algebra_simps)
  next
    case 4
    then show ?thesis using plus_days_near(2) [OF assms, of "- weekday today"] plus_days_near(2) [OF assms, of "- weekday today - 7"] w
      by (simp add: q named(2) algebra_simps)
  next
    case 5
    then show ?thesis using range month_start_less [of "month_index today" "month_index today + 1"]
      by (simp add: q named(3) valid_month_start)
  next
    case 6
    then show ?thesis using assms month_start_less [of "12 * d_year today" "12 * (d_year today + 1)"]
      by (simp add: q named(5) valid_month_start)
  next
    case 7
    then show ?thesis using assms month_start_less [of "12 * (d_year today - 1)" "12 * d_year today"]
      by (simp add: q named(6) valid_month_start)
  next
    case 8
    note other = other_periods [OF 8, of today]
    show ?thesis
    proof (cases "year_text q")
      case True
      then show ?thesis using month_start_less [of "12 * int (digits_val q)" "12 * (int (digits_val q) + 1)"]
        unfolding q other by (auto simp: checkedYear_def year_span valid_month_start)
    next
      case False
      let ?y = "int (digits_val (take 4 q))" and ?m = "int (digits_val (drop 5 q))"
      show ?thesis
      proof (cases "month_text q \<and> 1 \<le> ?m \<and> ?m \<le> 12 \<and> 1970 \<le> ?y \<and> ?y \<le> 2100")
        case True
        then show ?thesis using False first_of_named_month [of ?y ?m] month_start_less [of "12 * ?y + ?m - 1" "12 * ?y + ?m"]
          unfolding q other by (simp add: Let_def checkedYear_def valid_month_start)
      next
        case bad: False
        then show ?thesis using False unfolding q other by (auto simp: Let_def checkedYear_def)
      qed
    qed
  qed
qed

lemma period_or_bad_request_witness:
  "case resolvePeriod (Some ''2024-13'') \<lparr>d_year = 2026, d_month = 1, d_day = 31\<rparr> of
      Inr (s, u, l) \<Rightarrow> valid_date s \<and> valid_date u \<and> date_ord s < date_ord u
    | Inl e \<Rightarrow> \<exists>m. e = HTTPException 400 m"
proof -
  have "valid_date \<lparr>d_year = 2026, d_month = 1, d_day = 31\<rparr>" by code_simp
  then show ?thesis by (rule period_or_bad_request) simp_all
qed

end
