(* ===== verification/Org_Units.thy ===== *)
theory Org_Units
  imports Account_Routes "HOL-Library.Option_ord"
begin

text \<open>
  Organisational units and the rules that attach a caller to one (\<open>manager/api/org_units.py\<close>, with
  the tables and functions of \<open>manager/db/schema_org_units.sql\<close> its statements call). A route is
  guarded by the console's session and acts on the tables, so the world is the pair of both. An
  audit line keeps the rows it is made of instead of their JSON; who last touched a rule and when
  (\<open>updated_by\<close>, \<open>updated_at\<close>) is left out, as are \<open>parent_code\<close> and \<open>priority\<close>, which no route reads. A rule of type
  \<open>regex\<close> is matched by \<open>rx\<close>, an argument: the database's own regular expressions.
\<close>

section \<open>Tables\<close>

record org_unit =
  ou_code :: string
  ou_label :: string
  ou_active :: bool

record org_rule =
  or_id :: int
  or_unit :: string
  or_field :: string
  or_match :: string
  or_pattern :: string
  or_description :: string
  or_active :: bool
  or_position :: "int option"

record org_call =
  oc_id :: int
  oc_uri :: "string option"
  oc_number :: "string option"
  oc_domain :: "string option"
  oc_name :: "string option"
  oc_unit :: "string option"

datatype org_detail =
    Unit_created org_unit
  | Unit_changed org_unit org_unit
  | Rule_created org_rule
  | Rule_changed org_rule org_rule
  | Rule_deleted org_rule
  | Rules_ordered "int list" "int list"
  | Recomputed int int

record org_line =
  ol_actor :: string
  ol_action :: string
  ol_target :: string
  ol_detail :: org_detail

record org =
  og_units :: "org_unit list"
  og_rules :: "org_rule list"
  og_next :: int
  og_audit :: "org_line list"
  og_calls :: "org_call list"

section \<open>How a caller is classified\<close>

definition strip_scheme :: "string \<Rightarrow> string" where
  "strip_scheme s =
     (if startswith (str_lower s) ''sips:'' then drop 5 s else if startswith (str_lower s) ''sip:'' then drop 4 s else s)"

definition org_unit_uri :: "string option \<Rightarrow> string option \<Rightarrow> string option \<Rightarrow> string option" where
  "org_unit_uri uri number domn =
     (case map_option strip_scheme uri of
        Some (c # s) \<Rightarrow> Some (c # s)
      | _ \<Rightarrow> (case (number, domn) of (Some n, Some d) \<Rightarrow> Some (n @ ''@'' @ d) | _ \<Rightarrow> None))"

definition org_unit_value :: "string \<Rightarrow> string option \<Rightarrow> string option \<Rightarrow> string option" where
  "org_unit_value field uri alias = (if field = ''uri'' then uri else if field = ''alias'' then alias else None)"

definition org_unit_rule_matches :: "(string \<Rightarrow> string \<Rightarrow> bool) \<Rightarrow> string \<Rightarrow> string \<Rightarrow> string option \<Rightarrow> bool" where
  "org_unit_rule_matches rx mtype pat v =
     (case v of
        None \<Rightarrow> False
      | Some s \<Rightarrow>
          if mtype = ''prefix'' then startswith (str_lower s) (str_lower pat)
          else if mtype = ''suffix'' then drop (length s - length pat) (str_lower s) = str_lower pat
          else rx s pat)"

definition unit_active :: "org \<Rightarrow> string \<Rightarrow> bool" where
  "unit_active d code = (\<exists>u \<in> set (og_units d). ou_code u = code \<and> ou_active u)"

definition rule_matches :: "(string \<Rightarrow> string \<Rightarrow> bool) \<Rightarrow> string option \<Rightarrow> string option \<Rightarrow> org_rule \<Rightarrow> bool" where
  "rule_matches rx uri alias r =
     (or_active r \<and> org_unit_rule_matches rx (or_match r) (or_pattern r) (org_unit_value (or_field r) uri alias))"

text \<open>\<open>ORDER BY position DESC NULLS LAST, id DESC LIMIT 1\<close>.\<close>

definition desc_key :: "org_rule \<Rightarrow> (int \<times> int) \<times> int" where
  "desc_key r = ((case or_position r of Some p \<Rightarrow> (0, - p) | None \<Rightarrow> (1, 0)), - or_id r)"

definition resolve_org_unit :: "(string \<Rightarrow> string \<Rightarrow> bool) \<Rightarrow> org \<Rightarrow> string option \<Rightarrow> string option \<Rightarrow> string option" where
  "resolve_org_unit rx d uri alias =
     (case sort_key desc_key (filter (\<lambda>r. rule_matches rx uri alias r \<and> unit_active d (or_unit r)) (og_rules d)) of
        [] \<Rightarrow> None
      | r # _ \<Rightarrow> Some (or_unit r))"

definition call_unit :: "(string \<Rightarrow> string \<Rightarrow> bool) \<Rightarrow> org \<Rightarrow> org_call \<Rightarrow> string option" where
  "call_unit rx d c = resolve_org_unit rx d (org_unit_uri (oc_uri c) (oc_number c) (oc_domain c)) (oc_name c)"

text \<open>The trigger on a new call.\<close>

definition add_call :: "(string \<Rightarrow> string \<Rightarrow> bool) \<Rightarrow> org_call \<Rightarrow> org \<Rightarrow> org" where
  "add_call rx c d = d\<lparr>og_calls := og_calls d @ [c\<lparr>oc_unit := call_unit rx d c\<rparr>]\<rparr>"

text \<open>\<open>ORDER BY position NULLS FIRST, id\<close>.\<close>

definition reading_order :: "org_rule list \<Rightarrow> org_rule list" where
  "reading_order rs = sort_key (\<lambda>r. (or_position r, or_id r)) rs"

section \<open>Checks\<close>

definition CODE :: "string \<Rightarrow> bool" where
  "CODE s =
     (case s of
        [] \<Rightarrow> False
      | c # t \<Rightarrow> (is_upper c \<or> is_digit c) \<and> length t \<le> 31 \<and> (\<forall>d \<in> set t. is_upper d \<or> is_digit d \<or> d \<in> set ''_-''))"

definition FIELDS :: "string list" where
  "FIELDS = [''uri'', ''alias'']"

definition MATCH_TYPES :: "string list" where
  "MATCH_TYPES = [''prefix'', ''suffix'']"

definition required_text :: "string \<Rightarrow> string \<Rightarrow> nat \<Rightarrow> exn + string" where
  "required_text v what limit =
     (if str_strip v = [] then Inl (HTTPException 400 (what @ '' is required''))
      else if v \<noteq> str_strip v then Inl (HTTPException 400 (what @ '' must not start or end with a space''))
      else if limit < length v then Inl (HTTPException 400 (what @ '': '' @ nat_str limit @ '' characters at most''))
      else Inr v)"

record rule_body =
  rb_unit :: string
  rb_field :: string
  rb_match :: string
  rb_pattern :: string
  rb_description :: string
  rb_active :: bool

definition checkRule :: "rule_body \<Rightarrow> exn + (string \<times> string)" where
  "checkRule body =
     (if rb_field body \<notin> set FIELDS then Inl (HTTPException 400 (one_of_text ''field'' FIELDS))
      else if rb_match body \<notin> set MATCH_TYPES then Inl (HTTPException 400 (one_of_text ''match_type'' MATCH_TYPES))
      else bindE (required_text (rb_pattern body) ''pattern'' 128) (\<lambda>p.
           bindE (required_text (rb_description body) ''description'' 200) (\<lambda>d. Inr (p, d))))"

definition no_such :: "string \<Rightarrow> exn" where
  "no_such what = HTTPException 404 (''no such '' @ what)"

definition find_unit :: "string \<Rightarrow> org \<Rightarrow> org_unit option" where
  "find_unit code d = find (\<lambda>u. ou_code u = code) (og_units d)"

definition find_rule :: "int \<Rightarrow> org \<Rightarrow> org_rule option" where
  "find_rule i d = find (\<lambda>r. or_id r = i) (og_rules d)"

definition knownUnit :: "string \<Rightarrow> (org, unit) io" where
  "knownUnit code = bind_io (read_io (find_unit code)) (\<lambda>u. demand (u \<noteq> None) (HTTPException 400 ''no such entity''))"

definition duplicate :: "string \<Rightarrow> string \<Rightarrow> string \<Rightarrow> int option \<Rightarrow> (org, unit) io" where
  "duplicate field mtype pat exceptId =
     bind_io (read_io (\<lambda>d. filter (\<lambda>r. or_field r = field \<and> or_match r = mtype
         \<and> str_lower (or_pattern r) = str_lower pat \<and> Some (or_id r) \<noteq> exceptId) (og_rules d))) (\<lambda>rows.
     case rows of
       [] \<Rightarrow> ret_io ()
     | r # _ \<Rightarrow> raise_io (HTTPException 409 (''the same rule already exists (rule '' @ int_str (or_id r) @ '')'')))"

section \<open>Statements\<close>

text \<open>Each statement changes the table and writes its line; a line needs a row that was changed.\<close>

definition org_log :: "string \<Rightarrow> string \<Rightarrow> string \<Rightarrow> org_detail \<Rightarrow> org \<Rightarrow> org" where
  "org_log actor action what det d =
     d\<lparr>og_audit := og_audit d @ [\<lparr>ol_actor = actor, ol_action = action, ol_target = what, ol_detail = det\<rparr>]\<rparr>"

definition rule_name :: "int \<Rightarrow> string" where
  "rule_name i = ''rule '' @ int_str i"

definition insert_unit :: "org_unit \<Rightarrow> string \<Rightarrow> (org, org_unit) io" where
  "insert_unit u actor d =
     (if find_unit (ou_code u) d \<noteq> None then (Inl db_error, d)
      else (Inr u, org_log actor ''unit_create'' (ou_code u) (Unit_created u) (d\<lparr>og_units := og_units d @ [u]\<rparr>)))"

definition change_unit :: "string \<Rightarrow> string option \<Rightarrow> bool option \<Rightarrow> string \<Rightarrow> (org, org_unit) io" where
  "change_unit code label act actor d =
     (case find_unit code d of
        None \<Rightarrow> (Inl (no_such ''entity''), d)
      | Some u \<Rightarrow>
          (let v = u\<lparr>ou_label := (case label of None \<Rightarrow> ou_label u | Some l \<Rightarrow> l),
                     ou_active := (case act of None \<Rightarrow> ou_active u | Some b \<Rightarrow> b)\<rparr>
           in (Inr v, org_log actor ''unit_update'' code (Unit_changed u v)
                 (d\<lparr>og_units := map (\<lambda>x. if ou_code x = code then v else x) (og_units d)\<rparr>))))"

text \<open>The key of the table: one rule per field, type and pattern, for a unit that exists.\<close>

definition rule_fits :: "org_rule \<Rightarrow> org \<Rightarrow> bool" where
  "rule_fits r d =
     (find_unit (or_unit r) d \<noteq> None
      \<and> (\<forall>s \<in> set (og_rules d). or_id s \<noteq> or_id r \<longrightarrow>
           (or_field s, or_match s, or_pattern s) \<noteq> (or_field r, or_match r, or_pattern r)))"

definition max_position :: "org \<Rightarrow> int" where
  "max_position d = fold max (List.map_filter or_position (og_rules d)) 0"

text \<open>\<open>COALESCE(max(position), 0) + 1\<close>: positions are those the console gave, from 1 up.\<close>

definition insert_rule :: "rule_body \<Rightarrow> string \<Rightarrow> string \<Rightarrow> string \<Rightarrow> (org, org_rule) io" where
  "insert_rule body pat desc actor d =
     (let r = \<lparr>or_id = og_next d, or_unit = rb_unit body, or_field = rb_field body, or_match = rb_match body,
               or_pattern = pat, or_description = desc, or_active = rb_active body, or_position = Some (max_position d + 1)\<rparr>
      in if \<not> rule_fits r d then (Inl db_error, d\<lparr>og_next := og_next d + 1\<rparr>)
         else (Inr r, org_log actor ''rule_create'' (rule_name (or_id r)) (Rule_created r)
                 (d\<lparr>og_rules := og_rules d @ [r], og_next := og_next d + 1\<rparr>)))"

definition change_rule :: "int \<Rightarrow> rule_body \<Rightarrow> string \<Rightarrow> string \<Rightarrow> string \<Rightarrow> (org, org_rule) io" where
  "change_rule i body pat desc actor d =
     (case find_rule i d of
        None \<Rightarrow> (Inl (no_such ''rule''), d)
      | Some r \<Rightarrow>
          (let s = r\<lparr>or_unit := rb_unit body, or_field := rb_field body, or_match := rb_match body, or_pattern := pat,
                     or_description := desc, or_active := rb_active body\<rparr>
           in if \<not> rule_fits s d then (Inl db_error, d)
              else (Inr s, org_log actor ''rule_update'' (rule_name i) (Rule_changed r s)
                      (d\<lparr>og_rules := map (\<lambda>x. if or_id x = i then s else x) (og_rules d)\<rparr>))))"

definition remove_rule :: "int \<Rightarrow> string \<Rightarrow> (org, unit) io" where
  "remove_rule i actor d =
     (case find_rule i d of
        None \<Rightarrow> (Inl (no_such ''rule''), d)
      | Some r \<Rightarrow> (Inr (), org_log actor ''rule_delete'' (rule_name i) (Rule_deleted r)
                    (d\<lparr>og_rules := filter (\<lambda>x. or_id x \<noteq> i) (og_rules d)\<rparr>)))"

text \<open>The position of a rule in the list asked for, from 1.\<close>

definition placed :: "int list \<Rightarrow> org_rule \<Rightarrow> org_rule" where
  "placed ids r =
     (case map_of (zip ids [1..int (length ids)]) (or_id r) of None \<Rightarrow> r | Some p \<Rightarrow> r\<lparr>or_position := Some p\<rparr>)"

definition write_order :: "int list \<Rightarrow> string \<Rightarrow> (org, unit) io" where
  "write_order ids actor d =
     (let before = map or_id (reading_order (og_rules d)); rules = map (placed ids) (og_rules d)
      in (Inr (), if rules = og_rules d then d
                  else org_log actor ''rules_order'' ''rules'' (Rules_ordered before ids) (d\<lparr>og_rules := rules\<rparr>)))"

definition reclassify :: "(string \<Rightarrow> string \<Rightarrow> bool) \<Rightarrow> string \<Rightarrow> (org, int \<times> int) io" where
  "reclassify rx actor d =
     (let seen = int (length (og_calls d)); moved = int (length (filter (\<lambda>c. oc_unit c \<noteq> call_unit rx d c) (og_calls d)))
      in (Inr (seen, moved), org_log actor ''recompute'' ''calls'' (Recomputed seen moved)
            (d\<lparr>og_calls := map (\<lambda>c. c\<lparr>oc_unit := call_unit rx d c\<rparr>) (og_calls d)\<rparr>)))"

section \<open>Routes\<close>

definition for_admin :: "console_cfg \<Rightarrow> ctx \<Rightarrow> (string \<Rightarrow> (org, 'a) io) \<Rightarrow> (console \<times> org, 'a) io" where
  "for_admin cfg cx route = bind_io (on_left (requireAdmin cfg cx)) (\<lambda>a. on_right (route (ac_username a)))"

definition listUnits :: "string \<Rightarrow> (org, (org_unit \<times> int \<times> int) list \<times> org_rule list \<times> int) io" where
  "listUnits user =
     read_io (\<lambda>d. (map (\<lambda>u. (u, int (length (filter (\<lambda>r. or_unit r = ou_code u) (og_rules d))),
                               int (length (filter (\<lambda>c. oc_unit c = Some (ou_code u)) (og_calls d)))))
                     (sort_key ou_code (og_units d)),
                   reading_order (og_rules d),
                   int (length (filter (\<lambda>c. oc_unit c = None) (og_calls d)))))"

definition none_if_empty :: "string option \<Rightarrow> string option" where
  "none_if_empty v = (if v = Some [] then None else v)"

definition testRules :: "(string \<Rightarrow> string \<Rightarrow> bool) \<Rightarrow> string option \<Rightarrow> string option \<Rightarrow> string \<Rightarrow>
    (org, org_rule list \<times> org_rule option) io" where
  "testRules rx uri alias user =
     read_io (\<lambda>d.
       let rows = reading_order (filter (\<lambda>r. find_unit (or_unit r) d \<noteq> None
                    \<and> rule_matches rx (org_unit_uri (none_if_empty uri) None None) (none_if_empty alias) r) (og_rules d));
           deciding = filter (\<lambda>r. unit_active d (or_unit r)) rows
       in (rows, if deciding = [] then None else Some (last deciding)))"

definition createUnit :: "string \<Rightarrow> string \<Rightarrow> string \<Rightarrow> (org, org_unit) io" where
  "createUnit code0 label0 user =
     (let code = str_upper (str_strip code0) in
      bind_io (demand (CODE code) (HTTPException 400 ''code: capitals, digits, - and _, 32 characters at most'')) (\<lambda>_.
      bind_io (lift_io (required_text label0 ''label'' 80)) (\<lambda>label.
      bind_io (read_io (find_unit code)) (\<lambda>known.
      bind_io (demand (known = None) (HTTPException 409 ''this code already exists'')) (\<lambda>_.
      insert_unit \<lparr>ou_code = code, ou_label = label, ou_active = True\<rparr> user)))))"

definition updateUnit :: "string \<Rightarrow> string option \<Rightarrow> bool option \<Rightarrow> string \<Rightarrow> (org, org_unit) io" where
  "updateUnit code label0 act user =
     bind_io (case label0 of None \<Rightarrow> ret_io None
              | Some l \<Rightarrow> bind_io (lift_io (required_text l ''label'' 80)) (\<lambda>t. ret_io (Some t))) (\<lambda>label.
     change_unit code label act user)"

definition createRule :: "rule_body \<Rightarrow> string \<Rightarrow> (org, org_rule) io" where
  "createRule body user =
     bind_io (lift_io (checkRule body)) (\<lambda>(pat, desc).
     bind_io (knownUnit (rb_unit body)) (\<lambda>_.
     bind_io (duplicate (rb_field body) (rb_match body) pat None) (\<lambda>_.
     insert_rule body pat desc user)))"

definition updateRule :: "int \<Rightarrow> rule_body \<Rightarrow> string \<Rightarrow> (org, org_rule) io" where
  "updateRule i body user =
     bind_io (lift_io (checkRule body)) (\<lambda>(pat, desc).
     bind_io (knownUnit (rb_unit body)) (\<lambda>_.
     bind_io (duplicate (rb_field body) (rb_match body) pat (Some i)) (\<lambda>_.
     change_rule i body pat desc user)))"

definition deleteRule :: "int \<Rightarrow> string \<Rightarrow> (org, int) io" where
  "deleteRule i user = bind_io (remove_rule i user) (\<lambda>_. ret_io i)"

definition orderRules :: "int list \<Rightarrow> string \<Rightarrow> (org, int list) io" where
  "orderRules ids user =
     bind_io (read_io (\<lambda>d. map or_id (reading_order (og_rules d)))) (\<lambda>current.
     bind_io (demand (sort ids = sort current \<and> distinct ids) (HTTPException 409 ''the list changed meanwhile: reload'')) (\<lambda>_.
     bind_io (write_order ids user) (\<lambda>_. ret_io ids)))"

definition recompute :: "(string \<Rightarrow> string \<Rightarrow> bool) \<Rightarrow> string \<Rightarrow> (org, int \<times> int) io" where
  "recompute rx user = reclassify rx user"

end
