(* ===== verification/Org_Props.thy ===== *)
theory Org_Props
  imports Org_Units "HOL-Library.Multiset"
begin

text \<open>
  The properties of the classification rules, in every state the console can reach: which rule
  decides, what a new rule and a new order change, and that the audit tells the whole history.
\<close>

section \<open>Reachable states\<close>

datatype org_request =
    Create_unit string string
  | Update_unit string "string option" "bool option"
  | Create_rule rule_body
  | Update_rule int rule_body
  | Delete_rule int
  | Order_rules "int list"
  | Recompute
  | New_call org_call

fun org_take :: "(string \<Rightarrow> string \<Rightarrow> bool) \<Rightarrow> string \<Rightarrow> org_request \<Rightarrow> org \<Rightarrow> org" where
  "org_take rx user (Create_unit code label) d = snd (createUnit code label user d)"
| "org_take rx user (Update_unit code label act) d = snd (updateUnit code label act user d)"
| "org_take rx user (Create_rule body) d = snd (createRule body user d)"
| "org_take rx user (Update_rule i body) d = snd (updateRule i body user d)"
| "org_take rx user (Delete_rule i) d = snd (deleteRule i user d)"
| "org_take rx user (Order_rules ids) d = snd (orderRules ids user d)"
| "org_take rx user Recompute d = snd (recompute rx user d)"
| "org_take rx user (New_call c) d = add_call rx c d"

definition empty_org :: org where
  "empty_org = \<lparr>og_units = [], og_rules = [], og_next = 1, og_audit = [], og_calls = []\<rparr>"

inductive org_reach :: "(string \<Rightarrow> string \<Rightarrow> bool) \<Rightarrow> org \<Rightarrow> bool" for rx where
  installed: "org_reach rx empty_org"
| taken: "org_reach rx d \<Longrightarrow> org_reach rx (org_take rx user q d)"

text \<open>What each request does to the tables: nothing, or one of the statements.\<close>

inductive org_change :: "(string \<Rightarrow> string \<Rightarrow> bool) \<Rightarrow> org \<Rightarrow> org \<Rightarrow> bool" for rx where
  kept: "org_change rx d d"
| unit_new: "insert_unit u actor d = (r, d') \<Longrightarrow> org_change rx d d'"
| unit_put: "change_unit code l a actor d = (r, d') \<Longrightarrow> org_change rx d d'"
| rule_new: "insert_rule b p t actor d = (r, d') \<Longrightarrow> org_change rx d d'"
| rule_put: "change_rule i b p t actor d = (r, d') \<Longrightarrow> org_change rx d d'"
| rule_out: "remove_rule i actor d = (r, d') \<Longrightarrow> org_change rx d d'"
| ordered: "sort ids = sort (map or_id (reading_order (og_rules d))) \<Longrightarrow> distinct ids \<Longrightarrow>
    write_order ids actor d = (r, d') \<Longrightarrow> org_change rx d d'"
| recomputed: "reclassify rx actor d = (r', d') \<Longrightarrow> org_change rx d d'"
| call_in: "org_change rx d (add_call rx c d)"

inductive_cases org_changeE: "org_change rx d d'"

text \<open>A computation that ends in a statement, after reads and checks.\<close>

definition acts :: "(string \<Rightarrow> string \<Rightarrow> bool) \<Rightarrow> (org, 'a) io \<Rightarrow> bool" where
  "acts rx m = (\<forall>d. org_change rx d (snd (m d)))"

lemma acts_ret: "acts rx (ret_io x)" and acts_raise: "acts rx (raise_io e)" and acts_demand: "acts rx (demand b e)"
  by (cases b) (simp_all add: acts_def org_change.kept demand_def)

lemma acts_read: "(\<And>x. acts rx (f x)) \<Longrightarrow> acts rx (bind_io (read_io g) f)"
  by (simp add: acts_def bind_io_def)

lemma acts_check: "(b \<Longrightarrow> acts rx (f ())) \<Longrightarrow> acts rx (bind_io (demand b e) f)"
  by (cases b) (simp_all add: acts_raise)

lemma acts_lift: "(\<And>x. acts rx (f x)) \<Longrightarrow> acts rx (bind_io (lift_io r) f)"
  by (cases r) (simp_all add: acts_raise)

lemma acts_then_ret: "acts rx m \<Longrightarrow> acts rx (bind_io m (\<lambda>x. ret_io (g x)))"
  unfolding acts_def bind_io_def by (auto split: prod.splits sum.splits) (metis snd_conv)+

lemma acts_known: "(\<And>x. acts rx (f x)) \<Longrightarrow> acts rx (bind_io (knownUnit c) f)"
  by (simp add: knownUnit_def bind_assoc acts_read acts_check)

lemma acts_duplicate: "(\<And>x. acts rx (f x)) \<Longrightarrow> acts rx (bind_io (duplicate a b c e) f)"
  unfolding duplicate_def bind_assoc by (intro acts_read) (simp add: acts_raise split: list.split)

lemma acts_prod: "(\<And>x y. acts rx (f x y)) \<Longrightarrow> acts rx (case p of (x, y) \<Rightarrow> f x y)"
  by (cases p) simp

lemma acts_order: "acts rx (orderRules ids user)"
  unfolding acts_def
proof
  fix d
  show "org_change rx d (snd (orderRules ids user d))"
    by (cases "sort ids = sort (map or_id (reading_order (og_rules d))) \<and> distinct ids")
      (auto simp: orderRules_def bind_io_def demand_def write_order_def Let_def intro: org_change.kept
         org_change.ordered [where r = "Inr ()"] split: prod.split)
qed

lemma acts_statements:
  "acts rx (insert_unit u actor)" "acts rx (change_unit code l a actor)" "acts rx (insert_rule b p t actor)"
  "acts rx (change_rule i b p t actor)" "acts rx (remove_rule i actor)" "acts rx (reclassify rx actor)"
  unfolding acts_def
  by (blast intro: org_change.unit_new [OF surjective_pairing] org_change.unit_put [OF surjective_pairing]
        org_change.rule_new [OF surjective_pairing] org_change.rule_put [OF surjective_pairing]
        org_change.rule_out [OF surjective_pairing] org_change.recomputed [OF surjective_pairing])+

lemma org_take_change: "org_change rx d (org_take rx user q d)"
proof -
  have "acts rx (createUnit a b user)" "acts rx (createRule body user)" "acts rx (updateRule i body user)"
    "acts rx (deleteRule i user)" "acts rx (recompute rx user)" "acts rx (updateUnit a l act user)" for a b body i l act
    unfolding createUnit_def createRule_def updateRule_def deleteRule_def recompute_def updateUnit_def Let_def
    by (intro acts_check acts_lift acts_read acts_known acts_duplicate acts_prod acts_statements acts_then_ret)+
       (cases l; simp add: bind_assoc acts_lift acts_statements)
  then show ?thesis using acts_order [of rx _ user] by (cases q) (auto simp: acts_def intro: org_change.call_in)
qed

section \<open>What stays true\<close>

definition org_ok :: "org \<Rightarrow> bool" where
  "org_ok d = (distinct (map or_id (og_rules d)) \<and> (\<forall>r \<in> set (og_rules d). or_id r < og_next d)
     \<and> distinct (map ou_code (og_units d)))"

lemma find_unit_Some: "find_unit c d = Some u \<Longrightarrow> u \<in> set (og_units d) \<and> ou_code u = c"
  and find_unit_None: "find_unit c d = None \<longleftrightarrow> c \<notin> ou_code ` set (og_units d)"
  and find_rule_Some: "find_rule i d = Some r \<Longrightarrow> r \<in> set (og_rules d) \<and> or_id r = i"
  by (auto simp: find_unit_def find_rule_def find_Some_iff find_None_iff dest: nth_mem)

lemma log_simps [simp]:
  "og_units (org_log a w t e d) = og_units d" "og_rules (org_log a w t e d) = og_rules d"
  "og_next (org_log a w t e d) = og_next d" "og_calls (org_log a w t e d) = og_calls d"
  "og_audit (org_log a w t e d) = og_audit d @ [\<lparr>ol_actor = a, ol_action = w, ol_target = t, ol_detail = e\<rparr>]"
  by (simp_all add: org_log_def)

lemma placed_id [simp]: "or_id (placed ids r) = or_id r"
  by (simp add: placed_def split: option.split)

lemmas statement_defs = insert_unit_def change_unit_def insert_rule_def change_rule_def remove_rule_def write_order_def
  reclassify_def add_call_def Let_def

lemma same_codes: "ou_code v = c \<Longrightarrow> ou_code \<circ> (\<lambda>x. if ou_code x = c then v else x) = ou_code"
  by auto

lemma same_ids: "or_id v = i \<Longrightarrow> or_id \<circ> (\<lambda>x. if or_id x = i then v else x) = or_id"
  by auto

lemma org_change_ok: "org_change rx d d' \<Longrightarrow> org_ok d \<Longrightarrow> org_ok d'"
proof (induction rule: org_change.induct)
  case (unit_put code l a actor d r d')
  then show ?case by (auto simp: statement_defs org_ok_def same_codes dest: find_unit_Some split: option.splits)
next
  case (rule_put i b p t actor d r d')
  then show ?case by (auto simp: statement_defs org_ok_def same_ids dest!: find_rule_Some split: option.splits if_splits)
next
  case (ordered ids d actor r d')
  then show ?case by (auto simp: statement_defs org_ok_def o_def split: if_splits)
next
  case (rule_out i actor d r d')
  then show ?case by (auto simp: statement_defs org_ok_def distinct_map_filter split: option.splits)
qed (auto simp: statement_defs org_ok_def find_unit_None split: option.splits if_splits)

lemma org_reach_ok: "org_reach rx d \<Longrightarrow> org_ok d"
proof (induction rule: org_reach.induct)
  case installed
  show ?case by (simp add: org_ok_def empty_org_def)
next
  case (taken d user q)
  then show ?case using org_change_ok org_take_change by blast
qed

section \<open>The audit\<close>

fun replay_line :: "org_detail \<Rightarrow> org_unit list \<times> org_rule list \<Rightarrow> org_unit list \<times> org_rule list" where
  "replay_line (Unit_created u) (us, rs) = (us @ [u], rs)"
| "replay_line (Unit_changed u v) (us, rs) = (map (\<lambda>x. if ou_code x = ou_code u then v else x) us, rs)"
| "replay_line (Rule_created r) (us, rs) = (us, rs @ [r])"
| "replay_line (Rule_changed r s) (us, rs) = (us, map (\<lambda>x. if or_id x = or_id r then s else x) rs)"
| "replay_line (Rule_deleted r) (us, rs) = (us, filter (\<lambda>x. or_id x \<noteq> or_id r) rs)"
| "replay_line (Rules_ordered _ ids) (us, rs) = (us, map (placed ids) rs)"
| "replay_line (Recomputed _ _) t = t"

definition replay :: "org_line list \<Rightarrow> org_unit list \<times> org_rule list" where
  "replay ls = foldl (\<lambda>t l. replay_line (ol_detail l) t) ([], []) ls"

lemma replay_snoc: "replay (ls @ [l]) = replay_line (ol_detail l) (replay ls)"
  by (simp add: replay_def)

lemma replay_change:
  "org_change rx d d' \<Longrightarrow> replay (og_audit d) = (og_units d, og_rules d) \<Longrightarrow> replay (og_audit d') = (og_units d', og_rules d')"
  by (induction rule: org_change.induct)
    (auto simp: statement_defs replay_snoc dest!: find_unit_Some find_rule_Some split: option.splits if_splits)

lemma reach_replay: "org_reach rx d \<Longrightarrow> replay (og_audit d) = (og_units d, og_rules d)"
proof (induction rule: org_reach.induct)
  case installed
  show ?case by (simp add: replay_def empty_org_def)
next
  case (taken d user q)
  then show ?case using replay_change org_take_change by blast
qed

text \<open>
  C18. The audit tells the whole history: in every state the console can reach, the units and the
  rules, their order included, are what replaying the lines of \<open>org_unit_audit\<close> gives.
\<close>
theorem audit_tells_the_rules:
  assumes "org_reach rx d"
  shows "replay (og_audit d) = (og_units d, og_rules d)"
  using assms by (rule reach_replay)

definition wit_rule :: "string \<Rightarrow> string \<Rightarrow> rule_body" where
  "wit_rule unit pat = \<lparr>rb_unit = unit, rb_field = ''uri'', rb_match = ''suffix'', rb_pattern = pat, rb_description = ''d'', rb_active = True\<rparr>"

text \<open>Two units and a rule for the first of them.\<close>

definition wit_org :: org where
  "wit_org = org_take (\<lambda>_ _. False) ''adm'' (Create_rule (wit_rule ''LAB'' ''@x.fr''))
     (org_take (\<lambda>_ _. False) ''adm'' (Create_unit ''hq'' ''Head'')
     (org_take (\<lambda>_ _. False) ''adm'' (Create_unit ''lab'' ''Lab'') empty_org))"

lemma wit_org_reach: "org_reach (\<lambda>_ _. False) wit_org"
  unfolding wit_org_def by (intro org_reach.intros)

lemma audit_tells_the_rules_witness:
  "replay (og_audit wit_org) = (og_units wit_org, og_rules wit_org) \<and> length (og_rules wit_org) = 1 \<and> length (og_audit wit_org) = 3"
proof -
  have "length (og_rules wit_org) = 1" "length (og_audit wit_org) = 3" by code_simp+
  with audit_tells_the_rules [OF wit_org_reach] show ?thesis by simp
qed

section \<open>The rule that decides\<close>

definition asc_key :: "org_rule \<Rightarrow> int option \<times> int" where
  "asc_key r = (or_position r, or_id r)"

lemma reading_asc: "reading_order rs = sort_key asc_key rs"
  by (simp add: reading_order_def asc_key_def [abs_def])

lemma desc_asc: "asc_key a \<le> asc_key b \<Longrightarrow> desc_key b \<le> desc_key a"
  by (cases "or_position a"; cases "or_position b") (auto simp: asc_key_def desc_key_def less_eq_prod_def)

lemma inj_desc: "distinct (map or_id rs) \<Longrightarrow> inj_on desc_key (set rs)"
  by (auto simp: inj_on_def desc_key_def distinct_map)

lemma inj_asc: "distinct (map or_id rs) \<Longrightarrow> inj_on asc_key (set rs)"
  by (auto simp: inj_on_def asc_key_def distinct_map)

text \<open>The two orders of the SQL are reverse to each other.\<close>

lemma desc_is_rev:
  assumes "distinct (map or_id rs)"
  shows "sort_key desc_key rs = rev (reading_order rs)"
proof (rule sort_key_inj_key_eq)
  show "mset rs = mset (rev (reading_order rs))" by (simp add: reading_order_def)
  show "inj_on desc_key (set rs)" using assms by (rule inj_desc)
  have "sorted_wrt (\<lambda>a b. asc_key a \<le> asc_key b) (reading_order rs)"
    using sorted_sort_key [of asc_key rs] by (simp add: reading_asc sorted_map)
  then have "sorted_wrt (\<lambda>a b. desc_key b \<le> desc_key a) (reading_order rs)"
    by (rule sorted_wrt_mono_rel [rotated]) (simp add: desc_asc)
  then show "sorted (map desc_key (rev (reading_order rs)))" by (simp add: sorted_map sorted_wrt_rev)
qed

definition deciding :: "(string \<Rightarrow> string \<Rightarrow> bool) \<Rightarrow> org \<Rightarrow> string option \<Rightarrow> string option \<Rightarrow> org_rule \<Rightarrow> bool" where
  "deciding rx d uri alias r = (rule_matches rx uri alias r \<and> unit_active d (or_unit r))"

definition last_unit :: "org_rule list \<Rightarrow> string option" where
  "last_unit rs = (if rs = [] then None else Some (or_unit (last rs)))"

lemma resolve_last:
  assumes "distinct (map or_id (og_rules d))"
  shows "resolve_org_unit rx d uri alias = last_unit (filter (deciding rx d uri alias) (reading_order (og_rules d)))"
proof -
  let ?rs = "filter (deciding rx d uri alias) (og_rules d)"
  have "distinct (map or_id ?rs)" using assms by (simp add: distinct_map_filter)
  then have "resolve_org_unit rx d uri alias = last_unit (reading_order ?rs)"
    using desc_is_rev [of ?rs]
    by (cases "reading_order ?rs" rule: rev_cases) (simp_all add: resolve_org_unit_def deciding_def [abs_def] last_unit_def)
  also have "reading_order ?rs = filter (deciding rx d uri alias) (reading_order (og_rules d))"
    by (simp add: reading_order_def filter_sort)
  finally show ?thesis .
qed

text \<open>
  C39. The console's test shows what will happen: the rule it names as the winner for an address and
  a name is the one by which the database classifies a call from there, and it names none exactly
  when such a call stays unassigned.
\<close>
theorem test_shows_the_deciding_rule:
  assumes "org_reach rx d" and "testRules rx (Some (c # uri)) alias user d = (Inr (rows, winner), d')"
  shows "map_option or_unit winner
    = call_unit rx d \<lparr>oc_id = i, oc_uri = Some (c # uri), oc_number = None, oc_domain = None,
        oc_name = none_if_empty alias, oc_unit = u\<rparr>"
proof -
  let ?uri = "org_unit_uri (Some (c # uri)) None None" and ?gw = "none_if_empty alias"
  have ok: "distinct (map or_id (og_rules d))" using org_reach_ok [OF assms(1)] by (simp add: org_ok_def)
  have "unit_active d (or_unit r) \<Longrightarrow> find_unit (or_unit r) d \<noteq> None" for r
    unfolding unit_active_def find_unit_None by (metis imageI)
  then have "filter (\<lambda>r. unit_active d (or_unit r)) (reading_order (filter (\<lambda>r. find_unit (or_unit r) d \<noteq> None
      \<and> rule_matches rx ?uri ?gw r) (og_rules d))) = filter (deciding rx d ?uri ?gw) (reading_order (og_rules d))"
    unfolding reading_order_def filter_sort filter_filter by (intro arg_cong [where f = "sort_key _"] filter_cong) (auto simp: deciding_def)
  then have "map_option or_unit winner = last_unit (filter (deciding rx d ?uri ?gw) (reading_order (og_rules d)))"
    using assms(2) by (auto simp: testRules_def Let_def last_unit_def none_if_empty_def)
  then show ?thesis by (simp add: call_unit_def resolve_last [OF ok])
qed

lemma test_shows_the_deciding_rule_witness:
  "\<exists>rows winner. testRules (\<lambda>_ _. False) (Some ''sip:a@x.fr'') None ''adm'' wit_org = (Inr (rows, winner), wit_org)
     \<and> map_option or_unit winner = Some ''LAB''
     \<and> call_unit (\<lambda>_ _. False) wit_org \<lparr>oc_id = 1, oc_uri = Some ''sip:a@x.fr'', oc_number = None, oc_domain = None,
          oc_name = None, oc_unit = None\<rparr> = Some ''LAB''"
proof -
  have t: "testRules (\<lambda>_ _. False) (Some ''sip:a@x.fr'') None ''adm'' wit_org = (Inr (og_rules wit_org, Some (hd (og_rules wit_org))), wit_org)"
    and u: "or_unit (hd (og_rules wit_org)) = ''LAB''" by code_simp+
  from test_shows_the_deciding_rule [OF wit_org_reach t, of 1 None] t u show ?thesis by (simp add: none_if_empty_def)
qed

section \<open>New rules and new orders\<close>

lemma max_position_ge:
  assumes "r \<in> set (og_rules d)" "or_position r = Some p"
  shows "p \<le> max_position d"
proof -
  let ?ps = "List.map_filter or_position (og_rules d)"
  have "p \<in> set ?ps" using assms by (force simp: List.map_filter_def)
  moreover have "max_position d = Max (set (0 # ?ps))" unfolding max_position_def by (rule Max.set_eq_fold [symmetric])
  ultimately show ?thesis by simp
qed

lemma insert_rule_last:
  assumes "insert_rule body pat desc user d = (Inr r, d')" "org_ok d"
  shows "og_rules d' = og_rules d @ [r]" "og_units d' = og_units d" "reading_order (og_rules d') = reading_order (og_rules d) @ [r]"
proof -
  have r: "og_rules d' = og_rules d @ [r]" "or_position r = Some (max_position d + 1)" "or_id r = og_next d" "og_units d' = og_units d"
    using assms(1) by (auto simp: insert_rule_def Let_def split: if_splits)
  then show "og_rules d' = og_rules d @ [r]" "og_units d' = og_units d" by simp_all
  have below: "asc_key s \<le> asc_key r" if "s \<in> set (og_rules d)" for s
  proof (cases "or_position s")
    case None
    then show ?thesis using r(2) by (simp add: asc_key_def less_eq_prod_def)
  next
    case (Some p)
    then show ?thesis using max_position_ge [OF that Some] r(2) by (simp add: asc_key_def less_eq_prod_def)
  qed
  have "or_id r \<notin> or_id ` set (og_rules d)" using assms(2) unfolding org_ok_def r(3) by force
  then have "distinct (map or_id (og_rules d'))" using assms(2) by (simp add: r(1) org_ok_def)
  then have inj: "inj_on asc_key (set (og_rules d'))" by (rule inj_asc)
  then show "reading_order (og_rules d') = reading_order (og_rules d) @ [r]"
    unfolding reading_asc r(1)
  proof (intro sort_key_inj_key_eq)
    show "sorted (map asc_key (sort_key asc_key (og_rules d) @ [r]))"
      unfolding map_append sorted_append using below by simp
    show "inj_on asc_key (set (og_rules d @ [r]))" using inj by (simp only: r(1))
  qed simp
qed

text \<open>
  A rule that was just created decides for every caller it matches, whatever the rules above
  it, and changes nothing for the others.
\<close>
theorem new_rule_decides:
  assumes "org_reach rx d" and "createRule body user d = (Inr r, d')"
  shows "resolve_org_unit rx d' uri alias =
    (if rule_matches rx uri alias r \<and> unit_active d (or_unit r) then Some (or_unit r) else resolve_org_unit rx d uri alias)"
proof -
  have ok: "org_ok d" using org_reach_ok [OF assms(1)] .
  obtain pat desc where ins: "insert_rule body pat desc user d = (Inr r, d')"
    using assms(2) by (auto simp: createRule_def knownUnit_def duplicate_def bind_io_def demand_def lift_io_def
        split: sum.splits if_splits list.splits prod.splits)
  note last = insert_rule_last [OF ins ok]
  have "org_ok d'" using org_change_ok [OF org_change.rule_new [OF ins] ok] .
  then have ok': "distinct (map or_id (og_rules d'))" "distinct (map or_id (og_rules d))"
    using ok by (simp_all add: org_ok_def)
  have "deciding rx d' uri alias = deciding rx d uri alias"
    by (rule ext) (simp add: deciding_def unit_active_def last(2))
  then show ?thesis
    unfolding resolve_last [OF ok'(1)] resolve_last [OF ok'(2)] last(3)
    by (auto simp: last_unit_def deciding_def [of rx d uri "alias" r])
qed

lemma new_rule_decides_witness:
  "\<exists>r d'. createRule (wit_rule ''HQ'' ''.fr'') ''adm'' wit_org = (Inr r, d')
     \<and> resolve_org_unit (\<lambda>_ _. False) wit_org (Some ''a@x.fr'') None = Some ''LAB''
     \<and> resolve_org_unit (\<lambda>_ _. False) d' (Some ''a@x.fr'') None = Some ''HQ''"
proof -
  let ?c = "createRule (wit_rule ''HQ'' ''.fr'') ''adm'' wit_org"
  have "\<not> isl (fst ?c) \<and> rule_matches (\<lambda>_ _. False) (Some ''a@x.fr'') None (projr (fst ?c)) \<and> or_unit (projr (fst ?c)) = ''HQ''
     \<and> unit_active wit_org ''HQ'' \<and> resolve_org_unit (\<lambda>_ _. False) wit_org (Some ''a@x.fr'') None = Some ''LAB''"
    by code_simp
  note facts = this
  obtain d' where c: "?c = (Inr (projr (fst ?c)), d')" using facts by (metis prod.collapse sum.collapse(2))
  from new_rule_decides [OF wit_org_reach c, of "Some ''a@x.fr''" None] facts c show ?thesis by (metis (no_types))
qed

text \<open>The order asked for is the order read.\<close>

lemma map_of_positions: "distinct ids \<Longrightarrow> map (\<lambda>i. the (map_of (zip ids [1..int (length ids)]) i)) ids = [1..int (length ids)]"
  by (rule nth_equalityI) (simp_all add: map_of_zip_nth)

lemma placed_order:
  assumes "mset ids = mset (map or_id rs)" "distinct ids"
  shows "map or_id (reading_order (map (placed ids) rs)) = ids"
proof -
  let ?at = "\<lambda>i. the (map_of (zip ids [1..int (length ids)]) i)" and ?L = "reading_order (map (placed ids) rs)"
  have pos: "or_position r = Some (?at (or_id r))" if "r \<in> set ?L" for r
  proof -
    from that obtain s where s: "s \<in> set rs" "r = placed ids s" by (auto simp: reading_order_def)
    then have "or_id s \<in> set ids" using assms(1) by (metis image_eqI list.set_map set_mset_mset)
    then have "map_of (zip ids [1..int (length ids)]) (or_id s) \<noteq> None" by (simp add: map_of_zip_is_None)
    then obtain p where "map_of (zip ids [1..int (length ids)]) (or_id s) = Some p" by blast
    then show ?thesis using s by (simp add: placed_def)
  qed
  have "sorted (map asc_key ?L)" unfolding reading_asc by simp
  then have "sorted (map (?at \<circ> or_id) ?L)"
    unfolding sorted_map by (rule sorted_wrt_mono_rel [rotated]) (auto simp: asc_key_def pos less_eq_prod_def)
  then have "sort_key ?at ids = map or_id ?L"
  proof (intro sort_key_inj_key_eq)
    show "mset ids = mset (map or_id ?L)" using assms(1) by (simp add: reading_order_def image_mset.compositionality o_def)
    show "inj_on ?at (set ids)" using map_of_positions [OF assms(2)]
      by (metis distinct_map distinct_upto)
  qed simp
  moreover have "sort_key ?at ids = ids" using map_of_positions [OF assms(2)] by (intro sort_key_id_if_sorted) simp
  ultimately show ?thesis by simp
qed

text \<open>
  An order is taken only when it lists every rule once, and then the list is read in that order:
  the last of it that matches a caller decides.
\<close>
theorem order_is_obeyed:
  assumes "org_reach rx d" and "orderRules ids user d = (answer, d')"
  shows "if distinct ids \<and> set ids = or_id ` set (og_rules d)
    then answer = Inr ids \<and> map or_id (reading_order (og_rules d')) = ids
      \<and> resolve_org_unit rx d' uri alias = last_unit (filter (deciding rx d' uri alias) (reading_order (og_rules d')))
    else answer = Inl (HTTPException 409 ''the list changed meanwhile: reload'') \<and> d' = d"
proof -
  have ok: "distinct (map or_id (og_rules d))" using org_reach_ok [OF assms(1)] by (simp add: org_ok_def)
  have eq: "sort ids = sort (map or_id (reading_order (og_rules d))) \<and> distinct ids \<longleftrightarrow>
      distinct ids \<and> set ids = or_id ` set (og_rules d)"
  proof -
    have L: "distinct (map or_id (reading_order (og_rules d)))" "set (map or_id (reading_order (og_rules d))) = or_id ` set (og_rules d)"
      using ok by (simp_all add: reading_order_def distinct_map)
    have "sort ids = sort (map or_id (reading_order (og_rules d)))"
      if "distinct ids" "set ids = or_id ` set (og_rules d)"
    proof (rule properties_for_sort)
      show "mset (sort (map or_id (reading_order (og_rules d)))) = mset ids"
        using set_eq_iff_mset_eq_distinct [OF L(1) that(1)] L(2) that(2) by (simp only: mset_sort simp_thms)
    qed simp
    then show ?thesis using L(2) by (metis set_sort)
  qed
  show ?thesis
  proof (cases "distinct ids \<and> set ids = or_id ` set (og_rules d)")
    case True
    with eq have perm: "sort ids = sort (map or_id (reading_order (og_rules d)))" "distinct ids" by blast+
    then have run: "answer = Inr ids" "write_order ids user d = (Inr (), d')"
      using assms(2) by (auto simp: orderRules_def bind_io_def write_order_def Let_def split: if_splits)
    have rules: "og_rules d' = map (placed ids) (og_rules d)" using run(2) by (auto simp: write_order_def Let_def split: if_splits)
    have "mset ids = mset (map or_id (og_rules d))" using arg_cong [OF perm(1), of mset] by (simp add: reading_order_def)
    then have order: "map or_id (reading_order (og_rules d')) = ids" unfolding rules using perm(2) by (rule placed_order)
    have "distinct (map or_id (og_rules d'))" using ok by (simp add: rules o_def)
    note decides = resolve_last [OF this, of rx uri "alias"]
    show ?thesis using True run(1) order decides by (simp only: if_True simp_thms)
  next
    case False
    then have "\<not> (sort ids = sort (map or_id (reading_order (og_rules d))) \<and> distinct ids)" using eq by blast
    then have "orderRules ids user d = (Inl (HTTPException 409 ''the list changed meanwhile: reload''), d)"
      by (auto simp: orderRules_def bind_io_def demand_def)
    with assms(2) have "answer = Inl (HTTPException 409 ''the list changed meanwhile: reload'') \<and> d' = d" by simp
    then show ?thesis unfolding if_not_P [OF False] .
  qed
qed

lemma order_is_obeyed_witness:
  "map or_id (reading_order (og_rules (snd (orderRules [1] ''adm'' wit_org)))) = [1]
     \<and> fst (orderRules [1, 2] ''adm'' wit_org) = Inl (HTTPException 409 ''the list changed meanwhile: reload'')"
proof -
  have ids: "or_id ` set (og_rules wit_org) = {1}" by code_simp
  obtain a d a' d' where r: "orderRules [1] ''adm'' wit_org = (a, d)" "orderRules [1, 2] ''adm'' wit_org = (a', d')" by fastforce
  have "distinct [1 :: int] \<and> set [1] = or_id ` set (og_rules wit_org)" "\<not> (distinct [1, 2 :: int] \<and> set [1, 2] = or_id ` set (og_rules wit_org))"
    unfolding ids by auto
  with order_is_obeyed [OF wit_org_reach r(1)] order_is_obeyed [OF wit_org_reach r(2)] r show ?thesis by simp
qed

end
