(* ===== verification/Scaler.thy ===== *)
theory Scaler
  imports Proxy Io_Logic Py_Num Py_Date "HOL-Library.List_Lexorder" "HOL-Library.Char_ord"
begin

text \<open>
  The scaler (\<open>deploy/scaler/src\<close>): how many gateways a time of the day asks for, and the calls to
  the cloud that make them. What the kinds of scaler have in common is \<open>Scaler.py\<close>: \<open>scale\<close> asks a
  scaler (\<open>scaler_ops\<close>) for its capacity and its way down, and a cloud (\<open>csp\<close>, \<open>manageInstance.py\<close>)
  for machines. The world is the pair of what the scaler reads and the cloud. The media scaler keeps
  its gateways in Redis, beside the proxy. Clocks and \<open>dateutil\<close>'s parser are arguments; numbers of
  the configuration are exact.
\<close>

section \<open>The cloud\<close>

record instance_info =
  in_value :: pyval
  in_cpu :: int
  in_pub :: "string option"
  in_priv :: string
  in_start :: string

record 'c csp =
  cs_types :: "string list"
  cs_create :: "string \<Rightarrow> string \<Rightarrow> string \<Rightarrow> ('c, unit) io"
  cs_destroy :: "string list \<Rightarrow> ('c, unit) io"
  cs_list :: "('c, instance_info list) io"

text \<open>A cloud that remembers what it was asked.\<close>

record cloud_log =
  cg_created :: "string list"
  cg_destroyed :: "string list list"

definition log_csp :: "string list \<Rightarrow> instance_info list \<Rightarrow> cloud_log csp" where
  "log_csp types running =
     \<lparr>cs_types = types,
      cs_create = (\<lambda>cpu ram name. modify_io (\<lambda>c. c\<lparr>cg_created := cg_created c @ [cpu]\<rparr>)),
      cs_destroy = (\<lambda>ips. modify_io (\<lambda>c. c\<lparr>cg_destroyed := cg_destroyed c @ [ips]\<rparr>)),
      cs_list = ret_io running\<rparr>"

section \<open>The time of the day\<close>

definition clock_field :: "int \<Rightarrow> string \<Rightarrow> int option" where
  "clock_field hi s =
     (if (length s = 1 \<or> length s = 2) \<and> (\<forall>c \<in> set s. is_digit c) \<and> int (digits_val s) \<le> hi
      then Some (int (digits_val s)) else None)"

definition getSeconds :: "string \<Rightarrow> exn + int" where
  "getSeconds s =
     (case map2 clock_field [23, 59, 59] (str_split '':'' s) of
        [Some h, Some m, Some sec] \<Rightarrow>
          if length (str_split '':'' s) = 3 then Inr (3600 * h + 60 * m + sec) else Inl (ValueError ''time'')
      | _ \<Rightarrow> Inl (ValueError ''time''))"

record slot =
  sl_unlocked :: "rat option"
  sl_min :: "rat option"
  sl_max :: "rat option"
  sl_load :: "rat option"

type_synonym timeline = "(string \<times> slot) list"

record scaler_cfg =
  sf_thresholds :: "(string \<times> timeline) list"
  sf_cpu_per_gw :: rat
  sf_ram_per_gw :: string
  sf_prefix :: string
  sf_blacklist :: "pyval list"
  sf_cleanup :: rat
  sf_token :: "string option"

text \<open>\<open>min(keys, key=...)\<close>: the first of the nearest.\<close>

fun first_min :: "('a \<times> int) list \<Rightarrow> 'a option" where
  "first_min [] = None"
| "first_min [(a, _)] = Some a"
| "first_min ((a, n) # (b, m) # xs) = (if m < n then first_min ((b, m) # xs) else first_min ((a, n) # xs))"

definition nearest_slot :: "timeline \<Rightarrow> string \<Rightarrow> exn + slot" where
  "nearest_slot slots now =
     bindE (mapE (\<lambda>k. bindE (getSeconds k) (\<lambda>a. bindE (getSeconds now) (\<lambda>b. Inr (k, \<bar>a - b\<bar>))))
              (filter (\<lambda>k. k \<le> now) (map fst slots))) (\<lambda>ds.
       case first_min ds of
         None \<Rightarrow> Inl (ValueError ''min() arg is an empty sequence'')
       | Some k \<Rightarrow> Inr (the (map_of slots k)))"

definition todays_timeline :: "scaler_cfg \<Rightarrow> string \<Rightarrow> exn + timeline" where
  "todays_timeline cfg wday =
     (case map_of (sf_thresholds cfg) wday of
        Some slots \<Rightarrow> Inr slots
      | None \<Rightarrow> (case map_of (sf_thresholds cfg) ''default'' of Some slots \<Rightarrow> Inr slots | None \<Rightarrow> Inl (KeyError ''default'')))"

section \<open>How many\<close>

definition in_calls :: "int option \<Rightarrow> int \<Rightarrow> int \<Rightarrow> int" where
  "in_calls given capacity ready = (case given of Some n \<Rightarrow> if n \<noteq> 0 then n else capacity - ready | None \<Rightarrow> capacity - ready)"

definition target_capacity :: "slot \<Rightarrow> int \<Rightarrow> exn + rat" where
  "target_capacity sl calls =
     (let unlockedMin = (case sl_unlocked sl of Some x \<Rightarrow> x | None \<Rightarrow> 0); minGw = (case sl_min sl of Some x \<Rightarrow> x | None \<Rightarrow> 0);
          minCapacity = max minGw (unlockedMin + of_int calls)
      in case (sl_max sl, sl_load sl) of
           (None, _) \<Rightarrow> Inl (KeyError ''maxGw'')
         | (_, None) \<Rightarrow> Inl (KeyError ''loadMax'')
         | (Some maxGw, Some loadMax) \<Rightarrow>
             if loadMax = 0 then Inl (OtherError ''ZeroDivisionError'')
             else Inr (min maxGw (max minCapacity (of_int calls / loadMax))))"

definition capacity_increase :: "slot \<Rightarrow> int \<Rightarrow> int \<Rightarrow> exn + int" where
  "capacity_increase sl calls capacity = bindE (target_capacity sl calls) (\<lambda>t. Inr \<lceil>t - of_int capacity\<rceil>)"

section \<open>Scaling\<close>

record 'w scaler_ops =
  so_capacity :: "('w, int) io"
  so_ready :: "('w, int) io"
  so_down :: "int \<Rightarrow> ('w, unit) io"
  so_cleanup :: "('w, unit) io"

text \<open>The loop of \<open>upScale\<close>, and what is left to create.\<close>

fun create_loop :: "'c csp \<Rightarrow> scaler_cfg \<Rightarrow> string list \<Rightarrow> int \<Rightarrow> ('c, int) io" where
  "create_loop csp cfg [] n = ret_io n"
| "create_loop csp cfg (cpu # cpus) n =
     (case py_int_str cpu of
        None \<Rightarrow> raise_io (ValueError ''int'')
      | Some k \<Rightarrow>
          if k = 0 then raise_io (OtherError ''ZeroDivisionError'')
          else bind_io (for_io (\<lambda>_. cs_create csp cpu (sf_ram_per_gw cfg) (sf_prefix cfg)) [1..n div k]) (\<lambda>_.
               create_loop csp cfg cpus (n mod k)))"

definition cpu_range :: "string list \<Rightarrow> string list" where
  "cpu_range types = rev (sort types)"

definition upScale :: "'c csp \<Rightarrow> scaler_cfg \<Rightarrow> int \<Rightarrow> ('c, unit) io" where
  "upScale csp cfg numCPU =
     bind_io (create_loop csp cfg (cpu_range (cs_types csp)) numCPU) (\<lambda>left.
       if left = 0 then ret_io ()
       else if cs_types csp = [] then raise_io (UnboundLocalError ''cpu'')
       else cs_create csp (last (cpu_range (cs_types csp))) (sf_ram_per_gw cfg) (sf_prefix cfg))"

definition scale :: "('s \<times> 'c) scaler_ops \<Rightarrow> 'c csp \<Rightarrow> scaler_cfg \<Rightarrow> string \<Rightarrow> string \<Rightarrow> int option \<Rightarrow> ('s \<times> 'c, int) io" where
  "scale ops csp cfg wday now incalls =
     bind_io (lift_io (todays_timeline cfg wday)) (\<lambda>slots.
     bind_io (lift_io (nearest_slot slots now)) (\<lambda>sl.
     bind_io (so_capacity ops) (\<lambda>capacity.
     bind_io (so_ready ops) (\<lambda>ready.
     bind_io (lift_io (capacity_increase sl (in_calls incalls capacity ready) capacity)) (\<lambda>inc.
     bind_io (if 0 < inc then on_right (upScale csp cfg \<lceil>of_int inc * sf_cpu_per_gw cfg\<rceil>) else ret_io ()) (\<lambda>_.
     bind_io (if inc < 0 then so_down ops \<bar>inc\<bar> else ret_io ()) (\<lambda>_.
     ret_io 0)))))))"

section \<open>Stale machines\<close>

text \<open>An instant is a number of microseconds, with its zone's offset when it has one.\<close>

type_synonym instant = "int \<times> int option"

definition seconds_since :: "int \<Rightarrow> instant \<Rightarrow> exn + rat" where
  "seconds_since now t =
     (case snd t of
        None \<Rightarrow> Inl (TypeError ''can't subtract offset-naive and offset-aware datetimes'')
      | Some _ \<Rightarrow> Inr (of_int (now - to_utc t) / 1000000))"

definition base_cleanup :: "'c csp \<Rightarrow> scaler_cfg \<Rightarrow> (string \<Rightarrow> exn + instant) \<Rightarrow> int \<Rightarrow> ('c, unit) io" where
  "base_cleanup csp cfg parse now =
     bind_io (cs_list csp) (\<lambda>insts.
       for_io (\<lambda>i. if in_value i \<in> set (sf_blacklist cfg) \<or> (case in_pub i of Some p \<Rightarrow> p \<noteq> [] | None \<Rightarrow> False) then ret_io ()
                   else bind_io (lift_io (bindE (parse (in_start i)) (seconds_since now))) (\<lambda>age.
                        if 600 < age then cs_destroy csp [in_priv i] else ret_io ())) insts)"

section \<open>The media scaler\<close>

definition media_load :: "string option \<Rightarrow> pydict" where
  "media_load raw =
     (case raw of
        None \<Rightarrow> []
      | Some t \<Rightarrow> if t = [] then [] else (case json_loads t of Some (PDict d) \<Rightarrow> d | _ \<Rightarrow> []))"

definition media_dump :: "pydict \<Rightarrow> string" where
  "media_dump gw = json_dumps (PDict gw)"

definition idle_state :: "pyval \<Rightarrow> bool" where
  "idle_state v = (v = PStr ''created'' \<or> v = PStr ''stopped'')"

definition entry_ip :: "pydict \<Rightarrow> exn + string" where
  "entry_ip gw = bindE (dindex gw ''gw_ip'') (\<lambda>v. case v of PStr s \<Rightarrow> Inr s | _ \<Rightarrow> Inl (AttributeError ''split''))"

definition host_of :: "string \<Rightarrow> string" where
  "host_of s = (case split1 '':'' s of Some (h, _) \<Rightarrow> h | None \<Rightarrow> s)"

definition stopping_entry :: "string \<Rightarrow> pydict \<Rightarrow> pydict" where
  "stopping_entry now gw = dset ''start_time'' (PStr now) (dset ''gw_state'' (PStr ''stopping'') gw)"

text \<open>The loop of \<open>downScale\<close>: the machines it marks, and the store it leaves.\<close>

fun mark_idle :: "'s redis_ops \<Rightarrow> string \<Rightarrow> string list \<Rightarrow> int \<Rightarrow> ('s, string list) io" where
  "mark_idle R now [] n = ret_io []"
| "mark_idle R now (k # ks) n =
     (if n \<le> 0 then ret_io []
      else bind_io (read_io (\<lambda>s. media_load (r_get R s k))) (\<lambda>gw.
           bind_io (lift_io (entry_ip gw)) (\<lambda>ip.
           if idle_state (dget gw ''gw_state'')
           then bind_io (modify_io (\<lambda>s. r_set R s k (media_dump (stopping_entry now gw)))) (\<lambda>_.
                bind_io (mark_idle R now ks (n - 1)) (\<lambda>ips. ret_io (host_of ip # ips)))
           else mark_idle R now ks n)))"

definition media_down :: "'s redis_ops \<Rightarrow> 'c csp \<Rightarrow> string \<Rightarrow> int \<Rightarrow> ('s \<times> 'c, unit) io" where
  "media_down R csp now n =
     bind_io (on_left (bind_io (read_io (\<lambda>s. r_scan R s ''gateway:'')) (\<lambda>ks. mark_idle R now ks n))) (\<lambda>ips.
       if ips = [] then ret_io () else on_right (cs_destroy csp ips))"

text \<open>The loop of \<open>cleanup\<close>: the machines marked for longer than allowed.\<close>

fun stale_keys :: "'s redis_ops \<Rightarrow> scaler_cfg \<Rightarrow> (string \<Rightarrow> exn + instant) \<Rightarrow> int \<Rightarrow> string list \<Rightarrow> ('s, pyval list) io" where
  "stale_keys R cfg parse now [] = ret_io []"
| "stale_keys R cfg parse now (k # ks) =
     bind_io (read_io (\<lambda>s. media_load (r_get R s k))) (\<lambda>gw.
     bind_io (lift_io (dindex gw ''gw_ip'')) (\<lambda>ip.
     let last = dget gw ''start_time'' in
     if dget gw ''gw_state'' = PStr ''stopping'' \<and> truthy last
     then bind_io (lift_io (bindE (case last of PStr t \<Rightarrow> parse t | _ \<Rightarrow> Inl (TypeError ''Parser must be a string'')) (seconds_since now))) (\<lambda>age.
          bind_io (stale_keys R cfg parse now ks) (\<lambda>ips. ret_io (if sf_cleanup cfg < age then ip # ips else ips)))
     else stale_keys R cfg parse now ks))"

definition text_of_ip :: "pyval \<Rightarrow> string" where
  "text_of_ip v = (case v of PStr s \<Rightarrow> s | _ \<Rightarrow> py_str v)"

definition media_cleanup :: "'s redis_ops \<Rightarrow> 'c csp \<Rightarrow> scaler_cfg \<Rightarrow> (string \<Rightarrow> exn + instant) \<Rightarrow> int \<Rightarrow> ('s \<times> 'c, unit) io" where
  "media_cleanup R csp cfg parse now =
     bind_io (on_left (bind_io (read_io (\<lambda>s. r_scan R s ''gateway:'')) (stale_keys R cfg parse now))) (\<lambda>ips.
     bind_io (if ips = [] then ret_io () else on_right (cs_destroy csp (map text_of_ip ips))) (\<lambda>_.
     on_right (base_cleanup csp cfg parse now)))"

definition media_capacity :: "'s redis_ops \<Rightarrow> ('s, int) io" where
  "media_capacity R = read_io (\<lambda>s. int (length (r_scan R s ''gateway:'')))"

definition media_ready :: "'s redis_ops \<Rightarrow> ('s, int) io" where
  "media_ready R =
     read_io (\<lambda>s. int (length (filter (\<lambda>k. idle_state (dget (media_load (r_get R s k)) ''gw_state'')) (r_scan R s ''gateway:''))))"

definition media_ops :: "'s redis_ops \<Rightarrow> 'c csp \<Rightarrow> scaler_cfg \<Rightarrow> (string \<Rightarrow> exn + instant) \<Rightarrow> int \<Rightarrow> string \<Rightarrow> ('s \<times> 'c) scaler_ops" where
  "media_ops R csp cfg parse now now_iso =
     \<lparr>so_capacity = on_left (media_capacity R), so_ready = on_left (media_ready R),
      so_down = media_down R csp now_iso, so_cleanup = media_cleanup R csp cfg parse now\<rparr>"

section \<open>The web service\<close>

definition scaler_auth :: "scaler_cfg \<Rightarrow> request \<Rightarrow> response option" where
  "scaler_auth cfg rq =
     (case sf_token cfg of
        None \<Rightarrow> Some (JSON 200 (PDict [(''Error'', PStr ''internal error'')]))
      | Some token \<Rightarrow>
          (case hdr rq ''authorization'' of
             None \<Rightarrow> Some (JSON 401 (PDict [(''Error'', PStr ''authorization error'')]))
           | Some h \<Rightarrow>
               if (if startswith h ''Bearer '' then drop 7 h else h) \<noteq> token
               then Some (JSON 401 (PDict [(''Error'', PStr ''authorization error'')])) else None))"

text \<open>\<open>configureInstance\<close> of the cloud comes first; what it raises ends the request.\<close>

definition auto_text :: "(exn + int) \<Rightarrow> response option" where
  "auto_text r =
     (case r of
        Inl e \<Rightarrow> Some (Page 200 (''The scaler iteration failed: '' @ exn_str e))
      | Inr n \<Rightarrow> if n = 0 then Some (JSON 200 (PDict [(''status'', PStr ''success''), (''message'', PStr ''The scaler iteration succeed'')]))
                 else None)"

definition attempt :: "('w, 'a) io \<Rightarrow> ('w, exn + 'a) io" where
  "attempt m w = (case m w of (r, w') \<Rightarrow> (Inr r, w'))"

definition up_one :: "'c csp \<Rightarrow> ('s \<times> 'c, response) io" where
  "up_one csp =
     bind_io (attempt (on_right (cs_create csp ''4'' ''4'' ''mediagw''))) (\<lambda>r.
       ret_io (case r of Inl e \<Rightarrow> JSON 500 (PDict [(''Error'', PStr (''Instance creation failed: '' @ exn_str e))])
                       | Inr _ \<Rightarrow> JSON 200 (PDict [(''status'', PStr ''success'')])))"

definition scaler_GET :: "('s \<times> 'c) scaler_ops \<Rightarrow> 'c csp \<Rightarrow> scaler_cfg \<Rightarrow> ('c, unit) io \<Rightarrow> string \<Rightarrow> string \<Rightarrow> request \<Rightarrow>
    ('s \<times> 'c, response option) io" where
  "scaler_GET ops csp cfg configure wday now rq =
     (case scaler_auth cfg rq of
        Some refused \<Rightarrow> ret_io (Some refused)
      | None \<Rightarrow>
          bind_io (on_right configure) (\<lambda>_.
          bind_io (if dmem (rq_query rq) ''auto''
                   then bind_io (attempt (bind_io (so_cleanup ops) (\<lambda>_. scale ops csp cfg wday now None))) (\<lambda>r. ret_io (auto_text r))
                   else ret_io None) (\<lambda>done.
          case done of
            Some a \<Rightarrow> ret_io (Some a)
          | None \<Rightarrow> if dmem (rq_query rq) ''up'' then bind_io (up_one csp) (\<lambda>a. ret_io (Some a)) else ret_io None)))"

end
