(* ===== verification/Scaler_Props.thy ===== *)
theory Scaler_Props
  imports Scaler Proxy_Props
begin

text \<open>
  The properties of the scaler: the bounds of what a time of the day asks for, the machines created
  for it, and what the media scaler does to the registry it shares with the proxy.
\<close>

section \<open>How many\<close>

lemma target_bounds:
  assumes "target_capacity sl calls = Inr t" and "sl_max sl = Some m"
  shows "t \<le> m"
    and "min m (max (case sl_min sl of Some x \<Rightarrow> x | None \<Rightarrow> 0) (of_int calls + (case sl_unlocked sl of Some x \<Rightarrow> x | None \<Rightarrow> 0))) \<le> t"
  using assms by (auto simp: target_capacity_def Let_def add.commute split: option.splits if_splits)

text \<open>
  C16. Scaling leaves between the floor and the ceiling of the time slot: never more gateways than
  \<open>maxGw\<close>, and, short of it, at least \<open>minGw\<close> and one per call besides the buffer asked for. Where
  the calls fit under the ceiling, no more gateways are given up than are ready.
\<close>
theorem scaling_respects_the_slot:
  assumes "capacity_increase sl calls capacity = Inr inc" and "sl_max sl = Some (of_int m)"
    and "case sl_unlocked sl of Some x \<Rightarrow> 0 \<le> x | None \<Rightarrow> True"
  shows "capacity + inc \<le> m \<and> min m calls \<le> capacity + inc
    \<and> (case sl_min sl of Some g \<Rightarrow> min (of_int m) g \<le> of_int (capacity + inc) | None \<Rightarrow> True)
    \<and> (calls = in_calls None capacity ready \<longrightarrow> calls \<le> m \<longrightarrow> - inc \<le> ready)"
proof -
  obtain t where t: "target_capacity sl calls = Inr t" and inc: "inc = \<lceil>t - of_int capacity\<rceil>"
    using assms(1) by (auto simp: capacity_increase_def bindE_eq_Inr_iff)
  have sum: "capacity + inc = \<lceil>t\<rceil>" by (simp add: inc)
  note bounds = target_bounds [OF t assms(2)]
  have "of_int (min m calls) \<le> t"
    using bounds(2) assms(3) by (auto simp: min_def max_def split: option.splits if_splits)
  then have calls: "min m calls \<le> capacity + inc" unfolding sum by (meson le_of_int_ceiling of_int_le_iff order_trans)
  moreover have "capacity + inc \<le> m" unfolding sum using bounds(1) by (simp add: ceiling_le)
  moreover have "case sl_min sl of Some g \<Rightarrow> min (of_int m) g \<le> of_int (capacity + inc) | None \<Rightarrow> True"
  proof (cases "sl_min sl")
    case (Some g)
    then have "min (of_int m) g \<le> t" using bounds(2) by (auto simp: min_def max_def split: if_splits)
    then show ?thesis using Some unfolding sum by (simp add: order_trans [OF _ le_of_int_ceiling])
  qed simp
  moreover have "calls = in_calls None capacity ready \<longrightarrow> calls \<le> m \<longrightarrow> - inc \<le> ready"
    using calls by (auto simp: in_calls_def min_def split: if_splits)
  ultimately show ?thesis by blast
qed

lemma scaling_respects_the_slot_witness:
  "capacity_increase \<lparr>sl_unlocked = Some 2, sl_min = None, sl_max = Some 4, sl_load = Some (3 / 4)\<rparr> 3 3 = Inr 1
     \<and> 3 + 1 \<le> (4 :: int)"
proof -
  have r: "capacity_increase \<lparr>sl_unlocked = Some 2, sl_min = None, sl_max = Some (of_int 4), sl_load = Some (3 / 4)\<rparr> 3 3 = Inr 1"
    by (simp add: capacity_increase_def target_capacity_def)
  from scaling_respects_the_slot [OF r, of 4 0] r show ?thesis by simp
qed

section \<open>Machines\<close>

definition cpus :: "string \<Rightarrow> int" where
  "cpus t = (case py_int_str t of Some k \<Rightarrow> k | None \<Rightarrow> 0)"

lemma for_io_create:
  "for_io (\<lambda>_. cs_create (log_csp types up) cpu ram name) xs c = (Inr (), c\<lparr>cg_created := cg_created c @ replicate (length xs) cpu\<rparr>)"
proof (induction xs arbitrary: c)
  case (Cons x xs)
  then show ?case by (simp add: log_csp_def bind_io_def)
qed simp

lemma create_loop_log:
  assumes "\<forall>t \<in> set ts. 0 < cpus t" and "0 \<le> n"
  shows "\<exists>made left. create_loop (log_csp types up) cfg ts n c = (Inr left, c\<lparr>cg_created := cg_created c @ made\<rparr>)
    \<and> sum_list (map cpus made) + left = n \<and> 0 \<le> left \<and> (ts \<noteq> [] \<longrightarrow> left < cpus (last ts))"
  using assms
proof (induction ts arbitrary: n c)
  case (Cons t ts)
  then have t: "py_int_str t = Some (cpus t)" "0 < cpus t" by (auto simp: cpus_def split: option.splits)
  let ?made = "replicate (nat (n div cpus t)) t"
  have div: "0 \<le> n div cpus t" "0 \<le> n mod cpus t" "n mod cpus t < cpus t"
    using t(2) Cons.prems(2) by (simp_all add: pos_imp_zdiv_nonneg_iff)
  obtain made left where rec: "create_loop (log_csp types up) cfg ts (n mod cpus t) (c\<lparr>cg_created := cg_created c @ ?made\<rparr>)
      = (Inr left, c\<lparr>cg_created := (cg_created c @ ?made) @ made\<rparr>)" "sum_list (map cpus made) + left = n mod cpus t" "0 \<le> left"
    "ts \<noteq> [] \<longrightarrow> left < cpus (last ts)"
    using Cons.IH [of "n mod cpus t" "c\<lparr>cg_created := cg_created c @ ?made\<rparr>"] Cons.prems div by auto
  have "ts = [] \<Longrightarrow> left = n mod cpus t" using rec(1) by simp
  moreover have "sum_list (map cpus ?made) = n div cpus t * cpus t" using div by (simp add: sum_list_replicate)
  moreover have "n div cpus t * cpus t + (sum_list (map cpus made) + left) = n" unfolding rec(2) by (rule div_mult_mod_eq)
  ultimately show ?case
    using t rec div(1,3) by (intro exI [of _ "?made @ made"] exI [of _ left]) (auto simp: for_io_create bind_io_def add.assoc)
next
  case Nil
  then show ?case by (intro exI [of _ "[]"] exI [of _ n]) simp
qed

lemma upscale_creates:
  assumes "types \<noteq> []" and "\<forall>t \<in> set types. 0 < cpus t" and "0 \<le> n"
  shows "\<exists>made. upScale (log_csp types up) cfg n c = (Inr (), c\<lparr>cg_created := cg_created c @ made\<rparr>)
    \<and> n \<le> sum_list (map cpus made) \<and> sum_list (map cpus made) < n + cpus (last (cpu_range types))"
proof -
  have ts: "cs_types (log_csp types up) = types" by (simp add: log_csp_def)
  have ne: "cpu_range types \<noteq> []" using assms(1) by (metis cpu_range_def rev_is_Nil_conv set_empty set_sort)
  obtain made left where loop: "create_loop (log_csp types up) cfg (cpu_range types) n c = (Inr left, c\<lparr>cg_created := cg_created c @ made\<rparr>)"
    and left: "sum_list (map cpus made) + left = n" "0 \<le> left" "left < cpus (last (cpu_range types))"
    using create_loop_log [of "cpu_range types" n types up cfg c] assms(2,3) ne by (auto simp: cpu_range_def)
  show ?thesis
  proof (cases "left = 0")
    case True
    with loop left show ?thesis by (intro exI [of _ made]) (simp add: upScale_def ts)
  next
    case False
    have "cs_create (log_csp types up) cpu ram name d = (Inr (), d\<lparr>cg_created := cg_created d @ [cpu]\<rparr>)" for cpu ram name d
      by (simp add: log_csp_def)
    with False loop left assms(1) show ?thesis
      by (intro exI [of _ "made @ [last (cpu_range types)]"]) (simp add: upScale_def ts)
  qed
qed

text \<open>
  Going up creates enough: the machines asked of the cloud have the processors wanted, and the
  excess is less than the last kind tried.
\<close>
theorem upscale_creates_enough:
  assumes "types \<noteq> []" and "\<forall>t \<in> set types. 0 < cpus t" and "0 \<le> n"
  shows "\<exists>made. upScale (log_csp types up) cfg n c = (Inr (), c\<lparr>cg_created := cg_created c @ made\<rparr>)
    \<and> n \<le> sum_list (map cpus made) \<and> sum_list (map cpus made) < n + cpus (last (cpu_range types))"
  using assms by (rule upscale_creates)

definition wit_scaler_cfg :: scaler_cfg where
  "wit_scaler_cfg = \<lparr>sf_thresholds = [(''default'', [(''00:00:00'', \<lparr>sl_unlocked = Some 1, sl_min = None, sl_max = Some 4, sl_load = Some (3 / 4)\<rparr>)])],
     sf_cpu_per_gw = 4, sf_ram_per_gw = ''4'', sf_prefix = ''mediagw'', sf_blacklist = [], sf_cleanup = 600, sf_token = Some ''1234''\<rparr>"

lemma upscale_creates_enough_witness:
  "\<exists>made. upScale (log_csp [''4'', ''8''] []) wit_scaler_cfg 13 \<lparr>cg_created = [], cg_destroyed = []\<rparr>
       = (Inr (), \<lparr>cg_created = made, cg_destroyed = []\<rparr>) \<and> 13 \<le> sum_list (map cpus made)"
proof -
  have "\<forall>t \<in> set [''4'', ''8'']. 0 < cpus t" by code_simp
  from upscale_creates_enough [OF _ this, of 13 "[]" wit_scaler_cfg "\<lparr>cg_created = [], cg_destroyed = []\<rparr>"]
  show ?thesis by auto
qed

text \<open>The kinds are sorted as texts: sixteen processors come after four, and one processor left over
  takes a machine of sixteen.\<close>

lemma kinds_are_sorted_as_texts:
  "cg_created (snd (upScale (log_csp [''4'', ''16''] []) wit_scaler_cfg 17 \<lparr>cg_created = [], cg_destroyed = []\<rparr>))
     = [''4'', ''4'', ''4'', ''4'', ''16'']"
  by code_simp

section \<open>The media scaler and the registry\<close>

lemma media_load_gwLoad: "media_load = gwLoad"
  by (rule ext) (simp add: media_load_def gwLoad_def)

lemma media_load_dump: "jsonable (PDict gw) \<Longrightarrow> media_load (Some (media_dump gw)) = gw"
  using json.load_dump [of "PDict gw"] json.dump_nonempty by (simp add: media_load_def media_dump_def)

text \<open>The entry under a key, its machine, and the store once a set of keys is marked.\<close>

abbreviation media_entry :: "'s redis_ops \<Rightarrow> 's \<Rightarrow> string \<Rightarrow> pydict" where
  "media_entry R s k \<equiv> media_load (r_get R s k)"

definition machine :: "pydict \<Rightarrow> string" where
  "machine gw = (case dget gw ''gw_ip'' of PStr t \<Rightarrow> host_of t | _ \<Rightarrow> [])"

definition marked :: "'s redis_ops \<Rightarrow> string \<Rightarrow> string set \<Rightarrow> 's \<Rightarrow> 's \<Rightarrow> bool" where
  "marked R now M s s' = (\<forall>k. r_get R s' k =
     (if k \<in> M then Some (media_dump (stopping_entry now (media_entry R s k))) else r_get R s k))"

lemma entry_ok_stopping: "entry_ok gw \<Longrightarrow> entry_ok (stopping_entry now gw)"
  unfolding stopping_entry_def by (intro entry_ok_dset) simp_all

lemma entry_ip_machine: "entry_ip gw = Inr ip \<Longrightarrow> machine gw = host_of ip"
  by (cases "dget gw ''gw_ip''") (auto simp: entry_ip_def machine_def bindE_eq_Inr_iff dindex_Inr_iff dget_def)

text \<open>What \<open>mark_idle\<close> did with the keys it was given: the set \<open>M\<close> of the marked ones.\<close>

definition marks :: "'s redis_ops \<Rightarrow> string \<Rightarrow> string list \<Rightarrow> int \<Rightarrow> 's \<Rightarrow> string set \<Rightarrow> bool" where
  "marks R now ks n s M =
     (M \<subseteq> set ks \<and> marked R now M s (snd (mark_idle R now ks n s))
      \<and> (\<forall>k \<in> M. idle_state (dget (media_entry R s k) ''gw_state''))
      \<and> int (card M) \<le> max 0 n
      \<and> (\<forall>ips. fst (mark_idle R now ks n s) = Inr ips \<longrightarrow> set ips = (\<lambda>k. machine (media_entry R s k)) ` M))"

context redis_laws
begin

lemma sound_at:
  assumes "registry_ok R s" "prefix ''gateway:'' k" "r_get R s k \<noteq> None"
  shows "entry_ok (media_entry R s k)"
  using assms by (simp add: registry_ok_def sound_entries_def gw_present_def gw_entry_def media_load_gwLoad)

lemma marked_entry:
  assumes "registry_ok R s" "marked R now M s s'" "M \<subseteq> set (r_scan R s ''gateway:'')" "k \<in> M"
  shows "media_entry R s' k = stopping_entry now (media_entry R s k)"
proof -
  have "entry_ok (media_entry R s k)" by (rule sound_at [OF assms(1)]) (use assms(3,4) in \<open>auto simp: scan_keys\<close>)
  then have "jsonable (PDict (stopping_entry now (media_entry R s k)))" using entry_ok_stopping entry_ok_def by blast
  then show ?thesis using assms(2,4) by (simp add: marked_def media_load_dump del: jsonable.simps)
qed

lemma marked_sound:
  assumes "registry_ok R s" "marked R now M s s'" "M \<subseteq> set (r_scan R s ''gateway:'')"
  shows "registry_ok R s'"
  unfolding registry_ok_def sound_entries_def gw_present_def gw_entry_def media_load_gwLoad [symmetric]
proof (intro allI impI)
  fix k assume k: "prefix ''gateway:'' k" "r_get R s' k \<noteq> None"
  show "entry_ok (media_entry R s' k)"
  proof (cases "k \<in> M")
    case True
    then have "entry_ok (media_entry R s k)"
      by (intro sound_at [OF assms(1)]) (use assms(3) in \<open>auto simp: scan_keys\<close>)
    then show ?thesis using marked_entry [OF assms True] entry_ok_stopping by simp
  next
    case False
    then have "r_get R s' k = r_get R s k" using assms(2) by (simp add: marked_def)
    then show ?thesis using sound_at [OF assms(1) k(1)] k(2) by simp
  qed
qed

lemma mark_idle_end: "n \<le> 0 \<or> entry_ip (media_entry R s k) = Inl e \<Longrightarrow>
    snd (mark_idle R now (k # ks) n s) = s \<and> (fst (mark_idle R now (k # ks) n s) = Inr ips \<longrightarrow> ips = [])"
  by (auto simp: bind_io_def)

lemma mark_idle_busy: "0 < n \<Longrightarrow> entry_ip (media_entry R s k) = Inr ip \<Longrightarrow> \<not> idle_state (dget (media_entry R s k) ''gw_state'') \<Longrightarrow>
    mark_idle R now (k # ks) n s = mark_idle R now ks n s"
  by (simp add: bind_io_def)

lemma mark_idle_idle:
  assumes "0 < n" "entry_ip (media_entry R s k) = Inr ip" "idle_state (dget (media_entry R s k) ''gw_state'')"
    and "s1 = r_set R s k (media_dump (stopping_entry now (media_entry R s k)))"
  shows "snd (mark_idle R now (k # ks) n s) = snd (mark_idle R now ks (n - 1) s1)"
    and "fst (mark_idle R now (k # ks) n s) = Inr ips \<Longrightarrow>
      \<exists>rest. fst (mark_idle R now ks (n - 1) s1) = Inr rest \<and> ips = host_of ip # rest"
  using assms by (auto simp: bind_io_def split: prod.splits sum.splits)

declare mark_idle.simps(2) [simp del]

lemma mark_idle_marks:
  assumes "registry_ok R s" "set ks \<subseteq> set (r_scan R s ''gateway:'')"
  shows "\<exists>M. marks R now ks n s M"
  using assms
proof (induction ks arbitrary: n s)
  case Nil
  show ?case by (intro exI [of _ "{}"]) (simp add: marks_def marked_def)
next
  case (Cons k ks)
  let ?gw = "media_entry R s k"
  have ks: "set ks \<subseteq> set (r_scan R s ''gateway:'')" and k: "k \<in> set (r_scan R s ''gateway:'')" using Cons.prems(2) by simp_all
  consider (stop) e where "n \<le> 0 \<or> entry_ip ?gw = Inl e" | (go) ip where "0 < n" "entry_ip ?gw = Inr ip"
    by (cases "entry_ip ?gw") force+
  then show ?case
  proof cases
    case stop
    have "marks R now (k # ks) n s {}" using mark_idle_end [OF stop] by (simp add: marks_def marked_def)
    then show ?thesis by (rule exI)
  next
    case go
    show ?thesis
    proof (cases "idle_state (dget ?gw ''gw_state'')")
      case False
      obtain M where M: "marks R now ks n s M" using Cons.IH [OF Cons.prems(1) ks, of n] by (elim exE)
      then have "marks R now (k # ks) n s M" unfolding marks_def mark_idle_busy [OF go False] by auto
      then show ?thesis by (rule exI)
    next
      case idle: True
      define s1 where s1: "s1 = r_set R s k (media_dump (stopping_entry now ?gw))"
      have one: "marked R now {k} s s1" by (simp add: marked_def get_set s1)
      have ok: "registry_ok R s1" using marked_sound [OF Cons.prems(1) one] k by simp
      have scan: "set (r_scan R s1 ''gateway:'') = set (r_scan R s ''gateway:'')"
        using k by (auto simp: scan_keys get_set s1)
      obtain M where "marks R now ks (n - 1) s1 M" using Cons.IH [OF ok, of "n - 1", unfolded scan, OF ks] by (elim exE)
      then have M: "M \<subseteq> set ks" and m: "marked R now M s1 (snd (mark_idle R now ks (n - 1) s1))"
        and idles: "\<And>j. j \<in> M \<Longrightarrow> idle_state (dget (media_entry R s1 j) ''gw_state'')"
        and card: "int (card M) \<le> max 0 (n - 1)"
        and ips: "\<And>ips. fst (mark_idle R now ks (n - 1) s1) = Inr ips \<Longrightarrow> set ips = (\<lambda>j. machine (media_entry R s1 j)) ` M"
        by (simp_all add: marks_def)
      have "media_entry R s1 k = stopping_entry now ?gw" using marked_entry [OF Cons.prems(1) one] k by simp
      then have new: "k \<notin> M" using idles [of k] by (auto simp: stopping_entry_def idle_state_def)
      have same: "media_entry R s1 j = media_entry R s j" if "j \<in> M" for j using that new by (auto simp: get_set s1)
      note step = mark_idle_idle [OF go idle s1]
      have "marked R now (insert k M) s (snd (mark_idle R now ks (n - 1) s1))"
        using m new by (auto simp: marked_def get_set s1)
      moreover have "int (card (insert k M)) \<le> max 0 n" using card go(1) new finite_subset [OF M] by simp
      moreover have "set ips = (\<lambda>j. machine (media_entry R s j)) ` insert k M"
        if "fst (mark_idle R now (k # ks) n s) = Inr ips" for ips
        using step(2) [OF that] ips same entry_ip_machine [OF go(2)] by auto
      ultimately have "marks R now (k # ks) n s (insert k M)"
        using M idles idle same unfolding marks_def step(1) by auto
      then show ?thesis by (rule exI)
    qed
  qed
qed

end

lemma stopping_not_free: "deriveState (stopping_entry now gw) \<noteq> ''free''"
  using free_state_cleanPart [of "PStr ''stopping''"] by (simp add: deriveState_def Let_def stopping_entry_def free_state_def)

text \<open>
  C32. Giving up gateways takes idle ones, no more than asked, and exactly their machines: every entry
  taken was created or stopped, is no longer offered to \<open>/start\<close>, and the other entries are untouched.
\<close>
theorem downscale_takes_idle_gateways:
  assumes "redis_laws R" and "registry_ok R s"
    and "media_down R (log_csp types up) now n (s, c) = (r, (s', c'))"
  shows "registry_ok R s' \<and> (\<exists>M \<subseteq> set (r_scan R s ''gateway:''). int (card M) \<le> max 0 n
    \<and> (\<forall>k. k \<notin> M \<longrightarrow> r_get R s' k = r_get R s k)
    \<and> (\<forall>k \<in> M. idle_state (dget (gwLoad (r_get R s k)) ''gw_state'') \<and> deriveState (gwLoad (r_get R s' k)) \<noteq> ''free'')
    \<and> (case r of Inl e \<Rightarrow> c' = c
       | Inr _ \<Rightarrow> \<exists>ips. set ips = (\<lambda>k. machine (gwLoad (r_get R s k))) ` M
           \<and> c' = c\<lparr>cg_destroyed := cg_destroyed c @ (if ips = [] then [] else [ips])\<rparr>))"
proof -
  let ?ks = "r_scan R s ''gateway:''"
  obtain M where M: "marks R now ?ks n s M" using redis_laws.mark_idle_marks [OF assms(1,2) subset_refl] by blast
  have run: "mark_idle R now ?ks n s = (fst (mark_idle R now ?ks n s), s')"
    and c': "case fst (mark_idle R now ?ks n s) of Inl e \<Rightarrow> r = Inl e \<and> c' = c
      | Inr ips \<Rightarrow> r = Inr () \<and> c' = c\<lparr>cg_destroyed := cg_destroyed c @ (if ips = [] then [] else [ips])\<rparr>"
    using assms(3) by (auto simp: media_down_def on_left_def on_right_def bind_io_def log_csp_def split: prod.splits sum.splits if_splits)
  have s': "marked R now M s s'" using M run by (simp add: marks_def) (metis snd_conv)
  have sub: "M \<subseteq> set ?ks" using M by (simp add: marks_def)
  have "registry_ok R s'" by (rule redis_laws.marked_sound [OF assms(1,2) s' sub])
  moreover have "deriveState (gwLoad (r_get R s' k)) \<noteq> ''free''" if "k \<in> M" for k
    using redis_laws.marked_entry [OF assms(1,2) s' sub that] by (simp add: media_load_gwLoad stopping_not_free)
  moreover have "\<forall>k. k \<notin> M \<longrightarrow> r_get R s' k = r_get R s k" using s' by (simp add: marked_def)
  moreover have "case r of Inl e \<Rightarrow> c' = c
       | Inr _ \<Rightarrow> \<exists>ips. set ips = (\<lambda>k. machine (gwLoad (r_get R s k))) ` M
           \<and> c' = c\<lparr>cg_destroyed := cg_destroyed c @ (if ips = [] then [] else [ips])\<rparr>"
    using c' M by (auto simp: marks_def media_load_gwLoad split: sum.splits)
  ultimately show ?thesis
    using M sub by (intro conjI exI [of _ M]) (auto simp: marks_def media_load_gwLoad)
qed

definition wit_pool_down :: "mem \<times> cloud_log" where
  "wit_pool_down = snd (media_down mem_redis (log_csp [''4''] []) ''now'' 1 (wit_pool, \<lparr>cg_created = [], cg_destroyed = []\<rparr>))"

lemma wit_down_run:
  "media_down mem_redis (log_csp [''4''] []) ''now'' 1 (wit_pool, \<lparr>cg_created = [], cg_destroyed = []\<rparr>) =
     (Inr (), (dset ''gateway:g1'' (media_dump (stopping_entry ''now'' (gwOrdered (wit_entry_of ''10.0.0.1'')))) wit_pool,
       \<lparr>cg_created = [], cg_destroyed = [[''10.0.0.1'']]\<rparr>))"
proof -
  have ip: "entry_ip (gwOrdered (wit_entry_of ''10.0.0.1'')) = Inr ''10.0.0.1''" by (simp add: entry_ip_def)
  have host: "host_of ''10.0.0.1'' = ''10.0.0.1''" by code_simp
  have idle: "idle_state (PStr ''created'')" by (simp add: idle_state_def)
  have scan: "r_scan mem_redis wit_pool ''gateway:'' = [''gateway:g1'', ''gateway:g2'']" by (simp add: wit_pool_def)
  have get: "media_load (map_of wit_pool ''gateway:g1'') = gwOrdered (wit_entry_of ''10.0.0.1'')"
    by (simp add: wit_pool_def media_load_gwLoad)
  show ?thesis
    by (simp add: media_down_def on_left_def on_right_def bind_io_def scan mark_idle.simps(2) [of _ _ "''gateway:g1''"]
        mark_idle.simps(2) [of _ _ "''gateway:g2''" _ 0] get
        ip idle host log_csp_def del: mem_redis_simps(8))
qed

lemma downscale_takes_idle_gateways_witness:
  "registry_ok mem_redis (dset ''gateway:g1'' (media_dump (stopping_entry ''now'' (gwOrdered (wit_entry_of ''10.0.0.1'')))) wit_pool)"
  using downscale_takes_idle_gateways [OF mem.redis_laws_axioms registry_ok_wit_pool wit_down_run] by simp

section \<open>A marked gateway and the next pass\<close>

lemma stale_keys_reads: "snd (stale_keys R cfg parse now ks s) = s"
  by (induction ks) (auto simp: bind_io_def Let_def lift_io_def split: prod.splits sum.splits)

lemma stale_keys_blocked:
  assumes "k \<in> set ks" "dget (media_entry R s k) ''gw_state'' = PStr ''stopping''" "dget (media_entry R s k) ''start_time'' = PStr t"
    and "t \<noteq> []" "parse t = Inr (u, None)"
  shows "\<exists>e. stale_keys R cfg parse now ks s = (Inl e, s)"
  using assms(1)
proof (induction ks)
  case (Cons j ks)
  show ?case
  proof (cases "j = k")
    case True
    then show ?thesis using assms(2-) by (cases "dindex (media_entry R s k) ''gw_ip''") (simp_all add: bind_io_def seconds_since_def)
  next
    case False
    then obtain e where "stale_keys R cfg parse now ks s = (Inl e, s)" using Cons by auto
    then show ?thesis by (auto simp: bind_io_def Let_def lift_io_def split: prod.splits sum.splits)
  qed
qed simp

text \<open>
  A gateway given up blocks the scaler: its mark is a time without a zone, which the next pass
  cannot subtract from one with a zone. While the entry stays, every pass answers that it failed, and
  neither the registry nor the cloud changes, so nothing is created either.
\<close>
theorem marked_gateway_blocks_the_scaler:
  assumes "k \<in> set (r_scan R (fst w) ''gateway:'')" "dget (gwLoad (r_get R (fst w) k)) ''gw_state'' = PStr ''stopping''"
    and "dget (gwLoad (r_get R (fst w) k)) ''start_time'' = PStr t" "t \<noteq> []" "parse t = Inr (u, None)"
    and "scaler_auth cfg rq = None" "dmem (rq_query rq) ''auto''"
  shows "\<exists>e. scaler_GET (media_ops R csp cfg parse now mark) csp cfg (ret_io ()) wday hms rq w
    = (Inr (Some (Page 200 (''The scaler iteration failed: '' @ exn_str e))), w)"
proof -
  obtain e where "stale_keys R cfg parse now (r_scan R (fst w) ''gateway:'') (fst w) = (Inl e, fst w)"
    using stale_keys_blocked [of k "r_scan R (fst w) ''gateway:''" R "fst w" t parse u] assms(1-5)
    by (metis media_load_gwLoad)
  then have "media_cleanup R csp cfg parse now w = (Inl e, w)"
    by (simp add: media_cleanup_def on_left_def bind_io_def)
  then show ?thesis using assms(6,7)
    by (intro exI [of _ e]) (simp add: scaler_GET_def media_ops_def attempt_def on_right_def bind_io_def auto_text_def)
qed

definition wit_scaler_rq :: request where
  "wit_scaler_rq = \<lparr>rq_method = ''GET'', rq_url = ''/scale'', rq_headers = [(''authorization'', ''Bearer 1234'')],
     rq_query = [(''auto'', ''1'')], rq_client = Some ''10.0.0.1'', rq_body = Inr PNone\<rparr>"

definition wit_down :: mem where
  "wit_down = dset ''gateway:g1'' (media_dump (stopping_entry ''2025-03-31T10:00:00'' (gwOrdered (wit_entry_of ''10.0.0.1'')))) wit_pool"

lemma marked_gateway_blocks_the_scaler_witness:
  "\<exists>e. scaler_GET (media_ops mem_redis (log_csp [''4''] []) wit_scaler_cfg (\<lambda>_. Inr (5, None)) 5 ''now'') (log_csp [''4''] [])
      wit_scaler_cfg (ret_io ()) ''monday'' ''10:00:00'' wit_scaler_rq (wit_down, \<lparr>cg_created = [], cg_destroyed = []\<rparr>)
    = (Inr (Some (Page 200 (''The scaler iteration failed: '' @ exn_str e))), (wit_down, \<lparr>cg_created = [], cg_destroyed = []\<rparr>))"
proof -
  have ok: "jsonable (PDict (stopping_entry ''2025-03-31T10:00:00'' (gwOrdered (wit_entry_of ''10.0.0.1''))))"
    using entry_ok_stopping [OF entry_ok_gwOrdered [OF entry_ok_wit_entry]] by (simp add: entry_ok_def del: jsonable.simps)
  have entry: "gwLoad (r_get mem_redis wit_down ''gateway:g1'') =
      stopping_entry ''2025-03-31T10:00:00'' (gwOrdered (wit_entry_of ''10.0.0.1''))"
    using media_load_dump [OF ok] by (simp add: wit_down_def media_load_gwLoad update_conv)
  have "scaler_auth wit_scaler_cfg wit_scaler_rq = None" by code_simp
  with entry show ?thesis
    by (intro marked_gateway_blocks_the_scaler [where k = "''gateway:g1''" and t = "''2025-03-31T10:00:00''" and u = 5])
      (simp_all add: stopping_entry_def wit_down_def wit_pool_def wit_scaler_rq_def dmem_def)
qed

end
