(* ===== verification/Sip_Pool.thy ===== *)
theory Sip_Pool
  imports Scaler
begin

text \<open>
  The pool of SIP gateways: Kamailio's tables of registrations and dialogs, the gateway an incoming
  call is given (\<open>RequestGw.lockGw\<close> of \<open>deploy/kamailio/config/request_gw.py\<close>), the lock released
  after a missed call (\<open>kamailioRun.py\<close>), and the scaler that reads the same tables
  (\<open>deploy/scaler/src/ScalerSIP.py\<close>).

  \<open>se_like s p\<close> is the database's \<open>s LIKE CONCAT('%', p, '%')\<close>, whose wildcards and collation are
  its own; \<open>se_pick\<close> is the row that gives a group its columns where the query does not say which.
\<close>

section \<open>The tables\<close>

record loc_row =
  lr_contact :: string
  lr_username :: string
  lr_socket :: string
  lr_received :: string
  lr_locked :: int
  lr_stop :: int

record sip_db =
  sd_location :: "loc_row list"
  sd_dialog :: "string list"

record sip_env =
  se_like :: "string \<Rightarrow> string \<Rightarrow> bool"
  se_pick :: "loc_row list \<Rightarrow> loc_row"
  se_prefix :: string

text \<open>\<open>SUBSTRING_INDEX(s, d, 1)\<close> and \<open>SUBSTRING_INDEX(s, d, -1)\<close>.\<close>

definition index_first :: "string \<Rightarrow> string \<Rightarrow> string" where
  "index_first s d = (case split1 d s of None \<Rightarrow> s | Some (a, _) \<Rightarrow> a)"

definition index_last :: "string \<Rightarrow> string \<Rightarrow> string" where
  "index_last s d = last (str_split d s)"

definition row_vm :: "loc_row \<Rightarrow> string" where
  "row_vm l = index_first (index_last (lr_received l) ''sip:'') '':''"

definition dialog_vm :: "string \<Rightarrow> string" where
  "dialog_vm c = index_first (index_last c ''alias='') ''~''"

definition in_dialog :: "sip_env \<Rightarrow> sip_db \<Rightarrow> string \<Rightarrow> bool" where
  "in_dialog E d u = (\<exists>c \<in> set (sd_dialog d). se_like E c u)"

definition vm_in_dialog :: "sip_db \<Rightarrow> string \<Rightarrow> bool" where
  "vm_in_dialog d vm = (vm \<in> dialog_vm ` set (sd_dialog d))"

definition ours :: "sip_env \<Rightarrow> loc_row \<Rightarrow> bool" where
  "ours E l = se_like E (lr_username l) (se_prefix E)"

text \<open>An \<open>UPDATE\<close>: how many rows it changed, and the table it leaves.\<close>

definition sip_update :: "(loc_row \<Rightarrow> bool) \<Rightarrow> (loc_row \<Rightarrow> loc_row) \<Rightarrow> sip_db \<Rightarrow> int \<times> sip_db" where
  "sip_update P f d =
     (int (length (filter P (sd_location d))),
      d\<lparr>sd_location := map (\<lambda>l. if P l then f l else l) (sd_location d)\<rparr>)"

section \<open>A gateway for a call\<close>

record contact =
  ct_contact :: string
  ct_username :: string
  ct_socket :: string
  ct_vm :: string
  ct_count :: int

definition candidate :: "sip_env \<Rightarrow> sip_db \<Rightarrow> loc_row \<Rightarrow> bool" where
  "candidate E d l = (lr_locked l = 0 \<and> \<not> in_dialog E d (lr_username l) \<and> ours E l)"

definition group_row :: "sip_env \<Rightarrow> loc_row list \<Rightarrow> string \<Rightarrow> contact" where
  "group_row E rows vm =
     (let g = filter (\<lambda>l. row_vm l = vm) rows; l = se_pick E g in
      \<lparr>ct_contact = lr_contact l, ct_username = lr_username l, ct_socket = lr_socket l, ct_vm = vm, ct_count = int (length g)\<rparr>)"

definition free_contacts :: "sip_env \<Rightarrow> bool \<Rightarrow> sip_db \<Rightarrow> contact list" where
  "free_contacts E busy d =
     (let rows = filter (\<lambda>l. candidate E d l \<and> vm_in_dialog d (row_vm l) = busy) (sd_location d) in
      sort_key ct_count (map (group_row E rows) (remdups (map row_vm rows))))"

definition lock_candidates :: "sip_env \<Rightarrow> sip_db \<Rightarrow> contact list" where
  "lock_candidates E d = (if free_contacts E True d = [] then free_contacts E False d else free_contacts E True d)"

definition claim :: "sip_env \<Rightarrow> contact \<Rightarrow> sip_db \<Rightarrow> int \<times> sip_db" where
  "claim E c d =
     sip_update (\<lambda>l. lr_contact l = ct_contact c \<and> lr_locked l = 0 \<and> \<not> in_dialog E d (ct_username c)) (\<lambda>l. l\<lparr>lr_locked := 1\<rparr>) d"

fun try_claims :: "sip_env \<Rightarrow> contact list \<Rightarrow> sip_db \<Rightarrow> contact option \<times> sip_db" where
  "try_claims E [] d = (None, d)"
| "try_claims E (c # cs) d = (case claim E c d of (n, d') \<Rightarrow> if 0 < n then (Some c, d') else try_claims E cs d')"

definition lockGw :: "sip_env \<Rightarrow> sip_db \<Rightarrow> contact option \<times> sip_db" where
  "lockGw E d = try_claims E (lock_candidates E d) d"

text \<open>\<open>unlock\<close>: the lock of a gateway that did not answer is released.\<close>

definition unlocks :: "sip_env \<Rightarrow> string \<Rightarrow> loc_row \<Rightarrow> bool" where
  "unlocks E dst l = se_like E (lr_contact l) dst"

definition unlock :: "sip_env \<Rightarrow> string \<Rightarrow> sip_db \<Rightarrow> sip_db" where
  "unlock E dst d = snd (sip_update (unlocks E dst) (\<lambda>l. l\<lparr>lr_locked := 0\<rparr>) d)"

section \<open>The SIP scaler\<close>

definition idle_row :: "sip_env \<Rightarrow> sip_db \<Rightarrow> loc_row \<Rightarrow> bool" where
  "idle_row E d l =
     (lr_locked l = 0 \<and> ours E l
      \<and> \<not> (\<exists>l2 \<in> set (sd_location d). row_vm l2 = row_vm l \<and> lr_locked l2 = 1)
      \<and> \<not> vm_in_dialog d (row_vm l))"

definition idle_vms :: "sip_env \<Rightarrow> sip_db \<Rightarrow> (string \<times> int) list" where
  "idle_vms E d =
     (let vms = map row_vm (filter (idle_row E d) (sd_location d)) in
      sort_key (\<lambda>v. - snd v) (map (\<lambda>vm. (vm, int (length (filter (\<lambda>x. x = vm) vms)))) (remdups vms)))"

text \<open>The machine is taken when the rows changed are as many as were counted, else rolled back.\<close>

definition take_vm :: "string \<times> int \<Rightarrow> sip_db \<Rightarrow> bool \<times> sip_db" where
  "take_vm v d =
     (case sip_update (\<lambda>l. lr_locked l = 0 \<and> row_vm l = fst v) (\<lambda>l. l\<lparr>lr_locked := 1, lr_stop := 1\<rparr>) d of
        (n, d') \<Rightarrow> if n = snd v then (True, d') else (False, d))"

fun take_vms :: "(string \<times> int) list \<Rightarrow> int \<Rightarrow> sip_db \<Rightarrow> string list \<times> sip_db" where
  "take_vms [] n d = ([], d)"
| "take_vms (v # vs) n d =
     (if snd v \<le> n
      then (case take_vm v d of
              (True, d') \<Rightarrow> (case take_vms vs (n - snd v) d' of (ips, d'') \<Rightarrow> (fst v # ips, d''))
            | (False, d') \<Rightarrow> take_vms vs n d')
      else take_vms vs n d)"

text \<open>The database is down for a whole operation (\<open>up = False\<close>) or answers all of it.\<close>

definition sip_down :: "sip_env \<Rightarrow> bool \<Rightarrow> 'c csp \<Rightarrow> int \<Rightarrow> (sip_db \<times> 'c, unit) io" where
  "sip_down E up csp n =
     (if \<not> up then raise_io (UnboundLocalError ''ipList'')
      else bind_io (on_left (\<lambda>d. case take_vms (idle_vms E d) n d of (ips, d') \<Rightarrow> (Inr ips, d'))) (\<lambda>ips.
           if ips = [] then ret_io () else on_right (cs_destroy csp ips)))"

definition stopped_vms :: "sip_env \<Rightarrow> sip_db \<Rightarrow> string list" where
  "stopped_vms E d = remdups (map row_vm (filter (\<lambda>l. ours E l \<and> lr_stop l = 1) (sd_location d)))"

definition sip_cleanup :: "sip_env \<Rightarrow> bool \<Rightarrow> 'c csp \<Rightarrow> scaler_cfg \<Rightarrow> (string \<Rightarrow> exn + instant) \<Rightarrow> int \<Rightarrow> (sip_db \<times> 'c, unit) io" where
  "sip_cleanup E up csp cfg parse now =
     (if \<not> up then ret_io ()
      else bind_io (on_left (read_io (stopped_vms E))) (\<lambda>ips.
           bind_io (if ips = [] then ret_io () else on_right (cs_destroy csp ips)) (\<lambda>_.
           on_right (base_cleanup csp cfg parse now))))"

definition sip_capacity :: "sip_env \<Rightarrow> bool \<Rightarrow> (sip_db, int) io" where
  "sip_capacity E up =
     read_io (\<lambda>d. if up then int (length (filter (\<lambda>l. ours E l \<and> lr_stop l = 0) (sd_location d))) else 0)"

definition sip_ready :: "sip_env \<Rightarrow> bool \<Rightarrow> (sip_db, int) io" where
  "sip_ready E up =
     read_io (\<lambda>d. if up then int (length (filter (candidate E d) (sd_location d))) else 0)"

definition sip_ops :: "sip_env \<Rightarrow> bool \<Rightarrow> 'c csp \<Rightarrow> scaler_cfg \<Rightarrow> (string \<Rightarrow> exn + instant) \<Rightarrow> int \<Rightarrow> (sip_db \<times> 'c) scaler_ops" where
  "sip_ops E up csp cfg parse now =
     \<lparr>so_capacity = on_left (sip_capacity E up), so_ready = on_left (sip_ready E up),
      so_down = sip_down E up csp, so_cleanup = sip_cleanup E up csp cfg parse now\<rparr>"

end
