(* ===== verification/Sip_Pool_Props.thy ===== *)
theory Sip_Pool_Props
  imports Sip_Pool Scaler_Props
begin

text \<open>
  The pool of SIP gateways under concurrency: the workers of Kamailio that give gateways to calls,
  the scaler that takes machines down, and the registrations and dialogs that come and go, as one
  step relation over the shared tables. A statement of the database is one step.
\<close>

section \<open>Statements\<close>

lemma location_update: "snd (sip_update P f d) = d\<lparr>sd_location := map (\<lambda>l. if P l then f l else l) (sd_location d)\<rparr>"
  and changed_update: "fst (sip_update P f d) = int (length (filter P (sd_location d)))"
  by (simp_all add: sip_update_def)

lemma row_vm_locked [simp]: "row_vm (l\<lparr>lr_locked := n\<rparr>) = row_vm l" "row_vm (l\<lparr>lr_stop := n\<rparr>) = row_vm l"
  by (simp_all add: row_vm_def)

section \<open>Steps\<close>

datatype worker = Idle | Trying "contact list" | Given contact | Refused

datatype scaling = Resting | Taking "(string \<times> int) list" int

text \<open>
  \<open>sy_given\<close> counts the calls a contact was given to since it registered or was released;
  \<open>sy_taken\<close> are the machines the scaler takes down; \<open>sy_fresh\<close> the machines on which a gateway
  registered since the scaler counted, and \<open>sy_counted\<close> the registrations it counted.
\<close>

record sip_sys =
  sy_db :: sip_db
  sy_worker :: "nat \<Rightarrow> worker"
  sy_scaling :: scaling
  sy_given :: "string \<Rightarrow> nat"
  sy_taken :: "string list"
  sy_fresh :: "string set"
  sy_counted :: "loc_row list"

inductive sip_step :: "sip_env \<Rightarrow> sip_sys \<Rightarrow> sip_sys \<Rightarrow> bool" for E where
  invite: "sy_worker s i = Idle \<Longrightarrow>
    sip_step E s (s\<lparr>sy_worker := (sy_worker s)(i := Trying (lock_candidates E (sy_db s)))\<rparr>)"
| claimed: "sy_worker s i = Trying (c # cs) \<Longrightarrow> claim E c (sy_db s) = (n, d) \<Longrightarrow> 0 < n \<Longrightarrow>
    sip_step E s (s\<lparr>sy_db := d, sy_worker := (sy_worker s)(i := Given c),
      sy_given := (sy_given s)(ct_contact c := Suc (sy_given s (ct_contact c)))\<rparr>)"
| missed: "sy_worker s i = Trying (c # cs) \<Longrightarrow> claim E c (sy_db s) = (n, d) \<Longrightarrow> n \<le> 0 \<Longrightarrow>
    sip_step E s (s\<lparr>sy_db := d, sy_worker := (sy_worker s)(i := Trying cs)\<rparr>)"
| refused: "sy_worker s i = Trying [] \<Longrightarrow> sip_step E s (s\<lparr>sy_worker := (sy_worker s)(i := Refused)\<rparr>)"
| finished: "sy_worker s i = Given c \<or> sy_worker s i = Refused \<Longrightarrow> sip_step E s (s\<lparr>sy_worker := (sy_worker s)(i := Idle)\<rparr>)"
| answered: "sip_step E s (s\<lparr>sy_db := (sy_db s)\<lparr>sd_dialog := x # sd_dialog (sy_db s)\<rparr>\<rparr>)"
| ended: "sip_step E s (s\<lparr>sy_db := (sy_db s)\<lparr>sd_dialog := remove1 x (sd_dialog (sy_db s))\<rparr>\<rparr>)"
| registered: "lr_contact l \<notin> lr_contact ` set (sd_location (sy_db s)) \<Longrightarrow> lr_locked l = 0 \<Longrightarrow> lr_stop l = 0 \<Longrightarrow>
    sip_step E s (s\<lparr>sy_db := (sy_db s)\<lparr>sd_location := sd_location (sy_db s) @ [l]\<rparr>,
      sy_given := (sy_given s)(lr_contact l := 0), sy_fresh := insert (row_vm l) (sy_fresh s)\<rparr>)"
| gone: "sip_step E s (s\<lparr>sy_db := (sy_db s)\<lparr>sd_location := filter (\<lambda>l. lr_contact l \<noteq> c) (sd_location (sy_db s))\<rparr>\<rparr>)"
| unlocked: "sip_step E s (s\<lparr>sy_db := unlock E dst (sy_db s),
      sy_given := (\<lambda>c. if \<exists>l \<in> set (sd_location (sy_db s)). lr_contact l = c \<and> unlocks E dst l then 0 else sy_given s c)\<rparr>)"
| counted: "sy_scaling s = Resting \<Longrightarrow>
    sip_step E s (s\<lparr>sy_scaling := Taking (idle_vms E (sy_db s)) n, sy_fresh := {}, sy_counted := sd_location (sy_db s)\<rparr>)"
| taken: "sy_scaling s = Taking (v # vs) n \<Longrightarrow> snd v \<le> n \<Longrightarrow> take_vm v (sy_db s) = (True, d) \<Longrightarrow>
    sip_step E s (s\<lparr>sy_db := d, sy_scaling := Taking vs (n - snd v), sy_taken := fst v # sy_taken s\<rparr>)"
| left: "sy_scaling s = Taking (v # vs) n \<Longrightarrow> n < snd v \<or> take_vm v (sy_db s) = (False, d) \<Longrightarrow>
    sip_step E s (s\<lparr>sy_scaling := Taking vs n\<rparr>)"
| scaled: "sy_scaling s = Taking [] n \<Longrightarrow> sip_step E s (s\<lparr>sy_scaling := Resting\<rparr>)"

inductive sip_reachable :: "sip_env \<Rightarrow> sip_sys \<Rightarrow> bool" for E where
  start: "sip_reachable E \<lparr>sy_db = \<lparr>sd_location = [], sd_dialog = ds\<rparr>, sy_worker = (\<lambda>_. Idle), sy_scaling = Resting,
    sy_given = (\<lambda>_. 0), sy_taken = [], sy_fresh = {}, sy_counted = []\<rparr>"
| step: "sip_reachable E s \<Longrightarrow> sip_step E s t \<Longrightarrow> sip_reachable E t"

inductive_cases sip_stepE: "sip_step E s t"

section \<open>Locks and calls\<close>

text \<open>A lock is 0 or 1, and the registrations of a contact that was given to a call are locked.\<close>

definition locks_ok :: "sip_sys \<Rightarrow> bool" where
  "locks_ok s =
     ((\<forall>l \<in> set (sd_location (sy_db s)). lr_locked l \<in> {0, 1})
      \<and> (\<forall>l \<in> set (sd_location (sy_db s)). 0 < sy_given s (lr_contact l) \<longrightarrow> lr_locked l = 1)
      \<and> (\<forall>c. sy_given s c \<le> 1))"

lemma claim_Suc:
  assumes "claim E c d = (n, d')" "0 < n"
  shows "\<exists>l \<in> set (sd_location d). lr_contact l = ct_contact c \<and> lr_locked l = 0"
    and "d' = d\<lparr>sd_location := map (\<lambda>l. if lr_contact l = ct_contact c \<and> lr_locked l = 0 then l\<lparr>lr_locked := 1\<rparr> else l) (sd_location d)\<rparr>"
proof -
  let ?P = "\<lambda>l. lr_contact l = ct_contact c \<and> lr_locked l = 0 \<and> \<not> in_dialog E d (ct_username c)"
  have "filter ?P (sd_location d) \<noteq> []" using assms by (auto simp: claim_def sip_update_def)
  then obtain l where l: "l \<in> set (sd_location d)" "?P l" by (auto simp: filter_empty_conv)
  then show "\<exists>l \<in> set (sd_location d). lr_contact l = ct_contact c \<and> lr_locked l = 0" by blast
  show "d' = d\<lparr>sd_location := map (\<lambda>l. if lr_contact l = ct_contact c \<and> lr_locked l = 0 then l\<lparr>lr_locked := 1\<rparr> else l) (sd_location d)\<rparr>"
    using assms(1) l(2) by (simp add: claim_def sip_update_def)
qed

lemma claim_none:
  assumes "claim E c d = (n, d')" "n \<le> 0"
  shows "d' = d"
proof -
  have "filter (\<lambda>l. lr_contact l = ct_contact c \<and> lr_locked l = 0 \<and> \<not> in_dialog E d (ct_username c)) (sd_location d) = []"
    using assms by (auto simp: claim_def sip_update_def)
  then show ?thesis using assms(1) by (auto simp: claim_def sip_update_def filter_empty_conv intro!: map_idI sip_db.equality)
qed

lemma take_vm_True: "take_vm v d = (True, d') \<longleftrightarrow>
    int (length (filter (\<lambda>l. lr_locked l = 0 \<and> row_vm l = fst v) (sd_location d))) = snd v
    \<and> d' = d\<lparr>sd_location := map (\<lambda>l. if lr_locked l = 0 \<and> row_vm l = fst v then l\<lparr>lr_locked := 1, lr_stop := 1\<rparr> else l) (sd_location d)\<rparr>"
  by (auto simp: take_vm_def sip_update_def)

lemma step_locks_ok: "sip_step E s t \<Longrightarrow> locks_ok s \<Longrightarrow> locks_ok t"
proof (induction rule: sip_step.induct)
  case (claimed s i c cs n d)
  from claim_Suc(1) [OF claimed(2,3)] claimed.prems have "sy_given s (ct_contact c) = 0"
    unfolding locks_ok_def by force
  with claimed.prems show ?case unfolding locks_ok_def claim_Suc(2) [OF claimed(2,3)] by auto
next
  case (missed s i c cs n d)
  then show ?case using claim_none [OF missed(2,3)] by (simp add: locks_ok_def)
next
  case (unlocked s dst)
  then show ?case by (auto simp: locks_ok_def unlock_def location_update)
next
  case (taken s v vs n d)
  then show ?case by (auto simp: locks_ok_def take_vm_True)
qed (auto simp: locks_ok_def)

lemma reachable_locks_ok: "sip_reachable E s \<Longrightarrow> locks_ok s"
proof (induction rule: sip_reachable.induct)
  case (step s t)
  then show ?case by (blast intro: step_locks_ok)
qed (simp add: locks_ok_def)


section \<open>Machines and calls\<close>

abbreviation on_vm :: "string \<Rightarrow> loc_row list \<Rightarrow> loc_row list" where
  "on_vm vm ls \<equiv> filter (\<lambda>l. row_vm l = vm) ls"

text \<open>What the scaler counted still bounds the registrations of a machine nobody registered on since.\<close>

definition count_ok :: "sip_env \<Rightarrow> sip_sys \<Rightarrow> bool" where
  "count_ok E s =
     (\<forall>vs n. sy_scaling s = Taking vs n \<longrightarrow>
        (\<forall>v \<in> set vs. (\<forall>l \<in> set (sy_counted s). row_vm l = fst v \<longrightarrow> ours E l) \<longrightarrow> fst v \<notin> sy_fresh s \<longrightarrow>
           int (length (on_vm (fst v) (sd_location (sy_db s)))) \<le> snd v))"

lemma length_filter_map_same: "(\<And>x. Q (f x) = Q x) \<Longrightarrow> length (filter Q (map f xs)) = length (filter Q xs)"
  by (induction xs) simp_all

lemma length_on_vm_map:
  "(\<And>l. row_vm (f l) = row_vm l) \<Longrightarrow> length (on_vm vm (map (\<lambda>l. if P l then f l else l) ls)) = length (on_vm vm ls)"
  by (rule length_filter_map_same) simp

lemma all_counted: "length (filter Q xs) \<le> length (filter (\<lambda>x. P x \<and> Q x) xs) \<Longrightarrow> x \<in> set xs \<Longrightarrow> Q x \<Longrightarrow> P x"
proof (induction xs)
  case (Cons y xs)
  have "length (filter (\<lambda>x. P x \<and> Q x) xs) \<le> length (filter Q xs)" by (induction xs) simp_all
  with Cons show ?case by (auto split: if_splits)
qed simp

lemma idle_vms_count:
  assumes "v \<in> set (idle_vms E d)" and "\<forall>l \<in> set (sd_location d). lr_locked l \<in> {0, 1}"
    and "\<forall>l \<in> set (sd_location d). row_vm l = fst v \<longrightarrow> ours E l"
  shows "snd v = int (length (on_vm (fst v) (sd_location d)))"
proof -
  let ?idle = "filter (idle_row E d) (sd_location d)"
  from assms(1) obtain k where k: "k \<in> set ?idle" "row_vm k = fst v"
    and n: "snd v = int (length (filter (\<lambda>x. x = fst v) (map row_vm ?idle)))"
    by (auto simp: idle_vms_def Let_def)
  have "idle_row E d l" if "l \<in> set (sd_location d)" "row_vm l = fst v" for l
    using k that assms(2,3) by (fastforce simp: idle_row_def)
  then have "on_vm (fst v) ?idle = on_vm (fst v) (sd_location d)" by (auto simp: filter_filter intro: filter_cong)
  then show ?thesis using n by (simp add: filter_map comp_def)
qed

lemma step_count_ok: "sip_step E s t \<Longrightarrow> locks_ok s \<Longrightarrow> count_ok E s \<Longrightarrow> count_ok E t"
proof (induction rule: sip_step.induct)
  case (claimed s i c cs n d)
  then show ?case unfolding count_ok_def claim_Suc(2) [OF claimed(2,3)] by (simp add: length_on_vm_map del: length_filter_map)
next
  case (missed s i c cs n d)
  then show ?case using claim_none [OF missed(2,3)] by (simp add: count_ok_def)
next
  case (registered l s)
  then show ?case by (auto simp: count_ok_def)
next
  case (gone s c)
  have fewer: "int (length (on_vm vm (filter P ls))) \<le> int (length (on_vm vm ls))" for vm P and ls :: "loc_row list"
    by (induction ls) auto
  have "int (length (on_vm (fst v) (filter (\<lambda>l. lr_contact l \<noteq> c) (sd_location (sy_db s))))) \<le> snd v"
    if "sy_scaling s = Taking vs n" "v \<in> set vs" "\<forall>l \<in> set (sy_counted s). row_vm l = fst v \<longrightarrow> ours E l" "fst v \<notin> sy_fresh s"
    for vs v n
  proof -
    have "int (length (on_vm (fst v) (sd_location (sy_db s)))) \<le> snd v" using gone.prems(2) that by (simp add: count_ok_def)
    with fewer show ?thesis using order_trans by blast
  qed
  then show ?case by (simp add: count_ok_def del: filter_filter)
next
  case (unlocked s dst)
  then show ?case by (simp add: count_ok_def unlock_def location_update length_on_vm_map del: length_filter_map)
next
  case (counted s n)
  then show ?case using idle_vms_count [of _ E "sy_db s"] by (auto simp: count_ok_def locks_ok_def)
next
  case (taken s v vs n d)
  then show ?case by (auto simp: count_ok_def take_vm_True length_on_vm_map simp del: length_filter_map)
qed (auto simp: count_ok_def)

lemma reachable_count_ok: "sip_reachable E s \<Longrightarrow> count_ok E s"
proof (induction rule: sip_reachable.induct)
  case (step s t)
  then show ?case by (blast intro: step_count_ok reachable_locks_ok)
qed (simp add: count_ok_def)


definition wit_sip :: sip_env where
  "wit_sip = \<lparr>se_like = (\<lambda>s p. str_in p s), se_pick = hd, se_prefix = ''gw''\<rparr>"

definition wit_row :: "string \<Rightarrow> loc_row" where
  "wit_row u = \<lparr>lr_contact = ''sip:'' @ u, lr_username = u, lr_socket = ''udp:10.0.0.1:5060'',
     lr_received = ''sip:10.0.0.5:5070'', lr_locked = 0, lr_stop = 0\<rparr>"

definition wit_contact :: contact where
  "wit_contact = \<lparr>ct_contact = ''sip:gw1'', ct_username = ''gw1'', ct_socket = ''udp:10.0.0.1:5060'', ct_vm = ''10.0.0.5'', ct_count = 1\<rparr>"

definition wit_counted :: sip_sys where
  "wit_counted = \<lparr>sy_db = \<lparr>sd_location = [wit_row ''gw1''], sd_dialog = []\<rparr>, sy_worker = (\<lambda>_. Idle),
     sy_scaling = Taking [(''10.0.0.5'', 1)] 2, sy_given = (\<lambda>_. 0), sy_taken = [], sy_fresh = {}, sy_counted = [wit_row ''gw1'']\<rparr>"

lemma wit_row_vm [simp]: "row_vm (wit_row u) = ''10.0.0.5''"
proof -
  have "index_first (index_last ''sip:10.0.0.5:5070'' ''sip:'') '':'' = ''10.0.0.5''" by code_simp
  then show ?thesis by (simp add: row_vm_def wit_row_def)
qed

lemma wit_row_simps [simp]: "lr_contact (wit_row u) = ''sip:'' @ u" "lr_username (wit_row u) = u" "lr_locked (wit_row u) = 0" "lr_stop (wit_row u) = 0"
  by (simp_all add: wit_row_def)

lemma wit_ours: "ours wit_sip (wit_row ''gw1'')"
proof -
  have "str_in ''gw'' ''gw1''" by code_simp
  then show ?thesis by (simp add: ours_def wit_sip_def)
qed

lemma wit_idle_vms: "idle_vms wit_sip \<lparr>sd_location = [wit_row ''gw1''], sd_dialog = []\<rparr> = [(''10.0.0.5'', 1)]"
  using wit_ours by (simp add: idle_vms_def idle_row_def vm_in_dialog_def)

lemma wit_candidates: "lock_candidates wit_sip \<lparr>sd_location = [wit_row ''gw1''], sd_dialog = []\<rparr> = [wit_contact]"
  using wit_ours
  by (simp add: lock_candidates_def free_contacts_def candidate_def in_dialog_def vm_in_dialog_def Let_def group_row_def wit_sip_def
      wit_contact_def) (simp add: wit_row_def)

lemma wit_counted_reachable: "sip_reachable wit_sip wit_counted"
proof -
  let ?s0 = "\<lparr>sy_db = \<lparr>sd_location = [], sd_dialog = []\<rparr>, sy_worker = (\<lambda>_. Idle), sy_scaling = Resting,
    sy_given = (\<lambda>_. 0), sy_taken = [], sy_fresh = {}, sy_counted = []\<rparr>"
  let ?s1 = "?s0\<lparr>sy_db := \<lparr>sd_location = [wit_row ''gw1''], sd_dialog = []\<rparr>, sy_fresh := {''10.0.0.5''}\<rparr>"
  have "sip_step wit_sip ?s0 ?s1" using sip_step.registered [of "wit_row ''gw1''" ?s0 wit_sip] by (simp add: fun_upd_idem)
  then have "sip_reachable wit_sip ?s1" by (blast intro: sip_reachable.intros)
  moreover have "sip_step wit_sip ?s1 wit_counted"
    using sip_step.counted [of ?s1 wit_sip 2] by (simp add: wit_counted_def wit_idle_vms)
  ultimately show ?thesis by (blast intro: sip_reachable.intros)
qed


text \<open>The same run a worker further: the gateway is claimed for a call.\<close>

abbreviation wit_trying :: sip_sys where
  "wit_trying \<equiv> wit_counted\<lparr>sy_worker := (\<lambda>_. Idle)(0 := Trying [wit_contact])\<rparr>"

abbreviation wit_given :: sip_sys where
  "wit_given \<equiv> wit_trying\<lparr>sy_db := \<lparr>sd_location = [(wit_row ''gw1'')\<lparr>lr_locked := 1\<rparr>], sd_dialog = []\<rparr>,
     sy_worker := (\<lambda>_. Idle)(0 := Given wit_contact), sy_given := (\<lambda>_. 0)(''sip:gw1'' := 1)\<rparr>"

lemma wit_given_reachable: "sip_reachable wit_sip wit_given"
proof -
  have "sip_step wit_sip wit_counted wit_trying"
    using sip_step.invite [of wit_counted 0 wit_sip] by (simp add: wit_counted_def wit_candidates)
  moreover have "claim wit_sip wit_contact (sy_db wit_trying) = (1, \<lparr>sd_location = [(wit_row ''gw1'')\<lparr>lr_locked := 1\<rparr>], sd_dialog = []\<rparr>)"
    by (simp add: claim_def sip_update_def wit_counted_def wit_contact_def in_dialog_def)
  then have "sip_step wit_sip wit_trying wit_given"
    using sip_step.claimed [of wit_trying 0 wit_contact "[]"] by (simp add: wit_counted_def wit_contact_def)
  ultimately show ?thesis using wit_counted_reachable by (meson sip_reachable.step)
qed


text \<open>
  Without that condition it can: a gateway that registers on the machine between the count and
  the lock makes up for one just given to a call, the numbers agree, and the machine is taken down
  under the call.
\<close>
theorem late_registration_costs_a_call:
  "\<exists>E s l. sip_reachable E s \<and> l \<in> set (sd_location (sy_db s)) \<and> sy_given s (lr_contact l) = 1 \<and> row_vm l \<in> set (sy_taken s)"
proof -
  let ?v = "(''10.0.0.5'', 1) :: string \<times> int"
  let ?lock = "\<lambda>u. (wit_row u)\<lparr>lr_locked := 1\<rparr>"
  let ?s3 = "wit_given\<lparr>sy_db := \<lparr>sd_location = [?lock ''gw1'', wit_row ''gw2''], sd_dialog = []\<rparr>, sy_fresh := {''10.0.0.5''}\<rparr>"
  let ?d = "\<lparr>sd_location = [?lock ''gw1'', (wit_row ''gw2'')\<lparr>lr_locked := 1, lr_stop := 1\<rparr>], sd_dialog = []\<rparr>"
  let ?s4 = "?s3\<lparr>sy_db := ?d, sy_scaling := Taking [] 1, sy_taken := [''10.0.0.5'']\<rparr>"
  have "sip_step wit_sip wit_given ?s3"
    using sip_step.registered [of "wit_row ''gw2''" wit_given wit_sip] by (simp add: wit_counted_def fun_upd_idem)
  moreover have "take_vm ?v (sy_db ?s3) = (True, ?d)" by (simp add: take_vm_True)
  then have "sip_step wit_sip ?s3 ?s4" using sip_step.taken [of ?s3 ?v "[]" 2 ?d wit_sip] by (simp add: wit_counted_def)
  ultimately have "sip_reachable wit_sip ?s4" using wit_given_reachable by (meson sip_reachable.step)
  then show ?thesis by (intro exI [of _ wit_sip] exI [of _ ?s4] exI [of _ "?lock ''gw1''"]) simp
qed

section \<open>The gateway a call is given\<close>

definition free_on :: "sip_env \<Rightarrow> sip_db \<Rightarrow> string \<Rightarrow> int" where
  "free_on E d vm = int (length (filter (\<lambda>l. candidate E d l \<and> row_vm l = vm) (sd_location d)))"

lemma free_contacts_Nil: "free_contacts E b d = [] \<longleftrightarrow>
    (\<forall>l \<in> set (sd_location d). candidate E d l \<longrightarrow> vm_in_dialog d (row_vm l) \<noteq> b)"
proof -
  have "free_contacts E b d = [] \<longleftrightarrow> filter (\<lambda>l. candidate E d l \<and> vm_in_dialog d (row_vm l) = b) (sd_location d) = []"
    unfolding free_contacts_def Let_def by (metis (no_types, lifting) length_0_conv length_map length_sort remdups_eq_nil_iff)
  then show ?thesis by (auto simp: filter_empty_conv)
qed

lemma free_contacts_row:
  assumes "c \<in> set (free_contacts E b d)" and "\<forall>g. g \<noteq> [] \<longrightarrow> se_pick E g \<in> set g"
  shows "\<exists>l \<in> set (sd_location d). candidate E d l \<and> lr_contact l = ct_contact c \<and> lr_username l = ct_username c
      \<and> row_vm l = ct_vm c \<and> vm_in_dialog d (ct_vm c) = b"
    and "ct_count c = free_on E d (ct_vm c)"
proof -
  let ?rows = "filter (\<lambda>l. candidate E d l \<and> vm_in_dialog d (row_vm l) = b) (sd_location d)"
  obtain vm where c: "c = group_row E ?rows vm" and vm: "vm \<in> row_vm ` set ?rows"
    using assms(1) by (auto simp: free_contacts_def Let_def)
  let ?g = "filter (\<lambda>l. row_vm l = vm) ?rows"
  have "?g \<noteq> []" using vm by (auto simp: filter_empty_conv)
  then have "se_pick E ?g \<in> set ?g" using assms(2) by blast
  then show "\<exists>l \<in> set (sd_location d). candidate E d l \<and> lr_contact l = ct_contact c \<and> lr_username l = ct_username c
      \<and> row_vm l = ct_vm c \<and> vm_in_dialog d (ct_vm c) = b"
    by (intro bexI [of _ "se_pick E ?g"]) (auto simp: c group_row_def Let_def)
  have "?g = filter (\<lambda>l. candidate E d l \<and> row_vm l = vm) (sd_location d)"
    using vm by (auto simp: filter_filter intro: filter_cong)
  then show "ct_count c = free_on E d (ct_vm c)" by (simp add: c group_row_def Let_def free_on_def)
qed

lemma free_contacts_least:
  assumes "free_contacts E b d = c # cs" and "\<forall>g. g \<noteq> [] \<longrightarrow> se_pick E g \<in> set g"
    and "l \<in> set (sd_location d)" "candidate E d l" "vm_in_dialog d (row_vm l) = b"
  shows "free_on E d (ct_vm c) \<le> free_on E d (row_vm l)"
proof -
  let ?rows = "filter (\<lambda>l. candidate E d l \<and> vm_in_dialog d (row_vm l) = b) (sd_location d)"
  let ?k = "group_row E ?rows (row_vm l)"
  have k: "?k \<in> set (c # cs)" unfolding assms(1) [symmetric] using assms(3-5) by (auto simp: free_contacts_def Let_def)
  have "sorted (map ct_count (c # cs))" unfolding assms(1) [symmetric] by (simp add: free_contacts_def Let_def)
  then have "ct_count c \<le> ct_count ?k" using k by auto
  moreover have "ct_count ?k = free_on E d (row_vm l)"
    using free_contacts_row(2) [of ?k E b d] k assms(1,2) by (simp add: group_row_def Let_def)
  ultimately show ?thesis using free_contacts_row(2) [of c E b d] assms(1,2) by simp
qed

lemma lockGw_result:
  assumes "\<forall>g. g \<noteq> [] \<longrightarrow> se_pick E g \<in> set g" and "lockGw E d = (r, d')"
  shows "case r of
      None \<Rightarrow> d' = d \<and> (\<forall>l \<in> set (sd_location d). \<not> candidate E d l)
    | Some c \<Rightarrow> (\<exists>l \<in> set (sd_location d). candidate E d l \<and> lr_contact l = ct_contact c \<and> row_vm l = ct_vm c)
        \<and> (\<forall>l \<in> set (sd_location d). candidate E d l \<longrightarrow>
             (vm_in_dialog d (row_vm l) \<longrightarrow> vm_in_dialog d (ct_vm c))
             \<and> (vm_in_dialog d (row_vm l) = vm_in_dialog d (ct_vm c) \<longrightarrow> free_on E d (ct_vm c) \<le> free_on E d (row_vm l)))
        \<and> d' = d\<lparr>sd_location := map (\<lambda>l. if lr_contact l = ct_contact c \<and> lr_locked l = 0 then l\<lparr>lr_locked := 1\<rparr> else l) (sd_location d)\<rparr>"
proof (cases "lock_candidates E d")
  case Nil
  then have "\<forall>b. free_contacts E b d = []" by (auto simp: lock_candidates_def split: if_splits)
      (metis (full_types))
  then have "\<forall>l \<in> set (sd_location d). \<not> candidate E d l" unfolding free_contacts_Nil by blast
  then show ?thesis using assms(2) Nil by (auto simp: lockGw_def)
next
  case (Cons c cs)
  define b where "b = (free_contacts E True d \<noteq> [])"
  have b: "free_contacts E b d = c # cs" using Cons by (simp add: lock_candidates_def b_def split: if_splits)
  note row = free_contacts_row [of c E b d, unfolded b, OF _ assms(1)]
  obtain l where l: "l \<in> set (sd_location d)" "candidate E d l" "lr_contact l = ct_contact c" "lr_username l = ct_username c"
    "row_vm l = ct_vm c" "vm_in_dialog d (ct_vm c) = b" using row by auto
  obtain n d1 where claim: "claim E c d = (n, d1)" by fastforce
  have n: "0 < n" using claim l by (auto simp: claim_def sip_update_def candidate_def filter_empty_conv)
  have r: "r = Some c" "d' = d1" using assms(2) Cons claim n by (auto simp: lockGw_def)
  have busy: "vm_in_dialog d (row_vm k) \<longrightarrow> b" if "k \<in> set (sd_location d)" "candidate E d k" for k
    using that free_contacts_Nil [of E True d] by (auto simp: b_def)
  have "free_on E d (ct_vm c) \<le> free_on E d (row_vm k)"
    if "k \<in> set (sd_location d)" "candidate E d k" "vm_in_dialog d (row_vm k) = b" for k
    by (rule free_contacts_least [OF b assms(1) that])
  then show ?thesis
    unfolding r option.case l(6) claim_Suc(2) [OF claim n] using busy l(1,2,3,5) by blast
qed

lemma free_gateway_is_given:
  assumes "\<forall>g. g \<noteq> [] \<longrightarrow> se_pick E g \<in> set g" "l \<in> set (sd_location d)" "candidate E d l"
  shows "fst (lockGw E d) \<noteq> None"
  using lockGw_result [OF assms(1), of d "fst (lockGw E d)" "snd (lockGw E d)"] assms(2,3) by (auto split: option.splits)

text \<open>
  With nothing in between, a call is refused only when no gateway is free, and the gateway it
  is given is free, on a machine that already has calls if one of those has a free gateway, and on
  the fullest of those machines; only its registrations are locked.
\<close>
theorem call_goes_to_the_fullest_machine:
  assumes "\<forall>g. g \<noteq> [] \<longrightarrow> se_pick E g \<in> set g" and "lockGw E d = (r, d')"
  shows "case r of
      None \<Rightarrow> d' = d \<and> (\<forall>l \<in> set (sd_location d). \<not> candidate E d l)
    | Some c \<Rightarrow> (\<exists>l \<in> set (sd_location d). candidate E d l \<and> lr_contact l = ct_contact c \<and> row_vm l = ct_vm c)
        \<and> (\<forall>l \<in> set (sd_location d). candidate E d l \<longrightarrow>
             (vm_in_dialog d (row_vm l) \<longrightarrow> vm_in_dialog d (ct_vm c))
             \<and> (vm_in_dialog d (row_vm l) = vm_in_dialog d (ct_vm c) \<longrightarrow> free_on E d (ct_vm c) \<le> free_on E d (row_vm l)))
        \<and> d' = d\<lparr>sd_location := map (\<lambda>l. if lr_contact l = ct_contact c \<and> lr_locked l = 0 then l\<lparr>lr_locked := 1\<rparr> else l) (sd_location d)\<rparr>"
  using assms by (rule lockGw_result)

lemma call_goes_to_the_fullest_machine_witness:
  "\<exists>r d'. lockGw wit_sip \<lparr>sd_location = [wit_row ''gw1''], sd_dialog = []\<rparr> = (Some r, d')
    \<and> ct_contact r = ''sip:gw1'' \<and> d' = \<lparr>sd_location = [(wit_row ''gw1'')\<lparr>lr_locked := 1\<rparr>], sd_dialog = []\<rparr>"
proof -
  let ?d = "\<lparr>sd_location = [wit_row ''gw1''], sd_dialog = []\<rparr>"
  have c: "candidate wit_sip ?d (wit_row ''gw1'')" using wit_ours by (simp add: candidate_def in_dialog_def)
  obtain r d' where lock: "lockGw wit_sip ?d = (r, d')" by fastforce
  have "\<forall>g. g \<noteq> [] \<longrightarrow> se_pick wit_sip g \<in> set g" by (simp add: wit_sip_def)
  from call_goes_to_the_fullest_machine [OF this lock] c lock show ?thesis by (auto split: option.splits)
qed

section \<open>When the database is down\<close>

definition pool_target :: "scaler_cfg \<Rightarrow> string \<Rightarrow> string \<Rightarrow> exn + rat" where
  "pool_target cfg wday now =
     bindE (todays_timeline cfg wday) (\<lambda>slots. bindE (nearest_slot slots now) (\<lambda>sl. target_capacity sl 0))"

text \<open>
  While the tables cannot be read every pass grows the pool: the capacity reads as none, so
  the processors of the whole floor of the time slot are created again, whatever is registered.
\<close>
theorem outage_grows_the_pool:
  assumes "pool_target cfg wday now = Inr t" "0 < t" "0 \<le> sf_cpu_per_gw cfg" "types \<noteq> []" "\<forall>k \<in> set types. 0 < cpus k"
  shows "\<exists>made. scale (sip_ops E False (log_csp types up) cfg parse clock) (log_csp types up) cfg wday now None (d, c)
      = (Inr 0, (d, c\<lparr>cg_created := cg_created c @ made\<rparr>))
    \<and> t * sf_cpu_per_gw cfg \<le> of_int (sum_list (map cpus made))"
proof -
  obtain slots sl where slots: "todays_timeline cfg wday = Inr slots" "nearest_slot slots now = Inr sl" "target_capacity sl 0 = Inr t"
    using assms(1) by (auto simp: pool_target_def bindE_eq_Inr_iff)
  let ?n = "\<lceil>of_int \<lceil>t\<rceil> * sf_cpu_per_gw cfg\<rceil>"
  have "0 \<le> of_int \<lceil>t\<rceil> * sf_cpu_per_gw cfg" using assms(2,3) by (intro mult_nonneg_nonneg) simp_all
  then have n: "0 \<le> ?n" using ceiling_mono by fastforce
  obtain made where made: "upScale (log_csp types up) cfg ?n c = (Inr (), c\<lparr>cg_created := cg_created c @ made\<rparr>)"
    "?n \<le> sum_list (map cpus made)" using upscale_creates [OF assms(4,5) n, of up cfg c] by blast
  have "scale (sip_ops E False (log_csp types up) cfg parse clock) (log_csp types up) cfg wday now None (d, c)
      = (Inr 0, (d, c\<lparr>cg_created := cg_created c @ made\<rparr>))"
    using slots made(1) assms(2)
    by (simp add: scale_def sip_ops_def sip_capacity_def sip_ready_def on_left_def on_right_def bind_io_def in_calls_def capacity_increase_def)
  moreover have "t * sf_cpu_per_gw cfg \<le> of_int (sum_list (map cpus made))"
  proof -
    have "t * sf_cpu_per_gw cfg \<le> of_int \<lceil>t\<rceil> * sf_cpu_per_gw cfg" using assms(3) by (intro mult_right_mono) simp_all
    also have "\<dots> \<le> of_int ?n" by (rule le_of_int_ceiling)
    also have "\<dots> \<le> of_int (sum_list (map cpus made))" using made(2) by simp
    finally show ?thesis .
  qed
  ultimately show ?thesis by blast
qed

lemma outage_grows_the_pool_witness:
  "\<exists>made. scale (sip_ops wit_sip False (log_csp [''4''] []) wit_scaler_cfg (\<lambda>_. Inr (0, None)) 0) (log_csp [''4''] [])
      wit_scaler_cfg ''monday'' ''10:00:00'' None (\<lparr>sd_location = [wit_row ''gw1''], sd_dialog = []\<rparr>, \<lparr>cg_created = [], cg_destroyed = []\<rparr>)
    = (Inr 0, (\<lparr>sd_location = [wit_row ''gw1''], sd_dialog = []\<rparr>, \<lparr>cg_created = made, cg_destroyed = []\<rparr>)) \<and> made \<noteq> []"
proof -
  have t: "pool_target wit_scaler_cfg ''monday'' ''10:00:00'' = Inr 1" by code_simp
  have "0 \<le> sf_cpu_per_gw wit_scaler_cfg" "sf_cpu_per_gw wit_scaler_cfg = 4" by (simp_all add: wit_scaler_cfg_def)
  moreover have "\<forall>k \<in> set [''4'']. 0 < cpus k" by code_simp
  ultimately show ?thesis
    using outage_grows_the_pool [OF t, of "[''4'']" wit_sip "[]" "\<lambda>_. Inr (0, None)" 0
        "\<lparr>sd_location = [wit_row ''gw1''], sd_dialog = []\<rparr>" "\<lparr>cg_created = [], cg_destroyed = []\<rparr>"]
    by auto
qed

end
