(* ===== verification/Netstring.thy ===== *)
theory Netstring
  imports Io_Logic Codecs
begin

text \<open>
  The events of a gateway's SIP client, read from a local socket as netstrings
  (\<open>src/netstring.py\<close>). The socket is what is still to be read: runs of bytes, in the order they
  arrive, and silences longer than the time-out. A text is its bytes.
\<close>

section \<open>The socket\<close>

datatype arrival = Bytes string | Silence

type_synonym arrivals = "arrival list"

text \<open>\<open>recv(n)\<close>: \<open>None\<close> when the time-out passes, no byte when the peer has closed.\<close>

fun recv :: "nat \<Rightarrow> arrivals \<Rightarrow> string option \<times> arrivals" where
  "recv n [] = (Some [], [])"
| "recv n (Silence # st) = (None, st)"
| "recv n (Bytes b # st) = (if length b \<le> n then (Some b, st) else (Some (take n b), Bytes (drop n b) # st))"

definition arrival_size :: "arrival \<Rightarrow> nat" where
  "arrival_size a = (case a of Bytes b \<Rightarrow> Suc (length b) | Silence \<Rightarrow> 1)"

definition stream_size :: "arrivals \<Rightarrow> nat" where
  "stream_size st = sum_list (map arrival_size st)"

section \<open>One message\<close>

definition netstring :: "string \<Rightarrow> string" where
  "netstring t = nat_str (length t) @ '':'' @ t @ '',''"

definition TIME_OUT :: string where
  \<open>TIME_OUT = netstring ''{"event": true, "type": "TIME_OUT"}''\<close>

text \<open>The bytes of a message that the first read left, by packets of at most 1024.\<close>

definition packet_len :: "int \<Rightarrow> nat" where
  "packet_len dataLen = nat (if dataLen div 1024 = 0 then dataLen mod 1024 else 1024)"

function read_rest :: "int \<Rightarrow> string \<Rightarrow> arrivals \<Rightarrow> string \<times> arrivals" where
  "read_rest dataLen received st =
     (if dataLen \<le> 0 then (received, st)
      else case recv (packet_len dataLen) st of
             (None, st') \<Rightarrow> (TIME_OUT, st')
           | (Some packet, st') \<Rightarrow>
               if packet = [] \<or> \<not> valid_utf8 packet then (received, st')
               else read_rest (dataLen - int (packet_len dataLen)) (received @ packet) st')"
  by pat_completeness auto

termination
  by (relation "measure (\<lambda>(n, r, st). nat n)") (auto simp: packet_len_def)

declare read_rest.simps [simp del]

text \<open>\<open>__getStatus\<close>: what precedes the first digit is dropped, then the length tells what is left.\<close>

definition getStatus :: "arrivals \<Rightarrow> string \<times> arrivals" where
  "getStatus st =
     (case recv 8 st of
        (None, st') \<Rightarrow> (TIME_OUT, st')
      | (Some packet, st') \<Rightarrow>
          if \<not> valid_utf8 packet then ([], st')
          else
            (let received = dropWhile (\<lambda>c. \<not> is_digit c) packet;
                 preRead = 8 - (int (length packet) - int (length received))
             in case split1 '':'' received of
                  None \<Rightarrow> (received, st')
                | Some (pre, _) \<Rightarrow>
                    (case py_int_str pre of
                       None \<Rightarrow> (received, st')
                     | Some n \<Rightarrow> read_rest (int (length pre) + 2 + n - preRead) received st')))"

text \<open>\<open>decodeNetString\<close>: the text between the length and the last character, read as JSON.\<close>

definition NULL_EVENT :: pyval where
  "NULL_EVENT = PDict [(''event'', PStr ''null''), (''type'', PStr ''null'')]"

definition len_part :: "string \<Rightarrow> string" where
  "len_part s = (case split1 '':'' s of Some (a, _) \<Rightarrow> a | None \<Rightarrow> butlast s)"

definition plain_quotes :: "string \<Rightarrow> string" where
  \<open>plain_quotes s = str_replace [CHR 0x5C] [] (str_replace [CHR 0x5C, CHR 0x22] [CHR 0x27] s)\<close>

definition decodeNetString :: "string \<Rightarrow> exn + pyval" where
  "decodeNetString s =
     (if s = [] then Inr (PDict [])
      else case str_split (len_part s @ '':'') s of
             _ # resp # _ \<Rightarrow>
               Inr (case json_loads_with False (plain_quotes (butlast resp)) of Some v \<Rightarrow> v | None \<Rightarrow> NULL_EVENT)
           | _ \<Rightarrow> Inl (IndexError ''list index out of range''))"

section \<open>The loop\<close>

text \<open>What an event is answered with goes back to the peer, as a netstring of JSON.\<close>

record 'w client =
  cl_world :: 'w
  cl_sent :: "string list"

type_synonym 'w on_event = "pydict \<Rightarrow> ('w, pyval option) io"

definition in_world :: "('w, 'a) io \<Rightarrow> ('w client, 'a) io" where
  "in_world m c = (case m (cl_world c) of (r, w) \<Rightarrow> (r, c\<lparr>cl_world := w\<rparr>))"

definition send_command :: "pyval \<Rightarrow> ('w client, unit) io" where
  "send_command cmd = modify_io (\<lambda>c. c\<lparr>cl_sent := cl_sent c @ [netstring (json_dumps cmd)]\<rparr>)"

text \<open>One turn: whether the loop goes on. A callback is given a dictionary; for any other value that
  holds the word, its subscript raises.\<close>

definition react :: "'w on_event \<Rightarrow> pyval \<Rightarrow> ('w client, bool) io" where
  "react callBack status =
     (if \<not> truthy status then ret_io False
      else bind_io (lift_io (py_in ''event'' status)) (\<lambda>event.
           if \<not> event then ret_io True
           else case status of
                  PDict d \<Rightarrow> bind_io (in_world (callBack d)) (\<lambda>cmd.
                    case cmd of
                      None \<Rightarrow> ret_io True
                    | Some v \<Rightarrow> if truthy v then bind_io (send_command v) (\<lambda>_. ret_io True) else ret_io True)
                | _ \<Rightarrow> raise_io (TypeError ''indices'')))"

definition turn :: "'w on_event \<Rightarrow> string \<Rightarrow> ('w client, bool) io" where
  "turn callBack text = bind_io (lift_io (decodeNetString text)) (react callBack)"

lemma recv_shrinks: "st \<noteq> [] \<Longrightarrow> 0 < n \<Longrightarrow> stream_size (snd (recv n st)) < stream_size st"
  by (cases "(n, st)" rule: recv.cases) (auto simp: stream_size_def arrival_size_def)

lemma recv_le: "stream_size (snd (recv n st)) \<le> stream_size st"
  by (cases "(n, st)" rule: recv.cases) (auto simp: stream_size_def arrival_size_def)

lemma read_rest_le: "stream_size (snd (read_rest n r st)) \<le> stream_size st"
proof (induction n r st rule: read_rest.induct)
  case (1 n r st)
  show ?case
    using 1 recv_le [of "packet_len n" st]
    by (subst read_rest.simps) (fastforce split: prod.split option.split)
qed

lemma getStatus_shrinks: "st \<noteq> [] \<Longrightarrow> stream_size (snd (getStatus st)) < stream_size st"
  using recv_shrinks [of st 8]
  by (auto simp: getStatus_def Let_def split: prod.split option.split intro: le_less_trans [OF read_rest_le])

lemma getStatus_closed: "getStatus [] = ([], [])"
  by (simp add: getStatus_def valid_utf8_def split1_def Let_def)

text \<open>
  \<open>getEvents\<close>, once connected: what the callbacks did, and the exception that ended the loop, which
  is printed. At the end of the stream the text is empty, and so ends the loop.
\<close>

function getEvents :: "'w on_event \<Rightarrow> arrivals \<Rightarrow> 'w client \<Rightarrow> exn option \<times> 'w client" where
  "getEvents callBack st c =
     (if st = [] then (None, c)
      else case getStatus st of
             (text, st') \<Rightarrow>
               (case turn callBack text c of
                  (Inl e, c') \<Rightarrow> (Some e, c')
                | (Inr True, c') \<Rightarrow> getEvents callBack st' c'
                | (Inr False, c') \<Rightarrow> (None, c')))"
  by pat_completeness auto

termination
proof (relation "measure (\<lambda>(f, st, c). stream_size st)")
  fix callBack :: "'w on_event" and st :: arrivals and c c' :: "'w client" and msg st' 
  assume "st \<noteq> []" "(msg, st') = getStatus st"
  then have "stream_size st' < stream_size st" using getStatus_shrinks [of st] by (metis snd_conv)
  then show "((callBack, st', c'), callBack, st, c) \<in> measure (\<lambda>(f, st, c). stream_size st)" by simp
qed auto

declare getEvents.simps [simp del]

end
