(* ===== verification/Sip_Calls.thy ===== *)
theory Sip_Calls
  imports Sip_Pool Netstring
begin

text \<open>
  A SIP call on its way to a room. Kamailio's handler of an incoming request
  (\<open>RequestGw.handler\<close> of \<open>deploy/kamailio/config/request_gw.py\<close>) sends it to a gateway and hides the
  room in the caller's name; the gateway's event handler (\<open>src/event_handler.py\<close>) finds it there. The
  accounting lines of \<open>kamailioRun.py\<close> release a gateway that missed a call.
\<close>

section \<open>Kamailio\<close>

record invite =
  iq_type :: int
  iq_method :: string
  iq_uri :: string
  iq_from :: string

record sip_site =
  sp_domains :: "string list"
  sp_public_ip :: string
  sp_env :: sip_env

text \<open>What the handler makes of the request: the new URI and the new name in \<open>From\<close>.\<close>

definition room_of_uri :: "string \<Rightarrow> exn + string" where
  "room_of_uri uri =
     (case split1 '':'' uri of
        None \<Rightarrow> Inl (IndexError ''list index out of range'')
      | Some (_, rest) \<Rightarrow> Inr (index_first rest ''@''))"

definition caller_name :: "string \<Rightarrow> string" where
  "caller_name from = (case split1 ''<'' from of None \<Rightarrow> [] | Some (a, _) \<Rightarrow> a)"

definition name_with_room :: "string \<Rightarrow> string \<Rightarrow> string" where
  "name_with_room room name =
     [CHR 0x22] @ nat_str (length room) @ ''-'' @ room @ str_replace [CHR 0x22] [] name @ [CHR 0x22]"

definition for_us :: "sip_site \<Rightarrow> invite \<Rightarrow> bool" where
  "for_us S q =
     (iq_type q = 1
      \<and> ((\<exists>d \<in> set (sp_domains S). str_in d (iq_uri q)) \<or> str_in (sp_public_ip S) (iq_uri q))
      \<and> iq_method q = ''INVITE'' \<and> \<not> str_in (se_prefix (sp_env S)) (iq_uri q))"

definition handler :: "sip_site \<Rightarrow> invite \<Rightarrow> (sip_db, (string \<times> string) option) io" where
  "handler S q =
     (if \<not> for_us S q then ret_io None
      else bind_io (lift_io (room_of_uri (iq_uri q))) (\<lambda>room.
           bind_io (\<lambda>d. case lockGw (sp_env S) d of (r, d') \<Rightarrow> (Inr r, d')) (\<lambda>gw.
           case gw of
             None \<Rightarrow> ret_io None
           | Some c \<Rightarrow>
               (case str_split '':'' (ct_socket c) of
                  _ # host # _ \<Rightarrow>
                    ret_io (Some (''sip:'' @ ct_username c @ ''@'' @ host, name_with_room room (caller_name (iq_from q))))
                | _ \<Rightarrow> raise_io (IndexError ''list index out of range'')))))"

text \<open>A line of the log: the gateway to release, when it tells of a call missed with code 500.\<close>

definition acc_pair :: "string \<Rightarrow> exn + (string \<times> string)" where
  "acc_pair el = (case str_split ''='' el of [k, v] \<Rightarrow> Inr (k, v) | _ \<Rightarrow> Inl (ValueError ''dictionary update sequence''))"

definition missed_call :: "string \<Rightarrow> exn + string option" where
  "missed_call line =
     (case str_split ''ACC: call missed:'' line of
        _ # accLog # _ \<Rightarrow>
          bindE (mapE acc_pair (str_split '';'' accLog)) (\<lambda>ps.
            let d = foldl (\<lambda>d (k, v). dset k v d) [] ps in
            case map_of d ''code'' of
              None \<Rightarrow> Inl (KeyError ''code'')
            | Some code \<Rightarrow>
                if code = ''500''
                then (case map_of d ''dst_user'' of None \<Rightarrow> Inl (KeyError ''dst_user'') | Some u \<Rightarrow> Inr (Some u))
                else Inr None)
      | _ \<Rightarrow> Inr None)"

definition log_line :: "sip_env \<Rightarrow> string \<Rightarrow> sip_db \<Rightarrow> sip_db" where
  "log_line E line d = (case missed_call line of Inr (Some u) \<Rightarrow> unlock E u d | _ \<Rightarrow> d)"

section \<open>The gateway\<close>

datatype thread = Browse | MediaStats

record ivr_session =
  ss_room :: string
  ss_name :: pyval
  ss_mixed :: string
  ss_inputs :: "pyval list"
  ss_shared :: "bool option"
  ss_audio_only :: bool
  ss_threads :: "thread list"
  ss_out :: "string list"

record gateway_cfg =
  gc_from :: string
  gc_interval :: int
  gc_main_app :: string

definition say :: "string \<Rightarrow> (ivr_session, unit) io" where
  "say line = modify_io (\<lambda>s. s\<lparr>ss_out := ss_out s @ [line]\<rparr>)"

definition say_data :: "pydict \<Rightarrow> (ivr_session, unit) io" where
  "say_data d = say (py_str (PDict d))"

definition put_key :: "pyval \<Rightarrow> (ivr_session, unit) io" where
  "put_key v = modify_io (\<lambda>s. s\<lparr>ss_inputs := ss_inputs s @ [v]\<rparr>)"

definition start_thread :: "thread \<Rightarrow> (ivr_session, unit) io" where
  "start_thread t = modify_io (\<lambda>s. s\<lparr>ss_threads := ss_threads s @ [t]\<rparr>)"

definition baresip_cmd :: "string \<Rightarrow> pyval option" where
  "baresip_cmd c = Some (PDict [(''command'', PStr c)])"

text \<open>\<open>'literal' + v\<close>, printed.\<close>

definition say_with :: "string \<Rightarrow> pyval \<Rightarrow> (ivr_session, unit) io" where
  "say_with txt v = (case v of PStr t \<Rightarrow> say (txt @ t) | _ \<Rightarrow> raise_io (TypeError ''can only concatenate str''))"

definition from_us :: "gateway_cfg \<Rightarrow> pydict \<Rightarrow> exn + bool" where
  "from_us cfg d = (if gc_from cfg = [] then Inr True else bindE (dindex d ''peeruri'') (\<lambda>u. Inr (u = PStr (gc_from cfg))))"

definition on_incoming :: "gateway_cfg \<Rightarrow> pydict \<Rightarrow> (ivr_session, pyval option) io" where
  "on_incoming cfg d =
     bind_io (say_data d) (\<lambda>_. bind_io (lift_io (from_us cfg d)) (\<lambda>b.
       ret_io (baresip_cmd (if b then ''accept'' else ''hangup''))))"

text \<open>The room and the name of \<open>length-roomname\<close>; \<open>None\<close> is any exception of the \<open>try\<close>.\<close>

definition call_prefix :: "pyval \<Rightarrow> (string \<times> string) option" where
  "call_prefix v =
     (case v of
        PStr s \<Rightarrow>
          (case split1 ''-'' s of
             None \<Rightarrow> None
           | Some (a, b) \<Rightarrow> (case py_int_str a of None \<Rightarrow> None | Some n \<Rightarrow> Some (take (nat n) b, drop (nat n) b)))
      | _ \<Rightarrow> None)"

definition uri_part :: "pyval \<Rightarrow> exn + string" where
  "uri_part v =
     bindE (as_str v) (\<lambda>s. case str_split '':'' (index_first s '';'') of
       _ # b # _ \<Rightarrow> Inr b | _ \<Rightarrow> Inl (IndexError ''list index out of range''))"

definition read_name :: "pydict \<Rightarrow> (ivr_session, pyval) io" where
  "read_name d =
     (case map_of d ''peerdisplayname'' of
        None \<Rightarrow> ret_io (PStr [])
      | Some v \<Rightarrow>
          bind_io (read_io ss_room) (\<lambda>static.
          bind_io (if static = [] then ret_io () else say (''Static room name (may be overwritten => ivr.js): '' @ static)) (\<lambda>_.
          case call_prefix v of
             None \<Rightarrow> ret_io v
           | Some (room, name) \<Rightarrow>
               bind_io (modify_io (\<lambda>s. s\<lparr>ss_mixed := room\<rparr>)) (\<lambda>_.
               bind_io (say (''Call prefix: '' @ room)) (\<lambda>_. ret_io (PStr name))))))"

definition on_established :: "gateway_cfg \<Rightarrow> pydict \<Rightarrow> (ivr_session, pyval option) io" where
  "on_established cfg d =
     bind_io (say_data d) (\<lambda>_.
     bind_io (lift_io (dindex d ''remotevideodir'')) (\<lambda>dir.
     bind_io (if dir = PStr ''inactive'' then modify_io (\<lambda>s. s\<lparr>ss_audio_only := True\<rparr>) else ret_io ()) (\<lambda>_.
     bind_io (read_name d) (\<lambda>read.
     bind_io (if truthy read then ret_io read
              else bind_io (lift_io (bindE (dindex d ''peeruri'') uri_part)) (\<lambda>u. ret_io (PStr u))) (\<lambda>name.
     bind_io (say_with ''My name: '' name) (\<lambda>_.
     bind_io (modify_io (\<lambda>s. s\<lparr>ss_name := name\<rparr>)) (\<lambda>_.
     bind_io (start_thread Browse) (\<lambda>_.
     bind_io (if 0 < gc_interval cfg \<and> gc_main_app cfg = ''baresip'' then start_thread MediaStats else ret_io ()) (\<lambda>_.
     ret_io None)))))))))"

definition on_display :: "pydict \<Rightarrow> (ivr_session, pyval option) io" where
  "on_display d =
     bind_io (say_data d) (\<lambda>_.
     bind_io (lift_io (dindex d ''param'')) (\<lambda>p.
     bind_io (if p = PStr ''VIDEO_SLIDES_START''
              then bind_io (put_key (PStr ''s'')) (\<lambda>_. modify_io (\<lambda>s. s\<lparr>ss_shared := Some True\<rparr>)) else ret_io ()) (\<lambda>_.
     bind_io (if p = PStr ''VIDEO_SLIDES_STOP''
              then bind_io (read_io ss_shared) (\<lambda>sh.
                   case sh of
                     None \<Rightarrow> raise_io (AttributeError ''screenShared'')
                   | Some b \<Rightarrow>
                       if b then bind_io (put_key (PStr ''q'')) (\<lambda>_. modify_io (\<lambda>s. s\<lparr>ss_shared := Some False\<rparr>))
                       else ret_io ())
              else ret_io ()) (\<lambda>_. ret_io None))))"

text \<open>Neither the handler's \<open>ivr\<close> nor its \<open>browsingObj\<close> has a \<open>chatMsg\<close>.\<close>

definition on_chat :: "pydict \<Rightarrow> (ivr_session, pyval option) io" where
  "on_chat d =
     bind_io (case map_of d ''text'' of
                None \<Rightarrow> ret_io ()
              | Some v \<Rightarrow> bind_io (say_with ''Received chat message: '' v) (\<lambda>_. raise_io (AttributeError ''chatMsg''))) (\<lambda>_.
     bind_io (case map_of d ''action'' of
                None \<Rightarrow> ret_io ()
              | Some v \<Rightarrow> bind_io (say_with ''Received chat action: '' v) (\<lambda>_.
                          if v = PStr ''toggle'' then put_key (PStr ''c'') else ret_io ())) (\<lambda>_.
     ret_io None))"

definition event_handler :: "gateway_cfg \<Rightarrow> pydict \<Rightarrow> (ivr_session, pyval option) io" where
  "event_handler cfg d =
     bind_io (lift_io (dindex d ''type'')) (\<lambda>ty.
       if ty = PStr ''CALL_INCOMING'' then on_incoming cfg d
       else if ty = PStr ''CALL_ESTABLISHED'' then on_established cfg d
       else if ty = PStr ''CALL_DTMF_START''
       then bind_io (lift_io (dindex d ''param'')) (\<lambda>p.
            bind_io (say_with ''Received DTMF:'' p) (\<lambda>_. bind_io (put_key p) (\<lambda>_. ret_io None)))
       else if ty = PStr ''CALL_CLOSED''
       then bind_io (lift_io (from_us cfg d)) (\<lambda>b.
            if b then bind_io (say_data d) (\<lambda>_. ret_io (baresip_cmd ''quit'')) else ret_io None)
       else if ty = PStr ''TIME_OUT''
       then bind_io (read_io ss_name) (\<lambda>name.
            if truthy name then ret_io None else bind_io (say_data d) (\<lambda>_. ret_io (baresip_cmd ''quit'')))
       else if ty = PStr ''VIDEO_DISP'' then on_display d
       else if ty = PStr ''CHAT_INPUT'' then on_chat d
       else ret_io None)"

end
