(* ===== verification/Sip_Calls_Props.thy ===== *)
theory Sip_Calls_Props
  imports Sip_Calls Sip_Pool_Props
begin

text \<open>
  The properties of a SIP call on its way: the room a caller dials is the one the gateway joins, the
  events of the SIP client arrive whole, and a gateway that missed a call is free again.
\<close>

section \<open>Texts\<close>

lemma split_join: "str_join [] (split_fuel n [c] s) = filter (\<lambda>x. x \<noteq> c) s" if "length s \<le> n"
  using that
proof (induction n arbitrary: s)
  case (Suc n)
  show ?case
  proof (cases "c \<in> set s")
    case False
    then have "filter (\<lambda>x. x \<noteq> c) s = s" by (auto simp: filter_id_conv)
    with False show ?thesis by (metis split_fuel_None str_join.simps(2))
  next
    case True
    then obtain u v where s: "s = u @ c # v" "c \<notin> set u" by (meson split_list_first)
    then have u: "filter (\<lambda>x. x \<noteq> c) u = u" by (auto simp: filter_id_conv)
    have "str_join [] (u # split_fuel n [c] v) = u @ str_join [] (split_fuel n [c] v)"
      by (cases "split_fuel n [c] v") simp_all
    then show ?thesis using Suc s u by (simp add: split1_char)
  qed
qed simp

lemma str_replace_char: "str_replace [c] [] s = filter (\<lambda>x. x \<noteq> c) s"
  by (simp add: str_replace_def str_split_def split_join)

lemma index_first_char: "c \<notin> set u \<Longrightarrow> index_first (u @ c # v) [c] = u"
  by (simp add: index_first_def split1_char)

section \<open>The room in the name\<close>

lemma digit_not_dash: "is_digit c \<Longrightarrow> c \<noteq> CHR ''-''"
  by (auto simp: is_digit_def)

lemma call_prefix_name: "call_prefix (PStr (nat_str (length room) @ CHR ''-'' # room @ name)) = Some (room, name)"
proof -
  have "CHR ''-'' \<notin> set (nat_str (length room))" using nat_str_digits digit_not_dash by blast
  then show ?thesis by (simp add: call_prefix_def split1_char py_int_str_nat_str)
qed

lemma handler_rewrites:
  assumes "handler S q d = (Inr (Some (uri, shown)), d')" and "iq_uri q = sch @ '':'' @ room @ ''@'' @ host"
    and "CHR '':'' \<notin> set sch" "CHR ''@'' \<notin> set room"
  shows "shown = name_with_room room (caller_name (iq_from q))"
proof -
  have "room_of_uri (iq_uri q) = Inr room" using assms(2-4) by (simp add: room_of_uri_def split1_char index_first_char)
  then show ?thesis using assms(1)
    by (auto simp: handler_def bind_io_def split: if_splits prod.splits option.splits list.splits)
qed

text \<open>
  C24. The room a caller dials is the room the gateway looks for: Kamailio's handler puts it, with its
  length, before the caller's name, the SIP client shows that name without its quotes, and the event
  handler takes the room and the name out again, whatever dashes and digits they have.
\<close>
theorem dialled_room_is_found:
  assumes "handler S q d = (Inr (Some (uri, shown)), d')" and "iq_uri q = sch @ '':'' @ room @ ''@'' @ host"
    and "CHR '':'' \<notin> set sch" "CHR ''@'' \<notin> set room" "CHR 0x22 \<notin> set room"
    and peer: "\<forall>t. CHR 0x22 \<notin> set t \<longrightarrow> unquote ([CHR 0x22] @ t @ [CHR 0x22]) = t"
    and event: "map_of ev ''type'' = Some (PStr ''CALL_ESTABLISHED'')" "map_of ev ''remotevideodir'' = Some dir"
      "map_of ev ''peerdisplayname'' = Some (PStr (unquote shown))" "map_of ev ''peeruri'' = Some (PStr (usch @ '':'' @ user @ '';'' @ ps))"
    and uri: "CHR '':'' \<notin> set (usch @ user)" "CHR '';'' \<notin> set (usch @ user)"
  shows "\<exists>s'. event_handler cfg ev s = (Inr None, s') \<and> ss_mixed s' = room \<and> Browse \<in> set (ss_threads s')
    \<and> ss_name s' = PStr (case filter (\<lambda>c. c \<noteq> CHR 0x22) (caller_name (iq_from q)) of [] \<Rightarrow> user | n \<Rightarrow> n)"
proof -
  let ?name = "filter (\<lambda>c. c \<noteq> CHR 0x22) (caller_name (iq_from q))"
  have "is_digit c \<Longrightarrow> c \<noteq> CHR 0x22" for c by (auto simp: is_digit_def)
  then have "CHR 0x22 \<notin> set (nat_str (length room) @ ''-'' @ room @ ?name)" using nat_str_digits assms(5) by fastforce
  then have "unquote ([CHR 0x22] @ (nat_str (length room) @ ''-'' @ room @ ?name) @ [CHR 0x22]) = nat_str (length room) @ ''-'' @ room @ ?name"
    using peer by blast
  then have "unquote shown = nat_str (length room) @ CHR ''-'' # room @ ?name"
    using handler_rewrites [OF assms(1-4)] by (simp add: name_with_room_def str_replace_char)
  then have prefix: "call_prefix (PStr (unquote shown)) = Some (room, ?name)" by (simp only: call_prefix_name)
  have "uri_part (PStr (usch @ '':'' @ user @ '';'' @ ps)) = Inr user"
  proof -
    have "index_first (usch @ '':'' @ user @ '';'' @ ps) '';'' = usch @ '':'' @ user"
      using index_first_char [of "CHR '';''" "usch @ '':'' @ user" ps] uri by simp
    moreover have "str_split '':'' (usch @ '':'' @ user) = [usch, user]"
      using str_split_lines [of "[usch]" "CHR '':''" user] uri by simp
    ultimately show ?thesis by (simp add: uri_part_def)
  qed
  then show ?thesis using event prefix
    by (cases ?name) (auto simp: event_handler_def on_established_def read_name_def say_data_def say_def say_with_def start_thread_def
        dindex_def bind_io_def)
qed

definition wit_site :: sip_site where
  "wit_site = \<lparr>sp_domains = [''visio.fr''], sp_public_ip = ''192.0.2.1'', sp_env = wit_sip\<rparr>"

definition wit_invite :: invite where
  "wit_invite = \<lparr>iq_type = 1, iq_method = ''INVITE'', iq_uri = ''sip:12-5@visio.fr'',
     iq_from = [CHR 0x22] @ ''Alice'' @ [CHR 0x22] @ '' <sip:alice@example.fr>''\<rparr>"

definition wit_shown :: string where
  "wit_shown = [CHR 0x22] @ ''4-12-5Alice '' @ [CHR 0x22]"

definition wit_established :: pydict where
  "wit_established = [(''event'', PBool True), (''type'', PStr ''CALL_ESTABLISHED''), (''remotevideodir'', PStr ''sendrecv''),
     (''peerdisplayname'', PStr (butlast (tl wit_shown))), (''peeruri'', PStr ''sip:alice@example.fr;transport=tcp'')]"

definition wit_ivr :: ivr_session where
  "wit_ivr = \<lparr>ss_room = [], ss_name = PStr [], ss_mixed = [], ss_inputs = [], ss_shared = None, ss_audio_only = False,
     ss_threads = [], ss_out = []\<rparr>"

definition wit_gateway :: gateway_cfg where
  "wit_gateway = \<lparr>gc_from = [], gc_interval = 10, gc_main_app = ''baresip''\<rparr>"

lemma wit_handler:
  "handler wit_site wit_invite \<lparr>sd_location = [wit_row ''gw1''], sd_dialog = []\<rparr>
    = (Inr (Some (''sip:gw1@10.0.0.1'', wit_shown)), \<lparr>sd_location = [(wit_row ''gw1'')\<lparr>lr_locked := 1\<rparr>], sd_dialog = []\<rparr>)"
proof -
  have ours: "for_us wit_site wit_invite" by code_simp
  have room: "room_of_uri (iq_uri wit_invite) = Inr ''12-5''" by code_simp
  have sock: "str_split '':'' (ct_socket wit_contact) = [''udp'', ''10.0.0.1'', ''5060'']" by code_simp
  have shown: "name_with_room ''12-5'' (caller_name (iq_from wit_invite)) = wit_shown" by code_simp
  have "lockGw wit_sip \<lparr>sd_location = [wit_row ''gw1''], sd_dialog = []\<rparr>
      = (Some wit_contact, \<lparr>sd_location = [(wit_row ''gw1'')\<lparr>lr_locked := 1\<rparr>], sd_dialog = []\<rparr>)"
    unfolding lockGw_def wit_candidates by (simp add: claim_def sip_update_def wit_contact_def in_dialog_def)
  then show ?thesis
    using ours room shown sock by (simp add: handler_def bind_io_def wit_site_def) (simp add: wit_contact_def)
qed

lemma dialled_room_is_found_witness:
  "\<exists>s'. event_handler wit_gateway wit_established wit_ivr = (Inr None, s') \<and> ss_mixed s' = ''12-5''
    \<and> ss_name s' = PStr ''Alice ''"
proof -
  have name: "filter (\<lambda>c. c \<noteq> CHR 0x22) (caller_name (iq_from wit_invite)) = ''Alice ''" by code_simp
  have "\<exists>s'. event_handler wit_gateway wit_established wit_ivr = (Inr None, s') \<and> ss_mixed s' = ''12-5'' \<and> Browse \<in> set (ss_threads s')
    \<and> ss_name s' = PStr (case filter (\<lambda>c. c \<noteq> CHR 0x22) (caller_name (iq_from wit_invite)) of [] \<Rightarrow> ''alice@example.fr'' | n \<Rightarrow> n)"
    by (rule dialled_room_is_found [OF wit_handler, where sch = "''sip''" and host = "''visio.fr''" and unquote = "\<lambda>s. butlast (tl s)"
          and usch = "''sip''" and ps = "''transport=tcp''"])
      (simp_all add: wit_invite_def wit_established_def)
  then show ?thesis unfolding name by auto
qed

section \<open>A missed call\<close>

definition clean_field :: "string \<times> string \<Rightarrow> bool" where
  "clean_field p = (CHR ''='' \<notin> set (fst p @ snd p) \<and> CHR '';'' \<notin> set (fst p @ snd p))"

definition acc_text :: "string \<times> string \<Rightarrow> string" where
  "acc_text p = fst p @ ''='' @ snd p"

lemma split_fields:
  assumes "\<forall>s \<in> set ss. c \<notin> set s" "ss \<noteq> []"
  shows "str_split [c] (str_join [c] ss) = ss"
proof -
  have "str_join [c] ss = concat (map (\<lambda>l. l @ [c]) (butlast ss)) @ last ss"
    using assms(2) by (induction ss rule: induct_list012) simp_all
  then show ?thesis
    using str_split_lines [of "butlast ss" c "last ss"] assms by (metis append_butlast_last_id in_set_butlastD last_in_set)
qed

lemma read_fields:
  assumes "\<forall>p \<in> set ps. clean_field p" "distinct (map fst ps)"
  shows "mapE acc_pair (map acc_text ps) = Inr ps" and "foldl (\<lambda>d (k, v). dset k v d) [] ps = ps"
proof -
  have "acc_pair (acc_text p) = Inr p" if "p \<in> set ps" for p
    using assms(1) that str_split_lines [of "[fst p]" "CHR ''=''" "snd p"] by (simp add: acc_pair_def acc_text_def clean_field_def)
  then show "mapE acc_pair (map acc_text ps) = Inr ps" by (induction ps) simp_all
  show "foldl (\<lambda>d (k, v). dset k v d) [] ps = ps" using foldl_dset_distinct [of "[]" ps] assms(2) by simp
qed

text \<open>
  A gateway that did not answer is free for the next call: the accounting line of a call missed
  with code 500 releases the registrations of the gateway it names, and no other, so a call that comes
  in then is not refused.
\<close>
theorem missed_call_frees_the_gateway:
  assumes "str_split ''ACC: call missed:'' line = [before, str_join '';'' (map acc_text ps)]"
    and "\<forall>p \<in> set ps. clean_field p" "distinct (map fst ps)" "map_of ps ''code'' = Some ''500''" "map_of ps ''dst_user'' = Some u"
    and "l \<in> set (sd_location d)" "se_like E (lr_contact l) u" "ours E l" "\<not> in_dialog E d (lr_username l)"
    and "\<forall>g. g \<noteq> [] \<longrightarrow> se_pick E g \<in> set g"
  shows "candidate E (log_line E line d) (l\<lparr>lr_locked := 0\<rparr>) \<and> l\<lparr>lr_locked := 0\<rparr> \<in> set (sd_location (log_line E line d))
    \<and> (\<forall>k \<in> set (sd_location d). \<not> se_like E (lr_contact k) u \<longrightarrow> k \<in> set (sd_location (log_line E line d)))
    \<and> fst (lockGw E (log_line E line d)) \<noteq> None"
proof -
  have "ps \<noteq> []" using assms(4) by auto
  moreover have "\<forall>s \<in> set (map acc_text ps). CHR '';'' \<notin> set s" using assms(2) by (auto simp: acc_text_def clean_field_def)
  ultimately have "str_split '';'' (str_join '';'' (map acc_text ps)) = map acc_text ps" by (intro split_fields) simp_all
  then have "missed_call line = Inr (Some u)"
    using read_fields [OF assms(2,3)] assms(1,4,5) by (simp add: missed_call_def Let_def)
  then have log: "log_line E line d = d\<lparr>sd_location := map (\<lambda>l. if se_like E (lr_contact l) u then l\<lparr>lr_locked := 0\<rparr> else l) (sd_location d)\<rparr>"
    by (simp add: log_line_def unlock_def location_update unlocks_def)
  have c: "candidate E (log_line E line d) (l\<lparr>lr_locked := 0\<rparr>)" "l\<lparr>lr_locked := 0\<rparr> \<in> set (sd_location (log_line E line d))"
    "\<forall>k \<in> set (sd_location d). \<not> se_like E (lr_contact k) u \<longrightarrow> k \<in> set (sd_location (log_line E line d))"
    using assms(6-9) by (auto simp: candidate_def log in_dialog_def ours_def image_iff)
  moreover have "fst (lockGw E (log_line E line d)) \<noteq> None" by (rule free_gateway_is_given [OF assms(10) c(2,1)])
  ultimately show ?thesis by blast
qed

lemma missed_call_frees_the_gateway_witness:
  "fst (lockGw wit_sip (log_line wit_sip ''NOTICE: ACC: call missed:code=500;dst_user=gw1''
      \<lparr>sd_location = [(wit_row ''gw1'')\<lparr>lr_locked := 1\<rparr>], sd_dialog = []\<rparr>)) \<noteq> None"
proof -
  let ?ps = "[(''code'', ''500''), (''dst_user'', ''gw1'')]"
  have "str_split ''ACC: call missed:'' ''NOTICE: ACC: call missed:code=500;dst_user=gw1'' = [''NOTICE: '', str_join '';'' (map acc_text ?ps)]"
    by code_simp
  moreover have "\<forall>p \<in> set ?ps. clean_field p" by code_simp
  moreover have "str_in ''gw1'' ''sip:gw1''" by code_simp
  then have "se_like wit_sip (lr_contact ((wit_row ''gw1'')\<lparr>lr_locked := 1\<rparr>)) ''gw1''" by (simp add: wit_sip_def)
  moreover have "ours wit_sip ((wit_row ''gw1'')\<lparr>lr_locked := 1\<rparr>)" using wit_ours by (simp add: ours_def)
  moreover have "\<forall>g. g \<noteq> [] \<longrightarrow> se_pick wit_sip g \<in> set g" by (simp add: wit_sip_def)
  ultimately show ?thesis
    using missed_call_frees_the_gateway [of "''NOTICE: ACC: call missed:code=500;dst_user=gw1''" "''NOTICE: ''" ?ps "''gw1''"
        "(wit_row ''gw1'')\<lparr>lr_locked := 1\<rparr>" "\<lparr>sd_location = [(wit_row ''gw1'')\<lparr>lr_locked := 1\<rparr>], sd_dialog = []\<rparr>" wit_sip]
    by (simp add: in_dialog_def)
qed

end
