(* ===== verification/Netstring_Props.thy ===== *)
theory Netstring_Props
  imports Sip_Calls Sip_Calls_Props
begin

text \<open>
  The properties of the event loop: messages that have arrived are read whole and in order, and what
  the length before a text can do to the text.
\<close>

section \<open>The events arrive whole\<close>

definition ascii :: "string \<Rightarrow> bool" where
  "ascii s = (\<forall>c \<in> set s. (of_char c :: nat) < 128)"

definition rest_of :: "string \<Rightarrow> arrivals \<Rightarrow> arrivals" where
  "rest_of b st = (if b = [] then st else Bytes b # st)"

lemma ascii_utf8: "ascii s \<Longrightarrow> valid_utf8 s"
  unfolding valid_utf8_def ascii_def by (rule utf8_ok_ascii) simp

lemma ascii_append [simp]: "ascii (a @ b) = (ascii a \<and> ascii b)"
  by (auto simp: ascii_def)

lemma ascii_Cons [simp]: "ascii (c # s) = ((of_char c :: nat) < 128 \<and> ascii s)" and ascii_Nil [simp]: "ascii []"
  by (simp_all add: ascii_def)

lemma ascii_take: "ascii s \<Longrightarrow> ascii (take n s)" and ascii_drop: "ascii s \<Longrightarrow> ascii (drop n s)"
  by (auto simp: ascii_def dest: in_set_takeD in_set_dropD)

lemma ascii_nat_str [simp]: "ascii (nat_str n)"
  unfolding ascii_def by (metis is_digit_def le_less_trans nat_str_digits numeral_less_iff semiring_norm(76,78,81,79,77,80))

lemma recv_bytes: "recv n (Bytes b # st) = (Some (take n b), rest_of (drop n b) st)"
  by (simp add: rest_of_def)

lemma read_rest_bytes:
  assumes "0 \<le> n" "nat n \<le> length b" "ascii b"
  shows "read_rest n r (rest_of b st) = (r @ take (nat n) b, rest_of (drop (nat n) b) st)"
  using assms
proof (induction "nat n" arbitrary: n r b rule: less_induct)
  case less
  show ?case
  proof (cases "n = 0")
    case True
    then show ?thesis by (simp add: read_rest.simps)
  next
    case False
    define k where "k = packet_len n"
    have k: "0 < k" "k \<le> nat n" using False less.prems by (auto simp: k_def packet_len_def)
    then have b: "b \<noteq> []" "take k b \<noteq> []" using less.prems by auto
    have IH: "read_rest (n - int k) (r @ take k b) (rest_of (drop k b) st)
        = ((r @ take k b) @ take (nat (n - int k)) (drop k b), rest_of (drop (nat (n - int k)) (drop k b)) st)"
      using k less.prems by (intro less.hyps) (auto intro: ascii_drop)
    have "nat (n - int k) = nat n - k" using k by simp
    then have "take k b @ take (nat (n - int k)) (drop k b) = take (nat n) b" "drop (nat (n - int k)) (drop k b) = drop (nat n) b"
      using k by (simp_all add: take_add [symmetric])
    then show ?thesis
      using IH b False less.prems recv_bytes [of k b st] ascii_utf8 [OF ascii_take [OF less.prems(3)]]
      by (subst read_rest.simps) (simp add: k_def [symmetric] rest_of_def [of b])
  qed
qed

text \<open>A text the SIP client may send: long enough for the first read, and short enough for its length to be in it.\<close>

definition sendable :: "string \<Rightarrow> bool" where
  "sendable t = (5 \<le> length t \<and> length t < 10000000 \<and> ascii t)"

lemma length_nat_str_le: "n < 10 ^ k \<Longrightarrow> 0 < k \<Longrightarrow> length (nat_str n) \<le> k"
proof (induction k arbitrary: n)
  case (Suc k)
  show ?case
  proof (cases "n < 10")
    case False
    then have "0 < k" "n div 10 < 10 ^ k" using Suc.prems by (cases k, simp_all)
    with Suc.IH [of "n div 10"] show ?thesis by (subst nat_str.simps) (simp add: False)
  qed (subst nat_str.simps, simp)
qed simp

lemma getStatus_netstring:
  assumes "sendable t" "ascii later"
  shows "getStatus (rest_of (netstring t @ later) st) = (netstring t, rest_of later st)"
proof -
  let ?len = "nat_str (length t)" and ?b = "netstring t @ later"
  have len: "length ?len \<le> 7" using assms(1) length_nat_str_le [of "length t" 7] by (simp add: sendable_def)
  have "length (netstring t) = length ?len + length t + 2" by (simp add: netstring_def)
  moreover have "0 < length ?len" "5 \<le> length t" using assms(1) by (simp_all add: sendable_def)
  ultimately have long: "8 \<le> length (netstring t)" by linarith
  have a: "ascii ?b" using assms by (simp add: netstring_def sendable_def)
  define packet where "packet = take 8 ?b"
  have packet: "packet = ?len @ CHR '':'' # take (7 - length ?len) (t @ '','' @ later)"
    using len by (simp add: packet_def netstring_def take_Cons')
  have recv: "recv 8 (rest_of ?b st) = (Some packet, rest_of (drop 8 ?b) st)"
  proof -
    have "rest_of ?b st = Bytes ?b # st" by (simp add: rest_of_def netstring_def)
    then show ?thesis by (simp only: recv_bytes packet_def)
  qed
  have digit: "is_digit (hd ?len)" by (intro nat_str_digits [of _ "length t"] hd_in_set) simp
  have drop: "dropWhile (\<lambda>c. \<not> is_digit c) packet = packet"
    unfolding packet using digit by (cases ?len) (use nat_str_not_Nil [of "length t"] in simp_all)
  have "CHR '':'' \<notin> set ?len" using nat_str_digits by (fastforce simp: is_digit_def)
  then have split: "split1 '':'' packet = Some (?len, take (7 - length ?len) (t @ '','' @ later))" unfolding packet by (rule split1_char)
  have eight: "length packet = 8" using long by (simp add: packet_def)
  define tail where "tail = rest_of (drop 8 ?b) st"
  have v: "valid_utf8 packet" unfolding packet_def by (intro ascii_utf8 ascii_take a)
  have len_eq: "int (length (netstring t)) = int (length ?len) + int (length t) + 2" by (simp add: netstring_def)
  then have "getStatus (rest_of ?b st) = read_rest (int (length (netstring t)) - 8) packet tail"
    unfolding getStatus_def recv tail_def [symmetric] by (simp add: Let_def drop split eight v py_int_str_nat_str len_eq)
  also have "\<dots> = (packet @ take (length (netstring t) - 8) (drop 8 ?b), rest_of (drop (length (netstring t) - 8) (drop 8 ?b)) st)"
  proof -
    have "nat (int (length (netstring t)) - 8) = length (netstring t) - 8" by simp
    then show ?thesis using long read_rest_bytes [of "int (length (netstring t)) - 8" "drop 8 ?b" packet st] ascii_drop [OF a] assms(2)
      unfolding tail_def by (simp add: diff_le_mono)
  qed
  also have "\<dots> = (netstring t, rest_of later st)" using long unfolding packet_def by (simp add: take_add [symmetric])
  finally show ?thesis .
qed

section \<open>The loop\<close>

lemma split_at_front: "p \<noteq> [] \<Longrightarrow> split1 p (p @ s) = Some ([], s)"
  by (cases p) (simp_all add: split1_def)

lemma str_replace_none: "c \<in> set p \<Longrightarrow> c \<notin> set s \<Longrightarrow> str_replace p q s = s"
  by (rule str_replace_absent)

text \<open>A text that decodes to its value: its length and a colon do not occur in it again, and it has no backslash.\<close>

definition message_ok :: "string \<Rightarrow> pyval \<Rightarrow> bool" where
  "message_ok t v =
     (sendable t \<and> \<not> str_in (nat_str (length t) @ '':'') (t @ '','') \<and> CHR 0x5C \<notin> set t \<and> json_loads_with False t = Some v)"

lemma decode_netstring:
  assumes "message_ok t v"
  shows "decodeNetString (netstring t) = Inr v"
proof -
  let ?p = "nat_str (length t) @ '':''"
  have n: "netstring t = ?p @ t @ '',''" by (simp add: netstring_def)
  have "CHR '':'' \<notin> set (nat_str (length t))" using nat_str_digits by (fastforce simp: is_digit_def)
  then have len: "len_part (netstring t) = nat_str (length t)" unfolding len_part_def n by (simp add: split1_char)
  have "split1 ?p (t @ '','') = None" using assms by (simp add: message_ok_def str_in_def split1_def)
  then have "split_fuel k ?p (t @ '','') = [t @ '','']" for k by (cases k) simp_all
  moreover obtain m where "length (netstring t) = Suc m" by (cases "netstring t") (simp_all add: netstring_def)
  ultimately have "str_split ?p (netstring t) = [[], t @ '','']"
    using split_at_front [of ?p "t @ '',''"] unfolding str_split_def by (simp add: n)
  moreover have "plain_quotes t = t" using assms by (simp add: plain_quotes_def message_ok_def str_replace_none [of "CHR 0x5C"])
  ultimately show ?thesis using assms by (simp add: decodeNetString_def len message_ok_def) (simp add: netstring_def)
qed

text \<open>The loop on values that are already read.\<close>

fun handle_values :: "'w on_event \<Rightarrow> pyval list \<Rightarrow> 'w client \<Rightarrow> exn option \<times> 'w client" where
  "handle_values cb [] c = (None, c)"
| "handle_values cb (v # vs) c =
     (case react cb v c of
        (Inl e, c') \<Rightarrow> (Some e, c')
      | (Inr True, c') \<Rightarrow> handle_values cb vs c'
      | (Inr False, c') \<Rightarrow> (None, c'))"


definition incoming :: "string \<Rightarrow> pyval" where
  "incoming uri = PDict [(''event'', PBool True), (''type'', PStr ''CALL_INCOMING''), (''peeruri'', PStr uri)]"

lemma incoming_loads: "json_loads_with False (json_dumps (incoming uri)) = Some (incoming uri)"
  unfolding json_dumps_def by (rule json_loads_dumps) (simp add: incoming_def)

lemma wit_incoming_ok: "message_ok (json_dumps (incoming ''sip:a@10.0.0.71:5060'')) (incoming ''sip:a@10.0.0.71:5060'')"
proof -
  let ?t = "json_dumps (incoming ''sip:a@10.0.0.71:5060'')"
  have n: "length ?t = 75" by code_simp
  have "\<not> str_in (nat_str 75 @ '':'') (?t @ '','')" "CHR 0x5C \<notin> set ?t" by code_simp+
  moreover have "ascii ?t" by code_simp
  ultimately show ?thesis using n incoming_loads by (simp add: message_ok_def sendable_def)
qed

definition wit_client :: "ivr_session client" where
  "wit_client = \<lparr>cl_world = wit_ivr, cl_sent = []\<rparr>"

definition wit_accept :: string where
  "wit_accept = netstring (json_dumps (PDict [(''command'', PStr ''accept'')]))"


text \<open>
  An event is lost when its length and a colon occur in it again: the text is cut there, does not
  parse, and counts as an event of no type. This call, whose peer's address ends with the length of the
  event, is neither accepted nor refused, though its text is well formed.
\<close>
theorem repeated_length_loses_an_event:
  "json_loads_with False (json_dumps (incoming ''sip:a@10.0.0.75:5060'')) = Some (incoming ''sip:a@10.0.0.75:5060'')
    \<and> getEvents (event_handler cfg) [Bytes (netstring (json_dumps (incoming ''sip:a@10.0.0.75:5060'')))] c = (None, c)"
proof -
  let ?t = "json_dumps (incoming ''sip:a@10.0.0.75:5060'')"
  have n: "length ?t = 75" by code_simp
  have "ascii ?t" by code_simp
  then have "sendable ?t" using n by (simp add: sendable_def)
  from getStatus_netstring [OF this, of "[]" "[]"]
  have get: "getStatus [Bytes (netstring ?t)] = (netstring ?t, [])" by (simp add: rest_of_def netstring_def)
  have decode: "decodeNetString (netstring ?t) = Inr NULL_EVENT" by code_simp
  have "turn (event_handler cfg) (netstring ?t) c = (Inr True, c)"
    by (simp add: turn_def decode react_def NULL_EVENT_def py_in_def dmem_def in_world_def event_handler_def dindex_def)
  then show ?thesis
    by (simp add: incoming_loads getEvents.simps [of _ "[Bytes (netstring ?t)]"] get getEvents.simps [of _ "[]"])
qed

text \<open>
  A chat message ends the session of the gateway: the handler puts its text into a queue that
  no class of the program has, the loop of events stops on the exception, and what the SIP client sends
  next is not read, its hang-up included.
\<close>
theorem chat_message_ends_the_loop:
  assumes "message_ok t (PDict d)" "map_of d ''event'' \<noteq> None" "map_of d ''type'' = Some (PStr ''CHAT_INPUT'')"
    and "map_of d ''text'' = Some (PStr said)" "ascii later"
  shows "\<exists>c'. getEvents (event_handler cfg) [Bytes (netstring t @ later)] c = (Some (AttributeError ''chatMsg''), c')
    \<and> cl_sent c' = cl_sent c \<and> ss_inputs (cl_world c') = ss_inputs (cl_world c)"
proof -
  have get: "getStatus [Bytes (netstring t @ later)] = (netstring t, rest_of later [])"
    using getStatus_netstring [of t later "[]"] assms(1,5) by (simp add: message_ok_def rest_of_def netstring_def)
  have "d \<noteq> []" using assms(2) by auto
  then have "turn (event_handler cfg) (netstring t) c
      = (Inl (AttributeError ''chatMsg''), c\<lparr>cl_world := (cl_world c)\<lparr>ss_out := ss_out (cl_world c) @ [''Received chat message: '' @ said]\<rparr>\<rparr>)"
    using assms(2-4)
    by (simp add: turn_def decode_netstring [OF assms(1)] react_def py_in_def dmem_def in_world_def event_handler_def dindex_def
        on_chat_def say_with_def say_def bind_io_def)
  then show ?thesis by (subst getEvents.simps) (simp add: get)
qed

lemma chat_message_ends_the_loop_witness:
  "\<exists>c'. getEvents (event_handler wit_gateway)
      [Bytes (netstring (json_dumps (PDict [(''event'', PBool True), (''type'', PStr ''CHAT_INPUT''), (''text'', PStr ''hello'')])) @ [])] wit_client
    = (Some (AttributeError ''chatMsg''), c')"
proof -
  let ?d = "[(''event'', PBool True), (''type'', PStr ''CHAT_INPUT''), (''text'', PStr ''hello'')]"
  let ?t = "json_dumps (PDict ?d)"
  have n: "length ?t = 54" by code_simp
  have "\<not> str_in (nat_str 54 @ '':'') (?t @ '','')" "CHR 0x5C \<notin> set ?t" by code_simp+
  moreover have "ascii ?t" by code_simp
  moreover have "json_loads_with False ?t = Some (PDict ?d)" unfolding json_dumps_def by (rule json_loads_dumps) simp
  ultimately have "message_ok ?t (PDict ?d)" using n by (simp add: message_ok_def sendable_def)
  from chat_message_ends_the_loop [OF this, of "''hello''" "[]" wit_gateway wit_client] show ?thesis by auto
qed

end
