(* ===== verification/Baresip_Stats.thy ===== *)
theory Baresip_Stats
  imports Py_IO Py_Num Regex
begin

text \<open>
  How the media is doing during a call: what the gateway asks of its SIP client's control port and
  makes of the answer (\<open>src/baresipCmd.py\<close>), and the line it prints for the log parser
  (\<open>mediaStatsLoop\<close> of \<open>src/event_handler.py\<close>). The control port is a shell command; its answer, or the
  exception of running it, is an argument.
\<close>

section \<open>The control port\<close>

definition control_command :: "string \<Rightarrow> string \<Rightarrow> int \<Rightarrow> string" where
  "control_command host command port =
     ''echo '' @ [CHR 0x22] @ command @ [CHR 0x22] @ '' | netcat -q 1 '' @ host @ '' '' @ int_str port"

type_synonym 'w answering = "string \<Rightarrow> 'w \<Rightarrow> (exn + string) \<times> 'w"

definition send :: "'w answering \<Rightarrow> string \<Rightarrow> int \<Rightarrow> string \<Rightarrow> ('w, string) io" where
  "send sh host port command = try_io (sh (control_command host command port)) (\<lambda>e. ret_io [])"

section \<open>One block\<close>

definition digits :: rx where
  "digits = Rep 1 is_digit"

definition spaces :: rx where
  "spaces = Rep 0 is_space"

definition some_spaces :: rx where
  "some_spaces = Rep 1 is_space"

definition decimal :: rx where
  "decimal = Rep 1 (\<lambda>c. is_digit c \<or> c = CHR ''.'')"

definition sourceRegex :: rx where
  "sourceRegex = seq [lit ''source:'', spaces, Grp ''1'' (Rep 1 not_space), some_spaces, Grp ''2'' digits, spaces, lit ''x'', spaces,
     Grp ''3'' digits, lit '','', spaces, lit ''fps='', Grp ''4'' decimal, some_spaces, lit ''frames='', Grp ''5'' digits]"

definition skipRegex :: rx where
  "skipRegex = seq [lit ''skipc='', Grp ''1'' digits, some_spaces, lit ''sendq='', Grp ''2'' digits]"

definition vidispRegex :: rx where
  "vidispRegex = seq [lit ''vidisp:'', spaces, Rep 1 not_space, some_spaces, Grp ''1'' digits, spaces, lit ''x'', spaces,
     Grp ''2'' digits, some_spaces, lit ''frames='', Grp ''3'' digits]"

definition keyframesRegex :: rx where
  "keyframesRegex = seq [lit ''n_keyframes='', Grp ''1'' digits, lit '','', spaces, lit ''n_picup='', Grp ''2'' digits]"

definition timeRegex :: rx where
  "timeRegex = seq [lit ''time'', spaces, lit ''='', spaces, Grp ''1'' decimal]"

definition bufferRegex :: rx where
  "bufferRegex = seq [lit ''running='', Grp ''1'' digits, some_spaces, lit ''min='', Grp ''2'' digits, some_spaces, lit ''cur='',
     Grp ''3'' digits, lit ''/'', Grp ''4'' digits, some_spaces, lit ''max='', Grp ''5'' digits]"

definition text_group :: "caps \<Rightarrow> string \<Rightarrow> string" where
  "text_group cs g = (case group cs g of Some t \<Rightarrow> t | None \<Rightarrow> [])"

definition int_group :: "caps \<Rightarrow> string \<Rightarrow> pyval" where
  "int_group cs g = PInt (int (digits_val (text_group cs g)))"

definition float_group :: "caps \<Rightarrow> string \<Rightarrow> exn + pyval" where
  "float_group cs g = (case py_float_str (text_group cs g) of Some v \<Rightarrow> Inr v | None \<Rightarrow> Inl (ValueError ''float''))"

text \<open>\<open>stats[k] = v\<close> for each of a list.\<close>

definition put_all :: "pydict \<Rightarrow> (string \<times> pyval) list \<Rightarrow> pydict" where
  "put_all d ps = foldl (\<lambda>d (k, v). dset k v d) d ps"

definition read_source :: "string \<Rightarrow> pydict \<Rightarrow> exn + pydict" where
  "read_source line stats =
     (if dmem stats ''source'' then Inr stats
      else case re_match sourceRegex line of
             None \<Rightarrow> Inr stats
           | Some (cs, _) \<Rightarrow>
               bindE (float_group cs ''4'') (\<lambda>fps.
                 Inr (put_all stats [(''source'', PStr (text_group cs ''1'')), (''txWidth'', int_group cs ''2''),
                        (''txHeight'', int_group cs ''3''), (''txFps'', fps), (''txFrames'', int_group cs ''5'')])))"

text \<open>A match that gives some groups as whole numbers.\<close>

definition read_ints :: "rx \<Rightarrow> (string \<times> string) list \<Rightarrow> string \<Rightarrow> pydict \<Rightarrow> pydict" where
  "read_ints r keys line stats =
     (case re_match r line of
        None \<Rightarrow> stats
      | Some (cs, _) \<Rightarrow> put_all stats (map (\<lambda>(k, g). (k, int_group cs g)) keys))"

text \<open>A duration is kept when the call, if its length is known, is not shorter by more than a minute.\<close>

definition plausible :: "rat option \<Rightarrow> pyval \<Rightarrow> bool" where
  "plausible callSeconds v =
     (case callSeconds of
        None \<Rightarrow> True
      | Some c \<Rightarrow> c = 0 \<or> (case v of PFloat r \<Rightarrow> r \<le> c + 60 | _ \<Rightarrow> False))"

definition read_time :: "rat option \<Rightarrow> string \<Rightarrow> string \<Rightarrow> pydict \<Rightarrow> exn + pydict" where
  "read_time callSeconds sec line stats =
     (if str_in ''not started'' line then Inr (dset (sec @ ''Seconds'') (PInt 0) stats)
      else case re_match timeRegex line of
             None \<Rightarrow> Inr stats
           | Some (cs, _) \<Rightarrow>
               bindE (float_group cs ''1'') (\<lambda>v.
                 Inr (if plausible callSeconds v then dset (sec @ ''Seconds'') v stats else stats)))"

definition read_line :: "rat option \<Rightarrow> string \<Rightarrow> pydict \<times> string option \<Rightarrow> exn + (pydict \<times> string option)" where
  "read_line callSeconds raw st =
     (let line = str_strip raw; (stats, sect) = st;
          keep = (\<lambda>r. bindE r (\<lambda>d. Inr (d, sect))) in
      if startswith line ''tx:'' then Inr (stats, Some ''tx'')
      else if startswith line ''rx:'' then Inr (stats, Some ''rx'')
      else case sect of
        None \<Rightarrow> Inr st
      | Some sec \<Rightarrow>
          if startswith line ''source:'' \<and> sec = ''tx'' then keep (read_source line stats)
          else if startswith line ''skipc='' \<and> sec = ''tx''
          then Inr (read_ints skipRegex [(''txSkipped'', ''1''), (''txQueued'', ''2'')] line stats, sect)
          else if startswith line ''vidisp:'' \<and> sec = ''rx''
          then Inr (read_ints vidispRegex [(''rxWidth'', ''1''), (''rxHeight'', ''2''), (''rxFrames'', ''3'')] line stats, sect)
          else if startswith line ''n_keyframes'' \<and> sec = ''rx''
          then Inr (read_ints keyframesRegex [(''rxKeyframes'', ''1''), (''rxPicup'', ''2'')] line stats, sect)
          else if startswith line ''time ='' then keep (read_time callSeconds sec line stats)
          else Inr st)"

fun read_lines :: "rat option \<Rightarrow> string list \<Rightarrow> pydict \<times> string option \<Rightarrow> exn + (pydict \<times> string option)" where
  "read_lines callSeconds [] st = Inr st"
| "read_lines callSeconds (l # ls) st = bindE (read_line callSeconds l st) (read_lines callSeconds ls)"

definition readStream :: "rat option \<Rightarrow> string list \<Rightarrow> exn + pydict" where
  "readStream callSeconds lines = bindE (read_lines callSeconds lines ([], None)) (\<lambda>st. Inr (fst st))"

fun first_buffer :: "string list \<Rightarrow> pydict" where
  "first_buffer [] = []"
| "first_buffer (l # ls) =
     (case re_match bufferRegex (str_strip l) of
        None \<Rightarrow> first_buffer ls
      | Some (cs, _) \<Rightarrow> [(''running'', int_group cs ''1''), (''min'', int_group cs ''2''), (''currentFrames'', int_group cs ''3''),
                        (''currentPackets'', int_group cs ''4''), (''max'', int_group cs ''5'')])"

definition readJitterBuffer :: "string \<Rightarrow> pydict" where
  "readJitterBuffer text = first_buffer (str_splitlines text)"

section \<open>The answer\<close>

definition stream_name :: "string \<Rightarrow> string" where
  "stream_name line = str_strip (str_replace '' video stream'' [] (strip_by (\<lambda>c. c = CHR ''-'' \<or> c = CHR '' '') line))"

definition is_header :: "string \<Rightarrow> bool" where
  "is_header line = (startswith line ''---'' \<and> endswith line ''video stream ---'')"

fun streams_from :: "(string \<times> string list) list \<Rightarrow> string option \<Rightarrow> string list \<Rightarrow> (string \<times> string list) list" where
  "streams_from d name [] = d"
| "streams_from d name (l # ls) =
     (if is_header (str_strip l)
      then streams_from (dset (stream_name (str_strip l)) [] d) (Some (stream_name (str_strip l))) ls
      else case name of
             None \<Rightarrow> streams_from d None ls
           | Some n \<Rightarrow> streams_from (dset n (the (map_of d n) @ [l]) d) name ls)"

definition streams :: "string \<Rightarrow> (string \<times> string list) list" where
  "streams text = streams_from [] None (str_splitlines text)"

definition stream_stats :: "rat option \<Rightarrow> string list \<Rightarrow> exn + pydict" where
  "stream_stats callSeconds lines =
     bindE (readStream callSeconds lines) (\<lambda>stream.
       let buf = readJitterBuffer (str_join [CHR 0x0A] lines) in
       Inr (if buf = [] then stream else dset ''jitterBuffer'' (PDict buf) stream))"

definition stats_of :: "rat option \<Rightarrow> string \<Rightarrow> exn + pydict" where
  "stats_of callSeconds text =
     mapE (\<lambda>(name, lines). bindE (stream_stats callSeconds lines) (\<lambda>d. Inr (name, PDict d))) (streams text)"

definition videoStats :: "'w answering \<Rightarrow> string \<Rightarrow> int \<Rightarrow> rat option \<Rightarrow> ('w, pydict) io" where
  "videoStats sh host port callSeconds =
     bind_io (send sh host port ''/video_debug'') (\<lambda>text.
       if text = [] then ret_io [] else lift_io (stats_of callSeconds text))"

section \<open>The line for the log\<close>

text \<open>One turn of the loop: what it prints, when the call has a picture.\<close>

definition media_event :: "rat \<Rightarrow> pydict \<Rightarrow> pydict" where
  "media_event seconds video = [(''type'', PStr ''MEDIA_STATS''), (''seconds'', PFloat seconds), (''video'', PDict video)]"

definition media_turn :: "'w answering \<Rightarrow> rat \<Rightarrow> ('w, string option) io" where
  "media_turn sh since =
     (let seconds = round1 since in
      bind_io (videoStats sh ''127.0.0.1'' 5555 (Some seconds)) (\<lambda>video.
        ret_io (if video = [] then None else Some (py_str (PDict (media_event seconds video))))))"

end
