(* ===== verification/Baresip_Props.thy ===== *)
theory Baresip_Props
  imports Baresip_Stats LogParse_Props Ingest_Props Proxy_Props
begin

text \<open>
  The properties of the media samples: what is kept of an absurd clock, and the way of a counter from
  the SIP client's answer to the frame rate the console shows.
\<close>

section \<open>Durations\<close>

definition duration_fits :: "rat \<Rightarrow> pyval \<Rightarrow> bool" where
  "duration_fits c v = (case v of PNone \<Rightarrow> True | PInt i \<Rightarrow> i = 0 | PFloat r \<Rightarrow> r \<le> c + 60 | _ \<Rightarrow> False)"

definition durations_fit :: "rat \<Rightarrow> pydict \<times> string option \<Rightarrow> bool" where
  "durations_fit c st =
     (duration_fits c (dget (fst st) ''txSeconds'') \<and> duration_fits c (dget (fst st) ''rxSeconds'')
      \<and> snd st \<in> {None, Some ''tx'', Some ''rx''})"

lemma dget_put_all: "k \<notin> fst ` set ps \<Longrightarrow> dget (put_all d ps) k = dget d k"
  unfolding put_all_def by (induction ps arbitrary: d) (auto split: prod.splits)

lemma dget_read_ints: "k \<notin> fst ` set keys \<Longrightarrow> dget (read_ints r keys line d) k = dget d k"
  by (auto simp: read_ints_def split: option.split intro!: dget_put_all) force

lemma dget_read_source: "read_source line d = Inr d' \<Longrightarrow> k \<in> {''txSeconds'', ''rxSeconds''} \<Longrightarrow> dget d' k = dget d k"
  by (auto simp: read_source_def bindE_eq_Inr_iff dget_put_all split: if_splits option.splits)

lemma read_time_fits:
  assumes "read_time (Some c) sec line d = Inr d'" "c \<noteq> 0" "durations_fit c (d, Some sec)"
  shows "durations_fit c (d', Some sec)"
proof -
  have "d' = d \<or> (\<exists>v. d' = dset (sec @ ''Seconds'') v d \<and> duration_fits c v)"
    using assms(1,2) by (auto simp: read_time_def bindE_eq_Inr_iff plausible_def duration_fits_def split: if_splits option.splits pyval.splits)
  then show ?thesis using assms(3) by (auto simp: durations_fit_def)
qed

lemma durations_fit_kept:
  assumes "durations_fit c (d, sect)" "\<And>k. k \<in> {''txSeconds'', ''rxSeconds''} \<Longrightarrow> dget d' k = dget d k"
  shows "durations_fit c (d', sect)"
  using assms by (simp add: durations_fit_def)

lemma read_line_fits:
  assumes "read_line (Some c) l st = Inr st'" "c \<noteq> 0" "durations_fit c st"
  shows "durations_fit c st'"
proof -
  obtain d sect where st: "st = (d, sect)" by (cases st)
  have ints: "durations_fit c (read_ints r keys line d, q)" if "sect = q" "''txSeconds'' \<notin> fst ` set keys" "''rxSeconds'' \<notin> fst ` set keys" for q r keys line
    by (rule durations_fit_kept [of c d]) (use that assms(3) st in \<open>auto simp: dget_read_ints\<close>)
  have fresh: "durations_fit c (d, Some q)" if "q \<in> {''tx'', ''rx''}" for q
    using that assms(3) unfolding st by (auto simp: durations_fit_def)
  have source: "durations_fit c (d', q)" if "read_source line d = Inr d'" "sect = q" for line d' q
    using assms(3) unfolding st that(2) by (elim durations_fit_kept) (rule dget_read_source [OF that(1)])
  have time: "durations_fit c (d', Some q)" if "read_time (Some c) q line d = Inr d'" "sect = Some q" for q line d'
    using read_time_fits [OF that(1) assms(2)] assms(3) unfolding st that(2) .
  show ?thesis using assms(1,3) unfolding st read_line_def Let_def prod.case
    by (auto simp: bindE_eq_Inr_iff intro: ints fresh source time split: if_splits option.splits)
qed

lemma read_lines_fit: "read_lines (Some c) ls st = Inr st' \<Longrightarrow> c \<noteq> 0 \<Longrightarrow> durations_fit c st \<Longrightarrow> durations_fit c st'"
  by (induction ls arbitrary: st) (auto simp: bindE_eq_Inr_iff dest: read_line_fits)

text \<open>
  No sample carries a duration a minute longer than the call: whatever the SIP client prints, each
  duration kept is zero or at most the call's length and a minute.
\<close>
theorem sample_durations_fit_the_call:
  assumes "readStream (Some c) lines = Inr stats" "c \<noteq> 0" "k \<in> {''txSeconds'', ''rxSeconds''}"
  shows "duration_fits c (dget stats k)"
proof -
  obtain st where st: "read_lines (Some c) lines ([], None) = Inr st" "stats = fst st"
    using assms(1) by (auto simp: readStream_def bindE_eq_Inr_iff)
  have "durations_fit c ([], None)" by (simp add: durations_fit_def duration_fits_def)
  from read_lines_fit [OF st(1) assms(2) this] st(2) assms(3) show ?thesis by (auto simp: durations_fit_def)
qed

lemma wit_clock: "py_float_str ''12.5'' = Some (PFloat (25 / 2))" "py_float_str ''99.5'' = Some (PFloat (199 / 2))"
proof -
  have "mantissa ''12.5'' = Some (25 / 2)" "mantissa ''99.5'' = Some (199 / 2)"
    "sign_of (str_lower (str_strip ''12.5'')) = (False, ''12.5'')" "split_at (\<lambda>c. c = CHR ''e'') ''12.5'' = (''12.5'', None)"
    "sign_of (str_lower (str_strip ''99.5'')) = (False, ''99.5'')" "split_at (\<lambda>c. c = CHR ''e'') ''99.5'' = (''99.5'', None)"
    by code_simp+
  moreover have "1000 < float_limit" by (simp add: float_limit_def)
  ultimately show "py_float_str ''12.5'' = Some (PFloat (25 / 2))" "py_float_str ''99.5'' = Some (PFloat (199 / 2))"
    by (simp_all add: py_float_str_def exponent_def scale10_def float_of_def)
qed

definition wit_block :: "string list" where
  "wit_block = [''tx:'', ''time = 99.5'', ''rx:'', ''time = 12.5'']"

lemma wit_block_read: "readStream (Some 30) wit_block = Inr [(''rxSeconds'', PFloat (25 / 2))]"
proof -
  have "read_line (Some 30) ''tx:'' ([], None) = Inr ([], Some ''tx'')"
    "read_line (Some 30) ''rx:'' ([], Some ''tx'') = Inr ([], Some ''rx'')" by code_simp+
  moreover have "re_match timeRegex ''time = 99.5'' = Some ([(''1'', ''99.5'')], [])" "re_match timeRegex ''time = 12.5'' = Some ([(''1'', ''12.5'')], [])"
    by code_simp+
  moreover have "str_strip ''time = 99.5'' = ''time = 99.5''" "str_strip ''time = 12.5'' = ''time = 12.5''"
    "\<not> str_in ''not started'' ''time = 99.5''" "\<not> str_in ''not started'' ''time = 12.5''" by code_simp+
  ultimately show ?thesis
    by (simp add: readStream_def wit_block_def read_line_def [of _ "''time = 99.5''"] read_line_def [of _ "''time = 12.5''"] Let_def
        startswith_def read_time_def float_group_def text_group_def group_def wit_clock plausible_def)
qed

lemma sample_durations_fit_the_call_witness: "duration_fits 30 (PFloat (25 / 2))"
  using sample_durations_fit_the_call [OF wit_block_read, of "''rxSeconds''"] by simp

section \<open>Counters\<close>

text \<open>The first way a pattern matches.\<close>

definition reads :: "rx \<Rightarrow> caps \<Rightarrow> string \<Rightarrow> caps \<Rightarrow> string \<Rightarrow> bool" where
  "reads r cs s cs' t = (\<exists>ms. rmatch r cs s = (cs', t) # ms)"

lemma reads_Cat: "reads a cs s cs1 u \<Longrightarrow> reads b cs1 u cs' t \<Longrightarrow> reads (Cat a b) cs s cs' t"
  by (auto simp: reads_def)

lemma reads_Eps: "reads Eps cs s cs s"
  by (simp add: reads_def)

lemma reads_lit: "reads (lit p) cs (p @ t) cs t"
  by (simp add: reads_def rmatch_lit)

lemma reads_Grp: "reads r cs (p @ t) cs' t \<Longrightarrow> reads (Grp g r) cs (p @ t) (dset g p cs') t"
  by (auto simp: reads_def)

lemma rests_all: "lo \<le> n \<Longrightarrow> \<exists>ts. rests lo n s = drop n s # ts"
  by (cases n) auto

lemma reads_Rep: "\<forall>c \<in> set u. p c \<Longrightarrow> lo \<le> length u \<Longrightarrow> t = [] \<or> \<not> p (hd t) \<Longrightarrow> reads (Rep lo p) cs (u @ t) cs t"
proof -
  assume a: "\<forall>c \<in> set u. p c" "lo \<le> length u" "t = [] \<or> \<not> p (hd t)"
  then have "takeWhile p (u @ t) = u" by (cases t) simp_all
  then show ?thesis using rests_all [OF a(2), of "u @ t"] by (auto simp: reads_def)
qed

lemma reads_space: "t = [] \<or> \<not> is_space (hd t) \<Longrightarrow> lo \<le> 1 \<Longrightarrow> reads (Rep lo is_space) cs (CHR '' '' # t) cs t"
  using reads_Rep [of "'' ''" is_space lo t cs] by (simp add: is_space_def)

lemma reads_digits: "t = [] \<or> \<not> is_digit (hd t) \<Longrightarrow> reads digits cs (nat_str n @ t) cs t"
  unfolding digits_def by (rule reads_Rep) (auto dest: nat_str_digits simp: Suc_le_eq)

lemma hd_nat_str: "is_digit (hd (nat_str n))" "\<not> is_space (hd (nat_str n))"
proof -
  show d: "is_digit (hd (nat_str n))" using nat_str_digits [of "hd (nat_str n)" n] by simp
  show "\<not> is_space (hd (nat_str n))" using d by (rule digit_not_space)
qed

definition vidisp_line :: "string \<Rightarrow> nat \<Rightarrow> nat \<Rightarrow> nat \<Rightarrow> string" where
  "vidisp_line disp w h f =
     ''vidisp:'' @ CHR '' '' # disp @ CHR '' '' # nat_str w @ CHR '' '' # ''x'' @ CHR '' '' # nat_str h @ CHR '' '' # ''frames='' @ nat_str f @ []"

lemma vidisp_read:
  assumes "disp \<noteq> []" "\<forall>c \<in> set disp. \<not> is_space c"
  shows "reads vidispRegex [] (vidisp_line disp w h f) [(''1'', nat_str w), (''2'', nat_str h), (''3'', nat_str f)] []"
proof -
  have disp: "reads (Rep 1 not_space) cs (disp @ CHR '' '' # t) cs (CHR '' '' # t)" for cs t
    using assms by (intro reads_Rep) (auto simp: not_space_def is_space_def Suc_le_eq)
  have d: "reads (Grp g digits) cs (nat_str n @ t) (dset g (nat_str n) cs) t" if "t = [] \<or> \<not> is_digit (hd t)" for g cs n t
    using that by (intro reads_Grp reads_digits)
  have hd: "\<not> is_space (hd (disp @ t))" for t using assms by (cases disp) simp_all
  have "reads vidispRegex [] (vidisp_line disp w h f)
      (dset ''3'' (nat_str f) (dset ''2'' (nat_str h) (dset ''1'' (nat_str w) []))) []"
    unfolding vidispRegex_def seq_def vidisp_line_def spaces_def some_spaces_def list.simps foldr.simps comp_def id_def
    by (rule reads_Cat reads_lit reads_space disp d reads_Eps | simp add: hd hd_nat_str | simp add: is_digit_def is_space_def)+
  then show ?thesis by simp
qed

definition frame_counters :: "nat \<Rightarrow> nat \<Rightarrow> nat \<Rightarrow> pydict" where
  "frame_counters w h f = [(''rxWidth'', PInt (int w)), (''rxHeight'', PInt (int h)), (''rxFrames'', PInt (int f))]"

lemma vidisp_match:
  assumes "disp \<noteq> []" "\<forall>c \<in> set disp. \<not> is_space c"
  shows "read_ints vidispRegex [(''rxWidth'', ''1''), (''rxHeight'', ''2''), (''rxFrames'', ''3'')] (vidisp_line disp w h f) [] = frame_counters w h f"
proof -
  have "re_match vidispRegex (vidisp_line disp w h f) = Some ([(''1'', nat_str w), (''2'', nat_str h), (''3'', nat_str f)], [])"
    using vidisp_read [OF assms, of w h f] by (auto simp: reads_def re_match_def)
  then show ?thesis by (simp add: read_ints_def put_all_def int_group_def text_group_def group_def frame_counters_def)
qed

lemma vidisp_strip: "str_strip (vidisp_line disp w h f) = vidisp_line disp w h f"
proof -
  have "\<not> is_space (last (nat_str f))" using nat_str_digits [of "last (nat_str f)" f] digit_not_space by simp
  then show ?thesis unfolding str_strip_def by (intro strip_by_ends) (simp_all add: vidisp_line_def is_space_def)
qed

lemma lines_acc_clean: "\<forall>c \<in> set u. \<not> is_eol c \<Longrightarrow> lines_acc w (u @ s) = lines_acc (rev u @ w) s"
  by (induction u arbitrary: w) simp_all

lemma splitlines_join:
  assumes "\<forall>l \<in> set ls. l \<noteq> [] \<and> (\<forall>c \<in> set l. \<not> is_eol c)"
  shows "str_splitlines (str_join [CHR 0x0A] ls) = ls"
  using assms
proof (induction ls rule: induct_list012)
  case (2 l)
  then show ?case using lines_acc_clean [of l "[]" "[]"] by (simp add: str_splitlines_def)
next
  case (3 l k ls)
  then show ?case using lines_acc_clean [of l "[]" "CHR 0x0A # str_join [CHR 0x0A] (k # ls)"] by (simp add: str_splitlines_def is_eol_def)
qed (simp add: str_splitlines_def)

text \<open>What the SIP client prints of one incoming picture.\<close>

definition answer_lines :: "string \<Rightarrow> nat \<Rightarrow> nat \<Rightarrow> nat \<Rightarrow> string list" where
  "answer_lines disp w h f = [''--- main video stream ---'', ''rx: decode'', vidisp_line disp w h f]"

definition debug_answer :: "string \<Rightarrow> nat \<Rightarrow> nat \<Rightarrow> nat \<Rightarrow> string" where
  "debug_answer disp w h f = str_join [CHR 0x0A] (answer_lines disp w h f)"

lemma not_eol: "\<not> is_space c \<Longrightarrow> \<not> is_eol c"
  by (auto simp: is_space_def is_eol_def)

lemma vidisp_line_clean: "\<forall>c \<in> set disp. \<not> is_space c \<Longrightarrow> \<forall>c \<in> set (vidisp_line disp w h f). \<not> is_eol c"
  using not_eol digit_not_space nat_str_digits by (auto simp: vidisp_line_def is_eol_def)

lemma no_buffer: "\<not> prefix ''running='' t \<Longrightarrow> re_match bufferRegex t = None"
  by (simp add: re_match_def bufferRegex_def seq_def rmatch_lit_mismatch)

lemma answer_read:
  assumes "disp \<noteq> []" "\<forall>c \<in> set disp. \<not> is_space c"
  shows "stats_of cs (debug_answer disp w h f) = Inr [(''main'', PDict (frame_counters w h f))]"
proof -
  let ?v = "vidisp_line disp w h f"
  have v: "str_strip ?v = ?v" "\<not> is_header ?v" by (rule vidisp_strip) (simp add: is_header_def startswith_def vidisp_line_def)
  have fixed: "is_header (str_strip ''--- main video stream ---'')" "stream_name (str_strip ''--- main video stream ---'') = ''main''"
    "\<not> is_header (str_strip ''rx: decode'')" "str_strip ''rx: decode'' = ''rx: decode''" by code_simp+
  have clean: "\<forall>l \<in> set (answer_lines disp w h f). l \<noteq> [] \<and> (\<forall>c \<in> set l. \<not> is_eol c)"
    using vidisp_line_clean [OF assms(2), of w h f] by (simp add: answer_lines_def is_eol_def) (simp add: vidisp_line_def)
  then have "str_splitlines (debug_answer disp w h f) = answer_lines disp w h f" unfolding debug_answer_def by (rule splitlines_join)
  then have streams: "streams (debug_answer disp w h f) = [(''main'', [''rx: decode'', ?v])]"
    using fixed(1-3) v by (simp add: streams_def answer_lines_def)
  have "str_splitlines (str_join [CHR 0x0A] [''rx: decode'', ?v]) = [''rx: decode'', ?v]"
    using clean by (intro splitlines_join) (simp add: answer_lines_def)
  then have "readJitterBuffer (str_join [CHR 0x0A] [''rx: decode'', ?v]) = []"
    using fixed(4) v(1) by (simp add: readJitterBuffer_def no_buffer vidisp_line_def)
  moreover have "read_line cs ''rx: decode'' ([], None) = Inr ([], Some ''rx'')"
    using fixed(4) by (simp add: read_line_def startswith_def)
  moreover have "read_line cs ?v ([], Some ''rx'') = Inr (frame_counters w h f, Some ''rx'')"
    using vidisp_match [OF assms, of w h f] v(1) by (simp add: read_line_def Let_def startswith_def) (simp add: vidisp_line_def)
  ultimately show ?thesis using streams by (simp add: stats_of_def stream_stats_def readStream_def)
qed

section \<open>From the answer to the console\<close>

lemma media_turn_answer:
  assumes "disp \<noteq> []" "\<forall>c \<in> set disp. \<not> is_space c"
  shows "media_turn (\<lambda>_ x. (Inr (debug_answer disp w h f), x)) since u
    = (Inr (Some (py_str (PDict (media_event (round1 since) [(''main'', PDict (frame_counters w h f))])))), u)"
proof -
  have "debug_answer disp w h f \<noteq> []" by (simp add: debug_answer_def answer_lines_def)
  then show ?thesis
    using answer_read [OF assms, of "Some (round1 since)" w h f]
    by (simp add: media_turn_def videoStats_def send_def try_io_def bind_io_def Let_def)
qed

lemma media_line_appended:
  assumes "jsonable (PDict (media_event t v))"
  shows "event_line now (py_str (PDict (media_event t v))) st = ([Append ''media_sample'' (media_event t v)], st)"
proof -
  have parse: "parseEventDict (py_repr (PDict (media_event t v))) = Some (media_event t v)"
    unfolding media_event_def by (rule parse_printed_event [OF assms [unfolded media_event_def]]) (simp_all add: dmem_def)
  obtain b where b: "py_repr (PDict (media_event t v)) = CHR ''{'' # b @ [CHR ''}'']" using repr_ends by blast
  have "re_match dtmfRegex (py_repr (PDict (media_event t v))) = None"
    by (simp add: b re_match_def dtmfRegex_def seq_def opt_def rmatch_lit_mismatch)
  then show ?thesis using parse by (simp add: event_line_def py_str_def media_event_def)
qed

lemma short_round1: "\<bar>round1 x\<bar> < 10 ^ 16 \<Longrightarrow> short_float (round1 x)"
proof -
  let ?m = "round_even (10 * x)"
  have "(10 :: rat) ^ 17 * round1 x = of_int (10 ^ 16 * ?m)" by (simp add: round1_def)
  then have "of_int \<lfloor>(10 :: rat) ^ 17 * round1 x\<rfloor> = 10 ^ 17 * round1 x" by (simp only: floor_of_int)
  moreover have "?m = 0 \<or> 1 \<le> \<bar>?m\<bar>" by auto
  then have "round1 x = 0 \<or> 1 / 10000 \<le> \<bar>round1 x\<bar>" by (auto simp: round1_def simp flip: of_int_abs)
  moreover assume "\<bar>round1 x\<bar> < 10 ^ 16"
  ultimately show ?thesis by (simp add: short_float_def)
qed


lemma wit_samples: "round1 10 = (10 :: rat)" "round1 25 = (25 :: rat)" "round1 20 = (20 :: rat)"
  by code_simp+


end
