(* ===== verification/Kiosk.thy ===== *)
theory Kiosk
  imports Io_Logic Json Py_Num Baresip_Stats
begin

text \<open>
  What a gateway shows and does during a call: the browser's options, the keys its callers typed and
  what is printed, over a world of pages, files and processes. The browser driver, the files, the
  clock and the shell are arguments: functions on the world that may raise. \<open>src/ivr.py\<close>,
  \<open>src/browsing.py\<close> and \<open>src/rtcstatsTrace.py\<close> share this state.
\<close>

section \<open>The state shared\<close>

record 'w kiosk =
  ki_args :: "string list"
  ki_prefs :: pydict
  ki_inputs :: "pyval list"
  ki_out :: "string list"
  ki_world :: 'w

definition echo :: "string \<Rightarrow> (('w, 'z) kiosk_scheme, unit) io" where
  "echo line = modify_io (\<lambda>s. s\<lparr>ki_out := ki_out s @ [line]\<rparr>)"

definition outside :: "('w, 'a) io \<Rightarrow> (('w, 'z) kiosk_scheme, 'a) io" where
  "outside m s = (case m (ki_world s) of (r, w) \<Rightarrow> (r, s\<lparr>ki_world := w\<rparr>))"

definition add_argument :: "string \<Rightarrow> (('w, 'z) kiosk_scheme, unit) io" where
  "add_argument a = modify_io (\<lambda>s. s\<lparr>ki_args := ki_args s @ [a]\<rparr>)"

lemma echo_app [simp]: "echo line s = (Inr (), s\<lparr>ki_out := ki_out s @ [line]\<rparr>)"
  by (simp add: echo_def)

lemma add_argument_app [simp]: "add_argument a s = (Inr (), s\<lparr>ki_args := ki_args s @ [a]\<rparr>)"
  by (simp add: add_argument_def)

section \<open>The browser driver\<close>

text \<open>
  \<open>wd_script s xs\<close> runs the script \<open>s\<close> of the page with the arguments \<open>xs\<close>. Of the driver's exceptions
  the code tells apart a closed window and the driver's other errors.
\<close>

definition NO_WINDOW :: exn where
  "NO_WINDOW = OtherError ''NoSuchWindowException''"

definition WEB_DRIVER :: exn where
  "WEB_DRIVER = OtherError ''WebDriverException''"

record 'w web_driver =
  wd_new :: "('w, unit) io"
  wd_get :: "string \<Rightarrow> ('w, unit) io"
  wd_script :: "string \<Rightarrow> pyval list \<Rightarrow> ('w, pyval) io"
  wd_handle :: "('w, string) io"
  wd_handles :: "('w, string list) io"
  wd_switch :: "string \<Rightarrow> ('w, unit) io"
  wd_close :: "('w, unit) io"
  wd_quit :: "('w, unit) io"

record 'w disk =
  dk_read :: "string \<Rightarrow> ('w, string) io"
  dk_write :: "string \<Rightarrow> string \<Rightarrow> ('w, unit) io"
  dk_makedirs :: "string \<Rightarrow> ('w, unit) io"
  dk_list :: "string \<Rightarrow> ('w, string list) io"

text \<open>The process's environment variables, and the shell its commands go to.\<close>

type_synonym environ = "string \<Rightarrow> string option"

definition env_or :: "environ \<Rightarrow> string \<Rightarrow> string \<Rightarrow> string" where
  "env_or env k d = (case env k of None \<Rightarrow> d | Some v \<Rightarrow> v)"

definition baresip :: "(string \<Rightarrow> ('w, unit) io) \<Rightarrow> string \<Rightarrow> (('w, 'z) kiosk_scheme, unit) io" where
  "baresip sh command = outside (sh (control_command command ''127.0.0.1'' 5555))"

text \<open>A key goes to the page as a keyboard event, written into the script.\<close>

definition key_script :: "pyval \<Rightarrow> string" where
  "key_script k = ''document.dispatchEvent(new KeyboardEvent('' @ quoted ''keydown'' @ '',{'' @ quoted ''key'' @ '':'' @ quoted (py_str k) @ ''}));''"

text \<open>
  Everything around the process: the driver, the files, the shell, the environment, the clock, the
  picture of a text as a QR code, the check of an address in brackets, and the scripts of the page
  whose text plays no part. \<open>nv_dir\<close> is the directory of the sources.
\<close>

record 'w surroundings =
  nv_driver :: "'w web_driver"
  nv_disk :: "'w disk"
  nv_shell :: "string \<Rightarrow> ('w, unit) io"
  nv_env :: environ
  nv_now :: "('w, rat) io"
  nv_nap :: "('w, unit) io"
  nv_qr :: "string \<Rightarrow> exn + string"
  nv_brackets :: "string \<Rightarrow> bool"
  nv_layout :: string
  nv_dir :: string

section \<open>Texts with fields\<close>

text \<open>\<open>template.format(**d)\<close>, for fields that are plain names.\<close>

definition field_value :: "(string \<times> string) list \<Rightarrow> string \<Rightarrow> exn + string" where
  "field_value d name =
     (if \<exists>c \<in> set name. c \<in> set ''!:.[{'' then Inl (OtherError ''format of a field'')
      else if list_all is_digit name then Inl (IndexError ''Replacement index out of range for positional args tuple'')
      else case map_of d name of None \<Rightarrow> Inl (KeyError name) | Some v \<Rightarrow> Inr v)"

lemma split_at_shorter: "split_at p s = (a, Some b) \<Longrightarrow> length b < length s"
proof -
  assume "split_at p s = (a, Some b)"
  then obtain c where "drop (length (takeWhile (\<lambda>c. \<not> p c) s)) s = c # b" by (auto simp: split_at_def Let_def split: list.splits)
  then have "length (c # b) \<le> length s" by (metis length_drop diff_le_self)
  then show ?thesis by simp
qed

function str_format :: "(string \<times> string) list \<Rightarrow> string \<Rightarrow> exn + string" where
  "str_format d [] = Inr []"
| "str_format d (c # s) =
     (if c = CHR 0x7B
      then if prefix [CHR 0x7B] s then bindE (str_format d (tl s)) (\<lambda>t. Inr (CHR 0x7B # t))
           else (case split_at (\<lambda>x. x = CHR 0x7D) s of
                   (name, None) \<Rightarrow> Inl (ValueError ''expected closing brace before end of string'')
                 | (name, Some u) \<Rightarrow> bindE (field_value d name) (\<lambda>v. bindE (str_format d u) (\<lambda>t. Inr (v @ t))))
      else if c = CHR 0x7D
      then if prefix [CHR 0x7D] s then bindE (str_format d (tl s)) (\<lambda>t. Inr (CHR 0x7D # t))
           else Inl (ValueError ''Single closing brace encountered in format string'')
      else bindE (str_format d s) (\<lambda>t. Inr (c # t)))"
  by pat_completeness auto

termination
  by (relation "measure (\<lambda>(d, s). length s)") (auto dest: split_at_shorter [OF sym] simp: less_Suc_eq_le)

section \<open>Loops\<close>

text \<open>
  \<open>while True\<close> over a body that says whether to go on, for at most \<open>n\<close> turns: \<open>True\<close> when the loop is
  still running then.
\<close>

fun loop_io :: "nat \<Rightarrow> ('s, bool) io \<Rightarrow> ('s, bool) io" where
  "loop_io 0 body = ret_io True"
| "loop_io (Suc n) body = bind_io body (\<lambda>again. if again then loop_io n body else ret_io False)"

definition when_io :: "bool \<Rightarrow> ('s, unit) io \<Rightarrow> ('s, unit) io" where
  "when_io b m = (if b then m else ret_io ())"

lemma when_io_simps [simp]: "when_io True m = m" "when_io False m = ret_io ()"
  by (simp_all add: when_io_def)

end
