(* ===== verification/Urls.thy ===== *)
theory Urls
  imports Codecs
begin

text \<open>
  Addresses, as \<open>urllib.parse\<close> takes them apart and puts them together: percent encoding, the
  parameters of a query and the five parts of a URL. A text is its UTF-8 bytes. The main results are
  that decoding undoes encoding, and that the parameters of an encoded query are read back.
\<close>

section \<open>Percent encoding\<close>

definition is_alnum :: "char \<Rightarrow> bool" where
  "is_alnum c = (is_digit c \<or> is_upper c \<or> is_lower c)"

definition url_safe :: "char \<Rightarrow> bool" where
  "url_safe c = (is_alnum c \<or> c \<in> set ''_.-~'')"

definition upper_hex :: "nat \<Rightarrow> char" where
  "upper_hex d = (if d < 10 then char_of (48 + d) else char_of (55 + d))"

definition hex_digit :: "char \<Rightarrow> nat option" where
  "hex_digit c =
     (let n = of_char c in
      if 48 \<le> n \<and> n \<le> 57 then Some (n - 48)
      else if 65 \<le> n \<and> n \<le> 70 then Some (n - 55)
      else if 97 \<le> n \<and> n \<le> 102 then Some (n - 87) else None)"

definition pct :: "char \<Rightarrow> string" where
  "pct c = [CHR ''%'', upper_hex (of_char c div 16), upper_hex (of_char c mod 16)]"

definition quote_char :: "string \<Rightarrow> char \<Rightarrow> string" where
  "quote_char safe c = (if url_safe c \<or> c \<in> set safe then [c] else pct c)"

text \<open>\<open>quote(s, safe)\<close>, and \<open>quote_plus(s)\<close>.\<close>

definition quote :: "string \<Rightarrow> string \<Rightarrow> string" where
  "quote safe s = concat (map (quote_char safe) s)"

definition quote_plus :: "string \<Rightarrow> string" where
  "quote_plus s = concat (map (\<lambda>c. if c = CHR '' '' then ''+'' else quote_char [] c) s)"

text \<open>The escapes that stand for a byte; what does not is left as it is.\<close>

fun unquote_bytes :: "string \<Rightarrow> string" where
  "unquote_bytes (c # a # b # s) =
     (if c = CHR ''%''
      then (case (hex_digit a, hex_digit b) of
              (Some x, Some y) \<Rightarrow> char_of (16 * x + y) # unquote_bytes s
            | _ \<Rightarrow> c # unquote_bytes (a # b # s))
      else c # unquote_bytes (a # b # s))"
| "unquote_bytes s = s"

text \<open>\<open>decode(errors='replace')\<close>: a sequence that stops short becomes U+FFFD.\<close>

definition follow :: "nat \<Rightarrow> (nat \<times> nat) list option" where
  "follow a =
     (if a < 128 then Some []
      else if 194 \<le> a \<and> a \<le> 223 then Some [(128, 191)]
      else if 224 \<le> a \<and> a \<le> 239
      then Some [(if a = 224 then 160 else 128, if a = 237 then 159 else 191), (128, 191)]
      else if 240 \<le> a \<and> a \<le> 244
      then Some [(if a = 240 then 144 else 128, if a = 244 then 143 else 191), (128, 191), (128, 191)]
      else None)"

fun follows :: "(nat \<times> nat) list \<Rightarrow> nat list \<Rightarrow> nat" where
  "follows (r # rs) (b # s) = (if fst r \<le> b \<and> b \<le> snd r then Suc (follows rs s) else 0)"
| "follows _ _ = 0"

definition REPLACEMENT :: "nat list" where
  "REPLACEMENT = [239, 191, 189]"

function utf8_replace :: "nat list \<Rightarrow> nat list" where
  "utf8_replace [] = []"
| "utf8_replace (a # s) =
     (case follow a of
        None \<Rightarrow> REPLACEMENT @ utf8_replace s
      | Some rs \<Rightarrow> (let n = follows rs s in
          (if n = length rs then a # take n s else REPLACEMENT) @ utf8_replace (drop n s)))"
  by pat_completeness auto

termination
  by (relation "measure length") auto

definition unquote :: "string \<Rightarrow> string" where
  "unquote s = map char_of (utf8_replace (map of_char (unquote_bytes s)))"

section \<open>Queries\<close>

definition urlencode :: "(string \<times> string) list \<Rightarrow> string" where
  "urlencode ps = str_join ''&'' (map (\<lambda>(k, v). quote_plus k @ ''='' @ quote_plus v) ps)"

definition plus_to_space :: "string \<Rightarrow> string" where
  "plus_to_space s = map (\<lambda>c. if c = CHR ''+'' then CHR '' '' else c) s"

text \<open>\<open>parse_qsl(qs, keep_blank_values=True)\<close>.\<close>

definition parse_pair :: "string \<Rightarrow> string \<times> string" where
  "parse_pair nv =
     (case split1 ''='' nv of
        None \<Rightarrow> (unquote (plus_to_space nv), [])
      | Some (k, v) \<Rightarrow> (unquote (plus_to_space k), unquote (plus_to_space v)))"

definition parse_qsl :: "string \<Rightarrow> (string \<times> string) list" where
  "parse_qsl qs = map parse_pair (filter (\<lambda>nv. nv \<noteq> []) (str_split ''&'' qs))"

section \<open>Decoding undoes encoding\<close>

lemma hex_digit_upper: "n < 16 \<Longrightarrow> hex_digit (upper_hex n) = Some n"
  by (simp add: hex_digit_def upper_hex_def Let_def)

lemma unquote_pct: "unquote_bytes (pct c @ s) = c # unquote_bytes s"
proof -
  have "of_char c div 16 < (16 :: nat)" using nat_of_char_less_256 [of c] by (simp add: div_less_iff_less_mult)
  then show ?thesis by (simp add: pct_def hex_digit_upper)
qed

lemma unquote_plain: "c \<noteq> CHR ''%'' \<Longrightarrow> unquote_bytes (c # s) = c # unquote_bytes s"
  by (cases s rule: unquote_bytes.cases) auto

lemma url_safe_percent [simp]: "\<not> url_safe (CHR ''%'')"
  by (simp add: url_safe_def is_alnum_def is_digit_def is_upper_def is_lower_def)

lemma unquote_quote_char: "CHR ''%'' \<notin> set safe \<Longrightarrow> unquote_bytes (quote_char safe c @ s) = c # unquote_bytes s"
  by (auto simp: quote_char_def unquote_pct) (metis unquote_plain url_safe_percent)+

lemma unquote_bytes_quote: "CHR ''%'' \<notin> set safe \<Longrightarrow> unquote_bytes (quote safe s) = s"
  by (induction s) (simp_all add: quote_def unquote_quote_char)

lemma utf8_replace_valid: "utf8_ok s \<Longrightarrow> utf8_replace s = s"
proof (induction s rule: utf8_ok.induct)
  case (2 a s)
  consider "a < 128" | "194 \<le> a" "a \<le> 223" | "224 \<le> a" "a \<le> 239" | "240 \<le> a" "a \<le> 244"
    using "2.prems" by (auto split: if_splits)
  then show ?case
  proof cases
    case 1
    then show ?thesis using 2 by (simp add: follow_def)
  next
    case 2
    then obtain b t where "s = b # t" "cont_byte b" "utf8_ok t" using "2.prems" by (auto split: list.splits)
    then show ?thesis using 2 "2.IH" by (simp add: follow_def cont_byte_def)
  next
    case 3
    then obtain b c t where "s = b # c # t" "cont_byte b" "a = 224 \<longrightarrow> 160 \<le> b" "a = 237 \<longrightarrow> b \<le> 159" "cont_byte c" "utf8_ok t"
      using "2.prems" by (auto split: list.splits)
    then show ?thesis using 3 "2.IH" by (simp add: follow_def cont_byte_def)
  next
    case 4
    then obtain b c d t where "s = b # c # d # t" "cont_byte b" "a = 240 \<longrightarrow> 144 \<le> b" "a = 244 \<longrightarrow> b \<le> 143" "cont_byte c" "cont_byte d" "utf8_ok t"
      using "2.prems" by (auto split: list.splits)
    then show ?thesis using 4 "2.IH" by (simp add: follow_def cont_byte_def)
  qed
qed simp

theorem unquote_quote: "valid_utf8 s \<Longrightarrow> CHR ''%'' \<notin> set safe \<Longrightarrow> unquote (quote safe s) = s"
  by (simp add: unquote_def unquote_bytes_quote utf8_replace_valid valid_utf8_def comp_def)

lemma utf8_ok_Nil: "valid_utf8 []"
  by (simp add: valid_utf8_def)

lemma plain_plus: "url_safe c \<Longrightarrow> c \<noteq> CHR ''+'' \<and> c \<noteq> CHR ''='' \<and> c \<noteq> CHR ''&'' \<and> c \<noteq> CHR ''#'' \<and> c \<noteq> CHR '' ''"
  by (auto simp: url_safe_def is_alnum_def is_digit_def is_upper_def is_lower_def)

lemma upper_hex_safe: "n < 16 \<Longrightarrow> url_safe (upper_hex n)"
  by (simp add: url_safe_def is_alnum_def is_digit_def is_upper_def upper_hex_def)

text \<open>What an encoded text is made of.\<close>

definition encoded_char :: "char \<Rightarrow> bool" where
  "encoded_char c = (url_safe c \<or> c = CHR ''%'' \<or> c = CHR ''+'')"

lemma pct_chars: "c' \<in> set (pct c) \<Longrightarrow> url_safe c' \<or> c' = CHR ''%''"
proof -
  have "of_char c div 16 < (16 :: nat)" using nat_of_char_less_256 [of c] by (simp add: div_less_iff_less_mult)
  moreover assume "c' \<in> set (pct c)"
  ultimately show ?thesis by (auto simp: pct_def upper_hex_safe)
qed

lemma quote_plus_chars: "c \<in> set (quote_plus s) \<Longrightarrow> encoded_char c"
  by (auto simp: quote_plus_def quote_char_def encoded_char_def split: if_splits dest: pct_chars)

lemma encoded_not: "encoded_char c \<Longrightarrow> c \<noteq> CHR ''='' \<and> c \<noteq> CHR ''&'' \<and> c \<noteq> CHR ''#''"
  using plain_plus by (auto simp: encoded_char_def)

lemma plus_to_space_quote: "plus_to_space (quote_plus s) = quote '' '' s"
proof (induction s)
  case (Cons c s)
  have safe: "plus_to_space [c] = [c]" if "url_safe c" for c using that plain_plus by (auto simp: plus_to_space_def)
  have "c' \<noteq> CHR ''+''" if "c' \<in> set (pct c)" for c' using pct_chars [OF that] plain_plus [of c'] by auto
  then have "plus_to_space (pct c) = pct c" unfolding plus_to_space_def by (intro map_idI) auto
  with Cons safe show ?case by (auto simp: quote_plus_def quote_def quote_char_def plus_to_space_def)
qed (simp add: quote_plus_def quote_def plus_to_space_def)

lemma unquote_quote_plus: "valid_utf8 s \<Longrightarrow> unquote (plus_to_space (quote_plus s)) = s"
  unfolding plus_to_space_quote by (rule unquote_quote) simp_all

lemma parse_pair_encoded:
  assumes "valid_utf8 k" "valid_utf8 v"
  shows "parse_pair (quote_plus k @ ''='' @ quote_plus v) = (k, v)"
proof -
  have "CHR ''='' \<notin> set (quote_plus k)" using quote_plus_chars encoded_not by blast
  then show ?thesis using assms by (simp add: parse_pair_def split1_char unquote_quote_plus)
qed

lemma str_split_join:
  assumes "ls \<noteq> []" "\<forall>l \<in> set ls. c \<notin> set l"
  shows "str_split [c] (str_join [c] ls) = ls"
proof -
  have "str_join [c] (xs @ [x]) = concat (map (\<lambda>l. l @ [c]) xs) @ x" for xs x
    by (induction xs rule: induct_list012) simp_all
  then show ?thesis using assms str_split_lines [of "butlast ls" c "last ls"]
    by (metis append_butlast_last_id in_set_butlastD last_in_set)
qed

theorem parse_urlencode:
  assumes "\<forall>(k, v) \<in> set ps. valid_utf8 k \<and> valid_utf8 v"
  shows "parse_qsl (urlencode ps) = ps"
proof (cases "ps = []")
  case True
  then show ?thesis by (simp add: parse_qsl_def urlencode_def str_split_def)
next
  case False
  let ?f = "\<lambda>(k, v). quote_plus k @ ''='' @ quote_plus v"
  have "CHR ''&'' \<notin> set (?f p)" for p
    using quote_plus_chars encoded_not by (cases p) fastforce
  then have "str_split ''&'' (urlencode ps) = map ?f ps"
    using False unfolding urlencode_def by (intro str_split_join) auto
  moreover have "filter (\<lambda>nv. nv \<noteq> []) (map ?f ps) = map ?f ps"
    by (rule filter_True) auto
  moreover have "map parse_pair (map ?f ps) = ps"
    using assms parse_pair_encoded by (auto intro!: map_idI)
  ultimately show ?thesis by (simp add: parse_qsl_def)
qed

section \<open>The parts of an address\<close>

record url_parts =
  up_scheme :: string
  up_netloc :: string
  up_path :: string
  up_query :: string
  up_fragment :: string

definition scheme_char :: "char \<Rightarrow> bool" where
  "scheme_char c = (is_alnum c \<or> c \<in> set ''+-.'')"

text \<open>The blanks in front go, and the tabs and line ends wherever they are.\<close>

definition url_blank :: "char \<Rightarrow> bool" where
  "url_blank c = (c \<in> {CHR 0x09, CHR 0x0A, CHR 0x0D})"

definition clean_url :: "string \<Rightarrow> string" where
  "clean_url s = filter (\<lambda>c. \<not> url_blank c) (dropWhile (\<lambda>c. of_char c \<le> (32 :: nat)) s)"

definition split_scheme :: "string \<Rightarrow> string \<times> string" where
  "split_scheme s =
     (case split1 '':'' s of
        None \<Rightarrow> ([], s)
      | Some (a, b) \<Rightarrow> if a \<noteq> [] \<and> (is_upper (hd a) \<or> is_lower (hd a)) \<and> list_all scheme_char a then (str_lower a, b) else ([], s))"

definition netloc_end :: "char \<Rightarrow> bool" where
  "netloc_end c = (c \<in> set ''/?#'')"

definition split_netloc :: "string \<Rightarrow> string \<times> string" where
  "split_netloc s =
     (case s of
        a # b # t \<Rightarrow>
          if a = CHR ''/'' \<and> b = CHR ''/'' then (takeWhile (\<lambda>c. \<not> netloc_end c) t, dropWhile (\<lambda>c. \<not> netloc_end c) t) else ([], s)
      | _ \<Rightarrow> ([], s))"

definition split_off :: "string \<Rightarrow> string \<Rightarrow> string \<times> string" where
  "split_off d s = (case split1 d s of None \<Rightarrow> (s, []) | Some (a, b) \<Rightarrow> (a, b))"

text \<open>\<open>urlsplit(url)\<close>; \<open>brackets\<close> is its check of an address in brackets.\<close>

definition urlsplit :: "(string \<Rightarrow> bool) \<Rightarrow> string \<Rightarrow> exn + url_parts" where
  "urlsplit brackets url =
     (let (scheme, s) = split_scheme (clean_url url); (netloc, s) = split_netloc s;
          opening = CHR 0x5B \<in> set netloc; closing = CHR 0x5D \<in> set netloc in
      if opening \<noteq> closing then Inl (ValueError ''Invalid IPv6 URL'')
      else if opening \<and> \<not> brackets netloc then Inl (ValueError ''Invalid netloc'')
      else let (s, fragment) = split_off ''#'' s; (path, query) = split_off ''?'' s in
        Inr \<lparr>up_scheme = scheme, up_netloc = netloc, up_path = path, up_query = query, up_fragment = fragment\<rparr>)"

definition USES_NETLOC :: "string list" where
  "USES_NETLOC =
     [[], ''ftp'', ''http'', ''gopher'', ''nntp'', ''telnet'', ''imap'', ''wais'', ''file'', ''mms'', ''https'', ''shttp'', ''snews'',
      ''prospero'', ''rtsp'', ''rtsps'', ''rtspu'', ''rsync'', ''svn'', ''svn+ssh'', ''sftp'', ''nfs'', ''git'', ''git+ssh'', ''ws'', ''wss'']"

definition urlunsplit :: "url_parts \<Rightarrow> string" where
  "urlunsplit p =
     (let url = up_path p;
          url = (if up_netloc p \<noteq> [] \<or> (up_scheme p \<noteq> [] \<and> up_scheme p \<in> set USES_NETLOC \<and> take 2 url \<noteq> ''//'')
                 then ''//'' @ up_netloc p @ (if url \<noteq> [] \<and> hd url \<noteq> CHR ''/'' then ''/'' @ url else url) else url);
          url = (if up_scheme p = [] then url else up_scheme p @ '':'' @ url);
          url = (if up_query p = [] then url else url @ ''?'' @ up_query p) in
      if up_fragment p = [] then url else url @ ''#'' @ up_fragment p)"

section \<open>Taking apart what was put together\<close>

text \<open>The parts that \<open>urlsplit\<close> gives of an address with a scheme and a host.\<close>

definition url_ok :: "(string \<Rightarrow> bool) \<Rightarrow> url_parts \<Rightarrow> bool" where
  "url_ok brackets p =
     (up_scheme p \<noteq> [] \<and> is_lower (hd (up_scheme p)) \<and> list_all scheme_char (up_scheme p) \<and> str_lower (up_scheme p) = up_scheme p
      \<and> up_netloc p \<noteq> [] \<and> list_all (\<lambda>c. \<not> netloc_end c) (up_netloc p)
      \<and> (CHR 0x5B \<in> set (up_netloc p) \<longleftrightarrow> CHR 0x5D \<in> set (up_netloc p)) \<and> (CHR 0x5B \<in> set (up_netloc p) \<longrightarrow> brackets (up_netloc p))
      \<and> (up_path p \<noteq> [] \<longrightarrow> hd (up_path p) = CHR ''/'') \<and> CHR ''?'' \<notin> set (up_path p) \<and> CHR ''#'' \<notin> set (up_path p)
      \<and> CHR ''#'' \<notin> set (up_query p)
      \<and> list_all (\<lambda>c. \<not> url_blank c) (up_netloc p @ up_path p @ up_query p @ up_fragment p))"

definition with_mark :: "char \<Rightarrow> string \<Rightarrow> string" where
  "with_mark c s = (if s = [] then [] else c # s)"

definition tail_text :: "url_parts \<Rightarrow> string" where
  "tail_text p = up_path p @ with_mark (CHR ''?'') (up_query p) @ with_mark (CHR ''#'') (up_fragment p)"

lemma set_with_mark: "set (with_mark c s) \<subseteq> insert c (set s)"
  by (simp add: with_mark_def subset_insertI)

lemma split_off_mark: "c \<notin> set a \<Longrightarrow> split_off [c] (a @ with_mark c b) = (a, b)"
  by (simp add: split_off_def with_mark_def split1_char split1_None)

lemma scheme_clean: "scheme_char c \<Longrightarrow> c \<noteq> CHR '':'' \<and> \<not> url_blank c"
  by (auto simp: scheme_char_def is_alnum_def is_digit_def is_upper_def is_lower_def url_blank_def)

lemma urlunsplit_text:
  assumes "url_ok B p"
  shows "urlunsplit p = up_scheme p @ CHR '':'' # CHR ''/'' # CHR ''/'' # up_netloc p @ tail_text p"
  using assms by (cases "up_path p") (simp_all add: url_ok_def urlunsplit_def tail_text_def with_mark_def Let_def)

lemma tail_text_hd:
  assumes "url_ok B p"
  shows "tail_text p = [] \<or> netloc_end (hd (tail_text p))"
  using assms by (cases "up_path p") (simp_all add: tail_text_def with_mark_def netloc_end_def url_ok_def)

lemma split_netloc_text:
  assumes "url_ok B p"
  shows "split_netloc (CHR ''/'' # CHR ''/'' # up_netloc p @ tail_text p) = (up_netloc p, tail_text p)"
proof -
  let ?P = "\<lambda>c. \<not> netloc_end c"
  have n: "\<And>c. c \<in> set (up_netloc p) \<Longrightarrow> ?P c" using assms by (simp add: url_ok_def list_all_iff)
  have t: "takeWhile ?P (tail_text p) = []" "dropWhile ?P (tail_text p) = tail_text p"
    using tail_text_hd [OF assms] by (cases "tail_text p"; simp)+
  have "takeWhile ?P (up_netloc p @ tail_text p) = up_netloc p" using takeWhile_append2 [of "up_netloc p" ?P] n t(1) by simp
  moreover have "dropWhile ?P (up_netloc p @ tail_text p) = tail_text p" using dropWhile_append2 [of "up_netloc p" ?P] n t(2) by simp
  ultimately show ?thesis by (simp add: split_netloc_def)
qed

lemma split_tail:
  assumes "url_ok B p"
  shows "split_off ''#'' (tail_text p) = (up_path p @ with_mark (CHR ''?'') (up_query p), up_fragment p)"
    and "split_off ''?'' (up_path p @ with_mark (CHR ''?'') (up_query p)) = (up_path p, up_query p)"
proof -
  have "CHR ''#'' \<notin> set (up_path p @ with_mark (CHR ''?'') (up_query p))"
    using assms set_with_mark [of "CHR ''?''" "up_query p"] by (auto simp: url_ok_def)
  from split_off_mark [OF this, of "up_fragment p"]
  show "split_off ''#'' (tail_text p) = (up_path p @ with_mark (CHR ''?'') (up_query p), up_fragment p)"
    by (simp add: tail_text_def)
  show "split_off ''?'' (up_path p @ with_mark (CHR ''?'') (up_query p)) = (up_path p, up_query p)"
    using assms by (intro split_off_mark) (simp add: url_ok_def)
qed

lemma clean_url_text:
  assumes "url_ok B p"
  shows "clean_url (urlunsplit p) = urlunsplit p"
proof -
  obtain a s where s: "up_scheme p = a # s" "is_lower a" using assms by (cases "up_scheme p") (simp_all add: url_ok_def)
  then have "dropWhile (\<lambda>c. of_char c \<le> (32 :: nat)) (urlunsplit p) = urlunsplit p"
    by (simp add: urlunsplit_text [OF assms] is_lower_def)
  moreover have "\<not> url_blank c" if c: "c \<in> set (urlunsplit p)" for c
  proof -
    have "c \<in> set (up_scheme p) \<or> c \<in> {CHR '':'', CHR ''/'', CHR ''?'', CHR ''#''} \<or> c \<in> set (up_netloc p @ up_path p @ up_query p @ up_fragment p)"
      using c set_with_mark [of "CHR ''?''" "up_query p"] set_with_mark [of "CHR ''#''" "up_fragment p"]
      unfolding urlunsplit_text [OF assms] tail_text_def by auto
    moreover have "\<not> url_blank c" if "c \<in> {CHR '':'', CHR ''/'', CHR ''?'', CHR ''#''}" using that by (auto simp: url_blank_def)
    ultimately show ?thesis using assms scheme_clean unfolding url_ok_def list_all_iff by blast
  qed
  then have "filter (\<lambda>c. \<not> url_blank c) (urlunsplit p) = urlunsplit p" by (simp add: filter_id_conv)
  ultimately show ?thesis by (simp only: clean_url_def)
qed

lemma split_scheme_text:
  assumes "url_ok B p"
  shows "split_scheme (urlunsplit p) = (up_scheme p, CHR ''/'' # CHR ''/'' # up_netloc p @ tail_text p)"
proof -
  have "CHR '':'' \<notin> set (up_scheme p)" using assms scheme_clean unfolding url_ok_def list_all_iff by blast
  then have "split1 '':'' (urlunsplit p) = Some (up_scheme p, CHR ''/'' # CHR ''/'' # up_netloc p @ tail_text p)"
    using split1_char [of "CHR '':''" "up_scheme p" "CHR ''/'' # CHR ''/'' # up_netloc p @ tail_text p"] by (simp add: urlunsplit_text [OF assms])
  then show ?thesis using assms by (simp add: split_scheme_def url_ok_def)
qed

theorem urlsplit_urlunsplit:
  assumes "url_ok B p"
  shows "urlsplit B (urlunsplit p) = Inr p"
proof -
  have "CHR 0x5B \<in> set (up_netloc p) \<longleftrightarrow> CHR 0x5D \<in> set (up_netloc p)" "CHR 0x5B \<in> set (up_netloc p) \<longrightarrow> B (up_netloc p)"
    using assms by (simp_all add: url_ok_def)
  then show ?thesis
    by (simp add: urlsplit_def clean_url_text [OF assms] split_scheme_text [OF assms] split_netloc_text [OF assms] split_tail [OF assms] Let_def)
qed

lemma split1_pieces: "split1 [c] s = Some (a, b) \<Longrightarrow> s = a @ c # b \<and> c \<notin> set a"
proof -
  assume s: "split1 [c] s = Some (a, b)"
  then have "c \<in> set s" by (metis option.distinct(1) split1_None)
  then obtain u v where u: "s = u @ c # v" "c \<notin> set u" by (meson split_list_first)
  with s show ?thesis by (simp add: split1_char)
qed

lemma split_off_pieces:
  assumes "split_off [c] s = (a, b)"
  shows "c \<notin> set a" "set a \<subseteq> set s" "set b \<subseteq> set s" "prefix a s"
proof -
  have "(c \<notin> set s \<and> a = s \<and> b = []) \<or> (s = a @ c # b \<and> c \<notin> set a)"
  proof (cases "split1 [c] s")
    case None
    then have "c \<notin> set s" by (metis option.distinct(1) split1_char split_list_first)
    then show ?thesis using None assms by (simp add: split_off_def)
  next
    case (Some p)
    then show ?thesis using assms split1_pieces [of c s] by (cases p) (simp add: split_off_def)
  qed
  then show "c \<notin> set a" "set a \<subseteq> set s" "set b \<subseteq> set s" "prefix a s" by auto
qed

lemma lower_scheme_char: "scheme_char c \<Longrightarrow> scheme_char (char_lower c)"
  by (auto simp: scheme_char_def is_alnum_def char_lower_def is_upper_def is_lower_def)

lemma char_lower_idem [simp]: "char_lower (char_lower c) = char_lower c"
  by (simp add: char_lower_def is_upper_def)

lemma split_scheme_pieces:
  assumes "split_scheme s = (sch, t)" "sch \<noteq> []"
  shows "is_lower (hd sch) \<and> list_all scheme_char sch \<and> str_lower sch = sch \<and> set t \<subseteq> set s"
proof -
  obtain a where a: "split1 '':'' s = Some (a, t)" "a \<noteq> []" "is_upper (hd a) \<or> is_lower (hd a)" "list_all scheme_char a" "sch = str_lower a"
    using assms by (auto simp: split_scheme_def split: option.splits if_splits prod.splits)
  have "is_lower (char_lower c)" if "is_upper c \<or> is_lower c" for c
    using that by (auto simp: char_lower_def is_upper_def is_lower_def)
  moreover have "list_all scheme_char sch" using a(4) lower_scheme_char by (auto simp: a(5) str_lower_def list_all_iff)
  moreover have "str_lower sch = sch" by (simp add: a(5) str_lower_def)
  moreover have "set t \<subseteq> set s" using split1_pieces [OF a(1)] by auto
  ultimately show ?thesis using a(2,3,5) by (cases a) (simp_all add: str_lower_def)
qed

lemma split_netloc_pieces:
  assumes "split_netloc s = (n, t)"
  shows "list_all (\<lambda>c. \<not> netloc_end c) n" "set n \<subseteq> set s" "set t \<subseteq> set s" "n \<noteq> [] \<Longrightarrow> t = [] \<or> netloc_end (hd t)"
proof -
  have cases: "(n = [] \<and> t = s) \<or> (\<exists>u. s = CHR ''/'' # CHR ''/'' # u \<and> n = takeWhile (\<lambda>c. \<not> netloc_end c) u \<and> t = dropWhile (\<lambda>c. \<not> netloc_end c) u)"
    using assms by (auto simp: split_netloc_def split: list.splits if_splits)
  then show "list_all (\<lambda>c. \<not> netloc_end c) n" "set n \<subseteq> set s" "set t \<subseteq> set s"
    by (auto simp: list_all_iff dest: set_takeWhileD set_dropWhileD)
  assume "n \<noteq> []"
  with cases obtain u where "t = dropWhile (\<lambda>c. \<not> netloc_end c) u" by auto
  moreover have "dropWhile (\<lambda>c. \<not> netloc_end c) u = [] \<or> netloc_end (hd (dropWhile (\<lambda>c. \<not> netloc_end c) u))"
    by (induction u) simp_all
  ultimately show "t = [] \<or> netloc_end (hd t)" by simp
qed

theorem urlsplit_url_ok:
  assumes "urlsplit B u = Inr p" "up_scheme p \<noteq> []" "up_netloc p \<noteq> []"
  shows "url_ok B p"
proof -
  obtain sch s where a: "split_scheme (clean_url u) = (sch, s)" by fastforce
  obtain n t where b: "split_netloc s = (n, t)" by fastforce
  obtain r fr where c: "split_off ''#'' t = (r, fr)" by fastforce
  obtain pa q where d: "split_off ''?'' r = (pa, q)" by fastforce
  have p: "p = \<lparr>up_scheme = sch, up_netloc = n, up_path = pa, up_query = q, up_fragment = fr\<rparr>"
    and br: "CHR 0x5B \<in> set n \<longleftrightarrow> CHR 0x5D \<in> set n" "CHR 0x5B \<in> set n \<longrightarrow> B n"
    using assms(1) by (auto simp: urlsplit_def Let_def a b c d split: if_splits)
  have ne: "sch \<noteq> []" "n \<noteq> []" using assms(2,3) by (simp_all add: p)
  note sch = split_scheme_pieces [OF a ne(1)] and n = split_netloc_pieces [OF b] and fr = split_off_pieces [OF c] and q = split_off_pieces [OF d]
  have hash: "CHR ''#'' \<notin> set pa" "CHR ''#'' \<notin> set q" using fr(1) q(2,3) by blast+
  have path: "pa = [] \<or> hd pa = CHR ''/''"
  proof (cases pa)
    case (Cons x xs)
    have "prefix pa t" using q(4) fr(4) by (rule prefix_order.trans)
    then obtain z where z: "t = x # xs @ z" using Cons by (auto elim: prefixE)
    then have "netloc_end x" using n(4) ne(2) by simp
    moreover have "x \<noteq> CHR ''?''" "x \<noteq> CHR ''#''" using q(1) hash(1) Cons by auto
    ultimately show ?thesis using Cons by (simp add: netloc_end_def)
  qed simp
  have "\<forall>c \<in> set (clean_url u). \<not> url_blank c" by (simp add: clean_url_def)
  then have "\<forall>c \<in> set (n @ pa @ q @ fr). \<not> url_blank c" using sch n(2,3) fr(2,3) q(2,3) by (auto simp: subset_iff)
  then show ?thesis using ne sch n(1) br path q(1) hash by (auto simp: url_ok_def p list_all_iff)
qed

end
