(* ===== verification/Ivr.thy ===== *)
theory Ivr
  imports Kiosk Urls
begin

text \<open>
  The voice and touch menu of a gateway (\<open>src/ivr.py\<close>): the address of its page, the browser's
  language, the pairing code it shows, the dialogue that chooses a platform and a room, and the call
  from its start to its end. The meeting itself is an argument of \<open>ivr_run\<close>; it is modelled in \<open>Meeting\<close>.
\<close>

record 'w ivr = "'w kiosk" +
  iv_url :: string
  iv_browsing_id :: string
  iv_mixed :: string
  iv_browsing :: string
  iv_room :: string
  iv_name :: string
  iv_driver :: bool
  iv_config :: pydict

section \<open>A new menu\<close>

definition audio_arguments :: "environ \<Rightarrow> string list" where
  "audio_arguments env =
     (if env ''AUDIO_ONLY'' = Some ''true'' then [''--headless=new'', ''--use-fake-ui-for-media-stream''] else [])"

definition chrome_arguments :: "environ \<Rightarrow> int \<Rightarrow> int \<Rightarrow> string list" where
  "chrome_arguments env width height =
     audio_arguments env @
     [''--no-sandbox'', ''--disable-web-security'', ''--disable-site-isolation-trials'', ''--auto-select-desktop-capture-source=Screen 2'',
      ''--screen-capture-audio-default-unchecked'', ''--enable-usermedia-screen-capturing'', ''--disable-gpu'', ''--start-fullscreen'', ''--kiosk'',
      ''--window-size='' @ int_str width @ '','' @ int_str height, ''--window-position=0,0'', ''--hide-scrollbars'', ''--disable-notifications'',
      ''--autoplay-policy=no-user-gesture-required'']"

definition media_prefs :: pydict where
  "media_prefs =
     [(''profile.default_content_setting_values.media_stream_mic'', PInt 1), (''profile.default_content_setting_values.media_stream_camera'', PInt 1)]"

definition policy_text :: string where
  "policy_text = ''{ '' @ [CHR 0x22] @ ''CommandLineFlagSecurityWarningsEnabled'' @ [CHR 0x22] @ '': false }''"

definition write_policy :: "'w surroundings \<Rightarrow> ('w, unit) io" where
  "write_policy E =
     try_io
       (bind_io (dk_makedirs (nv_disk E) ''/etc/opt/chrome/policies/managed'') (\<lambda>_.
        dk_write (nv_disk E) ''/etc/opt/chrome/policies/managed/managed_policies.json'' policy_text))
       (\<lambda>e. ret_io ())"

definition new_ivr :: "'w surroundings \<Rightarrow> int \<Rightarrow> int \<Rightarrow> string \<Rightarrow> string \<Rightarrow> string \<Rightarrow> 'w \<Rightarrow> 'w ivr" where
  "new_ivr E width height roomName name browsingName w =
     \<lparr>ki_args = chrome_arguments (nv_env E) width height, ki_prefs = media_prefs, ki_inputs = [], ki_out = [], ki_world = snd (write_policy E w),
      iv_url = [], iv_browsing_id = [], iv_mixed = [], iv_browsing = browsingName, iv_room = roomName, iv_name = name, iv_driver = False,
      iv_config = []\<rparr>"

section \<open>The address of the menu\<close>

definition locale_map :: "(string \<times> string) list" where
  "locale_map = [(''fr'', ''fr-FR''), (''en'', ''en-US''), (''es'', ''es-ES''), (''de'', ''de-DE''), (''it'', ''it-IT'')]"

definition browser_locale :: "string \<Rightarrow> string" where
  "browser_locale l =
     (case map_of locale_map l of
        Some v \<Rightarrow> v
      | None \<Rightarrow> if str_in ''-'' l then l else l @ ''-'' @ str_upper l)"

definition applyBrowserLanguage :: "pyval \<Rightarrow> (('w, 'z) kiosk_scheme, unit) io" where
  "applyBrowserLanguage lang =
     bind_io (lift_io (as_str (py_or lang (PStr ''en'')))) (\<lambda>l.
       let normalized = str_lower (str_strip l); loc = browser_locale normalized in
       bind_io (add_argument (''--lang='' @ loc)) (\<lambda>_.
       modify_io (\<lambda>s. s\<lparr>ki_prefs := dset ''intl.accept_languages'' (PStr (loc @ '','' @ normalized)) (ki_prefs s)\<rparr>)))"

definition with_param :: "string \<Rightarrow> string \<Rightarrow> string \<Rightarrow> string" where
  "with_param k v url = (if v = [] then url else url @ ''&'' @ k @ ''='' @ v)"

definition menu_page :: "string \<Rightarrow> string" where
  "menu_page dir = ''file://'' @ dir @ ''/../browsing/assets/IVR/index.html''"

definition menu_url :: "string \<Rightarrow> ('w, 'z) ivr_scheme \<Rightarrow> string" where
  "menu_url dir s =
     with_param ''mixedId'' (quote ''/'' (iv_mixed s)) (with_param ''domainKey'' (iv_browsing s)
       (with_param ''domainId'' (iv_browsing_id s) (with_param ''roomId'' (iv_room s)
         (menu_page dir @ ''?'' @ ''displayName='' @ iv_name s))))"

definition load_config :: "'w surroundings \<Rightarrow> ('w, pydict) io" where
  "load_config E =
     bind_io (dk_read (nv_disk E) (nv_dir E @ ''/../browsing/assets/config.json'')) (\<lambda>t.
       case json_loads t of
         None \<Rightarrow> raise_io (ValueError ''Expecting value'')
       | Some (PDict d) \<Rightarrow> ret_io d
       | Some _ \<Rightarrow> raise_io (AttributeError ''get''))"

definition setUrl :: "'w surroundings \<Rightarrow> (('w, 'z) ivr_scheme, unit) io" where
  "setUrl E =
     bind_io (outside (load_config E)) (\<lambda>config.
     bind_io (modify_io (\<lambda>s. s\<lparr>iv_config := config\<rparr>)) (\<lambda>_.
     bind_io (applyBrowserLanguage (dget_def_val config ''lang'' (PStr ''en''))) (\<lambda>_.
     bind_io (modify_io (\<lambda>s. s\<lparr>iv_url := menu_url (nv_dir E) s\<rparr>)) (\<lambda>_.
     bind_io (read_io iv_url) (\<lambda>url. echo (''Web browsing URL: '' @ url))))))"

text \<open>An exception is printed by its traceback, which is left out.\<close>

definition launchBrowser :: "'w surroundings \<Rightarrow> string \<Rightarrow> (('w, 'z) ivr_scheme, unit) io" where
  "launchBrowser E url =
     try_io
       (bind_io (setUrl E) (\<lambda>_.
        bind_io (read_io iv_url) (\<lambda>own.
        if own = [] \<and> url = [] then ret_io ()
        else bind_io (read_io iv_driver) (\<lambda>up.
             bind_io (when_io (\<not> up) (bind_io (outside (wd_new (nv_driver E))) (\<lambda>_. modify_io (\<lambda>s. s\<lparr>iv_driver := True\<rparr>)))) (\<lambda>_.
             outside (wd_get (nv_driver E) (str_or url own)))))))
       (\<lambda>e. ret_io ())"

section \<open>The pairing code\<close>

fun pairing_line :: "string list \<Rightarrow> string" where
  "pairing_line [] = []"
| "pairing_line (l # ls) =
     (case str_strip l of line \<Rightarrow>
        if startswith line ''PAIRING_CODE=''
        then strip_by (\<lambda>c. c \<in> {CHR 0x22, CHR 0x27}) (str_strip (drop (length ''PAIRING_CODE='') line))
        else pairing_line ls)"

definition pairing_code :: "string \<Rightarrow> string" where
  "pairing_code text = pairing_line (file_lines text)"

text \<open>The script is \<open>None\<close> where the driver is not there.\<close>

type_synonym ('w, 'z) scripts = "string \<Rightarrow> pyval list \<Rightarrow> (('w, 'z) kiosk_scheme, pyval) io"

definition qr_url :: "environ \<Rightarrow> string \<Rightarrow> exn + string option" where
  "qr_url env code =
     (case (env ''GW_PROXY'', env ''QR_CODE_URL'') of
        (Some proxy, Some template) \<Rightarrow>
          if proxy = [] \<or> template = [] \<or> code = [] then Inr None
          else bindE (str_format [(''reverse_proxy'', str_or (env_or env ''GW_REVERSE_PROXY'' []) proxy), (''code'', code)] template)
                 (\<lambda>u. Inr (Some u))
      | _ \<Rightarrow> Inr None)"

definition pairing_info :: "(string \<Rightarrow> exn + string) \<Rightarrow> string option \<Rightarrow> string \<Rightarrow> pyval" where
  "pairing_info qr url code =
     (case url of
        None \<Rightarrow> PDict [(''pairingCode'', PStr [])]
      | Some u \<Rightarrow> PDict [(''pairingCode'', PStr code), (''qrCodeB64'', PStr (case qr u of Inl _ \<Rightarrow> [] | Inr b \<Rightarrow> b)),
                        (''pairingUrl'', PStr (fst (split_off ''?'' u)))])"

definition show_pairing :: "'w surroundings \<Rightarrow> ('w, 'z) scripts \<Rightarrow> string option \<Rightarrow> string \<Rightarrow> (('w, 'z) kiosk_scheme, unit) io" where
  "show_pairing E run_js url code =
     bind_io (run_js ''window.pairingInfo = arguments[0];'' [pairing_info (nv_qr E) url code]) (\<lambda>_.
     bind_io (run_js ''window.updateQrCode();'' []) (\<lambda>_.
     case url of
       None \<Rightarrow> raise_io (UnboundLocalError ''qrCodeUrl'')
     | Some u \<Rightarrow>
         bind_io (echo (''IVR: QR Code URL: '' @ u)) (\<lambda>_.
         echo (''IVR: Pairing Code: '' @ code @ '', Pairing URL: '' @ fst (split_off ''?'' u)))))"

definition same_code :: "pyval \<Rightarrow> string \<Rightarrow> exn + bool" where
  "same_code shown code = (if truthy shown then bindE (py_get shown ''pairingCode'') (\<lambda>v. Inr (v = PStr code)) else Inr False)"

definition readPairingCode :: "'w surroundings \<Rightarrow> ('w, 'z) scripts \<Rightarrow> (('w, 'z) kiosk_scheme, unit) io" where
  "readPairingCode E run_js =
     try_io
       (bind_io (outside (dk_read (nv_disk E) ''/etc/environment'')) (\<lambda>text.
        let code = pairing_code text in
        bind_io (run_js ''return window.pairingInfo;'' []) (\<lambda>shown.
        bind_io (lift_io (same_code shown code)) (\<lambda>same.
        if same then ret_io ()
        else bind_io (lift_io (qr_url (nv_env E) code)) (\<lambda>url.
             try_io (show_pairing E run_js url code) (\<lambda>e. ret_io ()))))))
       (\<lambda>e. ret_io ())"

section \<open>The dialogue\<close>

definition ivr_script :: "'w surroundings \<Rightarrow> string \<Rightarrow> pyval list \<Rightarrow> (('w, 'z) ivr_scheme, pyval) io" where
  "ivr_script E js xs =
     bind_io (read_io iv_driver) (\<lambda>up.
       if up then outside (wd_script (nv_driver E) js xs) else raise_io (AttributeError ''execute_script''))"

text \<open>A key typed by the caller, if there is one.\<close>

definition next_input :: "(('w, 'z) kiosk_scheme, pyval option) io" where
  "next_input s = (case ki_inputs s of [] \<Rightarrow> (Inr None, s) | k # ks \<Rightarrow> (Inr (Some k), s\<lparr>ki_inputs := ks\<rparr>))"

definition ivr_interact :: "'w surroundings \<Rightarrow> (('w, 'z) ivr_scheme, unit) io" where
  "ivr_interact E =
     bind_io next_input (\<lambda>k. case k of
        None \<Rightarrow> ret_io ()
      | Some key \<Rightarrow> bind_io (ivr_script E (key_script key) []) (\<lambda>_. ret_io ()))"

text \<open>What \<open>prompt\<close> returns: \<open>{}\<close>, or the platform and the room.\<close>

datatype asked = NoAnswer | Answer pyval pyval | StillAsking

text \<open>\<open>IVR_TIMEOUT\<close>, in seconds; zero and none are no limit.\<close>

definition timed_out :: "int option \<Rightarrow> rat \<Rightarrow> rat \<Rightarrow> bool" where
  "timed_out limit start now = (case limit of None \<Rightarrow> False | Some n \<Rightarrow> n \<noteq> 0 \<and> start + of_int n < now)"

definition ask :: "'w surroundings \<Rightarrow> pyval \<Rightarrow> (('w, 'z) ivr_scheme, pyval + asked) io" where
  "ask E name =
     (if \<not> truthy name
      then bind_io (ivr_script E ''return window.browsing'' []) (\<lambda>v.
           bind_io (when_io (truthy v) (echo (''IVR: browsing: '' @ py_str v))) (\<lambda>_. ret_io (Inl v)))
      else bind_io (ivr_script E ''return window.room'' []) (\<lambda>room.
           if truthy room
           then bind_io (lift_io (py_index room ''roomName'')) (\<lambda>r.
                bind_io (echo (''IVR: room: '' @ py_str r)) (\<lambda>_. ret_io (Inr (Answer name room))))
           else ret_io (Inl name)))"

definition prompt_turn :: "'w surroundings \<Rightarrow> int option \<Rightarrow> rat \<Rightarrow> pyval \<Rightarrow> (('w, 'z) ivr_scheme, pyval + asked) io" where
  "prompt_turn E limit start name =
     bind_io (outside (nv_now E)) (\<lambda>now.
       if timed_out limit start now then bind_io (echo ''IVR Timeout'') (\<lambda>_. ret_io (Inr NoAnswer))
       else try_io
         (bind_io (ask E name) (\<lambda>r. case r of
            Inr a \<Rightarrow> ret_io (Inr a)
          | Inl name' \<Rightarrow>
              bind_io (ivr_interact E) (\<lambda>_.
              bind_io (readPairingCode E (ivr_script E)) (\<lambda>_. ret_io (Inl name')))))
         (\<lambda>e. bind_io (echo (''IVR error: '' @ exn_str e)) (\<lambda>_. ret_io (Inr NoAnswer))))"

fun prompt_loop :: "nat \<Rightarrow> 'w surroundings \<Rightarrow> int option \<Rightarrow> rat \<Rightarrow> pyval \<Rightarrow> (('w, 'z) ivr_scheme, asked) io" where
  "prompt_loop 0 E limit start name = ret_io StillAsking"
| "prompt_loop (Suc n) E limit start name =
     bind_io (prompt_turn E limit start name) (\<lambda>r. case r of
        Inl name' \<Rightarrow> prompt_loop n E limit start name'
      | Inr a \<Rightarrow> ret_io a)"

definition prompt :: "nat \<Rightarrow> 'w surroundings \<Rightarrow> int option \<Rightarrow> (('w, 'z) ivr_scheme, asked) io" where
  "prompt n E limit =
     bind_io (outside (nv_now E)) (\<lambda>start.
     bind_io (outside (dk_read (nv_disk E) (nv_dir E @ ''/../browsing/assets/IVR/menu.js''))) (\<lambda>js.
     bind_io (ivr_script E js []) (\<lambda>_.
     bind_io (readPairingCode E (ivr_script E)) (\<lambda>_. prompt_loop n E limit start (PStr [])))))"

section \<open>A call\<close>

text \<open>
  \<open>attend room\<close> is the meeting. \<open>True\<close> is the answer when the loops of the call still run after \<open>n\<close>
  turns, at the dialogue or, as \<open>attend\<close> says, in the meeting.
\<close>

definition ivr_driver :: "'w surroundings \<Rightarrow> ('w web_driver \<Rightarrow> ('w, unit) io) \<Rightarrow> (('w, 'z) ivr_scheme, unit) io" where
  "ivr_driver E op =
     bind_io (read_io iv_driver) (\<lambda>up. if up then outside (op (nv_driver E)) else raise_io (AttributeError ''driver''))"

definition room_name :: "pyval \<Rightarrow> exn + string" where
  "room_name room =
     (if \<not> truthy room then Inr []
      else bindE (py_in ''roomName'' room) (\<lambda>b. if b then bindE (py_index room ''roomName'') (\<lambda>v. Inr (py_str v)) else Inr []))"

definition ivr_chosen :: "'w surroundings \<Rightarrow> (pyval \<Rightarrow> (('w, 'z) ivr_scheme, bool) io) \<Rightarrow> pyval \<Rightarrow> pyval \<Rightarrow> (('w, 'z) ivr_scheme, bool) io" where
  "ivr_chosen E attend name room =
     bind_io (lift_io (room_name room)) (\<lambda>rn.
     bind_io (modify_io (\<lambda>s. s\<lparr>iv_room := rn\<rparr>)) (\<lambda>_.
     bind_io (lift_io (as_str name)) (\<lambda>b.
     bind_io (modify_io (\<lambda>s. s\<lparr>iv_browsing := filter (\<lambda>c. c \<noteq> CHR '' '') (str_lower b)\<rparr>)) (\<lambda>_.
     bind_io (ivr_driver E wd_close) (\<lambda>_.
     bind_io (ivr_driver E wd_quit) (\<lambda>_. attend room))))))"

definition ivr_run ::
  "nat \<Rightarrow> 'w surroundings \<Rightarrow> int option \<Rightarrow> (pyval \<Rightarrow> (('w, 'z) ivr_scheme, bool) io) \<Rightarrow> (('w, 'z) ivr_scheme, bool) io" where
  "ivr_run n E limit attend =
     bind_io (launchBrowser E []) (\<lambda>_.
     try_io
       (bind_io (prompt n E limit) (\<lambda>a. case a of
          NoAnswer \<Rightarrow> raise_io (ValueError ''not enough values to unpack (expected 2, got 0)'')
        | Answer name room \<Rightarrow> ivr_chosen E attend name room
        | StillAsking \<Rightarrow> ret_io True))
       (\<lambda>e. bind_io (echo (''IVR error: '' @ exn_str e)) (\<lambda>_. ret_io False)))"

text \<open>\<open>browse\<close>, of \<open>src/event_handler.py\<close>: when the call is over on this side, the SIP client hangs up.\<close>

definition browse ::
  "nat \<Rightarrow> 'w surroundings \<Rightarrow> int option \<Rightarrow> (pyval \<Rightarrow> (('w, 'z) ivr_scheme, bool) io) \<Rightarrow> (('w, 'z) ivr_scheme, bool) io" where
  "browse n E limit attend =
     bind_io (ivr_run n E limit attend) (\<lambda>running.
       if running then ret_io True else bind_io (baresip (nv_shell E) ''/hangup'') (\<lambda>_. ret_io False))"

text \<open>\<open>endBrowse\<close>: \<open>stop\<close> is that of the meeting, when there is one.\<close>

definition endBrowse :: "'w surroundings \<Rightarrow> (('w, 'z) ivr_scheme, unit) io option \<Rightarrow> (('w, 'z) ivr_scheme, unit) io" where
  "endBrowse E stop =
     bind_io (case stop of
        Some m \<Rightarrow> m
      | None \<Rightarrow>
          bind_io (read_io iv_driver) (\<lambda>up.
            when_io up (try_io (outside (wd_quit (nv_driver E))) (\<lambda>e. echo (''endBrowse: driver.quit() failed: '' @ exn_str e))))) (\<lambda>_.
     outside (nv_shell E ''xdotool key ctrl+W''))"

end
