(* ===== verification/Rtcstats.thy ===== *)
theory Rtcstats
  imports Kiosk Urls
begin

text \<open>
  The trace of a meeting's WebRTC statistics (\<open>src/rtcstatsTrace.py\<close>): the address the trace is sent to,
  with the gateway, the room and the platform as parameters, the extension that makes the browser send
  it, and its end.
\<close>

section \<open>The address\<close>

definition serverUrl :: "(string \<Rightarrow> bool) \<Rightarrow> environ \<Rightarrow> (('w, 'z) kiosk_scheme, string option) io" where
  "serverUrl brackets env =
     (if env ''RTCSTATS_ENABLED'' \<noteq> Some ''true'' then ret_io None
      else let url = str_strip (env_or env ''RTCSTATS_SERVER_URL'' []) in
        if url = []
        then bind_io (echo ''rtcstats: RTCSTATS_ENABLED is true but RTCSTATS_SERVER_URL is empty, tracing off'') (\<lambda>_. ret_io None)
        else bind_io (lift_io (urlsplit brackets url)) (\<lambda>p.
             if up_scheme p \<notin> {''ws'', ''wss''}
             then bind_io (echo ''rtcstats: RTCSTATS_SERVER_URL must start with ws:// or wss://, tracing off'') (\<lambda>_. ret_io None)
             else ret_io (Some url)))"

definition trace_labels :: "string \<Rightarrow> string \<Rightarrow> string \<Rightarrow> (string \<times> string) list" where
  "trace_labels gwName roomName browsing =
     filter (\<lambda>(k, v). v \<noteq> []) [(''gw'', gwName), (''room'', roomName), (''browsing'', browsing)]"

definition traceUrl :: "(string \<Rightarrow> bool) \<Rightarrow> string \<Rightarrow> string \<Rightarrow> string \<Rightarrow> string \<Rightarrow> exn + string" where
  "traceUrl brackets url gwName roomName browsing =
     bindE (urlsplit brackets url) (\<lambda>parts.
       Inr (urlunsplit (parts\<lparr>up_query := urlencode (parse_qsl (up_query parts) @ trace_labels gwName roomName browsing)\<rparr>)))"

definition withoutQuery :: "(string \<Rightarrow> bool) \<Rightarrow> string \<Rightarrow> exn + string" where
  "withoutQuery brackets url =
     bindE (urlsplit brackets url) (\<lambda>parts. Inr (urlunsplit (parts\<lparr>up_query := [], up_fragment := []\<rparr>)))"

section \<open>The extension\<close>

definition buildScript :: "string \<Rightarrow> string \<Rightarrow> string \<Rightarrow> string" where
  "buildScript url bundle bootstrap =
     ''window.__sipmediagwRtcstats = '' @ json_dumps (PDict [(''url'', PStr url), (''getStatsInterval'', PInt 1000)]) @ '';''
      @ [CHR 0x0A] @ bundle @ [CHR 0x0A] @ bootstrap"

definition trace_manifest :: pyval where
  "trace_manifest =
     PDict [(''manifest_version'', PInt 3), (''name'', PStr ''SIPMediaGW rtcstats''), (''version'', PStr ''1.0''),
       (''content_scripts'', PList [PDict
          [(''matches'', PList [PStr ''<all_urls>'']), (''js'', PList [PStr ''rtcstats.js'']), (''run_at'', PStr ''document_start''),
           (''all_frames'', PBool True), (''match_about_blank'', PBool True), (''world'', PStr ''MAIN'')]])]"

definition load_arg :: "string \<Rightarrow> string" where
  "load_arg dir = ''--load-extension='' @ dir"

definition is_os_error :: "exn \<Rightarrow> bool" where
  "is_os_error e = (case e of OSError _ \<Rightarrow> True | _ \<Rightarrow> False)"

definition write_extension ::
  "'w disk \<Rightarrow> (string \<Rightarrow> bool) \<Rightarrow> string \<Rightarrow> string \<Rightarrow> string \<Rightarrow> string \<Rightarrow> string \<Rightarrow> string \<Rightarrow> ('w, unit) io" where
  "write_extension dk brackets assets dir url gwName roomName browsing =
     bind_io (dk_read dk (assets @ ''/rtcstats.bundle.js'')) (\<lambda>bundle.
     bind_io (dk_read dk (assets @ ''/bootstrap.js'')) (\<lambda>bootstrap.
     bind_io (dk_makedirs dk dir) (\<lambda>_.
     bind_io (dk_write dk (dir @ ''/manifest.json'') (json_dumps trace_manifest)) (\<lambda>_.
     bind_io (lift_io (traceUrl brackets url gwName roomName browsing)) (\<lambda>t.
     dk_write dk (dir @ ''/rtcstats.js'') (buildScript t bundle bootstrap))))))"

definition prepare ::
  "'w disk \<Rightarrow> (string \<Rightarrow> bool) \<Rightarrow> environ \<Rightarrow> string \<Rightarrow> string \<Rightarrow> string \<Rightarrow> string \<Rightarrow> string \<Rightarrow> (('w, 'z) kiosk_scheme, bool) io" where
  "prepare dk brackets env assets dir gwName roomName browsing =
     bind_io (modify_io (\<lambda>s. s\<lparr>ki_args := remove1 (load_arg dir) (ki_args s)\<rparr>)) (\<lambda>_.
     bind_io (serverUrl brackets env) (\<lambda>u. case u of
        None \<Rightarrow> ret_io False
      | Some url \<Rightarrow>
          bind_io (try_io (bind_io (outside (write_extension dk brackets assets dir url gwName roomName browsing)) (\<lambda>_. ret_io True))
             (\<lambda>e. if is_os_error e
                  then bind_io (echo (''rtcstats: cannot set up the trace, tracing off: '' @ exn_str e)) (\<lambda>_. ret_io False) else raise_io e)) (\<lambda>written.
          if \<not> written then ret_io False
          else bind_io (add_argument (load_arg dir)) (\<lambda>_.
               bind_io (lift_io (withoutQuery brackets url)) (\<lambda>shown.
               bind_io (echo (''rtcstats: tracing to '' @ shown)) (\<lambda>_. ret_io True))))))"

section \<open>The end of the trace\<close>

definition close_script :: string where
  "close_script = ''if (window.__sipmediagwRtcstatsCloseAll) { window.__sipmediagwRtcstatsCloseAll(); return true; } return false;''"

text \<open>Tab after tab; the first component of the state is the local \<open>closed\<close>.\<close>

fun close_tabs :: "'w web_driver \<Rightarrow> string list \<Rightarrow> (pyval \<times> 'w, unit) io" where
  "close_tabs wd [] = ret_io ()"
| "close_tabs wd (h # hs) =
     bind_io (on_right (wd_switch wd h)) (\<lambda>_.
     bind_io (on_right (wd_script wd close_script [])) (\<lambda>v.
     bind_io (modify_io (\<lambda>(closed, w). (py_or v closed, w))) (\<lambda>_. close_tabs wd hs)))"

definition close_all :: "'w web_driver \<Rightarrow> (pyval \<times> 'w, unit) io" where
  "close_all wd =
     bind_io (on_right (wd_handle wd)) (\<lambda>current.
     bind_io (on_right (wd_handles wd)) (\<lambda>hs.
     bind_io (close_tabs wd hs) (\<lambda>_. on_right (wd_switch wd current))))"

definition close :: "'w web_driver \<Rightarrow> ('w, unit) io \<Rightarrow> (('w, 'z) kiosk_scheme, unit) io" where
  "close wd nap s =
     (let (r, closed, w) = close_all wd (PBool False, ki_world s); s' = s\<lparr>ki_world := w\<rparr> in
      bind_io (case r of Inl e \<Rightarrow> echo (''rtcstats: could not close the trace: '' @ exn_str e) | Inr _ \<Rightarrow> ret_io ()) (\<lambda>_.
      when_io (truthy closed) (bind_io (outside nap) (\<lambda>_. echo ''rtcstats: trace closed''))) s')"

end
