(* ===== verification/Meeting.thy ===== *)
theory Meeting
  imports Ivr Rtcstats
begin

text \<open>
  The meeting a gateway joins (\<open>src/browsing.py\<close>): the page's start, the turns of its loop (the slides
  streamed to the SIP side, the layout, the caller's keys, the pairing code), the two monitors and the
  end. What a platform's own class overrides (\<open>browsing/*.py\<close>) is an argument.
\<close>

text \<open>\<open>self.driver\<close>: \<open>None\<close>, the driver, or the empty list of \<open>stop\<close>.\<close>

datatype driver = Unset | Remote | Emptied

record 'w meeting = "'w kiosk" +
  br_room :: pyval
  br_name :: string
  br_mod :: string
  br_config :: pydict
  br_driver :: driver
  br_shared :: bool
  br_streamed :: bool
  br_rtcstats :: bool

text \<open>The methods of \<open>Browsing\<close> that a platform may override.\<close>

record 'w platform =
  pf_load :: "('w meeting, unit) io"
  pf_join :: "('w meeting, unit) io"
  pf_dual :: "('w meeting, unit) io"
  pf_unset :: "('w meeting, unit) io"

section \<open>The driver\<close>

definition on_driver :: "'w surroundings \<Rightarrow> ('w web_driver \<Rightarrow> ('w, 'a) io) \<Rightarrow> ('w meeting, 'a) io" where
  "on_driver E op =
     bind_io (read_io br_driver) (\<lambda>d.
       if d = Remote then outside (op (nv_driver E)) else raise_io (AttributeError ''driver''))"

definition meeting_script :: "'w surroundings \<Rightarrow> string \<Rightarrow> pyval list \<Rightarrow> ('w meeting, pyval) io" where
  "meeting_script E js xs = on_driver E (\<lambda>wd. wd_script wd js xs)"

definition read_file :: "'w surroundings \<Rightarrow> string \<Rightarrow> ('w meeting, string) io" where
  "read_file E path = outside (dk_read (nv_disk E) path)"

definition loadJS :: "'w surroundings \<Rightarrow> string \<Rightarrow> ('w meeting, unit) io" where
  "loadJS E path =
     bind_io (meeting_script E (''window.cssPath = '' @ quoted (''file://'' @ nv_dir E @ ''/../browsing/assets/IVR/style.css'') @ '';'') []) (\<lambda>_.
     bind_io (read_file E path) (\<lambda>js.
     bind_io (meeting_script E js []) (\<lambda>_. ret_io ())))"

section \<open>Joining\<close>

definition config_item :: "pyval \<Rightarrow> string \<Rightarrow> exn + pyval" where
  "config_item room k = bindE (py_index room ''config'') (\<lambda>c. py_index c k)"

definition dual_by_default :: "environ \<Rightarrow> bool" where
  "dual_by_default env = (env ''DUAL_SCREEN_LAYOUT'' = Some ''true'' \<and> env ''DUAL_SCREEN_BY_DEFAULT'' = Some ''true'')"

text \<open>The fields go between quotes as they are.\<close>

definition init_script :: "environ \<Rightarrow> pyval \<Rightarrow> exn + string" where
  "init_script env room =
     bindE (config_item room ''webrtc_domain'') (\<lambda>domain.
     bindE (py_index room ''roomName'') (\<lambda>name.
     bindE (py_index room ''displayName'') (\<lambda>shown.
     bindE (config_item room ''lang'') (\<lambda>lang.
     bindE (config_item room ''ivr_prompts'') (\<lambda>prompts.
     bindE (py_index room ''roomToken'') (\<lambda>token.
       Inr (''window.meeting = new window.Browsing('' @ str_join '', '' (map quoted
         [py_str domain, py_str name, py_str shown, py_str lang, json_dumps prompts, py_str token,
          (case env ''AUDIO_ONLY'' of None \<Rightarrow> ''None'' | Some v \<Rightarrow> v), py_str (PBool (dual_by_default env))]) @ '')''))))))) "

definition base_join :: "'w surroundings \<Rightarrow> string \<Rightarrow> ('w meeting, unit) io" where
  "base_join E script =
     bind_io (read_io br_mod) (\<lambda>m.
     bind_io (loadJS E (nv_dir E @ ''/../browsing/assets/uihelper.js'')) (\<lambda>_.
     bind_io (loadJS E (nv_dir E @ ''/../browsing/assets/slidestreamer.js'')) (\<lambda>_.
     bind_io (loadJS E (nv_dir E @ ''/../browsing/assets/'' @ m @ ''.js'')) (\<lambda>_.
     bind_io (meeting_script E script []) (\<lambda>_.
     bind_io (meeting_script E ''window.meeting.join();'' []) (\<lambda>_. ret_io ()))))))"

section \<open>The pictures of the menu\<close>

definition data_url :: "string \<Rightarrow> string" where
  "data_url bytes = ''data:image/png;base64,'' @ b64encode bytes"

text \<open>\<open>os.path.splitext(name)[0]\<close> of a name that ends in \<open>.png\<close>.\<close>

definition png_root :: "string \<Rightarrow> string" where
  "png_root name = (if list_all (\<lambda>c. c = CHR ''.'') (take (length name - 4) name) then name else take (length name - 4) name)"

fun load_icons :: "'w surroundings \<Rightarrow> string \<Rightarrow> string list \<Rightarrow> pydict \<Rightarrow> ('w meeting, pydict) io" where
  "load_icons E dir [] icons = ret_io icons"
| "load_icons E dir (f # fs) icons =
     (if \<not> endswith (str_lower f) ''.png'' then load_icons E dir fs icons
      else bind_io (read_file E (dir @ ''/'' @ f)) (\<lambda>b. load_icons E dir fs (dset (png_root f) (PStr (data_url b)) icons)))"

definition loadImages :: "'w surroundings \<Rightarrow> string \<Rightarrow> string \<Rightarrow> ('w meeting, string \<times> string \<times> pydict) io" where
  "loadImages E path lang =
     bind_io (read_file E (path @ ''icon.png'')) (\<lambda>icon.
     bind_io (read_file E (path @ ''dtmf_'' @ lang @ ''.png'')) (\<lambda>dtmf.
     bind_io (outside (dk_list (nv_disk E) (path @ ''IVR/images/menu-icons''))) (\<lambda>fs.
     bind_io (load_icons E (path @ ''IVR/images/menu-icons'') fs []) (\<lambda>icons.
     ret_io (data_url icon, data_url dtmf, icons)))))"

text \<open>The lines of the script are joined with their indentation.\<close>

definition menu_lines :: "string list \<Rightarrow> string" where
  "menu_lines ls = str_join (replicate 27 (CHR '' '')) ls"

definition menu_script :: "string \<Rightarrow> pyval \<Rightarrow> string \<times> string \<times> pydict \<Rightarrow> exn + string" where
  "menu_script m room pics =
     (case pics of (icon, dtmf, icons) \<Rightarrow>
        bindE (config_item room ''menus'') (\<lambda>menus.
        bindE (py_index menus m) (\<lambda>menu.
        bindE (config_item room ''lang'') (\<lambda>lang.
          Inr (menu_lines
            [''menu=new Menu('' @ json_dumps menu @ '', '' @ json_dumps lang @ '');'',
             ''menu.img['' @ quoted ''icon'' @ ''] = '' @ quoted icon @ '';'',
             ''menu.img['' @ quoted ''dtmf'' @ ''] = '' @ quoted dtmf @ '';'',
             ''menu.img['' @ quoted ''icons'' @ ''] = '' @ json_dumps (PDict icons) @ '';'',
             ''menu.show();''])))))"

section \<open>A turn of the meeting\<close>

definition slide_script :: string where
  "slide_script = ''if(meeting.slideStreamer){return meeting.slideStreamer.currentVideo !== null;}else{return false;}''"

text \<open>\<open>v == True\<close>.\<close>

definition py_bool_eq :: "bool \<Rightarrow> pyval \<Rightarrow> bool" where
  "py_bool_eq b v =
     (case v of PBool c \<Rightarrow> c = b | PInt i \<Rightarrow> i = of_bool b | PFloat r \<Rightarrow> r = of_bool b | _ \<Rightarrow> False)"

definition slide_res :: "environ \<Rightarrow> string" where
  "slide_res env = env_or env ''VID_SIZE_SLIDE'' ''1280x720''"

definition slide_source :: "environ \<Rightarrow> string" where
  "slide_source env = ''/slidesrc avformat,http://0.0.0.0:8080,'' @ slide_res env @ '',5,1000000''"

definition set_streamed :: "bool \<Rightarrow> ('w meeting, unit) io" where
  "set_streamed b = modify_io (\<lambda>s. s\<lparr>br_streamed := b\<rparr>)"

definition set_driver :: "driver \<Rightarrow> ('w meeting, unit) io" where
  "set_driver d = modify_io (\<lambda>s. s\<lparr>br_driver := d\<rparr>)"

text \<open>The floor is asked for or given back, as the page streams slides and the SIP side shares none.\<close>

definition move_floor :: "'w surroundings \<Rightarrow> pyval \<Rightarrow> ('w meeting, unit) io" where
  "move_floor E v =
     bind_io (read_io (\<lambda>s. (br_streamed s, br_shared s))) (\<lambda>(streamed, shared).
       if py_bool_eq True v \<and> \<not> streamed \<and> \<not> shared
       then bind_io (baresip (nv_shell E) (slide_source (nv_env E))) (\<lambda>_.
            bind_io (baresip (nv_shell E) ''/floorreq'') (\<lambda>_. set_streamed True))
       else if (py_bool_eq False v \<or> shared) \<and> streamed
       then bind_io (baresip (nv_shell E) ''/floorrel'') (\<lambda>_.
            bind_io (baresip (nv_shell E) ''/slidesrc fakevideo,nil,2x2,1,1000'') (\<lambda>_. set_streamed False))
       else ret_io ())"

definition checkStreamedSlide :: "'w surroundings \<Rightarrow> ('w meeting, unit) io" where
  "checkStreamedSlide E =
     bind_io (read_io br_driver) (\<lambda>d.
       if d \<noteq> Remote then ret_io ()
       else bind_io (\<lambda>s. case meeting_script E slide_script [] s of (r, s') \<Rightarrow> (Inr r, s')) (\<lambda>r. case r of
              Inr v \<Rightarrow> move_floor E v
            | Inl e \<Rightarrow>
                if e = NO_WINDOW then bind_io (echo ''Chromium window closed'') (\<lambda>_. set_driver Unset)
                else if e = WEB_DRIVER then echo (''Error checking streamed slide status: '' @ exn_str e)
                else raise_io e))"

definition manageLayout :: "'w surroundings \<Rightarrow> 'w platform \<Rightarrow> ('w meeting, unit) io" where
  "manageLayout E pf =
     (if nv_env E ''DUAL_SCREEN_LAYOUT'' = Some ''true''
      then bind_io (meeting_script E (nv_layout E) [PStr (slide_res (nv_env E))]) (\<lambda>_. pf_dual pf)
      else ret_io ())"

definition share_key :: "pyval \<Rightarrow> ('w meeting, unit) io" where
  "share_key k =
     modify_io (\<lambda>s. s\<lparr>br_shared := (if k = PStr ''s'' then True else if k = PStr ''q'' then False else br_shared s)\<rparr>)"

definition meeting_interact :: "'w surroundings \<Rightarrow> ('w meeting, unit) io" where
  "meeting_interact E =
     bind_io next_input (\<lambda>k. case k of
        None \<Rightarrow> ret_io ()
      | Some key \<Rightarrow> bind_io (share_key key) (\<lambda>_. bind_io (meeting_script E (key_script key) []) (\<lambda>_. ret_io ())))"

definition meeting_turn :: "'w surroundings \<Rightarrow> 'w platform \<Rightarrow> ('w meeting, bool) io" where
  "meeting_turn E pf =
     bind_io (read_io br_room) (\<lambda>room.
       if \<not> truthy room then ret_io False
       else bind_io (checkStreamedSlide E) (\<lambda>_.
            bind_io (manageLayout E pf) (\<lambda>_.
            bind_io (meeting_interact E) (\<lambda>_.
            bind_io (readPairingCode E (meeting_script E)) (\<lambda>_. ret_io True)))))"

definition waiting_turn :: "'w surroundings \<Rightarrow> ('w meeting, bool) io" where
  "waiting_turn E =
     bind_io (meeting_script E ''return window.meeting.joined'' []) (\<lambda>joined.
       if truthy joined then ret_io False else bind_io (meeting_interact E) (\<lambda>_. ret_io True))"

section \<open>The whole meeting\<close>

text \<open>\<open>watch\<close> starts the monitors.\<close>

definition show_menu :: "'w surroundings \<Rightarrow> ('w meeting, unit) io" where
  "show_menu E =
     bind_io (read_io (\<lambda>s. (br_mod s, br_room s, br_config s))) (\<lambda>(m, room, config).
     bind_io (lift_io (dindex config ''lang'')) (\<lambda>lang.
     bind_io (loadImages E (nv_dir E @ ''/../browsing/assets/'') (py_str lang)) (\<lambda>pics.
     bind_io (lift_io (menu_script m room pics)) (\<lambda>js.
     bind_io (loadJS E (nv_dir E @ ''/../browsing/assets/IVR/menu.js'')) (\<lambda>_.
     bind_io (meeting_script E js []) (\<lambda>_. readPairingCode E (meeting_script E)))))))"

definition meeting_start :: "'w surroundings \<Rightarrow> 'w platform \<Rightarrow> ('w meeting, unit) io" where
  "meeting_start E pf =
     bind_io (read_io (\<lambda>s. (br_room s, br_mod s))) (\<lambda>(room, m).
     bind_io (lift_io (py_get_def_val room ''roomName'' (PStr []))) (\<lambda>rn.
     bind_io (prepare (nv_disk E) (nv_brackets E) (nv_env E) (nv_dir E @ ''/../browsing/assets/rtcstats'') ''/tmp/sipmediagw-rtcstats''
                (env_or (nv_env E) ''GW_NAME'' []) (py_str rn) m) (\<lambda>on.
     bind_io (modify_io (\<lambda>s. s\<lparr>br_rtcstats := on\<rparr>)) (\<lambda>_.
     bind_io (outside (wd_new (nv_driver E))) (\<lambda>_.
     bind_io (set_driver Remote) (\<lambda>_.
     bind_io (pf_load pf) (\<lambda>_. pf_join pf)))))))"

definition meeting_run :: "nat \<Rightarrow> 'w surroundings \<Rightarrow> 'w platform \<Rightarrow> ('w meeting, unit) io \<Rightarrow> ('w meeting, bool) io" where
  "meeting_run n E pf watch =
     try_io
       (bind_io (meeting_start E pf) (\<lambda>_.
        bind_io (loop_io n (waiting_turn E)) (\<lambda>waiting.
        if waiting then ret_io True
        else bind_io watch (\<lambda>_.
             bind_io (show_menu E) (\<lambda>_. loop_io n (meeting_turn E pf))))))
       (\<lambda>e. bind_io (echo (''Error while browsing: '' @ exn_str e)) (\<lambda>_. ret_io False))"

definition meeting_stop :: "'w surroundings \<Rightarrow> 'w platform \<Rightarrow> ('w meeting, unit) io" where
  "meeting_stop E pf =
     try_io
       (bind_io (modify_io (\<lambda>s. s\<lparr>br_room := PDict [], br_name := []\<rparr>)) (\<lambda>_.
        bind_io (read_io br_driver) (\<lambda>d.
        if d \<noteq> Remote then ret_io ()
        else bind_io (try_io (bind_io (meeting_script E ''return window.meeting'' []) (\<lambda>v. when_io (truthy v) (pf_unset pf))) (\<lambda>e. ret_io ())) (\<lambda>_.
             bind_io (read_io br_rtcstats) (\<lambda>on.
             bind_io (when_io on (bind_io (close (nv_driver E) (nv_nap E)) (\<lambda>_. modify_io (\<lambda>s. s\<lparr>br_rtcstats := False\<rparr>)))) (\<lambda>_.
             bind_io (on_driver E wd_close) (\<lambda>_.
             bind_io (on_driver E wd_quit) (\<lambda>_.
             bind_io (set_driver Emptied) (\<lambda>_. echo ''Browsing stopped''))))))))) 
       (\<lambda>e. ret_io ())"

section \<open>The monitors\<close>

text \<open>
  What a turn of \<open>monitorSingleParticipant\<close> learns: the page no longer counts, or the instant and the
  count, \<open>None\<close> when the count failed.
\<close>

datatype reading = NotCounted | Counted rat pyval

definition at_most_one :: "pyval \<Rightarrow> exn + bool" where
  "at_most_one v =
     (if \<not> truthy v then Inr False
      else case v of
        PBool b \<Rightarrow> Inr True
      | PInt i \<Rightarrow> Inr (i \<le> 1)
      | PFloat r \<Rightarrow> Inr (r \<le> 1)
      | PInf neg \<Rightarrow> Inr neg
      | PNaN \<Rightarrow> Inr False
      | _ \<Rightarrow> Inl (TypeError ''not supported between instances''))"

text \<open>Since when the gateway has been alone, and whether it is now time to leave.\<close>

definition single_turn :: "rat \<Rightarrow> rat \<Rightarrow> pyval \<Rightarrow> rat option \<Rightarrow> exn + (rat option \<times> bool)" where
  "single_turn threshold now v start =
     bindE (at_most_one v) (\<lambda>alone.
       Inr (if \<not> alone then (None, False)
            else case start of None \<Rightarrow> (Some now, False) | Some t \<Rightarrow> (start, threshold \<le> now - t)))"

text \<open>The number of the reading at which \<open>/quit\<close> is sent, if one is.\<close>

fun single_loop :: "rat \<Rightarrow> rat option \<Rightarrow> reading list \<Rightarrow> nat option" where
  "single_loop threshold start [] = None"
| "single_loop threshold start (NotCounted # rs) = None"
| "single_loop threshold start (Counted now v # rs) =
     (case single_turn threshold now v start of
        Inl e \<Rightarrow> None
      | Inr (start', leave) \<Rightarrow> if leave then Some 0 else map_option Suc (single_loop threshold start' rs))"

text \<open>\<open>monitorLeftMeeting\<close>: the page says whether the gateway was put out, \<open>None\<close> when it cannot.\<close>

fun left_loop :: "(exn + pyval) list \<Rightarrow> nat option" where
  "left_loop [] = None"
| "left_loop (Inl e # rs) = None"
| "left_loop (Inr v # rs) = (if v = PNone then None else if truthy v then Some 0 else map_option Suc (left_loop rs))"

section \<open>From the menu to the meeting\<close>

definition in_meeting :: "'w meeting \<Rightarrow> ('w meeting, 'a) io \<Rightarrow> ('w ivr, 'a) io" where
  "in_meeting fresh m s =
     (case m (fresh\<lparr>ki_args := ki_args s, ki_prefs := ki_prefs s, ki_inputs := ki_inputs s, ki_out := ki_out s, ki_world := ki_world s\<rparr>) of
        (r, t) \<Rightarrow> (r, s\<lparr>ki_args := ki_args t, ki_prefs := ki_prefs t, ki_inputs := ki_inputs t, ki_out := ki_out t, ki_world := ki_world t\<rparr>))"

definition new_meeting :: "pyval \<Rightarrow> 'w ivr \<Rightarrow> 'w meeting" where
  "new_meeting room s =
     \<lparr>ki_args = [], ki_prefs = [], ki_inputs = [], ki_out = [], ki_world = ki_world s, br_room = py_or room (PDict []), br_name = iv_name s,
      br_mod = iv_browsing s, br_config = iv_config s, br_driver = Unset, br_shared = False, br_streamed = False, br_rtcstats = False\<rparr>"

text \<open>\<open>platforms\<close> finds the class of a module's name, made with the script that starts the page.\<close>

definition attend ::
  "nat \<Rightarrow> 'w surroundings \<Rightarrow> (string \<Rightarrow> (string \<Rightarrow> 'w platform) option) \<Rightarrow> ('w meeting, unit) io \<Rightarrow> pyval \<Rightarrow> ('w ivr, bool) io" where
  "attend n E platforms watch room =
     bind_io (read_io iv_browsing) (\<lambda>m.
     bind_io (echo (''Browsing mod name: '' @ m)) (\<lambda>_. case platforms m of
        None \<Rightarrow> raise_io (OtherError ''ImportError'')
      | Some build \<Rightarrow>
          bind_io (modify_io (\<lambda>s. s\<lparr>ki_args := ki_args s @ audio_arguments (nv_env E)\<rparr>)) (\<lambda>_.
          bind_io (lift_io (init_script (nv_env E) (py_or room (PDict [])))) (\<lambda>script.
          bind_io (read_io (new_meeting room)) (\<lambda>fresh.
          in_meeting fresh (meeting_run n E (build script) watch))))))"

end
