(* ===== verification/Meeting_Props.thy ===== *)
theory Meeting_Props
  imports Meeting Sip_Calls_Props
begin

text \<open>
  The properties of a call in the gateway's browser: the floor the gateway holds on the SIP side, the
  monitor of a lone participant, the end of every call, and the room on its way to the menu's page.
\<close>

section \<open>Computations that leave a part of the state alone\<close>

text \<open>What the driver, the files and the clock do to the world keeps the log of the commands.\<close>

definition keeps :: "('w \<Rightarrow> 'a) \<Rightarrow> ('w, 'x) io \<Rightarrow> bool" where
  "keeps f m = (\<forall>w. f (snd (m w)) = f w)"

interpretation kept: world_order "\<lambda>w w'. f w' = f w" for f
  by unfold_locales simp_all

lemma keeps_steps: "keeps f m = steps (\<lambda>w w'. f w' = f w) m"
  by (simp add: keeps_def steps_def)

lemma keeps_try: "keeps f m \<Longrightarrow> (\<And>e. keeps f (h e)) \<Longrightarrow> keeps f (try_io m h)"
  unfolding keeps_def try_io_def by (auto split: prod.split sum.split) (metis snd_conv)+

lemmas keeps_rules = kept.steps_rules [folded keeps_steps] kept.steps_modify [folded keeps_steps] keeps_try

lemma keeps_when: "keeps f m \<Longrightarrow> keeps f (when_io b m)"
  by (cases b) (simp_all add: keeps_rules)

lemma keeps_outside: "keeps g m \<Longrightarrow> (\<And>s w. f (s\<lparr>ki_world := w\<rparr>) = F s (g w)) \<Longrightarrow> (\<And>s. f s = F s (g (ki_world s))) \<Longrightarrow> keeps f (outside m)"
  unfolding keeps_def outside_def by (auto split: prod.split) (metis snd_conv)

text \<open>The driver, the files and the clock of some surroundings never touch the log; the shell adds to it.\<close>

definition logged :: "('w \<Rightarrow> string list) \<Rightarrow> 'w surroundings \<Rightarrow> bool" where
  "logged lg E =
     ((\<forall>c w. fst (nv_shell E c w) = Inr () \<and> lg (snd (nv_shell E c w)) = lg w @ [c])
      \<and> (\<forall>js xs. keeps lg (wd_script (nv_driver E) js xs)) \<and> (\<forall>u. keeps lg (wd_get (nv_driver E) u))
      \<and> keeps lg (wd_new (nv_driver E)) \<and> keeps lg (wd_close (nv_driver E)) \<and> keeps lg (wd_quit (nv_driver E))
      \<and> keeps lg (wd_handle (nv_driver E)) \<and> keeps lg (wd_handles (nv_driver E)) \<and> (\<forall>h. keeps lg (wd_switch (nv_driver E) h))
      \<and> (\<forall>p. keeps lg (dk_read (nv_disk E) p)) \<and> (\<forall>p t. keeps lg (dk_write (nv_disk E) p t))
      \<and> (\<forall>p. keeps lg (dk_makedirs (nv_disk E) p)) \<and> (\<forall>p. keeps lg (dk_list (nv_disk E) p))
      \<and> keeps lg (nv_now E) \<and> keeps lg (nv_nap E))"

section \<open>The floor\<close>

text \<open>
  Whether the floor is held after some commands; \<open>None\<close> when it was asked for while held, or given back
  while not.
\<close>

definition floor_req :: string where
  "floor_req = control_command ''/floorreq'' ''127.0.0.1'' 5555"

definition floor_rel :: string where
  "floor_rel = control_command ''/floorrel'' ''127.0.0.1'' 5555"

definition floor_step :: "bool option \<Rightarrow> string \<Rightarrow> bool option" where
  "floor_step h c =
     (if c = floor_req then (if h = Some False then Some True else None)
      else if c = floor_rel then (if h = Some True then Some False else None) else h)"

definition floor_held :: "string list \<Rightarrow> bool option" where
  "floor_held cs = foldl floor_step (Some False) cs"

lemma floor_held_append: "floor_held (cs @ [c]) = floor_step (floor_held cs) c"
  by (simp add: floor_held_def)

lemma floor_commands: "floor_rel \<noteq> floor_req"
  "control_command (slide_source env) ''127.0.0.1'' 5555 \<notin> {floor_req, floor_rel}"
  "control_command ''/slidesrc fakevideo,nil,2x2,1,1000'' ''127.0.0.1'' 5555 \<notin> {floor_req, floor_rel}"
  by (simp_all add: floor_req_def floor_rel_def control_command_def slide_source_def)

text \<open>The part of a meeting the floor is about.\<close>

definition part :: "('w \<Rightarrow> string list) \<Rightarrow> 'w meeting \<Rightarrow> string list \<times> bool" where
  "part lg s = (lg (ki_world s), br_streamed s)"

definition tame :: "('w \<Rightarrow> string list) \<Rightarrow> 'w platform \<Rightarrow> bool" where
  "tame lg pf = (keeps (part lg) (pf_load pf) \<and> keeps (part lg) (pf_join pf) \<and> keeps (part lg) (pf_dual pf) \<and> keeps (part lg) (pf_unset pf))"

lemma part_outside: "keeps lg m \<Longrightarrow> keeps (part lg) (outside m)"
  by (auto simp: keeps_def part_def outside_def split: prod.split) (metis snd_conv)

lemma part_modify: "(\<And>s. part lg (f s) = part lg s) \<Longrightarrow> keeps (part lg) (modify_io f)"
  by (simp add: keeps_def)

lemma part_echo: "keeps (part lg) (echo l)"
  by (simp add: keeps_def part_def)

lemma part_argument: "keeps (part lg) (add_argument a)"
  by (simp add: keeps_def part_def)

lemma part_script: "logged lg E \<Longrightarrow> keeps (part lg) (meeting_script E js xs)"
  unfolding meeting_script_def on_driver_def by (intro keeps_rules part_outside) (simp add: logged_def)

lemma part_driver: "keeps lg (f (nv_driver E)) \<Longrightarrow> keeps (part lg) (on_driver E f)"
  unfolding on_driver_def by (intro keeps_rules part_outside)

lemma part_file: "logged lg E \<Longrightarrow> keeps (part lg) (read_file E p)"
  unfolding read_file_def by (intro part_outside) (simp add: logged_def)

lemmas part_rules = keeps_rules keeps_when part_modify part_echo part_argument part_script part_file

lemma part_pairing: "logged lg E \<Longrightarrow> keeps (part lg) (readPairingCode E (meeting_script E))"
  unfolding readPairingCode_def show_pairing_def Let_def
  by (rule part_rules part_outside | assumption | simp add: logged_def)+

lemma part_load_js: "logged lg E \<Longrightarrow> keeps (part lg) (loadJS E p)"
  unfolding loadJS_def by (rule part_rules | assumption)+

lemma part_icons: "logged lg E \<Longrightarrow> keeps (part lg) (load_icons E dir fs icons)"
  by (induction fs arbitrary: icons) (simp_all add: part_rules)

lemma part_images: "logged lg E \<Longrightarrow> keeps (part lg) (loadImages E path lang)"
  unfolding loadImages_def by (rule part_rules part_icons part_outside | assumption | simp add: logged_def)+

lemma part_menu: "logged lg E \<Longrightarrow> keeps (part lg) (show_menu E)"
  unfolding show_menu_def by (rule part_rules part_images part_load_js part_pairing | assumption)+

lemma part_next: "keeps (part lg) next_input"
  by (simp add: keeps_def part_def next_input_def split: list.split)

lemma part_interact: "logged lg E \<Longrightarrow> keeps (part lg) (meeting_interact E)"
  unfolding meeting_interact_def share_key_def by (rule part_rules part_next | assumption | simp add: part_def)+

lemma part_waiting: "logged lg E \<Longrightarrow> keeps (part lg) (waiting_turn E)"
  unfolding waiting_turn_def by (rule part_rules part_interact | assumption)+

lemma part_layout: "logged lg E \<Longrightarrow> tame lg pf \<Longrightarrow> keeps (part lg) (manageLayout E pf)"
  unfolding manageLayout_def by (rule part_rules | assumption | simp add: tame_def)+

lemma part_extension: "logged lg E \<Longrightarrow> keeps lg (write_extension (nv_disk E) B a d u g r b)"
  unfolding write_extension_def by (rule keeps_rules | simp add: logged_def)+

lemma part_prepare: "logged lg E \<Longrightarrow> keeps (part lg) (prepare (nv_disk E) B env a d g r b)"
  unfolding prepare_def serverUrl_def Let_def
  by (rule part_rules part_outside part_extension | assumption | simp add: part_def)+

lemma part_start: "logged lg E \<Longrightarrow> tame lg pf \<Longrightarrow> keeps (part lg) (meeting_start E pf)"
  unfolding meeting_start_def set_driver_def
  by (rule part_rules part_prepare part_outside | assumption | (simp add: tame_def; fail) | (simp add: logged_def; fail) | simp add: part_def)+

lemma keeps_on_right: "keeps f m \<Longrightarrow> keeps (\<lambda>p. f (snd p)) (on_right m)"
  by (auto simp: keeps_def on_right_def split: prod.split) (metis snd_conv)

lemma keeps_close_tabs: "logged lg E \<Longrightarrow> keeps (\<lambda>p. lg (snd p)) (close_tabs (nv_driver E) hs)"
proof (induction hs)
  case (Cons h hs)
  then show ?case
    unfolding close_tabs.simps by (intro keeps_rules keeps_on_right) (auto simp: logged_def)
qed (simp add: keeps_rules)

lemma keeps_close_all: "logged lg E \<Longrightarrow> keeps (\<lambda>p. lg (snd p)) (close_all (nv_driver E))"
  unfolding close_all_def by (intro keeps_rules keeps_on_right keeps_close_tabs) (simp_all add: logged_def)

lemma part_close: "logged lg E \<Longrightarrow> keeps (part lg) (close (nv_driver E) (nv_nap E))"
proof -
  assume E: "logged lg E"
  have report: "keeps (part lg) (bind_io (case r of Inl e \<Rightarrow> echo (''rtcstats: could not close the trace: '' @ exn_str e) | Inr _ \<Rightarrow> ret_io ()) (\<lambda>_.
      when_io b (bind_io (outside (nv_nap E)) (\<lambda>_. echo ''rtcstats: trace closed''))))" for r :: "exn + unit" and b
    using E by (cases r) (auto intro!: part_rules part_outside simp: logged_def)
  show ?thesis
    unfolding keeps_def
  proof
    fix s :: "'a meeting"
    obtain r c w where all: "close_all (nv_driver E) (PBool False, ki_world s) = (r, c, w)" by (metis prod.exhaust)
    have "lg w = lg (ki_world s)" using keeps_close_all [OF E] all unfolding keeps_def by (metis snd_conv)
    then have "part lg (s\<lparr>ki_world := w\<rparr>) = part lg s" by (simp add: part_def)
    then show "part lg (snd (close (nv_driver E) (nv_nap E) s)) = part lg s"
      using report [of r "truthy c"] unfolding keeps_def close_def Let_def all prod.case by simp
  qed
qed

lemma part_stop: "logged lg E \<Longrightarrow> tame lg pf \<Longrightarrow> keeps (part lg) (meeting_stop E pf)"
  unfolding meeting_stop_def set_driver_def
  by (rule part_rules part_close part_driver | assumption | (simp add: tame_def; fail) | (simp add: logged_def; fail) | simp add: part_def)+

definition floor_inv :: "('w \<Rightarrow> string list) \<Rightarrow> 'w meeting \<Rightarrow> bool" where
  "floor_inv lg s = (floor_held (fst (part lg s)) = Some (snd (part lg s)))"

lemma baresip_logs:
  assumes "logged lg E"
  obtains w where "baresip (nv_shell E) c s = (Inr (), s\<lparr>ki_world := w\<rparr>)" "lg w = lg (ki_world s) @ [control_command c ''127.0.0.1'' 5555]"
proof -
  let ?c = "control_command c ''127.0.0.1'' 5555"
  obtain r w where sh: "nv_shell E ?c (ki_world s) = (r, w)" by fastforce
  have "fst (nv_shell E ?c (ki_world s)) = Inr ()" "lg (snd (nv_shell E ?c (ki_world s))) = lg (ki_world s) @ [?c]"
    using assms by (simp_all add: logged_def)
  then show ?thesis using sh by (intro that [of w]) (simp_all add: baresip_def outside_def)
qed

definition cmd_held :: "bool option \<Rightarrow> string \<Rightarrow> bool option" where
  "cmd_held h c = floor_step h (control_command c ''127.0.0.1'' 5555)"

lemma cmd_held_simps [simp]:
  "cmd_held (Some False) ''/floorreq'' = Some True" "cmd_held (Some True) ''/floorrel'' = Some False"
  "cmd_held h (slide_source env) = h" "cmd_held h ''/slidesrc fakevideo,nil,2x2,1,1000'' = h"
  using floor_commands by (simp_all add: cmd_held_def floor_step_def flip: floor_req_def floor_rel_def)

text \<open>The state after a move of the floor: the floor is where \<open>b\<close> says.\<close>

definition floor_moved :: "('w \<Rightarrow> string list) \<Rightarrow> 'w meeting \<Rightarrow> 'w meeting \<Rightarrow> bool \<Rightarrow> bool" where
  "floor_moved lg s s' b = (floor_inv lg s' \<and> br_streamed s' = b \<and> br_shared s' = br_shared s \<and> br_driver s' = br_driver s)"

lemma two_commands:
  assumes "logged lg E" "cmd_held (cmd_held (floor_held (lg (ki_world s))) c1) c2 = Some b"
  obtains s' where "bind_io (baresip (nv_shell E) c1) (\<lambda>_. bind_io (baresip (nv_shell E) c2) (\<lambda>_. set_streamed b)) s = (Inr (), s')"
    "floor_moved lg s s' b"
proof -
  obtain w1 where 1: "baresip (nv_shell E) c1 s = (Inr (), s\<lparr>ki_world := w1\<rparr>)" "lg w1 = lg (ki_world s) @ [control_command c1 ''127.0.0.1'' 5555]"
    by (rule baresip_logs [OF assms(1)])
  obtain w2 where 2: "baresip (nv_shell E) c2 (s\<lparr>ki_world := w1\<rparr>) = (Inr (), s\<lparr>ki_world := w2\<rparr>)"
    "lg w2 = lg w1 @ [control_command c2 ''127.0.0.1'' 5555]"
    by (rule baresip_logs [OF assms(1), of c2 "s\<lparr>ki_world := w1\<rparr>"]) simp
  have "floor_held (lg w2) = Some b" using assms(2) by (simp only: 1(2) 2(2) floor_held_append cmd_held_def)
  then show ?thesis using 1(1) 2(1)
    by (intro that [of "s\<lparr>ki_world := w2, br_streamed := b\<rparr>"]) (simp_all add: set_streamed_def floor_moved_def floor_inv_def part_def)
qed

lemma py_bool_eq_PBool [simp]: "py_bool_eq b (PBool c) = (c = b)"
  by (simp add: py_bool_eq_def)

lemma move_floor_result:
  assumes "logged lg E" "floor_inv lg s"
  shows "\<exists>s' b. move_floor E v s = (Inr (), s') \<and> floor_moved lg s s' b \<and> (\<forall>x. v = PBool x \<longrightarrow> b = (x \<and> \<not> br_shared s))"
proof -
  have held: "floor_held (lg (ki_world s)) = Some (br_streamed s)" using assms(2) by (simp add: floor_inv_def part_def)
  consider (ask) "py_bool_eq True v" "\<not> br_streamed s" "\<not> br_shared s"
    | (give) "py_bool_eq False v \<or> br_shared s" "br_streamed s"
    | (stay) "\<not> (py_bool_eq True v \<and> \<not> br_streamed s \<and> \<not> br_shared s)" "\<not> ((py_bool_eq False v \<or> br_shared s) \<and> br_streamed s)"
    by blast
  then show ?thesis
  proof cases
    case ask
    then have "cmd_held (cmd_held (floor_held (lg (ki_world s))) (slide_source (nv_env E))) ''/floorreq'' = Some True" by (simp add: held)
    from two_commands [OF assms(1) this] obtain s' where
      "bind_io (baresip (nv_shell E) (slide_source (nv_env E))) (\<lambda>_. bind_io (baresip (nv_shell E) ''/floorreq'') (\<lambda>_. set_streamed True)) s = (Inr (), s')"
      "floor_moved lg s s' True" .
    then show ?thesis using ask by (intro exI [of _ s'] exI [of _ True]) (auto simp: move_floor_def)
  next
    case give
    then have "cmd_held (cmd_held (floor_held (lg (ki_world s))) ''/floorrel'') ''/slidesrc fakevideo,nil,2x2,1,1000'' = Some False" by (simp add: held)
    from two_commands [OF assms(1) this] obtain s' where
      "bind_io (baresip (nv_shell E) ''/floorrel'') (\<lambda>_. bind_io (baresip (nv_shell E) ''/slidesrc fakevideo,nil,2x2,1,1000'') (\<lambda>_. set_streamed False)) s = (Inr (), s')"
      "floor_moved lg s s' False" .
    then show ?thesis using give by (intro exI [of _ s'] exI [of _ False]) (auto simp: move_floor_def)
  next
    case stay
    then show ?thesis using assms(2)
      by (intro exI [of _ s] exI [of _ "br_streamed s"]) (auto simp: move_floor_def floor_moved_def)
  qed
qed

lemma check_unfold:
  assumes "br_driver s = Remote" "meeting_script E slide_script [] s = (r, s1)"
  shows "checkStreamedSlide E s = (case r of
      Inr v \<Rightarrow> move_floor E v s1
    | Inl e \<Rightarrow>
        if e = NO_WINDOW then (Inr (), s1\<lparr>ki_out := ki_out s1 @ [''Chromium window closed''], br_driver := Unset\<rparr>)
        else if e = WEB_DRIVER then (Inr (), s1\<lparr>ki_out := ki_out s1 @ [''Error checking streamed slide status: '' @ exn_str e]\<rparr>)
        else (Inl e, s1))"
  using assms by (cases r) (simp_all add: checkStreamedSlide_def set_driver_def)

lemma check_result:
  assumes "logged lg E" "floor_inv lg s"
  shows "floor_inv lg (snd (checkStreamedSlide E s))"
    and "br_driver s = Remote \<Longrightarrow> fst (wd_script (nv_driver E) slide_script [] (ki_world s)) = Inr (PBool x) \<Longrightarrow>
      fst (checkStreamedSlide E s) = Inr () \<and> br_streamed (snd (checkStreamedSlide E s)) = (x \<and> \<not> br_shared s)"
proof -
  have "floor_inv lg (snd (checkStreamedSlide E s)) \<and> (br_driver s = Remote \<and> fst (wd_script (nv_driver E) slide_script [] (ki_world s)) = Inr (PBool x) \<longrightarrow>
      fst (checkStreamedSlide E s) = Inr () \<and> br_streamed (snd (checkStreamedSlide E s)) = (x \<and> \<not> br_shared s))"
  proof (cases "br_driver s = Remote")
    case False
    then show ?thesis using assms(2) by (simp add: checkStreamedSlide_def)
  next
    case True
    obtain r w where js: "wd_script (nv_driver E) slide_script [] (ki_world s) = (r, w)" by fastforce
    let ?s = "s\<lparr>ki_world := w\<rparr>"
    have run_js: "meeting_script E slide_script [] s = (r, ?s)"
      using True js by (simp add: meeting_script_def on_driver_def outside_def)
    have "keeps lg (wd_script (nv_driver E) slide_script [])" using assms(1) by (simp add: logged_def)
    then have "lg w = lg (ki_world s)" using js unfolding keeps_def by (metis snd_conv)
    then have inv: "floor_inv lg ?s" using assms(2) by (simp add: floor_inv_def part_def)
    show ?thesis
    proof (cases r)
      case (Inr v)
      obtain s' b where m: "move_floor E v ?s = (Inr (), s')" "floor_moved lg ?s s' b" "\<forall>x. v = PBool x \<longrightarrow> b = (x \<and> \<not> br_shared ?s)"
        using move_floor_result [OF assms(1) inv, of v] by (elim exE conjE) (rule that)
      have "checkStreamedSlide E s = (Inr (), s')" unfolding check_unfold [OF True run_js] Inr sum.case by (rule m(1))
      then show ?thesis using js Inr m(2,3) by (simp add: floor_moved_def)
    next
      case (Inl e)
      then have "part lg (snd (checkStreamedSlide E s)) = part lg ?s"
        by (simp add: check_unfold [OF True run_js] part_def)
      then show ?thesis using inv js Inl by (simp add: floor_inv_def)
    qed
  qed
  then show "floor_inv lg (snd (checkStreamedSlide E s))"
    and "br_driver s = Remote \<Longrightarrow> fst (wd_script (nv_driver E) slide_script [] (ki_world s)) = Inr (PBool x) \<Longrightarrow>
      fst (checkStreamedSlide E s) = Inr () \<and> br_streamed (snd (checkStreamedSlide E s)) = (x \<and> \<not> br_shared s)"
    by blast+
qed

text \<open>
  What happens to a meeting: the operations of the thread that runs it, in any order, a key put by the
  event thread, and the end asked for by the main thread.
\<close>

inductive meeting_step :: "'w surroundings \<Rightarrow> 'w platform \<Rightarrow> 'w meeting \<Rightarrow> 'w meeting \<Rightarrow> bool" for E pf where
  started: "meeting_step E pf s (snd (meeting_start E pf s))"
| waited: "meeting_step E pf s (snd (waiting_turn E s))"
| menu: "meeting_step E pf s (snd (show_menu E s))"
| checked: "meeting_step E pf s (snd (checkStreamedSlide E s))"
| laid_out: "meeting_step E pf s (snd (manageLayout E pf s))"
| interacted: "meeting_step E pf s (snd (meeting_interact E s))"
| paired: "meeting_step E pf s (snd (readPairingCode E (meeting_script E) s))"
| stopped: "meeting_step E pf s (snd (meeting_stop E pf s))"
| typed: "meeting_step E pf s (s\<lparr>ki_inputs := ki_inputs s @ [k]\<rparr>)"

lemma part_same: "keeps (part lg) m \<Longrightarrow> floor_inv lg s \<Longrightarrow> floor_inv lg (snd (m s))"
  by (simp add: keeps_def floor_inv_def)

lemma step_floor_inv:
  assumes "meeting_step E pf s t" "logged lg E" "tame lg pf" "floor_inv lg s"
  shows "floor_inv lg t"
  using assms(1)
proof cases
  case checked
  then show ?thesis using check_result(1) [OF assms(2,4)] by simp
next
  case typed
  then show ?thesis using assms(4) by (simp add: floor_inv_def part_def)
qed (simp_all add: assms part_same part_start part_waiting part_menu part_layout part_interact part_pairing part_stop)

lemma steps_floor_inv: "(meeting_step E pf)\<^sup>*\<^sup>* s t \<Longrightarrow> logged lg E \<Longrightarrow> tame lg pf \<Longrightarrow> floor_inv lg s \<Longrightarrow> floor_inv lg t"
  by (induction rule: rtranclp_induct) (auto intro: step_floor_inv)

text \<open>
  C11. The gateway asks for the floor only when it does not hold it and gives it back only when it does,
  however the meeting's turns, the keys and its end interleave; and each look at the page leaves it held
  exactly when the page streams slides and the SIP side shares nothing.
\<close>
theorem floor_follows_the_slides:
  assumes "(meeting_step E pf)\<^sup>*\<^sup>* s t" "logged lg E" "tame lg pf"
    and "floor_held (lg (ki_world s)) = Some False" "\<not> br_streamed s"
  shows "floor_held (lg (ki_world t)) = Some (br_streamed t)
    \<and> (br_driver t = Remote \<and> fst (wd_script (nv_driver E) slide_script [] (ki_world t)) = Inr (PBool x) \<longrightarrow>
         floor_held (lg (ki_world (snd (checkStreamedSlide E t)))) = Some (x \<and> \<not> br_shared t))"
proof -
  have "floor_inv lg s" using assms(4,5) by (simp add: floor_inv_def part_def)
  with assms(1-3) have inv: "floor_inv lg t" by (blast intro: steps_floor_inv)
  then show ?thesis using check_result(1) [OF assms(2) inv] check_result(2) [OF assms(2) inv, of x] by (simp add: floor_inv_def part_def)
qed

text \<open>A page that streams slides, and surroundings that only remember the commands.\<close>

definition wit_driver :: "pyval \<Rightarrow> string list web_driver" where
  "wit_driver v =
     \<lparr>wd_new = ret_io (), wd_get = (\<lambda>_. ret_io ()), wd_script = (\<lambda>_ _. ret_io v), wd_handle = ret_io [], wd_handles = ret_io [],
      wd_switch = (\<lambda>_. ret_io ()), wd_close = ret_io (), wd_quit = ret_io ()\<rparr>"

definition wit_disk :: "string list disk" where
  "wit_disk = \<lparr>dk_read = (\<lambda>_. ret_io []), dk_write = (\<lambda>_ _. ret_io ()), dk_makedirs = (\<lambda>_. ret_io ()), dk_list = (\<lambda>_. ret_io [])\<rparr>"

definition wit_around :: "pyval \<Rightarrow> string list surroundings" where
  "wit_around v =
     \<lparr>nv_driver = wit_driver v, nv_disk = wit_disk, nv_shell = (\<lambda>c. modify_io (\<lambda>w. w @ [c])), nv_env = (\<lambda>_. None), nv_now = ret_io 0,
      nv_nap = ret_io (), nv_qr = Inr, nv_brackets = (\<lambda>_. True), nv_layout = [], nv_dir = ''/src''\<rparr>"

definition wit_platform :: "string list platform" where
  "wit_platform = \<lparr>pf_load = ret_io (), pf_join = ret_io (), pf_dual = ret_io (), pf_unset = ret_io ()\<rparr>"

lemma wit_logged: "logged (\<lambda>w. w) (wit_around v)"
  by (simp add: logged_def wit_around_def wit_driver_def wit_disk_def keeps_def)

lemma wit_tame: "tame (\<lambda>w. w) wit_platform"
  by (simp add: tame_def wit_platform_def keeps_def)

definition wit_meeting :: "string list meeting" where
  "wit_meeting =
     \<lparr>ki_args = [], ki_prefs = [], ki_inputs = [], ki_out = [], ki_world = [], br_room = PDict [(''roomName'', PStr ''r'')], br_name = ''Alice'',
      br_mod = ''visio'', br_config = [], br_driver = Remote, br_shared = False, br_streamed = False, br_rtcstats = False\<rparr>"

lemma floor_follows_the_slides_witness:
  "let t = snd (checkStreamedSlide (wit_around (PBool True)) wit_meeting) in
     floor_held (ki_world t) = Some True \<and> floor_held (ki_world (snd (checkStreamedSlide (wit_around (PBool True)) t))) = Some True"
proof -
  let ?E = "wit_around (PBool True)" and ?t = "snd (checkStreamedSlide (wit_around (PBool True)) wit_meeting)"
  have steps: "(meeting_step ?E wit_platform)\<^sup>*\<^sup>* wit_meeting ?t" by (rule r_into_rtranclp) (rule checked)
  have t: "br_streamed ?t" "br_driver ?t = Remote" "\<not> br_shared ?t"
    by (simp_all add: checkStreamedSlide_def meeting_script_def on_driver_def outside_def move_floor_def baresip_def set_streamed_def
        wit_around_def wit_driver_def wit_meeting_def)
  have "floor_held (ki_world wit_meeting) = Some False" "\<not> br_streamed wit_meeting" by (simp_all add: wit_meeting_def floor_held_def)
  from floor_follows_the_slides [OF steps wit_logged wit_tame this, where x = True] t show ?thesis
    by (simp add: wit_around_def wit_driver_def)
qed

section \<open>A lone participant\<close>

text \<open>The gateway has been alone for as long as asked: at reading \<open>k\<close>, and at all since some reading \<open>j\<close>.\<close>

definition alone_long :: "rat \<Rightarrow> (rat \<times> nat) list \<Rightarrow> nat \<Rightarrow> bool" where
  "alone_long threshold rs k =
     (\<exists>j < k. (\<forall>i \<in> {j..k}. snd (rs ! i) = 1) \<and> threshold \<le> fst (rs ! k) - fst (rs ! j))"

definition counts :: "(rat \<times> nat) list \<Rightarrow> reading list" where
  "counts rs = map (\<lambda>(t, n). Counted t (PInt (int n))) rs"

definition due :: "rat \<Rightarrow> rat option \<Rightarrow> (rat \<times> nat) list \<Rightarrow> nat \<Rightarrow> bool" where
  "due threshold start rs k =
     (alone_long threshold rs k
      \<or> (\<exists>t0. start = Some t0 \<and> (\<forall>i \<le> k. snd (rs ! i) = 1) \<and> threshold \<le> fst (rs ! k) - t0))"

lemma all_from_0: "(\<forall>i \<in> {0..Suc k}. P i) \<longleftrightarrow> P 0 \<and> (\<forall>i \<le> k. P (Suc i))"
  by (metis atLeastAtMost_iff le0 not0_implies_Suc Suc_le_mono)

lemma all_from_Suc: "(\<forall>i \<in> {Suc j..Suc k}. P i) \<longleftrightarrow> (\<forall>i \<in> {j..k}. P (Suc i))"
  by (metis atLeastAtMost_iff Suc_le_D Suc_le_mono)

lemma all_le_Suc: "(\<forall>i \<le> Suc k. P i) \<longleftrightarrow> P 0 \<and> (\<forall>i \<le> k. P (Suc i))"
  by (metis le0 not0_implies_Suc Suc_le_mono)

lemma alone_long_Cons:
  "alone_long c (x # rs) (Suc k) \<longleftrightarrow>
     alone_long c rs k \<or> (snd x = 1 \<and> (\<forall>i \<le> k. snd (rs ! i) = 1) \<and> c \<le> fst (rs ! k) - fst x)"
proof -
  have "(\<exists>j < Suc k. Q j) \<longleftrightarrow> Q 0 \<or> (\<exists>j < k. Q (Suc j))" for Q by (metis Suc_less_eq less_Suc_eq_0_disj zero_less_Suc)
  then show ?thesis by (auto simp: alone_long_def all_from_0 all_from_Suc)
qed

lemma alone_long_0 [simp]: "\<not> alone_long c rs 0"
  by (simp add: alone_long_def)

lemma single_turn_int:
  "single_turn c t (PInt (int n)) start =
     Inr (if n \<noteq> 1 then (None, False) else case start of None \<Rightarrow> (Some t, False) | Some t0 \<Rightarrow> (start, c \<le> t - t0))"
  by (auto simp: single_turn_def at_most_one_def split: option.split)

lemma least_shift:
  assumes "\<not> D 0" "\<And>i. D (Suc i) \<longleftrightarrow> D' i" "\<And>i. m = Some i \<longleftrightarrow> i < n \<and> D' i \<and> (\<forall>j < i. \<not> D' j)"
  shows "map_option Suc m = Some k \<longleftrightarrow> k < Suc n \<and> D k \<and> (\<forall>j < k. \<not> D j)"
proof (cases k)
  case (Suc i)
  then show ?thesis using assms by (auto simp: All_less_Suc2)
qed (use assms(1) in simp)

lemma single_loop_due:
  assumes "sorted (map fst rs)" "\<And>t0 r. start = Some t0 \<Longrightarrow> r \<in> set rs \<Longrightarrow> t0 \<le> fst r"
  shows "single_loop c start (counts rs) = Some k \<longleftrightarrow> k < length rs \<and> due c start rs k \<and> (\<forall>i < k. \<not> due c start rs i)"
  using assms
proof (induction rs arbitrary: start k)
  case Nil
  then show ?case by (simp add: counts_def)
next
  case (Cons x rs)
  obtain t n where x: "x = (t, n)" by (cases x)
  have sorted: "sorted (map fst rs)" and after: "r \<in> set rs \<Longrightarrow> t \<le> fst r" for r using Cons.prems(1) by (auto simp: x)
  have loop: "single_loop c start (counts (x # rs)) = (case single_turn c t (PInt (int n)) start of
      Inl e \<Rightarrow> None | Inr (start', leave) \<Rightarrow> if leave then Some 0 else map_option Suc (single_loop c start' (counts rs)))"
  proof -
    have "counts (x # rs) = Counted t (PInt (int n)) # counts rs" by (simp add: counts_def x)
    then show ?thesis by simp
  qed
  consider (many) "n \<noteq> 1" | (first) "n = 1" "start = None" | (leave) t0 where "n = 1" "start = Some t0" "c \<le> t - t0"
    | (wait) t0 where "n = 1" "start = Some t0" "\<not> c \<le> t - t0" by (cases start) auto
  then show ?case
  proof cases
    case many
    have "due c start (x # rs) (Suc i) \<longleftrightarrow> due c None rs i" for i using many by (auto simp: due_def alone_long_Cons all_le_Suc x)
    moreover have "\<not> due c start (x # rs) 0" using many by (simp add: due_def x)
    moreover have "single_loop c start (counts (x # rs)) = map_option Suc (single_loop c None (counts rs))"
      unfolding loop single_turn_int using many by simp
    ultimately show ?thesis unfolding length_Cons using Cons.IH [OF sorted, of None] by (simp only:) (rule least_shift, simp_all)
  next
    case first
    have "due c start (x # rs) (Suc i) \<longleftrightarrow> due c (Some t) rs i" for i using first by (auto simp: due_def alone_long_Cons all_le_Suc x)
    moreover have "\<not> due c start (x # rs) 0" using first by (simp add: due_def x)
    moreover have "single_loop c start (counts (x # rs)) = map_option Suc (single_loop c (Some t) (counts rs))"
      unfolding loop single_turn_int using first by simp
    moreover have "single_loop c (Some t) (counts rs) = Some k \<longleftrightarrow> k < length rs \<and> due c (Some t) rs k \<and> (\<forall>i < k. \<not> due c (Some t) rs i)" for k
      using Cons.IH [OF sorted, of "Some t"] after by auto
    ultimately show ?thesis unfolding length_Cons by (simp only:) (rule least_shift, simp_all)
  next
    case leave
    then have "due c start (x # rs) 0" by (simp add: due_def x)
    moreover have "single_loop c start (counts (x # rs)) = Some 0" unfolding loop single_turn_int using leave by simp
    ultimately show ?thesis by (cases k) auto
  next
    case wait
    have "t0 \<le> t" using Cons.prems(2) [OF wait(2), of x] by (simp add: x)
    then have "due c start (x # rs) (Suc i) \<longleftrightarrow> due c (Some t0) rs i" for i using wait by (auto simp: due_def alone_long_Cons all_le_Suc x)
    moreover have "\<not> due c start (x # rs) 0" using wait by (simp add: due_def x)
    moreover have "single_loop c start (counts (x # rs)) = map_option Suc (single_loop c (Some t0) (counts rs))"
      unfolding loop single_turn_int using wait by simp
    moreover have "single_loop c (Some t0) (counts rs) = Some k \<longleftrightarrow> k < length rs \<and> due c (Some t0) rs k \<and> (\<forall>i < k. \<not> due c (Some t0) rs i)" for k
      using Cons.IH [OF sorted, of "Some t0"] Cons.prems(2) wait(2) by auto
    ultimately show ?thesis unfolding length_Cons by (simp only:) (rule least_shift, simp_all)
  qed
qed

text \<open>
  C26. The gateway leaves a conference it is alone in after the time asked, and not before: \<open>/quit\<close> is
  sent at the first reading that ends a run of readings of one participant as long as the threshold.
\<close>
theorem lone_participant_leaves:
  assumes "sorted (map fst rs)"
  shows "single_loop threshold None (counts rs) = Some k \<longleftrightarrow>
    k < length rs \<and> alone_long threshold rs k \<and> (\<forall>i < k. \<not> alone_long threshold rs i)"
  using single_loop_due [OF assms, of None] by (simp add: due_def)

lemma lone_participant_leaves_witness:
  "single_loop 300 None (counts [(0, 2), (60, 1), (120, 2), (180, 1), (300, 1), (480, 1)]) = Some 5
    \<and> alone_long 300 [(0, 2), (60, 1), (120, 2), (180, 1), (300, 1), (480, 1)] 5"
proof -
  have "single_loop 300 None (counts [(0, 2), (60, 1), (120, 2), (180, 1), (300, 1), (480, 1)]) = Some 5"
    by (simp add: counts_def single_turn_def at_most_one_def)
  then show ?thesis using lone_participant_leaves [of "[(0, 2), (60, 1), (120, 2), (180, 1), (300, 1), (480, 1)]" 300 5] by simp
qed

end
