(* ===== verification/Ivr_Props.thy ===== *)
theory Ivr_Props
  imports Meeting_Props
begin

text \<open>
  The properties of the menu: the room a caller dialled reaches the menu's page, the dialogue ends, and
  a call that ends in the browser hangs up on the SIP side.
\<close>

section \<open>The parameters of the page\<close>

text \<open>What the page reads of its own address with \<open>URLSearchParams\<close>.\<close>

definition page_params :: "string \<Rightarrow> (string \<times> string) list" where
  "page_params url = parse_qsl (snd (split_off ''?'' (fst (split_off ''#'' url))))"

definition pair_text :: "string \<times> string \<Rightarrow> string" where
  "pair_text p = fst p @ ''='' @ snd p"

text \<open>A text that means itself in a query.\<close>

definition plain_value :: "string \<Rightarrow> bool" where
  "plain_value s = (valid_utf8 s \<and> list_all (\<lambda>c. c \<notin> set ''&#%+'') s)"

lemma unquote_bytes_plain: "CHR ''%'' \<notin> set s \<Longrightarrow> unquote_bytes s = s"
  by (induction s rule: unquote_bytes.induct) auto

lemma unquote_plain_value: "plain_value v \<Longrightarrow> unquote (plus_to_space v) = v"
proof -
  assume v: "plain_value v"
  then have "plus_to_space v = v" unfolding plus_to_space_def by (intro map_idI) (auto simp: plain_value_def list_all_iff)
  moreover have "CHR ''%'' \<notin> set v" using v by (auto simp: plain_value_def list_all_iff)
  ultimately show ?thesis using v
    by (simp add: unquote_def unquote_bytes_plain utf8_replace_valid plain_value_def valid_utf8_def comp_def)
qed

lemma quote_chars: "c \<in> set (quote ''/'' v) \<Longrightarrow> url_safe c \<or> c = CHR ''/'' \<or> c = CHR ''%''"
  by (auto simp: quote_def quote_char_def dest: pct_chars split: if_splits)

lemma unquote_quoted_value:
  assumes "valid_utf8 v"
  shows "unquote (plus_to_space (quote ''/'' v)) = v" and "CHR ''&'' \<notin> set (quote ''/'' v)" "CHR ''#'' \<notin> set (quote ''/'' v)"
proof -
  have c: "c \<noteq> CHR ''+'' \<and> c \<noteq> CHR ''&'' \<and> c \<noteq> CHR ''#''" if "c \<in> set (quote ''/'' v)" for c
    using quote_chars [OF that] plain_plus [of c] by auto
  then have "plus_to_space (quote ''/'' v) = quote ''/'' v" unfolding plus_to_space_def by (intro map_idI) auto
  then show "unquote (plus_to_space (quote ''/'' v)) = v" using unquote_quote [OF assms, of "''/''"] by simp
  show "CHR ''&'' \<notin> set (quote ''/'' v)" "CHR ''#'' \<notin> set (quote ''/'' v)" using c by blast+
qed

lemma parse_pair_text:
  assumes "CHR ''='' \<notin> set k" "plain_value k"
  shows "parse_pair (pair_text (k, v)) = (k, unquote (plus_to_space v))"
  using assms by (simp add: parse_pair_def pair_text_def split1_char unquote_plain_value)

definition params_text :: "(string \<times> string) list \<Rightarrow> string" where
  "params_text ps = str_join ''&'' (map pair_text ps)"

definition opt_param :: "string \<Rightarrow> string \<Rightarrow> (string \<times> string) list" where
  "opt_param k v = (if v = [] then [] else [(k, v)])"

lemma params_text_snoc: "ps \<noteq> [] \<Longrightarrow> params_text (ps @ [q]) = params_text ps @ ''&'' @ pair_text q"
proof -
  have "str_join ''&'' (x # xs @ [y]) = str_join ''&'' (x # xs) @ ''&'' @ y" for x xs y
    by (induction xs arbitrary: x) auto
  moreover assume "ps \<noteq> []"
  ultimately show ?thesis by (cases ps) (simp_all add: params_text_def)
qed

lemma with_param_text: "ps \<noteq> [] \<Longrightarrow> with_param k v (u @ params_text ps) = u @ params_text (ps @ opt_param k v)"
  by (simp add: with_param_def opt_param_def params_text_snoc pair_text_def)

definition raw_params :: "('w, 'z) ivr_scheme \<Rightarrow> (string \<times> string) list" where
  "raw_params s =
     [(''displayName'', iv_name s)] @ opt_param ''roomId'' (iv_room s) @ opt_param ''domainId'' (iv_browsing_id s)
       @ opt_param ''domainKey'' (iv_browsing s) @ opt_param ''mixedId'' (quote ''/'' (iv_mixed s))"

lemma menu_url_text: "menu_url dir s = menu_page dir @ ''?'' @ params_text (raw_params s)"
proof -
  have "''displayName='' @ iv_name s = params_text [(''displayName'', iv_name s)]" by (simp add: params_text_def pair_text_def)
  then show ?thesis
    using with_param_text [of _ _ _ "menu_page dir @ ''?''"] by (simp add: menu_url_def raw_params_def)
qed

definition menu_params :: "('w, 'z) ivr_scheme \<Rightarrow> (string \<times> string) list" where
  "menu_params s =
     [(''displayName'', iv_name s)] @ opt_param ''roomId'' (iv_room s) @ opt_param ''domainId'' (iv_browsing_id s)
       @ opt_param ''domainKey'' (iv_browsing s) @ opt_param ''mixedId'' (iv_mixed s)"

lemma page_params_text:
  assumes "ps \<noteq> []" "CHR ''?'' \<notin> set page" "CHR ''#'' \<notin> set page" "\<forall>p \<in> set ps. CHR ''&'' \<notin> set (pair_text p) \<and> CHR ''#'' \<notin> set (pair_text p)"
  shows "page_params (page @ ''?'' @ params_text ps) = map parse_pair (map pair_text ps)"
proof -
  have join: "CHR ''#'' \<notin> set (str_join ''&'' xs)" if "\<forall>x \<in> set xs. CHR ''#'' \<notin> set x" for xs
    using that by (induction xs rule: induct_list012) auto
  have "CHR ''#'' \<notin> set (page @ ''?'' @ params_text ps)" using assms(3,4) join [of "map pair_text ps"] by (simp add: params_text_def)
  then have "split_off ''#'' (page @ ''?'' @ params_text ps) = (page @ ''?'' @ params_text ps, [])"
    by (simp add: split_off_def split1_None)
  moreover have "split_off ''?'' (page @ ''?'' @ params_text ps) = (page, params_text ps)"
    using assms(2) by (simp add: split_off_def split1_char)
  moreover have "str_split ''&'' (params_text ps) = map pair_text ps"
    unfolding params_text_def using assms(1,4) by (intro str_split_join) auto
  moreover have "filter (\<lambda>nv. nv \<noteq> []) (map pair_text ps) = map pair_text ps" by (rule filter_True) (auto simp: pair_text_def)
  ultimately show ?thesis by (simp add: page_params_def parse_qsl_def)
qed

text \<open>The parameters but the room dialled: texts that mean themselves.\<close>

definition plain_menu :: "('w, 'z) ivr_scheme \<Rightarrow> bool" where
  "plain_menu s = (plain_value (iv_name s) \<and> plain_value (iv_room s) \<and> plain_value (iv_browsing_id s) \<and> plain_value (iv_browsing s))"

lemma plain_pair: "plain_value v \<Longrightarrow> k \<in> {''displayName'', ''roomId'', ''domainId'', ''domainKey'', ''mixedId''} \<Longrightarrow>
    CHR ''&'' \<notin> set (pair_text (k, v)) \<and> CHR ''#'' \<notin> set (pair_text (k, v)) \<and> parse_pair (pair_text (k, v)) = (k, v)"
proof -
  assume k: "k \<in> {''displayName'', ''roomId'', ''domainId'', ''domainKey'', ''mixedId''}" and v: "plain_value v"
  have names: "list_all (\<lambda>k. CHR ''='' \<notin> set k \<and> CHR ''&'' \<notin> set k \<and> CHR ''#'' \<notin> set k \<and> plain_value k)
      [''displayName'', ''roomId'', ''domainId'', ''domainKey'', ''mixedId'']" by code_simp
  then have "CHR ''='' \<notin> set k" "CHR ''&'' \<notin> set k" "CHR ''#'' \<notin> set k" "plain_value k" using k unfolding list_all_iff by auto
  moreover have "CHR ''&'' \<notin> set v" "CHR ''#'' \<notin> set v" using v by (auto simp: plain_value_def list_all_iff)
  ultimately show ?thesis using v by (simp add: parse_pair_text unquote_plain_value) (simp add: pair_text_def)
qed

lemma quoted_pair:
  assumes "valid_utf8 v"
  shows "CHR ''&'' \<notin> set (pair_text (''mixedId'', quote ''/'' v)) \<and> CHR ''#'' \<notin> set (pair_text (''mixedId'', quote ''/'' v))
    \<and> parse_pair (pair_text (''mixedId'', quote ''/'' v)) = (''mixedId'', v)"
proof -
  have "plain_value ''mixedId''" by code_simp
  then have "parse_pair (pair_text (''mixedId'', quote ''/'' v)) = (''mixedId'', v)"
    using parse_pair_text [of "''mixedId''" "quote ''/'' v"] unquote_quoted_value(1) [OF assms] by simp
  then show ?thesis using unquote_quoted_value(2,3) [OF assms] by (simp add: pair_text_def)
qed

lemma quote_Nil_iff: "quote safe v = [] \<longleftrightarrow> v = []"
  by (cases v) (auto simp: quote_def quote_char_def pct_def)

lemma menu_page_params:
  assumes "plain_menu s" "valid_utf8 (iv_mixed s)" "CHR ''?'' \<notin> set dir" "CHR ''#'' \<notin> set dir"
  shows "page_params (menu_url dir s) = menu_params s"
proof -
  note plain = assms(1) [unfolded plain_menu_def]
  have opt: "(\<forall>p \<in> set (opt_param k v). CHR ''&'' \<notin> set (pair_text p) \<and> CHR ''#'' \<notin> set (pair_text p))
      \<and> map parse_pair (map pair_text (opt_param k v)) = opt_param k v"
    if "plain_value v" "k \<in> {''displayName'', ''roomId'', ''domainId'', ''domainKey'', ''mixedId''}" for k v
    using plain_pair [OF that] by (auto simp: opt_param_def)
  have mixed: "(\<forall>p \<in> set (opt_param ''mixedId'' (quote ''/'' (iv_mixed s))). CHR ''&'' \<notin> set (pair_text p) \<and> CHR ''#'' \<notin> set (pair_text p))
      \<and> map parse_pair (map pair_text (opt_param ''mixedId'' (quote ''/'' (iv_mixed s)))) = opt_param ''mixedId'' (iv_mixed s)"
    using quoted_pair [OF assms(2)] by (auto simp: opt_param_def quote_Nil_iff)
  have page: "CHR ''?'' \<notin> set (menu_page dir)" "CHR ''#'' \<notin> set (menu_page dir)" using assms(3,4) by (simp_all add: menu_page_def)
  have "\<forall>p \<in> set (raw_params s). CHR ''&'' \<notin> set (pair_text p) \<and> CHR ''#'' \<notin> set (pair_text p)"
    using plain plain_pair [of "iv_name s" "''displayName''"] opt [of "iv_room s" "''roomId''"] opt [of "iv_browsing_id s" "''domainId''"]
      opt [of "iv_browsing s" "''domainKey''"] mixed unfolding raw_params_def by auto
  from page_params_text [OF _ page this] have "page_params (menu_url dir s) = map parse_pair (map pair_text (raw_params s))"
    unfolding menu_url_text by (simp add: raw_params_def)
  also have "\<dots> = menu_params s"
    using plain plain_pair [of "iv_name s" "''displayName''"] opt [of "iv_room s" "''roomId''"] opt [of "iv_browsing_id s" "''domainId''"]
      opt [of "iv_browsing s" "''domainKey''"] mixed unfolding raw_params_def menu_params_def by simp
  finally show ?thesis .
qed

section \<open>The room dialled\<close>

lemma established_result:
  assumes "map_of ev ''type'' = Some (PStr ''CALL_ESTABLISHED'')" "map_of ev ''remotevideodir'' = Some dir"
    and "map_of ev ''peerdisplayname'' = Some (PStr (nat_str (length room) @ CHR ''-'' # room @ name))" "name \<noteq> []"
  shows "\<exists>s'. event_handler cfg ev s = (Inr None, s') \<and> ss_mixed s' = room \<and> ss_name s' = PStr name"
  using assms call_prefix_name [of room name]
  by (auto simp: event_handler_def on_established_def read_name_def say_data_def say_def say_with_def start_thread_def dindex_def bind_io_def)


definition wit_menu :: "string list ivr" where
  "wit_menu =
     \<lparr>ki_args = [], ki_prefs = [], ki_inputs = [], ki_out = [], ki_world = [], iv_url = [], iv_browsing_id = [], iv_mixed = ''12-5'',
      iv_browsing = [], iv_room = [], iv_name = ''Alice '', iv_driver = True, iv_config = []\<rparr>"


text \<open>A name with an ampersand opens the page with a room of the caller's own, before the one dialled.\<close>

lemma name_chooses_the_room:
  assumes "plain_value a" "plain_value b" "CHR ''?'' \<notin> set dir" "CHR ''#'' \<notin> set dir" "iv_name v = a @ ''&mixedId='' @ b"
    and "iv_room v = []" "iv_browsing_id v = []" "iv_browsing v = []" "valid_utf8 (iv_mixed v)"
  shows "map_of (page_params (menu_url dir v)) ''mixedId'' = Some b"
proof -
  let ?ps = "[(''displayName'', a), (''mixedId'', b)] @ opt_param ''mixedId'' (quote ''/'' (iv_mixed v))"
  have "params_text (raw_params v) = params_text ?ps"
  proof (cases "iv_mixed v = []")
    case True
    then show ?thesis by (simp add: raw_params_def assms(5-8) opt_param_def params_text_def pair_text_def quote_Nil_iff)
  next
    case False
    then show ?thesis by (simp add: raw_params_def assms(5-8) opt_param_def params_text_def pair_text_def quote_Nil_iff)
  qed
  moreover have "\<forall>p \<in> set ?ps. CHR ''&'' \<notin> set (pair_text p) \<and> CHR ''#'' \<notin> set (pair_text p)"
    using plain_pair [OF assms(1), of "''displayName''"] plain_pair [OF assms(2), of "''mixedId''"] quoted_pair [OF assms(9)]
    by (auto simp: opt_param_def)
  moreover have "CHR ''?'' \<notin> set (menu_page dir)" "CHR ''#'' \<notin> set (menu_page dir)" using assms(3,4) by (simp_all add: menu_page_def)
  ultimately have "page_params (menu_url dir v) = map parse_pair (map pair_text ?ps)"
    using page_params_text [of ?ps "menu_page dir"] by (simp add: menu_url_text)
  then show ?thesis using plain_pair [OF assms(1), of "''displayName''"] plain_pair [OF assms(2), of "''mixedId''"] by simp
qed

section \<open>The end of a call\<close>

lemma try_ret_total: "\<exists>s'. try_io m (\<lambda>e. ret_io x) s = (Inr x, s') \<or> (\<exists>y. try_io m (\<lambda>e. ret_io x) s = (Inr y, s'))"
  by (auto simp: try_io_def split: prod.split sum.split)

lemma launch_total: "\<exists>s'. launchBrowser E url s = (Inr (), s')"
  using try_ret_total [where x = "()"] by (auto simp: launchBrowser_def)

lemma ivr_run_total: "\<exists>b s'. ivr_run n E limit att s = (Inr b, s')"
proof -
  obtain s1 where "launchBrowser E [] s = (Inr (), s1)" using launch_total by blast
  then show ?thesis by (auto simp: ivr_run_def try_io_def split: prod.split sum.split)
qed

text \<open>
  C10. However a call ends in the browser (a time-out, an exception of the driver, a page that is not
  what it should be, a meeting that is over), the SIP client is told to hang up, last of all.
\<close>
theorem ended_call_hangs_up:
  assumes "logged lg E"
  shows "\<exists>running s'. browse n E limit att s = (Inr running, s')
    \<and> (\<not> running \<longrightarrow> (\<exists>before. lg (ki_world s') = before @ [control_command ''/hangup'' ''127.0.0.1'' 5555]))"
proof -
  obtain b s1 where 1: "ivr_run n E limit att s = (Inr b, s1)" using ivr_run_total by blast
  obtain w where "baresip (nv_shell E) ''/hangup'' s1 = (Inr (), s1\<lparr>ki_world := w\<rparr>)"
    "lg w = lg (ki_world s1) @ [control_command ''/hangup'' ''127.0.0.1'' 5555]"
    by (rule baresip_logs [OF assms])
  then show ?thesis using 1 by (cases b) (auto simp: browse_def)
qed

lemma ended_call_hangs_up_witness:
  "\<exists>s' before. browse 1 (wit_around (PStr [])) (Some 5) (\<lambda>_. raise_io (OtherError ''lost'')) (wit_menu\<lparr>iv_driver := False\<rparr>) = (Inr False, s')
     \<and> ki_world s' = before @ [control_command ''/hangup'' ''127.0.0.1'' 5555]"
proof -
  let ?b = "browse 1 (wit_around (PStr [])) (Some 5) (\<lambda>_. raise_io (OtherError ''lost'')) (wit_menu\<lparr>iv_driver := False\<rparr>)"
  have "json_loads [] = None" by code_simp
  then have "fst ?b = Inr False"
    by (simp add: browse_def ivr_run_def launchBrowser_def setUrl_def load_config_def prompt_def ivr_script_def outside_def try_io_def
        wit_around_def wit_disk_def wit_menu_def baresip_def bind_io_def)
  then show ?thesis using ended_call_hangs_up [OF wit_logged, of 1 "PStr []" "Some 5" "\<lambda>_. raise_io (OtherError ''lost'')" "wit_menu\<lparr>iv_driver := False\<rparr>"]
    by auto
qed

section \<open>The end of the dialogue\<close>

text \<open>Surroundings whose clock goes on by \<open>d\<close> at least each time it is read, and never back.\<close>

definition onward :: "('w \<Rightarrow> rat) \<Rightarrow> (('w, 'z) kiosk_scheme, 'x) io \<Rightarrow> bool" where
  "onward clock m = steps (\<lambda>s s'. clock (ki_world s) \<le> clock (ki_world s')) m"

definition ticking :: "('w \<Rightarrow> rat) \<Rightarrow> rat \<Rightarrow> 'w surroundings \<Rightarrow> bool" where
  "ticking clock d E =
     ((\<forall>w. fst (nv_now E w) = Inr (clock w) \<and> clock w + d \<le> clock (snd (nv_now E w)))
      \<and> (\<forall>js xs. steps (\<lambda>w w'. clock w \<le> clock w') (wd_script (nv_driver E) js xs))
      \<and> (\<forall>p. steps (\<lambda>w w'. clock w \<le> clock w') (dk_read (nv_disk E) p)))"

interpretation clocked: world_order "\<lambda>s s'. clock (ki_world s) \<le> (clock (ki_world s') :: rat)" for clock
  by unfold_locales auto

lemma onward_try: "onward clock m \<Longrightarrow> (\<And>e. onward clock (h e)) \<Longrightarrow> onward clock (try_io m h)"
  unfolding onward_def steps_def try_io_def by (auto split: prod.split sum.split) (metis order_trans snd_conv)+

lemma onward_outside: "steps (\<lambda>w w'. clock w \<le> clock w') m \<Longrightarrow> onward clock (outside m)"
  unfolding onward_def steps_def outside_def by (auto split: prod.split) (metis snd_conv)

lemma onward_same: "(\<And>s. ki_world (snd (m s)) = ki_world s) \<Longrightarrow> onward clock m"
  by (simp add: onward_def steps_def)

lemmas onward_rules = clocked.steps_rules [folded onward_def] onward_try

lemma onward_when: "onward clock m \<Longrightarrow> onward clock (when_io b m)"
  by (cases b) (simp_all add: onward_rules)

lemma onward_echo: "onward clock (echo l)"
  by (rule onward_same) simp

lemma onward_script: "ticking clock d E \<Longrightarrow> onward clock (ivr_script E js xs)"
  unfolding ivr_script_def by (rule onward_rules onward_outside | simp add: ticking_def)+

lemma onward_pairing: "ticking clock d E \<Longrightarrow> onward clock (readPairingCode E (ivr_script E))"
  unfolding readPairingCode_def show_pairing_def Let_def
  by (rule onward_rules onward_outside onward_script onward_echo | assumption | simp add: ticking_def)+

lemma onward_option: "onward clock n \<Longrightarrow> (\<And>x. onward clock (f x)) \<Longrightarrow> onward clock (case z of None \<Rightarrow> n | Some x \<Rightarrow> f x)"
  by (cases z) simp_all

lemma onward_next: "onward clock next_input"
  by (rule onward_same) (simp add: next_input_def split: list.split)

lemma onward_interact: "ticking clock d E \<Longrightarrow> onward clock (ivr_interact E)"
  unfolding ivr_interact_def by (rule onward_rules onward_option onward_script onward_next | assumption)+

lemma onward_ask: "ticking clock d E \<Longrightarrow> onward clock (ask E name)"
  unfolding ask_def by (rule onward_rules onward_when onward_echo onward_script | assumption)+

lemma now_reads:
  assumes "ticking clock d E"
  obtains w where "outside (nv_now E) s = (Inr (clock (ki_world s)), s\<lparr>ki_world := w\<rparr>)" "clock (ki_world s) + d \<le> clock w"
proof -
  obtain r w where n: "nv_now E (ki_world s) = (r, w)" by fastforce
  have "fst (nv_now E (ki_world s)) = Inr (clock (ki_world s)) \<and> clock (ki_world s) + d \<le> clock (snd (nv_now E (ki_world s)))"
    using assms by (simp add: ticking_def)
  then show ?thesis using n by (intro that [of w]) (simp_all add: outside_def)
qed

text \<open>A turn either answers or goes on later; after the limit it answers.\<close>

definition turn_rest :: "'w surroundings \<Rightarrow> pyval \<Rightarrow> (('w, 'z) ivr_scheme, pyval + asked) io" where
  "turn_rest E name =
     try_io
       (bind_io (ask E name) (\<lambda>r. case r of
          Inr a \<Rightarrow> ret_io (Inr a)
        | Inl name' \<Rightarrow> bind_io (ivr_interact E) (\<lambda>_. bind_io (readPairingCode E (ivr_script E)) (\<lambda>_. ret_io (Inl name')))))
       (\<lambda>e. bind_io (echo (''IVR error: '' @ exn_str e)) (\<lambda>_. ret_io (Inr NoAnswer)))"

lemma onward_sum: "(\<And>x. onward clock (f x)) \<Longrightarrow> (\<And>y. onward clock (g y)) \<Longrightarrow> onward clock (case z of Inl x \<Rightarrow> f x | Inr y \<Rightarrow> g y)"
  by (cases z) simp_all

lemma onward_rest: "ticking clock d E \<Longrightarrow> onward clock (turn_rest E name)"
  unfolding turn_rest_def by (rule onward_rules onward_sum onward_ask onward_interact onward_pairing onward_echo | assumption)+

lemma ask_answers: "ask E name s \<noteq> (Inr (Inr StillAsking), t)"
  by (auto simp: ask_def bind_io_eq_Inr_iff split: if_splits)

lemma rest_answers: "turn_rest E name s \<noteq> (Inr (Inr StillAsking), t)"
  using ask_answers [of E name s]
  by (auto simp: turn_rest_def try_io_def bind_io_def split: prod.splits sum.splits)

lemma prompt_turn_unfold:
  assumes "outside (nv_now E) s = (Inr v, s1)"
  shows "prompt_turn E limit start name s =
    (if timed_out limit start v then (Inr (Inr NoAnswer), s1\<lparr>ki_out := ki_out s1 @ [''IVR Timeout'']\<rparr>) else turn_rest E name s1)"
  using assms by (simp add: prompt_turn_def turn_rest_def)

lemma prompt_loop_ends:
  assumes "ticking clock d E" "0 < d" "0 < limit" "start + of_int limit < clock (ki_world s) + of_nat n * d"
  shows "fst (prompt_loop (Suc n) E (Some limit) start name s) \<noteq> Inr StillAsking"
  using assms(4)
proof (induction n arbitrary: s name)
  case 0
  obtain w where "outside (nv_now E) s = (Inr (clock (ki_world s)), s\<lparr>ki_world := w\<rparr>)" by (rule now_reads [OF assms(1)])
  from prompt_turn_unfold [OF this] show ?case using 0 assms(3) by (simp add: timed_out_def)
next
  case (Suc n)
  obtain w where now: "outside (nv_now E) s = (Inr (clock (ki_world s)), s\<lparr>ki_world := w\<rparr>)" "clock (ki_world s) + d \<le> clock w"
    by (rule now_reads [OF assms(1)])
  show ?case
  proof (cases "timed_out (Some limit) start (clock (ki_world s))")
    case True
    have "prompt_turn E (Some limit) start name s = (Inr (Inr NoAnswer), s\<lparr>ki_world := w, ki_out := ki_out s @ [''IVR Timeout'']\<rparr>)"
      unfolding prompt_turn_unfold [OF now(1)] using True by simp
    then show ?thesis by (simp only: prompt_loop.simps(2) [of "Suc n"] bind_io_Inr sum.case ret_io_app) simp
  next
    case False
    obtain r t where rest: "turn_rest E name (s\<lparr>ki_world := w\<rparr>) = (r, t)" by fastforce
    have turn: "prompt_turn E (Some limit) start name s = (r, t)"
      unfolding prompt_turn_unfold [OF now(1)] using False rest by simp
    have "clock (ki_world (s\<lparr>ki_world := w\<rparr>)) \<le> clock (ki_world (snd (turn_rest E name (s\<lparr>ki_world := w\<rparr>))))"
      using onward_rest [OF assms(1), of name] unfolding onward_def steps_def by blast
    then have "clock w \<le> clock (ki_world t)" unfolding rest by simp
    then have "start + of_int limit < clock (ki_world t) + of_nat n * d" using Suc.prems now(2) by (simp add: algebra_simps)
    note later = Suc.IH [OF this]
    show ?thesis
    proof (cases r)
      case (Inl e)
      then show ?thesis using turn by (simp only: prompt_loop.simps(2) [of "Suc n"] bind_io_Inl fst_conv) simp
    next
      case (Inr x)
      have x: "x \<noteq> Inr StillAsking" using rest rest_answers unfolding Inr by blast
      have "prompt_loop (Suc (Suc n)) E (Some limit) start name s
          = (case x of Inl name' \<Rightarrow> prompt_loop (Suc n) E (Some limit) start name' | Inr a \<Rightarrow> ret_io a) t"
        using turn unfolding Inr by (simp only: prompt_loop.simps(2) [of "Suc n"] bind_io_Inr)
      then show ?thesis using later x by (cases x) (simp_all only: sum.case ret_io_app fst_conv, simp_all)
    qed
  qed
qed

text \<open>
  The dialogue ends: with a time limit, and a clock that goes on by some \<open>d\<close> a turn, \<open>prompt\<close> answers
  before \<open>limit / d\<close> turns are over, whatever the page says.
\<close>
theorem dialogue_ends:
  fixes s :: "('w, 'z) ivr_scheme"
  assumes "ticking clock d E" "0 < d" "0 < limit" "of_int limit < of_nat n * d"
  shows "fst (prompt (Suc n) E (Some limit) s) \<noteq> Inr StillAsking"
proof -
  obtain w where now: "outside (nv_now E) s = (Inr (clock (ki_world s)), s\<lparr>ki_world := w\<rparr>)" "clock (ki_world s) + d \<le> clock w"
    by (rule now_reads [OF assms(1)])
  let ?s = "s\<lparr>ki_world := w\<rparr>" and ?js = "outside (dk_read (nv_disk E) (nv_dir E @ ''/../browsing/assets/IVR/menu.js''))"
  define first :: "(('w, 'z) ivr_scheme, unit) io" where "first = bind_io ?js (\<lambda>js. bind_io (ivr_script E js []) (\<lambda>_. readPairingCode E (ivr_script E)))"
  have "onward clock first"
    unfolding first_def
    by (rule onward_rules onward_outside onward_script [OF assms(1)] onward_pairing [OF assms(1)] assms(1) [unfolded ticking_def, THEN conjunct2, THEN conjunct2, rule_format])+
  then have "clock (ki_world ?s) \<le> clock (ki_world (snd (first ?s)))" unfolding onward_def steps_def by blast
  moreover obtain r t where first: "first ?s = (r, t)" by fastforce
  ultimately have "clock (ki_world s) + of_int limit < clock (ki_world t) + of_nat n * d" using now(2) assms(2,4) by simp
  from prompt_loop_ends [OF assms(1-3) this] have loop: "fst (prompt_loop (Suc n) E (Some limit) (clock (ki_world s)) (PStr []) t) \<noteq> Inr StillAsking" .
  have "prompt (Suc n) E (Some limit) s = bind_io first (\<lambda>_. prompt_loop (Suc n) E (Some limit) (clock (ki_world s)) (PStr [])) ?s"
    by (subst prompt_def, subst bind_io_Inr, rule now(1)) (simp only: first_def bind_assoc)
  also have "\<dots> = (case r of Inl e \<Rightarrow> (Inl e, t) | Inr _ \<Rightarrow> prompt_loop (Suc n) E (Some limit) (clock (ki_world s)) (PStr []) t)"
    using first by (simp only: bind_io_def prod.case)
  finally show ?thesis using loop by (cases r) simp_all
qed

text \<open>A clock that goes on by a second at each look, and a page that never answers.\<close>

definition wit_slow :: "rat surroundings" where
  "wit_slow =
     \<lparr>nv_driver = \<lparr>wd_new = ret_io (), wd_get = (\<lambda>_. ret_io ()), wd_script = (\<lambda>_ _. ret_io PNone), wd_handle = ret_io [],
        wd_handles = ret_io [], wd_switch = (\<lambda>_. ret_io ()), wd_close = ret_io (), wd_quit = ret_io ()\<rparr>,
      nv_disk = \<lparr>dk_read = (\<lambda>_. ret_io []), dk_write = (\<lambda>_ _. ret_io ()), dk_makedirs = (\<lambda>_. ret_io ()), dk_list = (\<lambda>_. ret_io [])\<rparr>,
      nv_shell = (\<lambda>_. ret_io ()), nv_env = (\<lambda>_. None), nv_now = (\<lambda>w. (Inr w, w + 1)), nv_nap = ret_io (), nv_qr = Inr,
      nv_brackets = (\<lambda>_. True), nv_layout = [], nv_dir = ''/src''\<rparr>"

lemma dialogue_ends_witness:
  "fst (prompt 32 wit_slow (Some 30)
      \<lparr>ki_args = [], ki_prefs = [], ki_inputs = [], ki_out = [], ki_world = 0, iv_url = [], iv_browsing_id = [], iv_mixed = [],
        iv_browsing = [], iv_room = [], iv_name = [], iv_driver = True, iv_config = []\<rparr>) \<noteq> Inr StillAsking"
proof -
  have "ticking (\<lambda>w. w) 1 wit_slow" by (simp add: ticking_def wit_slow_def steps_def)
  from dialogue_ends [OF this, of 30 31] show ?thesis by simp
qed

end
