(* ===== verification/Rtcstats_Props.thy ===== *)
theory Rtcstats_Props
  imports Rtcstats
begin

text \<open>
  The properties of the trace's address: it is the one configured, with the parameters it had and the
  labels of the call; and the extension is loaded exactly when the trace is on.
\<close>

section \<open>What is decoded is well-formed\<close>

lemma follows_full:
  assumes "follows (r # rs) s = length (r # rs)"
  obtains b t where "s = b # t" "fst r \<le> b" "b \<le> snd r" "follows rs t = length rs"
  using assms by (cases s) (auto split: if_splits)

lemma utf8_ok_replacement: "utf8_ok (REPLACEMENT @ s) = utf8_ok s"
  by (simp add: REPLACEMENT_def cont_byte_def)

lemma utf8_ok_sequence:
  assumes "follow a = Some rs" "follows rs s = length rs"
  shows "utf8_ok (a # take (length rs) s @ t) = utf8_ok t"
proof -
  consider "a < 128" "rs = []" | "194 \<le> a" "a \<le> 223" "rs = [(128, 191)]"
    | "224 \<le> a" "a \<le> 239" "rs = [(if a = 224 then 160 else 128, if a = 237 then 159 else 191), (128, 191)]"
    | "240 \<le> a" "a \<le> 244" "rs = [(if a = 240 then 144 else 128, if a = 244 then 143 else 191), (128, 191), (128, 191)]"
    using assms(1) by (auto simp: follow_def split: if_splits)
  then show ?thesis
  proof cases
    case 1
    then show ?thesis by simp
  next
    case 2
    obtain b u where "s = b # u" "128 \<le> b" "b \<le> 191" by (rule follows_full [OF assms(2) [unfolded 2(3)]]) simp
    then show ?thesis using 2 by (simp add: cont_byte_def)
  next
    case 3
    obtain b u where b: "s = b # u" "(if a = 224 then 160 else 128) \<le> b" "b \<le> (if a = 237 then 159 else 191)"
      and u: "follows [(128, 191)] u = length [(128, 191) :: nat \<times> nat]" by (rule follows_full [OF assms(2) [unfolded 3(3)]]) simp
    obtain c v where "u = c # v" "128 \<le> c" "c \<le> 191" by (rule follows_full [OF u]) simp
    then show ?thesis using 3 b by (simp add: cont_byte_def split: if_splits)
  next
    case 4
    obtain b u where b: "s = b # u" "(if a = 240 then 144 else 128) \<le> b" "b \<le> (if a = 244 then 143 else 191)"
      and u: "follows [(128, 191), (128, 191)] u = length [(128, 191) :: nat \<times> nat, (128, 191)]"
      by (rule follows_full [OF assms(2) [unfolded 4(3)]]) simp
    obtain c v where c: "u = c # v" "128 \<le> c" "c \<le> 191" and v: "follows [(128, 191)] v = length [(128, 191) :: nat \<times> nat]"
      by (rule follows_full [OF u]) simp
    obtain d x where "v = d # x" "128 \<le> d" "d \<le> 191" by (rule follows_full [OF v]) simp
    then show ?thesis using 4 b c by (simp add: cont_byte_def split: if_splits)
  qed
qed

lemma utf8_replace_ok: "utf8_ok (utf8_replace s)"
proof (induction s rule: utf8_replace.induct)
  case (2 a s)
  show ?case
  proof (cases "follow a")
    case None
    then show ?thesis using 2 by (simp add: utf8_ok_replacement)
  next
    case (Some rs)
    have rest: "utf8_ok (utf8_replace (drop (follows rs s) s))" using "2.IH"(2) [OF Some refl] .
    show ?thesis
    proof (cases "follows rs s = length rs")
      case True
      then have "utf8_replace (a # s) = a # take (length rs) s @ utf8_replace (drop (follows rs s) s)" using Some by (simp add: Let_def)
      then show ?thesis using utf8_ok_sequence [OF Some True, of "utf8_replace (drop (follows rs s) s)"] rest by (simp only:)
    next
      case False
      then have "utf8_replace (a # s) = REPLACEMENT @ utf8_replace (drop (follows rs s) s)" using Some by (simp add: Let_def)
      then show ?thesis using rest by (simp only: utf8_ok_replacement)
    qed
  qed
qed simp

lemma utf8_replace_bytes: "set (utf8_replace s) \<subseteq> set s \<union> set REPLACEMENT"
proof (induction s rule: utf8_replace.induct)
  case (2 a s)
  show ?case
  proof (cases "follow a")
    case None
    then show ?thesis using 2 by auto
  next
    case (Some rs)
    have "set (utf8_replace (drop (follows rs s) s)) \<subseteq> set s \<union> set REPLACEMENT"
      using "2.IH"(2) [OF Some refl] set_drop_subset [of "follows rs s" s] by blast
    then show ?thesis using Some set_take_subset [of "length rs" s] by (auto simp: Let_def)
  qed
qed simp

lemma valid_unquote: "valid_utf8 (unquote s)"
proof -
  let ?b = "utf8_replace (map of_char (unquote_bytes s))"
  have "map of_char (map char_of ?b :: string) = ?b"
  proof -
    have "b < 256" if "b \<in> set ?b" for b
      using subsetD [OF utf8_replace_bytes that] nat_of_char_less_256 by (auto simp: REPLACEMENT_def)
    then show ?thesis by (simp add: comp_def) (intro map_idI, simp)
  qed
  then show ?thesis using utf8_replace_ok by (simp only: valid_utf8_def unquote_def)
qed

lemma valid_parsed: "\<forall>(k, v) \<in> set (parse_qsl q). valid_utf8 k \<and> valid_utf8 v"
  by (auto simp: parse_qsl_def parse_pair_def valid_unquote utf8_ok_Nil split: option.splits)

section \<open>The address of the trace\<close>

lemma str_join_chars: "c \<in> set (str_join sep xs) \<Longrightarrow> c \<in> set sep \<or> (\<exists>x \<in> set xs. c \<in> set x)"
  by (induction xs rule: induct_list012) auto

lemma urlencode_chars: "c \<in> set (urlencode ps) \<Longrightarrow> encoded_char c \<or> c = CHR ''='' \<or> c = CHR ''&''"
  using str_join_chars [of c "''&''"] quote_plus_chars [of c] by (fastforce simp: urlencode_def)

lemma url_ok_query:
  assumes "url_ok B p"
  shows "url_ok B (p\<lparr>up_query := urlencode ps\<rparr>)"
proof -
  have "encoded_char c \<Longrightarrow> \<not> url_blank c" for c
    by (auto simp: encoded_char_def url_safe_def is_alnum_def is_digit_def is_upper_def is_lower_def url_blank_def)
  then have "list_all (\<lambda>c. \<not> url_blank c) (urlencode ps)" "CHR ''#'' \<notin> set (urlencode ps)"
    using urlencode_chars [of _ ps] encoded_not by (auto simp: list_all_iff url_blank_def)
  then show ?thesis using assms by (simp add: url_ok_def)
qed

text \<open>
  The trace goes to the address configured: of the address \<open>traceUrl\<close> gives, the scheme, the host,
  the path and the fragment are the configured ones, and the parameters read back are the configured
  ones, then the labels of the call that are not empty.
\<close>
theorem trace_keeps_the_address:
  assumes "urlsplit B url = Inr p" "up_scheme p \<noteq> []" "up_netloc p \<noteq> []"
    and "valid_utf8 gw" "valid_utf8 room" "valid_utf8 platform"
  shows "\<exists>t q. traceUrl B url gw room platform = Inr t \<and> urlsplit B t = Inr (p\<lparr>up_query := q\<rparr>)
    \<and> parse_qsl q = parse_qsl (up_query p) @ trace_labels gw room platform"
proof -
  let ?ps = "parse_qsl (up_query p) @ trace_labels gw room platform"
  have "valid_utf8 ''gw''" "valid_utf8 ''room''" "valid_utf8 ''browsing''" by code_simp+
  then have "\<forall>(k, v) \<in> set ?ps. valid_utf8 k \<and> valid_utf8 v" using valid_parsed assms(4-6) by (auto simp: trace_labels_def)
  then have "parse_qsl (urlencode ?ps) = ?ps" by (rule parse_urlencode)
  moreover have "urlsplit B (urlunsplit (p\<lparr>up_query := urlencode ?ps\<rparr>)) = Inr (p\<lparr>up_query := urlencode ?ps\<rparr>)"
    using urlsplit_url_ok [OF assms(1-3)] by (intro urlsplit_urlunsplit url_ok_query)
  ultimately show ?thesis using assms(1) by (auto simp: traceUrl_def)
qed

lemma trace_keeps_the_address_witness:
  "\<exists>t q. traceUrl (\<lambda>_. True) ''wss://rtc.example.fr/in?k=a%20b'' ''gw 1'' [] ''visio'' = Inr t
    \<and> urlsplit (\<lambda>_. True) t = Inr \<lparr>up_scheme = ''wss'', up_netloc = ''rtc.example.fr'', up_path = ''/in'', up_query = q, up_fragment = []\<rparr>
    \<and> parse_qsl q = [(''k'', ''a b''), (''gw'', ''gw 1''), (''browsing'', ''visio'')]"
proof -
  have split: "urlsplit (\<lambda>_. True) ''wss://rtc.example.fr/in?k=a%20b''
      = Inr \<lparr>up_scheme = ''wss'', up_netloc = ''rtc.example.fr'', up_path = ''/in'', up_query = ''k=a%20b'', up_fragment = []\<rparr>" by code_simp
  have "parse_qsl ''k=a%20b'' = [(''k'', ''a b'')]" "valid_utf8 ''gw 1''" "valid_utf8 []" "valid_utf8 ''visio''" by code_simp+
  then show ?thesis using trace_keeps_the_address [OF split, of "''gw 1''" "[]" "''visio''"] by (simp add: trace_labels_def)
qed

end
