(* ===== verification/Homer.thy ===== *)
theory Homer
  imports Urls Py_Num Py_Date Kiosk "HOL-Library.Log_Nat"
begin

text \<open>
  Links from a call to its SIP trace (\<open>manager/homer.py\<close>): the two forms of address, the window around
  a call, and the link a call is given. An instant is in microseconds of UTC since the first day of
  year 1; a naive one is local, and \<open>zone\<close> is the local time zone. The clock is an argument. The line
  logged for an unknown flavor is left out.
\<close>

section \<open>Instants as milliseconds\<close>

text \<open>A float: 53 bits, halves to the even side. The distance between two floats around a number, and rounding to it.\<close>

definition spacing :: "rat \<Rightarrow> rat" where
  "spacing x =
     (if 1 \<le> \<bar>x\<bar> then 2 ^ nat (bitlen \<lfloor>\<bar>x\<bar>\<rfloor> - 1) / 2 ^ 52
      else 1 / 2 ^ nat (bitlen (\<lceil>1 / \<bar>x\<bar>\<rceil> - 1)) / 2 ^ 52)"

definition double :: "rat \<Rightarrow> rat" where
  "double x = (if x = 0 then 0 else of_int (round_even (x / spacing x)) * spacing x)"

text \<open>\<open>value.timestamp()\<close> of an aware instant divides the microseconds once, in floats.\<close>

definition unix_epoch :: int where
  "unix_epoch = 719162 * day_us"

definition epochMs :: "int \<Rightarrow> int" where
  "epochMs us = trunc (double (double (of_int (us - unix_epoch) / of_int second_us) * 1000))"

datatype moment = Aware int | Naive int

definition aware_us :: "(int \<Rightarrow> int) \<Rightarrow> moment \<Rightarrow> int" where
  "aware_us zone t = (case t of Aware us \<Rightarrow> us | Naive us \<Rightarrow> zone us)"

section \<open>Settings\<close>

record homer_cfg =
  homer_base :: string
  homer_flavor :: string
  homer_profile :: string
  retentionDays :: int

definition homer_settings :: "environ \<Rightarrow> exn + homer_cfg" where
  "homer_settings env =
     (case py_int_str (env_or env ''HOMER_RETENTION_DAYS'' ''0'') of
        None \<Rightarrow> Inl (ValueError ''invalid literal for int()'')
      | Some n \<Rightarrow> Inr \<lparr>homer_base = rstrip_by (\<lambda>c. c = CHR ''/'') (env_or env ''HOMER_BASE'' []),
          homer_flavor = env_or env ''HOMER_FLAVOR'' ''v7'', homer_profile = env_or env ''HOMER_PROFILE'' ''1_call'',
          retentionDays = n\<rparr>)"

definition PRE_SECONDS :: int where "PRE_SECONDS = 60"
definition POST_SECONDS :: int where "POST_SECONDS = 60"
definition FALLBACK_MS :: int where "FALLBACK_MS = 300000"
definition LIMIT :: int where "LIMIT = 200"

section \<open>Addresses\<close>

definition ESCAPES :: "(string \<times> string) list" where
  "ESCAPES = [(''%'', ''%25''), (''#'', ''%23''), (''&'', ''%26''), ('' '', ''%20''), (''+'', ''%2B'')]"

definition escaped :: "string \<Rightarrow> string" where
  "escaped blob = foldl (\<lambda>b (c, e). str_replace c e b) blob ESCAPES"

definition search_query :: "string \<Rightarrow> pydict \<Rightarrow> int \<Rightarrow> int \<Rightarrow> pyval" where
  "search_query profile filters startMs endMs =
     PDict [(''param'', PDict [(''search'', PDict [(profile, PDict filters)]), (''limit'', PInt LIMIT)]),
            (''timestamp'', PDict [(''from'', PInt (startMs - PRE_SECONDS * 1000)), (''to'', PInt (endMs + POST_SECONDS * 1000))])]"

definition urlV7 :: "homer_cfg \<Rightarrow> pydict \<Rightarrow> int \<Rightarrow> int \<Rightarrow> string option" where
  "urlV7 cfg filters startMs endMs =
     Some (homer_base cfg @ ''/search/result?''
       @ escaped (json_dumps_compact (search_query (homer_profile cfg) filters startMs endMs)) @ ''='')"

text \<open>The filters are those of the three links below: \<open>callid\<close> is a list of one text.\<close>

definition urlV11 :: "homer_cfg \<Rightarrow> pydict \<Rightarrow> int \<Rightarrow> int \<Rightarrow> string option" where
  "urlV11 cfg filters startMs endMs =
     (case dget filters ''callid'' of
        PList (PStr callId # _) \<Rightarrow>
          Some (homer_base cfg @ ''/?call_id='' @ quote ''/'' callId @ ''&from='' @ int_str (startMs - PRE_SECONDS * 1000)
            @ ''&to='' @ int_str (endMs + POST_SECONDS * 1000) @ ''#dashboard'')
      | _ \<Rightarrow> None)"

definition BUILDERS :: "(string \<times> (homer_cfg \<Rightarrow> pydict \<Rightarrow> int \<Rightarrow> int \<Rightarrow> string option)) list" where
  "BUILDERS = [(''v7'', urlV7), (''v11'', urlV11)]"

section \<open>The window around a call\<close>

text \<open>An end at the epoch itself is false, and taken for a missing one.\<close>

definition end_ms :: "int \<Rightarrow> int option \<Rightarrow> int" where
  "end_ms startMs callEnd =
     (let e = (case callEnd of Some us \<Rightarrow> if epochMs us \<noteq> 0 then epochMs us else startMs + FALLBACK_MS | None \<Rightarrow> startMs + FALLBACK_MS)
      in if e < startMs then startMs + FALLBACK_MS else e)"

definition rotated_out :: "homer_cfg \<Rightarrow> int \<Rightarrow> int \<Rightarrow> bool" where
  "rotated_out cfg now start = (0 < retentionDays cfg \<and> start < now - retentionDays cfg * day_us)"

definition searchUrl :: "homer_cfg \<Rightarrow> (int \<Rightarrow> int) \<Rightarrow> int \<Rightarrow> pydict \<Rightarrow> moment option \<Rightarrow> moment option \<Rightarrow> string option" where
  "searchUrl cfg zone now filters callStart callEnd =
     (if homer_base cfg = [] \<or> filters = [] then None
      else case map_of BUILDERS (homer_flavor cfg) of
        None \<Rightarrow> None
      | Some builder \<Rightarrow>
          (case map_option (aware_us zone) callStart of
             None \<Rightarrow> None
           | Some start \<Rightarrow>
               if rotated_out cfg now start then None
               else builder cfg filters (epochMs start) (end_ms (epochMs start) (map_option (aware_us zone) callEnd))))"

section \<open>The links\<close>

definition given :: "string option \<Rightarrow> bool" where
  "given s = (s \<noteq> None \<and> s \<noteq> Some [])"

definition traceUrl_of :: "homer_cfg \<Rightarrow> (int \<Rightarrow> int) \<Rightarrow> int \<Rightarrow> string option \<Rightarrow> moment option \<Rightarrow> moment option \<Rightarrow> string option" where
  "traceUrl_of cfg zone now callId callStart callEnd =
     (if \<not> given callId then None
      else searchUrl cfg zone now [(''callid'', PList [opt_val callId])] callStart callEnd)"

definition roomUrl :: "homer_cfg \<Rightarrow> (int \<Rightarrow> int) \<Rightarrow> int \<Rightarrow> string option \<Rightarrow> moment option \<Rightarrow> moment option \<Rightarrow> string option" where
  "roomUrl cfg zone now toUser callStart callEnd =
     (if \<not> given toUser then None
      else searchUrl cfg zone now [(''data_header.to_user'', opt_val toUser)] callStart callEnd)"

definition endpointUrl :: "homer_cfg \<Rightarrow> (int \<Rightarrow> int) \<Rightarrow> int \<Rightarrow> string option \<Rightarrow> moment option \<Rightarrow> moment option \<Rightarrow> string option" where
  "endpointUrl cfg zone now fromUser since ending =
     (if \<not> given fromUser then None
      else searchUrl cfg zone now [(''data_header.from_user'', opt_val fromUser)] since ending)"

text \<open>\<open>uri.split("@", 1)[0].strip()\<close>.\<close>

definition before_at :: "string \<Rightarrow> string" where
  "before_at uri = str_strip (case split1 ''@'' uri of None \<Rightarrow> uri | Some (a, _) \<Rightarrow> a)"

definition userPart :: "string option \<Rightarrow> string option" where
  "userPart uri =
     (if \<not> given uri then None
      else let v = before_at (the uri); v = (if startswith (str_lower v) ''sip:'' then drop 4 v else v) in
        if v = [] then None else Some v)"

definition roomFilterValue :: "string option \<Rightarrow> string option \<Rightarrow> string option" where
  "roomFilterValue destinationUri room =
     (let user = (if given destinationUri then before_at (the destinationUri) else []) in
      if user \<noteq> [] then Some user else if given room then room else None)"

record linked_call =
  lc_call_id :: "string option"
  lc_start :: "moment option"
  lc_end :: "moment option"
  lc_destination :: "string option"
  lc_room :: "string option"

definition callLink :: "homer_cfg \<Rightarrow> (int \<Rightarrow> int) \<Rightarrow> int \<Rightarrow> linked_call \<Rightarrow> (string \<times> string) option" where
  "callLink cfg zone now call =
     (case traceUrl_of cfg zone now (lc_call_id call) (lc_start call) (lc_end call) of
        Some url \<Rightarrow> Some (url, ''exact'')
      | None \<Rightarrow>
          (case roomUrl cfg zone now (roomFilterValue (lc_destination call) (lc_room call)) (lc_start call) (lc_end call) of
             Some url \<Rightarrow> Some (url, ''room'')
           | None \<Rightarrow> None))"

end
