(* ===== verification/Homer_Props.thy ===== *)
theory Homer_Props
  imports Homer
begin

text \<open>
  What a link to a trace shows: taken apart and decoded, its address is the search that was asked, over a
  window that holds the call.
\<close>

section \<open>Escapes\<close>

lemma split_fuel_not_Nil: "split_fuel n p s \<noteq> []"
  by (cases n) (simp_all split: option.split prod.split)

lemma str_join_Cons: "ys \<noteq> [] \<Longrightarrow> str_join q (x # ys) = x @ q @ str_join q ys"
  by (cases ys) simp_all

lemma str_join_split:
  "length s \<le> n \<Longrightarrow> str_join q (split_fuel n [c] s) = concat (map (\<lambda>x. if x = c then q else [x]) s)"
proof (induction n arbitrary: s)
  case (Suc n)
  have plain: "concat (map (\<lambda>x. if x = c then q else [x]) u) = u" if "c \<notin> set u" for u using that by (induction u) auto
  show ?case
  proof (cases "c \<in> set s")
    case False
    then show ?thesis using plain by (metis split_fuel_None str_join.simps(2))
  next
    case True
    then obtain u v where s: "s = u @ c # v" "c \<notin> set u" by (meson split_list_first)
    then show ?thesis using Suc plain [OF s(2)] by (simp add: split1_char str_join_Cons [OF split_fuel_not_Nil])
  qed
qed simp

lemma str_replace_concat: "str_replace [c] q s = concat (map (\<lambda>x. if x = c then q else [x]) s)"
  by (simp add: str_replace_def str_split_def str_join_split)

definition escaped_char :: "char \<Rightarrow> string" where
  "escaped_char c = (if c \<in> set ''%#& +'' then pct c else [c])"

lemma pct_escapes:
  "pct (CHR ''%'') = ''%25''" "pct (CHR ''#'') = ''%23''" "pct (CHR ''&'') = ''%26''" "pct (CHR '' '') = ''%20''" "pct (CHR ''+'') = ''%2B''"
  by code_simp+

lemma escaped_concat: "escaped s = concat (map escaped_char s)"
proof -
  have "escaped [c] = escaped_char c" for c
    by (simp add: escaped_def ESCAPES_def escaped_char_def str_replace_concat pct_escapes)
  moreover have "escaped (a @ b) = escaped a @ escaped b" for a b
    by (simp add: escaped_def ESCAPES_def str_replace_concat)
  moreover have "escaped [] = []" by (simp add: escaped_def ESCAPES_def str_replace_concat)
  ultimately show ?thesis by (induction s) (simp, metis append_Cons append_Nil concat.simps(2) list.simps(9))
qed

lemma unquote_escaped_bytes: "unquote_bytes (concat (map escaped_char s)) = s"
proof (induction s)
  case (Cons c s)
  then show ?case by (cases "c \<in> set ''%#& +''") (simp_all add: escaped_char_def unquote_pct unquote_plain)
qed simp

lemma escaped_chars:
  assumes "x \<in> set (escaped s)"
  shows "x \<notin> set ''#& +''" and "x \<in> set s \<or> url_safe x \<or> x = CHR ''%''"
proof -
  obtain c where c: "c \<in> set s" "x \<in> set (escaped_char c)" using assms by (auto simp: escaped_concat)
  have p: "x = CHR ''%'' \<or> url_safe x" if "x \<in> set (pct c)" using that pct_chars by blast
  have safe: "\<not> url_safe y" if "y \<in> set ''#& +''" for y
    using that by (auto simp: url_safe_def is_alnum_def is_digit_def is_upper_def is_lower_def)
  show "x \<notin> set ''#& +''" "x \<in> set s \<or> url_safe x \<or> x = CHR ''%''"
    using c p safe by (auto simp: escaped_char_def split: if_splits)
qed

section \<open>The text of a search\<close>

definition plain_char :: "char \<Rightarrow> bool" where
  "plain_char c = (32 \<le> (of_char c :: nat) \<and> (of_char c :: nat) < 128)"

lemma esc_char_plain: "c' \<in> set (esc_char True c) \<Longrightarrow> plain_char c'"
proof -
  assume c': "c' \<in> set (esc_char True c)"
  have hex: "plain_char (hex_char n)" if "n < 16" for n
    using that by (simp add: plain_char_def hex_char_def)
  have "(of_char c :: nat) div 16 < 16" "(of_char c :: nat) mod 16 < 16"
    using nat_of_char_less_256 [of c] by (simp_all add: div_less_iff_less_mult)
  with c' hex show ?thesis
    by (auto simp: esc_char_def plain_char_def Let_def split: if_splits)
qed

lemma json_str_plain: "c \<in> set (json_str True s) \<Longrightarrow> plain_char c"
  using esc_char_plain by (auto simp: json_str_def plain_char_def)

lemma number_plain: "is_digit c \<or> c = CHR ''-'' \<or> c = CHR ''.'' \<Longrightarrow> plain_char c"
  by (auto simp: is_digit_def plain_char_def)

lemma int_str_plain: "c \<in> set (int_str i) \<Longrightarrow> plain_char c"
  using nat_str_digits number_plain by (auto simp: int_str_def split: if_splits)

lemma float_str_plain: "short_float x \<Longrightarrow> c \<in> set (float_str x) \<Longrightarrow> plain_char c"
  using float_str_parts [of x] nat_str_digits number_plain by (fastforce split: if_splits)

lemma compact_plain: "jsonable v \<Longrightarrow> c \<in> set (text_of compact_json v) \<Longrightarrow> plain_char c"
proof (induction v)
  case (PList xs)
  have "c \<in> set (CHR '','' # dl_gap compact_json) \<or> c \<in> set ''[]'' \<Longrightarrow> plain_char c"
    by (auto simp: compact_json_def json_dialect_def plain_char_def)
  with PList show ?case using elems_text_set [of c compact_json xs] by auto
next
  case (PDict d)
  have w: "c \<in> set (dl_write compact_json k) \<Longrightarrow> plain_char c" for k
    using json_str_plain by (simp add: compact_json_def json_dialect_def)
  have "c \<in> set ('',:'' @ dl_gap compact_json) \<or> c \<in> set ''{}'' \<Longrightarrow> plain_char c"
    by (auto simp: compact_json_def json_dialect_def plain_char_def)
  with PDict show ?case using members_text_set [of c compact_json d] w by (fastforce simp: snds.simps)
qed (use json_str_plain int_str_plain float_str_plain in
    \<open>auto simp: compact_json_def json_dialect_def json_const_def plain_char_def split: if_splits\<close>)

lemma url_plain: "url_safe c \<or> c = CHR ''%'' \<Longrightarrow> plain_char c"
  by (auto simp: url_safe_def is_alnum_def is_digit_def is_upper_def is_lower_def plain_char_def)

lemma plain_not_blank: "plain_char c \<Longrightarrow> \<not> url_blank c"
  by (auto simp: plain_char_def url_blank_def)

lemma unquote_escaped:
  assumes "\<forall>c \<in> set s. plain_char c"
  shows "unquote (escaped s) = s"
proof -
  have "utf8_ok (map of_char s)" using assms by (intro utf8_ok_ascii) (auto simp: plain_char_def)
  then show ?thesis by (simp add: unquote_def escaped_concat unquote_escaped_bytes utf8_replace_valid)
qed

section \<open>The window\<close>

lemma spacing_le: "x \<noteq> 0 \<Longrightarrow> 0 < spacing x \<and> spacing x \<le> \<bar>x\<bar> / 2 ^ 52"
proof -
  assume x: "x \<noteq> 0"
  have "(2 :: rat) ^ nat (bitlen \<lfloor>\<bar>x\<bar>\<rfloor> - 1) \<le> \<bar>x\<bar>" if "1 \<le> \<bar>x\<bar>"
  proof -
    have "0 < \<lfloor>\<bar>x\<bar>\<rfloor>" using that by (simp add: le_floor_iff)
    then have "2 ^ nat (bitlen \<lfloor>\<bar>x\<bar>\<rfloor> - 1) \<le> \<lfloor>\<bar>x\<bar>\<rfloor>" by (simp add: bitlen_bounds)
    then have "(2 :: rat) ^ nat (bitlen \<lfloor>\<bar>x\<bar>\<rfloor> - 1) \<le> of_int \<lfloor>\<bar>x\<bar>\<rfloor>"
      by (metis of_int_le_iff of_int_numeral of_int_power)
    then show ?thesis using of_int_floor_le order.trans by blast
  qed
  moreover have "1 / (2 :: rat) ^ nat (bitlen (\<lceil>1 / \<bar>x\<bar>\<rceil> - 1)) \<le> \<bar>x\<bar>" if "\<bar>x\<bar> < 1"
  proof -
    have "1 < 1 / \<bar>x\<bar>" using x that by simp
    then have "0 < \<lceil>1 / \<bar>x\<bar>\<rceil> - 1" by linarith
    then have "\<lceil>1 / \<bar>x\<bar>\<rceil> \<le> 2 ^ nat (bitlen (\<lceil>1 / \<bar>x\<bar>\<rceil> - 1))" using bitlen_bounds by fastforce
    then have "1 / \<bar>x\<bar> \<le> 2 ^ nat (bitlen (\<lceil>1 / \<bar>x\<bar>\<rceil> - 1))" by (simp add: ceiling_le_iff)
    then show ?thesis using x by (simp add: field_simps)
  qed
  ultimately show ?thesis using x by (auto simp: spacing_def divide_right_mono)
qed

lemma double_near: "\<bar>double x - x\<bar> \<le> \<bar>x\<bar> / 2 ^ 53"
proof (cases "x = 0")
  case False
  let ?u = "spacing x"
  have u: "0 < ?u" "?u \<le> \<bar>x\<bar> / 2 ^ 52" using spacing_le [OF False] by simp_all
  have "\<bar>of_int (round_even (x / ?u)) - x / ?u\<bar> * ?u \<le> 1 / 2 * ?u"
    using round_even_near u(1) by (intro mult_right_mono) simp_all
  moreover have "\<bar>of_int (round_even (x / ?u)) - x / ?u\<bar> * ?u = \<bar>of_int (round_even (x / ?u)) * ?u - x\<bar>"
  proof -
    have "(of_int (round_even (x / ?u)) - x / ?u) * ?u = of_int (round_even (x / ?u)) * ?u - x"
      using u(1) by (simp add: left_diff_distrib)
    then show ?thesis using u(1) by (metis abs_mult abs_of_pos)
  qed
  ultimately show ?thesis using False u(2) by (simp add: double_def)
qed (simp add: double_def)

text \<open>The instants a datetime can be.\<close>

definition datable :: "int \<Rightarrow> bool" where
  "datable us = (0 \<le> us \<and> us < 3652059 * day_us)"

lemma trunc_near: "\<bar>of_int (trunc r) - r\<bar> < 1"
  unfolding trunc_def by (simp, linarith)

lemma epochMs_near:
  assumes "datable us"
  shows "\<bar>1000 * epochMs us - (us - unix_epoch)\<bar> < 2000"
proof -
  define s :: rat where "s = of_int (us - unix_epoch) / of_int second_us"
  have "\<bar>us - unix_epoch\<bar> \<le> 10 ^ 18" using assms by (simp add: datable_def unix_epoch_def day_us_def second_us_def abs_le_iff)
  then have "\<bar>of_int (us - unix_epoch)\<bar> \<le> (10 :: rat) ^ 18"
    by (metis of_int_abs of_int_le_iff of_int_numeral of_int_power)
  then have s: "\<bar>s\<bar> \<le> 10 ^ 12" by (simp add: s_def second_us_def)
  have a: "\<bar>double s - s\<bar> \<le> 1 / 5000" using double_near [of s] s by (auto simp: divide_le_eq elim!: order_trans)
  have "\<bar>double s\<bar> \<le> \<bar>double s - s\<bar> + \<bar>s\<bar>" by (simp add: abs_if)
  with a s have "\<bar>double s * 1000\<bar> \<le> 1000000000000001" unfolding abs_mult by simp
  then have "\<bar>double (double s * 1000) - double s * 1000\<bar> \<le> 1 / 4" using double_near [of "double s * 1000"] by simp
  with a have "\<bar>double (double s * 1000) - s * 1000\<bar> < 1 / 2" by linarith
  then have "\<bar>of_int (epochMs us) - s * 1000\<bar> < 2" using trunc_near [of "double (double s * 1000)"]
    unfolding epochMs_def s_def [symmetric] by linarith
  then have "\<bar>1000 * of_int (epochMs us) - s * 1000000\<bar> < 2000" by linarith
  moreover have "s * 1000000 = of_int (us - unix_epoch)" by (simp add: s_def second_us_def)
  ultimately have "\<bar>of_int (1000 * epochMs us - (us - unix_epoch))\<bar> < (2000 :: rat)" by simp
  then show ?thesis by linarith
qed

lemma end_ms_after:
  assumes "- FALLBACK_MS \<le> s"
  shows "s \<le> end_ms s e" and "e = Some us \<Longrightarrow> epochMs us \<le> end_ms s e"
  using assms by (auto simp: end_ms_def FALLBACK_MS_def Let_def)

section \<open>The link of a call\<close>

text \<open>What Homer reads: the query of the address, decoded, without the sign at its end.\<close>

definition read_search :: "(string \<Rightarrow> bool) \<Rightarrow> string \<Rightarrow> pyval option" where
  "read_search brackets url =
     (case urlsplit brackets url of
        Inr p \<Rightarrow> if up_query p \<noteq> [] \<and> last (up_query p) = CHR ''='' then json_loads (unquote (butlast (up_query p))) else None
      | Inl _ \<Rightarrow> None)"

definition a_search :: "string \<Rightarrow> pydict \<Rightarrow> int \<Rightarrow> int \<Rightarrow> pyval" where
  "a_search profile filters a b =
     PDict [(''param'', PDict [(''search'', PDict [(profile, PDict filters)]), (''limit'', PInt LIMIT)]),
            (''timestamp'', PDict [(''from'', PInt a), (''to'', PInt b)])]"

lemma url_ok_extended:
  assumes base: "url_ok B p" and tail: "hd t = CHR ''/''" "t \<noteq> []" "\<And>c. c \<in> set t \<Longrightarrow> url_safe c \<or> c = CHR ''/''"
    and q: "\<And>c. c \<in> set q \<Longrightarrow> plain_char c \<and> c \<noteq> CHR ''#''"
  shows "url_ok B (p\<lparr>up_path := up_path p @ t, up_query := q\<rparr>)"
proof -
  have no: "\<not> url_safe (CHR ''?'')" "\<not> url_safe (CHR ''#'')"
    by (simp_all add: url_safe_def is_alnum_def is_digit_def is_upper_def is_lower_def)
  have t: "CHR ''?'' \<notin> set t" "CHR ''#'' \<notin> set t" using tail(3) [of "CHR ''?''"] tail(3) [of "CHR ''#''"] no by auto
  have tb: "\<not> url_blank c" if "c \<in> set t" for c
    using tail(3) [OF that] plain_not_blank url_plain by (auto simp: plain_char_def url_blank_def)
  have qb: "CHR ''#'' \<notin> set q" "\<And>c. c \<in> set q \<Longrightarrow> \<not> url_blank c" using q plain_not_blank by blast+
  have path: "hd (up_path p @ t) = CHR ''/''" using base tail(1,2) by (cases "up_path p") (simp_all add: url_ok_def)
  have "\<forall>c \<in> set (up_netloc p @ up_path p @ up_query p @ up_fragment p). \<not> url_blank c"
    using base unfolding url_ok_def list_all_iff by (elim conjE)
  then have blank: "list_all (\<lambda>c. \<not> url_blank c) (up_netloc p @ (up_path p @ t) @ q @ up_fragment p)"
    using tb qb(2) by (simp only: list_all_append) (simp add: list_all_iff)
  have "CHR ''?'' \<notin> set (up_path p @ t)" "CHR ''#'' \<notin> set (up_path p @ t)" using base t by (simp_all add: url_ok_def)
  then show ?thesis using base path qb(1) blank by (simp only: url_ok_def url_parts.simps) simp
qed

lemma read_search_link:
  assumes base: "url_ok B p" "up_query p = []" "up_fragment p = []" and filters: "jsonable (PDict filters)"
    and cfg: "homer_base cfg = urlunsplit p" and link: "urlV7 cfg filters s e = Some url"
  shows "read_search B url = Some (a_search (homer_profile cfg) filters (s - PRE_SECONDS * 1000) (e + POST_SECONDS * 1000))"
proof -
  define v where "v = search_query (homer_profile cfg) filters s e"
  define q where "q = escaped (json_dumps_compact v)"
  define t where "t = ''/search/result''"
  let ?p = "p\<lparr>up_path := up_path p @ t, up_query := q @ ''=''\<rparr>"
  have v: "jsonable v" using filters by (simp add: search_query_def v_def)
  then have plain: "\<forall>c \<in> set (json_dumps_compact v). plain_char c"
    using compact_plain by (simp add: json_dumps_compact_def)
  have "plain_char c \<and> c \<noteq> CHR ''#''" if "c \<in> set (q @ ''='')" for c
  proof (cases "c \<in> set q")
    case True
    then have "c \<notin> set ''#& +''" "c \<in> set (json_dumps_compact v) \<or> url_safe c \<or> c = CHR ''%''"
      using escaped_chars [of c "json_dumps_compact v"] unfolding q_def by blast+
    then show ?thesis using plain url_plain by (metis list.set_intros(1))
  next
    case False
    with that show ?thesis by (simp add: plain_char_def)
  qed
  moreover have "hd t = CHR ''/''" "t \<noteq> []" by (simp_all add: t_def)
  moreover have "list_all (\<lambda>c. url_safe c \<or> c = CHR ''/'') t" unfolding t_def by code_simp
  then have "\<And>c. c \<in> set t \<Longrightarrow> url_safe c \<or> c = CHR ''/''" by (simp add: list_all_iff)
  ultimately have ok: "url_ok B ?p" by (intro url_ok_extended base(1))
  have "url = urlunsplit p @ t @ CHR ''?'' # q @ ''=''"
    using link by (simp add: urlV7_def cfg t_def q_def v_def)
  also have "\<dots> = urlunsplit ?p"
    by (simp add: urlunsplit_text [OF ok] urlunsplit_text [OF base(1)] tail_text_def with_mark_def base(2,3))
  finally have "urlsplit B url = Inr ?p" using urlsplit_urlunsplit [OF ok] by simp
  moreover have "json_loads (unquote q) = Some v" by (simp add: q_def unquote_escaped [OF plain] json_loads_compact [OF v])
  ultimately show ?thesis by (simp add: read_search_def a_search_def search_query_def v_def)
qed

lemma searchUrl_v7:
  assumes "searchUrl cfg zone now filters callStart callEnd = Some url" and "homer_flavor cfg = ''v7''"
  shows "\<exists>t. callStart = Some t
    \<and> urlV7 cfg filters (epochMs (aware_us zone t)) (end_ms (epochMs (aware_us zone t)) (map_option (aware_us zone) callEnd)) = Some url"
  using assms by (cases callStart) (simp_all add: searchUrl_def BUILDERS_def split: if_splits)

text \<open>What is searched for a call: its identifier, or else its room.\<close>

definition link_filters :: "linked_call \<Rightarrow> pydict" where
  "link_filters call =
     (if given (lc_call_id call) then [(''callid'', PList [opt_val (lc_call_id call)])]
      else [(''data_header.to_user'', opt_val (roomFilterValue (lc_destination call) (lc_room call)))])"

lemma searchUrl_other_filters:
  assumes "homer_flavor cfg = ''v7''" "f \<noteq> []" "g \<noteq> []"
  shows "searchUrl cfg zone now f t0 t1 = None \<longleftrightarrow> searchUrl cfg zone now g t0 t1 = None"
  using assms by (simp add: searchUrl_def BUILDERS_def urlV7_def split: option.split)

lemma callLink_search:
  assumes "callLink cfg zone now call = Some (url, kind)" and v7: "homer_flavor cfg = ''v7''"
  shows "searchUrl cfg zone now (link_filters call) (lc_start call) (lc_end call) = Some url
    \<and> kind = (if given (lc_call_id call) then ''exact'' else ''room'')"
proof (cases "traceUrl_of cfg zone now (lc_call_id call) (lc_start call) (lc_end call)")
  case None
  then have room: "roomUrl cfg zone now (roomFilterValue (lc_destination call) (lc_room call)) (lc_start call) (lc_end call) = Some url"
      "kind = ''room''"
    using assms by (auto simp: callLink_def split: option.splits)
  then have search: "searchUrl cfg zone now [(''data_header.to_user'', opt_val (roomFilterValue (lc_destination call) (lc_room call)))]
      (lc_start call) (lc_end call) = Some url"
    by (simp add: roomUrl_def split: if_splits)
  have "\<not> given (lc_call_id call)"
    using None search searchUrl_other_filters [OF v7, of "[(''callid'', PList [opt_val (lc_call_id call)])]"
          "[(''data_header.to_user'', opt_val (roomFilterValue (lc_destination call) (lc_room call)))]"]
    by (auto simp: traceUrl_of_def)
  then show ?thesis using room search by (simp add: link_filters_def)
next
  case (Some u)
  then show ?thesis using assms by (auto simp: callLink_def traceUrl_of_def link_filters_def split: if_splits)
qed

text \<open>
  C22. The button beside a call opens that call: taken apart, unescaped and read as JSON, the address the
  console gives is a search for the call's identifier, or for its room when it has none, in a window
  that holds the call with 59 seconds on either side, floats included; and the button says which.
\<close>
theorem link_searches_the_call:
  assumes base: "url_ok B p" "up_query p = []" "up_fragment p = []" "homer_base cfg = urlunsplit p" and v7: "homer_flavor cfg = ''v7''"
    and link: "callLink cfg zone now call = Some (url, kind)"
    and start: "lc_start call = Some t0" "datable (aware_us zone t0)" "unix_epoch \<le> aware_us zone t0"
  shows "\<exists>f t. read_search B url = Some (a_search (homer_profile cfg) (link_filters call) f t)
    \<and> kind = (if given (lc_call_id call) then ''exact'' else ''room'')
    \<and> 1000 * f \<le> (aware_us zone t0 - unix_epoch) - 59 * second_us
    \<and> (\<forall>e. lc_end call = Some e \<and> datable (aware_us zone e) \<longrightarrow> (aware_us zone e - unix_epoch) + 59 * second_us \<le> 1000 * t)"
proof -
  let ?s = "epochMs (aware_us zone t0)" and ?e = "map_option (aware_us zone) (lc_end call)"
  have k: "kind = (if given (lc_call_id call) then ''exact'' else ''room'')"
    and url: "urlV7 cfg (link_filters call) ?s (end_ms ?s ?e) = Some url"
    using callLink_search [OF link v7] searchUrl_v7 [OF _ v7] start(1) by fastforce+
  have "jsonable (PDict (link_filters call))"
    by (cases "lc_call_id call"; cases "roomFilterValue (lc_destination call) (lc_room call)") (simp_all add: link_filters_def opt_val_def)
  note read = read_search_link [OF base(1-3) this base(4) url]
  have near: "\<bar>1000 * ?s - (aware_us zone t0 - unix_epoch)\<bar> < 2000" by (rule epochMs_near [OF start(2)])
  then have "- FALLBACK_MS \<le> ?s" using start(3) by (simp add: FALLBACK_MS_def)
  then have "(aware_us zone e - unix_epoch) + 59 * second_us \<le> 1000 * (end_ms ?s ?e + POST_SECONDS * 1000)"
    if "lc_end call = Some e" "datable (aware_us zone e)" for e
    using end_ms_after(2) [of ?s ?e "aware_us zone e"] epochMs_near [OF that(2)] that(1)
    by (simp add: POST_SECONDS_def second_us_def)
  moreover have "1000 * (?s - PRE_SECONDS * 1000) \<le> (aware_us zone t0 - unix_epoch) - 59 * second_us"
    using near by (simp add: PRE_SECONDS_def second_us_def)
  ultimately show ?thesis using read k by blast
qed

text \<open>A call of 2023-11-14 whose identifier has a space and a plus in it.\<close>

definition wit_homer :: homer_cfg where
  "wit_homer = \<lparr>homer_base = ''https://homer.org'', homer_flavor = ''v7'', homer_profile = ''1_call'', retentionDays = 0\<rparr>"

definition wit_linked :: linked_call where
  "wit_linked = \<lparr>lc_call_id = Some ''a b+c'', lc_start = Some (Aware 63835596800000000), lc_end = None, lc_destination = None, lc_room = None\<rparr>"

definition wit_homer_parts :: url_parts where
  "wit_homer_parts = \<lparr>up_scheme = ''https'', up_netloc = ''homer.org'', up_path = [], up_query = [], up_fragment = []\<rparr>"

lemma wit_homer_base: "url_ok B wit_homer_parts" "homer_base wit_homer = urlunsplit wit_homer_parts"
  by (simp_all add: wit_homer_def wit_homer_parts_def urlunsplit_def url_ok_def scheme_char_def is_alnum_def is_lower_def is_upper_def
      is_digit_def netloc_end_def url_blank_def str_lower_def char_lower_def)

lemma link_searches_the_call_witness:
  "\<exists>url f t. callLink wit_homer id 0 wit_linked = Some (url, ''exact'')
    \<and> read_search (\<lambda>_. True) url = Some (a_search ''1_call'' [(''callid'', PList [PStr ''a b+c''])] f t)"
proof -
  obtain url where link: "callLink wit_homer id 0 wit_linked = Some (url, ''exact'')"
    by (simp add: callLink_def traceUrl_of_def given_def wit_linked_def wit_homer_def searchUrl_def BUILDERS_def urlV7_def rotated_out_def)
  have start: "lc_start wit_linked = Some (Aware 63835596800000000)" "datable (aware_us id (Aware 63835596800000000))"
      "unix_epoch \<le> aware_us id (Aware 63835596800000000)"
    by (simp_all add: wit_linked_def datable_def aware_us_def unix_epoch_def day_us_def second_us_def)
  have parts: "up_query wit_homer_parts = []" "up_fragment wit_homer_parts = []" "homer_flavor wit_homer = ''v7''"
    by (simp_all add: wit_homer_parts_def wit_homer_def)
  from link_searches_the_call [OF wit_homer_base(1) parts(1,2) wit_homer_base(2) parts(3) link start]
  obtain f t where "read_search (\<lambda>_. True) url = Some (a_search (homer_profile wit_homer) (link_filters wit_linked) f t)" by blast
  moreover have "homer_profile wit_homer = ''1_call''" "link_filters wit_linked = [(''callid'', PList [PStr ''a b+c''])]"
    by (simp_all add: wit_homer_def wit_linked_def link_filters_def given_def opt_val_def)
  ultimately show ?thesis using link by (intro exI conjI) simp_all
qed

end
