(* ===== verification/Call_Search.thy ===== *)
theory Call_Search
  imports Call_Store Homer Periods
begin

text \<open>
  The call log of the console (\<open>manager/api/calls.py\<close>, with \<open>likePattern\<close> of \<open>manager/db.py\<close> and the
  instants of \<open>manager/api/periods.py\<close>): the search and its pages, one call's detail and its payload as
  a file. The rows are those of Call_Store; a call's unit is what the trigger gave it and its payload
  what was pushed, both read from columns that are arguments here. What PostgreSQL evaluates is written
  out: \<open>ILIKE\<close> with its escapes, the filters, a window count and a page of an ordered result. The order
  of rows that start together is the database's choice, and the case folding of a letter its collation's:
  \<open>low\<close> folds one character.
\<close>

section \<open>A search box\<close>

definition BACKSLASH :: char where
  "BACKSLASH = CHR 0x5C"

definition likePattern :: "string \<Rightarrow> string" where
  "likePattern text' =
     (let escaped = str_replace [BACKSLASH] [BACKSLASH, BACKSLASH] text';
          escaped = str_replace ''%'' (BACKSLASH # ''%'') escaped;
          escaped = str_replace ''_'' (BACKSLASH # ''_'') escaped
      in ''%'' @ escaped @ ''%'')"

text \<open>\<open>LIKE\<close>; a pattern that ends with its escape character matches nothing here.\<close>

fun like :: "string \<Rightarrow> string \<Rightarrow> bool" where
  "like [] s = (s = [])"
| "like (c # p) s =
     (if c = CHR ''%'' then like p s \<or> (case s of [] \<Rightarrow> False | _ # t \<Rightarrow> like (c # p) t)
      else if c = BACKSLASH then
        (case p of [] \<Rightarrow> False | d # p' \<Rightarrow> (case s of [] \<Rightarrow> False | x # t \<Rightarrow> x = d \<and> like p' t))
      else case s of [] \<Rightarrow> False | x # t \<Rightarrow> (c = CHR ''_'' \<or> x = c) \<and> like p t)"

definition ilike :: "(char \<Rightarrow> char) \<Rightarrow> string \<Rightarrow> string option \<Rightarrow> bool" where
  "ilike low p s = (case s of None \<Rightarrow> False | Some t \<Rightarrow> like (map low p) (map low t))"

text \<open>The columns the search box looks into: \<open>SEARCHED\<close>.\<close>

definition searched :: "(stored_call \<Rightarrow> string option) \<Rightarrow> stored_call \<Rightarrow> string option list" where
  "searched unit c =
     (let r = sc_row c; m = cr_media r in
      [Some (sc_call_id c), cr_room r, cr_source_uri r, cr_source_number r, cr_source_name r, cr_peer_display_name r,
       cr_gw_alias r, unit c, md_peer_user_agent m, md_gw_version m, md_baresip_patch m, md_video_codec m, md_audio_codec m])"

section \<open>Filters\<close>

definition OUTCOMES :: "string list" where
  "OUTCOMES = [''not_established'', ''completed'', ''failed'', ''ivr_only'']"

definition VIDEO_STATES :: "string list" where
  "VIDEO_STATES = [''ok'', ''oneway'', ''stalled'', ''no_picture'', ''unknown'']"

definition NO_REASON :: string where
  "NO_REASON = ''(aucune cause)''"

definition choices :: "string option \<Rightarrow> string list \<Rightarrow> string \<Rightarrow> exn + string list" where
  "choices value' allowed what =
     (let picked = filter (\<lambda>item. item \<noteq> []) (str_split '','' (case value' of None \<Rightarrow> [] | Some v \<Rightarrow> v)) in
      if \<exists>item \<in> set picked. item \<notin> set allowed then Inl (HTTPException 400 (''unknown '' @ what)) else Inr picked)"

datatype journal_clause = User_Call | Reason string | Outcomes "string list" | Videos "string list" bool

definition journal_sql :: "journal_clause \<Rightarrow> string" where
  "journal_sql c =
     (case c of
        User_Call \<Rightarrow> ''is_user_call(main_app)''
      | Reason _ \<Rightarrow> ''COALESCE(NULLIF(close_reason, '' @ [CHR 0x27, CHR 0x27] @ ''), %s) = %s''
      | Outcomes _ \<Rightarrow> ''outcome = ANY(%s)''
      | Videos known unknown \<Rightarrow>
          ''('' @ str_join '' OR '' ((if known \<noteq> [] then [''video_state = ANY(%s)''] else []) @ (if unknown then [''video_state IS NULL''] else [])) @ '')'')"

definition journal_params :: "journal_clause \<Rightarrow> pyval list" where
  "journal_params c =
     (case c of
        User_Call \<Rightarrow> []
      | Reason r \<Rightarrow> [PStr NO_REASON, PStr r]
      | Outcomes os \<Rightarrow> [PList (map PStr os)]
      | Videos known _ \<Rightarrow> if known \<noteq> [] then [PList (map PStr known)] else [])"

definition journal_clauses :: "string option \<Rightarrow> string list \<Rightarrow> string list \<Rightarrow> journal_clause list" where
  "journal_clauses reason outcomes videos =
     (let filters = (case reason of None \<Rightarrow> [] | Some r \<Rightarrow> [Reason r])
            @ (if outcomes \<noteq> [] then [Outcomes outcomes] else [])
            @ (if videos \<noteq> [] then [Videos (filter (\<lambda>v. v \<noteq> ''unknown'') videos) (''unknown'' \<in> set videos)] else [])
      in if filters \<noteq> [] then User_Call # filters else [])"

definition exactFilters :: "string option \<Rightarrow> string list \<Rightarrow> string list \<Rightarrow> string \<times> pyval list" where
  "exactFilters reason outcomes videos =
     (let cs = journal_clauses reason outcomes videos in
      (concat (map (\<lambda>c. '' AND '' @ journal_sql c) cs), concat (map journal_params cs)))"

text \<open>What PostgreSQL makes of a clause: a comparison with \<open>NULL\<close> keeps no row.\<close>

definition is_user_call :: "string option \<Rightarrow> bool" where
  "is_user_call app = (case app of None \<Rightarrow> True | Some a \<Rightarrow> a \<notin> {''recording'', ''streaming''})"

definition clause_holds :: "stored_call \<Rightarrow> journal_clause \<Rightarrow> bool" where
  "clause_holds c clause =
     (case clause of
        User_Call \<Rightarrow> is_user_call (cr_main_app (sc_row c))
      | Reason r \<Rightarrow> (case cr_close_reason (sc_row c) of None \<Rightarrow> NO_REASON | Some t \<Rightarrow> if t = [] then NO_REASON else t) = r
      | Outcomes os \<Rightarrow> sc_outcome c \<in> set os
      | Videos known unknown \<Rightarrow>
          (case sm_state (md_summary (cr_media (sc_row c))) of None \<Rightarrow> unknown | Some v \<Rightarrow> v \<in> set known))"

section \<open>The window\<close>

text \<open>\<open>datetime.combine\<close> of a day with its first and its last instant; \<open>zone\<close> is the local time zone.\<close>

record clockwork =
  cw_zone :: "int \<Rightarrow> int"
  cw_today :: date

definition parseInstant :: "(int \<Rightarrow> int) \<Rightarrow> string option \<Rightarrow> exn + int option" where
  "parseInstant zone value' =
     (case value' of
        None \<Rightarrow> Inr None
      | Some v \<Rightarrow>
          if v = [] then Inr None
          else (case from_iso (str_replace ''Z'' ''+00:00'' v) of
                  None \<Rightarrow> Inl (HTTPException 400 (''invalid datetime: '' @ v))
                | Some (us, None) \<Rightarrow> Inr (Some (aware_us zone (Naive us)))
                | Some (us, Some off) \<Rightarrow> Inr (Some (aware_us zone (Aware (us - off))))))"

definition callWindow :: "clockwork \<Rightarrow> string option \<Rightarrow> string option \<Rightarrow> exn + (int \<times> int)" where
  "callWindow W start end' =
     bindE (parseInstant (cw_zone W) start) (\<lambda>s.
     bindE (parseInstant (cw_zone W) end') (\<lambda>e.
     (let midnight = (date_ord (cw_today W) - 1) * day_us;
          since = (case s of None \<Rightarrow> aware_us (cw_zone W) (Naive midnight) | Some t \<Rightarrow> t);
          ending = (case e of None \<Rightarrow> aware_us (cw_zone W) (Naive (midnight + day_us - 1)) | Some t \<Rightarrow> t)
      in if ending < since then Inl (HTTPException 400 ''end is before start'') else Inr (since, ending))))"

section \<open>The search\<close>

text \<open>\<open>text.rsplit(")", 1)[1]\<close> is what follows the last parenthesis.\<close>

definition terminalLabel :: "string option \<Rightarrow> string option" where
  "terminalLabel userAgent =
     (let t = str_strip (case userAgent of None \<Rightarrow> [] | Some u \<Rightarrow> u) in
      if t = [] then None
      else let after = (if CHR '')'' \<in> set t then str_strip (rev (takeWhile (\<lambda>c. c \<noteq> CHR '')'') (rev t))) else []) in
        Some (if after \<noteq> [] then after else hd (str_words t)))"

definition listed :: "stored_call list \<Rightarrow> (stored_call \<times> string option) list" where
  "listed rows = map (\<lambda>c. (c, terminalLabel (md_peer_user_agent (cr_media (sc_row c))))) rows"

record journal_query =
  jq_start :: "string option"
  jq_end :: "string option"
  jq_q :: string
  jq_reason :: "string option"
  jq_outcome :: "string option"
  jq_video :: "string option"
  jq_limit :: int
  jq_offset :: int

record journal_page =
  jp_total :: int
  jp_limit :: int
  jp_offset :: int
  jp_window :: "int \<times> int"
  jp_calls :: "(stored_call \<times> string option) list"

definition short_enough :: "nat \<Rightarrow> string option \<Rightarrow> bool" where
  "short_enough n s = (case s of None \<Rightarrow> True | Some t \<Rightarrow> length t \<le> n)"

text \<open>The bounds FastAPI checks before the route runs.\<close>

definition valid_query :: "journal_query \<Rightarrow> bool" where
  "valid_query j =
     (length (jq_q j) \<le> 120 \<and> short_enough 300 (jq_reason j) \<and> short_enough 120 (jq_outcome j) \<and> short_enough 120 (jq_video j)
      \<and> 1 \<le> jq_limit j \<and> jq_limit j \<le> 500 \<and> 0 \<le> jq_offset j)"

text \<open>A number sign and one to eighteen digits, once stripped.\<close>

definition call_number :: "string \<Rightarrow> int option" where
  "call_number q =
     (case str_strip q of
        c # ds \<Rightarrow> if c = CHR ''#'' \<and> 1 \<le> length ds \<and> length ds \<le> 18 \<and> list_all is_digit ds then Some (int (digits_val ds)) else None
      | [] \<Rightarrow> None)"

definition row_found :: "(char \<Rightarrow> char) \<Rightarrow> (stored_call \<Rightarrow> string option) \<Rightarrow> string \<Rightarrow> int \<times> int \<Rightarrow> journal_clause list \<Rightarrow> stored_call \<Rightarrow> bool" where
  "row_found low unit q w clauses c =
     (fst w \<le> sc_start c \<and> sc_start c \<le> snd w
      \<and> (q = [] \<or> list_ex (ilike low (likePattern q)) (searched unit c))
      \<and> list_all (clause_holds c) clauses)"

definition page_of :: "int \<Rightarrow> int \<Rightarrow> 'a list \<Rightarrow> 'a list" where
  "page_of limit offset rows = take (nat limit) (drop (nat offset) rows)"

text \<open>\<open>order\<close> is how the database orders the rows of this query; the count stands in each row of the page.\<close>

definition searchCalls :: "(char \<Rightarrow> char) \<Rightarrow> (stored_call list \<Rightarrow> stored_call list) \<Rightarrow> (stored_call \<Rightarrow> string option) \<Rightarrow> clockwork \<Rightarrow>
    journal_query \<Rightarrow> call_db \<Rightarrow> exn + journal_page" where
  "searchCalls low order unit W j db =
     (if \<not> valid_query j then Inl (HTTPException 422 ''validation'')
      else bindE (choices (jq_outcome j) OUTCOMES ''outcome'') (\<lambda>outcomes.
           bindE (choices (jq_video j) VIDEO_STATES ''video state'') (\<lambda>videos.
           bindE (callWindow W (jq_start j) (jq_end j)) (\<lambda>w.
             (case call_number (jq_q j) of
                Some n \<Rightarrow>
                  (let rows = filter (\<lambda>c. sc_id c = n) (db_calls db) in
                   Inr \<lparr>jp_total = int (length rows), jp_limit = jq_limit j, jp_offset = 0, jp_window = w, jp_calls = listed rows\<rparr>)
              | None \<Rightarrow>
                  (let found = order (filter (row_found low unit (jq_q j) w (journal_clauses (jq_reason j) outcomes videos)) (db_calls db));
                       rows = page_of (jq_limit j) (jq_offset j) found
                   in Inr \<lparr>jp_total = (if rows \<noteq> [] then int (length found) else 0), jp_limit = jq_limit j, jp_offset = jq_offset j,
                           jp_window = w, jp_calls = listed rows\<rparr>))))))"

section \<open>One call\<close>

record call_detail =
  cd_call :: stored_call
  cd_link :: "(string \<times> string) option"
  cd_terminal :: "string option"
  cd_rates :: "interval list"
  cd_media :: "media_row list"

definition linked :: "stored_call \<Rightarrow> linked_call" where
  "linked c =
     \<lparr>lc_call_id = Some (sc_call_id c), lc_start = Some (Aware (sc_start c)), lc_end = map_option Aware (cr_call_end (sc_row c)),
      lc_destination = cr_destination_uri (sc_row c), lc_room = cr_room (sc_row c)\<rparr>"

text \<open>\<open>(v or {}).get(k)\<close>.\<close>

definition get_or_empty :: "pyval \<Rightarrow> string \<Rightarrow> exn + pyval" where
  "get_or_empty v k = py_get (py_or v (PDict [])) k"

definition raw_samples :: "pyval \<Rightarrow> exn + pyval" where
  "raw_samples raw =
     bindE (get_or_empty raw ''call'') (\<lambda>call.
     bindE (get_or_empty call ''mediaStats'') (\<lambda>stats.
       Inr (case py_or stats (PDict []) of PDict d \<Rightarrow> dget d ''samples'' | _ \<Rightarrow> PNone)))"

definition call_rates :: "pyval \<Rightarrow> exn + interval list" where
  "call_rates raw = bindE (raw_samples raw) frameRates"

text \<open>\<open>ORDER BY media, stream_index, direction\<close>: \<open>text_key\<close> is the collation's order of texts.\<close>

definition media_of :: "(string \<Rightarrow> int) \<Rightarrow> int \<Rightarrow> call_db \<Rightarrow> media_row list" where
  "media_of text_key pk db =
     sort_key (\<lambda>r. text_key (mr_media r)) (sort_key mr_index (sort_key (\<lambda>r. text_key (mr_direction r))
       (map snd (filter (\<lambda>p. fst p = pk) (db_media db)))))"

definition callDetail :: "homer_cfg \<Rightarrow> (int \<Rightarrow> int) \<Rightarrow> int \<Rightarrow> (string \<Rightarrow> int) \<Rightarrow> (int \<Rightarrow> pyval) \<Rightarrow> int \<Rightarrow> call_db \<Rightarrow> exn + call_detail" where
  "callDetail cfg zone now text_key raw pk db =
     (case find (\<lambda>c. sc_id c = pk) (db_calls db) of
        None \<Rightarrow> Inl (HTTPException 404 ''Call not found'')
      | Some c \<Rightarrow>
          bindE (call_rates (raw pk)) (\<lambda>rates.
            Inr \<lparr>cd_call = c, cd_link = callLink cfg zone now (linked c),
                 cd_terminal = terminalLabel (md_peer_user_agent (cr_media (sc_row c))),
                 cd_rates = rates, cd_media = media_of text_key pk db\<rparr>))"

section \<open>The payload as a file\<close>

definition header_safe :: "char \<Rightarrow> bool" where
  "header_safe c = (is_alnum c \<or> c \<in> {CHR ''.'', CHR ''_'', CHR ''-''})"

text \<open>\<open>strftime("%Y%m%d-%H%M%S")\<close> of an instant in the session's time zone; \<open>wall\<close> gives its local time.\<close>

definition stamp_text :: "int \<Rightarrow> string" where
  "stamp_text us =
     (let d = date_of_ord (us div day_us + 1); sec = us mod day_us div second_us in
      int_str (d_year d) @ pad_nat 2 (nat (d_month d)) @ pad_nat 2 (nat (d_day d)) @ ''-''
      @ pad_nat 2 (nat (sec div 3600)) @ pad_nat 2 (nat (sec mod 3600 div 60)) @ pad_nat 2 (nat (sec mod 60)))"

definition file_id :: "string \<Rightarrow> string" where
  "file_id callId = take 64 (map (\<lambda>c. if header_safe c then c else CHR ''_'') callId)"

definition raw_name :: "(int \<Rightarrow> int) \<Rightarrow> stored_call \<Rightarrow> string" where
  "raw_name wall c =
     str_join ''-'' (filter (\<lambda>p. p \<noteq> []) [''call'', int_str (sc_id c), stamp_text (wall (sc_start c)), file_id (sc_call_id c)]) @ ''.json''"

definition disposition :: "string \<Rightarrow> string" where
  "disposition name = ''attachment; filename='' @ [CHR 0x22] @ name @ [CHR 0x22]"

definition callRaw :: "(int \<Rightarrow> int) \<Rightarrow> (int \<Rightarrow> pyval) \<Rightarrow> int \<Rightarrow> call_db \<Rightarrow> exn + (pyval \<times> string)" where
  "callRaw wall raw pk db =
     (case find (\<lambda>c. sc_id c = pk) (db_calls db) of
        None \<Rightarrow> Inl (HTTPException 404 ''Call not found'')
      | Some c \<Rightarrow> Inr (raw pk, disposition (raw_name wall c)))"

end
