(* ===== verification/Call_Search_Props.thy ===== *)
theory Call_Search_Props
  imports Call_Search Homer_Props Ingest_Props Rtcstats_Props "HOL-Library.Multiset"
begin

text \<open>
  The search of the call log: what the box matches, what the filters keep, and pages that give every
  call found once; a call that was pushed opens in its detail; and the name of a payload's file cannot
  break the header it stands in.
\<close>

section \<open>The search box\<close>

definition like_mark :: "char \<Rightarrow> bool" where
  "like_mark c = (c = BACKSLASH \<or> c = CHR ''%'' \<or> c = CHR ''_'')"

definition like_char :: "char \<Rightarrow> string" where
  "like_char c = (if like_mark c then [BACKSLASH, c] else [c])"

lemma likePattern_concat: "likePattern q = ''%'' @ concat (map like_char q) @ ''%''"
proof -
  define e where "e q = str_replace ''_'' (BACKSLASH # ''_'') (str_replace ''%'' (BACKSLASH # ''%'') (str_replace [BACKSLASH] [BACKSLASH, BACKSLASH] q))" for q
  have "e [c] = like_char c" for c
    by (simp add: e_def str_replace_concat like_char_def like_mark_def BACKSLASH_def)
  moreover have "e (a @ b) = e a @ e b" for a b by (simp add: e_def str_replace_concat)
  moreover have "e [] = []" by (simp add: e_def str_replace_concat)
  ultimately have "e q = concat (map like_char q)" by (induction q) (simp, metis append_Cons append_Nil concat.simps(2) list.simps(9))
  then show ?thesis by (simp add: e_def likePattern_def Let_def)
qed

text \<open>A case folding leaves the three marks alone and makes no other character one.\<close>

definition folds_letters :: "(char \<Rightarrow> char) \<Rightarrow> bool" where
  "folds_letters low = (\<forall>c. if like_mark c then low c = c else \<not> like_mark (low c))"

lemma like_any: "like (CHR ''%'' # p) s \<longleftrightarrow> (\<exists>a b. s = a @ b \<and> like p b)"
proof (induction s)
  case (Cons x s)
  have "(\<exists>a b. x # s = a @ b \<and> like p b) \<longleftrightarrow> like p (x # s) \<or> (\<exists>a b. s = a @ b \<and> like p b)"
    by (metis append_Cons append_Nil append_eq_Cons_conv)
  with Cons show ?case by simp
qed simp

lemma like_text:
  assumes low: "folds_letters low"
  shows "like (concat (map (map low) (map like_char q)) @ p) s \<longleftrightarrow> (\<exists>t. s = map low q @ t \<and> like p t)"
proof (induction q arbitrary: s)
  case (Cons c q)
  show ?case
  proof (cases "like_mark c")
    case True
    then have "low c = c" "low BACKSLASH = BACKSLASH" using low unfolding folds_letters_def like_mark_def by metis+
    with True Cons show ?thesis by (cases s) (auto simp: like_char_def BACKSLASH_def)
  next
    case False
    then have "\<not> like_mark (low c)" using low by (simp add: folds_letters_def)
    with False Cons show ?thesis by (cases s) (auto simp: like_char_def like_mark_def)
  qed
qed simp

definition contains :: "(char \<Rightarrow> char) \<Rightarrow> string \<Rightarrow> string \<Rightarrow> bool" where
  "contains low q t = (\<exists>a b. map low t = a @ map low q @ b)"

lemma ilike_contains:
  assumes "folds_letters low"
  shows "ilike low (likePattern q) s \<longleftrightarrow> (\<exists>t. s = Some t \<and> contains low q t)"
proof (cases s)
  case (Some t)
  have "low (CHR ''%'') = CHR ''%''" using assms unfolding folds_letters_def like_mark_def by metis
  then have p: "map low (likePattern q) = CHR ''%'' # concat (map (map low) (map like_char q)) @ ''%''"
    by (simp add: likePattern_concat map_concat)
  have "like ''%'' b" for b using like_any [of "[]" b] by (metis append_Nil2 like.simps(1))
  then have "like (map low (likePattern q)) (map low t) \<longleftrightarrow> contains low q t"
    unfolding p like_any like_text [OF assms] contains_def by metis
  then show ?thesis using Some by (simp add: ilike_def)
qed (simp add: ilike_def)

section \<open>The filters\<close>

text \<open>What the lists of the console ask: a row without a verdict on its picture is \<open>unknown\<close>.\<close>

definition shown_reason :: "stored_call \<Rightarrow> string" where
  "shown_reason c = (case cr_close_reason (sc_row c) of None \<Rightarrow> NO_REASON | Some t \<Rightarrow> if t = [] then NO_REASON else t)"

definition shown_video :: "stored_call \<Rightarrow> string" where
  "shown_video c = (case sm_state (md_summary (cr_media (sc_row c))) of None \<Rightarrow> ''unknown'' | Some v \<Rightarrow> v)"

definition filtered :: "string option \<Rightarrow> string list \<Rightarrow> string list \<Rightarrow> stored_call \<Rightarrow> bool" where
  "filtered reason outcomes videos c =
     ((reason = None \<and> outcomes = [] \<and> videos = []
       \<or> cr_main_app (sc_row c) \<noteq> Some ''recording'' \<and> cr_main_app (sc_row c) \<noteq> Some ''streaming'')
      \<and> (\<forall>r. reason = Some r \<longrightarrow> shown_reason c = r)
      \<and> (outcomes = [] \<or> sc_outcome c \<in> set outcomes) \<and> (videos = [] \<or> shown_video c \<in> set videos))"

definition video_known :: "stored_call \<Rightarrow> bool" where
  "video_known c = (sm_state (md_summary (cr_media (sc_row c))) \<noteq> Some ''unknown'')"

lemma user_call_iff: "is_user_call a \<longleftrightarrow> a \<noteq> Some ''recording'' \<and> a \<noteq> Some ''streaming''"
  by (cases a) (auto simp: is_user_call_def)

lemma video_clause:
  assumes "video_known c"
  shows "clause_holds c (Videos (filter (\<lambda>v. v \<noteq> ''unknown'') vs) (''unknown'' \<in> set vs)) \<longleftrightarrow> shown_video c \<in> set vs"
  using assms by (cases "sm_state (md_summary (cr_media (sc_row c)))") (simp_all add: clause_holds_def shown_video_def video_known_def)

lemma clauses_filter:
  assumes "video_known c"
  shows "list_all (clause_holds c) (journal_clauses reason outcomes videos) \<longleftrightarrow> filtered reason outcomes videos c"
  unfolding journal_clauses_def filtered_def Let_def using video_clause [OF assms, of videos]
  by (cases reason; cases "outcomes = []"; cases "videos = []")
     (simp_all add: clause_holds_def [of c User_Call] clause_holds_def [of c "Reason r" for r] clause_holds_def [of c "Outcomes os" for os]
       user_call_iff shown_reason_def)

section \<open>The pages\<close>

definition newest_first :: "(stored_call list \<Rightarrow> stored_call list) \<Rightarrow> bool" where
  "newest_first order =
     (\<forall>rows. mset (order rows) = mset rows \<and> sorted_wrt (\<lambda>a b. sc_start b \<le> sc_start a) (order rows))"

lemma newest_first_unique:
  assumes "newest_first f" "newest_first g" and "distinct (map sc_start rows)"
  shows "f rows = g rows"
proof -
  let ?k = "\<lambda>c. - sc_start c"
  have order: "sorted (map ?k (h rows)) \<and> distinct (map ?k (h rows)) \<and> set (h rows) = set rows" if "newest_first h" for h
  proof -
    have m: "mset (h rows) = mset rows" "sorted_wrt (\<lambda>a b. sc_start b \<le> sc_start a) (h rows)" using that by (simp_all add: newest_first_def)
    then have "mset (map ?k (h rows)) = mset (map ?k rows)" by simp
    then have "distinct (map ?k (h rows)) \<longleftrightarrow> distinct (map ?k rows)" by (metis mset_eq_imp_distinct_iff)
    moreover have "distinct (map ?k rows)" using assms(3) by (simp add: distinct_map inj_on_def)
    ultimately show ?thesis using m mset_eq_setD [OF m(1)] by (simp add: sorted_map)
  qed
  have "inj_on ?k (set (f rows) \<union> set (g rows))"
    using assms(3) order [OF assms(1)] order [OF assms(2)] by (simp add: distinct_map inj_on_def)
  then show ?thesis using order [OF assms(1)] order [OF assms(2)] by (intro map_sorted_distinct_set_unique) auto
qed

lemma pages_tile: "concat (map (\<lambda>k. take n (drop (k * n) xs)) [0..<m]) = take (m * n) xs"
proof (induction m)
  case (Suc m)
  then show ?case using take_add [of "m * n" n xs] by (simp add: add.commute)
qed simp

lemma search_page:
  assumes "searchCalls low order unit W (j\<lparr>jq_offset := int k * jq_limit j\<rparr>) db = Inr page" and "call_number (jq_q j) = None"
    and "choices (jq_outcome j) OUTCOMES ''outcome'' = Inr outcomes" "choices (jq_video j) VIDEO_STATES ''video state'' = Inr videos"
    and "callWindow W (jq_start j) (jq_end j) = Inr w"
  shows "1 \<le> jq_limit j \<and> (let xs = order (filter (row_found low unit (jq_q j) w (journal_clauses (jq_reason j) outcomes videos)) (db_calls db));
            rows = take (nat (jq_limit j)) (drop (k * nat (jq_limit j)) xs)
          in map fst (jp_calls page) = rows \<and> jp_total page = (if rows \<noteq> [] then int (length xs) else 0))"
proof -
  have nat: "nat (int k * jq_limit j) = k * nat (jq_limit j)" by (simp add: nat_mult_distrib)
  have listed: "map fst (listed rows) = rows" "listed [] = []" for rows by (simp_all add: listed_def o_def)
  from assms show ?thesis
    by (auto simp: searchCalls_def page_of_def nat Let_def listed valid_query_def split: if_splits)
qed

lemma row_found_iff:
  assumes "folds_letters low" "video_known c"
  shows "row_found low unit q w (journal_clauses reason outcomes videos) c \<longleftrightarrow>
    fst w \<le> sc_start c \<and> sc_start c \<le> snd w \<and> (q = [] \<or> (\<exists>t. Some t \<in> set (searched unit c) \<and> contains low q t))
    \<and> filtered reason outcomes videos c"
  unfolding row_found_def clauses_filter [OF assms(2)] list_ex_iff ilike_contains [OF assms(1)] by blast

lemma strictly_newest:
  "sorted_wrt (\<lambda>a b. sc_start b \<le> sc_start a) xs \<Longrightarrow> distinct (map sc_start xs) \<Longrightarrow> sorted_wrt (\<lambda>a b. sc_start b < sc_start a) xs"
  by (induction xs) (auto simp: less_le image_iff)


text \<open>Two calls of one morning; the search is for a percentage.\<close>

definition wit_journal_row :: "string \<Rightarrow> int \<Rightarrow> call_row" where
  "wit_journal_row name start =
     \<lparr>cr_call_id = Some ''c'', cr_gw_alias = None, cr_gw_id = None, cr_gw_host = None, cr_main_app = Some ''baresip'', cr_platform = None,
      cr_room = Some ''r'', cr_call_url = None, cr_source_uri = None, cr_source_name = Some name, cr_source_number = None,
      cr_source_domain = None, cr_destination_uri = None, cr_destination_room = None, cr_destination_domain = None,
      cr_peer_display_name = None, cr_call_start = Some start, cr_call_end = None, cr_duration_s = Some 60, cr_occupancy_s = None,
      cr_close_reason = None, cr_last_event_type = None, cr_dtmf_events = PNone,
      cr_media = \<lparr>md_peer_user_agent = None, md_audio_codec = None, md_video_codec = None, md_video_encoder = None, md_direction = None,
        md_gw_version = None, md_baresip_version = None, md_baresip_patch = None, md_chromium_version = None,
        md_summary = \<lparr>sm_min_fps = None, sm_low = None, sm_keyframes = None, sm_presentation = None, sm_state = None\<rparr>\<rparr>\<rparr>"

definition wit_journal_call :: "int \<Rightarrow> string \<Rightarrow> int \<Rightarrow> stored_call" where
  "wit_journal_call i name start = calls_set_outcome i 0 ''c'' (wit_journal_row name start)"

definition wit_journal :: call_db where
  "wit_journal = \<lparr>db_next = 3, db_calls = [wit_journal_call 1 ''At 50% Of It'' 63839664000000001, wit_journal_call 2 ''at 500'' 63839664000000002],
     db_media = []\<rparr>"

definition wit_clockwork :: clockwork where
  "wit_clockwork = \<lparr>cw_zone = id, cw_today = \<lparr>d_year = 2024, d_month = 1, d_day = 1\<rparr>\<rparr>"

definition wit_search :: journal_query where
  "wit_search = \<lparr>jq_start = None, jq_end = None, jq_q = ''50% o'', jq_reason = None, jq_outcome = None, jq_video = None, jq_limit = 50, jq_offset = 0\<rparr>"

definition by_start :: "stored_call list \<Rightarrow> stored_call list" where
  "by_start rows = sort_key (\<lambda>c. - sc_start c) rows"

lemma by_start_newest: "newest_first by_start"
proof -
  have "sorted_wrt (\<lambda>a b. sc_start b \<le> sc_start a) (by_start rows)" for rows
    using sorted_sort_key [of "\<lambda>c. - sc_start c" rows] by (simp add: by_start_def sorted_map)
  then show ?thesis by (simp add: newest_first_def by_start_def)
qed

lemma like_mark_code: "like_mark c \<longleftrightarrow> (of_char c :: nat) \<in> {92, 37, 95}"
proof -
  have "c = d \<longleftrightarrow> (of_char c :: nat) = of_char d" for d by simp
  from this [of BACKSLASH] this [of "CHR ''%''"] this [of "CHR ''_''"] show ?thesis
    unfolding like_mark_def BACKSLASH_def by simp
qed

lemma ascii_folds: "folds_letters char_lower"
  unfolding folds_letters_def like_mark_code by (auto simp: char_lower_def is_upper_def)

lemma only_one_shown:
  assumes "set xs = {c}" "sorted_wrt (\<lambda>a b. sc_start b < sc_start a) xs"
  shows "xs = [c]"
  using assms by (cases xs; cases "tl xs") auto

lemma wit_asked:
  "call_number (jq_q wit_search) = None" "valid_query (wit_search\<lparr>jq_offset := 0\<rparr>)"
  "choices (jq_outcome wit_search) OUTCOMES ''outcome'' = Inr []" "choices (jq_video wit_search) VIDEO_STATES ''video state'' = Inr []"
  "callWindow wit_clockwork (jq_start wit_search) (jq_end wit_search) = Inr (63839664000000000, 63839750399999999)"
  by (simp_all add: wit_search_def wit_clockwork_def call_number_def str_strip_def strip_by_def rstrip_by_def lstrip_by_def is_space_def
      valid_query_def short_enough_def choices_def str_split_def callWindow_def parseInstant_def aware_us_def date_ord_def ymd2ord_def
      days_before_year_def days_before_month_def month_table_def day_us_def second_us_def Let_def)

lemma wit_pages_call: "contains char_lower ''50% o'' ''At 50% Of It''" "\<not> contains char_lower ''50% o'' ''at 500''"
proof -
  have "map char_lower ''At 50% Of It'' = ''at '' @ map char_lower ''50% o'' @ ''f it''" by code_simp
  then show "contains char_lower ''50% o'' ''At 50% Of It''" unfolding contains_def by blast
  have low: "map char_lower ''50% o'' = ''50% o''" "map char_lower ''at 500'' = ''at 500''" by code_simp+
  have "CHR ''%'' \<in> set (a @ ''50% o'' @ b)" for a b by simp
  moreover have "CHR ''%'' \<notin> set ''at 500''" by simp
  ultimately show "\<not> contains char_lower ''50% o'' ''at 500''" unfolding contains_def low by metis
qed


section \<open>A pushed call opens\<close>

lemma insert_all_media:
  "distinct (map (\<lambda>r. media_key (pk, r)) rs) \<Longrightarrow> \<forall>m \<in> set rows. fst m \<noteq> pk \<Longrightarrow> m0 = map (Pair pk) qs \<Longrightarrow>
    distinct (map (\<lambda>r. media_key (pk, r)) (qs @ rs)) \<Longrightarrow> foldl (insert_media pk) (rows @ m0) rs = rows @ map (Pair pk) (qs @ rs)"
proof (induction rs arbitrary: m0 qs)
  case (Cons r rs)
  have "media_key (pk, r) \<notin> set (map media_key (rows @ m0))"
  proof
    assume "media_key (pk, r) \<in> set (map media_key (rows @ m0))"
    then obtain m where m: "m \<in> set rows \<or> m \<in> set m0" "media_key (pk, r) = media_key m" by auto
    then have "m \<in> set m0" using Cons.prems(2) by (auto simp: media_key_def)
    then show False using m(2) Cons.prems(3,4) by auto
  qed
  then have "insert_media pk (rows @ m0) r = rows @ (m0 @ [(pk, r)])" by (simp add: insert_media_def)
  then show ?case using Cons.IH [of "m0 @ [(pk, r)]" "qs @ [r]"] Cons.prems by simp
qed simp

lemma find_new:
  assumes "\<forall>c \<in> set cs. sc_id c < n"
  shows "sc_id d = n \<Longrightarrow> find (\<lambda>c. sc_id c = n) (cs @ [d]) = Some d"
    and "k \<noteq> n \<Longrightarrow> sc_id d = n \<Longrightarrow> find (\<lambda>c. sc_id c = k) (cs @ [d]) = find (\<lambda>c. sc_id c = k) cs"
  using assms by (induction cs) auto


definition wit_media :: "string \<Rightarrow> media_row" where
  "wit_media dir =
     \<lparr>mr_media = ''audio'', mr_index = 1, mr_direction = dir, mr_packets = Some 5, mr_errors = None, mr_reports = None, mr_bitrate = None,
      mr_lost = None, mr_jitter = None\<rparr>"

definition wit_stored :: call_db where
  "wit_stored = snd (store True 0 ''c'' (wit_journal_row ''Bob'' 63839664000000001) [wit_media ''tx'', wit_media ''rx''] empty_db)"


section \<open>The name of a file\<close>

lemma stamp_safe: "c \<in> set (stamp_text us) \<Longrightarrow> header_safe c"
  using pad_nat_digits by (auto simp: stamp_text_def Let_def int_str_def header_safe_def is_alnum_def dest: nat_str_digits split: if_splits)

text \<open>What a call is named after cannot end the quoted name of its file, nor the header's line.\<close>

theorem file_name_is_safe:
  assumes "c \<in> set (raw_name wall k)"
  shows "header_safe c"
proof -
  have ident: "header_safe c" if "c \<in> set (file_id (sc_call_id k))" for c
    using in_set_takeD [OF that [unfolded file_id_def]] by (auto simp: header_safe_def)
  have num: "header_safe c" if "c \<in> set (int_str i)" for c i
    using that by (auto simp: int_str_def header_safe_def is_alnum_def dest: nat_str_digits split: if_splits)
  have "list_all header_safe ''call-.json''" by code_simp
  then have plain: "header_safe c" if "c \<in> set ''call-.json''" for c using that unfolding list_all_iff by blast
  define ps where "ps = [''call'', int_str (sc_id k), stamp_text (wall (sc_start k)), file_id (sc_call_id k)]"
  have "c \<in> set (str_join ''-'' (filter (\<lambda>p. p \<noteq> []) ps)) \<or> c \<in> set ''.json''"
    using assms unfolding raw_name_def ps_def set_append Un_iff .
  then have "c \<in> set ''-'' \<or> (\<exists>p \<in> set ps. c \<in> set p) \<or> c \<in> set ''.json''"
    using str_join_chars [of c "''-''" "filter (\<lambda>p. p \<noteq> []) ps"] unfolding set_filter by blast
  then show ?thesis using ident num stamp_safe plain by (auto simp: ps_def)
qed

end
