(* ===== verification/Pool_Samples.thy ===== *)
theory Pool_Samples
  imports Proxy_Routes Homer
begin

text \<open>
  The pool of gateways as the console reads it (\<open>manager/proxyapi.py\<close>, \<open>manager/sources.py\<close>): the
  reading of the proxy's statuses, the supervision page with the trace of a call in progress
  (\<open>manager/api/park.py\<close>), and the sampler that stores the counts of each state at an interval
  (\<open>manager/sampler.py\<close>). What the proxy answers is an argument; \<open>wall\<close> and \<open>zone\<close> are the local time zone.
\<close>

section \<open>Reading the proxy\<close>

record proxy_source =
  base_url :: string
  public_url :: string
  source_token :: string

definition strip_slash :: "string \<Rightarrow> string" where
  "strip_slash s = rstrip_by (\<lambda>c. c = CHR ''/'') s"

definition proxy_source_of :: "environ \<Rightarrow> proxy_source" where
  "proxy_source_of env =
     (let url = env_or env ''PROXYAPI_URL'' ''http://127.0.0.1:80'' in
      \<lparr>base_url = strip_slash url, public_url = strip_slash (env_or env ''PROXYAPI_PUBLIC_URL'' url),
       source_token = env_or env ''PROXYAPI_ADMIN_TOKEN'' []\<rparr>)"

definition clean_value :: "pyval \<Rightarrow> pyval" where
  "clean_value v = (if v \<in> {PNone, PStr [], PStr ''None''} then PNone else v)"

text \<open>\<open>now\<close> is local and naive; \<open>int(total_seconds())\<close> divides in floats.\<close>

definition callSeconds :: "(int \<Rightarrow> int) \<Rightarrow> int \<Rightarrow> pyval \<Rightarrow> exn + pyval" where
  "callSeconds wall now callStarted =
     (let raw = clean_value callStarted in
      if \<not> truthy raw then Inr PNone
      else (case raw of
              PStr s \<Rightarrow>
                (case from_iso s of
                   None \<Rightarrow> Inr PNone
                 | Some (us, off) \<Rightarrow>
                     (let started = (case off of None \<Rightarrow> us | Some k \<Rightarrow> wall (us - k));
                          seconds = trunc (double (of_int (now - started) / of_int second_us))
                      in Inr (if 0 \<le> seconds then PInt seconds else PNone)))
            | _ \<Rightarrow> Inl (TypeError ''fromisoformat: argument must be str'')))"

datatype http_answer = Unreachable | Answered int string

definition ProxyUnavailable :: "string \<Rightarrow> exn" where
  "ProxyUnavailable m = OtherError m"

definition gateway_row :: "(int \<Rightarrow> int) \<Rightarrow> int \<Rightarrow> string \<Rightarrow> pyval \<Rightarrow> exn + pydict" where
  "gateway_row wall now gwId v =
     (case py_or v (PDict []) of
        PDict g \<Rightarrow>
          bindE (callSeconds wall now (dget g ''call_started'')) (\<lambda>seconds.
            Inr [(''state'', py_or (clean_value (dget g ''state'')) (PStr ''other'')), (''gw_id'', PStr gwId),
                 (''ip'', clean_value (dget g ''gateway'')), (''type'', clean_value (dget g ''type'')), (''status'', clean_value (dget g ''status'')),
                 (''room'', clean_value (dget g ''room'')), (''browsing'', clean_value (dget g ''browsing'')),
                 (''peer_uri'', clean_value (dget g ''peer_uri'')), (''peer_name'', clean_value (dget g ''peer_name'')),
                 (''call_started'', clean_value (dget g ''call_started'')), (''call_seconds'', seconds),
                 (''transcript_progress'', clean_value (dget g ''transcript_progress'')), (''pairing_code'', clean_value (dget g ''pairing_code''))])
      | _ \<Rightarrow> Inl (AttributeError ''get''))"

text \<open>An answer that is not an object is indexed by names: only an empty list passes.\<close>

definition answer_rows :: "pyval \<Rightarrow> exn + pydict" where
  "answer_rows v = (case v of PDict d \<Rightarrow> Inr (sort_key fst d) | PList [] \<Rightarrow> Inr [] | PStr [] \<Rightarrow> Inr [] | _ \<Rightarrow> Inl (TypeError ''sorted''))"

record statuses =
  st_generated :: string
  st_gateways :: "pydict list"

definition fetchStatuses :: "(int \<Rightarrow> int) \<Rightarrow> int \<Rightarrow> http_answer \<Rightarrow> exn + statuses" where
  "fetchStatuses wall now answer =
     (case answer of
        Unreachable \<Rightarrow> Inl (ProxyUnavailable ''proxyAPI unreachable'')
      | Answered code body \<Rightarrow>
          if code = 401 then Inl (ProxyUnavailable ''proxyAPI rejected the admin token (check PROXYAPI_ADMIN_TOKEN)'')
          else if code \<noteq> 200 then Inl (ProxyUnavailable (''proxyAPI returned '' @ int_str code))
          else (case json_loads body of
                  None \<Rightarrow> Inl (ProxyUnavailable ''proxyAPI returned a non-JSON body'')
                | Some v \<Rightarrow>
                    bindE (answer_rows v) (\<lambda>rows.
                    bindE (mapE (\<lambda>(i, g). gateway_row wall now i g) rows) (\<lambda>gs.
                      Inr \<lparr>st_generated = iso_seconds now, st_gateways = gs\<rparr>))))"

section \<open>The supervision page\<close>

text \<open>The start of a call in progress; a day before now when there is none that can be read.\<close>

definition live_since :: "(int \<Rightarrow> int) \<Rightarrow> int \<Rightarrow> pyval \<Rightarrow> exn + moment" where
  "live_since zone utc v =
     (let started = clean_value v; day_ago = Aware (utc - day_us) in
      if \<not> truthy started then Inr day_ago
      else (case started of
              PStr s \<Rightarrow>
                (case from_iso (str_replace ''Z'' ''+00:00'' s) of
                   None \<Rightarrow> Inr day_ago
                 | Some (us, None) \<Rightarrow> Inr (Aware (aware_us zone (Naive us)))
                 | Some (us, Some off) \<Rightarrow> Inr (Aware (us - off)))
            | _ \<Rightarrow> Inl (AttributeError ''replace'')))"

definition liveTraceUrl :: "homer_cfg \<Rightarrow> (int \<Rightarrow> int) \<Rightarrow> int \<Rightarrow> pydict \<Rightarrow> exn + string option" where
  "liveTraceUrl cfg zone utc g =
     (let uri = clean_value (dget g ''peer_uri'') in
      if \<not> truthy uri then Inr None
      else bindE (as_str uri) (\<lambda>u.
        case userPart (Some u) of
          None \<Rightarrow> Inr None
        | Some user \<Rightarrow> bindE (live_since zone utc (dget g ''call_started'')) (\<lambda>since.
            Inr (endpointUrl cfg zone utc (Some user) (Some since) (Some (Aware utc))))))"

record supervision =
  sv_generated :: string
  sv_total :: nat
  sv_free :: nat
  sv_idle :: nat
  sv_ivr :: nat
  sv_in_call :: nat
  sv_gateways :: "pydict list"

definition in_state :: "string \<Rightarrow> pydict list \<Rightarrow> nat" where
  "in_state name gs = length (filter (\<lambda>g. dget g ''state'' = PStr name) gs)"

definition shown_gateway :: "homer_cfg \<Rightarrow> (int \<Rightarrow> int) \<Rightarrow> int \<Rightarrow> pydict \<Rightarrow> exn + pydict" where
  "shown_gateway cfg zone utc g =
     bindE (liveTraceUrl cfg zone utc g) (\<lambda>url.
       Inr (filter (\<lambda>p. fst p \<noteq> ''call_started'') g @ [(''homer_url'', opt_val url)]))"

definition gateways_route :: "homer_cfg \<Rightarrow> (int \<Rightarrow> int) \<Rightarrow> (int \<Rightarrow> int) \<Rightarrow> int \<Rightarrow> http_answer \<Rightarrow> exn + supervision" where
  "gateways_route cfg zone wall utc answer =
     (case fetchStatuses wall (wall utc) answer of
        Inl (OtherError m) \<Rightarrow> Inl (HTTPException 502 m)
      | Inl e \<Rightarrow> Inl e
      | Inr pool \<Rightarrow>
          bindE (mapE (shown_gateway cfg zone utc) (st_gateways pool)) (\<lambda>gs.
            Inr \<lparr>sv_generated = st_generated pool, sv_total = length gs, sv_free = in_state ''free'' gs,
                 sv_idle = in_state ''idle'' gs, sv_ivr = in_state ''ivr'' gs, sv_in_call = in_state ''call'' gs, sv_gateways = gs\<rparr>))"

section \<open>The sampler\<close>

record sample =
  sa_ts :: int
  sa_free :: nat
  sa_idle :: nat
  sa_ivr :: nat
  sa_in_call :: nat

text \<open>The counts, gateway by gateway: a state the table has no column for is not counted.\<close>

definition count_one :: "pydict \<Rightarrow> sample \<Rightarrow> sample" where
  "count_one g c =
     (let key = (if dget g ''state'' = PStr ''call'' then PStr ''in_call'' else dget g ''state'') in
      if key = PStr ''free'' then c\<lparr>sa_free := sa_free c + 1\<rparr>
      else if key = PStr ''idle'' then c\<lparr>sa_idle := sa_idle c + 1\<rparr>
      else if key = PStr ''ivr'' then c\<lparr>sa_ivr := sa_ivr c + 1\<rparr>
      else if key = PStr ''in_call'' then c\<lparr>sa_in_call := sa_in_call c + 1\<rparr> else c)"

text \<open>The table: one row a second, with the interval it stands for; the first one stays.\<close>

type_synonym pool_table = "(sample \<times> int) list"

definition store_sample :: "int \<Rightarrow> sample \<Rightarrow> pool_table \<Rightarrow> pool_table" where
  "store_sample interval s t = (if sa_ts s \<in> set (map (sa_ts \<circ> fst) t) then t else t @ [(s, interval)])"

definition sampleOnce :: "(int \<Rightarrow> int) \<Rightarrow> int \<Rightarrow> int \<Rightarrow> bool \<Rightarrow> http_answer \<Rightarrow> pool_table \<Rightarrow> (exn + sample) \<times> pool_table" where
  "sampleOnce wall interval utc up answer t =
     (case fetchStatuses wall (wall utc) answer of
        Inl e \<Rightarrow> (Inl e, t)
      | Inr st \<Rightarrow>
          (let s = fold count_one (st_gateways st)
                 \<lparr>sa_ts = utc div second_us * second_us, sa_free = 0, sa_idle = 0, sa_ivr = 0, sa_in_call = 0\<rparr> in
           if up then (Inr s, store_sample interval s t) else (Inl (OtherError ''DatabaseUnavailable''), t)))"

text \<open>The loop, and what it logs: the first miss of an outage is a warning, the others are not.\<close>

datatype sampler_line = Sampled | Resumed nat | Warned nat | Missed nat

definition skipped_line :: "nat \<Rightarrow> sampler_line" where
  "skipped_line n = (if n = 1 then Warned n else Missed n)"

definition sampler_turn :: "(int \<Rightarrow> int) \<Rightarrow> int \<Rightarrow> int \<times> bool \<times> http_answer \<Rightarrow> nat \<times> sampler_line list \<times> pool_table \<Rightarrow>
    nat \<times> sampler_line list \<times> pool_table" where
  "sampler_turn wall interval turn st =
     (let (utc, up, answer) = turn; (skipped, log, t) = st in
      case sampleOnce wall interval utc up answer t of
        (Inr _, t') \<Rightarrow> (0, log @ [Sampled] @ (if skipped \<noteq> 0 then [Resumed skipped] else []), t')
      | (Inl _, t') \<Rightarrow> (skipped + 1, log @ [skipped_line (skipped + 1)], t'))"

definition sampler_run :: "(int \<Rightarrow> int) \<Rightarrow> int \<Rightarrow> (int \<times> bool \<times> http_answer) list \<Rightarrow> sampler_line list \<times> pool_table" where
  "sampler_run wall interval turns =
     (if interval \<le> 0 then ([], []) else snd (fold (sampler_turn wall interval) turns (0, [], [])))"

end
