(* ===== verification/Pool_Props.thy ===== *)
theory Pool_Props
  imports Pool_Samples Proxy_Props
begin

text \<open>
  The console's picture of the pool is the proxy's: through the listing of the proxy, its text and the
  reading of the console, the sampler stores and the supervision page shows the counts of the registry.
  And an outage of the sampler is told once.
\<close>

section \<open>The listing\<close>

lemma foldl_dset_keys:
  assumes "inj_on f (set ks)"
  shows "map_of (foldl (\<lambda>acc k. dset (f k) (g k) acc) [] ks) i = Some v \<longleftrightarrow> (\<exists>k \<in> set ks. f k = i \<and> g k = v)"
  using assms
proof (induction ks rule: rev_induct)
  case (snoc k ks)
  then have "inj_on f (set ks)" "\<forall>j \<in> set ks. f j = f k \<longrightarrow> j = k" by (auto simp: inj_on_def)
  with snoc.IH show ?case by (auto simp: update_conv)
qed simp

lemma foldl_dset_distinct_keys: "distinct (map fst (foldl (\<lambda>acc k. dset (f k) (g k) acc) [] ks))"
  by (induction ks rule: rev_induct) (simp_all add: distinct_update)

text \<open>A registry whose keys are those of \<open>/register\<close>: an address as identifier has no colon.\<close>

definition plain_ids :: "'s redis_ops \<Rightarrow> 's \<Rightarrow> bool" where
  "plain_ids R s = (\<forall>k \<in> set (r_scan R s ''gateway:''). \<exists>i. k = gw_key i \<and> CHR '':'' \<notin> set i)"

lemma key_id_gw_key: "CHR '':'' \<notin> set i \<Longrightarrow> key_id (gw_key i) = i"
  using str_split_lines [of "[''gateway'']" "CHR '':''" i] by (simp add: key_id_def gw_key_def)

definition row_of :: "'s redis_ops \<Rightarrow> 's \<Rightarrow> string \<Rightarrow> pyval" where
  "row_of R s k = status_row (pairing_by_gateway R s) (key_id k) (gw_entry R s k)"

lemma status_rows_listing:
  assumes R: "redis_laws R" and ok: "registry_ok R s" and ids: "plain_ids R s"
  shows "distinct (map fst (status_rows R s))"
    and "set (status_rows R s) = (\<lambda>k. (key_id k, row_of R s k)) ` set (r_scan R s ''gateway:'')"
    and "inj_on key_id (set (r_scan R s ''gateway:''))"
    and "k \<in> set (r_scan R s ''gateway:'') \<Longrightarrow> entry_ok (gw_entry R s k)"
proof -
  let ?ks = "r_scan R s ''gateway:''"
  show inj: "inj_on key_id (set ?ks)"
    using ids key_id_gw_key unfolding plain_ids_def inj_on_def by metis
  have entry: "entry_ok (gw_entry R s k) \<and> (\<exists>raw. r_get R s k = Some raw)" if "k \<in> set ?ks" for k
    using ok redis_laws.scan_prefix [OF R that] redis_laws.scan_present [OF R that]
    by (auto simp: registry_ok_def sound_entries_def gw_present_def)
  then show "k \<in> set ?ks \<Longrightarrow> entry_ok (gw_entry R s k)" by blast
  have raw: "\<exists>c t. r_get R s k = Some (c # t)" if "k \<in> set ?ks" for k
  proof -
    note e = entry [OF that]
    obtain raw where "r_get R s k = Some raw" using e by blast
    moreover have "\<not> entry_ok (gwLoad (Some []))" by (simp add: gwLoad_def entry_ok_def)
    ultimately show ?thesis using e by (cases raw) (auto simp: gw_entry_def)
  qed
  have "status_rows R s = foldl (\<lambda>acc k. dset (key_id k) (row_of R s k) acc) [] ?ks"
    unfolding status_rows_def
  proof (rule foldl_cong [OF refl refl])
    fix acc k assume "k \<in> set ?ks"
    then obtain c t where "r_get R s k = Some (c # t)" using raw by blast
    then show "(case r_get R s k of None \<Rightarrow> acc
        | Some raw \<Rightarrow> if raw = [] then acc
          else dset (key_id k) (status_row (pairing_by_gateway R s) (key_id k) (gwLoad (Some raw))) acc) = dset (key_id k) (row_of R s k) acc"
      by (simp add: row_of_def gw_entry_def)
  qed
  then have rows: "status_rows R s = foldl (\<lambda>acc k. dset (key_id k) (row_of R s k) acc) [] ?ks" (is "_ = ?d") .
  have dist: "distinct (map fst ?d)" by (rule foldl_dset_distinct_keys)
  have "p \<in> set ?d \<longleftrightarrow> p \<in> (\<lambda>k. (key_id k, row_of R s k)) ` set ?ks" for p
  proof (cases p)
    case (Pair i v)
    have "p \<in> set ?d \<longleftrightarrow> map_of ?d i = Some v" unfolding Pair by (rule map_of_eq_Some_iff [OF dist, symmetric])
    then show ?thesis using foldl_dset_keys [OF inj, of "row_of R s" i v] Pair by auto
  qed
  then show "set (status_rows R s) = (\<lambda>k. (key_id k, row_of R s k)) ` set ?ks" unfolding rows by blast
  show "distinct (map fst (status_rows R s))" unfolding rows by (rule dist)
qed

lemma jsonable_row:
  assumes "entry_ok gw"
  shows "jsonable (status_row pb i gw)"
proof -
  have v: "jsonable (dget gw k)" for k using assms by (auto simp: entry_ok_def intro!: jsonable_dget simp del: jsonable.simps)
  then have "jsonable (cleanPart (dget gw k))" for k by (simp add: cleanPart_def)
  with v show ?thesis by (cases "map_of pb i") (simp_all add: status_row_def opt_val_def)
qed

section \<open>Counting\<close>

lemma mapE_count:
  "mapE f xs = Inr ys \<Longrightarrow> (\<And>x y. x \<in> set xs \<Longrightarrow> f x = Inr y \<Longrightarrow> P y = Q x) \<Longrightarrow> length (filter P ys) = length (filter Q xs)"
proof (induction xs arbitrary: ys)
  case (Cons x xs)
  then obtain y zs where y: "f x = Inr y" "mapE f xs = Inr zs" "ys = y # zs" by (auto simp: bindE_eq_Inr_iff)
  with Cons.prems(2) [of x y] Cons.IH [OF y(2) Cons.prems(2)] show ?case by simp
qed simp

lemma mapE_total: "(\<And>x. x \<in> set xs \<Longrightarrow> \<exists>y. f x = Inr y) \<Longrightarrow> \<exists>ys. mapE f xs = Inr ys"
proof (induction xs)
  case (Cons x xs)
  then obtain y ys where "f x = Inr y" "mapE f xs = Inr ys" by (metis list.set_intros)
  then show ?case by simp
qed simp

lemma state_shown: "py_or (clean_value (PStr (deriveState gw))) (PStr ''other'') = PStr (deriveState gw)"
  by (simp add: deriveState_def clean_value_def Let_def)

lemma row_state:
  assumes "gateway_row wall now i (status_row pb j gw) = Inr g"
  shows "dget g ''state'' = PStr (deriveState gw)"
  using assms by (auto simp: gateway_row_def status_row_def py_or_def bindE_eq_Inr_iff state_shown [unfolded py_or_def])

text \<open>The start of a call that the gateway wrote as a text, when it wrote one.\<close>

definition text_start :: "pydict \<Rightarrow> bool" where
  "text_start gw = (case dget gw ''call_started'' of PNone \<Rightarrow> True | PStr _ \<Rightarrow> True | _ \<Rightarrow> False)"

lemma row_total:
  assumes "text_start gw"
  shows "\<exists>g. gateway_row wall now i (status_row pb j gw) = Inr g"
proof -
  have "\<exists>v. callSeconds wall now (cleanPart (dget gw ''call_started'')) = Inr v"
    using assms by (cases "dget gw ''call_started''")
      (simp_all add: text_start_def callSeconds_def clean_value_def cleanPart_def Let_def split: option.split)
  then obtain v where "callSeconds wall now (cleanPart (dget gw ''call_started'')) = Inr v" by blast
  then show ?thesis by (simp add: gateway_row_def status_row_def py_or_def)
qed

definition census :: "'s redis_ops \<Rightarrow> 's \<Rightarrow> string \<Rightarrow> nat" where
  "census R s name = card {k. prefix ''gateway:'' k \<and> r_get R s k \<noteq> None \<and> deriveState (gw_entry R s k) = name}"

lemma rows_census:
  assumes R: "redis_laws R" and ok: "registry_ok R s" and ids: "plain_ids R s"
    and gs: "mapE (\<lambda>(i, g). gateway_row wall now i g) (sort_key fst (status_rows R s)) = Inr gs"
  shows "in_state name gs = census R s name"
proof -
  note L = status_rows_listing [OF R ok ids]
  let ?K = "set (r_scan R s ''gateway:'')"
  define Q where "Q x = (\<exists>k \<in> ?K. key_id k = fst x \<and> deriveState (gw_entry R s k) = name)" for x :: "string \<times> pyval"
  have "in_state name gs = length (filter Q (sort_key fst (status_rows R s)))"
    unfolding in_state_def
  proof (rule mapE_count [OF gs])
    fix x g assume "x \<in> set (sort_key fst (status_rows R s))" and g: "(\<lambda>(i, g). gateway_row wall now i g) x = Inr g"
    then obtain k where k: "k \<in> ?K" "x = (key_id k, row_of R s k)" using L(2) by auto
    then have "dget g ''state'' = PStr (deriveState (gw_entry R s k))" using g row_state by (simp add: row_of_def)
    moreover have "Q x \<longleftrightarrow> deriveState (gw_entry R s k) = name" using k L(3) by (auto simp: Q_def inj_on_def)
    ultimately show "(dget g ''state'' = PStr name) = Q x" by simp
  qed
  also have "\<dots> = card (set (filter Q (sort_key fst (status_rows R s))))"
    using L(1) by (intro distinct_card [symmetric] distinct_filter) (simp add: distinct_map)
  also have "set (filter Q (sort_key fst (status_rows R s))) = (\<lambda>k. (key_id k, row_of R s k)) ` {k \<in> ?K. deriveState (gw_entry R s k) = name}"
    using L(2,3) by (auto simp: Q_def inj_on_def)
  also have "card \<dots> = card {k \<in> ?K. deriveState (gw_entry R s k) = name}"
    using L(3) by (intro card_image) (auto simp: inj_on_def)
  also have "{k \<in> ?K. deriveState (gw_entry R s k) = name} = {k. prefix ''gateway:'' k \<and> r_get R s k \<noteq> None \<and> deriveState (gw_entry R s k) = name}"
    using redis_laws.scan_keys [OF R] by blast
  finally show ?thesis by (simp add: census_def)
qed

lemma counted:
  "let c' = fold count_one gs c in
     sa_ts c' = sa_ts c \<and> sa_free c' = sa_free c + in_state ''free'' gs \<and> sa_idle c' = sa_idle c + in_state ''idle'' gs
     \<and> sa_ivr c' = sa_ivr c + in_state ''ivr'' gs \<and> sa_in_call c' = sa_in_call c + in_state ''call'' gs + in_state ''in_call'' gs"
  by (induction gs arbitrary: c) (auto simp: count_one_def in_state_def Let_def)

lemma census_in_call: "census R s ''in_call'' = 0"
proof -
  have "deriveState gw \<noteq> ''in_call''" for gw by (simp add: deriveState_def Let_def)
  then show ?thesis by (simp add: census_def)
qed

section \<open>The sample and the page\<close>

text \<open>A JSON answer on the wire.\<close>

definition over_http :: "response \<Rightarrow> http_answer" where
  "over_http r = (case r of JSON c v \<Rightarrow> Answered c (json_dumps_compact v) | _ \<Rightarrow> Answered (status_code r) [])"

lemma fetched:
  assumes R: "redis_laws R" and ok: "registry_ok R s" and ids: "plain_ids R s" and admin: "authorizeAdmin pcfg rq"
  shows "fetchStatuses wall now (over_http (adminStatus R pcfg rq s)) =
    bindE (mapE (\<lambda>(i, g). gateway_row wall now i g) (sort_key fst (status_rows R s))) (\<lambda>gs. Inr \<lparr>st_generated = iso_seconds now, st_gateways = gs\<rparr>)"
proof -
  note L = status_rows_listing [OF R ok ids]
  have "jsonable (PDict (status_rows R s))"
    using L(1,2,4) jsonable_row by (auto simp: row_of_def)
  then show ?thesis using admin
    by (simp add: adminStatus_def over_http_def fetchStatuses_def json_loads_compact answer_rows_def)
qed

lemma shown_state: "shown_gateway cfg zone utc g = Inr g' \<Longrightarrow> dget g' ''state'' = dget g ''state''"
  by (auto simp: shown_gateway_def bindE_eq_Inr_iff dget_def map_add_def map_of_filter_fst [of "\<lambda>k. k \<noteq> ''call_started''"] split: option.split)

text \<open>
  C4. The picture the console has of the pool is the proxy's registry: asked with the administrator's
  token, the sampler stores, for this second, as many gateways free, idle, in the menu and in a call as
  the registry has entries whose state is derived so; and the supervision page, when it answers, shows
  the same counts, of as many gateways as the registry has.
\<close>
theorem sample_counts_the_registry:
  assumes R: "redis_laws R" and ok: "registry_ok R s" and ids: "plain_ids R s" and admin: "authorizeAdmin pcfg rq"
    and started: "\<forall>k \<in> set (r_scan R s ''gateway:''). text_start (gw_entry R s k)"
    and answer: "answer = over_http (adminStatus R pcfg rq s)"
  shows "\<exists>smp. sampleOnce wall interval utc True answer t = (Inr smp, store_sample interval smp t)
    \<and> sa_ts smp = utc div second_us * second_us
    \<and> sa_free smp = census R s ''free'' \<and> sa_idle smp = census R s ''idle''
    \<and> sa_ivr smp = census R s ''ivr'' \<and> sa_in_call smp = census R s ''call''
    \<and> (\<forall>page. gateways_route cfg zone wall utc answer = Inr page \<longrightarrow>
        sv_free page = sa_free smp \<and> sv_idle page = sa_idle smp \<and> sv_ivr page = sa_ivr smp \<and> sv_in_call page = sa_in_call smp
        \<and> sv_total page = card {k. prefix ''gateway:'' k \<and> r_get R s k \<noteq> None})"
proof -
  note L = status_rows_listing [OF R ok ids]
  let ?rows = "sort_key fst (status_rows R s)" and ?f = "\<lambda>(i, g). gateway_row wall (wall utc) i g"
  have "\<exists>g. ?f x = Inr g" if "x \<in> set ?rows" for x
    using that L(2) started row_total by (auto simp: row_of_def)
  then obtain gs where gs: "mapE ?f ?rows = Inr gs" using mapE_total by metis
  then have f: "fetchStatuses wall (wall utc) answer = Inr \<lparr>st_generated = iso_seconds (wall utc), st_gateways = gs\<rparr>"
    using fetched [OF R ok ids admin] by (simp add: answer)
  define c where "c = \<lparr>sa_ts = utc div second_us * second_us, sa_free = 0, sa_idle = 0, sa_ivr = 0, sa_in_call = 0\<rparr>"
  define smp where "smp = fold count_one gs c"
  have census: "in_state name gs = census R s name" for name by (rule rows_census [OF R ok ids gs])
  have sample: "sa_ts smp = utc div second_us * second_us" "sa_free smp = census R s ''free''" "sa_idle smp = census R s ''idle''"
      "sa_ivr smp = census R s ''ivr''" "sa_in_call smp = census R s ''call''"
    using counted [of gs c] census_in_call [of R s] by (simp_all add: smp_def c_def Let_def census)
  have "length gs = length ?rows" by (rule mapE_Inr_length [OF gs])
  also have "\<dots> = card (set (status_rows R s))" using L(1) by (simp add: distinct_card distinct_map)
  also have "\<dots> = card (set (r_scan R s ''gateway:''))" unfolding L(2) using L(3) by (intro card_image) (auto simp: inj_on_def)
  finally have total: "length gs = card {k. prefix ''gateway:'' k \<and> r_get R s k \<noteq> None}" by (simp add: redis_laws.scan_keys [OF R])
  have page: "sv_free page = sa_free smp \<and> sv_idle page = sa_idle smp \<and> sv_ivr page = sa_ivr smp \<and> sv_in_call page = sa_in_call smp
      \<and> sv_total page = card {k. prefix ''gateway:'' k \<and> r_get R s k \<noteq> None}"
    if answered: "gateways_route cfg zone wall utc answer = Inr page" for page
  proof -
    obtain gs' where gs': "mapE (shown_gateway cfg zone utc) gs = Inr gs'"
      and p: "sv_free page = in_state ''free'' gs'" "sv_idle page = in_state ''idle'' gs'" "sv_ivr page = in_state ''ivr'' gs'"
        "sv_in_call page = in_state ''call'' gs'" "sv_total page = length gs'"
      using answered by (auto simp: gateways_route_def f bindE_eq_Inr_iff)
    have "in_state name gs' = in_state name gs" for name
      unfolding in_state_def using shown_state by (intro mapE_count [OF gs']) simp
    then show ?thesis using p sample census total mapE_Inr_length [OF gs'] by simp
  qed
  have "sampleOnce wall interval utc True answer t = (Inr smp, store_sample interval smp t)"
    by (simp add: sampleOnce_def f smp_def c_def Let_def)
  with sample page show ?thesis by blast
qed

section \<open>An outage\<close>

definition read_ok :: "(int \<Rightarrow> int) \<Rightarrow> int \<times> bool \<times> http_answer \<Rightarrow> bool" where
  "read_ok wall turn = (case turn of (utc, up, answer) \<Rightarrow> up \<and> (\<exists>st. fetchStatuses wall (wall utc) answer = Inr st))"

definition is_warning :: "sampler_line \<Rightarrow> bool" where
  "is_warning l = (case l of Warned _ \<Rightarrow> True | _ \<Rightarrow> False)"

lemma warning_simps [simp]: "is_warning (Warned n)" "\<not> is_warning Sampled" "\<not> is_warning (Resumed n)" "\<not> is_warning (Missed n)"
  by (simp_all add: is_warning_def)

lemma turn_cases:
  "\<exists>t'. sampler_turn wall interval turn (n, lines, t) =
     (if read_ok wall turn then (0, lines @ [Sampled] @ (if n \<noteq> 0 then [Resumed n] else []), t')
      else (n + 1, lines @ [skipped_line (n + 1)], t'))"
  by (auto simp: sampler_turn_def read_ok_def sampleOnce_def Let_def split: sum.splits prod.splits)

definition outages :: "(int \<Rightarrow> int) \<Rightarrow> (int \<times> bool \<times> http_answer) list \<Rightarrow> nat" where
  "outages wall turns = card {i. i < length turns \<and> \<not> read_ok wall (turns ! i) \<and> (i = 0 \<or> read_ok wall (turns ! (i - 1)))}"

lemma outages_snoc:
  "outages wall (turns @ [x]) = outages wall turns + (if \<not> read_ok wall x \<and> (turns = [] \<or> read_ok wall (last turns)) then 1 else 0)"
proof -
  let ?P = "\<lambda>ts i. i < length ts \<and> \<not> read_ok wall (ts ! i) \<and> (i = 0 \<or> read_ok wall (ts ! (i - 1)))"
  have "?P (turns @ [x]) i \<longleftrightarrow> ?P turns i \<or> i = length turns \<and> \<not> read_ok wall x \<and> (turns = [] \<or> read_ok wall (last turns))" for i
    by (cases "turns = []"; cases "i < length turns") (auto simp: nth_append last_conv_nth less_Suc_eq)
  then have "{i. ?P (turns @ [x]) i} =
      (if \<not> read_ok wall x \<and> (turns = [] \<or> read_ok wall (last turns)) then insert (length turns) {i. ?P turns i} else {i. ?P turns i})"
    by auto
  then show ?thesis by (simp add: outages_def)
qed

lemma run_tells:
  "\<exists>n lines t. fold (sampler_turn wall interval) turns (0, [], []) = (n, lines, t)
    \<and> (n = 0 \<longleftrightarrow> turns = [] \<or> read_ok wall (last turns)) \<and> length (filter is_warning lines) = outages wall turns"
proof (induction turns rule: rev_induct)
  case Nil
  then show ?case by (simp add: outages_def)
next
  case (snoc x turns)
  then obtain n lines t where st: "fold (sampler_turn wall interval) turns (0, [], []) = (n, lines, t)"
    "n = 0 \<longleftrightarrow> turns = [] \<or> read_ok wall (last turns)" "length (filter is_warning lines) = outages wall turns" by blast
  from turn_cases [of wall interval x n lines t] show ?case
    using st by (auto simp: outages_snoc skipped_line_def)
qed

text \<open>
  However long the proxy or the database stays away, an outage is one warning in the log: there are as
  many as readings that failed after one that did not.
\<close>
theorem outage_is_warned_once:
  assumes "0 < interval"
  shows "length (filter is_warning (fst (sampler_run wall interval turns))) = outages wall turns"
  using run_tells [of wall interval turns] assms by (auto simp: sampler_run_def)

lemma outage_is_warned_once_witness:
  "length (filter is_warning (fst (sampler_run id 60
     [(0, True, Unreachable), (60, True, Unreachable), (120, True, Answered 200 ''{}''), (180, False, Answered 200 ''{}'')]))) = 2"
proof -
  have read: "json_loads ''{}'' = Some (PDict [])" using json.load_dump [of "PDict []"] by (simp add: json_dumps_def)
  have "outages id [(0, True, Unreachable), (60, True, Unreachable), (120, True, Answered 200 ''{}''), (180, False, Answered 200 ''{}'')] = 2"
    using outages_snoc [of id "[]"] outages_snoc [of id "[a]" for a] outages_snoc [of id "[a, b]" for a b] outages_snoc [of id "[a, b, c]" for a b c]
    by (simp add: read_ok_def fetchStatuses_def read answer_rows_def) (simp add: outages_def)
  then show ?thesis using outage_is_warned_once [of 60 id] by simp
qed

definition wit_admin :: request where
  "wit_admin = \<lparr>rq_method = ''GET'', rq_url = ''/admin/statuses'', rq_headers = [(''authorization'', ''Bearer adm'')], rq_query = [],
     rq_client = None, rq_body = Inr PNone\<rparr>"

lemma wit_pool_scan: "set (r_scan mem_redis wit_pool ''gateway:'') = {gw_key ''g1'', gw_key ''g2''}"
  by (auto simp: wit_pool_def gw_key_def)

lemma wit_pool_entries:
  "k \<in> {gw_key ''g1'', gw_key ''g2''} \<Longrightarrow> \<exists>ip. gw_entry mem_redis wit_pool k = gwOrdered (wit_entry_of ip)"
  using jsonable_wit_entry by (auto simp: gw_entry_def wit_pool_def gw_key_def gwLoad_gwDump simp del: jsonable.simps)

lemma sample_counts_the_registry_witness:
  "\<exists>smp. sampleOnce id 60 0 True (over_http (adminStatus mem_redis wit_cfg wit_admin wit_pool)) [] = (Inr smp, [(smp, 60)]) \<and> sa_free smp = 2"
proof -
  have admin: "authorizeAdmin wit_cfg wit_admin"
    by (simp add: authorizeAdmin_def wit_cfg_def wit_admin_def hdr_def startswith_def after_space_def split1_def)
  have ids: "plain_ids mem_redis wit_pool" unfolding plain_ids_def wit_pool_scan
    by (intro ballI, elim insertE emptyE) (force intro: exI [of _ "''g1''"] exI [of _ "''g2''"])+
  have state: "dget (gwOrdered (wit_entry_of ip)) k = dget (wit_entry_of ip) k" for ip k by (rule dget_gwOrdered)
  have started: "\<forall>k \<in> set (r_scan mem_redis wit_pool ''gateway:''). text_start (gw_entry mem_redis wit_pool k)"
    unfolding wit_pool_scan
  proof
    fix k assume "k \<in> {gw_key ''g1'', gw_key ''g2''}"
    then obtain ip where "gw_entry mem_redis wit_pool k = gwOrdered (wit_entry_of ip)" using wit_pool_entries by blast
    then show "text_start (gw_entry mem_redis wit_pool k)"
      by (simp add: text_start_def state) (simp add: wit_entry_of_def registered_entry_def new_entry_def)
  qed
  have free: "deriveState (gwOrdered (wit_entry_of ip)) = ''free''" for ip
    by (simp add: deriveState_free state) (simp add: wit_entry_of_def registered_entry_def new_entry_def free_state_def)
  let ?A = "{k. prefix ''gateway:'' k \<and> r_get mem_redis wit_pool k \<noteq> None}"
  have A: "?A = {gw_key ''g1'', gw_key ''g2''}"
    by (rule trans [OF redis_laws.scan_keys [OF mem.redis_laws_axioms, of wit_pool "''gateway:''", symmetric] wit_pool_scan])
  have "deriveState (gw_entry mem_redis wit_pool k) = ''free''" if "k \<in> ?A" for k
    using wit_pool_entries [of k] free that unfolding A by metis
  then have "{k \<in> ?A. deriveState (gw_entry mem_redis wit_pool k) = ''free''} = {gw_key ''g1'', gw_key ''g2''}" unfolding A by blast
  then have "{k. prefix ''gateway:'' k \<and> r_get mem_redis wit_pool k \<noteq> None \<and> deriveState (gw_entry mem_redis wit_pool k) = ''free''}
      = {gw_key ''g1'', gw_key ''g2''}" by (simp only: mem_Collect_eq conj_assoc)
  then have census: "census mem_redis wit_pool ''free'' = 2" by (simp add: census_def)
  from sample_counts_the_registry [OF mem.redis_laws_axioms registry_ok_wit_pool ids admin started refl, of id 60 0 "[]"]
  obtain smp where "sampleOnce id 60 0 True (over_http (adminStatus mem_redis wit_cfg wit_admin wit_pool)) [] = (Inr smp, store_sample 60 smp [])"
    "sa_free smp = census mem_redis wit_pool ''free''" by blast
  then show ?thesis by (intro exI [of _ smp]) (simp add: census store_sample_def)
qed

end
