(* ===== verification/Event_Relay.thy ===== *)
theory Event_Relay
  imports Py_Base
begin

text \<open>
  The relay of the SIP client's events (\<open>src/eventServer.py\<close>): what one client sends goes to every other
  one. The sockets are numbered, a happening is what one thread meets; each thread's turn is one step of the relation, and the lock makes the
  sending of a chunk to all one step. A socket that fails to send drops the chunk. A thread may leave
  at any time (\<open>Failed\<close>), and a connection be accepted whether or not the event is set: the main
  loop looks at it between two connections only. Time-outs and prints are left out.
\<close>

record event_relay =
  Clients :: "nat list"
  StopEvent :: bool
  delivered :: "(nat \<times> string) list"

definition byte_blank :: "char \<Rightarrow> bool" where
  "byte_blank c = (c \<in> {CHR '' '', CHR 0x09, CHR 0x0A, CHR 0x0B, CHR 0x0C, CHR 0x0D})"

definition bytes_rstrip :: "string \<Rightarrow> string" where
  "bytes_rstrip s = rstrip_by byte_blank s"

text \<open>\<open>works c\<close>: a send to \<open>c\<close> does not raise.\<close>

fun push_to :: "(nat \<Rightarrow> bool) \<Rightarrow> string \<Rightarrow> nat \<Rightarrow> nat list \<Rightarrow> (nat \<times> string) list" where
  "push_to works data from_sock [] = []"
| "push_to works data from_sock (c # cs) =
     (if c = from_sock \<or> \<not> works c then push_to works data from_sock cs
      else (c, bytes_rstrip data) # push_to works data from_sock cs)"

definition relay_push :: "(nat \<Rightarrow> bool) \<Rightarrow> string \<Rightarrow> nat \<Rightarrow> event_relay \<Rightarrow> event_relay" where
  "relay_push works data from_sock r = r\<lparr>delivered := delivered r @ push_to works data from_sock (Clients r)\<rparr>"

text \<open>
  A turn of a client's thread: a chunk of at most \<open>BUFFER_SIZE\<close> bytes, nothing when the client is gone.
  The event is looked at before the next chunk is awaited.
\<close>

definition BUFFER_SIZE :: nat where
  "BUFFER_SIZE = 1024"

definition leave :: "nat \<Rightarrow> event_relay \<Rightarrow> event_relay" where
  "leave c r = r\<lparr>Clients := remove1 c (Clients r)\<rparr>"

definition client_turn :: "(nat \<Rightarrow> bool) \<Rightarrow> nat \<Rightarrow> string \<Rightarrow> event_relay \<Rightarrow> event_relay" where
  "client_turn works c data r =
     (if data = [] then leave c r
      else let r' = relay_push works data c r in if StopEvent r' then leave c r' else r')"

definition control_turn :: "string \<Rightarrow> event_relay \<Rightarrow> event_relay" where
  "control_turn data r =
     (if str_strip data = ''/quit'' \<or> str_strip data = ''/hangup'' then r\<lparr>StopEvent := True\<rparr> else r)"

definition accept :: "nat \<Rightarrow> event_relay \<Rightarrow> event_relay" where
  "accept c r = r\<lparr>Clients := Clients r @ [c]\<rparr>"

definition shutdown :: "event_relay \<Rightarrow> event_relay" where
  "shutdown r = r\<lparr>Clients := []\<rparr>"

datatype happening = Accepted nat | Received nat string | Failed nat | Commanded string

definition relay_turn :: "(nat \<Rightarrow> bool) \<Rightarrow> happening \<Rightarrow> event_relay \<Rightarrow> event_relay" where
  "relay_turn works h r =
     (case h of
        Accepted c \<Rightarrow> accept c r
      | Received c data \<Rightarrow> if c \<in> set (Clients r) then client_turn works c data r else r
      | Failed c \<Rightarrow> leave c r
      | Commanded data \<Rightarrow> control_turn data r)"

definition relay_run :: "(nat \<Rightarrow> bool) \<Rightarrow> happening list \<Rightarrow> event_relay" where
  "relay_run works hs = fold (relay_turn works) hs \<lparr>Clients = [], StopEvent = False, delivered = []\<rparr>"

definition received_by :: "nat \<Rightarrow> event_relay \<Rightarrow> string" where
  "received_by c r = concat (map snd (filter (\<lambda>p. fst p = c) (delivered r)))"

section \<open>What a client receives\<close>

text \<open>What the others sent while it was there, read off the history alone.\<close>

fun heard :: "nat \<Rightarrow> bool \<Rightarrow> nat set \<Rightarrow> happening list \<Rightarrow> string" where
  "heard c stopped there [] = []"
| "heard c stopped there (h # hs) =
     (case h of
        Accepted d \<Rightarrow> heard c stopped (insert d there) hs
      | Received d data \<Rightarrow>
          if d \<notin> there then heard c stopped there hs
          else if data = [] then heard c stopped (there - {d}) hs
          else (if c \<in> there \<and> c \<noteq> d then bytes_rstrip data else []) @ heard c stopped (if stopped then there - {d} else there) hs
      | Failed d \<Rightarrow> heard c stopped (there - {d}) hs
      | Commanded data \<Rightarrow> heard c (stopped \<or> str_strip data \<in> {''/quit'', ''/hangup''}) there hs)"

text \<open>Each connection has a socket of its own.\<close>

fun fresh_sockets :: "nat set \<Rightarrow> happening list \<Rightarrow> bool" where
  "fresh_sockets used [] = True"
| "fresh_sockets used (h # hs) =
     (case h of Accepted d \<Rightarrow> d \<notin> used \<and> fresh_sockets (insert d used) hs | _ \<Rightarrow> fresh_sockets used hs)"

lemma push_to_clients: "(c, b) \<in> set (push_to works data d cs) \<Longrightarrow> c \<in> set cs \<and> c \<noteq> d \<and> works c"
  by (induction cs) (auto split: if_splits)

lemma push_to_one:
  "distinct cs \<Longrightarrow> concat (map snd (filter (\<lambda>p. fst p = c) (push_to works data d cs))) =
    (if c \<in> set cs \<and> c \<noteq> d \<and> works c then bytes_rstrip data else [])"
  by (induction cs) (auto dest: push_to_clients)

lemma relay_simps [simp]:
  "received_by c (accept d r) = received_by c r" "received_by c (leave d r) = received_by c r"
  "received_by c (control_turn t r) = received_by c r"
  "Clients (accept d r) = Clients r @ [d]" "Clients (leave d r) = remove1 d (Clients r)" "Clients (relay_push works t d r) = Clients r"
  "Clients (control_turn t r) = Clients r" "StopEvent (accept d r) = StopEvent r" "StopEvent (leave d r) = StopEvent r"
  "StopEvent (relay_push works t d r) = StopEvent r" "StopEvent (control_turn t r) = (StopEvent r \<or> str_strip t = ''/quit'' \<or> str_strip t = ''/hangup'')"
  by (simp_all add: accept_def leave_def control_turn_def relay_push_def received_by_def)

lemma received_push: "distinct (Clients r) \<Longrightarrow> received_by c (relay_push works data d r) =
    received_by c r @ (if c \<in> set (Clients r) \<and> c \<noteq> d \<and> works c then bytes_rstrip data else [])"
  by (simp add: relay_push_def received_by_def push_to_one)

lemma turn_simps:
  "relay_turn works (Accepted d) r = accept d r"
  "relay_turn works (Received d t) r =
     (if d \<notin> set (Clients r) then r else if t = [] then leave d r
      else if StopEvent r then leave d (relay_push works t d r) else relay_push works t d r)"
  "relay_turn works (Failed d) r = leave d r"
  "relay_turn works (Commanded t) r = control_turn t r"
  by (simp_all add: relay_turn_def client_turn_def Let_def)

lemma run_heard:
  assumes "fresh_sockets used hs" "set (Clients r) \<subseteq> used" "distinct (Clients r)" "works c"
  shows "received_by c (fold (relay_turn works) hs r) = received_by c r @ heard c (StopEvent r) (set (Clients r)) hs"
  using assms
proof (induction hs arbitrary: r used)
  case (Cons h hs)
  note IH = Cons.IH and prems = Cons.prems
  show ?case
  proof (cases h)
    case (Accepted d)
    then have d: "d \<notin> used" "fresh_sockets (insert d used) hs" using prems by auto
    then have "d \<notin> set (Clients r)" "set (Clients r) \<subseteq> insert d used" using prems by auto
    then show ?thesis
      using IH [OF d(2), of "accept d r"] IH [OF d(2), of r] prems by (simp add: Accepted turn_simps)
  next
    case (Received d data)
    then have f: "fresh_sockets used hs" using prems by simp
    have "set (remove1 d (Clients r)) = set (Clients r) - {d}" "set (remove1 d (Clients r)) \<subseteq> used" using prems by auto
    then show ?thesis
      using IH [OF f, of "leave d r"] IH [OF f, of "relay_push works data d r"] IH [OF f, of "leave d (relay_push works data d r)"] IH [OF f, of r] prems received_push [OF prems(3), of c works data d]
      by (simp add: Received turn_simps)
  next
    case (Failed d)
    then have f: "fresh_sockets used hs" using prems by simp
    have "set (remove1 d (Clients r)) = set (Clients r) - {d}" "set (remove1 d (Clients r)) \<subseteq> used" using prems by auto
    then show ?thesis using IH [OF f, of "leave d r"] prems by (simp add: Failed turn_simps)
  next
    case (Commanded data)
    then have f: "fresh_sockets used hs" using prems by simp
    then show ?thesis using IH [OF f, of "control_turn data r"] IH [OF f, of r] prems by (simp add: Commanded turn_simps)
  qed
qed simp



section \<open>A chunk cut at a blank\<close>

text \<open>A chunk that ends with a blank loses it: of an event cut there, a byte is missing.\<close>

lemma cut_at_a_blank_loses_a_byte:
  "received_by 1 (relay_run (\<lambda>_. True) [Accepted 1, Accepted 2, Received 2 ''3:a '', Received 2 ''b,'']) = ''3:ab,''"
  using run_heard [of "{}" "[Accepted 1, Accepted 2, Received 2 ''3:a '', Received 2 ''b,'']"
      "\<lparr>Clients = [], StopEvent = False, delivered = []\<rparr>" "\<lambda>_. True" 1]
  by (simp add: relay_run_def received_by_def bytes_rstrip_def rstrip_by_def byte_blank_def)

end
