(* ===== verification/Console_App.thy ===== *)
theory Console_App
  imports Urls Kiosk Web
begin

text \<open>
  The console as an application (\<open>manager/app.py\<close>, \<open>manager/origin.py\<close>, \<open>manager/requestid.py\<close>): what it
  refuses to start with, the layers every request goes through, and the routes of app.py that are not
  about accounts (the sign-in is in Account_Routes): the probe, the page and the brand's files. A layer is
  a function of the layer below it. The path of a request is its \<open>rq_url\<close>; header names are in lower
  case. The routes below the layers, the files on the disk and the identifiers drawn are arguments.
\<close>

section \<open>Starting\<close>

definition production :: "environ \<Rightarrow> bool" where
  "production env = (str_lower (env_or env ''MANAGER_ENV'' ''lab'') = ''production'')"

definition cookieSecure :: "environ \<Rightarrow> bool" where
  "cookieSecure env = (env_or env ''MANAGER_COOKIE_SECURE'' [] = ''1'')"

text \<open>The secret the sessions are signed with and whether their cookie needs TLS; \<open>drawn\<close> is \<open>token_hex(32)\<close>.\<close>

definition console_start :: "environ \<Rightarrow> string \<Rightarrow> exn + (string \<times> bool)" where
  "console_start env drawn =
     (let secret = env_or env ''MANAGER_SESSION_SECRET'' [] in
      if secret = [] \<and> production env then Inl (OtherError ''SystemExit: MANAGER_SESSION_SECRET'')
      else if production env \<and> \<not> cookieSecure env then Inl (OtherError ''SystemExit: MANAGER_COOKIE_SECURE'')
      else Inr (if secret = [] then drawn else secret, cookieSecure env))"

section \<open>Writes from another origin\<close>

definition SAFE_METHODS :: "string list" where
  "SAFE_METHODS = [''GET'', ''HEAD'', ''OPTIONS'']"

definition EXEMPT_PREFIXES :: "string list" where
  "EXEMPT_PREFIXES = [''/ingest/'']"

text \<open>The hosts the request may say it was sent to.\<close>

definition own_hosts :: "bool \<Rightarrow> request \<Rightarrow> string list" where
  "own_hosts trust rq =
     str_lower (case hdr rq ''host'' of None \<Rightarrow> [] | Some h \<Rightarrow> h)
     # (case hdr rq ''x-forwarded-host'' of
          Some f \<Rightarrow> if trust \<and> f \<noteq> [] then [str_lower (str_strip (hd (str_split '','' f)))] else []
        | None \<Rightarrow> [])"

text \<open>\<open>brackets\<close> is \<open>urlsplit\<close>'s check of an address in brackets; it raises for some origins.\<close>

definition refusal :: "(string \<Rightarrow> bool) \<Rightarrow> bool \<Rightarrow> request \<Rightarrow> exn + string option" where
  "refusal brackets trust rq =
     (if str_upper (rq_method rq) \<in> set SAFE_METHODS \<or> list_ex (startswith (rq_url rq)) EXEMPT_PREFIXES then Inr None
      else let site = str_lower (case hdr rq ''sec-fetch-site'' of None \<Rightarrow> [] | Some s \<Rightarrow> s) in
        if site \<noteq> [] \<and> site \<noteq> ''same-origin'' \<and> site \<noteq> ''none'' then Inr (Some (''Sec-Fetch-Site is '' @ site))
        else (case hdr rq ''origin'' of
                None \<Rightarrow> Inr None
              | Some origin \<Rightarrow>
                  if origin = ''null'' then Inr (Some ''Origin is null'')
                  else bindE (urlsplit brackets origin) (\<lambda>p.
                    let sender = str_lower (up_netloc p) in
                    Inr (if sender \<noteq> [] \<and> sender \<in> set (own_hosts trust rq) then None
                         else Some (''Origin '' @ origin @ '' is not this host'')))))"

section \<open>The layers\<close>

record reply =
  re_status :: int
  re_headers :: "(string \<times> string) list"
  re_body :: pyval

type_synonym 's layer = "request \<Rightarrow> 's \<Rightarrow> (exn + reply) \<times> 's"

definition detail_reply :: "int \<Rightarrow> string \<Rightarrow> reply" where
  "detail_reply status detail = \<lparr>re_status = status, re_headers = [(''content-type'', ''application/json'')], re_body = PDict [(''detail'', PStr detail)]\<rparr>"

definition SameOriginWrites :: "(string \<Rightarrow> bool) \<Rightarrow> bool \<Rightarrow> 's layer \<Rightarrow> 's layer" where
  "SameOriginWrites brackets trust app rq s =
     (case refusal brackets trust rq of
        Inl e \<Rightarrow> (Inl e, s)
      | Inr (Some reason) \<Rightarrow> (Inr (detail_reply 403 ''Cross-origin write refused''), s)
      | Inr None \<Rightarrow> app rq s)"

definition header_default :: "string \<Rightarrow> string \<Rightarrow> (string \<times> string) list \<Rightarrow> (string \<times> string) list" where
  "header_default k v hs = (if dmem hs k then hs else hs @ [(k, v)])"

definition CSP :: string where
  "CSP = (let own = CHR 0x27 # ''self'' @ [CHR 0x27]; none = CHR 0x27 # ''none'' @ [CHR 0x27] in
     ''default-src '' @ own @ ''; img-src '' @ own @ '' data:; frame-ancestors '' @ none @ ''; base-uri '' @ own @ ''; form-action '' @ own)"

definition secured :: "string \<Rightarrow> (string \<times> string) list \<Rightarrow> (string \<times> string) list" where
  "secured path hs =
     (let hs = header_default ''x-content-type-options'' ''nosniff'' (header_default ''content-security-policy'' CSP hs);
          hs = (if startswith path ''/static/'' then dset ''cache-control'' ''no-cache'' hs else hs)
      in header_default ''referrer-policy'' ''same-origin'' hs)"

definition SecurityHeaders :: "'s layer \<Rightarrow> 's layer" where
  "SecurityHeaders app rq s =
     (case app rq s of
        (Inl e, s') \<Rightarrow> (Inl e, s')
      | (Inr r, s') \<Rightarrow> (Inr (r\<lparr>re_headers := secured (rq_url rq) (re_headers r)\<rparr>), s'))"

text \<open>\<open>ACCEPTED\<close>; a header's value has no line end, so \<open>$\<close> is its end.\<close>

definition accepted_id :: "string \<Rightarrow> bool" where
  "accepted_id s = (8 \<le> length s \<and> length s \<le> 64 \<and> list_all (\<lambda>c. is_alnum c \<or> c \<in> {CHR ''.'', CHR ''_'', CHR ''-''}) s)"

definition current_id :: "string \<Rightarrow> request \<Rightarrow> string" where
  "current_id drawn rq =
     (let incoming = (case hdr rq ''x-request-id'' of None \<Rightarrow> [] | Some h \<Rightarrow> h) in
      if accepted_id incoming then incoming else take 16 drawn)"

definition RequestId :: "string \<Rightarrow> 's layer \<Rightarrow> 's layer" where
  "RequestId drawn app rq s =
     (case app rq s of
        (Inl e, s') \<Rightarrow> (Inl e, s')
      | (Inr r, s') \<Rightarrow> (Inr (r\<lparr>re_headers := dset ''x-request-id'' (current_id drawn rq) (re_headers r)\<rparr>), s'))"

text \<open>The handler of \<open>DatabaseUnavailable\<close>, around the routes.\<close>

definition database_handler :: "'s layer \<Rightarrow> 's layer" where
  "database_handler app rq s =
     (case app rq s of
        (Inl (OtherError m), s') \<Rightarrow>
          if m = ''DatabaseUnavailable'' then (Inr (detail_reply 503 ''Reporting database unavailable''), s') else (Inl (OtherError m), s')
      | r \<Rightarrow> r)"

definition serve_console :: "(string \<Rightarrow> bool) \<Rightarrow> bool \<Rightarrow> string \<Rightarrow> 's layer \<Rightarrow> 's layer" where
  "serve_console brackets trust drawn routes =
     RequestId drawn (SecurityHeaders (SameOriginWrites brackets trust (database_handler routes)))"

section \<open>The probe and the page\<close>

text \<open>\<open>answers\<close>: the database answered the probe within its time.\<close>

definition health :: "bool \<Rightarrow> reply" where
  "health answers =
     (if answers then \<lparr>re_status = 200, re_headers = [], re_body = PDict [(''status'', PStr ''ok'')]\<rparr>
      else \<lparr>re_status = 503, re_headers = [], re_body = PDict [(''status'', PStr ''degraded''), (''database'', PStr ''unreachable'')]\<rparr>)"

definition index_page :: "(string \<Rightarrow> string option) \<Rightarrow> string \<Rightarrow> reply" where
  "index_page files dir =
     (case files (dir @ ''/index.html'') of
        None \<Rightarrow> detail_reply 500 ''front/index.html not found''
      | Some content \<Rightarrow>
          \<lparr>re_status = 200, re_headers = [(''content-type'', ''text/html''), (''cache-control'', ''no-store'')], re_body = PStr content\<rparr>)"

section \<open>The brand\<close>

definition LOGO_TYPES :: "(string \<times> string) list" where
  "LOGO_TYPES = [(''.svg'', ''image/svg+xml''), (''.png'', ''image/png''), (''.jpg'', ''image/jpeg''), (''.jpeg'', ''image/jpeg''),
     (''.webp'', ''image/webp''), (''.ico'', ''image/x-icon'')]"

text \<open>\<open>os.path.splitext(name)[1]\<close> of a name without folders: what follows its last dot, unless only dots are before it.\<close>

definition extension :: "string \<Rightarrow> string" where
  "extension name =
     (let after = rev (takeWhile (\<lambda>c. c \<noteq> CHR ''.'') (rev name)); before = take (length name - length after - 1) name in
      if CHR ''.'' \<in> set name \<and> (\<exists>c \<in> set before. c \<noteq> CHR ''.'') then CHR ''.'' # after else [])"

definition brandFile :: "environ \<Rightarrow> string \<Rightarrow> string" where
  "brandFile env variable =
     (let name = str_strip (env_or env variable []) in
      if name = [] then []
      else if CHR ''/'' \<in> set name \<or> map_of LOGO_TYPES (str_lower (extension name)) = None then []
      else name)"

record brand =
  brandName :: string
  brandTagline :: string
  brandLogo :: string
  brandFavicon :: string

definition brand_of :: "environ \<Rightarrow> brand" where
  "brand_of env =
     (let name = str_strip (env_or env ''MANAGER_BRAND_NAME'' []); logo = brandFile env ''MANAGER_BRAND_LOGO'';
          favicon = brandFile env ''MANAGER_BRAND_FAVICON''
      in \<lparr>brandName = (if name = [] then ''SIP Media Gateway Manager'' else name),
          brandTagline = str_strip (env_or env ''MANAGER_BRAND_TAGLINE'' []),
          brandLogo = logo, brandFavicon = (if favicon = [] then logo else favicon)\<rparr>)"

definition brandUrl :: "string \<Rightarrow> string" where
  "brandUrl name = (if name = [] then [] else ''/brand/'' @ name)"

definition brandFileRoute :: "(string \<Rightarrow> string option) \<Rightarrow> string \<Rightarrow> brand \<Rightarrow> string \<Rightarrow> reply" where
  "brandFileRoute files dir b name =
     (if name = [] \<or> name \<noteq> brandLogo b \<and> name \<noteq> brandFavicon b then detail_reply 404 ''Not found''
      else (case files (dir @ ''/'' @ name) of
              None \<Rightarrow> detail_reply 404 ''Not found''
            | Some content \<Rightarrow>
                (case map_of LOGO_TYPES (str_lower (extension name)) of
                   None \<Rightarrow> detail_reply 500 ''Internal Server Error''
                 | Some ty \<Rightarrow>
                     \<lparr>re_status = 200, re_headers = [(''content-type'', ty), (''cache-control'', ''no-cache'')], re_body = PStr content\<rparr>)))"

end
