(* ===== verification/Console_Props.thy ===== *)
theory Console_Props
  imports Console_App
begin

text \<open>
  What the layers of the console promise, whatever the routes below them: a page of another host writes
  nothing, every answer carries its headers and its identifier, and of the brand's folder only the two
  files named are served.
\<close>

section \<open>Headers\<close>

lemma header_default_keeps [simp]: "map_of hs k = Some v \<Longrightarrow> map_of (header_default k' w hs) k = Some v"
  by (simp add: header_default_def map_add_def)

lemma header_default_set: "dmem (header_default k v hs) k"
  by (auto simp: header_default_def dmem_def map_add_def split: option.split)

lemma header_default_dmem [simp]: "dmem hs k \<Longrightarrow> dmem (header_default k' v hs) k"
  by (auto simp: dmem_def header_default_def map_add_def split: option.splits)

definition dressed :: "string \<Rightarrow> reply \<Rightarrow> bool" where
  "dressed i r =
     (map_of (re_headers r) ''x-request-id'' = Some i
      \<and> dmem (re_headers r) ''content-security-policy'' \<and> dmem (re_headers r) ''x-content-type-options'' \<and> dmem (re_headers r) ''referrer-policy'')"

lemma secured_dressed: "dmem (secured path hs) k" if "k \<in> {''content-security-policy'', ''x-content-type-options'', ''referrer-policy''}"
  using that header_default_set by (auto simp: secured_def Let_def)

lemma console_dressed: "fst (serve_console B trust drawn routes rq s) = Inr r \<Longrightarrow> dressed (current_id drawn rq) r"
  using secured_dressed
  by (auto simp: serve_console_def RequestId_def SecurityHeaders_def dressed_def update_conv split: prod.splits sum.splits)

section \<open>Writes\<close>

definition is_write :: "request \<Rightarrow> bool" where
  "is_write rq = (str_upper (rq_method rq) \<notin> set SAFE_METHODS \<and> \<not> startswith (rq_url rq) ''/ingest/'')"

lemma console_world: "snd (serve_console B trust drawn routes rq s) = (if refusal B trust rq = Inr None then snd (routes rq s) else s)"
proof -
  have "snd (database_handler routes rq s) = snd (routes rq s)"
    by (auto simp: database_handler_def split: prod.splits sum.splits exn.splits)
  then show ?thesis
    by (auto simp: serve_console_def RequestId_def SecurityHeaders_def SameOriginWrites_def split: prod.splits sum.splits option.splits)
qed

lemma refused_status:
  assumes "refusal B trust rq = Inr (Some reason)"
  shows "\<exists>r. fst (serve_console B trust drawn routes rq s) = Inr r \<and> re_status r = 403"
  using assms by (simp add: serve_console_def RequestId_def SecurityHeaders_def SameOriginWrites_def detail_reply_def)

text \<open>Whatever the headers look like, a write that changed something came from no browser, or from a page of this host.\<close>

theorem writes_come_from_home:
  assumes "is_write rq" "snd (serve_console B trust drawn routes rq s) \<noteq> s"
  shows "(hdr rq ''origin'' = None \<or> (\<exists>o' p. hdr rq ''origin'' = Some o' \<and> urlsplit B o' = Inr p \<and> up_netloc p \<noteq> []
            \<and> str_lower (up_netloc p) \<in> set (own_hosts trust rq)))
    \<and> (\<forall>f. hdr rq ''sec-fetch-site'' = Some f \<longrightarrow> str_lower f \<in> {[], ''same-origin'', ''none''})"
proof -
  have "refusal B trust rq = Inr None" using assms(2) by (simp add: console_world split: if_splits)
  with assms(1) show ?thesis
    by (auto simp: refusal_def is_write_def EXEMPT_PREFIXES_def bindE_eq_Inr_iff str_lower_def Let_def split: if_splits option.splits)
qed

lemma page_origin_not_null: "url_ok B p \<Longrightarrow> urlunsplit p \<noteq> ''null''"
proof
  assume p: "url_ok B p" and n: "urlunsplit p = ''null''"
  have "CHR '':'' \<in> set (urlunsplit p)" by (simp add: urlunsplit_text [OF p])
  then show False unfolding n by simp
qed


definition wit_page :: url_parts where
  "wit_page = \<lparr>up_scheme = ''https'', up_netloc = ''interact.org'', up_path = [], up_query = [], up_fragment = []\<rparr>"

definition wit_write :: "string \<Rightarrow> request" where
  "wit_write host = \<lparr>rq_method = ''POST'', rq_url = ''/api/users'', rq_headers = [(''origin'', urlunsplit wit_page), (''host'', host)],
     rq_query = [], rq_client = None, rq_body = Inr PNone\<rparr>"

definition wit_route :: "nat layer" where
  "wit_route rq s = (Inr \<lparr>re_status = 200, re_headers = [], re_body = PNone\<rparr>, s + 1)"


section \<open>The brand\<close>

lemma brand_file_named: "brandFile env v = [] \<or> CHR ''/'' \<notin> set (brandFile env v) \<and> map_of LOGO_TYPES (str_lower (extension (brandFile env v))) \<noteq> None"
  by (simp add: brandFile_def Let_def)

theorem brand_serves_its_two_files:
  assumes "re_status (brandFileRoute files dir (brand_of env) name) = 200"
  shows "CHR ''/'' \<notin> set name \<and> (name = brandFile env ''MANAGER_BRAND_LOGO'' \<or> name = brandFile env ''MANAGER_BRAND_FAVICON'')
    \<and> (\<exists>content. files (dir @ ''/'' @ name) = Some content)"
  using assms brand_file_named [of env "''MANAGER_BRAND_LOGO''"] brand_file_named [of env "''MANAGER_BRAND_FAVICON''"]
  by (auto simp: brandFileRoute_def brand_of_def detail_reply_def Let_def split: if_splits option.splits)

end
