(* ===== verification/Outscale.thy ===== *)
theory Outscale
  imports Scaler Kiosk Codecs
begin

text \<open>
  The cloud of the scaler (\<open>providers/outscale/outscale.py\<close>): the machines of one provider, behind the
  interface \<open>csp\<close>. Its requests go through the provider's own SDK: \<open>fcu\<close> is one request, its name and
  its parameters, and the response it leaves. Python's local variables live as long as the function: a
  name no turn of a loop has set yet raises, and one an earlier turn set keeps that value. Addresses are
  of version 4.
\<close>

definition obj_fields :: "pyval \<Rightarrow> pydict" where
  "obj_fields v = (case v of PDict d \<Rightarrow> d | _ \<Rightarrow> [])"

type_synonym 'c fcu = "string \<Rightarrow> pydict \<Rightarrow> ('c, pyval) io"

section \<open>Values\<close>

fun py_path :: "pyval \<Rightarrow> string list \<Rightarrow> exn + pyval" where
  "py_path v [] = Inr v"
| "py_path v (k # ks) = bindE (py_index v k) (\<lambda>x. py_path x ks)"

definition unbound :: "string \<Rightarrow> exn" where
  "unbound name = OtherError (''UnboundLocalError: '' @ name)"

definition bound :: "string \<Rightarrow> 'a option \<Rightarrow> exn + 'a" where
  "bound name v = (case v of None \<Rightarrow> Inl (unbound name) | Some x \<Rightarrow> Inr x)"

text \<open>\<open>ip_address(ip).is_private\<close> of a dotted address.\<close>

definition octet :: "string \<Rightarrow> nat option" where
  "octet s = (if s \<noteq> [] \<and> length s \<le> 3 \<and> list_all is_digit s \<and> (length s = 1 \<or> hd s \<noteq> CHR ''0'') \<and> digits_val s < 256
     then Some (digits_val s) else None)"

definition octets :: "string \<Rightarrow> exn + nat list" where
  "octets ip =
     (let os = map octet (str_split ''.'' ip) in
      if length os = 4 \<and> None \<notin> set os then Inr (map the os)
      else Inl (ValueError (ip @ '' does not appear to be an IPv4 or IPv6 address'')))"

definition private_octets :: "nat list \<Rightarrow> bool" where
  "private_octets os =
     (let a = os ! 0; b = os ! 1; c = os ! 2; d = os ! 3 in
      a \<in> {0, 10, 127} \<or> a = 169 \<and> b = 254 \<or> a = 172 \<and> 16 \<le> b \<and> b \<le> 31 \<or> a = 192 \<and> b = 168
      \<or> a = 192 \<and> b = 0 \<and> c = 0 \<and> d \<notin> {9, 10} \<or> a = 192 \<and> b = 0 \<and> c = 2 \<or> a = 198 \<and> b \<in> {18, 19}
      \<or> a = 198 \<and> b = 51 \<and> c = 100 \<or> a = 203 \<and> b = 0 \<and> c = 113 \<or> 240 \<le> a)"

definition is_private :: "string \<Rightarrow> exn + bool" where
  "is_private ip = bindE (octets ip) (\<lambda>os. Inr (private_octets os))"

section \<open>Configuration\<close>

record osc =
  oc_profile :: string
  oc_name :: pyval
  oc_type :: pyval
  oc_image :: pyval
  oc_subnet :: pyval
  oc_group :: pyval
  oc_user_data :: string

definition osc_version :: string where
  "osc_version = ''2016-09-15''"

definition script_lines :: "pyval \<Rightarrow> exn + string" where
  "script_lines v = bindE (py_iter v) (\<lambda>ls. bindE (mapE as_str ls) (\<lambda>ss. Inr (str_join [CHR 0x0A] ss)))"

text \<open>The private address of a service of the configuration, or its public one; \<open>None\<close> when it has none.\<close>

definition service_address :: "pyval \<Rightarrow> string \<Rightarrow> exn + pyval" where
  "service_address user_data name =
     bindE (py_in name user_data) (\<lambda>there.
       if \<not> there then Inr PNone
       else bindE (py_path user_data [name, ''priv'']) (\<lambda>p. if truthy p then Inr p else py_path user_data [name, ''pub'']))"

definition with_default :: "pyval \<Rightarrow> string \<times> string \<Rightarrow> pydict \<Rightarrow> exn + pydict" where
  "with_default user_data f sip =
     bindE (service_address user_data (snd f)) (\<lambda>v. Inr (if dmem sip (fst f) then sip else dset (fst f) v sip))"

definition sip_defaults :: "pyval \<Rightarrow> pydict \<Rightarrow> exn + pydict" where
  "sip_defaults user_data sip =
     bindE (with_default user_data (''registrar'', ''sip_registrar'') sip) (\<lambda>sip.
     bindE (with_default user_data (''proxy'', ''outbound_proxy'') sip) (with_default user_data (''turn'', ''turn_server'')))"

text \<open>The script of an action, with its fields; a value is written as \<open>str\<close> writes it.\<close>

definition act_script :: "pyval \<Rightarrow> string \<times> pydict \<Rightarrow> exn + string" where
  "act_script inst act =
     bindE (py_path inst [''user_data'', ''script'', fst act]) (\<lambda>ls.
     bindE (script_lines ls) (\<lambda>t. bindE (str_format (map (\<lambda>(k, v). (k, py_str v)) (snd act)) t) (\<lambda>t. Inr (CHR 0x0A # t))))"

definition configureInstance :: "string \<Rightarrow> pyval \<Rightarrow> (string \<times> pydict) list \<Rightarrow> exn + osc" where
  "configureInstance profile inst initData =
     bindE (mapE (\<lambda>k. py_path inst [''profile'', profile, k]) [''access_key'', ''secret_key'', ''region'']) (\<lambda>_.
     bindE (mapE (\<lambda>k. py_path inst [k]) [''name'', ''instance_type_by_cpu_num'', ''instance_image'', ''subnet'', ''security_group'']) (\<lambda>vs.
     bindE (bindE (py_path inst [''user_data'', ''script'', ''common'']) script_lines) (\<lambda>common.
     bindE (if dmem initData ''sip''
            then bindE (py_path inst [''user_data'']) (\<lambda>ud. bindE (sip_defaults ud (the (map_of initData ''sip''))) (\<lambda>sip. Inr (dset ''sip'' sip initData)))
            else Inr initData) (\<lambda>acts.
     bindE (mapE (act_script inst) acts) (\<lambda>parts.
       Inr \<lparr>oc_profile = profile, oc_name = vs ! 0, oc_type = vs ! 1, oc_image = vs ! 2, oc_subnet = vs ! 3, oc_group = vs ! 4,
            oc_user_data = common @ concat parts\<rparr>)))))"

section \<open>Requests\<close>

definition osc_params :: "osc \<Rightarrow> pydict \<Rightarrow> pydict" where
  "osc_params o' ps = [(''Profile'', PStr (oc_profile o')), (''Version'', PStr osc_version)] @ ps"

definition osc_filter :: "string \<Rightarrow> pyval \<Rightarrow> pyval" where
  "osc_filter name value' = PDict [(''Name'', PStr name), (''Value'', value')]"

section \<open>The machines there are\<close>

record found =
  fo_priv :: "pyval option"
  fo_launch :: "pyval option"
  fo_cpu :: "string option"

text \<open>\<open>instanceType.split('.c')[1].split('r')[0]\<close>.\<close>

definition cpu_text :: "string \<Rightarrow> exn + string" where
  "cpu_text ty =
     (case str_split ''.c'' ty of _ # t # _ \<Rightarrow> Inr (hd (str_split ''r'' t)) | _ \<Rightarrow> Inl (IndexError ''list index out of range''))"

definition look :: "pyval \<Rightarrow> string \<Rightarrow> exn + pyval option" where
  "look inst k = bindE (py_in k inst) (\<lambda>b. if b then bindE (py_index inst k) (\<lambda>v. Inr (Some v)) else Inr None)"

definition one_instance :: "pyval \<Rightarrow> found \<Rightarrow> exn + (pyval \<times> found)" where
  "one_instance it f =
     bindE (py_path it [''instancesSet'', ''item'']) (\<lambda>inst.
     bindE (look inst ''privateIpAddress'') (\<lambda>priv.
     bindE (look inst ''ipAddress'') (\<lambda>pub.
     bindE (look inst ''launchTime'') (\<lambda>launch.
     bindE (look inst ''instanceType'') (\<lambda>ty.
     bindE (case ty of None \<Rightarrow> Inr (fo_cpu f) | Some v \<Rightarrow> bindE (as_str v) (\<lambda>s. bindE (cpu_text s) (\<lambda>c. Inr (Some c)))) (\<lambda>cpu.
     let f = \<lparr>fo_priv = (case priv of None \<Rightarrow> fo_priv f | p \<Rightarrow> p), fo_launch = (case launch of None \<Rightarrow> fo_launch f | l \<Rightarrow> l), fo_cpu = cpu\<rparr> in
     bindE (bound ''launchTime'' (fo_launch f)) (\<lambda>start.
     bindE (bound ''privIpAddress'' (fo_priv f)) (\<lambda>p.
     bindE (bound ''cpuCnt'' (fo_cpu f)) (\<lambda>c.
       (case py_int_str c of
          None \<Rightarrow> Inl (ValueError ''invalid literal for int()'')
        | Some n \<Rightarrow>
            Inr (PDict [(''start'', start), (''addr'', PDict [(''priv'', p), (''pub'', (case pub of None \<Rightarrow> PNone | Some q \<Rightarrow> q))]),
                        (''cpu_count'', PInt n)], f)))))))))))"

fun all_instances :: "pyval list \<Rightarrow> found \<Rightarrow> exn + pyval list" where
  "all_instances [] f = Inr []"
| "all_instances (it # its) f = bindE (one_instance it f) (\<lambda>(d, f'). bindE (all_instances its f') (\<lambda>ds. Inr (d # ds)))"

definition instance_items :: "pyval \<Rightarrow> exn + pyval list" where
  "instance_items response =
     bindE (py_path response [''DescribeInstancesResponse'', ''reservationSet'']) (\<lambda>rs.
       if \<not> truthy rs then Inr []
       else bindE (look rs ''item'') (\<lambda>items.
         Inr (case items of None \<Rightarrow> [] | Some (PList xs) \<Rightarrow> xs | Some v \<Rightarrow> [v])))"

definition enumerateInstances :: "'c fcu \<Rightarrow> osc \<Rightarrow> ('c, pyval list) io" where
  "enumerateInstances fcu o' =
     bind_io (lift_io (py_index (oc_group o') ''app'')) (\<lambda>app.
     bind_io (fcu ''DescribeInstances'' (osc_params o' [(''Filter'', PList [osc_filter ''group-id'' (PList [app]),
         osc_filter ''subnet-id'' (PList [oc_subnet o']), osc_filter ''instance-state-name'' (PList [PStr ''running''])])])) (\<lambda>resp.
       lift_io (bindE (instance_items resp) (\<lambda>items. all_instances items \<lparr>fo_priv = None, fo_launch = None, fo_cpu = None\<rparr>))))"

section \<open>A new machine\<close>

definition runInstance :: "'c fcu \<Rightarrow> osc \<Rightarrow> string \<Rightarrow> string \<Rightarrow> ('c, pyval) io" where
  "runInstance fcu o' numCPU gigaRAM =
     bind_io (lift_io (py_path (oc_type o') [numCPU, gigaRAM])) (\<lambda>ty.
     bind_io (lift_io (mapE (\<lambda>k. py_index (oc_group o') k) [''admin'', ''app''])) (\<lambda>groups.
     bind_io (lift_io (if list_all (\<lambda>c. of_char c < (128 :: nat)) (oc_user_data o') then Inr (b64encode (oc_user_data o'))
                       else Inl (ValueError ''UnicodeEncodeError''))) (\<lambda>data.
     bind_io (fcu ''RunInstances'' (osc_params o'
         [(''BlockDeviceMapping'', PList [PDict [(''Ebs'', PDict [(''DeleteOnTemination'', PBool True), (''VolumeSize'', PInt 10), (''VolumeType'', PStr ''standard'')]),
            (''DeviceName'', PStr ''/dev/sda1'')]]),
          (''MinCount'', PInt 1), (''MaxCount'', PInt 1), (''DryRun'', PBool False), (''ImageId'', oc_image o'), (''KeyName'', PStr ''Visio-DEV''),
          (''InstanceInitiatedShutdownBehavior'', PStr ''stop''), (''InstanceType'', ty), (''SubnetId'', oc_subnet o'), (''SecurityGroupId'', PList groups),
          (''UserData'', PStr data)])) (\<lambda>resp.
       lift_io (py_path resp [''RunInstancesResponse'', ''instancesSet'', ''item''])))))"

definition instance_name :: "string \<Rightarrow> pyval \<Rightarrow> string \<Rightarrow> string" where
  "instance_name dns name suffix' = hd (str_split ''.'' dns) @ ''.'' @ py_str name @ ''.'' @ suffix'"

definition createInstance :: "'c fcu \<Rightarrow> osc \<Rightarrow> string \<Rightarrow> string \<Rightarrow> string \<Rightarrow> string option \<Rightarrow> ('c, pyval \<times> pyval) io" where
  "createInstance fcu o' numCPU gigaRAM name ip =
     bind_io (runInstance fcu o' numCPU gigaRAM) (\<lambda>res.
     bind_io (lift_io (bindE (look res ''instanceId'') (\<lambda>i. bindE (bound ''instName'' i) (\<lambda>instanceId.
         bindE (bindE (py_index res ''privateDnsName'') as_str) (\<lambda>dns. bindE (py_index res ''privateIpAddress'') (\<lambda>_. Inr (instanceId, dns))))))) (\<lambda>(instanceId, dns).
     bind_io (case ip of
         Some a \<Rightarrow> if a \<noteq> [] then ret_io (PStr a) else bind_io (fcu ''AllocateAddress'' (osc_params o' [])) (\<lambda>r. lift_io (py_path r [''AllocateAddressResponse'', ''publicIp'']))
       | None \<Rightarrow> bind_io (fcu ''AllocateAddress'' (osc_params o' [])) (\<lambda>r. lift_io (py_path r [''AllocateAddressResponse'', ''publicIp'']))) (\<lambda>pubIp.
     bind_io (fcu ''AssociateAddress'' (osc_params o' [(''InstanceId'', instanceId), (''PublicIp'', pubIp)])) (\<lambda>_.
     bind_io (fcu ''CreateTags'' (osc_params o' [(''ResourceId'', instanceId),
         (''Tag'', PList [PDict [(''Key'', PStr ''name''), (''Value'', PStr (instance_name dns (oc_name o') name))]])])) (\<lambda>_.
       ret_io (instanceId, pubIp))))))"

section \<open>Machines given back\<close>

text \<open>The machine of an address, and its public address: \<open>known\<close> is the machine an earlier turn found.\<close>

definition machine_of :: "'c fcu \<Rightarrow> osc \<Rightarrow> string \<Rightarrow> pyval option \<Rightarrow> ('c, pyval option \<times> pyval) io" where
  "machine_of fcu o' ip known =
     bind_io (lift_io (is_private ip)) (\<lambda>private.
       if private
       then bind_io (lift_io (py_index (oc_group o') ''app'')) (\<lambda>app.
            bind_io (fcu ''DescribeInstances'' (osc_params o' [(''Filter'', PList [osc_filter ''group-id'' app,
              osc_filter ''subnet-id'' (PList [oc_subnet o']), osc_filter ''private-ip-address'' (PList [PStr ip])])])) (\<lambda>resp.
            lift_io (bindE (py_path resp [''DescribeInstancesResponse'', ''reservationSet'']) (\<lambda>rs.
              bindE (look rs ''item'') (\<lambda>item.
                case item of
                  None \<Rightarrow> Inr (known, PNone)
                | Some it \<Rightarrow> bindE (py_path it [''instancesSet'', ''item'']) (\<lambda>inst.
                    bindE (py_index inst ''instanceId'') (\<lambda>i. bindE (look inst ''ipAddress'') (\<lambda>pub.
                      Inr (Some i, (case pub of None \<Rightarrow> PNone | Some q \<Rightarrow> q))))))))))
       else bind_io (fcu ''DescribeAddresses'' (osc_params o' [(''PublicIp'', PStr ip)])) (\<lambda>resp.
            lift_io (bindE (py_path resp [''DescribeAddressesResponse'', ''addressesSet'', ''item'']) (\<lambda>item.
              bindE (look item ''instanceId'') (\<lambda>i. Inr ((case i of None \<Rightarrow> known | j \<Rightarrow> j), PStr ip))))))"

definition destroy_one :: "'c fcu \<Rightarrow> osc \<Rightarrow> string \<Rightarrow> pyval option \<Rightarrow> ('c, pyval option) io" where
  "destroy_one fcu o' ip known =
     bind_io (machine_of fcu o' ip known) (\<lambda>(machine, pubIp).
     bind_io (lift_io (bound ''instanceId'' machine)) (\<lambda>i.
     bind_io (if truthy i
              then bind_io (when_io (truthy pubIp) (bind_io (fcu ''DisassociateAddress'' (osc_params o' [(''PublicIp'', pubIp)])) (\<lambda>_. ret_io ()))) (\<lambda>_.
                   bind_io (fcu ''TerminateInstances'' (osc_params o' [(''InstanceId'', i)])) (\<lambda>_. ret_io ()))
              else ret_io ()) (\<lambda>_.
     bind_io (when_io (truthy pubIp) (bind_io (fcu ''ReleaseAddress'' (osc_params o' [(''PublicIp'', pubIp)])) (\<lambda>_. ret_io ()))) (\<lambda>_.
       ret_io machine))))"

fun destroy_from :: "'c fcu \<Rightarrow> osc \<Rightarrow> pyval option \<Rightarrow> string list \<Rightarrow> ('c, unit) io" where
  "destroy_from fcu o' known [] = ret_io ()"
| "destroy_from fcu o' known (ip # ips) = bind_io (destroy_one fcu o' ip known) (\<lambda>known. destroy_from fcu o' known ips)"

definition destroyInstances :: "'c fcu \<Rightarrow> osc \<Rightarrow> string list \<Rightarrow> ('c, unit) io" where
  "destroyInstances fcu o' ips = destroy_from fcu o' None ips"

section \<open>The provider of the scaler\<close>

definition info_of :: "pyval \<Rightarrow> instance_info" where
  "info_of d =
     (let txt = (\<lambda>v. case v of PStr s \<Rightarrow> Some s | _ \<Rightarrow> None); addr = obj_fields (dget (obj_fields d) ''addr'') in
      \<lparr>in_value = d, in_cpu = (case dget (obj_fields d) ''cpu_count'' of PInt n \<Rightarrow> n | _ \<Rightarrow> 0), in_pub = txt (dget addr ''pub''),
       in_priv = (case txt (dget addr ''priv'') of None \<Rightarrow> [] | Some s \<Rightarrow> s),
       in_start = (case txt (dget (obj_fields d) ''start'') of None \<Rightarrow> [] | Some s \<Rightarrow> s)\<rparr>)"

definition outscale_csp :: "'c fcu \<Rightarrow> osc \<Rightarrow> 'c csp" where
  "outscale_csp fcu o' =
     \<lparr>cs_types = map fst (obj_fields (oc_type o')),
      cs_create = (\<lambda>cpu ram name. bind_io (createInstance fcu o' cpu ram name None) (\<lambda>_. ret_io ())),
      cs_destroy = destroyInstances fcu o',
      cs_list = bind_io (enumerateInstances fcu o') (\<lambda>ds. ret_io (map info_of ds))\<rparr>"

end
