(* ===== verification/Outscale_Props.thy ===== *)
theory Outscale_Props
  imports Outscale
begin

text \<open>
  What the Outscale provider asks of the cloud when it gives machines back: a log of the requests, over a
  cloud that answers them from a function of the request. The requests of an address whose machine the
  cloud names, for both kinds of address, and of an address it does not.
\<close>

type_synonym request_log = "(string \<times> pydict) list"

definition log_fcu :: "(string \<Rightarrow> pydict \<Rightarrow> pyval) \<Rightarrow> request_log fcu" where
  "log_fcu answer name ps w = (Inr (answer name ps), w @ [(name, ps)])"

lemma bind_log_fcu [simp]: "bind_io (log_fcu answer name ps) f w = f (answer name ps) (w @ [(name, ps)])"
  by (simp add: log_fcu_def)

section \<open>The requests of one address\<close>

definition lookup_request :: "osc \<Rightarrow> pyval \<Rightarrow> string \<Rightarrow> string \<times> pydict" where
  "lookup_request o' app ip =
     (if is_private ip = Inr True
      then (''DescribeInstances'', osc_params o' [(''Filter'', PList [osc_filter ''group-id'' app,
              osc_filter ''subnet-id'' (PList [oc_subnet o']), osc_filter ''private-ip-address'' (PList [PStr ip])])])
      else (''DescribeAddresses'', osc_params o' [(''PublicIp'', PStr ip)]))"

definition end_requests :: "osc \<Rightarrow> pyval \<Rightarrow> pyval \<Rightarrow> request_log" where
  "end_requests o' i pub =
     (if truthy pub then [(''DisassociateAddress'', osc_params o' [(''PublicIp'', pub)])] else [])
     @ [(''TerminateInstances'', osc_params o' [(''InstanceId'', i)])]
     @ (if truthy pub then [(''ReleaseAddress'', osc_params o' [(''PublicIp'', pub)])] else [])"

text \<open>What an answer names: the machine of an address and its public address.\<close>

definition named :: "string \<Rightarrow> pyval \<Rightarrow> exn + (pyval option \<times> pyval)" where
  "named ip resp =
     (if is_private ip = Inr True
      then bindE (py_path resp [''DescribeInstancesResponse'', ''reservationSet'']) (\<lambda>rs.
           bindE (look rs ''item'') (\<lambda>item. case item of None \<Rightarrow> Inr (None, PNone)
             | Some it \<Rightarrow> bindE (py_path it [''instancesSet'', ''item'']) (\<lambda>inst.
                 bindE (py_index inst ''instanceId'') (\<lambda>i. bindE (look inst ''ipAddress'') (\<lambda>pub.
                   Inr (Some i, (case pub of None \<Rightarrow> PNone | Some q \<Rightarrow> q)))))))
      else bindE (py_path resp [''DescribeAddressesResponse'', ''addressesSet'', ''item'']) (\<lambda>item.
           bindE (look item ''instanceId'') (\<lambda>i. Inr (i, PStr ip))))"

definition asks :: "(string \<Rightarrow> pydict \<Rightarrow> pyval) \<Rightarrow> osc \<Rightarrow> pyval \<Rightarrow> string \<Rightarrow> exn + (pyval option \<times> pyval)" where
  "asks answer o' app ip = named ip (answer (fst (lookup_request o' app ip)) (snd (lookup_request o' app ip)))"

lemma machine_of_asks:
  assumes "py_index (oc_group o') ''app'' = Inr app"
    and "is_private ip = Inr b"
    and "asks answer o' app ip = Inr (m, pub)"
  shows "machine_of (log_fcu answer) o' ip known w
    = (Inr (case m of None \<Rightarrow> known | j \<Rightarrow> j, pub), w @ [lookup_request o' app ip])"
proof (cases b)
  case True
  then show ?thesis using assms
    by (auto simp: machine_of_def asks_def named_def lookup_request_def bindE_def split: sum.splits option.splits)
next
  case False
  then show ?thesis using assms
    by (auto simp: machine_of_def asks_def named_def lookup_request_def bindE_def split: sum.splits option.splits)
qed

lemma destroy_one_asks:
  assumes "py_index (oc_group o') ''app'' = Inr app"
    and "is_private ip = Inr b"
    and "asks answer o' app ip = Inr (m, pub)"
    and "(case m of None \<Rightarrow> known | j \<Rightarrow> j) = Some i" and "truthy i"
  shows "destroy_one (log_fcu answer) o' ip known w
    = (Inr (Some i), w @ lookup_request o' app ip # end_requests o' i pub)"
  using assms(4,5)
  by (simp add: destroy_one_def machine_of_asks [OF assms(1-3)] bound_def end_requests_def when_io_def bind_assoc)

lemma destroy_from_asks:
  assumes "py_index (oc_group o') ''app'' = Inr app"
    and "\<forall>(ip, i, pub) \<in> set ms. (\<exists>b. is_private ip = Inr b) \<and> asks answer o' app ip = Inr (Some i, pub) \<and> truthy i"
  shows "destroy_from (log_fcu answer) o' known (map fst ms) w
    = (Inr (), w @ concat (map (\<lambda>(ip, i, pub). lookup_request o' app ip # end_requests o' i pub) ms))"
  using assms(2)
proof (induction ms arbitrary: known w)
  case (Cons m ms)
  obtain ip i pub where m: "m = (ip, i, pub)" by (cases m)
  obtain b where b: "is_private ip = Inr b" using Cons.prems m by auto
  have a: "asks answer o' app ip = Inr (Some i, pub)" and t: "truthy i" using Cons.prems m by auto
  show ?case
    using Cons by (simp add: m destroy_one_asks [OF assms(1) b a _ t])
qed simp

section \<open>Machines given back\<close>


definition sample_osc :: osc where
  "sample_osc = \<lparr>oc_profile = ''visio'', oc_name = PStr ''gw'', oc_type = PDict [], oc_image = PStr ''ami'', oc_subnet = PStr ''subnet'',
     oc_group = PDict [(''app'', PStr ''sg'')], oc_user_data = []\<rparr>"

definition sample_answer :: "string \<Rightarrow> pydict \<Rightarrow> pyval" where
  "sample_answer name ps =
     (if name = ''DescribeAddresses''
      then PDict [(''DescribeAddressesResponse'', PDict [(''addressesSet'', PDict [(''item'',
             PDict (if dget ps ''PublicIp'' = PStr ''80.1.2.3'' then [(''instanceId'', PStr ''i-1'')] else []))])])]
      else PDict [(''DescribeInstancesResponse'', PDict [(''reservationSet'', PDict [(''item'', PDict [(''instancesSet'',
             PDict [(''item'', PDict [(''instanceId'', PStr ''i-2'')])])])])])])"

lemma sample_asks:
  "py_index (oc_group sample_osc) ''app'' = Inr (PStr ''sg'')"
  "is_private ''80.1.2.3'' = Inr False" "is_private ''80.1.2.4'' = Inr False" "is_private ''10.0.0.7'' = Inr True"
  "asks sample_answer sample_osc (PStr ''sg'') ''80.1.2.3'' = Inr (Some (PStr ''i-1''), PStr ''80.1.2.3'')"
  "asks sample_answer sample_osc (PStr ''sg'') ''80.1.2.4'' = Inr (None, PStr ''80.1.2.4'')"
  "asks sample_answer sample_osc (PStr ''sg'') ''10.0.0.7'' = Inr (Some (PStr ''i-2''), PNone)"
  "truthy (PStr ''i-1'')" "truthy (PStr ''i-2'')"
  by code_simp+


section \<open>An address the cloud does not know\<close>

text \<open>
  The name \<open>instanceId\<close> is set by the turn that finds a machine and by no other: for an address
  that names none, the machine of the address before is ended once more, and the address returned.
  When no address before named one, the look-up is followed by an exception.
\<close>

theorem unnamed_address_ends_the_machine_before:
  assumes "py_index (oc_group o') ''app'' = Inr app"
    and "is_private ip = Inr b" and "asks answer o' app ip = Inr (Some i, pub)" and "truthy i"
    and "is_private jp = Inr c" and "asks answer o' app jp = Inr (None, pub')"
  shows "destroyInstances (log_fcu answer) o' [ip, jp] w
    = (Inr (), w @ lookup_request o' app ip # end_requests o' i pub @ lookup_request o' app jp # end_requests o' i pub')"
  by (simp add: destroyInstances_def destroy_one_asks [OF assms(1,2,3) _ assms(4)] destroy_one_asks [OF assms(1,5,6) _ assms(4)])

lemma unnamed_address_ends_the_machine_before_witness:
  "destroyInstances (log_fcu sample_answer) sample_osc [''80.1.2.3'', ''80.1.2.4''] []
    = (Inr (), lookup_request sample_osc (PStr ''sg'') ''80.1.2.3'' # end_requests sample_osc (PStr ''i-1'') (PStr ''80.1.2.3'')
        @ lookup_request sample_osc (PStr ''sg'') ''80.1.2.4'' # end_requests sample_osc (PStr ''i-1'') (PStr ''80.1.2.4''))"
  using unnamed_address_ends_the_machine_before [OF sample_asks(1,2,5,8,3,6), of "[]"] by simp

theorem unnamed_address_first_raises:
  assumes "py_index (oc_group o') ''app'' = Inr app"
    and "is_private ip = Inr b" and "asks answer o' app ip = Inr (None, pub)"
  shows "destroyInstances (log_fcu answer) o' (ip # ips) w = (Inl (unbound ''instanceId''), w @ [lookup_request o' app ip])"
  by (simp add: destroyInstances_def destroy_one_def machine_of_asks [OF assms] bound_def)

end
