(* ===== verification/Reports.thy ===== *)
theory Reports
  imports Call_Search Py_Num
begin

text \<open>
  The reports of the console on the use and the quality of the service (\<open>manager/api/usage.py\<close>,
  \<open>manager/api/quality.py\<close>), over the calls of Call_Store: the headline figures with the most calls at
  once, the monthly series, and the counts per platform, unit, outcome, state of the picture and close
  reason. What PostgreSQL evaluates is written out: sums that ignore \<open>NULL\<close>, groups, window sums, and
  \<open>ROUND\<close>. Groups of the same size come in the order of their first call. \<open>unit\<close> is the column the
  trigger fills, \<open>zone\<close> the time zone of the session, \<open>wall\<close> the local time of an instant.
\<close>

section \<open>What PostgreSQL computes\<close>

text \<open>\<open>ROUND(x)\<close> and \<open>ROUND(x, 1)\<close> of a \<open>NUMERIC\<close>: halves go away from zero.\<close>

definition pg_round :: "rat \<Rightarrow> int" where
  "pg_round x = (if x < 0 then - \<lfloor>- x + 1 / 2\<rfloor> else \<lfloor>x + 1 / 2\<rfloor>)"

definition pg_round1 :: "rat \<Rightarrow> rat" where
  "pg_round1 x = of_int (pg_round (10 * x)) / 10"

text \<open>\<open>SUM\<close>: \<open>NULL\<close> when there is no value.\<close>

definition sum_col :: "int option list \<Rightarrow> int option" where
  "sum_col xs = (case List.map_filter id xs of [] \<Rightarrow> None | ys \<Rightarrow> Some (sum_list ys))"

definition hours_of :: "int \<Rightarrow> rat" where
  "hours_of seconds = pg_round1 (of_int seconds / 3600)"

text \<open>\<open>GROUP BY\<close>, and \<open>ORDER BY COUNT(*) DESC\<close>.\<close>

definition groups :: "('a \<Rightarrow> 'k) \<Rightarrow> 'a list \<Rightarrow> ('k \<times> 'a list) list" where
  "groups key rows = map (\<lambda>k. (k, filter (\<lambda>r. key r = k) rows)) (remdups (map key rows))"

definition by_size :: "('k \<times> 'a list) list \<Rightarrow> ('k \<times> 'a list) list" where
  "by_size gs = sort_key (\<lambda>g. - int (length (snd g))) gs"

section \<open>The calls a report counts\<close>

definition day_start :: "(int \<Rightarrow> int) \<Rightarrow> date \<Rightarrow> int" where
  "day_start zone d = aware_us zone (Naive ((date_ord d - 1) * day_us))"

definition span_window :: "(int \<Rightarrow> int) \<Rightarrow> day_span \<Rightarrow> int \<times> int" where
  "span_window zone s = (day_start zone (fst s), day_start zone (fst (snd s)))"

definition in_scope :: "(stored_call \<Rightarrow> string option) \<Rightarrow> string option \<Rightarrow> stored_call \<Rightarrow> bool" where
  "in_scope unit units c = (is_user_call (cr_main_app (sc_row c)) \<and> keeps units (unit c))"

definition started_in :: "int \<times> int \<Rightarrow> stored_call \<Rightarrow> bool" where
  "started_in w c = (fst w \<le> sc_start c \<and> sc_start c < snd w)"

definition counted :: "(stored_call \<Rightarrow> string option) \<Rightarrow> string option \<Rightarrow> int \<times> int \<Rightarrow> call_db \<Rightarrow> stored_call list" where
  "counted unit units w db = filter (\<lambda>c. started_in w c \<and> in_scope unit units c) (db_calls db)"

definition completed :: "stored_call list \<Rightarrow> stored_call list" where
  "completed cs = filter (\<lambda>c. sc_outcome c = ''completed'') cs"

definition with_outcome :: "string \<Rightarrow> stored_call list \<Rightarrow> int" where
  "with_outcome what cs = int (length (filter (\<lambda>c. sc_outcome c = what) cs))"

section \<open>The most calls at once\<close>

definition overlapping :: "(stored_call \<Rightarrow> bool) \<Rightarrow> int \<times> int \<Rightarrow> stored_call list \<Rightarrow> stored_call list" where
  "overlapping scope w cs =
     filter (\<lambda>c. sc_established c
       \<and> (case cr_call_end (sc_row c) of None \<Rightarrow> False | Some e \<Rightarrow> fst w < e) \<and> sc_start c < snd w \<and> scope c) cs"

definition sweep_events :: "stored_call list \<Rightarrow> (int \<times> int) list" where
  "sweep_events cs =
     map (\<lambda>c. (sc_start c, 1)) cs @ map (\<lambda>c. (case cr_call_end (sc_row c) of None \<Rightarrow> 0 | Some e \<Rightarrow> e, - 1)) cs"

fun running :: "int \<Rightarrow> (int \<times> int) list \<Rightarrow> int list" where
  "running n [] = []"
| "running n (e # es) = (n + snd e) # running (n + snd e) es"

text \<open>\<open>SUM(d) OVER (ORDER BY t, d ROWS UNBOUNDED PRECEDING)\<close> and its greatest value.\<close>

definition peak_of :: "(int \<times> int) list \<Rightarrow> int" where
  "peak_of es = (case running 0 (sort_key fst (sort_key snd es)) of [] \<Rightarrow> 0 | r # rs \<Rightarrow> foldl max r rs)"

section \<open>The headline\<close>

record headline =
  hl_calls :: int
  hl_hours :: rat
  hl_seconds :: int
  hl_sessions :: int
  hl_gateway_hours :: rat
  hl_failed :: int
  hl_ivr_only :: int
  hl_not_established :: int
  hl_endpoints :: int
  hl_peak :: int
  hl_label :: string
  hl_span :: "string \<times> string"

definition or_zero :: "int option \<Rightarrow> int" where
  "or_zero x = (case x of None \<Rightarrow> 0 | Some n \<Rightarrow> n)"

definition headline_of :: "(stored_call \<Rightarrow> string option) \<Rightarrow> string option \<Rightarrow> int \<times> int \<Rightarrow> day_span \<Rightarrow> call_db \<Rightarrow> headline" where
  "headline_of unit units w s db =
     (let cs = counted unit units w db; seconds = or_zero (sum_col (map sc_duration (completed cs))) in
      \<lparr>hl_calls = with_outcome ''completed'' cs, hl_hours = hours_of seconds, hl_seconds = seconds,
       hl_sessions = int (length cs), hl_gateway_hours = hours_of (sum_list (map sc_occupancy cs)),
       hl_failed = with_outcome ''failed'' cs, hl_ivr_only = with_outcome ''ivr_only'' cs,
       hl_not_established = with_outcome ''not_established'' cs,
       hl_endpoints = int (length (remdups (List.map_filter (\<lambda>c. cr_source_number (sc_row c)) cs))),
       hl_peak = peak_of (sweep_events (overlapping (in_scope unit units) w (db_calls db))),
       hl_label = snd (snd s), hl_span = (date_iso (fst s), date_iso (fst (snd s)))\<rparr>)"

definition usage_summary :: "(int \<Rightarrow> int) \<Rightarrow> date \<Rightarrow> (stored_call \<Rightarrow> string option) \<Rightarrow> string option \<Rightarrow> string option \<Rightarrow> call_db \<Rightarrow> exn + headline" where
  "usage_summary zone today unit period units db =
     bindE (resolvePeriod period today) (\<lambda>s. Inr (headline_of unit units (span_window zone s) s db))"

section \<open>Shares\<close>

definition platform_of :: "stored_call \<Rightarrow> string" where
  "platform_of c = (case cr_platform (sc_row c) of None \<Rightarrow> ''(none)'' | Some p \<Rightarrow> p)"

definition unit_of :: "(stored_call \<Rightarrow> string option) \<Rightarrow> stored_call \<Rightarrow> string" where
  "unit_of unit c = (case unit c of None \<Rightarrow> ''(unassigned)'' | Some u \<Rightarrow> u)"

type_synonym share = "string \<times> int \<times> rat option"

definition service_rows :: "(stored_call \<Rightarrow> string) \<Rightarrow> stored_call list \<Rightarrow> share list" where
  "service_rows key cs =
     map (\<lambda>(k, g). (k, int (length g), map_option hours_of (sum_col (map sc_duration g)))) (by_size (groups key (completed cs)))"

definition platforms :: "(int \<Rightarrow> int) \<Rightarrow> date \<Rightarrow> (stored_call \<Rightarrow> string option) \<Rightarrow> string option \<Rightarrow> string option \<Rightarrow> call_db \<Rightarrow> exn + share list" where
  "platforms zone today unit period units db =
     bindE (resolvePeriod period today) (\<lambda>s. Inr (service_rows platform_of (counted unit units (span_window zone s) db)))"

record unit_report =
  ur_label :: string
  ur_units :: "(share \<times> rat) list"
  ur_mix :: "(string \<times> string \<times> int) list"

text \<open>\<open>round(100.0 * n / total, 1)\<close>, as Python rounds.\<close>

definition share_pct :: "int \<Rightarrow> int \<Rightarrow> rat" where
  "share_pct n whole = round1 (100 * of_int n / of_int whole)"

definition with_pct :: "share list \<Rightarrow> (share \<times> rat) list" where
  "with_pct rows =
     (let n = sum_list (map (\<lambda>(_, n, _). n) rows); whole = (if n = 0 then 1 else n) in
      map (\<lambda>r. (r, share_pct (fst (snd r)) whole)) rows)"

definition platform_mix :: "(string \<Rightarrow> int) \<Rightarrow> (stored_call \<Rightarrow> string option) \<Rightarrow> stored_call list \<Rightarrow> (string \<times> string \<times> int) list" where
  "platform_mix text_key unit cs =
     map (\<lambda>((u, p), g). (u, p, int (length g)))
       (sort_key (\<lambda>g. text_key (fst (fst g))) (by_size (groups (\<lambda>c. (unit_of unit c, platform_of c)) (completed cs))))"

definition orgUnits :: "(int \<Rightarrow> int) \<Rightarrow> date \<Rightarrow> (string \<Rightarrow> int) \<Rightarrow> (stored_call \<Rightarrow> string option) \<Rightarrow> string option \<Rightarrow> string option \<Rightarrow> call_db \<Rightarrow> exn + unit_report" where
  "orgUnits zone today text_key unit period units db =
     bindE (resolvePeriod period today) (\<lambda>s.
       (let cs = counted unit units (span_window zone s) db in
        Inr \<lparr>ur_label = snd (snd s), ur_units = with_pct (service_rows (unit_of unit) cs), ur_mix = platform_mix text_key unit cs\<rparr>))"

section \<open>Months\<close>

record month_row =
  mo_month :: date
  mo_calls :: int
  mo_hours :: "rat option"
  mo_avg :: "int option"

record month_line =
  ml_row :: month_row
  ml_calls :: int
  ml_hours :: rat

definition month_of :: "(int \<Rightarrow> int) \<Rightarrow> stored_call \<Rightarrow> date" where
  "month_of wall c = (date_of_ord (wall (sc_start c) div day_us + 1))\<lparr>d_day := 1\<rparr>"

definition avg_col :: "int option list \<Rightarrow> int option" where
  "avg_col xs = map_option (\<lambda>s. pg_round (of_int s / of_nat (length (List.map_filter id xs)))) (sum_col xs)"

definition monthly_service :: "(int \<Rightarrow> int) \<Rightarrow> call_db \<Rightarrow> month_row list" where
  "monthly_service wall db =
     map (\<lambda>(m, g). \<lparr>mo_month = m, mo_calls = int (length g), mo_hours = map_option hours_of (sum_col (map sc_duration g)),
                    mo_avg = avg_col (map sc_duration g)\<rparr>)
       (groups (month_of wall) (filter (\<lambda>c. is_user_call (cr_main_app (sc_row c))) (completed (db_calls db))))"

definition row_hours :: "month_row \<Rightarrow> rat" where
  "row_hours r = (case mo_hours r of None \<Rightarrow> 0 | Some h \<Rightarrow> h)"

fun cumulate :: "int \<Rightarrow> rat \<Rightarrow> month_row list \<Rightarrow> month_line list" where
  "cumulate n h [] = []"
| "cumulate n h (r # rs) =
     \<lparr>ml_row = r, ml_calls = n + mo_calls r, ml_hours = round1 (h + row_hours r)\<rparr> # cumulate (n + mo_calls r) (h + row_hours r) rs"

text \<open>The least-squares line through the hours, at each month; none for fewer than two.\<close>

definition trend :: "rat list \<Rightarrow> rat list" where
  "trend ys =
     (let n = length ys; xs = map of_nat [0..<n]; meanX = sum_list xs / of_nat n; meanY = sum_list ys / of_nat n;
          denominator = sum_list (map (\<lambda>x. (x - meanX) ^ 2) xs);
          slope = (if denominator \<noteq> 0 then sum_list (map (\<lambda>(x, y). (x - meanX) * (y - meanY)) (zip xs ys)) / denominator else 0);
          intercept = meanY - slope * meanX
      in if 2 \<le> n then map (\<lambda>x. round1 (intercept + slope * x)) xs else [])"

definition monthly :: "(int \<Rightarrow> int) \<Rightarrow> date \<Rightarrow> int \<Rightarrow> call_db \<Rightarrow> exn + (month_line list \<times> rat list)" where
  "monthly wall today months db =
     (if \<not> (1 \<le> months \<and> months \<le> 60) then Inl (HTTPException 422 ''validation'')
      else bindE (window months today) (\<lambda>first.
        (let rows = sort_key (\<lambda>r. date_ord (mo_month r)) (filter (\<lambda>r. date_ord first \<le> date_ord (mo_month r)) (monthly_service wall db)) in
         Inr (cumulate 0 0 rows, trend (map row_hours rows)))))"

section \<open>Quality\<close>

record reason_row =
  rr_reason :: string
  rr_outcome :: string
  rr_failure :: bool
  rr_sessions :: int
  rr_pct :: rat
  rr_occupancy :: int

definition reason_of :: "stored_call \<Rightarrow> string" where
  "reason_of c = (case cr_close_reason (sc_row c) of None \<Rightarrow> NO_REASON | Some t \<Rightarrow> if t = [] then NO_REASON else t)"

definition reason_rows :: "stored_call list \<Rightarrow> reason_row list" where
  "reason_rows cs =
     map (\<lambda>((r, oc, f), g).
       \<lparr>rr_reason = r, rr_outcome = oc, rr_failure = f, rr_sessions = int (length g),
        rr_pct = pg_round1 (100 * of_nat (length g) / of_nat (length cs)),
        rr_occupancy = pg_round (of_int (sum_list (map sc_occupancy g)) / of_nat (length g))\<rparr>)
       (by_size (groups (\<lambda>c. (reason_of c, sc_outcome c, is_technical_failure (cr_close_reason (sc_row c)))) cs))"

definition ivrReasons :: "(int \<Rightarrow> int) \<Rightarrow> date \<Rightarrow> string option \<Rightarrow> int \<Rightarrow> call_db \<Rightarrow> exn + reason_row list" where
  "ivrReasons zone today period limit db =
     (if \<not> (1 \<le> limit \<and> limit \<le> 200) then Inl (HTTPException 422 ''validation'')
      else bindE (resolvePeriod period today) (\<lambda>s.
        Inr (take (nat limit) (reason_rows
          (filter (\<lambda>c. started_in (span_window zone s) c \<and> is_user_call (cr_main_app (sc_row c))) (db_calls db))))))"

record 'r labelled =
  lb_label :: string
  lb_span :: "string \<times> string"
  lb_rows :: "'r list"

definition labelled_of :: "day_span \<Rightarrow> 'r list \<Rightarrow> 'r labelled" where
  "labelled_of s rows = \<lparr>lb_label = snd (snd s), lb_span = (date_iso (fst s), date_iso (fst (snd s))), lb_rows = rows\<rparr>"

definition outcomes :: "(int \<Rightarrow> int) \<Rightarrow> date \<Rightarrow> (stored_call \<Rightarrow> string option) \<Rightarrow> string option \<Rightarrow> string option \<Rightarrow> call_db \<Rightarrow>
    exn + (string \<times> int \<times> rat) labelled" where
  "outcomes zone today unit period units db =
     bindE (resolvePeriod period today) (\<lambda>s.
       Inr (labelled_of s (map (\<lambda>(k, g). (k, int (length g), hours_of (sum_list (map sc_occupancy g))))
         (by_size (groups sc_outcome (counted unit units (span_window zone s) db))))))"

definition state_of :: "stored_call \<Rightarrow> string" where
  "state_of c = (case sm_state (md_summary (cr_media (sc_row c))) of None \<Rightarrow> ''unknown'' | Some v \<Rightarrow> v)"

definition videoStates :: "(int \<Rightarrow> int) \<Rightarrow> date \<Rightarrow> (stored_call \<Rightarrow> string option) \<Rightarrow> string option \<Rightarrow> string option \<Rightarrow> call_db \<Rightarrow>
    exn + (string \<times> int) labelled" where
  "videoStates zone today unit period units db =
     bindE (resolvePeriod period today) (\<lambda>s.
       Inr (labelled_of s (map (\<lambda>(k, g). (k, int (length g)))
         (by_size (groups state_of (completed (counted unit units (span_window zone s) db)))))))"

end
