(* ===== verification/Reports_Props.thy ===== *)
theory Reports_Props
  imports Reports Org_Units Periods_Props "HOL-Library.Multiset"
begin

text \<open>
  What the reports promise: the most calls at once, computed by a sweep over starts and ends, is the
  greatest number of calls in progress at any instant of the period; the tiles, the charts and the lists
  count the same calls; and ticking every unit is asking for none.
\<close>

section \<open>The sweep\<close>

definition upto_time :: "(int \<times> int) list \<Rightarrow> int \<Rightarrow> int" where
  "upto_time es t = sum_list (map snd (filter (\<lambda>e. fst e \<le> t) es))"

definition event_before :: "int \<times> int \<Rightarrow> int \<times> int \<Rightarrow> bool" where
  "event_before e f = (fst e < fst f \<or> fst e = fst f \<and> snd e \<le> snd f)"

definition steps_by_one :: "(int \<times> int) list \<Rightarrow> bool" where
  "steps_by_one es = (\<forall>e \<in> set es. snd e = 1 \<or> snd e = - 1)"

lemma events_sorted: "sorted_wrt event_before (sort_key fst (sort_key snd es))"
proof -
  have stable: "sorted_wrt event_before (insort_key fst e xs)"
    if "sorted_wrt event_before xs" "\<forall>f \<in> set xs. snd e \<le> snd f" for e :: "int \<times> int" and xs
    using that by (induction xs) (auto simp: event_before_def set_insort_key)
  have "sorted_wrt event_before (sort_key fst xs)" if "sorted (map snd xs)" for xs :: "(int \<times> int) list"
    using that by (induction xs) (auto intro!: stable)
  then show ?thesis by simp
qed

lemma running_prefix:
  "r \<in> set (running n es) \<longleftrightarrow> (\<exists>xs e ys. es = xs @ e # ys \<and> r = n + sum_list (map snd (xs @ [e])))"
proof (induction es arbitrary: n)
  case (Cons e es)
  show ?case
  proof
    assume "r \<in> set (running n (e # es))"
    then consider "r = n + snd e" | xs f ys where "es = xs @ f # ys" "r = n + snd e + sum_list (map snd (xs @ [f]))"
      using Cons.IH by auto
    then show "\<exists>xs f ys. e # es = xs @ f # ys \<and> r = n + sum_list (map snd (xs @ [f]))"
    proof cases
      case 1
      then show ?thesis by (intro exI [of _ "[]"]) simp
    next
      case 2
      then show ?thesis by (intro exI [of _ "e # xs"] exI [of _ f] exI [of _ ys]) simp
    qed
  next
    assume "\<exists>xs f ys. e # es = xs @ f # ys \<and> r = n + sum_list (map snd (xs @ [f]))"
    then obtain xs f ys where x: "e # es = xs @ f # ys" "r = n + sum_list (map snd (xs @ [f]))" by blast
    show "r \<in> set (running n (e # es))"
    proof (cases xs)
      case Nil
      then show ?thesis using x by simp
    next
      case (Cons a zs)
      then have "es = zs @ f # ys" "r = n + snd e + sum_list (map snd (zs @ [f]))" using x by auto
      then have "r \<in> set (running (n + snd e) es)" unfolding Cons.IH by blast
      then show ?thesis by simp
    qed
  qed
qed simp

text \<open>A running sum is at most the balance of an instant, and the balance of an instant is zero or a running sum.\<close>

lemma running_below:
  assumes "sorted_wrt event_before es" "steps_by_one es" "r \<in> set (running 0 es)"
  shows "\<exists>t. r \<le> upto_time es t"
proof -
  obtain xs e ys where es: "es = xs @ e # ys" and r: "r = sum_list (map snd (xs @ [e]))"
    using assms(3) unfolding running_prefix by auto
  have before: "\<forall>f \<in> set xs. event_before f e" and after: "\<forall>f \<in> set ys. event_before e f"
    using assms(1) by (auto simp: es sorted_wrt_append)
  have unit: "snd f = 1 \<or> snd f = - 1" if "f \<in> set (xs @ e # ys)" for f
    using assms(2) that by (auto simp: steps_by_one_def es)
  show ?thesis
  proof (cases "snd e = 1")
    case True
    have "filter (\<lambda>f. fst f \<le> fst e) xs = xs" using before by (auto simp: filter_id_conv event_before_def)
    moreover have "0 \<le> sum_list (map snd (filter (\<lambda>f. fst f \<le> fst e) ys))"
      using after unit True by (intro sum_list_nonneg) (fastforce simp: event_before_def)
    ultimately show ?thesis by (intro exI [of _ "fst e"]) (simp add: upto_time_def es r)
  next
    case False
    then have down: "snd e = - 1" using unit [of e] by auto
    have "filter (\<lambda>f. fst f \<le> fst e - 1) ys = []" using after by (auto simp: filter_empty_conv event_before_def)
    moreover have "sum_list (map snd xs) \<le> sum_list (map snd (filter (\<lambda>f. fst f \<le> fst e - 1) xs))"
      using before unit down
    proof (induction xs)
      case (Cons a xs)
      then have IH: "sum_list (map snd xs) \<le> sum_list (map snd (filter (\<lambda>f. fst f \<le> fst e - 1) xs))" by simp
      have "fst a \<le> fst e - 1 \<or> snd a \<le> - 1" using Cons.prems(1,3) by (auto simp: event_before_def)
      then show ?case using IH by auto
    qed simp
    ultimately show ?thesis using down by (intro exI [of _ "fst e - 1"]) (simp add: upto_time_def es r)
  qed
qed

lemma filter_sorted_prefix: "sorted (map fst es) \<Longrightarrow> filter (\<lambda>e. fst e \<le> t) es = takeWhile (\<lambda>e. fst e \<le> t) es"
proof (induction es)
  case (Cons e es)
  show ?case
  proof (cases "fst e \<le> t")
    case False
    then have "\<forall>x \<in> set es. \<not> fst x \<le> t" using Cons.prems by auto
    with False show ?thesis by (simp add: filter_empty_conv)
  qed (use Cons in simp)
qed simp

lemma balance_running:
  assumes "sorted_wrt event_before es"
  shows "upto_time es t = 0 \<or> upto_time es t \<in> set (running 0 es)"
proof -
  have "sorted (map fst es)" using assms by (induction es) (auto simp: event_before_def)
  then have f: "filter (\<lambda>e. fst e \<le> t) es = takeWhile (\<lambda>e. fst e \<le> t) es" by (rule filter_sorted_prefix)
  show ?thesis
  proof (cases "takeWhile (\<lambda>e. fst e \<le> t) es" rule: rev_cases)
    case Nil
    then show ?thesis by (simp add: upto_time_def f)
  next
    case (snoc xs e)
    then have "es = xs @ e # dropWhile (\<lambda>e. fst e \<le> t) es" by (metis append.assoc append_Cons append_Nil takeWhile_dropWhile_id)
    moreover have "upto_time es t = 0 + sum_list (map snd (xs @ [e]))" by (simp add: upto_time_def f snoc)
    ultimately show ?thesis unfolding running_prefix by blast
  qed
qed


section \<open>The most calls at once\<close>

definition in_progress :: "int \<Rightarrow> stored_call \<Rightarrow> bool" where
  "in_progress t c = (sc_established c \<and> sc_start c \<le> t \<and> (case cr_call_end (sc_row c) of None \<Rightarrow> False | Some e \<Rightarrow> t < e))"

definition at_once :: "(stored_call \<Rightarrow> bool) \<Rightarrow> int \<Rightarrow> stored_call list \<Rightarrow> int" where
  "at_once scope t cs = int (length (filter (\<lambda>c. in_progress t c \<and> scope c) cs))"

definition ends_after_start :: "stored_call \<Rightarrow> bool" where
  "ends_after_start c = (case cr_call_end (sc_row c) of None \<Rightarrow> True | Some e \<Rightarrow> sc_start c \<le> e)"

lemma upto_time_append: "upto_time (xs @ ys) t = upto_time xs t + upto_time ys t"
  by (simp add: upto_time_def)

lemma upto_time_perm: "mset xs = mset ys \<Longrightarrow> upto_time xs t = upto_time ys t"
  by (simp add: upto_time_def flip: sum_mset_sum_list)

lemma balance_is_at_once:
  assumes "\<forall>c \<in> set cs. sc_established c \<and> cr_call_end (sc_row c) \<noteq> None \<and> ends_after_start c"
  shows "upto_time (sweep_events cs) t = at_once (\<lambda>_. True) t cs"
  using assms
proof (induction cs)
  case Nil
  then show ?case by (simp add: upto_time_def sweep_events_def at_once_def)
next
  case (Cons c cs)
  obtain e where e: "cr_call_end (sc_row c) = Some e" "sc_start c \<le> e" "sc_established c"
    using Cons.prems by (auto simp: ends_after_start_def)
  have "upto_time (sweep_events (c # cs)) t
      = (if sc_start c \<le> t then 1 else 0) - (if e \<le> t then 1 else 0) + upto_time (sweep_events cs) t"
    by (simp add: sweep_events_def upto_time_def e(1))
  moreover have "at_once (\<lambda>_. True) t (c # cs) = (if sc_start c \<le> t \<and> t < e then 1 else 0) + at_once (\<lambda>_. True) t cs"
    by (simp add: at_once_def in_progress_def e)
  ultimately show ?case using Cons.IH Cons.prems e(2) by simp
qed

lemma at_once_mono:
  assumes "\<forall>c \<in> set cs. in_progress t c \<longrightarrow> in_progress u c"
  shows "at_once scope t cs \<le> at_once scope u cs"
  using assms unfolding at_once_def by (induction cs) auto

lemma foldl_max: "foldl max (r :: int) rs = fold max rs r"
  by (induction rs arbitrary: r) (simp_all add: max.commute)

lemma peak_of_running:
  "peak_of es = (if es = [] then 0 else Max (set (running 0 (sort_key fst (sort_key snd es)))))"
proof (cases "running 0 (sort_key fst (sort_key snd es))")
  case Nil
  then have "sort_key fst (sort_key snd es) = []" by (cases "sort_key fst (sort_key snd es)") auto
  then have "es = []" by (metis length_0_conv length_sort)
  then show ?thesis by (simp add: peak_of_def)
next
  case (Cons r rs)
  then have "es \<noteq> []" by auto
  moreover have "foldl max r rs = Max (set (r # rs))" unfolding Max.set_eq_fold by (rule foldl_max)
  ultimately show ?thesis using Cons by (simp add: peak_of_def)
qed

lemma overlapping_peak:
  assumes w: "fst w < snd w" and cs: "\<forall>c \<in> set cs. ends_after_start c \<and> sc_established c \<and> sc_start c < snd w
    \<and> (\<exists>e. cr_call_end (sc_row c) = Some e \<and> fst w < e)"
  shows "(\<forall>t. at_once (\<lambda>_. True) t cs \<le> peak_of (sweep_events cs))
    \<and> (\<exists>t. fst w \<le> t \<and> t < snd w \<and> at_once (\<lambda>_. True) t cs = peak_of (sweep_events cs))"
proof (cases "cs = []")
  case True
  then show ?thesis using w by (auto simp: sweep_events_def peak_of_running at_once_def)
next
  case False
  define es where "es = sort_key fst (sort_key snd (sweep_events cs))"
  have sorted: "sorted_wrt event_before es" unfolding es_def by (rule events_sorted)
  have bal: "upto_time es t = at_once (\<lambda>_. True) t cs" for t
    using balance_is_at_once [of cs t] cs upto_time_perm [of es "sweep_events cs" t] by (fastforce simp: es_def)
  have one: "steps_by_one es" by (auto simp: steps_by_one_def es_def sweep_events_def)
  have peak: "peak_of (sweep_events cs) = Max (set (running 0 es))"
    using False by (simp add: peak_of_running es_def sweep_events_def)
  have "es \<noteq> []" using False by (metis es_def length_0_conv length_sort map_is_Nil_conv append_is_Nil_conv sweep_events_def)
  then have ne: "set (running 0 es) \<noteq> {}" by (cases es) auto
  have total: "sum_list (map snd es) = 0"
  proof -
    have "sum_list (map snd es) = sum_list (map snd (sweep_events cs))"
      by (simp add: es_def flip: sum_mset_sum_list)
    then show ?thesis by (simp add: sweep_events_def o_def sum_list_triv)
  qed
  have zero: "0 \<le> peak_of (sweep_events cs)"
  proof -
    obtain xs e where "es = xs @ [e]" using \<open>es \<noteq> []\<close> by (metis rev_exhaust)
    then have "0 \<in> set (running 0 es)" using total unfolding running_prefix by (metis add_0)
    then show ?thesis unfolding peak by simp
  qed
  have le: "at_once (\<lambda>_. True) t cs \<le> peak_of (sweep_events cs)" for t
    using balance_running [OF sorted, of t] zero unfolding bal peak by auto
  have inside: "\<exists>u. fst w \<le> u \<and> u < snd w \<and> at_once (\<lambda>_. True) t cs \<le> at_once (\<lambda>_. True) u cs" for t
  proof -
    define u where "u = max (fst w) (min t (snd w - 1))"
    have "at_once (\<lambda>_. True) t cs \<le> at_once (\<lambda>_. True) u cs"
      by (rule at_once_mono) (use cs in \<open>fastforce simp: in_progress_def u_def\<close>)
    then show ?thesis using w by (intro exI [of _ u]) (simp add: u_def)
  qed
  have "peak_of (sweep_events cs) \<in> set (running 0 es)" unfolding peak using ne by (intro Max_in) simp_all
  then obtain t where "peak_of (sweep_events cs) \<le> at_once (\<lambda>_. True) t cs" using running_below [OF sorted one] bal by metis
  then obtain u where u: "fst w \<le> u" "u < snd w" "peak_of (sweep_events cs) \<le> at_once (\<lambda>_. True) u cs"
    using inside [of t] by force
  then have "at_once (\<lambda>_. True) u cs = peak_of (sweep_events cs)" using le [of u] by simp
  then show ?thesis using le u by blast
qed

lemma at_once_overlapping:
  assumes "fst w \<le> t" "t < snd w"
  shows "at_once (\<lambda>_. True) t (overlapping scope w cs) = at_once scope t cs"
proof -
  have "filter (\<lambda>c. in_progress t c \<and> True) (overlapping scope w cs) = filter (\<lambda>c. in_progress t c \<and> scope c) cs"
    unfolding overlapping_def filter_filter
    by (rule filter_cong [OF refl]) (use assms in \<open>auto simp: in_progress_def split: option.splits\<close>)
  then show ?thesis by (simp add: at_once_def)
qed

text \<open>
  C5. The greatest number of calls at once that the headline shows is the true one: at no instant of
  the period were more calls of the chosen units in progress, and at some instant of it exactly as many
  were. The sweep looks at the calls that overlap the period only, and at their starts and ends before
  and after it too. Asked of the database: no call ends before it starts; and of the time zone: that
  midnights come in the order of their days.
\<close>

theorem peak_is_the_most_at_once:
  assumes "usage_summary zone today unit period units db = Inr h"
    and "resolvePeriod period today = Inr s" and "span_window zone s = (since, ending)"
    and "valid_date today" "1 < d_year today" "d_year today < 9999"
    and zone: "\<forall>a b. a + day_us \<le> b \<longrightarrow> zone a < zone b"
    and "\<forall>c \<in> set (db_calls db). ends_after_start c"
  shows "(\<forall>t. since \<le> t \<and> t < ending \<longrightarrow> at_once (in_scope unit units) t (db_calls db) \<le> hl_peak h)
    \<and> (\<exists>t. since \<le> t \<and> t < ending \<and> at_once (in_scope unit units) t (db_calls db) = hl_peak h)"
proof -
  define cs where "cs = overlapping (in_scope unit units) (since, ending) (db_calls db)"
  have "h = headline_of unit units (since, ending) s db" using assms(1) by (simp add: usage_summary_def assms(2,3))
  then have h: "hl_peak h = peak_of (sweep_events cs)" by (simp add: headline_of_def Let_def cs_def)
  have "date_ord (fst s) < date_ord (fst (snd s))"
    using period_or_bad_request [OF assms(4-6), of period] assms(2) by (auto split: prod.splits)
  then have "(date_ord (fst s) - 1) * day_us + day_us \<le> (date_ord (fst (snd s)) - 1) * day_us"
    using mult_right_mono [of "date_ord (fst s)" "date_ord (fst (snd s)) - 1" day_us] by (simp add: algebra_simps day_us_def second_us_def)
  then have w: "since < ending"
    using zone assms(3) by (auto simp: span_window_def day_start_def aware_us_def)
  have "\<forall>c \<in> set cs. ends_after_start c \<and> sc_established c \<and> sc_start c < ending \<and> (\<exists>e. cr_call_end (sc_row c) = Some e \<and> since < e)"
    using assms(8) by (auto simp: cs_def overlapping_def split: option.splits)
  then have "(\<forall>t. at_once (\<lambda>_. True) t cs \<le> peak_of (sweep_events cs))
      \<and> (\<exists>t. since \<le> t \<and> t < ending \<and> at_once (\<lambda>_. True) t cs = peak_of (sweep_events cs))"
    using overlapping_peak [of "(since, ending)" cs] w by simp
  moreover have "at_once (\<lambda>_. True) t cs = at_once (in_scope unit units) t (db_calls db)" if "since \<le> t" "t < ending" for t
    unfolding cs_def using that by (intro at_once_overlapping) simp_all
  ultimately show ?thesis unfolding h by metis
qed

section \<open>The same calls everywhere\<close>

lemma sort_key_sum: "sum_list (map f (sort_key k xs)) = sum_list (map (f :: _ \<Rightarrow> int) xs)"
  by (simp flip: sum_mset_sum_list)

lemma sum_list_one: "distinct ks \<Longrightarrow> (\<Sum>k \<leftarrow> ks. if k = a then 1 else (0 :: int)) = (if a \<in> set ks then 1 else 0)"
  by (induction ks) auto

lemma groups_sizes: "sum_list (map (\<lambda>g. int (length (snd g))) (groups key rows)) = int (length rows)"
proof -
  have "(\<Sum>k \<leftarrow> ks. int (length (filter (\<lambda>r. key r = k) rows))) = int (length rows)"
    if "distinct ks" "\<forall>r \<in> set rows. key r \<in> set ks" for ks
    using that(2)
  proof (induction rows)
    case (Cons r rows)
    have "(\<Sum>k \<leftarrow> ks. int (length (filter (\<lambda>x. key x = k) (r # rows))))
        = (\<Sum>k \<leftarrow> ks. (if k = key r then 1 else 0)) + (\<Sum>k \<leftarrow> ks. int (length (filter (\<lambda>x. key x = k) rows)))"
      unfolding sum_list_addf [symmetric] by (rule arg_cong [where f = sum_list]) auto
    moreover have "(\<Sum>k \<leftarrow> ks. (if k = key r then 1 else (0 :: int))) = 1"
      using sum_list_one [OF that(1), of "key r"] Cons.prems by simp
    ultimately show ?case using Cons by simp
  qed (simp add: sum_list_0)
  from this [of "remdups (map key rows)"] show ?thesis by (simp add: groups_def o_def)
qed

lemma by_size_sizes: "sum_list (map (\<lambda>g. int (length (snd g))) (by_size (groups key rows))) = int (length rows)"
  unfolding by_size_def sort_key_sum by (rule groups_sizes)

lemma outcome_kinds_add:
  assumes "\<forall>c \<in> set cs. sc_outcome c \<in> set OUTCOMES"
  shows "with_outcome ''completed'' cs + with_outcome ''failed'' cs + with_outcome ''ivr_only'' cs + with_outcome ''not_established'' cs = int (length cs)"
  using assms by (induction cs) (auto simp: with_outcome_def OUTCOMES_def)

lemma service_rows_count: "sum_list (map (\<lambda>(_, n, _). n) (service_rows key cs)) = with_outcome ''completed'' cs"
proof -
  have "map (\<lambda>(_, n, _). n) (service_rows key cs) = map (\<lambda>g. int (length (snd g))) (by_size (groups key (completed cs)))"
    by (simp add: service_rows_def case_prod_beta o_def)
  then show ?thesis by (simp add: by_size_sizes with_outcome_def completed_def)
qed

lemma counted_rows_sum: "sum_list (map (\<lambda>(_, n). n) (map (\<lambda>(k, g). (k, int (length g))) (by_size (groups key rows)))) = int (length rows)"
proof -
  have "map (\<lambda>(_, n). n) (map (\<lambda>(k, g). (k, int (length g))) (by_size (groups key rows))) = map (\<lambda>g. int (length (snd g))) (by_size (groups key rows))"
    by (simp add: case_prod_beta o_def)
  then show ?thesis by (simp only: by_size_sizes)
qed

lemma outcome_rows_sum:
  "sum_list (map (\<lambda>(_, n, _). n) (map (\<lambda>(k, g). (k, int (length g), f g)) (by_size (groups key rows)))) = int (length rows)"
proof -
  have "map (\<lambda>(_, n, _). n) (map (\<lambda>(k, g). (k, int (length g), f g)) (by_size (groups key rows)))
      = map (\<lambda>g. int (length (snd g))) (by_size (groups key rows))"
    by (simp add: case_prod_beta o_def)
  then show ?thesis by (simp only: by_size_sizes)
qed

lemma mix_sum: "sum_list (map (\<lambda>(_, _, n). n) (platform_mix text_key unit cs)) = with_outcome ''completed'' cs"
proof -
  have "map (\<lambda>(_, _, n). n) (platform_mix text_key unit cs)
      = map (\<lambda>g. int (length (snd g)))
          (sort_key (\<lambda>g. text_key (fst (fst g))) (by_size (groups (\<lambda>c. (unit_of unit c, platform_of c)) (completed cs))))"
    by (simp add: platform_mix_def case_prod_beta o_def)
  then show ?thesis by (simp add: sort_key_sum by_size_sizes with_outcome_def completed_def)
qed

text \<open>
  C20. The tiles, the charts and the lists count the same calls: for one period and one choice of units,
  whenever the headline is answered so is every other report; the sessions of the outcomes add up to
  the sessions of the headline, and the calls of the platforms, of the units, of their mix and of the
  states of the picture each add up to its calls; and the four kinds of session it shows add up to all.
\<close>

theorem reports_count_the_same_calls:
  assumes "usage_summary zone today unit period units db = Inr h" and "\<forall>c \<in> set (db_calls db). sc_outcome c \<in> set OUTCOMES"
  shows "\<exists>os ps us vs. outcomes zone today unit period units db = Inr os \<and> platforms zone today unit period units db = Inr ps
    \<and> orgUnits zone today text_key unit period units db = Inr us \<and> videoStates zone today unit period units db = Inr vs
    \<and> sum_list (map (\<lambda>(_, n, _). n) (lb_rows os)) = hl_sessions h
    \<and> sum_list (map (\<lambda>(_, n, _). n) ps) = hl_calls h
    \<and> sum_list (map (\<lambda>((_, n, _), _). n) (ur_units us)) = hl_calls h
    \<and> sum_list (map (\<lambda>(_, _, n). n) (ur_mix us)) = hl_calls h
    \<and> sum_list (map (\<lambda>(_, n). n) (lb_rows vs)) = hl_calls h
    \<and> hl_calls h + hl_failed h + hl_ivr_only h + hl_not_established h = hl_sessions h"
proof -
  obtain s where s: "resolvePeriod period today = Inr s" and h: "h = headline_of unit units (span_window zone s) s db"
    using assms(1) by (cases "resolvePeriod period today") (auto simp: usage_summary_def)
  define cs where "cs = counted unit units (span_window zone s) db"
  have hs: "hl_sessions h = int (length cs)" "hl_calls h = with_outcome ''completed'' cs" "hl_failed h = with_outcome ''failed'' cs"
      "hl_ivr_only h = with_outcome ''ivr_only'' cs" "hl_not_established h = with_outcome ''not_established'' cs"
    by (simp_all add: h headline_of_def Let_def cs_def)
  have kinds: "\<forall>c \<in> set cs. sc_outcome c \<in> set OUTCOMES" using assms(2) by (simp add: cs_def counted_def)
  have pct: "map (\<lambda>((_, n, _), _). n) (with_pct rows) = map (\<lambda>(_, n, _). n) rows" for rows :: "share list"
    by (simp add: with_pct_def Let_def case_prod_beta o_def)
  have all: "int (length (completed cs)) = with_outcome ''completed'' cs" by (simp add: completed_def with_outcome_def)
  show ?thesis
    unfolding outcomes_def platforms_def orgUnits_def videoStates_def s bindE_simps Let_def cs_def [symmetric] hs labelled_of_def
    by (intro exI conjI, rule refl, rule refl, rule refl, rule refl)
       (simp_all only: labelled.simps unit_report.simps outcome_rows_sum service_rows_count pct mix_sum counted_rows_sum all
         outcome_kinds_add [OF kinds])
qed

section \<open>Every unit ticked\<close>

lemma code_chars:
  assumes "CODE u"
  shows "u \<noteq> []" "c \<in> set u \<Longrightarrow> is_upper c \<or> is_digit c \<or> c \<in> set ''_-''"
  using assms by (auto simp: CODE_def split: list.splits)

lemma code_plain:
  assumes "CODE u"
  shows "CHR '','' \<notin> set u" "str_strip u = u" "u \<noteq> ''(unassigned)''"
proof -
  have plain: "\<not> is_space c \<and> c \<noteq> CHR '','' \<and> c \<noteq> CHR ''(''" if "c \<in> set u" for c
    using code_chars(2) [OF assms that] by (auto simp: is_upper_def is_digit_def is_space_def)
  then show "CHR '','' \<notin> set u" by blast
  show "u \<noteq> ''(unassigned)''" using plain [of "CHR ''(''"] by auto
  show "str_strip u = u" unfolding str_strip_def by (rule strip_by_none) (use plain in blast)
qed

lemma every_unit_kept:
  assumes "\<forall>u \<in> set us. CODE u" "u = None \<or> u \<in> Some ` set us"
  shows "keeps (Some (str_join '','' (us @ [''(unassigned)'']))) u = keeps None u"
proof -
  let ?all = "us @ [''(unassigned)'']"
  have split: "str_split '','' (str_join '','' ?all) = ?all"
    using code_plain(1) assms(1) by (intro str_split_join) auto
  have strip: "str_strip ''(unassigned)'' = ''(unassigned)''" by code_simp
  have "map str_strip us = us" using code_plain(2) assms(1) by (simp add: map_idI)
  moreover have "filter (\<lambda>u. u \<noteq> []) us = us" using code_chars(1) assms(1) by (auto simp: filter_id_conv)
  ultimately have wanted: "wanted_units (str_join '','' ?all) = ?all" by (simp add: wanted_units_def split strip)
  have named: "filter (\<lambda>u. u \<noteq> ''(unassigned)'') us = us" using code_plain(3) assms(1) by (auto simp: filter_id_conv)
  have ne: "str_join '','' ?all \<noteq> []" using split by (auto simp: str_split_def)
  have "unit_clauses (Some (str_join '','' ?all)) = (if us = [] then [] else [Named us]) @ [Unassigned]"
    using ne by (simp add: unit_clauses_def wanted named Let_def)
  then show ?thesis using assms(2) by (auto simp: keeps_def unit_clauses_def clause_keeps_def)
qed

text \<open>
  Asking for every unit is asking for none: when the units ticked are all those the calls have,
  and the share no rule claims, every report of the two views is the one without a filter, whatever
  codes the units have.
\<close>

theorem every_unit_is_no_filter:
  assumes "\<forall>u \<in> set us. CODE u" and "\<forall>c \<in> set (db_calls db). unit c = None \<or> unit c \<in> Some ` set us"
    and "ticked = str_join '','' (us @ [''(unassigned)''])"
  shows "usage_summary zone today unit period (Some ticked) db = usage_summary zone today unit period None db
    \<and> platforms zone today unit period (Some ticked) db = platforms zone today unit period None db
    \<and> orgUnits zone today text_key unit period (Some ticked) db = orgUnits zone today text_key unit period None db
    \<and> outcomes zone today unit period (Some ticked) db = outcomes zone today unit period None db
    \<and> videoStates zone today unit period (Some ticked) db = videoStates zone today unit period None db"
proof -
  have scope: "in_scope unit (Some ticked) c = in_scope unit None c" if "c \<in> set (db_calls db)" for c
    using every_unit_kept [OF assms(1), of "unit c"] assms(2,3) that by (simp add: in_scope_def)
  have rows: "counted unit (Some ticked) w db = counted unit None w db" for w
    unfolding counted_def by (rule filter_cong [OF refl]) (simp add: scope)
  have overlap: "overlapping (in_scope unit (Some ticked)) w (db_calls db) = overlapping (in_scope unit None) w (db_calls db)" for w
    unfolding overlapping_def by (rule filter_cong [OF refl]) (simp add: scope)
  show ?thesis
    by (simp only: usage_summary_def headline_of_def platforms_def orgUnits_def outcomes_def videoStates_def rows overlap)
qed


section \<open>A small log\<close>

text \<open>Two calls of a unit that overlap around the midnight a month begins at, and a third one later.\<close>

definition wit_minute :: "int \<Rightarrow> int" where
  "wit_minute m = (date_ord \<lparr>d_year = 2026, d_month = 1, d_day = 1\<rparr> - 1) * day_us + m * 60 * second_us"

definition wit_report_call :: "int \<Rightarrow> int \<Rightarrow> int \<Rightarrow> stored_call" where
  "wit_report_call i from_min to_min =
     \<lparr>sc_id = i, sc_call_id = ''c'', sc_start = wit_minute from_min, sc_established = True, sc_outcome = ''completed'',
      sc_duration = Some 60, sc_occupancy = 60,
      sc_row = \<lparr>cr_call_id = Some ''c'', cr_gw_alias = None, cr_gw_id = None, cr_gw_host = None, cr_main_app = Some ''baresip'',
        cr_platform = None, cr_room = Some ''r'', cr_call_url = None, cr_source_uri = None, cr_source_name = None,
        cr_source_number = Some ''12'', cr_source_domain = None, cr_destination_uri = None, cr_destination_room = None,
        cr_destination_domain = None, cr_peer_display_name = None, cr_call_start = Some (wit_minute from_min),
        cr_call_end = Some (wit_minute to_min), cr_duration_s = Some 60, cr_occupancy_s = Some 60, cr_close_reason = None,
        cr_last_event_type = None, cr_dtmf_events = PNone,
        cr_media = \<lparr>md_peer_user_agent = None, md_audio_codec = None, md_video_codec = None, md_video_encoder = None, md_direction = None,
          md_gw_version = None, md_baresip_version = None, md_baresip_patch = None, md_chromium_version = None,
          md_summary = \<lparr>sm_min_fps = None, sm_low = None, sm_keyframes = None, sm_presentation = None, sm_state = None\<rparr>\<rparr>\<rparr>\<rparr>"

definition wit_reports_db :: call_db where
  "wit_reports_db = \<lparr>db_next = 4, db_calls = [wit_report_call 1 (- 1) 10, wit_report_call 2 5 15, wit_report_call 3 20 30], db_media = []\<rparr>"

definition wit_unit :: "stored_call \<Rightarrow> string option" where
  "wit_unit c = (if sc_id c = 3 then None else Some ''DSI'')"

definition wit_today :: date where
  "wit_today = \<lparr>d_year = 2026, d_month = 2, d_day = 3\<rparr>"

definition wit_span :: day_span where
  "wit_span = (\<lparr>d_year = 2026, d_month = 1, d_day = 1\<rparr>, \<lparr>d_year = 2026, d_month = 2, d_day = 1\<rparr>, ''2026-01'')"

lemma wit_period: "resolvePeriod (Some ''2026-01'') wit_today = Inr wit_span"
  by code_simp

lemma wit_window: "span_window id wit_span = (wit_minute 0, wit_minute 44640)"
  by code_simp

lemma wit_scope: "in_scope wit_unit (Some ''DSI'') c = (is_user_call (cr_main_app (sc_row c)) \<and> wit_unit c = Some ''DSI'')"
proof -
  have "unit_clauses (Some ''DSI'') = [Named [''DSI'']]" by code_simp
  then show ?thesis by (auto simp: in_scope_def keeps_def clause_keeps_def)
qed

lemma wit_minute_less [simp]: "wit_minute a < wit_minute b \<longleftrightarrow> a < b" "wit_minute a \<le> wit_minute b \<longleftrightarrow> a \<le> b"
  by (simp_all add: wit_minute_def second_us_def)

lemma wit_report_call [simp]:
  "sc_id (wit_report_call i a b) = i" "sc_start (wit_report_call i a b) = wit_minute a" "sc_established (wit_report_call i a b)"
  "sc_outcome (wit_report_call i a b) = ''completed''" "cr_call_end (sc_row (wit_report_call i a b)) = Some (wit_minute b)"
  "is_user_call (cr_main_app (sc_row (wit_report_call i a b)))"
  by (simp_all add: wit_report_call_def is_user_call_def)

lemma wit_calls: "db_calls wit_reports_db = [wit_report_call 1 (- 1) 10, wit_report_call 2 5 15, wit_report_call 3 20 30]"
  by (simp add: wit_reports_db_def)

lemma wit_answer:
  "usage_summary id wit_today wit_unit (Some ''2026-01'') units wit_reports_db
    = Inr (headline_of wit_unit units (wit_minute 0, wit_minute 44640) wit_span wit_reports_db)"
  by (simp add: usage_summary_def wit_period wit_window)

lemma peak_is_the_most_at_once_witness:
  "\<exists>h. usage_summary id wit_today wit_unit (Some ''2026-01'') (Some ''DSI'') wit_reports_db = Inr h \<and> hl_peak h = 2"
proof -
  define h where "h = headline_of wit_unit (Some ''DSI'') (wit_minute 0, wit_minute 44640) wit_span wit_reports_db"
  have today: "valid_date wit_today" "1 < d_year wit_today" "d_year wit_today < 9999" by code_simp+
  have ends: "\<forall>c \<in> set (db_calls wit_reports_db). ends_after_start c" by (simp add: wit_calls ends_after_start_def)
  have zone: "\<forall>a b. a + day_us \<le> b \<longrightarrow> id a < id b" by (simp add: day_us_def second_us_def)
  have most: "(\<forall>t. wit_minute 0 \<le> t \<and> t < wit_minute 44640 \<longrightarrow> at_once (in_scope wit_unit (Some ''DSI'')) t (db_calls wit_reports_db) \<le> hl_peak h)
    \<and> (\<exists>t. wit_minute 0 \<le> t \<and> t < wit_minute 44640 \<and> at_once (in_scope wit_unit (Some ''DSI'')) t (db_calls wit_reports_db) = hl_peak h)"
    by (rule peak_is_the_most_at_once [OF wit_answer [of "Some ''DSI''", folded h_def] wit_period wit_window today zone ends])
  have two: "at_once (in_scope wit_unit (Some ''DSI'')) t (db_calls wit_reports_db) \<le> 2" for t
    by (simp add: at_once_def wit_calls wit_scope wit_unit_def)
  have "at_once (in_scope wit_unit (Some ''DSI'')) (wit_minute 6) (db_calls wit_reports_db) = 2"
    by (simp add: at_once_def wit_calls wit_scope wit_unit_def in_progress_def)
  then have "2 \<le> hl_peak h" using conjunct1 [OF most, rule_format, of "wit_minute 6"] by simp
  moreover have "hl_peak h \<le> 2" using most two by metis
  ultimately show ?thesis using wit_answer [of "Some ''DSI''"] by (auto simp: h_def)
qed

lemma reports_count_the_same_calls_witness:
  "\<exists>h os. usage_summary id wit_today wit_unit (Some ''2026-01'') None wit_reports_db = Inr h \<and> hl_sessions h = 2
    \<and> outcomes id wit_today wit_unit (Some ''2026-01'') None wit_reports_db = Inr os
    \<and> sum_list (map (\<lambda>(_, n, _). n) (lb_rows os)) = 2"
proof -
  have kinds: "\<forall>c \<in> set (db_calls wit_reports_db). sc_outcome c \<in> set OUTCOMES" by (simp add: wit_calls OUTCOMES_def)
  define h where "h = headline_of wit_unit None (wit_minute 0, wit_minute 44640) wit_span wit_reports_db"
  have "hl_sessions h = 2"
    by (simp add: h_def headline_of_def Let_def counted_def started_in_def wit_calls in_scope_def keeps_def unit_clauses_def)
  moreover obtain os where "outcomes id wit_today wit_unit (Some ''2026-01'') None wit_reports_db = Inr os"
      "sum_list (map (\<lambda>(_, n, _). n) (lb_rows os)) = hl_sessions h"
    using reports_count_the_same_calls [OF wit_answer [of None, folded h_def] kinds] by blast
  ultimately show ?thesis using wit_answer [of None, folded h_def] by auto
qed

lemma every_unit_is_no_filter_witness:
  "usage_summary id wit_today wit_unit (Some ''2026-01'') (Some ''DSI,(unassigned)'') wit_reports_db
    = usage_summary id wit_today wit_unit (Some ''2026-01'') None wit_reports_db"
proof -
  have "\<forall>u \<in> set [''DSI'']. CODE u" by (simp add: CODE_def is_upper_def)
  moreover have "\<forall>c \<in> set (db_calls wit_reports_db). wit_unit c = None \<or> wit_unit c \<in> Some ` set [''DSI'']" by (simp add: wit_unit_def)
  moreover have "''DSI,(unassigned)'' = str_join '','' ([''DSI''] @ [''(unassigned)''])" by simp
  ultimately show ?thesis using every_unit_is_no_filter [of "[''DSI'']" wit_reports_db wit_unit] by blast
qed

end
