(* ===== verification/Admin_Tool.thy ===== *)
theory Admin_Tool
  imports Account_Props
begin

text \<open>
  Accounts from the server (\<open>manager/tools/user.py\<close>): the commands of the script, on the same table as
  the console, and the text they print. \<open>drawn\<close> is the password \<open>secrets.token_urlsafe\<close> draws; what
  \<open>sys.exit\<close> says is an exception. Every relation that the requests of the console keep, a run of the
  script keeps too; and reset, enabled and promoted, an account is an administrator who can sign in.
\<close>

section \<open>The script\<close>

datatype tool_command = List_Users | Reset_Password string "string option" | Enable_User string | Promote_User string

definition sys_exit :: "string \<Rightarrow> exn" where
  "sys_exit message = OtherError (''SystemExit: '' @ message)"

text \<open>\<open>f"{s:n}"\<close>.\<close>

definition left_aligned :: "nat \<Rightarrow> string \<Rightarrow> string" where
  "left_aligned n s = s @ replicate (n - length s) CHR '' ''"

definition user_line :: "account \<Rightarrow> string" where
  "user_line a =
     left_aligned 24 (ac_username a) @ '' '' @ left_aligned 9 (ac_role a) @ '' '' @ left_aligned 11 (ac_source a)
     @ (if ac_enabled a then [] else '' disabled'') @ (if ac_must_change a then '' must-change'' else [])"

definition cli_line :: "string \<Rightarrow> string \<Rightarrow> pydict \<Rightarrow> audit_line" where
  "cli_line action name detail = \<lparr>au_actor = ''cli'', au_action = action, au_target = name, au_detail = detail\<rparr>"

definition tool_account :: "string \<Rightarrow> (console, account) io" where
  "tool_account name =
     bind_io (read_io (getUser name)) (\<lambda>acc.
       case acc of None \<Rightarrow> raise_io (sys_exit (''no such user: '' @ name)) | Some a \<Rightarrow> ret_io a)"

definition tool_problem :: "string option \<Rightarrow> (console, unit) io" where
  "tool_problem problem = (case problem of None \<Rightarrow> ret_io () | Some p \<Rightarrow> raise_io (sys_exit p))"

definition reset_command :: "console_cfg \<Rightarrow> ctx \<Rightarrow> string \<Rightarrow> string \<Rightarrow> string option \<Rightarrow> (console, string list) io" where
  "reset_command cfg cx drawn name given =
     bind_io (tool_account name) (\<lambda>a.
     bind_io (demand (ac_source a = ''local'') (sys_exit ''this account has no local password'')) (\<lambda>_.
     let asked = (case given of None \<Rightarrow> [] | Some p \<Rightarrow> p); password = (if asked \<noteq> [] then asked else drawn) in
     bind_io (tool_problem (passwordProblem cfg password (ac_username a) None)) (\<lambda>_.
     bind_io (lift_io (hashPassword cfg (cx_salt cx) password)) (\<lambda>h.
     bind_io (setPassword (ac_username a) h True (Some (cli_line ''password.reset'' (ac_username a) [])) (cx_now cx)) (\<lambda>_.
     ret_io ((''password of '' @ ac_username a @ '' reset; to be changed at next sign-in'')
             # (if asked = [] then [''temporary password: '' @ password] else [])))))))"

definition change_command :: "ctx \<Rightarrow> string \<Rightarrow> changes \<Rightarrow> pydict \<Rightarrow> string \<Rightarrow> (console, string list) io" where
  "change_command cx name ch detail said =
     bind_io (tool_account name) (\<lambda>a.
     bind_io (updateAccount (ac_username a) ch (Some (cli_line ''update'' (ac_username a) detail)) (cx_now cx)) (\<lambda>_.
     ret_io [ac_username a @ said]))"

definition user_tool :: "console_cfg \<Rightarrow> ctx \<Rightarrow> string \<Rightarrow> tool_command \<Rightarrow> (console, string list) io" where
  "user_tool cfg cx drawn command =
     bind_io (ensureBootstrap cfg cx) (\<lambda>_.
     case command of
       List_Users \<Rightarrow> bind_io (read_io listUsers) (\<lambda>us. ret_io (map user_line us))
     | Reset_Password name given \<Rightarrow> reset_command cfg cx drawn name given
     | Enable_User name \<Rightarrow> change_command cx name \<lparr>ch_name = None, ch_role = None, ch_enabled = Some True\<rparr> [(''enabled'', PBool True)] '' enabled''
     | Promote_User name \<Rightarrow> change_command cx name \<lparr>ch_name = None, ch_role = Some ''admin'', ch_enabled = None\<rparr> [(''role'', PStr ''admin'')]
         '' is now an administrator'')"

section \<open>What it keeps\<close>

context account_order
begin

lemma steps_tool_parts: "steps R (tool_account name)" "steps R (tool_problem p)"
  unfolding tool_account_def tool_problem_def by (intro account_rules)+

lemma steps_commands: "steps R (reset_command cfg cx drawn name given)" "steps R (change_command cx name ch detail said)"
  unfolding reset_command_def change_command_def Let_def by (intro account_rules steps_tool_parts)+

lemma steps_user_tool: "steps R (user_tool cfg cx drawn command)"
  by (cases command) (simp_all only: user_tool_def tool_command.case, (intro account_rules steps_commands)+)

end

lemma tool_keeps_rules:
  "users_wf w \<Longrightarrow> users_wf (snd (user_tool cfg cx drawn command w))"
  "older w (snd (user_tool cfg cx drawn command w))"
  "accounted w (snd (user_tool cfg cx drawn command w))"
  using wf.steps_user_tool older.steps_user_tool accounted.steps_user_tool unfolding steps_def by blast+

section \<open>A way in from the server\<close>

lemma getUser_update:
  assumes "getUser name w = Some a" and "\<And>b. ac_username (f b) = ac_username b" and "account_fits (f a)"
  shows "update_row name f l w = (Inr (Some (f a)), snd (update_row name f l w))"
    and "getUser name (snd (update_row name f l w)) = Some (f a)"
proof -
  show "update_row name f l w = (Inr (Some (f a)), snd (update_row name f l w))" using assms(1,3) by (simp add: update_row_def)
  have "find (\<lambda>b. ac_username b = str_lower name) (map (\<lambda>b. if ac_username b = str_lower name then f b else b) us) = Some (f a)"
    if "find (\<lambda>b. ac_username b = str_lower name) us = Some a" for us
    using that assms(2) by (induction us) (auto split: if_splits)
  then show "getUser name (snd (update_row name f l w)) = Some (f a)"
    using assms by (simp add: update_row_def getUser_def)
qed

lemma no_bootstrap: "mg_users w \<noteq> [] \<Longrightarrow> ensureBootstrap cfg cx w = (Inr (), w)"
  by (simp add: ensureBootstrap_def)

lemma getUser_own_name: "users_wf w \<Longrightarrow> getUser name w = Some a \<Longrightarrow> getUser (ac_username a) w = Some a"
  using getUser_Some [of name w a] by (simp add: getUser_def users_wf_def)

lemma getUser_lower: "str_lower n = str_lower m \<Longrightarrow> getUser n = getUser m"
  by (rule ext) (simp add: getUser_def)

lemma row_fits: "users_wf w \<Longrightarrow> getUser name w = Some a \<Longrightarrow> account_fits a"
  using getUser_Some [of name w a] by (simp add: users_wf_def)

lemma same_key: "users_wf w \<Longrightarrow> getUser name w = Some a \<Longrightarrow> getUser (ac_username a) = getUser name"
  using getUser_Some [of name w a] by (intro getUser_lower) simp

lemma change_command_ok:
  assumes "users_wf w" and "getUser name w = Some a" and "account_fits (apply_changes ch (cx_now cx) a)" and "\<not> no_changes ch"
  shows "\<exists>w'. change_command cx name ch detail said w = (Inr [ac_username a @ said], w') \<and> getUser name w' = Some (apply_changes ch (cx_now cx) a)"
proof -
  let ?f = "apply_changes ch (cx_now cx)" and ?l = "Some (cli_line ''update'' (ac_username a) detail)"
  have f: "ac_username (?f b) = ac_username b" for b by (simp add: apply_changes_def)
  note u = getUser_update [where f = ?f and l = ?l, OF getUser_own_name [OF assms(1,2)] f assms(3)]
  have "change_command cx name ch detail said w = (Inr [ac_username a @ said], snd (update_row (ac_username a) ?f ?l w))"
    using u(1) f assms(2,4) by (simp add: change_command_def tool_account_def updateAccount_def)
  then show ?thesis using u(2) f same_key [OF assms(1,2)] by auto
qed

lemma reset_command_ok:
  assumes "users_wf w" and "getUser name w = Some a" and "ac_source a = ''local''" and "pw \<noteq> []"
    and "passwordProblem cfg pw (ac_username a) None = None" and "hashPassword cfg (cx_salt cx) pw = Inr h"
  shows "\<exists>w' b said. reset_command cfg cx drawn name (Some pw) w = (Inr said, w') \<and> getUser name w' = Some b
    \<and> b = a\<lparr>ac_password_hash := Some h, ac_must_change := True, ac_password_changed_at := Some (cx_now cx), ac_updated_at := cx_now cx,
            ac_epoch := ac_epoch a + 1\<rparr>"
proof -
  let ?f = "\<lambda>a. a\<lparr>ac_password_hash := Some h, ac_must_change := True, ac_password_changed_at := Some (cx_now cx),
      ac_updated_at := cx_now cx, ac_epoch := ac_epoch a + 1\<rparr>"
  let ?l = "Some (cli_line ''password.reset'' (ac_username a) [])"
  have fits: "account_fits (?f a)" using row_fits [OF assms(1,2)] assms(3) by (simp add: account_fits_def)
  have f: "ac_username (?f b) = ac_username b" for b by simp
  note u = getUser_update [where f = ?f and l = ?l, OF getUser_own_name [OF assms(1,2)] f fits]
  obtain said where "reset_command cfg cx drawn name (Some pw) w = (Inr said, snd (update_row (ac_username a) ?f ?l w))"
    using u(1) assms(2-6) by (simp add: reset_command_def tool_account_def tool_problem_def setPassword_def)
  then show ?thesis using u(2) same_key [OF assms(1,2)] by auto
qed

text \<open>The three commands, one after the other.\<close>

definition rescue :: "console_cfg \<Rightarrow> ctx \<Rightarrow> string \<Rightarrow> string \<Rightarrow> (console, string list) io" where
  "rescue cfg cx name pw =
     bind_io (user_tool cfg cx [] (Reset_Password name (Some pw))) (\<lambda>_.
     bind_io (user_tool cfg cx [] (Enable_User name)) (\<lambda>_. user_tool cfg cx [] (Promote_User name)))"


text \<open>
  C8. The server lets an administrator in, whatever the console has come to: reset with a password it
  accepts, enabled and promoted, a local account is an active administrator who must change the
  password; it signs in with that password; and no session opened before is taken any more.
\<close>

theorem server_lets_an_administrator_in:
  assumes "users_wf w" and "getUser name w = Some a" and "ac_source a = ''local''" and "pw \<noteq> []"
    and "passwordProblem cfg pw (ac_username a) None = None" and "hashPassword cfg (cx_salt cx) pw = Inr h"
  shows "\<exists>w' b. snd (rescue cfg cx name pw w) = w' \<and> \<not> isl (fst (rescue cfg cx name pw w)) \<and> getUser name w' = Some b \<and> users_wf w'
    \<and> active_admin b \<and> ac_must_change b \<and> ac_id b = ac_id a
    \<and> fst (authenticate cfg cx' name pw w') = Inr (Some b)
    \<and> (\<forall>s. str_lower (ss_user s) = ac_username a \<and> ss_epoch s \<le> ac_epoch a \<longrightarrow>
          fst (sessionAccount cfg cx' (w'\<lparr>mg_session := Some s\<rparr>)) = Inr None)"
proof -
  have some: "ensureBootstrap cfg c v = (Inr (), v)" if "getUser name v = Some x" for v x and c :: ctx
    using getUser_Some [OF that] by (intro no_bootstrap) auto
  define b1 where "b1 = a\<lparr>ac_password_hash := Some h, ac_must_change := True, ac_password_changed_at := Some (cx_now cx),
      ac_updated_at := cx_now cx, ac_epoch := ac_epoch a + 1\<rparr>"
  obtain w1 said where r1: "reset_command cfg cx [] name (Some pw) w = (Inr said, w1)" "getUser name w1 = Some b1"
    using reset_command_ok [OF assms] unfolding b1_def by metis
  have t1: "user_tool cfg cx [] (Reset_Password name (Some pw)) w = (Inr said, w1)"
    using r1(1) some [OF assms(2)] by (simp add: user_tool_def)
  then have wf1: "users_wf w1" using tool_keeps_rules(1) [OF assms(1)] by (metis snd_conv)
  define ch2 :: changes where "ch2 = \<lparr>ch_name = None, ch_role = None, ch_enabled = Some True\<rparr>"
  define b2 where "b2 = apply_changes ch2 (cx_now cx) b1"
  have "account_fits b2" using row_fits [OF wf1 r1(2)] by (simp add: b2_def ch2_def apply_changes_def account_fits_def)
  then obtain w2 said2 where r2: "user_tool cfg cx [] (Enable_User name) w1 = (Inr said2, w2)" "getUser name w2 = Some b2"
    using change_command_ok [OF wf1 r1(2), of ch2] some [OF r1(2)]
    by (fastforce simp: user_tool_def b2_def ch2_def no_changes_def)
  then have wf2: "users_wf w2" using tool_keeps_rules(1) [OF wf1] by (metis snd_conv)
  define ch3 :: changes where "ch3 = \<lparr>ch_name = None, ch_role = Some ''admin'', ch_enabled = None\<rparr>"
  define b where "b = apply_changes ch3 (cx_now cx) b2"
  have "account_fits b" using row_fits [OF wf2 r2(2)] by (simp add: b_def ch3_def apply_changes_def account_fits_def ROLES_def)
  then obtain w3 said3 where r3: "user_tool cfg cx [] (Promote_User name) w2 = (Inr said3, w3)" "getUser name w3 = Some b"
    using change_command_ok [OF wf2 r2(2), of ch3] some [OF r2(2)]
    by (fastforce simp: user_tool_def b_def ch3_def no_changes_def)
  then have wf3: "users_wf w3" using tool_keeps_rules(1) [OF wf2] by (metis snd_conv)
  have b: "active_admin b" "ac_must_change b" "ac_id b = ac_id a" "ac_username b = ac_username a" "ac_epoch a < ac_epoch b" "ac_source b = ''local''"
      "ac_password_hash b = Some h" "ac_enabled b"
    by (simp_all add: b_def ch3_def b2_def ch2_def b1_def apply_changes_def active_admin_def assms(3))
  have auth: "fst (authenticate cfg cx' name pw w3) = Inr (Some b)"
    using stored_hash_checks_password [OF assms(6)] b(6-8) some [OF r3(2)] r3(2) by (simp add: authenticate_def Let_def)
  have out: "fst (sessionAccount cfg cx' (w3\<lparr>mg_session := Some s\<rparr>)) = Inr None"
    if "str_lower (ss_user s) = ac_username a" "ss_epoch s \<le> ac_epoch a" for s
  proof (rule past_session_refused, intro allI impI)
    fix c assume c: "getUser (ss_user s) w3 = Some c"
    have "str_lower (ss_user s) = str_lower name" using that(1) getUser_Some [OF assms(2)] by simp
    then have "c = b" using c r3(2) by (simp add: getUser_def)
    then show "ss_epoch s < ac_epoch c" using b(5) that(2) by simp
  qed
  have "rescue cfg cx name pw w = (Inr said3, w3)" by (simp add: rescue_def t1 r2(1) r3(1))
  then show ?thesis using r3(2) wf3 b(1-3) auth out by auto
qed

lemma server_lets_an_administrator_in_witness:
  "\<exists>b. getUser ''b@x.fr'' (snd (rescue wit_cfg wit_ctx ''b@x.fr'' ''long enough password'' disabled_console)) = Some b \<and> active_admin b"
proof -
  have "users_wf disabled_console"
    using wf.served_R [OF serves_call] wit_console_wf unfolding disabled_console_def by blast
  moreover have "case getUser ''b@x.fr'' disabled_console of None \<Rightarrow> False
      | Some a \<Rightarrow> ac_source a = ''local'' \<and> passwordProblem wit_cfg ''long enough password'' (ac_username a) None = None" by code_simp
  then obtain a where "getUser ''b@x.fr'' disabled_console = Some a" "ac_source a = ''local''"
      "passwordProblem wit_cfg ''long enough password'' (ac_username a) None = None" by (auto split: option.splits)
  moreover obtain h where "hashPassword wit_cfg (cx_salt wit_ctx) ''long enough password'' = Inr h" by (simp add: hashPassword_def wit_cfg_def)
  ultimately show ?thesis
    using server_lets_an_administrator_in [of disabled_console "''b@x.fr''" a "''long enough password''" wit_cfg wit_ctx h] by auto
qed

end
