(* ===== verification/Backfill.thy ===== *)
theory Backfill
  imports Call_Store
begin

text \<open>
  The one-off that brings old calls in line with the intake (\<open>manager/tools/backfill_calls.py\<close>): its
  four steps over the tables as they stood before, with \<open>recompute_outcomes\<close> of
  \<open>manager/db/schema_reporting_lot0.sql\<close>, in one transaction that a dry run rolls back. A call is the
  columns the steps read or write, its pushed payload among them; \<open>day\<close> is the day of an instant in the
  session's time zone. What the script prints of its counts is left out.
\<close>

section \<open>The tables\<close>

record old_call =
  ol_id :: int
  ol_call_id :: "string option"
  ol_start :: "int option"
  ol_received :: int
  ol_established :: bool
  ol_room :: "string option"
  ol_reason :: "string option"
  ol_outcome :: string
  ol_duration :: "int option"
  ol_occupancy :: "int option"
  ol_details :: media_details
  ol_raw :: pyval

record old_db =
  od_calls :: "old_call list"
  od_media :: "(int \<times> media_row) list"
  od_recomputes :: "(int \<times> int) list"

definition unavailable :: exn where
  "unavailable = OtherError ''psycopg.Error''"

text \<open>\<open>ON DELETE CASCADE\<close>.\<close>

definition delete_calls :: "(old_call \<Rightarrow> bool) \<Rightarrow> old_db \<Rightarrow> old_db" where
  "delete_calls P d =
     d\<lparr>od_calls := filter (\<lambda>c. \<not> P c) (od_calls d),
       od_media := filter (\<lambda>m. fst m \<notin> ol_id ` set (filter P (od_calls d))) (od_media d)\<rparr>"

text \<open>The two replay guards.\<close>

definition guards_hold :: "old_call list \<Rightarrow> bool" where
  "guards_hold cs =
     (distinct (map (\<lambda>c. (ol_call_id c, ol_start c)) (filter (\<lambda>c. ol_call_id c \<noteq> None \<and> ol_start c \<noteq> None) cs))
      \<and> distinct (map ol_call_id (filter (\<lambda>c. ol_call_id c \<noteq> None \<and> \<not> ol_established c) cs)))"

section \<open>Empty pushes and calls not established\<close>

definition empty_push :: "old_call \<Rightarrow> bool" where
  "empty_push c = (ol_call_id c = None \<and> ol_start c = None)"

definition emptyPushes :: "old_db \<Rightarrow> int list \<times> old_db" where
  "emptyPushes d = (map ol_id (filter empty_push (od_calls d)), delete_calls empty_push d)"

definition no_start :: "old_call \<Rightarrow> bool" where
  "no_start c = (ol_call_id c \<noteq> None \<and> ol_start c = None)"

definition is_replay :: "old_call list \<Rightarrow> old_call \<Rightarrow> bool" where
  "is_replay cs c = (no_start c \<and> list_ex (\<lambda>b. ol_call_id b = ol_call_id c \<and> ol_start b = None \<and> ol_id b < ol_id c) cs)"

definition mark_call :: "old_call \<Rightarrow> old_call" where
  "mark_call c = (if no_start c then c\<lparr>ol_established := False, ol_start := Some (ol_received c)\<rparr> else c)"

definition new_outcome :: "old_call \<Rightarrow> string" where
  "new_outcome c =
     (if \<not> ol_established c then ''not_established''
      else if ol_room c \<noteq> None then ''completed''
      else if is_technical_failure (ol_reason c) then ''failed''
      else ''ivr_only'')"

text \<open>\<open>COALESCE(NULLIF(duration_s, 0), occupancy_s, 0)\<close>.\<close>

definition best_duration :: "old_call \<Rightarrow> int" where
  "best_duration c =
     (case ol_duration c of
        Some n \<Rightarrow> if n \<noteq> 0 then n else (case ol_occupancy c of Some k \<Rightarrow> k | None \<Rightarrow> 0)
      | None \<Rightarrow> (case ol_occupancy c of Some k \<Rightarrow> k | None \<Rightarrow> 0))"

definition moved_call :: "old_call \<Rightarrow> old_call" where
  "moved_call c =
     (if ol_outcome c = new_outcome c then c
      else c\<lparr>ol_outcome := new_outcome c, ol_duration := Some (if new_outcome c = ''completed'' then best_duration c else 0)\<rparr>)"

definition recompute_outcomes :: "old_db \<Rightarrow> int \<times> old_db" where
  "recompute_outcomes d =
     (let moved = int (length (filter (\<lambda>c. ol_outcome c \<noteq> new_outcome c) (od_calls d))) in
      (moved, d\<lparr>od_calls := map moved_call (od_calls d), od_recomputes := od_recomputes d @ [(int (length (od_calls d)), moved)]\<rparr>))"

definition notEstablished :: "old_db \<Rightarrow> exn + ((int list \<times> int list \<times> int) \<times> old_db)" where
  "notEstablished d =
     (let replays = map ol_id (filter (is_replay (od_calls d)) (od_calls d));
          d1 = delete_calls (is_replay (od_calls d)) d;
          marked = map ol_id (filter no_start (od_calls d1));
          d2 = d1\<lparr>od_calls := map mark_call (od_calls d1)\<rparr>
      in if marked \<noteq> [] \<and> \<not> guards_hold (od_calls d2) then Inl unavailable
         else let (moved, d3) = recompute_outcomes d2 in Inr ((marked, replays, moved), d3))"

section \<open>The fields pushed since\<close>

text \<open>\<open>v -> k\<close> and \<open>v ? k\<close> of PostgreSQL's \<open>jsonb\<close>.\<close>

definition json_at :: "string \<Rightarrow> pyval option \<Rightarrow> pyval option" where
  "json_at k v = (case v of Some (PDict d) \<Rightarrow> map_of d k | _ \<Rightarrow> None)"

definition json_has :: "string \<Rightarrow> pyval option \<Rightarrow> bool" where
  "json_has k v =
     (case v of
        Some (PDict d) \<Rightarrow> dmem d k
      | Some (PList xs) \<Rightarrow> PStr k \<in> set xs
      | Some (PStr s) \<Rightarrow> s = k
      | _ \<Rightarrow> False)"

definition carries :: "pyval \<Rightarrow> bool" where
  "carries raw =
     (let call = json_at ''call'' (Some raw); details = json_at ''details'' call in
      json_has ''peerUserAgent'' details \<or> json_has ''encoders'' details \<or> json_has ''mediaDir'' details
      \<or> json_has ''gateway'' call \<or> json_has ''samples'' (json_at ''mediaStats'' call))"

text \<open>What \<open>NUMERIC(6,1)\<close> and \<open>INTEGER\<close> hold.\<close>

definition details_fit :: "media_details \<Rightarrow> bool" where
  "details_fit m =
     ((case sm_min_fps (md_summary m) of None \<Rightarrow> True | Some r \<Rightarrow> \<bar>r\<bar> < 100000)
      \<and> (case sm_presentation (md_summary m) of None \<Rightarrow> True | Some n \<Rightarrow> - (2 ^ 31) \<le> n \<and> n < 2 ^ 31))"

definition filled_call :: "old_call \<Rightarrow> exn + old_call" where
  "filled_call c =
     (if carries (ol_raw c)
      then bindE (mediaDetails (obj_of (ol_raw c))) (\<lambda>m. if details_fit m then Inr (c\<lparr>ol_details := m\<rparr>) else Inl unavailable)
      else Inr c)"

definition details :: "old_db \<Rightarrow> exn + ((int \<times> int) \<times> old_db)" where
  "details d =
     bindE (mapE filled_call (od_calls d)) (\<lambda>cs.
       Inr ((int (length (filter (\<lambda>c. carries (ol_raw c)) (od_calls d))),
             int (length (filter (\<lambda>(a, b). ol_details a \<noteq> ol_details b) (zip (od_calls d) cs)))), d\<lparr>od_calls := cs\<rparr>))"

section \<open>Repeated video statistics\<close>

definition ARTIFACT_SINCE :: date where
  "ARTIFACT_SINCE = \<lparr>d_year = 2026, d_month = 9, d_day = 15\<rparr>"

text \<open>The \<open>mediaStats\<close> of a call whose video is a list of at least four entries.\<close>

definition artifact_stats :: "old_call \<Rightarrow> pydict option" where
  "artifact_stats c =
     (case json_at ''mediaStats'' (json_at ''call'' (Some (ol_raw c))) of
        Some (PDict ms) \<Rightarrow> (case map_of ms ''video'' of Some (PList xs) \<Rightarrow> if 4 \<le> length xs then Some ms else None | _ \<Rightarrow> None)
      | _ \<Rightarrow> None)"

datatype artifact = Kept | Reported | Reduced "media_row list"

definition video_entries :: "pydict \<Rightarrow> pyval list" where
  "video_entries ms = list_of (dget ms ''video'')"

definition artifact_of :: "(int \<Rightarrow> date) \<Rightarrow> pydict \<Rightarrow> old_call \<Rightarrow> exn + artifact" where
  "artifact_of day ms c =
     bindE (isRepeated ms) (\<lambda>bySamples.
       let byCounters = (case dget ms ''samples'' of PList _ \<Rightarrow> False | _ \<Rightarrow> looksCumulative (dicts_of (video_entries ms))) in
       if \<not> (bySamples \<or> byCounters) then Inr Kept
       else if byCounters \<and> date_ord (day (ol_received c)) < date_ord ARTIFACT_SINCE then Inr Reported
       else let ms = (if byCounters then dset ''samples'' (PList (replicate (length (video_entries ms) div 2 - 1) (PDict []))) ms else ms) in
         bindE (mediaRows (PDict ms)) (\<lambda>rows. Inr (Reduced (filter (\<lambda>r. mr_media r = ''video'') rows))))"

definition video_of :: "int \<Rightarrow> (int \<times> media_row) list \<Rightarrow> (int \<times> media_row) list" where
  "video_of pk media = filter (\<lambda>m. fst m = pk \<and> mr_media (snd m) = ''video'') media"

definition replace_video :: "int \<Rightarrow> media_row list \<Rightarrow> (int \<times> media_row) list \<Rightarrow> exn + (int \<times> media_row) list" where
  "replace_video pk rows media =
     (let left = filter (\<lambda>m. \<not> (fst m = pk \<and> mr_media (snd m) = ''video'')) media; all = left @ map (Pair pk) rows in
      if distinct (map media_key (map (Pair pk) rows)) then Inr all else Inl unavailable)"

fun artifacts :: "(int \<Rightarrow> date) \<Rightarrow> old_call list \<Rightarrow> (int \<times> media_row) list \<Rightarrow>
    exn + (((int \<times> nat \<times> nat) list \<times> int list) \<times> (int \<times> media_row) list)" where
  "artifacts day [] media = Inr (([], []), media)"
| "artifacts day (c # cs) media =
     (case artifact_stats c of
        None \<Rightarrow> artifacts day cs media
      | Some ms \<Rightarrow>
          bindE (artifact_of day ms c) (\<lambda>a.
            case a of
              Kept \<Rightarrow> artifacts day cs media
            | Reported \<Rightarrow> bindE (artifacts day cs media) (\<lambda>((ws, rs), m). Inr ((ws, ol_id c # rs), m))
            | Reduced rows \<Rightarrow>
                if length (video_of (ol_id c) media) = length rows then artifacts day cs media
                else bindE (replace_video (ol_id c) rows media) (\<lambda>media.
                     bindE (artifacts day cs media) (\<lambda>((ws, rs), m).
                       Inr (((ol_id c, length (video_entries ms), length rows) # ws, rs), m)))))"

definition videoArtifacts :: "(int \<Rightarrow> date) \<Rightarrow> old_db \<Rightarrow> exn + (((int \<times> nat \<times> nat) list \<times> int list) \<times> old_db)" where
  "videoArtifacts day d =
     bindE (artifacts day (sort_key ol_id (od_calls d)) (od_media d)) (\<lambda>(r, media). Inr (r, d\<lparr>od_media := media\<rparr>))"

section \<open>The run\<close>

record backfill_report =
  bf_deleted :: "int list"
  bf_marked :: "int list"
  bf_replays :: "int list"
  bf_moved :: int
  bf_carrying :: int
  bf_filled :: int
  bf_rewritten :: "(int \<times> nat \<times> nat) list"
  bf_reported :: "int list"

definition backfill :: "(int \<Rightarrow> date) \<Rightarrow> old_db \<Rightarrow> exn + (backfill_report \<times> old_db)" where
  "backfill day d =
     (case emptyPushes d of (deleted, d) \<Rightarrow>
      bindE (notEstablished d) (\<lambda>((marked, replays, moved), d).
      bindE (details d) (\<lambda>((carrying, filled), d).
      bindE (videoArtifacts day d) (\<lambda>((rewritten, reported), d).
        Inr (\<lparr>bf_deleted = deleted, bf_marked = marked, bf_replays = replays, bf_moved = moved, bf_carrying = carrying,
              bf_filled = filled, bf_rewritten = rewritten, bf_reported = reported\<rparr>, d)))))"

definition backfill_main :: "(int \<Rightarrow> date) \<Rightarrow> bool \<Rightarrow> old_db \<Rightarrow> (exn + backfill_report) \<times> old_db" where
  "backfill_main day apply_it d =
     (case backfill day d of
        Inl e \<Rightarrow> (Inl e, d)
      | Inr (r, d') \<Rightarrow> (Inr r, if apply_it then d' else d))"

end
