(* ===== verification/Backfill_Props.thy ===== *)
theory Backfill_Props
  imports Backfill
begin

text \<open>
  What the backfill promises: run again it finds nothing left to do, and what it leaves follows the
  rules of the intake. The steps are taken one by one: what each leaves, and that on such tables it
  changes nothing.
\<close>

section \<open>The steps on calls\<close>

lemma mark_call_fields [simp]:
  "ol_id (mark_call c) = ol_id c" "ol_call_id (mark_call c) = ol_call_id c" "ol_raw (mark_call c) = ol_raw c" "\<not> no_start (mark_call c)"
  by (auto simp: mark_call_def no_start_def)

lemma moved_call_fields [simp]:
  "ol_id (moved_call c) = ol_id c" "ol_call_id (moved_call c) = ol_call_id c" "ol_start (moved_call c) = ol_start c"
  "ol_raw (moved_call c) = ol_raw c" "new_outcome (moved_call c) = new_outcome c" "ol_outcome (moved_call c) = new_outcome c"
  by (auto simp: moved_call_def new_outcome_def)

lemma filled_call_fields:
  assumes "filled_call c = Inr b"
  shows "ol_id b = ol_id c" "ol_call_id b = ol_call_id c" "ol_start b = ol_start c" "ol_raw b = ol_raw c"
    "new_outcome b = new_outcome c" "ol_outcome b = ol_outcome c" "filled_call b = Inr b"
  using assms by (auto simp: filled_call_def bindE_eq_Inr_iff new_outcome_def split: if_splits)

lemma mark_call_empty [simp]: "\<not> empty_push c \<Longrightarrow> \<not> empty_push (mark_call c)"
  by (auto simp: mark_call_def empty_push_def)

lemma mapE_all:
  assumes "mapE f xs = Inr ys"
  shows "list_all2 (\<lambda>x y. f x = Inr y) xs ys"
  using assms by (induction xs arbitrary: ys) (auto simp: bindE_eq_Inr_iff)

lemma mapE_id: "\<forall>x \<in> set xs. f x = Inr x \<Longrightarrow> mapE f xs = Inr xs"
  by (induction xs) auto

definition in_line :: "old_call \<Rightarrow> bool" where
  "in_line c = (\<not> empty_push c \<and> \<not> no_start c \<and> ol_outcome c = new_outcome c \<and> filled_call c = Inr c)"

lemma no_deletion: "\<forall>c \<in> set (od_calls d). \<not> P c \<Longrightarrow> delete_calls P d = d"
  by (simp add: delete_calls_def filter_id_conv filter_empty_conv)

lemma steps_in_line:
  assumes "\<forall>c \<in> set (od_calls d). in_line c"
  shows "emptyPushes d = ([], d)"
    and "notEstablished d = Inr (([], [], 0), d\<lparr>od_recomputes := od_recomputes d @ [(int (length (od_calls d)), 0)]\<rparr>)"
    and "details d = Inr ((int (length (filter (\<lambda>c. carries (ol_raw c)) (od_calls d))), 0), d)"
proof -
  have c: "\<not> empty_push c" "\<not> no_start c" "\<not> is_replay (od_calls d) c" "moved_call c = c" "mark_call c = c" "filled_call c = Inr c"
    if "c \<in> set (od_calls d)" for c
    using assms that by (auto simp: in_line_def is_replay_def moved_call_def mark_call_def)
  then show "emptyPushes d = ([], d)" by (simp add: emptyPushes_def no_deletion filter_empty_conv)
  have "filter (\<lambda>c. ol_outcome c \<noteq> new_outcome c) (od_calls d) = []" using assms by (simp add: filter_empty_conv in_line_def)
  then show "notEstablished d = Inr (([], [], 0), d\<lparr>od_recomputes := od_recomputes d @ [(int (length (od_calls d)), 0)]\<rparr>)"
    using c by (simp add: notEstablished_def no_deletion filter_empty_conv recompute_outcomes_def Let_def map_idI)
  have "filter (\<lambda>(a, b). ol_details a \<noteq> ol_details b) (zip xs xs) = []" for xs :: "old_call list"
    by (induction xs) auto
  then show "details d = Inr ((int (length (filter (\<lambda>c. carries (ol_raw c)) (od_calls d))), 0), d)"
    using c by (simp add: details_def mapE_id)
qed

section \<open>The video statistics\<close>

definition settled :: "(int \<Rightarrow> date) \<Rightarrow> (int \<times> media_row) list \<Rightarrow> old_call \<Rightarrow> bool" where
  "settled day media c =
     (case artifact_stats c of
        None \<Rightarrow> True
      | Some ms \<Rightarrow> (case artifact_of day ms c of
          Inl e \<Rightarrow> False
        | Inr (Reduced rows) \<Rightarrow> length (video_of (ol_id c) media) = length rows
        | Inr _ \<Rightarrow> True))"

definition reported :: "(int \<Rightarrow> date) \<Rightarrow> old_call list \<Rightarrow> int list" where
  "reported day cs =
     map ol_id (filter (\<lambda>c. case artifact_stats c of None \<Rightarrow> False | Some ms \<Rightarrow> artifact_of day ms c = Inr Reported) cs)"

lemma artifacts_settled:
  "\<forall>c \<in> set cs. settled day media c \<Longrightarrow> artifacts day cs media = Inr (([], reported day cs), media)"
  by (induction cs) (auto simp: settled_def reported_def split: option.splits sum.splits artifact.splits)

lemma reduced_rows_video: "artifact_of day ms c = Inr (Reduced rows) \<Longrightarrow> \<forall>r \<in> set rows. mr_media r = ''video''"
  by (auto simp: artifact_of_def bindE_eq_Inr_iff Let_def split: if_splits)

lemma replace_video_of:
  assumes "replace_video pk rows media = Inr m" and "\<forall>r \<in> set rows. mr_media r = ''video''"
  shows "length (video_of pk m) = length rows" and "k \<noteq> pk \<Longrightarrow> video_of k m = video_of k media"
proof -
  have m: "m = filter (\<lambda>m. \<not> (fst m = pk \<and> mr_media (snd m) = ''video'')) media @ map (Pair pk) rows"
    using assms(1) by (auto simp: replace_video_def Let_def split: if_splits)
  have "filter (\<lambda>r. mr_media r = ''video'') rows = rows" using assms(2) by (simp add: filter_id_conv)
  then show "length (video_of pk m) = length rows" by (simp add: m video_of_def filter_map o_def filter_empty_conv)
  show "video_of k m = video_of k media" if "k \<noteq> pk"
    using that by (auto simp: m video_of_def filter_empty_conv intro: filter_cong)
qed

lemma artifacts_settle:
  assumes "artifacts day cs media = Inr ((ws, rs), m)" and "distinct (map ol_id cs)"
  shows "rs = reported day cs \<and> (\<forall>c \<in> set cs. settled day m c) \<and> (\<forall>k. k \<notin> ol_id ` set cs \<longrightarrow> video_of k m = video_of k media)"
  using assms
proof (induction cs arbitrary: media ws rs m)
  case Nil
  then show ?case by (simp add: reported_def)
next
  case (Cons c cs)
  have other: "ol_id c \<notin> ol_id ` set cs" and dist: "distinct (map ol_id cs)" using Cons.prems(2) by auto
  note IH = Cons.IH [OF _ dist]
  show ?case
  proof (cases "artifact_stats c")
    case None
    then have "artifacts day cs media = Inr ((ws, rs), m)" using Cons.prems(1) by simp
    from IH [OF this] show ?thesis using None by (auto simp: reported_def settled_def)
  next
    case (Some ms)
    then obtain a where a: "artifact_of day ms c = Inr a" using Cons.prems(1) by (auto simp: bindE_eq_Inr_iff)
    show ?thesis
    proof (cases a)
      case Kept
      then have "artifacts day cs media = Inr ((ws, rs), m)" using Cons.prems(1) Some a by simp
      from IH [OF this] show ?thesis using Some a Kept by (auto simp: reported_def settled_def)
    next
      case Reported
      then obtain rs' where "artifacts day cs media = Inr ((ws, rs'), m)" "rs = ol_id c # rs'"
        using Cons.prems(1) Some a by (auto simp: bindE_eq_Inr_iff)
      with IH [OF this(1)] show ?thesis using Some a Reported by (auto simp: reported_def settled_def)
    next
      case (Reduced rows)
      note video = reduced_rows_video [OF a [unfolded Reduced]]
      show ?thesis
      proof (cases "length (video_of (ol_id c) media) = length rows")
        case True
        then have "artifacts day cs media = Inr ((ws, rs), m)" using Cons.prems(1) Some a Reduced by simp
        from IH [OF this] show ?thesis using Some a Reduced True other by (auto simp: reported_def settled_def)
      next
        case False
        then obtain media' ws' where r: "replace_video (ol_id c) rows media = Inr media'" "artifacts day cs media' = Inr ((ws', rs), m)"
          using Cons.prems(1) Some a Reduced by (auto simp: bindE_eq_Inr_iff)
        note v = replace_video_of [OF r(1) video]
        have "length (video_of (ol_id c) m) = length rows" using IH [OF r(2)] other v(1) by simp
        then show ?thesis using IH [OF r(2)] Some a Reduced v(2) by (auto simp: reported_def settled_def)
      qed
    qed
  qed
qed

section \<open>Run again\<close>

lemma run_in_line:
  assumes "backfill day d = Inr (r, d')" and "distinct (map ol_id (od_calls d))"
  shows "(\<forall>c \<in> set (od_calls d'). in_line c) \<and> (\<forall>c \<in> set (od_calls d'). settled day (od_media d') c)
    \<and> bf_reported r = reported day (sort_key ol_id (od_calls d'))
    \<and> bf_carrying r = int (length (filter (\<lambda>c. carries (ol_raw c)) (od_calls d')))"
proof -
  define d0 where "d0 = delete_calls empty_push d"
  define d1 where "d1 = delete_calls (is_replay (od_calls d0)) d0"
  define d2 where "d2 = d1\<lparr>od_calls := map mark_call (od_calls d1)\<rparr>"
  define d3 where "d3 = snd (recompute_outcomes d2)"
  obtain mark rep mv carrying fl d4 ws rs where
    n: "notEstablished d0 = Inr ((mark, rep, mv), d3)" and f: "details d3 = Inr ((carrying, fl), d4)"
    and v: "videoArtifacts day d4 = Inr ((ws, rs), d')" and r: "bf_reported r = rs" "bf_carrying r = carrying"
  proof -
    have e: "emptyPushes d = (map ol_id (filter empty_push (od_calls d)), d0)" by (simp add: emptyPushes_def d0_def)
    have d3: "y = d3" if "notEstablished d0 = Inr (x, y)" for x y
      using that by (auto simp: notEstablished_def Let_def d3_def d2_def d1_def split: if_splits prod.splits)
    obtain x where x: "notEstablished d0 = Inr (x, d3)"
      using assms(1) d3 by (cases "notEstablished d0") (auto simp: backfill_def e)
    obtain mark rep mv where x3: "x = (mark, rep, mv)" by (cases x)
    obtain y d4 where y: "details d3 = Inr (y, d4)" using assms(1) by (cases "details d3") (auto simp: backfill_def e x x3)
    obtain carrying fl where y2: "y = (carrying, fl)" by (cases y)
    obtain z d5 where z: "videoArtifacts day d4 = Inr (z, d5)"
      using assms(1) by (cases "videoArtifacts day d4") (auto simp: backfill_def e x x3 y y2)
    obtain ws rs where z2: "z = (ws, rs)" by (cases z)
    have "d5 = d'" "bf_reported r = rs" "bf_carrying r = carrying" using assms(1) by (auto simp: backfill_def e x x3 y y2 z z2)
    then show ?thesis using that x x3 y y2 z z2 by metis
  qed
  obtain cs where cs: "mapE filled_call (od_calls d3) = Inr cs" and d4: "d4 = d3\<lparr>od_calls := cs\<rparr>"
      and carry: "carrying = int (length (filter (\<lambda>c. carries (ol_raw c)) (od_calls d3)))"
    using f by (auto simp: details_def bindE_eq_Inr_iff)
  obtain m where m: "artifacts day (sort_key ol_id cs) (od_media d4) = Inr ((ws, rs), m)" and d': "d' = d4\<lparr>od_media := m\<rparr>"
    using v by (auto simp: videoArtifacts_def bindE_eq_Inr_iff d4)
  note all = mapE_all [OF cs]
  have calls3: "od_calls d3 = map moved_call (map mark_call (od_calls d1))" by (simp add: d3_def d2_def recompute_outcomes_def Let_def)
  have c3: "\<not> empty_push c \<and> \<not> no_start c \<and> ol_outcome c = new_outcome c" if c: "c \<in> set (od_calls d3)" for c
  proof -
    obtain b where b: "b \<in> set (od_calls d1)" "c = moved_call (mark_call b)" using c unfolding calls3 set_map by blast
    have "\<not> empty_push b" using b(1) by (auto simp: d1_def d0_def delete_calls_def)
    then have "\<not> empty_push (mark_call b)" "\<not> no_start (mark_call b)" by simp_all
    then show ?thesis by (simp add: b(2) empty_push_def no_start_def)
  qed
  have line: "in_line c" if c: "c \<in> set cs" for c
  proof -
    obtain i where i: "i < length cs" "cs ! i = c" using c by (auto simp: in_set_conv_nth)
    define b where "b = od_calls d3 ! i"
    have "filled_call b = Inr c" unfolding b_def i(2) [symmetric] by (rule list_all2_nthD2 [OF all i(1)])
    moreover have "b \<in> set (od_calls d3)" unfolding b_def using i(1) list_all2_lengthD [OF all] by simp
    ultimately have "b \<in> set (od_calls d3)" "filled_call b = Inr c" by simp_all
    with c3 filled_call_fields [OF this(2)] show ?thesis by (simp add: in_line_def empty_push_def no_start_def)
  qed
  have ids: "map ol_id cs = map ol_id (od_calls d3)"
    using all by (auto simp: list_all2_conv_all_nth filled_call_fields(1) intro!: nth_equalityI)
  have raws: "map ol_raw cs = map ol_raw (od_calls d3)"
    using all by (auto simp: list_all2_conv_all_nth filled_call_fields(4) intro!: nth_equalityI)
  have "distinct (map ol_id (od_calls d3))"
    using assms(2) by (simp add: calls3 d1_def d0_def delete_calls_def o_def distinct_map_filter)
  then have "distinct (map ol_id (sort_key ol_id cs))" by (metis distinct_sort distinct_map ids set_sort)
  note settle = artifacts_settle [OF m this]
  have count: "length (filter (\<lambda>c. carries (ol_raw c)) xs) = length (filter carries (map ol_raw xs))" for xs :: "old_call list"
    by (simp add: filter_map o_def)
  have "carrying = int (length (filter (\<lambda>c. carries (ol_raw c)) cs))" unfolding carry count raws by (rule refl)
  then show ?thesis using line settle r by (simp add: d' d4)
qed


text \<open>
  C14. The backfill runs once: after a run that is kept, a second one succeeds, finds no empty push, no
  call without a start, no replay, no outcome to move, no column to fill and no video statistics to
  reduce, and leaves every call and every media row as it is; the calls it reports and leaves alone are
  those of the first run.
\<close>

theorem backfill_runs_once:
  assumes "backfill_main day True d = (Inr r, d')" and "distinct (map ol_id (od_calls d))"
  shows "\<exists>r2 d2. backfill_main day True d' = (Inr r2, d2) \<and> od_calls d2 = od_calls d' \<and> od_media d2 = od_media d'
    \<and> bf_deleted r2 = [] \<and> bf_marked r2 = [] \<and> bf_replays r2 = [] \<and> bf_moved r2 = 0 \<and> bf_filled r2 = 0 \<and> bf_rewritten r2 = []
    \<and> bf_carrying r2 = bf_carrying r \<and> bf_reported r2 = bf_reported r"
proof -
  have "backfill day d = Inr (r, d')" using assms(1) by (auto simp: backfill_main_def split: sum.splits)
  note line = run_in_line [OF this assms(2)]
  let ?d = "d'\<lparr>od_recomputes := od_recomputes d' @ [(int (length (od_calls d')), 0)]\<rparr>"
  have "details ?d = Inr ((bf_carrying r, 0), ?d)" using steps_in_line(3) [of ?d] line by simp
  moreover have "videoArtifacts day ?d = Inr (([], bf_reported r), ?d)"
    using line artifacts_settled [of "sort_key ol_id (od_calls d')" day "od_media d'"] by (simp add: videoArtifacts_def)
  ultimately show ?thesis using steps_in_line(1,2) [of d'] line by (simp add: backfill_main_def backfill_def)
qed

text \<open>
  What a kept run leaves is in line with the intake: every call has a start or a Call-ID, the outcome
  the rules give it, and, where its payload carries them, the fields the intake would read from it.
\<close>

theorem backfilled_calls_follow_the_intake:
  assumes "backfill_main day True d = (Inr r, d')" and "distinct (map ol_id (od_calls d))" and "c \<in> set (od_calls d')"
  shows "ol_start c \<noteq> None \<and> ol_outcome c = new_outcome c
    \<and> (carries (ol_raw c) \<longrightarrow> mediaDetails (obj_of (ol_raw c)) = Inr (ol_details c))"
proof -
  have "backfill day d = Inr (r, d')" using assms(1) by (auto simp: backfill_main_def split: sum.splits)
  then have line: "in_line c" using run_in_line [OF _ assms(2)] assms(3) by blast
  then have "carries (ol_raw c) \<longrightarrow> mediaDetails (obj_of (ol_raw c)) = Inr (ol_details c)"
    by (cases c) (auto simp: in_line_def filled_call_def bindE_eq_Inr_iff split: if_splits)
  then show ?thesis using line by (cases "ol_start c"; cases "ol_call_id c") (auto simp: in_line_def empty_push_def no_start_def)
qed

section \<open>A small table\<close>

text \<open>An empty push, a call without a start pushed twice, and a call whose video was repeated at each sample.\<close>

definition wit_details :: media_details where
  "wit_details = \<lparr>md_peer_user_agent = None, md_audio_codec = None, md_video_codec = None, md_video_encoder = None, md_direction = None,
     md_gw_version = None, md_baresip_version = None, md_baresip_patch = None, md_chromium_version = None,
     md_summary = \<lparr>sm_min_fps = None, sm_low = None, sm_keyframes = None, sm_presentation = None, sm_state = None\<rparr>\<rparr>"

definition wit_old :: "int \<Rightarrow> string option \<Rightarrow> int option \<Rightarrow> pyval \<Rightarrow> old_call" where
  "wit_old i cid start raw =
     \<lparr>ol_id = i, ol_call_id = cid, ol_start = start, ol_received = 100 + i, ol_established = True, ol_room = None, ol_reason = None,
      ol_outcome = ''ivr_only'', ol_duration = Some 0, ol_occupancy = Some 5, ol_details = wit_details, ol_raw = raw\<rparr>"

definition wit_packets :: "int \<Rightarrow> pyval" where
  "wit_packets n = PDict [(''rx'', PDict [(''packets'', PInt n)])]"

definition wit_repeated :: pyval where
  "wit_repeated = PDict [(''call'', PDict [(''mediaStats'', PDict [(''samples'', PList [PDict []]),
     (''video'', PList [wit_packets 1, wit_packets 0, wit_packets 2, wit_packets 0])])])]"

definition wit_old_db :: old_db where
  "wit_old_db = \<lparr>od_calls = [wit_old 1 None None (PDict []), wit_old 2 (Some ''a'') None (PDict []), wit_old 3 (Some ''a'') None (PDict []),
       wit_old 4 (Some ''b'') (Some 7) wit_repeated],
     od_media = [], od_recomputes = []\<rparr>"

definition wit_day :: "int \<Rightarrow> date" where
  "wit_day us = \<lparr>d_year = 2026, d_month = 10, d_day = 1\<rparr>"

lemma wit_first_run:
  "case backfill_main wit_day True wit_old_db of
     (Inl e, d) \<Rightarrow> False
   | (Inr r, d) \<Rightarrow> bf_deleted r = [1] \<and> bf_marked r = [2] \<and> bf_replays r = [3] \<and> bf_moved r = 1 \<and> bf_rewritten r = [(4, 4, 2)]"
  by code_simp

lemma wit_distinct: "distinct (map ol_id (od_calls wit_old_db))"
  by (simp add: wit_old_db_def wit_old_def)

lemma backfill_runs_once_witness:
  "\<exists>r d r2 d2. backfill_main wit_day True wit_old_db = (Inr r, d) \<and> bf_deleted r = [1] \<and> bf_rewritten r = [(4, 4, 2)]
    \<and> backfill_main wit_day True d = (Inr r2, d2) \<and> bf_deleted r2 = [] \<and> bf_rewritten r2 = []"
proof -
  obtain r d where r: "backfill_main wit_day True wit_old_db = (Inr r, d)" "bf_deleted r = [1]" "bf_rewritten r = [(4, 4, 2)]"
    using wit_first_run by (auto split: prod.splits sum.splits)
  from backfill_runs_once [OF r(1) wit_distinct] r show ?thesis by blast
qed

lemma backfilled_calls_follow_the_intake_witness:
  "\<exists>r d. backfill_main wit_day True wit_old_db = (Inr r, d) \<and> (\<forall>c \<in> set (od_calls d). ol_outcome c = new_outcome c)"
proof -
  obtain r d where r: "backfill_main wit_day True wit_old_db = (Inr r, d)"
    using wit_first_run by (auto split: prod.splits sum.splits)
  from backfilled_calls_follow_the_intake [OF r wit_distinct] r show ?thesis by blast
qed

end
