(* ===== verification/Spec2Isabelle.thy ===== *)
theory Spec2Isabelle
  imports Proxy_Props LogParse_Props Push_Contract Account_Props Periods_Props Org_Props Scaler_Props
    Sip_Pool_Props Sip_Calls_Props Netstring_Props Baresip_Props Ivr_Props Meeting_Props Rtcstats_Props
    Homer_Props Call_Search_Props Pool_Props Event_Relay
    Console_Props Outscale_Props Reports_Props Admin_Tool Backfill_Props
begin

text \<open>
  A verification development for SIPMediaGW: the Python of a gateway between SIP endpoints and web
  conferences, of the proxy and the scalers that run a pool of gateways, and of the console that reports
  on their calls. Paths are under \<open>src/\<close>.

  \<^bold>\<open>The program.\<close> A call reaches Kamailio, which gives it a free gateway of the pool
  (\<open>deploy/kamailio/config/request_gw.py\<close>) and hides the room it dialled in the caller's name. On the
  gateway a SIP client prints events; \<open>src/netstring.py\<close> and \<open>src/event_handler.py\<close> read them,
  \<open>src/eventServer.py\<close> relays them, and the browser's side (\<open>src/ivr.py\<close>, then \<open>src/browsing.py\<close>) shows
  a menu and joins the meeting. \<open>HTTPLauncher.py\<close> starts and stops the gateway's container on each machine;
  the proxy (\<open>deploy/proxyAPI/proxy.py\<close>) keeps the registry of the gateways in Redis, starts calls on them
  and resolves pairing codes; the scalers (\<open>deploy/scaler/src\<close>) add and take machines by the hour of the
  day. What the processes print is read by \<open>src/logParse.py\<close>, kept in a history file and pushed at the end
  of a call to the console (\<open>manager\<close>), which stores it (\<open>ingest\<close>), classifies it by unit
  (\<open>api/org_units.py\<close>), searches it (\<open>api/calls.py\<close>), reports on it (\<open>api/usage.py\<close>, \<open>api/quality.py\<close>),
  links it to its trace (\<open>homer.py\<close>) and samples the pool (\<open>sampler.py\<close>), for accounts of its own.

  \<^bold>\<open>How it is modelled.\<close> A definition has the name of the function it stands for, where the name is free,
  or a name beside it; the theory it is in says which file it reads. A value of Python is \<open>pyval\<close>, a
  dictionary an association list in the order of insertion, an exception a value of \<open>exn\<close>, and a function
  that may raise has the type \<open>exn + 'a\<close>. Code that acts on the world is \<open>('w, 'a) io\<close>: it takes the world,
  may raise, and leaves the world as it was made, what came before an exception included. A table of a
  database is a list of records, a statement one step on it, with the checks, keys and triggers the
  schema declares; what PostgreSQL evaluates is written out. A process that shares state with others is a
  step relation, one step for what nothing can interrupt. A text is the bytes of its UTF-8, or its
  characters where the code never encodes it.

  \<^bold>\<open>The library.\<close>
  \<^item> \<open>Py_Base\<close> (values, strings, dictionaries, exceptions), \<open>Py_Num\<close> (numbers), \<open>Py_Date\<close> and \<open>Calendar\<close>
    (dates), \<open>Py_IO\<close> and \<open>Io_Logic\<close> (computations and the relations they keep: the locale \<open>world_order\<close>),
    \<open>Regex\<close>, \<open>Codecs\<close> (base64, UTF-8), \<open>Literals\<close> and \<open>Json\<close> (JSON and Python literals: the locales
    \<open>literal_dialect\<close> and \<open>codec\<close>, with the round trip of every value), \<open>Urls\<close>, \<open>Web\<close> (requests and answers).
  \<^item> \<open>Redis\<close> states what the proxy and the media scaler rely on of the store (\<open>redis_laws\<close>) and a store in
    memory that keeps it; \<open>Proxy_Registry\<close> is the interface the routes use (\<open>registry\<close>), a sublocale of it.

  \<^bold>\<open>The components\<close>, with the code each stands for and what is shown of it in the theory named after it.
  \<^item> Proxy: \<open>Proxy\<close>, \<open>Proxy_Routes\<close>, \<open>Proxy_Steps\<close> (\<open>proxy.py\<close>, whose coroutines interleave at each
    \<open>await\<close>). \<open>Proxy_Props\<close>: the registry stays readable over every interleaving; starts served one after
    the other differ, overlapping ones may not; the tries of a pairing code are limited; a monitoring
    cycle is the treatment of each gateway on its own.
  \<^item> Launcher: \<open>Launcher\<close> (\<open>HTTPLauncher.py\<close>), and \<open>History\<close>, the history file between its writer and its
    readers (the locale \<open>history_file\<close>).
  \<^item> A call on a gateway: \<open>Netstring\<close>, \<open>Sip_Calls\<close>, \<open>Event_Relay\<close>, \<open>Kiosk\<close>, \<open>Ivr\<close>, \<open>Meeting\<close>, \<open>Rtcstats\<close>,
    \<open>Baresip_Stats\<close> (\<open>netstring.py\<close>, \<open>event_handler.py\<close>, \<open>eventServer.py\<close>, \<open>ivr.py\<close>, \<open>browsing.py\<close>,
    \<open>rtcstatsTrace.py\<close>, \<open>baresipCmd.py\<close>). \<open>Netstring_Props\<close>, \<open>Sip_Calls_Props\<close>, \<open>Ivr_Props\<close>,
    \<open>Meeting_Props\<close>, \<open>Rtcstats_Props\<close>, \<open>Baresip_Props\<close>: events are read whole, the dialled room reaches the
    meeting, the floor follows the slides, the end of the browser hangs up, the counters shown are those
    printed.
  \<^item> Pool and scalers: \<open>Sip_Pool\<close>, \<open>Scaler\<close>, \<open>Outscale\<close> (\<open>request_gw.py\<close>, \<open>kamailioRun.py\<close>, \<open>Scaler.py\<close>,
    \<open>ScalerSIP.py\<close>, \<open>ScalerMedia.py\<close>, \<open>webService.py\<close>, \<open>outscale.py\<close>). \<open>Sip_Pool_Props\<close>, \<open>Scaler_Props\<close>,
    \<open>Outscale_Props\<close>: a gateway serves one call at a time, scaling stays in its slot, what is taken down is
    idle, and a machine given back is the one its address names.
  \<^item> From a log to the console: \<open>LogParse\<close> (\<open>logParse.py\<close>), \<open>Call_Mapping\<close>, \<open>Call_Store\<close> (\<open>ingest/mapping.py\<close>,
    \<open>ingest/router.py\<close>, \<open>db/schema.sql\<close>), \<open>Backfill\<close> (\<open>tools/backfill_calls.py\<close>). \<open>LogParse_Props\<close>,
    \<open>Ingest_Props\<close>, \<open>Push_Contract\<close>, \<open>Backfill_Props\<close>: nothing is lost while pushes are refused, a call is
    stored once and whole, and a second backfill finds nothing to do.
  \<^item> Console: \<open>Accounts\<close>, \<open>Account_Routes\<close>, \<open>Admin_Tool\<close> (\<open>users.py\<close>, \<open>auth.py\<close>, \<open>api/users.py\<close>,
    \<open>tools/user.py\<close>), \<open>Console_App\<close> (\<open>app.py\<close>, \<open>origin.py\<close>, \<open>requestid.py\<close>), \<open>Org_Units\<close>, \<open>Periods\<close>,
    \<open>Call_Search\<close>, \<open>Reports\<close>, \<open>Homer\<close>, \<open>Pool_Samples\<close> (\<open>api/org_units.py\<close>, \<open>api/periods.py\<close>,
    \<open>api/calls.py\<close>, \<open>api/usage.py\<close>, \<open>api/quality.py\<close>, \<open>homer.py\<close>, \<open>proxyapi.py\<close>, \<open>api/park.py\<close>,
    \<open>sampler.py\<close>). \<open>Account_Props\<close> carries its relations along every route by the locales \<open>console_order\<close>
    and \<open>account_order\<close>: the last administrator stays, no change goes without its line, an ended session
    stays ended; \<open>Console_Props\<close>, \<open>Org_Props\<close>, \<open>Periods_Props\<close>, \<open>Call_Search_Props\<close>, \<open>Reports_Props\<close>,
    \<open>Homer_Props\<close>, \<open>Pool_Props\<close> hold the others.

  \<^bold>\<open>Across components.\<close> \<open>Push_Contract\<close>: the document the log parser builds is the one the intake reads.
  \<open>Baresip_Props\<close>: a counter from the SIP client's answer to the console's chart. \<open>Pool_Props\<close>: the sampler's
  counts are those of the proxy's registry. \<open>Call_Search_Props\<close>: a stored call opens as it was pushed.
  \<open>Sip_Calls_Props\<close> and \<open>Ivr_Props\<close>: a room on its way from Kamailio to the menu's page. \<open>History\<close>: the log
  parser's file as the launcher reads it.

  \<^bold>\<open>Bounds.\<close> Reading a literal, splitting a text and searching a pattern take fuel that is the length of the
  text, of which each turn consumes at least a character; \<open>Json\<close> and \<open>Literals\<close> prove that it covers every
  value written. The loops of the menu and of the meeting take the number of turns as an argument: the
  theorems hold for every number, and \<open>dialogue_ends\<close> says how many turns of a clock that moves end the
  dialogue. The event loop of \<open>Netstring\<close> ends by the bytes that are left. A float is an exact rational; where
  IEEE arithmetic overflows is kept (\<open>float_limit\<close>), its rounding is not. Instants are microseconds.

  \<^bold>\<open>What is shown not to hold\<close> is stated as theorems too, next to the property it limits: starts that
  overlap collide, a record written during a push is lost, two administrators can demote each other at the
  same time, a marked gateway blocks the media scaler, a registration after the count costs a call, a chat
  message without a browser ends the event loop, an address the cloud does not know ends the machine before
  it.

  \<^bold>\<open>Not modelled.\<close> The platforms' own drivers (\<open>browsing/*.py\<close>): clicks on pages that are not in the
  repository; a meeting takes a platform as an argument. The vendored clients \<open>sdk.py\<close> of the cloud and
  \<open>filesender.py\<close> of FileSender; recording, transcription and their servers, which move media between
  processes. The reports of \<open>api/pool.py\<close> and the reading of the audit in \<open>api/audit.py\<close>, selections over
  views whose terms are the schema's. The demonstration data of \<open>tools/seed_demo.py\<close>. The connection pool of
  \<open>db.py\<close>, logging, argparse, uvicorn and the static files. The JavaScript of the pages, the shell scripts,
  the simulations and the tests. Redis, PostgreSQL's collation and time zones, Docker, Kamailio, the SIP
  client, the browser driver, scrypt and the clocks are parameters.
\<close>

end
